(* ===== verification/Prelude.thy ===== *)
theory Prelude
  imports Main "HOL-Library.AList" "HOL-Library.Sublist" "HOL-Library.Char_ord"
begin

text \<open>
  Shared vocabulary of the development: the Python string operations the backend uses, Python
  dictionaries as insertion-ordered association lists, instants in microseconds, and the generic
  lemmas on them that the component theories need.

  Strings are lists of ASCII characters (code points 0 to 127). Python's notions of white space,
  line break, letter case and digit are written out for that range.
\<close>

named_theorems inv_intros \<open>an operation keeps its component's invariant\<close>

section \<open>Instants and durations\<close>

text \<open>
  A naive UTC \<^verbatim>\<open>datetime\<close> has microsecond resolution: it is a number of microseconds, and
  \<^verbatim>\<open>timedelta(seconds=n)\<close> is \<^term>\<open>n * 1000000\<close> of them.
\<close>

type_synonym instant = int

definition seconds :: "int \<Rightarrow> int" where
  "seconds n = n * 1000000"

text \<open>\<^verbatim>\<open>int(td.total_seconds())\<close> for a duration that is not negative.\<close>

definition whole_seconds :: "int \<Rightarrow> int" where
  "whole_seconds d = d div 1000000"

lemma seconds_simps [simp]:
  "seconds 0 = 0" "seconds a \<le> seconds b \<longleftrightarrow> a \<le> b" "seconds a < seconds b \<longleftrightarrow> a < b"
  by (simp_all add: seconds_def)

lemma whole_seconds_bounds:
  "0 \<le> d \<Longrightarrow> 0 \<le> whole_seconds d" "d \<le> seconds n \<Longrightarrow> whole_seconds d \<le> n"
  by (simp_all add: whole_seconds_def seconds_def pos_imp_zdiv_nonneg_iff)

section \<open>Characters\<close>

definition py_isspace :: "char \<Rightarrow> bool" where
  "py_isspace c \<longleftrightarrow>
     c \<in> set [CHR 0x09, CHR 0x0A, CHR 0x0B, CHR 0x0C, CHR 0x0D,
            CHR 0x1C, CHR 0x1D, CHR 0x1E, CHR 0x1F, CHR '' '']"

text \<open>The characters \<^verbatim>\<open>str.splitlines\<close> breaks at; a CR LF pair counts as one break.\<close>

definition py_linebreak :: "char \<Rightarrow> bool" where
  "py_linebreak c \<longleftrightarrow>
     c \<in> set [CHR 0x0A, CHR 0x0B, CHR 0x0C, CHR 0x0D, CHR 0x1C, CHR 0x1D, CHR 0x1E]"

definition py_islower :: "char \<Rightarrow> bool" where
  "py_islower c \<longleftrightarrow> CHR ''a'' \<le> c \<and> c \<le> CHR ''z''"

definition py_isupper :: "char \<Rightarrow> bool" where
  "py_isupper c \<longleftrightarrow> CHR ''A'' \<le> c \<and> c \<le> CHR ''Z''"

definition py_isdigit :: "char \<Rightarrow> bool" where
  "py_isdigit c \<longleftrightarrow> CHR ''0'' \<le> c \<and> c \<le> CHR ''9''"

definition py_isalnum :: "char \<Rightarrow> bool" where
  "py_isalnum c \<longleftrightarrow> py_islower c \<or> py_isupper c \<or> py_isdigit c"

definition char_upper :: "char \<Rightarrow> char" where
  "char_upper c = (if py_islower c then char_of (of_char c - (32 :: nat)) else c)"

definition char_lower :: "char \<Rightarrow> char" where
  "char_lower c = (if py_isupper c then char_of (of_char c + (32 :: nat)) else c)"

text \<open>An order on characters is the order of their code points, which the simplifier computes.\<close>

lemma char_le_code: "c \<le> d \<longleftrightarrow> of_char c \<le> (of_char d :: nat)"
  by (simp add: less_eq_char_def)

lemmas char_class_defs =
  py_isspace_def py_linebreak_def py_islower_def py_isupper_def py_isdigit_def py_isalnum_def
  char_upper_def char_lower_def char_le_code

lemma char_lower_not_upper: "\<not> py_isupper (char_lower c)"
proof (cases "py_isupper c")
  case True
  then have "of_char c \<le> (90 :: nat)" "(65 :: nat) \<le> of_char c"
    by (simp_all add: py_isupper_def char_le_code)
  then have "of_char (char_lower c) = (of_char c + 32 :: nat)"
    using True by (simp add: char_lower_def of_char_of)
  with \<open>(65 :: nat) \<le> of_char c\<close> show ?thesis
    by (simp add: py_isupper_def char_le_code)
qed (simp add: char_lower_def)

lemma char_lower_idem [simp]: "char_lower (char_lower c) = char_lower c"
  using char_lower_not_upper [of c] by (simp add: char_lower_def [of "char_lower c"])

lemma char_upper_not_lower: "\<not> py_islower (char_upper c)"
proof (cases "py_islower c")
  case True
  then have b: "of_char c \<le> (122 :: nat)" "(97 :: nat) \<le> of_char c"
    by (simp_all add: py_islower_def char_le_code)
  then have "of_char (char_upper c) = (of_char c - 32 :: nat)"
    using True by (simp add: char_upper_def of_char_of)
  with b show ?thesis
    by (simp add: py_islower_def char_le_code)
qed (simp add: char_upper_def)

lemma char_upper_idem [simp]: "char_upper (char_upper c) = char_upper c"
  using char_upper_not_lower [of c] by (simp add: char_upper_def [of "char_upper c"])

section \<open>Strings\<close>

definition dquote :: char where "dquote = CHR 0x22"
definition squote :: char where "squote = CHR 0x27"

definition py_upper :: "string \<Rightarrow> string" where
  "py_upper = map char_upper"

definition py_lower :: "string \<Rightarrow> string" where
  "py_lower = map char_lower"

lemma py_upper_simps [simp]:
  "py_upper [] = []" "py_upper (c # s) = char_upper c # py_upper s"
  "py_upper (s @ t) = py_upper s @ py_upper t" "length (py_upper s) = length s"
  by (simp_all add: py_upper_def)

lemma py_lower_simps [simp]:
  "py_lower [] = []" "py_lower (c # s) = char_lower c # py_lower s"
  "py_lower (s @ t) = py_lower s @ py_lower t" "length (py_lower s) = length s"
  by (simp_all add: py_lower_def)

lemma py_lower_idem [simp]: "py_lower (py_lower s) = py_lower s"
  by (simp add: py_lower_def)

text \<open>\<^verbatim>\<open>s.lstrip(chars)\<close>, \<^verbatim>\<open>s.rstrip(chars)\<close> and \<^verbatim>\<open>s.strip(chars)\<close>, by the predicate of the
  characters dropped; \<^verbatim>\<open>s.strip()\<close> drops white space.\<close>

definition lstrip_by :: "(char \<Rightarrow> bool) \<Rightarrow> string \<Rightarrow> string" where
  "lstrip_by p s = dropWhile p s"

definition rstrip_by :: "(char \<Rightarrow> bool) \<Rightarrow> string \<Rightarrow> string" where
  "rstrip_by p s = rev (dropWhile p (rev s))"

definition strip_by :: "(char \<Rightarrow> bool) \<Rightarrow> string \<Rightarrow> string" where
  "strip_by p s = rstrip_by p (lstrip_by p s)"

definition py_strip :: "string \<Rightarrow> string" where
  "py_strip s = strip_by py_isspace s"

lemmas strip_defs = py_strip_def strip_by_def lstrip_by_def rstrip_by_def

lemma rstrip_by_Cons:
  "rstrip_by p (c # s) = (if p c \<and> rstrip_by p s = [] then [] else c # rstrip_by p s)"
  by (auto simp: rstrip_by_def dropWhile_append dropWhile_eq_Nil_conv)

lemma rstrip_by_Nil [simp]: "rstrip_by p [] = []"
  by (simp add: rstrip_by_def)

lemma rstrip_by_idem [simp]: "rstrip_by p (rstrip_by p s) = rstrip_by p s"
  by (simp add: rstrip_by_def dropWhile_idem)

lemma hd_lstrip_by: "lstrip_by p s \<noteq> [] \<Longrightarrow> \<not> p (hd (lstrip_by p s))"
  by (simp add: lstrip_by_def hd_dropWhile)

lemma last_rstrip_by: "rstrip_by p s \<noteq> [] \<Longrightarrow> \<not> p (last (rstrip_by p s))"
  by (simp add: rstrip_by_def hd_dropWhile last_rev)

lemma strip_by_cases:
  obtains "strip_by p s = []"
  | d u where "strip_by p s = d # rstrip_by p u" "\<not> p d"
proof (cases "lstrip_by p s")
  case Nil
  then show ?thesis using that(1) by (simp add: strip_by_def)
next
  case (Cons d u)
  then have "\<not> p d" using hd_lstrip_by [of p s] by simp
  then show ?thesis using that(2) [of d u] Cons by (simp add: strip_by_def rstrip_by_Cons)
qed

lemma strip_by_ends:
  "strip_by p s \<noteq> [] \<Longrightarrow> \<not> p (hd (strip_by p s)) \<and> \<not> p (last (strip_by p s))"
  by (rule strip_by_cases [of p s]) (auto dest: last_rstrip_by)

text \<open>A string with nothing to strip at its ends is left alone.\<close>

lemma strip_by_id: "s = [] \<or> \<not> p (hd s) \<and> \<not> p (last s) \<Longrightarrow> strip_by p s = s"
proof (cases "s = []")
  case False
  moreover assume "s = [] \<or> \<not> p (hd s) \<and> \<not> p (last s)"
  ultimately have "dropWhile p s = s" "dropWhile p (rev s) = rev s"
    by (simp_all add: dropWhile_eq_self_iff hd_rev)
  then show ?thesis by (simp add: strip_by_def lstrip_by_def rstrip_by_def)
qed (simp add: strip_by_def lstrip_by_def rstrip_by_def)

lemma strip_by_idem [simp]: "strip_by p (strip_by p s) = strip_by p s"
  using strip_by_ends [of p s] by (intro strip_by_id) blast

lemma py_strip_idem [simp]: "py_strip (py_strip s) = py_strip s"
  by (simp add: py_strip_def)

lemma set_strip_by: "set (strip_by p s) \<subseteq> set s"
  unfolding strip_by_def rstrip_by_def lstrip_by_def
  by (metis set_dropWhileD set_rev subsetI)

lemma length_strip_by: "length (strip_by p s) \<le> length s"
  unfolding strip_by_def rstrip_by_def lstrip_by_def
  by (metis length_dropWhile_le length_rev order_trans)

text \<open>\<^verbatim>\<open>str.splitlines\<close>: no empty last line after a final line break.\<close>

fun splitlines_from :: "bool \<Rightarrow> string \<Rightarrow> string \<Rightarrow> string list" where
  "splitlines_from after_cr cur [] = (if cur = [] then [] else [rev cur])"
| "splitlines_from after_cr cur (c # cs) =
     (if after_cr \<and> c = CHR 0x0A then splitlines_from False cur cs
      else if py_linebreak c then rev cur # splitlines_from (c = CHR 0x0D) [] cs
      else splitlines_from False (c # cur) cs)"

definition py_splitlines :: "string \<Rightarrow> string list" where
  "py_splitlines s = splitlines_from False [] s"

lemma splitlines_from_line:
  "\<forall>c\<in>set l. \<not> py_linebreak c \<Longrightarrow>
   splitlines_from False cur (l @ CHR 0x0A # s) = (rev cur @ l) # splitlines_from False [] s"
  by (induction l arbitrary: cur) (auto simp: py_linebreak_def)

definition unlines :: "string list \<Rightarrow> string" where
  "unlines ls = concat (map (\<lambda>l. l @ [CHR 0x0A]) ls)"

lemma unlines_simps [simp]:
  "unlines [] = []" "unlines (l # ls) = l @ CHR 0x0A # unlines ls"
  "unlines (ls @ ms) = unlines ls @ unlines ms"
  by (simp_all add: unlines_def)

lemma splitlines_unlines:
  "\<forall>l\<in>set ls. \<forall>c\<in>set l. \<not> py_linebreak c \<Longrightarrow> py_splitlines (unlines ls) = ls"
  unfolding py_splitlines_def
  by (induction ls) (simp_all add: splitlines_from_line)

text \<open>\<^verbatim>\<open>s.split(d)\<close> for a one-character separator; the result is never empty.\<close>

fun py_split :: "char \<Rightarrow> string \<Rightarrow> string list" where
  "py_split d [] = [[]]"
| "py_split d (c # cs) =
     (if c = d then [] # py_split d cs
      else (case py_split d cs of [] \<Rightarrow> [[c]] | w # ws \<Rightarrow> (c # w) # ws))"

fun py_join :: "string \<Rightarrow> string list \<Rightarrow> string" where
  "py_join sep [] = []"
| "py_join sep [w] = w"
| "py_join sep (w # v # ws) = w @ sep @ py_join sep (v # ws)"

lemma py_split_nonempty [simp]: "py_split d s \<noteq> []"
  by (cases s) (auto split: list.splits)

lemma py_split_plain: "d \<notin> set s \<Longrightarrow> py_split d s = [s]"
  by (induction s) auto

lemma py_split_append: "d \<notin> set s \<Longrightarrow> py_split d (s @ d # t) = s # py_split d t"
  by (induction s) auto

lemma py_split_join:
  "ws \<noteq> [] \<Longrightarrow> \<forall>w\<in>set ws. d \<notin> set w \<Longrightarrow> py_split d (py_join [d] ws) = ws"
  by (induction "[d]" ws rule: py_join.induct) (auto simp: py_split_plain py_split_append)

lemma set_py_join: "set (py_join sep ws) \<subseteq> set sep \<union> \<Union> (set ` set ws)"
  by (induction sep ws rule: py_join.induct) auto

lemma py_join_Cons: "py_join sep (w # ws) = w @ (if ws = [] then [] else sep @ py_join sep ws)"
  by (cases ws) simp_all

lemma py_join_append: "xs \<noteq> [] \<Longrightarrow> ys \<noteq> [] \<Longrightarrow> py_join sep (xs @ ys) = py_join sep xs @ sep @ py_join sep ys"
  by (induction xs) (auto simp: py_join_Cons)

lemma py_split_no_sep: "w \<in> set (py_split d s) \<Longrightarrow> d \<notin> set w"
  by (induction s arbitrary: w) (auto split: if_splits list.splits)

text \<open>\<^verbatim>\<open>s.split()\<close>: the maximal runs of characters that are not white space.\<close>

fun split_ws_from :: "string \<Rightarrow> string \<Rightarrow> string list" where
  "split_ws_from cur [] = (if cur = [] then [] else [rev cur])"
| "split_ws_from cur (c # cs) =
     (if \<not> py_isspace c then split_ws_from (c # cur) cs
      else if cur = [] then split_ws_from [] cs
      else rev cur # split_ws_from [] cs)"

definition py_split_ws :: "string \<Rightarrow> string list" where
  "py_split_ws s = split_ws_from [] s"

text \<open>
  \<^verbatim>\<open>s.partition(d)\<close> for a one-character separator, without the separator itself: the text
  before its first occurrence and the text after it (empty when it does not occur).
\<close>

definition py_partition :: "char \<Rightarrow> string \<Rightarrow> string \<times> string" where
  "py_partition d s = (takeWhile (\<lambda>c. c \<noteq> d) s, tl (dropWhile (\<lambda>c. c \<noteq> d) s))"

lemma py_partition_append: "d \<notin> set k \<Longrightarrow> py_partition d (k @ d # v) = (k, v)"
  by (induction k) (auto simp: py_partition_def)

text \<open>\<^verbatim>\<open>s.rsplit(d, 1)\<close>: the text before and after the last occurrence.\<close>

definition py_rpartition :: "char \<Rightarrow> string \<Rightarrow> string \<times> string" where
  "py_rpartition d s = (case py_partition d (rev s) of (a, b) \<Rightarrow> (rev b, rev a))"

lemma py_rpartition_append: "d \<notin> set v \<Longrightarrow> py_rpartition d (k @ d # v) = (k, v)"
  using py_partition_append [of d "rev v" "rev k"] by (simp add: py_rpartition_def)

definition py_replace :: "char \<Rightarrow> char \<Rightarrow> string \<Rightarrow> string" where
  "py_replace a b = map (\<lambda>c. if c = a then b else c)"

lemma py_replace_simps [simp]:
  "py_replace a b [] = []" "py_replace a b (s @ t) = py_replace a b s @ py_replace a b t"
  "py_replace a b (c # s) = (if c = a then b else c) # py_replace a b s"
  by (simp_all add: py_replace_def)

lemma py_replace_back: "b \<notin> set s \<Longrightarrow> py_replace b a (py_replace a b s) = s"
  by (induction s) auto

definition py_contains :: "string \<Rightarrow> string \<Rightarrow> bool" where
  "py_contains needle s \<longleftrightarrow> sublist needle s"

text \<open>\<^verbatim>\<open>s.startswith(p)\<close> and \<^verbatim>\<open>s.endswith(p)\<close>.\<close>

definition starts_with :: "string \<Rightarrow> string \<Rightarrow> bool" where
  "starts_with p s \<longleftrightarrow> take (length p) s = p"

definition ends_with :: "string \<Rightarrow> string \<Rightarrow> bool" where
  "ends_with p s \<longleftrightarrow> length p \<le> length s \<and> drop (length s - length p) s = p"

lemma starts_with_append [simp]: "starts_with p (p @ s)" "starts_with (p @ [c]) (p @ c # s)"
  by (simp_all add: starts_with_def)

lemma starts_with_iff: "starts_with p s \<longleftrightarrow> (\<exists>r. s = p @ r)"
  unfolding starts_with_def by (metis append_eq_conv_conj append_take_drop_id)

text \<open>The text after the first occurrence of a needle.\<close>

fun after_first :: "string \<Rightarrow> string \<Rightarrow> string option" where
  "after_first needle [] = (if needle = [] then Some [] else None)"
| "after_first needle (c # s) =
     (if starts_with needle (c # s) then Some (drop (length needle) (c # s))
      else after_first needle s)"

text \<open>\<^verbatim>\<open>s.split(sep)\<close> for a separator of several characters.\<close>

fun split_str_from :: "string \<Rightarrow> string \<Rightarrow> string \<Rightarrow> string list" where
  "split_str_from sep cur [] = [rev cur]"
| "split_str_from sep cur (c # cs) =
     (if prefix sep (c # cs) \<and> sep \<noteq> []
      then rev cur # split_str_from sep [] (drop (length sep - 1) cs)
      else split_str_from sep (c # cur) cs)"

text \<open>\<^verbatim>\<open>s.split(sep, 1)\<close> when the separator occurs: the text before and after its first occurrence.\<close>

fun split_first :: "string \<Rightarrow> string \<Rightarrow> (string \<times> string) option" where
  "split_first sep [] = None"
| "split_first sep (c # cs) =
     (if starts_with sep (c # cs) then Some ([], drop (length sep) (c # cs))
      else map_option (apfst (Cons c)) (split_first sep cs))"

lemma split_first_append:
  assumes "sep \<noteq> []" "hd sep \<notin> set k"
  shows "split_first sep (k @ sep @ v) = Some (k, v)"
  using assms(2)
proof (induction k)
  case Nil
  obtain c cs where "sep = c # cs" using assms(1) by (cases sep) auto
  then show ?case by (simp add: starts_with_def)
next
  case (Cons c k)
  then have "\<not> starts_with sep (c # k @ sep @ v)"
    using assms(1) by (cases sep) (auto simp: starts_with_def)
  with Cons show ?case by simp
qed

section \<open>Python dictionaries\<close>

text \<open>
  A \<^verbatim>\<open>dict\<close> keeps its keys in insertion order: assigning to a present key keeps its place, a new key
  goes to the end. That is \<^const>\<open>AList.update\<close> on association lists with distinct keys.
\<close>

type_synonym ('k, 'v) dict = "('k \<times> 'v) list"

abbreviation dict_get :: "('k, 'v) dict \<Rightarrow> 'k \<Rightarrow> 'v option" where
  "dict_get d k \<equiv> map_of d k"

abbreviation dict_set :: "'k \<Rightarrow> 'v \<Rightarrow> ('k, 'v) dict \<Rightarrow> ('k, 'v) dict" where
  "dict_set k v d \<equiv> AList.update k v d"

definition dict_get_or :: "('k, 'v) dict \<Rightarrow> 'k \<Rightarrow> 'v \<Rightarrow> 'v" where
  "dict_get_or d k v = (case dict_get d k of None \<Rightarrow> v | Some w \<Rightarrow> w)"

definition dict_setdefault :: "'k \<Rightarrow> 'v \<Rightarrow> ('k, 'v) dict \<Rightarrow> ('k, 'v) dict" where
  "dict_setdefault k v d = (case dict_get d k of None \<Rightarrow> dict_set k v d | Some _ \<Rightarrow> d)"

abbreviation dict_keys :: "('k, 'v) dict \<Rightarrow> 'k list" where
  "dict_keys d \<equiv> map fst d"

lemma dict_get_set [simp]:
  "dict_get (dict_set k v d) k' = (if k' = k then Some v else dict_get d k')"
  by (simp add: update_conv')

lemma dict_get_setdefault [simp]:
  "dict_get (dict_setdefault k v d) k' =
     (if k' = k \<and> dict_get d k = None then Some v else dict_get d k')"
  by (auto simp: dict_setdefault_def split: option.splits)

lemma set_dict_keys_set [simp]: "fst ` set (dict_set k v d) = insert k (fst ` set d)"
  by (simp add: dom_update)

text \<open>
  Grouping in one pass, as the code's accumulator loops do: each item updates the entry of its
  key, from the entry it had (if any).
\<close>

definition group_step ::
  "('a \<Rightarrow> 'k) \<Rightarrow> ('v option \<Rightarrow> 'a \<Rightarrow> 'v) \<Rightarrow> ('k, 'v) dict \<Rightarrow> 'a \<Rightarrow> ('k, 'v) dict" where
  "group_step key f d x = dict_set (key x) (f (dict_get d (key x)) x) d"

definition group_fold ::
  "('a \<Rightarrow> 'k) \<Rightarrow> ('v option \<Rightarrow> 'a \<Rightarrow> 'v) \<Rightarrow> ('k, 'v) dict \<Rightarrow> 'a list \<Rightarrow> ('k, 'v) dict" where
  "group_fold key f d xs = foldl (group_step key f) d xs"

lemma group_fold_simps [simp]:
  "group_fold key f d [] = d"
  "group_fold key f d (x # xs) = group_fold key f (group_step key f d x) xs"
  "group_fold key f d (xs @ ys) = group_fold key f (group_fold key f d xs) ys"
  by (simp_all add: group_fold_def)

text \<open>The entry of a key is the fold of the items with that key, in their order.\<close>

theorem dict_get_group_fold:
  "dict_get (group_fold key f d xs) k =
     foldl (\<lambda>a x. Some (f a x)) (dict_get d k) (filter (\<lambda>x. key x = k) xs)"
  by (induction xs arbitrary: d) (auto simp: group_step_def)

lemma set_keys_group_fold: "fst ` set (group_fold key f d xs) = fst ` set d \<union> key ` set xs"
  by (induction xs arbitrary: d) (auto simp: group_step_def)

lemma distinct_keys_group_fold:
  "distinct (dict_keys d) \<Longrightarrow> distinct (dict_keys (group_fold key f d xs))"
  by (induction xs arbitrary: d) (auto simp: group_step_def distinct_update)

lemma dict_set_fresh: "dict_get d k = None \<Longrightarrow> dict_set k v d = d @ [(k, v)]"
  by (induction d) auto

end
