(* ===== verification/Pin_Gate.thy ===== *)
theory Pin_Gate
  imports Prelude
begin

text \<open>
  The contract between a PIN verifier and the flows that guess at it, and the bound it gives. A gate
  admits an attempt or not, and records failures. Its streak at an instant is the number of failures
  that still count then. The contract: a failure lengthens the streak for as long as the window,
  and a streak that reaches the limit shuts the gate for the lock time. The bound: among admitted
  failures with no success between them, any \<open>limit + 1\<close> in a row take at least the
  shorter of the two times.
\<close>

locale pin_gate =
  fixes admits :: "'s \<Rightarrow> instant \<Rightarrow> bool"
    and fails :: "'s \<Rightarrow> instant \<Rightarrow> 's"
    and streak :: "'s \<Rightarrow> instant \<Rightarrow> int"
    and invar :: "'s \<Rightarrow> bool"
    and limit :: nat and window :: int and lock :: int
  assumes streak_nonneg: "invar s \<Longrightarrow> 0 \<le> streak s t"
    and invar_fails: "invar s \<Longrightarrow> invar (fails s t)"
    and streak_fails: "invar s \<Longrightarrow> t' \<le> t + window \<Longrightarrow> streak (fails s t) t' = streak s t + 1"
    and shut: "invar s \<Longrightarrow> int limit \<le> streak s t + 1 \<Longrightarrow> t' < t + lock \<Longrightarrow> \<not> admits (fails s t) t'"
    and limit_pos: "0 < limit"
begin

text \<open>The failures at the given instants are all admitted, one after the other.\<close>

fun admitted :: "'s \<Rightarrow> instant list \<Rightarrow> bool" where
  "admitted s [] = True"
| "admitted s (t # ts) = (admits s t \<and> admitted (fails s t) ts)"

lemma admitted_append:
  "admitted s (ts @ us) \<longleftrightarrow> admitted s ts \<and> admitted (foldl fails s ts) us"
  by (induction ts arbitrary: s) auto

lemma invar_burst: "invar s \<Longrightarrow> invar (foldl fails s ts)"
  by (induction ts arbitrary: s) (auto intro: invar_fails)

lemma streak_burst:
  assumes "invar s" "sorted (ts @ [t])" "t \<le> hd (ts @ [t]) + window"
  shows "int (length ts) \<le> streak (foldl fails s ts) t"
  using assms(2,3)
proof (induction ts arbitrary: t rule: rev_induct)
  case Nil
  show ?case using assms(1) by (simp add: streak_nonneg)
next
  case (snoc u us)
  from snoc.prems have "sorted (us @ [u])" "u \<le> t"
    by (auto simp: sorted_append)
  moreover from this snoc.prems have "u \<le> hd (us @ [u]) + window"
    by (cases us) auto
  ultimately have "int (length us) \<le> streak (foldl fails s us) u"
    using snoc.IH by blast
  moreover have "t \<le> u + window"
    using snoc.prems by (cases us) (auto simp: sorted_append)
  then have "streak (fails (foldl fails s us) u) t = streak (foldl fails s us) u + 1"
    by (rule streak_fails [OF invar_burst [OF assms(1)]])
  ultimately show ?case by simp
qed

lemma admitted_span:
  assumes inv: "invar s" and "admitted s (ts @ [t])" "sorted (ts @ [t])" "length ts = limit"
  shows "hd ts + min window lock \<le> t"
proof -
  obtain us u where ts: "ts = us @ [u]" and len: "Suc (length us) = limit"
    using assms(4) limit_pos by (cases ts rule: rev_cases) auto
  have order: "hd ts \<le> u" "u \<le> t"
    using assms(3) ts by (auto simp: sorted_append intro: order_trans) (cases us; auto)
  show ?thesis
  proof (cases "u \<le> hd ts + window")
    case True
    have hd: "hd (us @ [u]) = hd ts" using ts by simp
    have srt: "sorted (us @ [u])" using assms(3) ts by (auto simp: sorted_append)
    have "int (length us) \<le> streak (foldl fails s us) u"
      by (rule streak_burst [OF inv srt]) (use True hd in simp)
    with len have "int limit \<le> streak (foldl fails s us) u + 1" by linarith
    moreover have "admits (fails (foldl fails s us) u) t"
      using assms(2) ts by (simp add: admitted_append)
    ultimately have "\<not> t < u + lock" using shut [OF invar_burst [OF inv]] by blast
    with order show ?thesis by linarith
  next
    case False
    with order show ?thesis by linarith
  qed
qed

text \<open>The bound over a whole run of admitted failures.\<close>

lemma admitted_rate:
  assumes inv: "invar s" and "admitted s ts" "sorted ts" "i + limit < length ts"
  shows "ts ! i + min window lock \<le> ts ! (i + limit)"
proof -
  let ?p = "take i ts" and ?m = "take limit (drop i ts)" and ?t = "ts ! (i + limit)"
  have split: "ts = ?p @ ?m @ ?t # drop (Suc (i + limit)) ts"
    using assms(4) id_take_nth_drop [of "i + limit" ts]
    by (metis append_assoc take_add)
  have "admitted s (?p @ (?m @ [?t]) @ drop (Suc (i + limit)) ts)"
    using assms(2) split by simp
  then have "admitted (foldl fails s ?p) (?m @ [?t])"
    by (simp only: admitted_append)
  moreover have "sorted (?m @ [?t])"
  proof -
    have "sorted (?p @ (?m @ [?t]) @ drop (Suc (i + limit)) ts)"
      using assms(3) split by simp
    then show ?thesis unfolding sorted_append by blast
  qed
  moreover have "length ?m = limit" using assms(4) by simp
  ultimately have "hd ?m + min window lock \<le> ?t" by (rule admitted_span [OF invar_burst [OF inv]])
  moreover have "hd ?m = ts ! i"
    using assms(4) limit_pos by (simp add: hd_drop_conv_nth)
  ultimately show ?thesis by simp
qed

end

end
