(* ===== verification/Anti_Theft.thy ===== *)
theory Anti_Theft
  imports Prelude
begin

text \<open>
  The anti-theft service (\<^verbatim>\<open>backend/app/security/anti_theft.py\<close>, with the table
  \<^verbatim>\<open>AntiTheftConfigRow\<close> of \<^verbatim>\<open>backend/app/db/models.py\<close>): a cumulative PIN failure counter per
  device, and the action that fires when an armed counter reaches its threshold.

  The table maps a device slug to its row (the column is unique). What the service does to the
  world is recorded in two logs of the state: the actions fired and the commands sent to a device.
  The environment says what the rest of the system answers: whether a device can be reached, which
  remote commands raise, and the eight random digits of the overwriting PIN.
\<close>

section \<open>State\<close>

record at_row =
  autonomous_mode :: bool
  failure_threshold :: int
  at_action :: string
  notify_webhook_url :: string
  total_failures :: int
  last_action_at :: "instant option"
  last_action_kind :: string
  last_action_note :: string

record at_state =
  at_rows :: "string \<Rightarrow> at_row option"
  fired :: "(string \<times> string) list"
  remote :: "(string \<times> string) list"

record wipe_env =
  device_error :: "string \<Rightarrow> string option"
  command_fails :: "string \<Rightarrow> string \<Rightarrow> bool"
  random_pin :: string

text \<open>The column defaults of a new row; a missing row projects to the same values.\<close>

definition at_default_row :: at_row where
  "at_default_row =
     \<lparr>autonomous_mode = False, failure_threshold = 10, at_action = ''alert'',
      notify_webhook_url = [], total_failures = 0, last_action_at = None,
      last_action_kind = [], last_action_note = []\<rparr>"

definition at_project :: "at_row option \<Rightarrow> at_row" where
  "at_project r = (case r of None \<Rightarrow> at_default_row | Some row \<Rightarrow> row)"

definition at_get_or_create :: "at_state \<Rightarrow> string \<Rightarrow> at_row" where
  "at_get_or_create s slug = (case at_rows s slug of Some row \<Rightarrow> row | None \<Rightarrow> at_default_row)"

definition at_put :: "string \<Rightarrow> at_row \<Rightarrow> at_state \<Rightarrow> at_state" where
  "at_put slug row s = s\<lparr>at_rows := (at_rows s)(slug \<mapsto> row)\<rparr>"

lemma at_put_simps [simp]:
  "at_rows (at_put slug row s) = (at_rows s)(slug \<mapsto> row)"
  "fired (at_put slug row s) = fired s" "remote (at_put slug row s) = remote s"
  by (simp_all add: at_put_def)

section \<open>Configuration\<close>

definition at_snapshot :: "at_state \<Rightarrow> string \<Rightarrow> at_row" where
  "at_snapshot s slug = at_project (at_rows s slug)"

definition at_upsert :: "at_state \<Rightarrow> string \<Rightarrow> bool \<Rightarrow> int \<Rightarrow> string \<Rightarrow> string \<Rightarrow> at_state" where
  "at_upsert s slug auto threshold act url =
     (case at_rows s slug of
        None \<Rightarrow> at_put slug (at_default_row\<lparr>autonomous_mode := auto,
                   failure_threshold := threshold, at_action := act,
                   notify_webhook_url := take 256 url\<rparr>) s
      | Some row \<Rightarrow> at_put slug (row\<lparr>autonomous_mode := auto,
                   failure_threshold := threshold, at_action := act,
                   notify_webhook_url := take 256 url\<rparr>) s)"

definition at_reset_counter :: "at_state \<Rightarrow> string \<Rightarrow> at_state" where
  "at_reset_counter s slug =
     (case at_rows s slug of None \<Rightarrow> s | Some row \<Rightarrow> at_put slug (row\<lparr>total_failures := 0\<rparr>) s)"

section \<open>Actions\<close>

text \<open>
  \<^verbatim>\<open>_soft_wipe\<close>: three remote commands, each tried whether or not the ones before it raised. The
  result is the audit note and the commands sent. (Punctuation outside ASCII in the code's messages
  is written with an ASCII character of the same length.)
\<close>

definition logout_cmd :: string where
  "logout_cmd = ''tailscale logout 2>&1 || true''"

definition uci_sweep_loop :: "string \<Rightarrow> string" where
  "uci_sweep_loop config =
     ''for s in $(uci show '' @ config @ '' 2>/dev/null | awk -F. '' @ [squote] @ ''{print $1''
     @ [dquote, CHR ''.'', dquote] @ ''$2}'' @ [squote] @ '' | sort -u); do ''
     @ ''  uci delete $s 2>/dev/null; done; ''"

definition uci_sweep_cmd :: string where
  "uci_sweep_cmd =
     uci_sweep_loop ''wireguard'' @ uci_sweep_loop ''openvpn'' @ ''uci commit; echo OK''"

definition pin_override_cmd :: "string \<Rightarrow> string" where
  "pin_override_cmd pin =
     ''uci set gl_screen.generic.PASSCODE='' @ [squote, dquote] @ pin @ [dquote, squote] @ '' && ''
     @ ''uci set gl_screen.generic.ENABLE_PASSCODE='' @ [squote, CHR ''1'', squote] @ '' && ''
     @ ''uci commit gl_screen && /etc/init.d/gl_screen reload >/dev/null 2>&1; echo OK''"

definition wipe_step :: "wipe_env \<Rightarrow> string \<Rightarrow> string \<Rightarrow> string \<Rightarrow> string list" where
  "wipe_step env slug cmd label = (if command_fails env slug cmd then [] else [label])"

definition soft_wipe :: "wipe_env \<Rightarrow> string \<Rightarrow> string \<times> (string \<times> string) list" where
  "soft_wipe env slug =
     (case device_error env slug of
        Some e \<Rightarrow> (''soft_wipe aborted - device unreachable: '' @ e, [])
      | None \<Rightarrow>
          let steps = wipe_step env slug logout_cmd ''tailscale-logout''
                    @ wipe_step env slug uci_sweep_cmd ''uci-wg+ovpn-wiped''
                    @ wipe_step env slug (pin_override_cmd (random_pin env)) ''pin-randomized''
          in (''soft_wipe done . steps='' @ (if steps = [] then ''none'' else py_join '','' steps),
              [(slug, logout_cmd), (slug, uci_sweep_cmd), (slug, pin_override_cmd (random_pin env))]))"

definition execute_action ::
  "wipe_env \<Rightarrow> at_state \<Rightarrow> string \<Rightarrow> string \<Rightarrow> string \<times> at_state" where
  "execute_action env s slug kind =
     (let s1 = s\<lparr>fired := fired s @ [(slug, kind)]\<rparr>
      in if kind = ''alert'' then (''alert fired - webhook+audit only, no data touched'', s1)
         else if kind = ''soft_wipe'' then
           (case soft_wipe env slug of (note, cmds) \<Rightarrow> (note, s1\<lparr>remote := remote s1 @ cmds\<rparr>))
         else (''unknown action '' @ kind, s1))"

text \<open>\<^verbatim>\<open>test_run\<close>, the dry run: what it would do, and no state.\<close>

definition at_test_run :: "at_state \<Rightarrow> string \<Rightarrow> string" where
  "at_test_run s slug =
     (case at_rows s slug of
        None \<Rightarrow> ''Aucune politique anti-theft configuree pour ce device.''
      | Some row \<Rightarrow>
          if at_action row = ''alert'' then
            ''DRY-RUN . action=alert . log de niveau warning + audit trail. Aucune donnee touchee.''
          else if at_action row = ''soft_wipe'' then
            ''DRY-RUN . action=soft_wipe . clearerait : (1) tailscale logout, ''
            @ ''(2) UCI delete wireguard.* + openvpn.*, ''
            @ ''(3) set screen PIN a un random 8-digits inconnu. ''
            @ ''Recup possible via factory reset OpenWrt.''
          else ''action '' @ [squote] @ at_action row @ [squote] @ '' inconnue'')"

section \<open>Hooks\<close>

text \<open>
  \<^verbatim>\<open>on_pin_failure\<close>: count, and when armed and at the threshold reset the count, remember the
  action, commit, run it, then store its note in the row.
\<close>

definition on_pin_failure :: "wipe_env \<Rightarrow> instant \<Rightarrow> at_state \<Rightarrow> string \<Rightarrow> at_state" where
  "on_pin_failure env now s slug =
     (let row = at_get_or_create s slug;
          row1 = row\<lparr>total_failures := total_failures row + 1\<rparr>;
          kind = at_action row1;
          tripped = (autonomous_mode row1 \<and> failure_threshold row1 \<le> total_failures row1);
          row2 = (if tripped
                  then row1\<lparr>total_failures := 0, last_action_at := Some now,
                            last_action_kind := kind\<rparr>
                  else row1);
          s1 = at_put slug row2 s
      in if tripped then
           (case execute_action env s1 slug kind of (note, s2) \<Rightarrow>
             (case at_rows s2 slug of
                None \<Rightarrow> s2
              | Some r \<Rightarrow> at_put slug (r\<lparr>last_action_note := take 512 note\<rparr>) s2))
         else s1)"

definition on_pin_success :: "at_state \<Rightarrow> string \<Rightarrow> at_state" where
  "on_pin_success s slug =
     (case at_rows s slug of
        None \<Rightarrow> s
      | Some row \<Rightarrow>
          if total_failures row \<noteq> 0 then at_put slug (row\<lparr>total_failures := 0\<rparr>) s else s)"

section \<open>What one hook does\<close>

text \<open>The counter, threshold and arming of a device, read off its row or the defaults.\<close>

definition at_count :: "at_state \<Rightarrow> string \<Rightarrow> int" where
  "at_count s slug = total_failures (at_get_or_create s slug)"

definition at_armed :: "at_state \<Rightarrow> string \<Rightarrow> bool" where
  "at_armed s slug = autonomous_mode (at_get_or_create s slug)"

definition at_threshold :: "at_state \<Rightarrow> string \<Rightarrow> int" where
  "at_threshold s slug = failure_threshold (at_get_or_create s slug)"

definition fired_for :: "at_state \<Rightarrow> string \<Rightarrow> nat" where
  "fired_for s slug = length (filter (\<lambda>f. fst f = slug) (fired s))"

definition at_trips :: "at_state \<Rightarrow> string \<Rightarrow> bool" where
  "at_trips s slug \<longleftrightarrow> at_armed s slug \<and> at_threshold s slug \<le> at_count s slug + 1"

lemmas at_view_defs =
  at_count_def at_armed_def at_threshold_def fired_for_def at_trips_def at_get_or_create_def

lemma execute_action_rows [simp]:
  "at_rows (snd (execute_action env s slug kind)) = at_rows s"
  "fired (snd (execute_action env s slug kind)) = fired s @ [(slug, kind)]"
  by (simp_all add: execute_action_def Let_def split: prod.splits)

lemma execute_action_remote:
  "remote (snd (execute_action env s slug kind)) =
     remote s @ (if kind = ''soft_wipe'' then snd (soft_wipe env slug) else [])"
  by (simp add: execute_action_def Let_def split: prod.splits)

text \<open>
  The hook by its two outcomes: below the threshold (or disarmed) it only counts; at the threshold
  it fires the configured action once and starts a new streak.
\<close>

lemma on_pin_failure_counts:
  "\<not> at_trips s slug \<Longrightarrow>
   on_pin_failure env now s slug =
     at_put slug ((at_get_or_create s slug)\<lparr>total_failures := at_count s slug + 1\<rparr>) s"
  by (auto simp: on_pin_failure_def Let_def at_trips_def at_armed_def at_threshold_def at_count_def)

lemma on_pin_failure_fires:
  assumes "at_trips s slug"
  shows "fired (on_pin_failure env now s slug) =
           fired s @ [(slug, at_action (at_get_or_create s slug))]"
    and "at_rows (on_pin_failure env now s slug) =
           (at_rows s)(slug \<mapsto> (at_get_or_create s slug)\<lparr>total_failures := 0,
              last_action_at := Some now,
              last_action_kind := at_action (at_get_or_create s slug),
              last_action_note := take 512 (fst (execute_action env
                 (at_put slug ((at_get_or_create s slug)\<lparr>total_failures := 0,
                    last_action_at := Some now,
                    last_action_kind := at_action (at_get_or_create s slug)\<rparr>) s)
                 slug (at_action (at_get_or_create s slug))))\<rparr>)"
    and "remote (on_pin_failure env now s slug) =
           remote s @ (if at_action (at_get_or_create s slug) = ''soft_wipe''
                       then snd (soft_wipe env slug) else [])"
proof -
  let ?row = "at_get_or_create s slug"
  let ?row2 = "?row\<lparr>total_failures := 0, last_action_at := Some now, last_action_kind := at_action ?row\<rparr>"
  let ?s1 = "at_put slug ?row2 s"
  let ?x = "execute_action env ?s1 slug (at_action ?row)"
  have step: "on_pin_failure env now s slug =
      at_put slug (?row2\<lparr>last_action_note := take 512 (fst ?x)\<rparr>) (snd ?x)"
    using assms
    by (auto simp: on_pin_failure_def Let_def at_trips_def at_armed_def at_threshold_def
        at_count_def case_prod_beta)
  show "fired (on_pin_failure env now s slug) = fired s @ [(slug, at_action ?row)]"
    by (simp add: step)
  show "at_rows (on_pin_failure env now s slug) =
      (at_rows s)(slug \<mapsto> ?row2\<lparr>last_action_note := take 512 (fst ?x)\<rparr>)"
    by (simp add: step)
  show "remote (on_pin_failure env now s slug) =
      remote s @ (if at_action ?row = ''soft_wipe'' then snd (soft_wipe env slug) else [])"
    by (simp add: step execute_action_remote)
qed

lemma on_pin_failure_view:
  "at_count (on_pin_failure env now s slug) slug =
     (if at_trips s slug then 0 else at_count s slug + 1)"
  "at_armed (on_pin_failure env now s slug) slug = at_armed s slug"
  "at_threshold (on_pin_failure env now s slug) slug = at_threshold s slug"
  "fired_for (on_pin_failure env now s slug) slug =
     fired_for s slug + (if at_trips s slug then 1 else 0)"
  by (cases "at_trips s slug";
      simp add: on_pin_failure_counts on_pin_failure_fires at_count_def at_armed_def
        at_threshold_def fired_for_def at_get_or_create_def)+

text \<open>Other devices are untouched.\<close>

lemma on_pin_failure_other:
  "slug' \<noteq> slug \<Longrightarrow> at_rows (on_pin_failure env now s slug) slug' = at_rows s slug'"
  by (cases "at_trips s slug") (simp_all add: on_pin_failure_counts on_pin_failure_fires)

lemma on_pin_success_view [simp]:
  "at_count (on_pin_success s slug) slug = 0"
  "at_armed (on_pin_success s slug) slug = at_armed s slug"
  "at_threshold (on_pin_success s slug) slug = at_threshold s slug"
  "fired_for (on_pin_success s slug) slug' = fired_for s slug'"
  by (auto simp: on_pin_success_def at_view_defs at_default_row_def split: option.splits)

end
