(* ===== verification/Failure_Sink.thy ===== *)
theory Failure_Sink
  imports Anti_Theft
begin

text \<open>
  The contract between the two producers of PIN failures (the lockout service and the touchscreen
  watcher) and the anti-theft service that counts them: a reported failure of a device raises that
  device's tally by one and no other device's, and both hooks keep the sink sound. The tally is what
  the sink has accounted for since it was last cleared: the running count plus the threshold for
  every action fired.
\<close>

locale failure_sink =
  fixes on_fail :: "'t \<Rightarrow> 's \<Rightarrow> 'k \<Rightarrow> 's"
    and on_ok :: "'s \<Rightarrow> 'k \<Rightarrow> 's"
    and tally :: "'s \<Rightarrow> 'k \<Rightarrow> int"
    and sound :: "'s \<Rightarrow> 'k \<Rightarrow> bool"
  assumes tally_fail: "sound s k \<Longrightarrow> tally (on_fail t s k) k = tally s k + 1"
    and sound_fail: "sound s k \<Longrightarrow> sound (on_fail t s k) k"
    and sound_ok: "sound s k \<Longrightarrow> sound (on_ok s k) k"
    and tally_fail_other: "k' \<noteq> k \<Longrightarrow> tally (on_fail t s k) k' = tally s k'"
    and sound_fail_other: "k' \<noteq> k \<Longrightarrow> sound (on_fail t s k) k' = sound s k'"
begin

lemma sound_burst: "sound s k \<Longrightarrow> sound (foldl (\<lambda>s t. on_fail t s k) s ts) k"
  by (induction ts arbitrary: s) (auto intro: sound_fail)

lemma tally_burst:
  "sound s k \<Longrightarrow> tally (foldl (\<lambda>s t. on_fail t s k) s ts) k = tally s k + int (length ts)"
  by (induction ts arbitrary: s) (auto simp: tally_fail sound_fail)

lemma burst_other:
  "k' \<noteq> k \<Longrightarrow> tally (foldl (\<lambda>s t. on_fail t s k) s ts) k' = tally s k'"
  by (induction ts arbitrary: s) (auto simp: tally_fail_other)

end

text \<open>
  The anti-theft service provides it. Its soundness condition is that a threshold is positive and
  that an armed device's count is below it, which the hooks maintain.
\<close>

definition at_tally :: "at_state \<Rightarrow> string \<Rightarrow> int" where
  "at_tally s slug =
     at_count s slug
     + (if at_armed s slug then at_threshold s slug * int (fired_for s slug) else 0)"

definition at_sound :: "at_state \<Rightarrow> string \<Rightarrow> bool" where
  "at_sound s slug \<longleftrightarrow>
     0 < at_threshold s slug \<and> 0 \<le> at_count s slug
     \<and> (at_armed s slug \<longrightarrow> at_count s slug < at_threshold s slug)"

lemma on_pin_failure_other_view:
  assumes "slug' \<noteq> slug"
  shows "at_count (on_pin_failure env now s slug) slug' = at_count s slug'"
    "at_armed (on_pin_failure env now s slug) slug' = at_armed s slug'"
    "at_threshold (on_pin_failure env now s slug) slug' = at_threshold s slug'"
    "fired_for (on_pin_failure env now s slug) slug' = fired_for s slug'"
  using assms on_pin_failure_other [OF assms, of env now s]
  by (simp_all add: at_count_def at_armed_def at_threshold_def at_get_or_create_def fired_for_def)
    (cases "at_trips s slug"; simp add: on_pin_failure_counts on_pin_failure_fires)

lemma on_pin_success_other:
  assumes "slug' \<noteq> slug"
  shows "at_rows (on_pin_success s slug) slug' = at_rows s slug'"
    "at_tally (on_pin_success s slug) slug' = at_tally s slug'"
    "at_sound (on_pin_success s slug) slug' = at_sound s slug'"
  using assms
  by (auto simp: on_pin_success_def at_tally_def at_sound_def at_view_defs split: option.splits)

interpretation at_sink:
  failure_sink "\<lambda>t. on_pin_failure env t" on_pin_success at_tally at_sound for env
proof
  fix s k t
  assume snd: "at_sound s k"
  show "at_tally (on_pin_failure env t s k) k = at_tally s k + 1"
  proof (cases "at_trips s k")
    case True
    with snd have "at_threshold s k = at_count s k + 1" "at_armed s k"
      by (auto simp: at_sound_def at_trips_def)
    with True show ?thesis
      by (simp add: at_tally_def on_pin_failure_view algebra_simps)
  qed (simp add: at_tally_def on_pin_failure_view)
  show "at_sound (on_pin_failure env t s k) k"
    using snd by (auto simp: at_sound_def on_pin_failure_view at_trips_def)
next
  fix s k
  assume "at_sound s k"
  then show "at_sound (on_pin_success s k) k"
    by (auto simp: at_sound_def)
next
  fix s and k k' :: string and t
  assume "k' \<noteq> k"
  then show "at_tally (on_pin_failure env t s k) k' = at_tally s k'"
    and "at_sound (on_pin_failure env t s k) k' = at_sound s k'"
    by (simp_all add: at_tally_def at_sound_def on_pin_failure_other_view)
qed

text \<open>A burst of failures on one device, at the given instants.\<close>

definition at_burst :: "wipe_env \<Rightarrow> string \<Rightarrow> at_state \<Rightarrow> instant list \<Rightarrow> at_state" where
  "at_burst env slug s ts = foldl (\<lambda>s t. on_pin_failure env t s slug) s ts"

lemma at_burst_config:
  "at_armed (at_burst env slug s ts) slug = at_armed s slug"
  "at_threshold (at_burst env slug s ts) slug = at_threshold s slug"
  by (induction ts arbitrary: s) (simp_all add: at_burst_def on_pin_failure_view)

text \<open>A disarmed device never fires; an armed one fires once per full streak and keeps the rest.\<close>

lemma at_burst_disarmed:
  "\<not> at_armed s slug \<Longrightarrow>
   fired (at_burst env slug s ts) = fired s \<and> remote (at_burst env slug s ts) = remote s
   \<and> at_count (at_burst env slug s ts) slug = at_count s slug + int (length ts)"
proof (induction ts arbitrary: s)
  case (Cons t ts)
  let ?s = "on_pin_failure env t s slug"
  from Cons.prems have trip: "\<not> at_trips s slug" by (simp add: at_trips_def)
  then have "fired ?s = fired s" "remote ?s = remote s"
    by (simp_all add: on_pin_failure_counts)
  moreover have "\<not> at_armed ?s slug" "at_count ?s slug = at_count s slug + 1"
    using trip Cons.prems by (simp_all add: on_pin_failure_view)
  ultimately show ?case using Cons.IH [of ?s] by (simp add: at_burst_def)
qed (simp add: at_burst_def)

text \<open>What an armed device's tally says of its two parts.\<close>

lemma at_tally_split:
  assumes snd: "at_sound s' slug" and arm: "at_armed s slug" "at_armed s' slug"
    and thr: "at_threshold s' slug = at_threshold s slug"
    and tly: "at_tally s' slug = at_tally s slug + m"
  shows "int (fired_for s' slug) =
           int (fired_for s slug) + (at_count s slug + m) div at_threshold s slug"
    and "at_count s' slug = (at_count s slug + m) mod at_threshold s slug"
proof -
  let ?n = "at_threshold s slug" and ?c = "at_count s slug + m"
  let ?d = "int (fired_for s' slug) - int (fired_for s slug)"
  have rest: "0 < ?n" "0 \<le> at_count s' slug" "at_count s' slug < ?n"
    using snd arm thr by (auto simp: at_sound_def)
  have eq: "?c = ?d * ?n + at_count s' slug"
    using tly arm thr by (simp add: at_tally_def algebra_simps)
  have "?c div ?n = ?d" "?c mod ?n = at_count s' slug"
    using rest unfolding eq by simp_all
  then show "int (fired_for s' slug) = int (fired_for s slug) + ?c div ?n"
    and "at_count s' slug = ?c mod ?n"
    by simp_all
qed

lemma at_burst_armed:
  assumes "at_sound s slug" "at_armed s slug"
  shows "int (fired_for (at_burst env slug s ts) slug) =
           int (fired_for s slug) + (at_count s slug + int (length ts)) div at_threshold s slug"
    and "at_count (at_burst env slug s ts) slug =
           (at_count s slug + int (length ts)) mod at_threshold s slug"
  using at_tally_split [of "at_burst env slug s ts" slug s "int (length ts)"] assms
    at_sink.sound_burst [OF assms(1)] at_sink.tally_burst [OF assms(1)]
  by (simp_all add: at_burst_config at_burst_def [symmetric])

section \<open>Properties\<close>


definition sample_env :: wipe_env where
  "sample_env = \<lparr>device_error = (\<lambda>_. None), command_fails = (\<lambda>_ c. c = uci_sweep_cmd),
                 random_pin = ''12345678''\<rparr>"

definition sample_armed :: at_state where
  "sample_armed =
     at_upsert \<lparr>at_rows = Map.empty, fired = [], remote = []\<rparr> ''s7'' True 3 ''soft_wipe'' []"

lemma sample_armed_view:
  "at_sound sample_armed ''s7''" "at_armed sample_armed ''s7''"
  "at_threshold sample_armed ''s7'' = 3" "at_count sample_armed ''s7'' = 0"
  "fired_for sample_armed ''s7'' = 0"
  by (simp_all add: sample_armed_def at_upsert_def at_sound_def at_view_defs at_default_row_def)


text \<open>
  A disarmed device only counts: however many failures are reported, no action fires, no command
  reaches the device, and the count still moves.
\<close>

theorem disarmed_only_counts:
  assumes "\<not> at_armed s slug"
  shows "fired (at_burst env slug s ts) = fired s
         \<and> remote (at_burst env slug s ts) = remote s
         \<and> at_count (at_burst env slug s ts) slug = at_count s slug + int (length ts)"
  using at_burst_disarmed [OF assms] .

lemma disarmed_only_counts_witness:
  "at_count (at_burst sample_env ''s7'' \<lparr>at_rows = Map.empty, fired = [], remote = []\<rparr>
      [1, 2, 3]) ''s7'' = 3"
  using disarmed_only_counts [of "\<lparr>at_rows = Map.empty, fired = [], remote = []\<rparr>" "''s7''"
      sample_env "[1, 2, 3]"]
  by (simp add: at_view_defs at_default_row_def)

text \<open>
  The wipe is complete even when parts of it fail: firing \<open>soft_wipe\<close> on a reachable device sends
  all three commands in order whatever any of them answers, and the audit note names exactly the
  ones that did not raise.
\<close>

theorem soft_wipe_sends_everything:
  assumes "at_trips s slug" "at_action (at_get_or_create s slug) = ''soft_wipe''"
    and "device_error env slug = None"
  shows "remote (on_pin_failure env now s slug) =
           remote s @ map (Pair slug)
             [logout_cmd, uci_sweep_cmd, pin_override_cmd (random_pin env)]
         \<and> fst (soft_wipe env slug) =
             (let done = map snd (filter (\<lambda>c. \<not> command_fails env slug (fst c))
                           [(logout_cmd, ''tailscale-logout''),
                            (uci_sweep_cmd, ''uci-wg+ovpn-wiped''),
                            (pin_override_cmd (random_pin env), ''pin-randomized'')])
              in ''soft_wipe done . steps=''
                 @ (if done = [] then ''none'' else py_join '','' done))"
  using assms
  by (simp add: on_pin_failure_fires soft_wipe_def wipe_step_def Let_def)

lemma soft_wipe_sends_everything_witness:
  "length (remote (on_pin_failure sample_env 9
     (at_burst sample_env ''s7'' sample_armed [1, 2]) ''s7'')) = 3
   \<and> fst (soft_wipe sample_env ''s7'') = ''soft_wipe done . steps=tailscale-logout,pin-randomized''"
proof -
  let ?s = "at_burst sample_env ''s7'' sample_armed [1, 2]"
  have "at_trips ?s ''s7''" "at_action (at_get_or_create ?s ''s7'') = ''soft_wipe''" "remote ?s = []"
    by (simp_all add: at_burst_def sample_armed_def at_upsert_def on_pin_failure_def Let_def
        at_view_defs at_default_row_def)
  moreover have "logout_cmd \<noteq> uci_sweep_cmd" "pin_override_cmd p \<noteq> uci_sweep_cmd" for p
    by (simp_all add: logout_cmd_def uci_sweep_cmd_def uci_sweep_loop_def pin_override_cmd_def)
  ultimately show ?thesis
    using soft_wipe_sends_everything [of ?s "''s7''" sample_env 9]
    by (simp add: sample_env_def Let_def)
qed

end
