(* ===== verification/Pin_Lockout.thy ===== *)
theory Pin_Lockout
  imports Pin_Gate Failure_Sink
begin

text \<open>
  The PIN bruteforce gate (\<^verbatim>\<open>backend/app/security/pin_lockout.py\<close>, with the table
  \<^verbatim>\<open>PinLockoutStateRow\<close> of \<^verbatim>\<open>backend/app/db/models.py\<close>) and the route that walks through it
  (\<^verbatim>\<open>verify_screen_lock_pin\<close> of \<^verbatim>\<open>backend/app/api/routes/slate.py\<close>).

  The table maps the unique key (device slug, scope) to its row. The service holds the anti-theft
  service when one is attached, and forwards every recorded outcome to it. An operation takes the
  instants its clock reads return, in their order.
\<close>

section \<open>State\<close>

definition MAX_FAILURES :: int where "MAX_FAILURES = 3"
definition LOCKOUT_S :: int where "LOCKOUT_S = 60"
definition WINDOW_S :: int where "WINDOW_S = 60"

lemmas lockout_consts = MAX_FAILURES_def LOCKOUT_S_def WINDOW_S_def

record pin_row =
  failed_count :: int
  locked_until :: "instant option"
  last_attempt_at :: "instant option"

record lockout_state =
  ls_failed_count :: int
  ls_locked_until :: "instant option"
  remaining_attempts :: int
  remaining_lock_s :: int

record pin_sys =
  pin_rows :: "string \<times> string \<Rightarrow> pin_row option"
  anti_theft :: "at_state option"

datatype locked_error = Locked int string  \<comment> \<open>HTTP 423: \<open>retry_after_s\<close> and the scope\<close>

definition new_pin_row :: pin_row where
  "new_pin_row = \<lparr>failed_count = 0, locked_until = None, last_attempt_at = None\<rparr>"

section \<open>Operations\<close>

definition pl_project :: "pin_row option \<Rightarrow> instant \<Rightarrow> lockout_state" where
  "pl_project r now =
     (case r of
        None \<Rightarrow> \<lparr>ls_failed_count = 0, ls_locked_until = None,
                 remaining_attempts = MAX_FAILURES, remaining_lock_s = 0\<rparr>
      | Some row \<Rightarrow>
          \<lparr>ls_failed_count = failed_count row, ls_locked_until = locked_until row,
           remaining_attempts = max 0 (MAX_FAILURES - failed_count row),
           remaining_lock_s =
             (case locked_until row of
                Some lu \<Rightarrow> if now < lu then whole_seconds (lu - now) else 0
              | None \<Rightarrow> 0)\<rparr>)"

definition pl_snapshot :: "pin_sys \<Rightarrow> string \<Rightarrow> string \<Rightarrow> instant \<Rightarrow> lockout_state" where
  "pl_snapshot s slug scope now = pl_project (pin_rows s (slug, scope)) now"

definition check_or_raise ::
  "pin_sys \<Rightarrow> string \<Rightarrow> string \<Rightarrow> instant \<Rightarrow> locked_error + unit" where
  "check_or_raise s slug scope now =
     (case pin_rows s (slug, scope) of
        None \<Rightarrow> Inr ()
      | Some row \<Rightarrow>
          (case locked_until row of
             None \<Rightarrow> Inr ()
           | Some lu \<Rightarrow>
               if now < lu then Inl (Locked (whole_seconds (lu - now)) scope) else Inr ()))"

text \<open>The row part of \<^verbatim>\<open>record_failure\<close>: the rolling window, the count, the lock.\<close>

definition pl_fail_row :: "pin_row \<Rightarrow> instant \<Rightarrow> pin_row" where
  "pl_fail_row row now =
     (let row1 = (case last_attempt_at row of
                    Some la \<Rightarrow> if la < now - seconds WINDOW_S then row\<lparr>failed_count := 0\<rparr> else row
                  | None \<Rightarrow> row);
          row2 = row1\<lparr>failed_count := failed_count row1 + 1, last_attempt_at := Some now\<rparr>
      in if MAX_FAILURES \<le> failed_count row2
         then row2\<lparr>locked_until := Some (now + seconds LOCKOUT_S)\<rparr>
         else row2)"

definition get_or_create :: "pin_row option \<Rightarrow> pin_row" where
  "get_or_create r = (case r of Some row \<Rightarrow> row | None \<Rightarrow> new_pin_row)"

text \<open>Clock reads: the update, the projection, the hook's own.\<close>

definition record_failure ::
  "wipe_env \<Rightarrow> pin_sys \<Rightarrow> string \<Rightarrow> string \<Rightarrow> instant \<Rightarrow> instant \<Rightarrow> instant \<Rightarrow> lockout_state \<times> pin_sys"
  where
  "record_failure env s slug scope now now2 now3 =
     (let row = pl_fail_row (get_or_create (pin_rows s (slug, scope))) now;
          s1 = s\<lparr>pin_rows := (pin_rows s)((slug, scope) \<mapsto> row)\<rparr>
      in (pl_project (Some row) now2,
          s1\<lparr>anti_theft := map_option (\<lambda>a. on_pin_failure env now3 a slug) (anti_theft s1)\<rparr>))"

definition record_success ::
  "pin_sys \<Rightarrow> string \<Rightarrow> string \<Rightarrow> instant \<Rightarrow> instant \<Rightarrow> lockout_state \<times> pin_sys" where
  "record_success s slug scope now now2 =
     (case pin_rows s (slug, scope) of
        None \<Rightarrow> (pl_project None now2, s)
      | Some row \<Rightarrow>
          let row1 = row\<lparr>failed_count := 0, locked_until := None, last_attempt_at := Some now\<rparr>;
              s1 = s\<lparr>pin_rows := (pin_rows s)((slug, scope) \<mapsto> row1)\<rparr>
          in (pl_project (Some row1) now2,
              s1\<lparr>anti_theft := map_option (\<lambda>a. on_pin_success a slug) (anti_theft s1)\<rparr>))"

section \<open>The verification route\<close>

text \<open>
  \<^verbatim>\<open>verify_screen_lock_pin\<close>: check the gate, compare, record. The comparison is an SSH read of the
  device's PIN; it answers match or mismatch, or fails (HTTP 502, no try burnt). The clock does not
  go back between the gate's check and the record.
\<close>

datatype pin_answer = Match | Mismatch | Infra_Error

datatype verify_result =
  is_Verified: Verified lockout_state
| is_Rejected: Rejected lockout_state
| is_Refused: Refused locked_error
| Bad_Gateway

definition verify_route ::
  "wipe_env \<Rightarrow> pin_sys \<Rightarrow> string \<Rightarrow> string \<Rightarrow> pin_answer \<Rightarrow> instant \<Rightarrow> verify_result \<times> pin_sys" where
  "verify_route env s slug scope answer now =
     (case check_or_raise s slug scope now of
        Inl e \<Rightarrow> (Refused e, s)
      | Inr _ \<Rightarrow>
          (case answer of
             Infra_Error \<Rightarrow> (Bad_Gateway, s)
           | Match \<Rightarrow> (case record_success s slug scope now now of (v, s1) \<Rightarrow> (Verified v, s1))
           | Mismatch \<Rightarrow>
               (case record_failure env s slug scope now now now of (v, s1) \<Rightarrow> (Rejected v, s1))))"

section \<open>The gate contract holds of a row\<close>

definition row_admits :: "pin_row \<Rightarrow> instant \<Rightarrow> bool" where
  "row_admits row now \<longleftrightarrow> (case locked_until row of None \<Rightarrow> True | Some lu \<Rightarrow> lu \<le> now)"

definition row_streak :: "pin_row \<Rightarrow> instant \<Rightarrow> int" where
  "row_streak row now =
     max 0 (case last_attempt_at row of
              Some la \<Rightarrow> if la < now - seconds WINDOW_S then 0 else failed_count row
            | None \<Rightarrow> failed_count row)"

definition pin_row_ok :: "pin_row \<Rightarrow> bool" where
  "pin_row_ok row \<longleftrightarrow> 0 \<le> failed_count row"

lemma pl_fail_row_view:
  "pin_row_ok row \<Longrightarrow> failed_count (pl_fail_row row now) = row_streak row now + 1"
  "last_attempt_at (pl_fail_row row now) = Some now"
  "pin_row_ok row \<Longrightarrow> locked_until (pl_fail_row row now) =
     (if MAX_FAILURES \<le> row_streak row now + 1 then Some (now + seconds LOCKOUT_S)
      else locked_until row)"
  "pin_row_ok row \<Longrightarrow> pin_row_ok (pl_fail_row row now)"
  by (auto simp: pl_fail_row_def Let_def row_streak_def pin_row_ok_def split: option.splits)

lemma new_pin_row_ok [simp]: "pin_row_ok new_pin_row"
  by (simp add: pin_row_ok_def new_pin_row_def)

lemma check_or_raise_row:
  "check_or_raise s slug scope now = Inr () \<longleftrightarrow>
     row_admits (get_or_create (pin_rows s (slug, scope))) now"
  by (auto simp: check_or_raise_def row_admits_def get_or_create_def new_pin_row_def
      split: option.splits)

interpretation pin: pin_gate row_admits pl_fail_row row_streak pin_row_ok
  3 "seconds WINDOW_S" "seconds LOCKOUT_S"
proof
  fix s and t t' :: instant
  assume ok: "pin_row_ok s"
  show "0 \<le> row_streak s t"
    by (simp add: row_streak_def)
  show "pin_row_ok (pl_fail_row s t)"
    using ok by (rule pl_fail_row_view)
  show "row_streak (pl_fail_row s t) t' = row_streak s t + 1" if "t' \<le> t + seconds WINDOW_S"
    using that ok \<open>0 \<le> row_streak s t\<close>
    by (simp add: row_streak_def [of "pl_fail_row _ _"] pl_fail_row_view)
  show "\<not> row_admits (pl_fail_row s t) t'"
    if "int 3 \<le> row_streak s t + 1" "t' < t + seconds LOCKOUT_S"
    using that ok by (simp add: row_admits_def pl_fail_row_view lockout_consts)
qed simp

section \<open>Runs of the route\<close>

record attempt =
  a_slug :: string
  a_scope :: string
  a_answer :: pin_answer
  a_time :: instant

fun route_run ::
  "wipe_env \<Rightarrow> pin_sys \<Rightarrow> attempt list \<Rightarrow> (attempt \<times> verify_result) list \<times> pin_sys" where
  "route_run env s [] = ([], s)"
| "route_run env s (a # as) =
     (case verify_route env s (a_slug a) (a_scope a) (a_answer a) (a_time a) of (r, s1) \<Rightarrow>
       (case route_run env s1 as of (rs, s2) \<Rightarrow> ((a, r) # rs, s2)))"

definition at_key :: "attempt \<Rightarrow> string \<times> string" where
  "at_key a = (a_slug a, a_scope a)"

text \<open>The instants of the failures the run recorded for a key, in order.\<close>

definition rejections ::
  "string \<times> string \<Rightarrow> (attempt \<times> verify_result) list \<Rightarrow> instant list" where
  "rejections k tr = map (a_time \<circ> fst) (filter (\<lambda>(a, r). at_key a = k \<and> is_Rejected r) tr)"

definition verified :: "string \<times> string \<Rightarrow> (attempt \<times> verify_result) list \<Rightarrow> bool" where
  "verified k tr \<longleftrightarrow> (\<exists>(a, r) \<in> set tr. at_key a = k \<and> is_Verified r)"

definition pin_ok :: "pin_sys \<Rightarrow> bool" where
  "pin_ok s \<longleftrightarrow> (\<forall>k. pin_row_ok (get_or_create (pin_rows s k)))"

lemma pin_okD: "pin_ok s \<Longrightarrow> pin_row_ok (get_or_create (pin_rows s k))"
  unfolding pin_ok_def by blast

lemma route_run_Cons:
  "route_run env s (a # as) =
     (let v = verify_route env s (a_slug a) (a_scope a) (a_answer a) (a_time a);
          rest = route_run env (snd v) as
      in ((a, fst v) # fst rest, snd rest))"
  by (simp add: Let_def case_prod_beta)

abbreviation the_row :: "pin_sys \<Rightarrow> string \<times> string \<Rightarrow> pin_row" where
  "the_row s k \<equiv> get_or_create (pin_rows s k)"

text \<open>The outcomes of one call of the route, and what each does to the state.\<close>

lemma verify_route_cases:
  fixes s slug scope answer now
  defines "k \<equiv> (slug, scope)"
  obtains (Refused) e where "verify_route env s slug scope answer now = (Refused e, s)"
      "\<not> row_admits (the_row s k) now"
  | (Bad_Gateway) "verify_route env s slug scope answer now = (Bad_Gateway, s)"
  | (Verified) v s' where "verify_route env s slug scope answer now = (Verified v, s')"
      "answer = Match" "s' = snd (record_success s slug scope now now)"
  | (Rejected) v s' where "verify_route env s slug scope answer now = (Rejected v, s')"
      "answer = Mismatch" "row_admits (the_row s k) now"
      "s' = snd (record_failure env s slug scope now now now)"
proof (cases "check_or_raise s slug scope now")
  case (Inl e)
  moreover from this have "\<not> row_admits (the_row s k) now"
    using check_or_raise_row [of s slug scope now] by (simp add: k_def)
  ultimately show thesis using that(1) by (simp add: verify_route_def)
next
  case (Inr u)
  then have adm: "row_admits (the_row s k) now"
    using check_or_raise_row [of s slug scope now] by (simp add: k_def)
  show thesis
  proof (cases answer)
    case Match
    with Inr show thesis
      using that(3) by (cases "record_success s slug scope now now") (simp add: verify_route_def)
  next
    case Mismatch
    with Inr adm show thesis
      using that(4) by (cases "record_failure env s slug scope now now now") (simp add: verify_route_def)
  next
    case Infra_Error
    with Inr show thesis using that(2) by (simp add: verify_route_def)
  qed
qed

lemma record_failure_rows:
  "pin_rows (snd (record_failure env s slug scope now now2 now3)) =
     (pin_rows s)((slug, scope) \<mapsto> pl_fail_row (the_row s (slug, scope)) now)"
  "anti_theft (snd (record_failure env s slug scope now now2 now3)) =
     map_option (\<lambda>a. on_pin_failure env now3 a slug) (anti_theft s)"
  by (simp_all add: record_failure_def Let_def)

lemma record_success_rows:
  "k \<noteq> (slug, scope) \<Longrightarrow> pin_rows (snd (record_success s slug scope now now2)) k = pin_rows s k"
  "failed_count (the_row (snd (record_success s slug scope now now2)) (slug, scope)) = 0"
  "locked_until (the_row (snd (record_success s slug scope now now2)) (slug, scope)) = None"
  by (auto simp: record_success_def Let_def get_or_create_def new_pin_row_def split: option.splits)

lemma pin_ok_route [inv_intros]:
  assumes "pin_ok s"
  shows "pin_ok (snd (verify_route env s slug scope answer now))"
proof (cases rule: verify_route_cases [of env s slug scope answer now])
  case (Verified v s')
  have "pin_row_ok (the_row s' k)" for k
  proof (cases "k = (slug, scope)")
    case True
    then show ?thesis using Verified(3) by (simp add: record_success_rows pin_row_ok_def)
  next
    case False
    then have "pin_rows s' k = pin_rows s k"
      using Verified(3) by (simp add: record_success_rows)
    with pin_okD [OF assms, of k] show ?thesis by simp
  qed
  with Verified show ?thesis by (simp add: pin_ok_def)
next
  case (Rejected v s')
  with assms show ?thesis
    by (simp add: pin_ok_def record_failure_rows get_or_create_def [of "Some _"] pl_fail_row_view)
qed (use assms in simp_all)

text \<open>Seen from one key with no success on it, a run is a run of admitted failures of its row.\<close>

lemma route_run_admitted:
  assumes "pin_ok s" "\<not> verified k (fst (route_run env s as))"
  shows "pin.admitted (the_row s k) (rejections k (fst (route_run env s as)))"
  using assms
proof (induction as arbitrary: s)
  case (Cons a as)
  let ?v = "verify_route env s (a_slug a) (a_scope a) (a_answer a) (a_time a)"
  let ?rest = "fst (route_run env (snd ?v) as)"
  have tr: "fst (route_run env s (a # as)) = (a, fst ?v) # ?rest"
    by (simp add: route_run_Cons Let_def del: route_run.simps)
  have IH: "pin.admitted (the_row (snd ?v) k) (rejections k ?rest)"
    using Cons.IH [OF pin_ok_route [OF Cons.prems(1)]] Cons.prems(2) tr
    by (auto simp: verified_def)
  show ?case
  proof (cases rule: verify_route_cases
      [of env s "a_slug a" "a_scope a" "a_answer a" "a_time a"])
    case (Verified v s')
    then have "at_key a \<noteq> k" using Cons.prems(2) tr by (auto simp: verified_def)
    with Verified IH tr show ?thesis
      by (simp add: rejections_def at_key_def record_success_rows)
  next
    case (Rejected v s')
    with IH tr show ?thesis
      by (cases "at_key a = k")
        (auto simp: rejections_def at_key_def record_failure_rows get_or_create_def [of "Some _"])
  qed (use IH tr in \<open>auto simp: rejections_def\<close>)
qed (simp add: rejections_def)

lemma sorted_rejections:
  "sorted (map a_time as) \<Longrightarrow> sorted (rejections k (fst (route_run env s as)))"
proof -
  have "map fst (fst (route_run env s as)) = as"
    by (induction as arbitrary: s) (simp_all add: route_run_Cons Let_def del: route_run.simps(2))
  then have eq: "map (a_time \<circ> fst) (fst (route_run env s as)) = map a_time as"
    by (metis map_map)
  assume "sorted (map a_time as)"
  with eq have "sorted (map (a_time \<circ> fst) (fst (route_run env s as)))" by simp
  then show ?thesis unfolding rejections_def by (rule sorted_filter)
qed

section \<open>Properties\<close>

text \<open>
  C1. The bruteforce bound. In any run of the verification route over any devices and scopes, with
  the clock not going back, and with no successful verification of the key: among the guesses the
  gate let through to be compared and failed, any four in a row span at least sixty seconds.
\<close>

theorem guess_rate_bounded:
  assumes "pin_ok s" "sorted (map a_time as)"
    and "\<not> verified k (fst (route_run env s as))"
    and "i + 3 < length (rejections k (fst (route_run env s as)))"
  shows "rejections k (fst (route_run env s as)) ! i + seconds 60
           \<le> rejections k (fst (route_run env s as)) ! (i + 3)"
proof -
  show ?thesis
    using pin.admitted_rate [OF pin_okD [OF assms(1)] route_run_admitted [OF assms(1,3)]
        sorted_rejections [OF assms(2)] assms(4)]
    by (simp add: lockout_consts)
qed

definition fresh_pin_sys :: pin_sys where
  "fresh_pin_sys = \<lparr>pin_rows = Map.empty, anti_theft = None\<rparr>"

definition guess_at :: "int \<Rightarrow> attempt" where
  "guess_at t = \<lparr>a_slug = ''s7'', a_scope = ''controller_verify'',
                 a_answer = Mismatch, a_time = seconds t\<rparr>"

lemmas pin_eval =
  fresh_pin_sys_def guess_at_def verify_route_def route_run.simps check_or_raise_def
  record_failure_def record_success_def pl_fail_row_def pl_project_def get_or_create_def
  new_pin_row_def Let_def lockout_consts seconds_def whole_seconds_def

lemma sample_pin_run:
  "rejections (''s7'', ''controller_verify'')
     (fst (route_run env fresh_pin_sys (map guess_at [0, 1, 2, 3, 62]))) =
     [0, seconds 1, seconds 2, seconds 62]
   \<and> \<not> verified (''s7'', ''controller_verify'')
     (fst (route_run env fresh_pin_sys (map guess_at [0, 1, 2, 3, 62])))"
  by (simp add: pin_eval rejections_def verified_def at_key_def)

lemma pin_ok_fresh [simp]: "pin_ok fresh_pin_sys"
  by (simp add: pin_ok_def fresh_pin_sys_def get_or_create_def)

lemma guess_rate_bounded_witness:
  "rejections (''s7'', ''controller_verify'')
     (fst (route_run sample_env fresh_pin_sys (map guess_at [0, 1, 2, 3, 62]))) ! 0 + seconds 60
   \<le> rejections (''s7'', ''controller_verify'')
     (fst (route_run sample_env fresh_pin_sys (map guess_at [0, 1, 2, 3, 62]))) ! 3"
  using guess_rate_bounded [of fresh_pin_sys "map guess_at [0, 1, 2, 3, 62]"
      "(''s7'', ''controller_verify'')" sample_env 0] sample_pin_run [of sample_env]
  by (simp add: guess_at_def seconds_def)

text \<open>
  The state between two events: the clock has reached \<open>t\<close> and no lock runs more than sixty seconds
  past it.
\<close>

definition locks_within :: "instant \<Rightarrow> pin_sys \<Rightarrow> bool" where
  "locks_within t s \<longleftrightarrow>
     (\<forall>k lu. locked_until (the_row s k) = Some lu \<longrightarrow> lu \<le> t + seconds LOCKOUT_S)"

lemma locks_within_mono: "locks_within t s \<Longrightarrow> t \<le> t' \<Longrightarrow> locks_within t' s"
  by (fastforce simp: locks_within_def)

lemma locks_within_route [inv_intros]:
  assumes "pin_ok s" "locks_within now s"
  shows "locks_within now (snd (verify_route env s slug scope answer now))"
proof (cases rule: verify_route_cases [of env s slug scope answer now])
  case (Verified v s')
  have "locked_until (the_row s' k) = (if k = (slug, scope) then None else locked_until (the_row s k))"
    for k using Verified(3) by (cases "k = (slug, scope)") (simp_all add: record_success_rows)
  with Verified assms(2) show ?thesis by (auto simp: locks_within_def)
next
  case (Rejected v s')
  have "locked_until (the_row s' k) =
      (if k = (slug, scope) \<and> MAX_FAILURES \<le> row_streak (the_row s k) now + 1
       then Some (now + seconds LOCKOUT_S) else locked_until (the_row s k))" for k
    using Rejected(4) pin_okD [OF assms(1), of k]
    by (auto simp: record_failure_rows get_or_create_def [of "Some _"] pl_fail_row_view)
  with Rejected assms(2) show ?thesis by (auto simp: locks_within_def split: if_splits)
qed (use assms in simp_all)

lemma refusal_within:
  assumes "locks_within now s"
    and "fst (verify_route env s slug scope answer now) = Refused (Locked r sc)"
  shows "sc = scope \<and> 0 \<le> r \<and> r \<le> LOCKOUT_S"
proof -
  obtain row lu where row: "pin_rows s (slug, scope) = Some row" "locked_until row = Some lu"
    and lt: "now < lu" and r: "r = whole_seconds (lu - now)" "sc = scope"
    using assms(2)
    by (auto simp: verify_route_def check_or_raise_def case_prod_beta
        split: sum.splits option.splits if_splits pin_answer.splits)
  have "lu \<le> now + seconds LOCKOUT_S"
    using assms(1) row unfolding locks_within_def
    by (metis get_or_create_def option.simps(5))
  with lt r show ?thesis
    using whole_seconds_bounds [of "lu - now"] by simp
qed

lemma route_run_refusals:
  assumes "pin_ok s" "locks_within t s" "sorted (t # map a_time as)"
    and "(a, Refused (Locked r sc)) \<in> set (fst (route_run env s as))"
  shows "sc = a_scope a \<and> 0 \<le> r \<and> r \<le> LOCKOUT_S"
  using assms
proof (induction as arbitrary: s t)
  case (Cons b as)
  let ?v = "verify_route env s (a_slug b) (a_scope b) (a_answer b) (a_time b)"
  have lw: "locks_within (a_time b) s"
    using Cons.prems(2,3) by (auto intro: locks_within_mono)
  have mem: "(a, Refused (Locked r sc)) = (b, fst ?v)
      \<or> (a, Refused (Locked r sc)) \<in> set (fst (route_run env (snd ?v) as))"
    using Cons.prems(4) by (simp add: route_run_Cons Let_def del: route_run.simps)
  then show ?case
  proof
    assume "(a, Refused (Locked r sc)) = (b, fst ?v)"
    then show ?thesis
      using refusal_within [OF lw, of env "a_slug b" "a_scope b" "a_answer b" r sc] by simp
  next
    assume "(a, Refused (Locked r sc)) \<in> set (fst (route_run env (snd ?v) as))"
    then show ?thesis
      using Cons.IH [OF pin_ok_route [OF Cons.prems(1)]
          locks_within_route [OF Cons.prems(1) lw]] Cons.prems(3) by simp
  qed
qed simp

text \<open>
  A refusal is honest: in any run from a state whose locks are at most sixty seconds long,
  HTTP 423 carries the scope that was asked for and a \<open>retry_after_s\<close> between 0 and 60.
\<close>

theorem refusal_retry_after_bounds:
  assumes "pin_ok s" "locks_within t s" "sorted (t # map a_time as)"
    and "(a, Refused (Locked r sc)) \<in> set (fst (route_run env s as))"
  shows "sc = a_scope a \<and> 0 \<le> r \<and> r \<le> 60"
  using route_run_refusals [OF assms] by (simp add: lockout_consts)

lemma refusal_retry_after_bounds_witness:
  "(guess_at 3, Refused (Locked 59 ''controller_verify''))
     \<in> set (fst (route_run sample_env fresh_pin_sys (map guess_at [0, 1, 2, 3])))
   \<and> (59 :: int) \<le> 60"
proof -
  have "(guess_at 3, Refused (Locked 59 ''controller_verify''))
     \<in> set (fst (route_run sample_env fresh_pin_sys (map guess_at [0, 1, 2, 3])))"
    by (simp add: pin_eval)
  moreover have "locks_within 0 fresh_pin_sys"
    by (simp add: locks_within_def fresh_pin_sys_def get_or_create_def new_pin_row_def)
  ultimately show ?thesis
    using refusal_retry_after_bounds [of fresh_pin_sys 0 "map guess_at [0, 1, 2, 3]"
        "guess_at 3" 59 "''controller_verify''" sample_env]
    by (simp add: guess_at_def seconds_def)
qed

section \<open>What the anti-theft service is told\<close>

definition rejected_for :: "string \<Rightarrow> (attempt \<times> verify_result) list \<Rightarrow> nat" where
  "rejected_for slug tr = length (filter (\<lambda>(a, r). a_slug a = slug \<and> is_Rejected r) tr)"

definition verified_for :: "string \<Rightarrow> (attempt \<times> verify_result) list \<Rightarrow> bool" where
  "verified_for slug tr \<longleftrightarrow> (\<exists>(a, r) \<in> set tr. a_slug a = slug \<and> is_Verified r)"

lemma record_success_sink:
  "anti_theft s = Some a \<Longrightarrow> slug' \<noteq> slug \<Longrightarrow>
   \<exists>a'. anti_theft (snd (record_success s slug scope now now2)) = Some a'
      \<and> at_tally a' slug' = at_tally a slug' \<and> at_sound a' slug' = at_sound a slug'
      \<and> at_rows a' slug' = at_rows a slug'"
  by (cases "pin_rows s (slug, scope)")
    (auto simp: record_success_def Let_def on_pin_success_other)

lemma route_run_sink:
  assumes "anti_theft s = Some a" "at_sound a slug"
    and "\<not> verified_for slug (fst (route_run env s as))"
  shows "\<exists>a'. anti_theft (snd (route_run env s as)) = Some a' \<and> at_sound a' slug
           \<and> at_armed a' slug = at_armed a slug \<and> at_threshold a' slug = at_threshold a slug
           \<and> at_tally a' slug =
               at_tally a slug + int (rejected_for slug (fst (route_run env s as)))"
  using assms
proof (induction as arbitrary: s a)
  case (Cons b as)
  let ?v = "verify_route env s (a_slug b) (a_scope b) (a_answer b) (a_time b)"
  let ?s = "snd ?v" and ?rest = "fst (route_run env (snd ?v) as)"
  have run: "fst (route_run env s (b # as)) = (b, fst ?v) # ?rest"
      "snd (route_run env s (b # as)) = snd (route_run env ?s as)"
    by (simp_all add: route_run_Cons Let_def del: route_run.simps)
  have nv: "\<not> verified_for slug ?rest" "a_slug b = slug \<Longrightarrow> \<not> is_Verified (fst ?v)"
    using Cons.prems(3) run by (auto simp: verified_for_def)
  have "\<exists>a'. anti_theft ?s = Some a' \<and> at_sound a' slug \<and> at_armed a' slug = at_armed a slug
          \<and> at_threshold a' slug = at_threshold a slug
          \<and> at_tally a' slug = at_tally a slug
              + (if a_slug b = slug \<and> is_Rejected (fst ?v) then 1 else 0)"
  proof (cases rule: verify_route_cases
      [of env s "a_slug b" "a_scope b" "a_answer b" "a_time b"])
    case (Verified v s')
    with nv(2) have "slug \<noteq> a_slug b" by auto
    from record_success_sink [OF Cons.prems(1) this, of "a_scope b" "a_time b" "a_time b"]
    show ?thesis using Verified Cons.prems(2)
      by (auto simp: at_armed_def at_threshold_def at_get_or_create_def)
  next
    case (Rejected v s')
    have s': "anti_theft s' = Some (on_pin_failure env (a_time b) a (a_slug b))"
      using Rejected(4) Cons.prems(1) by (simp add: record_failure_rows)
    show ?thesis
    proof (cases "a_slug b = slug")
      case True
      with s' Rejected Cons.prems(2) show ?thesis
        by (simp add: at_sink.tally_fail at_sink.sound_fail on_pin_failure_view)
    next
      case False
      with s' Rejected Cons.prems(2) show ?thesis
        by (simp add: at_sink.tally_fail_other at_sink.sound_fail_other on_pin_failure_other_view)
    qed
  qed (use Cons.prems in simp_all)
  then obtain a' where "anti_theft ?s = Some a'" "at_sound a' slug"
    "at_armed a' slug = at_armed a slug" "at_threshold a' slug = at_threshold a slug"
    "at_tally a' slug = at_tally a slug + (if a_slug b = slug \<and> is_Rejected (fst ?v) then 1 else 0)"
    by blast
  with Cons.IH [OF this(1,2) nv(1)] run show ?case
    by (auto simp: rejected_for_def)
qed (simp add: rejected_for_def)

text \<open>
  C4. Escalation is exact across the two services: with the anti-theft service attached and armed
  on a device, any run of the route with no successful verification of that device fires the action
  once for every \<open>threshold\<close> failures the gate let through, whichever scopes they were on and
  whatever happens to other devices in between; refused attempts never count.
\<close>

theorem lockout_escalates_exactly:
  assumes "anti_theft s = Some a" "at_sound a slug" "at_armed a slug"
    and "\<not> verified_for slug (fst (route_run env s as))"
  shows "\<exists>a'. anti_theft (snd (route_run env s as)) = Some a'
           \<and> int (fired_for a' slug) = int (fired_for a slug)
               + (at_count a slug + int (rejected_for slug (fst (route_run env s as))))
                   div at_threshold a slug"
proof -
  obtain a' where "anti_theft (snd (route_run env s as)) = Some a'" "at_sound a' slug"
    "at_armed a' slug" "at_threshold a' slug = at_threshold a slug"
    "at_tally a' slug = at_tally a slug + int (rejected_for slug (fst (route_run env s as)))"
    using route_run_sink [OF assms(1,2,4)] assms(3) by auto
  with at_tally_split(1) [OF this(2) assms(3) this(3,4,5)] show ?thesis by blast
qed

lemma lockout_escalates_exactly_witness:
  "\<exists>a'. anti_theft (snd (route_run sample_env
          (fresh_pin_sys\<lparr>anti_theft := Some sample_armed\<rparr>) (map guess_at [0, 1, 2, 3, 62]))) = Some a'
        \<and> int (fired_for a' ''s7'') = 1"
proof -
  let ?s = "fresh_pin_sys\<lparr>anti_theft := Some sample_armed\<rparr>"
  let ?tr = "fst (route_run sample_env ?s (map guess_at [0, 1, 2, 3, 62]))"
  have "rejected_for ''s7'' ?tr = 4 \<and> \<not> verified_for ''s7'' ?tr"
    by (simp add: pin_eval rejected_for_def verified_for_def)
  then show ?thesis
    using lockout_escalates_exactly [of ?s sample_armed "''s7''" sample_env
        "map guess_at [0, 1, 2, 3, 62]"]
    by (simp add: sample_armed_view)
qed

end
