(* ===== verification/Pin_Race.thy ===== *)
theory Pin_Race
  imports Pin_Lockout
begin

text \<open>
  Concurrent requests at the PIN gate. \<^verbatim>\<open>verify_screen_lock_pin\<close> checks the gate, awaits the SSH
  comparison, and only then records the failure, so other requests run between its check and its
  record. The step relation interleaves those steps for at most \<open>c\<close> requests in flight, all with a
  wrong PIN for one device and scope.
\<close>

record race =
  r_sys :: pin_sys
  r_flight :: nat     \<comment> \<open>requests past the gate whose comparison is awaited\<close>
  r_rejected :: nat   \<comment> \<open>guesses compared and recorded as failures\<close>

definition race_row :: "string \<Rightarrow> string \<Rightarrow> race \<Rightarrow> pin_row" where
  "race_row slug scope r = get_or_create (pin_rows (r_sys r) (slug, scope))"

inductive race_step ::
  "wipe_env \<Rightarrow> nat \<Rightarrow> string \<Rightarrow> string \<Rightarrow> instant \<Rightarrow> race \<Rightarrow> race \<Rightarrow> bool"
  for env :: wipe_env and c :: nat and slug scope :: string and now :: instant
where
  gate_passes:
    "check_or_raise (r_sys r) slug scope now = Inr () \<Longrightarrow> r_flight r < c \<Longrightarrow>
     race_step env c slug scope now r (r\<lparr>r_flight := Suc (r_flight r)\<rparr>)"
| gate_refuses:
    "check_or_raise (r_sys r) slug scope now = Inl e \<Longrightarrow> race_step env c slug scope now r r"
| infra_fails:
    "0 < r_flight r \<Longrightarrow> race_step env c slug scope now r (r\<lparr>r_flight := r_flight r - 1\<rparr>)"
| wrong_pin_recorded:
    "0 < r_flight r \<Longrightarrow>
     race_step env c slug scope now r
       (r\<lparr>r_sys := snd (record_failure env (r_sys r) slug scope now now2 now3),
          r_flight := r_flight r - 1, r_rejected := Suc (r_rejected r)\<rparr>)"

inductive_cases race_stepE: "race_step env c slug scope now r r'"

text \<open>Any number of steps, each at an instant of the lock's length from \<open>t0\<close> on.\<close>

inductive race_reach ::
  "wipe_env \<Rightarrow> nat \<Rightarrow> string \<Rightarrow> string \<Rightarrow> instant \<Rightarrow> race \<Rightarrow> race \<Rightarrow> bool"
  for env :: wipe_env and c :: nat and slug scope :: string and t0 :: instant and r0 :: race
where
  reach_start: "race_reach env c slug scope t0 r0 r0"
| reach_step:
    "race_reach env c slug scope t0 r0 r \<Longrightarrow> t0 \<le> now \<Longrightarrow> now < t0 + seconds LOCKOUT_S \<Longrightarrow>
     race_step env c slug scope now r r' \<Longrightarrow> race_reach env c slug scope t0 r0 r'"

definition race_start :: "pin_sys \<Rightarrow> race" where
  "race_start s = \<lparr>r_sys = s, r_flight = 0, r_rejected = 0\<rparr>"

section \<open>The invariant of a burst\<close>

definition race_inv :: "nat \<Rightarrow> string \<Rightarrow> string \<Rightarrow> instant \<Rightarrow> race \<Rightarrow> bool" where
  "race_inv c slug scope t0 r \<longleftrightarrow>
     (let row = race_row slug scope r in
        pin_row_ok row
        \<and> (0 < r_rejected r \<longrightarrow> int (r_rejected r) \<le> failed_count row
             \<and> (case last_attempt_at row of None \<Rightarrow> False | Some la \<Rightarrow> t0 \<le> la))
        \<and> (if r_rejected r < 3 then r_flight r \<le> c
           else r_rejected r + r_flight r \<le> c + 2
             \<and> (case locked_until row of None \<Rightarrow> False | Some lu \<Rightarrow> t0 + seconds LOCKOUT_S \<le> lu)))"

lemma lock_ahead [simp]: "0 < seconds LOCKOUT_S"
  by (simp add: lockout_consts seconds_def)

lemma race_row_simps [simp]:
  "race_row slug scope (r\<lparr>r_flight := n\<rparr>) = race_row slug scope r"
  "race_row slug scope (r\<lparr>r_rejected := n\<rparr>) = race_row slug scope r"
  "race_row slug scope
     (r\<lparr>r_sys := snd (record_failure env (r_sys r) slug scope now now2 now3)\<rparr>) =
   pl_fail_row (race_row slug scope r) now"
  by (simp_all add: race_row_def record_failure_def Let_def get_or_create_def)

lemma race_inv_passes:
  assumes "race_inv c slug scope t0 r" "now < t0 + seconds LOCKOUT_S"
    and "check_or_raise (r_sys r) slug scope now = Inr ()" "r_flight r < c"
  shows "race_inv c slug scope t0 (r\<lparr>r_flight := Suc (r_flight r)\<rparr>)"
  using assms
  by (auto simp: race_inv_def Let_def check_or_raise_row row_admits_def
      race_row_def [symmetric] split: option.splits)

lemma race_inv_infra:
  "race_inv c slug scope t0 r \<Longrightarrow> race_inv c slug scope t0 (r\<lparr>r_flight := r_flight r - 1\<rparr>)"
  by (auto simp: race_inv_def Let_def)

lemma race_inv_recorded:
  assumes "race_inv c slug scope t0 r" "t0 \<le> now" "now < t0 + seconds LOCKOUT_S" "0 < r_flight r"
  shows "race_inv c slug scope t0
           (r\<lparr>r_sys := snd (record_failure env (r_sys r) slug scope now now2 now3),
              r_flight := r_flight r - 1, r_rejected := Suc (r_rejected r)\<rparr>)"
proof -
  let ?row = "race_row slug scope r"
  have ok: "pin_row_ok ?row" using assms(1) by (simp add: race_inv_def Let_def)
  have "int (r_rejected r) \<le> row_streak ?row now"
    using assms by (auto simp: race_inv_def Let_def row_streak_def lockout_consts split: option.splits)
  then have "int (Suc (r_rejected r)) \<le> failed_count (pl_fail_row ?row now)"
    "3 \<le> Suc (r_rejected r) \<Longrightarrow>
       locked_until (pl_fail_row ?row now) = Some (now + seconds LOCKOUT_S)"
    using ok by (simp_all add: pl_fail_row_view MAX_FAILURES_def)
  moreover have "r_rejected r < 3 \<Longrightarrow> r_flight r \<le> c" "2 \<le> r_rejected r \<Longrightarrow> r_rejected r + r_flight r \<le> c + 2"
    using assms(1) by (auto simp: race_inv_def Let_def split: if_splits)
  ultimately show ?thesis
    using ok assms(2,4) by (auto simp: race_inv_def Let_def pl_fail_row_view)
qed

lemma race_inv_step:
  assumes "race_step env c slug scope now r r'" "race_inv c slug scope t0 r"
    and "t0 \<le> now" "now < t0 + seconds LOCKOUT_S"
  shows "race_inv c slug scope t0 r'"
  using assms
  by (cases rule: race_step.cases)
    (simp_all add: race_inv_passes race_inv_infra race_inv_recorded del: One_nat_def)

lemma race_inv_reach:
  "race_reach env c slug scope t0 r0 r \<Longrightarrow> race_inv c slug scope t0 r0 \<Longrightarrow> race_inv c slug scope t0 r"
  by (induction rule: race_reach.induct) (blast intro: race_inv_step)+

lemma race_inv_start: "pin_ok s \<Longrightarrow> race_inv c slug scope t0 (race_start s)"
  by (simp add: race_inv_def race_start_def race_row_def pin_ok_def Let_def get_or_create_def
      split: option.splits)

section \<open>A run that reaches the bound\<close>

text \<open>The requests that check before any of them records all pass.\<close>

lemma reach_all_pass:
  assumes "check_or_raise (r_sys r) slug scope t0 = Inr ()" "r_flight r + n \<le> c"
    and "race_reach env c slug scope t0 r0 r"
  shows "race_reach env c slug scope t0 r0 (r\<lparr>r_flight := r_flight r + n\<rparr>)"
  using assms(2)
proof (induction n)
  case (Suc n)
  let ?r = "r\<lparr>r_flight := r_flight r + n\<rparr>"
  have "race_step env c slug scope t0 ?r (?r\<lparr>r_flight := Suc (r_flight ?r)\<rparr>)"
    using assms(1) Suc.prems by (intro gate_passes) simp_all
  from reach_step [OF Suc.IH _ _ this] Suc.prems show ?case by simp
qed (simp add: assms(3))

lemma reach_all_record:
  assumes "race_reach env c slug scope t0 r0 r"
  shows "r_flight r = n \<Longrightarrow>
    \<exists>r'. race_reach env c slug scope t0 r0 r' \<and> r_rejected r' = r_rejected r + n \<and> r_flight r' = 0"
  using assms
proof (induction n arbitrary: r)
  case (Suc n)
  let ?r = "r\<lparr>r_sys := snd (record_failure env (r_sys r) slug scope t0 t0 t0),
               r_flight := r_flight r - 1, r_rejected := Suc (r_rejected r)\<rparr>"
  have "race_step env c slug scope t0 r ?r"
    using Suc.prems(1) by (intro wrong_pin_recorded) simp
  from reach_step [OF Suc.prems(2) _ _ this] have "race_reach env c slug scope t0 r0 ?r"
    by (simp del: One_nat_def)
  from Suc.IH [OF _ this] Suc.prems(1) show ?case by simp
qed auto

lemma reach_one_guess:
  assumes "race_reach env c slug scope t0 r0 r" "r_flight r = 0" "0 < c"
    and "check_or_raise (r_sys r) slug scope t0 = Inr ()"
  shows "race_reach env c slug scope t0 r0
           (r\<lparr>r_sys := snd (record_failure env (r_sys r) slug scope t0 t0 t0),
              r_flight := 0, r_rejected := Suc (r_rejected r)\<rparr>)"
proof -
  let ?r = "r\<lparr>r_flight := 1\<rparr>"
  have "race_reach env c slug scope t0 r0 ?r"
    using reach_all_pass [OF assms(4) _ assms(1), of 1] assms(2,3) by simp
  moreover have "race_step env c slug scope t0 ?r
      (?r\<lparr>r_sys := snd (record_failure env (r_sys ?r) slug scope t0 t0 t0),
          r_flight := r_flight ?r - 1, r_rejected := Suc (r_rejected ?r)\<rparr>)"
    by (intro wrong_pin_recorded) simp
  ultimately show ?thesis
    using assms(2) reach_step [of env c slug scope t0 r0 ?r t0] by simp
qed

lemma fresh_row_admits:
  "pin_rows s (slug, scope) = None \<Longrightarrow> k \<le> 2 \<Longrightarrow>
   row_admits (((\<lambda>row. pl_fail_row row t0) ^^ k) (get_or_create (pin_rows s (slug, scope)))) t0"
proof -
  assume none: "pin_rows s (slug, scope) = None" and "k \<le> 2"
  then consider "k = 0" | "k = 1" | "k = 2" by linarith
  then show ?thesis
    using none by cases (simp_all add: get_or_create_def new_pin_row_def row_admits_def
      pl_fail_row_def Let_def lockout_consts numeral_2_eq_2)
qed

section \<open>Properties\<close>


text \<open>
  C3. The bound is reached: against a device with no failure on record, \<open>c\<close> concurrent requests get
  \<open>c + 2\<close> wrong PINs compared at a single instant, where the gate is meant to admit three: two guesses
  one after the other, then \<open>c\<close> requests that all pass the check before any of them records.
\<close>

theorem race_defeats_the_limit:
  assumes "pin_rows s (slug, scope) = None" "1 \<le> c"
  shows "\<exists>r. race_reach env c slug scope t0 (race_start s) r \<and> r_rejected r = c + 2"
proof -
  let ?reach = "race_reach env c slug scope t0 (race_start s)"
  have two: "\<exists>r. ?reach r \<and> r_flight r = 0 \<and> r_rejected r = k
      \<and> race_row slug scope r =
          ((\<lambda>row. pl_fail_row row t0) ^^ k) (get_or_create (pin_rows s (slug, scope)))"
    if "k \<le> 2" for k
    using that
  proof (induction k)
    case 0
    then show ?case
      using reach_start [of env c slug scope t0 "race_start s"]
      by (intro exI [of _ "race_start s"]) (simp add: race_start_def race_row_def)
  next
    case (Suc k)
    then obtain r where r: "?reach r" "r_flight r = 0" "r_rejected r = k"
      "race_row slug scope r =
         ((\<lambda>row. pl_fail_row row t0) ^^ k) (get_or_create (pin_rows s (slug, scope)))" by auto
    then have "check_or_raise (r_sys r) slug scope t0 = Inr ()"
      using fresh_row_admits [OF assms(1), of k t0] Suc.prems
      by (simp add: check_or_raise_row race_row_def)
    from reach_one_guess [OF r(1,2) _ this] assms(2) r show ?case
      by (intro exI [of _ "r\<lparr>r_sys := snd (record_failure env (r_sys r) slug scope t0 t0 t0),
              r_flight := 0, r_rejected := Suc (r_rejected r)\<rparr>"]) simp
  qed
  then obtain r where r: "?reach r" "r_flight r = 0" "r_rejected r = 2"
    "row_admits (race_row slug scope r) t0"
    using fresh_row_admits [OF assms(1), of 2 t0] by fastforce
  then have "?reach (r\<lparr>r_flight := 0 + c\<rparr>)"
    using reach_all_pass [of r slug scope t0 c c env "race_start s"]
    by (simp add: check_or_raise_row race_row_def)
  from reach_all_record [OF this, of c] r(3) show ?thesis by auto
qed

lemma race_defeats_the_limit_witness:
  "\<exists>r. race_reach sample_env 50 ''s7'' ''controller_verify'' 0 (race_start fresh_pin_sys) r \<and> r_rejected r = 52"
  using race_defeats_the_limit [of fresh_pin_sys "''s7''" "''controller_verify''" 50 sample_env 0]
  by (simp add: fresh_pin_sys_def)


end
