(* ===== verification/Py_Int.thy ===== *)
theory Py_Int
  imports Prelude
begin

text \<open>
  Python's \<^verbatim>\<open>int(s)\<close> on a string and \<^verbatim>\<open>str(n)\<close> on an integer, which the parsers of the backend use:
  surrounding white space is dropped, a sign is optional, single underscores may separate digits,
  anything else is a \<^verbatim>\<open>ValueError\<close> (\<^const>\<open>None\<close>), and so is a literal of more than 4300 digits.
\<close>

definition digit_val :: "char \<Rightarrow> int" where
  "digit_val c = int (of_char c) - 48"

definition digit_char :: "nat \<Rightarrow> char" where
  "digit_char n = char_of (48 + n)"

fun int_digits :: "int \<Rightarrow> bool \<Rightarrow> string \<Rightarrow> int option" where
  "int_digits acc after_digit [] = (if after_digit then Some acc else None)"
| "int_digits acc after_digit (c # cs) =
     (if py_isdigit c then int_digits (10 * acc + digit_val c) True cs
      else if c = CHR ''_'' \<and> after_digit then int_digits acc False cs
      else None)"

definition MAX_STR_DIGITS :: nat where "MAX_STR_DIGITS = 4300"

definition py_int :: "string \<Rightarrow> int option" where
  "py_int s =
     (let t = py_strip s
      in if MAX_STR_DIGITS < length (filter py_isdigit t) then None
         else case t of
           [] \<Rightarrow> None
         | c # cs \<Rightarrow>
             if c = CHR ''-'' then map_option uminus (int_digits 0 False cs)
             else if c = CHR ''+'' then int_digits 0 False cs
             else int_digits 0 False t)"

fun nat_digits :: "nat \<Rightarrow> string" where
  "nat_digits n = (if n < 10 then [digit_char n] else nat_digits (n div 10) @ [digit_char (n mod 10)])"

declare nat_digits.simps [simp del]

definition py_str :: "int \<Rightarrow> string" where
  "py_str n = (if n < 0 then CHR ''-'' # nat_digits (nat (- n)) else nat_digits (nat n))"

section \<open>Round trip\<close>

lemma digit_char_props [simp]:
  assumes "n < 10"
  shows "digit_val (digit_char n) = int n" "py_isdigit (digit_char n)"
proof -
  have "of_char (digit_char n) = 48 + n" using assms by (simp add: digit_char_def of_char_of)
  then show "digit_val (digit_char n) = int n" "py_isdigit (digit_char n)"
    using assms by (simp_all add: digit_val_def py_isdigit_def char_le_code)
qed

lemma py_isdigit_not_space: "py_isdigit c \<Longrightarrow> \<not> py_isspace c"
  by (auto simp: py_isdigit_def py_isspace_def char_le_code)

lemma nat_digits_nonempty [simp]: "nat_digits n \<noteq> []"
  by (subst nat_digits.simps) simp

lemma nat_digits_digits: "\<forall>c \<in> set (nat_digits n). py_isdigit c"
proof (induction n rule: nat_digits.induct)
  case (1 n)
  then show ?case by (cases "n < 10") (simp_all add: nat_digits.simps [of n])
qed

lemma int_digits_append:
  "\<forall>c \<in> set ds. py_isdigit c \<Longrightarrow> ds \<noteq> [] \<Longrightarrow>
   int_digits acc b (ds @ cs) =
     int_digits (foldl (\<lambda>a c. 10 * a + digit_val c) acc ds) True cs"
proof (induction ds arbitrary: acc b)
  case (Cons d ds)
  then show ?case by (cases "ds = []") simp_all
qed simp

lemma foldl_nat_digits:
  "foldl (\<lambda>a c. 10 * a + digit_val c) 0 (nat_digits n) = int n"
proof (induction n rule: nat_digits.induct)
  case (1 n)
  show ?case
  proof (cases "n < 10")
    case False
    then have "foldl (\<lambda>a c. 10 * a + digit_val c) 0 (nat_digits n) =
        10 * int (n div 10) + int (n mod 10)"
      using 1 by (subst nat_digits.simps) simp
    then show ?thesis by presburger
  qed (simp add: nat_digits.simps)
qed

lemma int_digits_nat_digits: "int_digits 0 b (nat_digits n) = Some (int n)"
  using int_digits_append [OF nat_digits_digits nat_digits_nonempty, of 0 b n "[]"]
  by (simp add: foldl_nat_digits)

lemma py_strip_py_str: "py_strip (py_str n) = py_str n"
proof -
  have minus: "\<not> py_isspace (CHR ''-'')" by (simp add: py_isspace_def)
  have "\<not> py_isspace (hd (nat_digits m)) \<and> \<not> py_isspace (last (nat_digits m))" for m
    using nat_digits_digits [of m] nat_digits_nonempty [of m] py_isdigit_not_space
    by (meson hd_in_set last_in_set)
  with minus show ?thesis
    unfolding py_strip_def py_str_def by (intro strip_by_id) auto
qed

lemma py_str_digits: "0 \<le> n \<Longrightarrow> \<forall>c \<in> set (py_str n). py_isdigit c"
  by (simp add: py_str_def nat_digits_digits)

lemma length_nat_digits: "length (nat_digits n) \<le> Suc n"
proof (induction n rule: nat_digits.induct)
  case (1 n)
  show ?case by (subst nat_digits.simps) (use 1 in auto)
qed

lemma length_py_str: "length (py_str n) \<le> nat \<bar>n\<bar> + 2"
  using length_nat_digits [of "nat n"] length_nat_digits [of "nat (- n)"] by (auto simp: py_str_def)

theorem py_int_py_str:
  assumes "length (filter py_isdigit (py_str n)) \<le> MAX_STR_DIGITS"
  shows "py_int (py_str n) = Some n"
proof -
  obtain c cs where ds: "nat_digits (nat n) = c # cs" by (cases "nat_digits (nat n)") simp_all
  then have "c \<noteq> CHR ''-''" "c \<noteq> CHR ''+''"
    using nat_digits_digits [of "nat n"] by (auto simp: py_isdigit_def char_le_code)
  then show ?thesis
    using assms ds int_digits_nat_digits [of False "nat n"] int_digits_nat_digits [of False "nat (- n)"]
    by (auto simp: py_int_def py_strip_py_str Let_def) (auto simp: py_str_def)
qed

lemma py_int_py_str_small: "\<bar>n\<bar> < 256 \<Longrightarrow> py_int (py_str n) = Some n"
  using length_py_str [of n] length_filter_le [of py_isdigit "py_str n"]
  by (intro py_int_py_str) (unfold MAX_STR_DIGITS_def, linarith)

end
