(* ===== verification/Screen_Lock.thy ===== *)
theory Screen_Lock
  imports Py_Int
begin

text \<open>
  The touchscreen lock of the device (\<^verbatim>\<open>backend/app/slate/screen_lock.py\<close>): reading its UCI options
  and its lockout counters over SSH, and setting them.

  The SSH connection is a parameter: a function from the device's state and a command to the new
  state and either the error it raised or the command's standard output and error streams.
\<close>

section \<open>The connection\<close>

type_synonym 'd ssh = "'d \<Rightarrow> string \<Rightarrow> 'd \<times> (string + string \<times> string)"

text \<open>
  \<^verbatim>\<open>ScreenLockError\<close>, by the operation that raises it: the connection failed, the output lacks
  \<open>OK\<close> (with the stripped standard error), or the argument is refused.
\<close>

datatype screen_lock_error =
  Ssh_Failed string string
| Not_Ok string string
| Bad_Pin
| Bad_Delay


section \<open>PIN strength and PIN text\<close>

datatype pin_strength = None_Set | Weak | Medium | Strong

definition WEAK_PINS :: "string list" where
  "WEAK_PINS =
     [''0000'', ''1111'', ''2222'', ''3333'', ''4444'', ''5555'', ''6666'', ''7777'', ''8888'', ''9999'',
      ''1234'', ''4321'', ''1212'', ''2121'',
      ''1004'', ''1122'', ''2580'', ''5683'', ''0852'', ''1010'', ''0101'',
      ''1980'', ''1990'', ''2000'', ''2001'', ''2010'', ''2020'', ''2024'', ''2025'', ''2026'',
      ''000000'', ''111111'', ''123456'', ''654321'', ''121212'']"

definition evaluate_pin_strength :: "string \<Rightarrow> pin_strength" where
  "evaluate_pin_strength pin =
     (if pin = [] then None_Set
      else if pin \<in> set WEAK_PINS then Weak
      else if length pin < 4 then Weak
      else if 6 \<le> length pin then Strong
      else Medium)"

text \<open>\<^verbatim>\<open>s[1:-1]\<close> when the string starts and ends with the quote (one quote alone does both).\<close>

definition unquote :: "char \<Rightarrow> string \<Rightarrow> string" where
  "unquote q s = (if s \<noteq> [] \<and> hd s = q \<and> last s = q then butlast (tl s) else s)"

definition parse_pin_from_uci :: "string option \<Rightarrow> string" where
  "parse_pin_from_uci raw =
     (case raw of
        None \<Rightarrow> []
      | Some r \<Rightarrow> unquote dquote (unquote squote (rstrip_by (\<lambda>c. c = CHR 0x0A) (py_strip r))))"

text \<open>
  \<^verbatim>\<open>re.match\<close> with \<^verbatim>\<open>^\d{4,8}$\<close>: the dollar also matches before a final line feed.
\<close>

definition pin_re :: "string \<Rightarrow> bool" where
  "pin_re pin \<longleftrightarrow>
     (let body = (if pin \<noteq> [] \<and> last pin = CHR 0x0A then butlast pin else pin)
      in 4 \<le> length body \<and> length body \<le> 8 \<and> list_all py_isdigit body)"

section \<open>Reading\<close>

record screen_status =
  ss_enabled :: bool
  has_pin :: bool
  pin_length :: nat
  ss_strength :: pin_strength
  auto_lock_seconds :: int

definition nth_or_empty :: "string list \<Rightarrow> nat \<Rightarrow> string" where
  "nth_or_empty ws i = (if i < length ws then ws ! i else [])"

definition status_command :: string where
  "status_command =
     ''uci get gl_screen.generic.ENABLE_PASSCODE 2>/dev/null; echo '' @ squote # ''---'' @ squote # '';''
     @ ''uci get gl_screen.generic.PASSCODE 2>/dev/null; echo '' @ squote # ''---'' @ squote # '';''
     @ ''uci get gl_screen.generic.AUTO_LOCK_TIME 2>/dev/null; echo '' @ squote # ''---'' @ [squote]"

definition status_of_output :: "string \<Rightarrow> screen_status" where
  "status_of_output out =
     (let parts = split_str_from ''---'' [] out;
          enabled_raw = py_strip (nth_or_empty parts 0);
          pin = parse_pin_from_uci (Some (nth_or_empty parts 1));
          auto_lock = (case py_int (py_strip (nth_or_empty parts 2)) of Some n \<Rightarrow> n | None \<Rightarrow> 0)
      in \<lparr>ss_enabled = (enabled_raw = ''1''), has_pin = (pin \<noteq> []), pin_length = length pin,
          ss_strength = evaluate_pin_strength pin, auto_lock_seconds = auto_lock\<rparr>)"

definition get_status :: "'d ssh \<Rightarrow> 'd \<Rightarrow> 'd \<times> (screen_lock_error + screen_status)" where
  "get_status run d =
     (case run d status_command of
        (d1, Inl e) \<Rightarrow> (d1, Inl (Ssh_Failed ''read'' e))
      | (d1, Inr (out, _)) \<Rightarrow> (d1, Inr (status_of_output out)))"

section \<open>Writing\<close>

definition finish_write ::
  "'d ssh \<Rightarrow> 'd \<times> (string + string \<times> string) \<Rightarrow> string \<Rightarrow> 'd \<times> (screen_lock_error + screen_status)" where
  "finish_write run res what =
     (case res of
        (d1, Inl e) \<Rightarrow> (d1, Inl (Ssh_Failed what e))
      | (d1, Inr (out, err)) \<Rightarrow>
          if \<not> py_contains ''OK'' out then (d1, Inl (Not_Ok what (py_strip err)))
          else get_status run d1)"

definition reload_tail :: string where
  "reload_tail = ''uci commit gl_screen && /etc/init.d/gl_screen reload >/dev/null 2>&1 ; echo OK''"

definition set_pin_command :: "string \<Rightarrow> string" where
  "set_pin_command pin =
     ''uci set gl_screen.generic.PASSCODE='' @ squote # (dquote # pin @ [dquote]) @ squote # '' && ''
     @ ''uci set gl_screen.generic.ENABLE_PASSCODE='' @ squote # ''1'' @ squote # '' && '' @ reload_tail"

definition set_pin :: "'d ssh \<Rightarrow> 'd \<Rightarrow> string \<Rightarrow> 'd \<times> (screen_lock_error + screen_status)" where
  "set_pin run d pin =
     (if \<not> pin_re pin then (d, Inl Bad_Pin)
      else finish_write run (run d (set_pin_command pin)) ''set_pin'')"

definition set_enabled :: "'d ssh \<Rightarrow> 'd \<Rightarrow> bool \<Rightarrow> 'd \<times> (screen_lock_error + screen_status)" where
  "set_enabled run d enabled =
     finish_write run
       (run d (''uci set gl_screen.generic.ENABLE_PASSCODE='' @ squote
               # (if enabled then ''1'' else ''0'') @ squote # '' && '' @ reload_tail))
       ''set_enabled''"

definition set_auto_lock :: "'d ssh \<Rightarrow> 'd \<Rightarrow> int \<Rightarrow> 'd \<times> (screen_lock_error + screen_status)" where
  "set_auto_lock run d secs =
     (if secs < 15 \<or> 3600 < secs
      then (d, Inl Bad_Delay)
      else finish_write run
             (run d (''uci set gl_screen.generic.AUTO_LOCK_TIME='' @ squote # py_str secs
                     @ squote # '' && '' @ reload_tail))
             ''set_auto_lock'')"

section \<open>Verifying a PIN\<close>

definition read_pin_command :: string where
  "read_pin_command = ''uci get gl_screen.generic.PASSCODE 2>/dev/null''"

definition read_pin :: "'d ssh \<Rightarrow> 'd \<Rightarrow> 'd \<times> (screen_lock_error + string)" where
  "read_pin run d =
     (case run d read_pin_command of
        (d1, Inl e) \<Rightarrow> (d1, Inl (Ssh_Failed ''read PIN'' e))
      | (d1, Inr (out, _)) \<Rightarrow> (d1, Inr (parse_pin_from_uci (Some out))))"

definition verify_pin :: "'d ssh \<Rightarrow> 'd \<Rightarrow> string \<Rightarrow> 'd \<times> (screen_lock_error + bool)" where
  "verify_pin run d attempt =
     (if attempt = [] then (d, Inr False)
      else case read_pin run d of
        (d1, Inl e) \<Rightarrow> (d1, Inl e)
      | (d1, Inr stored) \<Rightarrow>
          if stored = [] then (d1, Inr False) else (d1, Inr (stored = attempt)))"

section \<open>The lockout counters\<close>

record telemetry =
  continuous_errors :: int
  exceed_count :: int
  exceed_limit :: bool

fun scan_counters :: "int \<times> int \<Rightarrow> string list \<Rightarrow> int \<times> int" where
  "scan_counters (errors, exceeded) [] = (errors, exceeded)"
| "scan_counters (errors, exceeded) (line # lines) =
     (case py_split_ws (py_strip line) of
        [key, val] \<Rightarrow>
          if key = ''PASSWORD_CONTINOUS_ERRORS''
          then scan_counters ((case py_int val of Some n \<Rightarrow> n | None \<Rightarrow> errors), exceeded) lines
          else if key = ''UNLOCK_ATTEMPT_EXCEED_LIMIT''
          then scan_counters (errors, (case py_int val of Some n \<Rightarrow> n | None \<Rightarrow> exceeded)) lines
          else scan_counters (errors, exceeded) lines
      | _ \<Rightarrow> scan_counters (errors, exceeded) lines)"

definition read_touchscreen_lockout :: "'d ssh \<Rightarrow> 'd \<Rightarrow> 'd \<times> (screen_lock_error + telemetry)" where
  "read_touchscreen_lockout run d =
     (case run d ''cat /etc/gl_screen/status 2>/dev/null || true'' of
        (d1, Inl e) \<Rightarrow> (d1, Inl (Ssh_Failed ''read /etc/gl_screen/status'' e))
      | (d1, Inr (out, _)) \<Rightarrow>
          (case scan_counters (0, 0) (py_splitlines out) of
             (errors, exceeded) \<Rightarrow>
               (d1, Inr \<lparr>continuous_errors = errors, exceed_count = exceeded,
                        exceed_limit = (0 < exceeded)\<rparr>)))"

section \<open>Properties\<close>

text \<open>What \<^verbatim>\<open>uci get\<close> prints for a stored PIN: the value with its inner quotes, then a line feed.\<close>

definition uci_pin_output :: "string \<Rightarrow> string" where
  "uci_pin_output pin = dquote # pin @ [dquote, CHR 0x0A]"

lemma quotes_not_space [simp]: "\<not> py_isspace dquote" "\<not> py_isspace squote" "dquote \<noteq> squote"
  "dquote \<noteq> CHR 0x0A" "\<not> py_isspace (CHR ''-'')"
  by (simp_all add: py_isspace_def dquote_def squote_def)

lemma parse_pin_roundtrip: "parse_pin_from_uci (Some (uci_pin_output pin)) = pin"
proof -
  have lf: "py_isspace (CHR 0x0A)" by (simp add: py_isspace_def)
  have "py_strip (uci_pin_output pin) = dquote # pin @ [dquote]"
    by (simp add: uci_pin_output_def py_strip_def strip_by_def lstrip_by_def rstrip_by_def lf)
  then show ?thesis
    by (simp add: parse_pin_from_uci_def rstrip_by_def unquote_def)
qed

text \<open>
  Set, then verify. On a device whose PIN read after a successful write prints the PIN written
  (in its inner quotes, with a line feed), \<open>verify_pin\<close> accepts that PIN and no other non-empty
  attempt, and never changes its answer into an error.
\<close>

theorem set_pin_then_verify:
  assumes "set_pin run d pin = (d1, Inr st)"
    and "run d1 read_pin_command = (d2, Inr (uci_pin_output pin, err))"
  shows "verify_pin run d1 attempt =
           (if attempt = [] then (d1, Inr False) else (d2, Inr (attempt = pin)))"
proof -
  from assms(1) have "pin_re pin" by (simp add: set_pin_def split: if_splits)
  then have "pin \<noteq> []" by (auto simp: pin_re_def Let_def)
  then show ?thesis
    using assms(2) by (auto simp: verify_pin_def read_pin_def parse_pin_roundtrip)
qed

text \<open>A device that holds its PIN text, for the witness.\<close>

definition sample_ssh :: "string ssh" where
  "sample_ssh d cmd =
     (if cmd = read_pin_command then (d, Inr (uci_pin_output d, []))
      else if cmd = status_command then (d, Inr (''1---'' @ uci_pin_output d @ ''---60---'', []))
      else (''902134'', Inr (''OK'', [])))"

lemma set_pin_then_verify_witness:
  "verify_pin sample_ssh ''902134'' ''902134'' = (''902134'', Inr True)
   \<and> verify_pin sample_ssh ''902134'' ''0000'' = (''902134'', Inr False)"
proof -
  have run: "set_pin_command ''902134'' \<noteq> read_pin_command"
      "set_pin_command ''902134'' \<noteq> status_command" "status_command \<noteq> read_pin_command"
    by (simp_all add: set_pin_command_def read_pin_command_def status_command_def squote_def)
  have "set_pin sample_ssh ''000000'' ''902134'' =
      (''902134'', Inr (status_of_output (''1---'' @ uci_pin_output ''902134'' @ ''---60---'')))"
    by (simp add: set_pin_def pin_re_def Let_def py_isdigit_def char_le_code finish_write_def
        get_status_def sample_ssh_def run py_contains_def)
  moreover have "sample_ssh ''902134'' read_pin_command =
      (''902134'', Inr (uci_pin_output ''902134'', []))"
    by (simp add: sample_ssh_def)
  ultimately show ?thesis
    using set_pin_then_verify [of sample_ssh "''000000''" "''902134''" "''902134''"] by simp
qed

lemma pin_re_iff:
  "pin_re pin \<longleftrightarrow>
     (\<exists>digits. (pin = digits \<or> pin = digits @ [CHR 0x0A]) \<and> list_all py_isdigit digits
        \<and> 4 \<le> length digits \<and> length digits \<le> 8)"
proof (cases "pin \<noteq> [] \<and> last pin = CHR 0x0A")
  case True
  have "\<not> py_isdigit (CHR 0x0A)" by (simp add: py_isdigit_def char_le_code)
  moreover from True obtain b where "pin = b @ [CHR 0x0A]" by (metis append_butlast_last_id)
  ultimately show ?thesis by (auto simp: pin_re_def)
next
  case False
  then show ?thesis by (auto simp: pin_re_def)
qed

text \<open>
  Which PINs \<open>set_pin\<close> takes: four to eight digits, and also four to eight digits followed by
  one line feed, which its error message denies; anything else is refused before any command is
  sent to the device.
\<close>

theorem set_pin_accepts:
  "set_pin run d pin =
     (if \<exists>digits. (pin = digits \<or> pin = digits @ [CHR 0x0A]) \<and> list_all py_isdigit digits
           \<and> 4 \<le> length digits \<and> length digits \<le> 8
      then finish_write run (run d (set_pin_command pin)) ''set_pin''
      else (d, Inl Bad_Pin))"
  unfolding set_pin_def pin_re_iff [symmetric] by simp

end
