(* ===== verification/Touchscreen_Watcher.thy ===== *)
theory Touchscreen_Watcher
  imports Screen_Lock Failure_Sink
begin

text \<open>
  The poller that turns the touchscreen's own lockout counters into anti-theft failures
  (\<^verbatim>\<open>backend/app/scheduler/screen_lock_watcher.py\<close>). It keeps, per device, the last telemetry and
  the state the UI shows, and reports to the anti-theft service what changed since.

  A clock for the hooks is a function from the number of the call to the instant it reads.
\<close>

section \<open>State\<close>

record touch_state =
  ts_errors :: int
  ts_exceed :: int
  ts_limit :: bool
  last_polled_at :: "instant option"
  last_error :: string

record watcher =
  snapshots :: "string \<Rightarrow> (telemetry \<times> touch_state) option"
  sink :: at_state

definition no_telemetry :: telemetry where
  "no_telemetry = \<lparr>continuous_errors = 0, exceed_count = 0, exceed_limit = False\<rparr>"

definition default_touch :: touch_state where
  "default_touch =
     \<lparr>ts_errors = 0, ts_exceed = 0, ts_limit = False, last_polled_at = None, last_error = []\<rparr>"

definition get_touch_state :: "watcher \<Rightarrow> string \<Rightarrow> touch_state" where
  "get_touch_state w slug =
     (case snapshots w slug of None \<Rightarrow> default_touch | Some (_, st) \<Rightarrow> st)"

definition prev_telemetry :: "watcher \<Rightarrow> string \<Rightarrow> telemetry" where
  "prev_telemetry w slug =
     (case snapshots w slug of None \<Rightarrow> no_telemetry | Some (tel, _) \<Rightarrow> tel)"

section \<open>Operations\<close>

definition new_failures :: "telemetry \<Rightarrow> telemetry \<Rightarrow> int" where
  "new_failures prev cur =
     max 0 (continuous_errors cur - continuous_errors prev)
     + max 0 (exceed_count cur - exceed_count prev)"

definition success_seen :: "telemetry \<Rightarrow> telemetry \<Rightarrow> bool" where
  "success_seen prev cur \<longleftrightarrow>
     (0 < continuous_errors prev \<or> 0 < exceed_count prev)
     \<and> continuous_errors cur = 0 \<and> exceed_count cur = 0"

definition diff_and_dispatch ::
  "wipe_env \<Rightarrow> (nat \<Rightarrow> instant) \<Rightarrow> string \<Rightarrow> telemetry \<Rightarrow> telemetry \<Rightarrow> at_state \<Rightarrow> at_state" where
  "diff_and_dispatch env clk slug prev cur at =
     (let at1 = at_burst env slug at (map clk [0..<nat (new_failures prev cur)])
      in if success_seen prev cur then on_pin_success at1 slug else at1)"

definition apply_telemetry ::
  "wipe_env \<Rightarrow> (nat \<Rightarrow> instant) \<Rightarrow> instant \<Rightarrow> string \<Rightarrow> telemetry \<Rightarrow> watcher \<Rightarrow> watcher" where
  "apply_telemetry env clk now slug tel w =
     w\<lparr>sink := diff_and_dispatch env clk slug (prev_telemetry w slug) tel (sink w),
       snapshots := (snapshots w)(slug \<mapsto>
         (tel, \<lparr>ts_errors = continuous_errors tel, ts_exceed = exceed_count tel,
               ts_limit = exceed_limit tel, last_polled_at = Some now, last_error = []\<rparr>))\<rparr>"

text \<open>What a poll of one device gets: no connection, a read error, or telemetry.\<close>

datatype poll_answer = No_Device | Read_Error string | Read_Ok telemetry

definition poll_one ::
  "wipe_env \<Rightarrow> (nat \<Rightarrow> instant) \<Rightarrow> instant \<Rightarrow> string \<Rightarrow> poll_answer \<Rightarrow> watcher \<Rightarrow> watcher" where
  "poll_one env clk now slug answer w =
     (case answer of
        No_Device \<Rightarrow> w
      | Read_Error e \<Rightarrow>
          (let st = get_touch_state w slug
           in w\<lparr>snapshots := (snapshots w)(slug \<mapsto>
                (prev_telemetry w slug,
                 st\<lparr>last_polled_at := Some now, last_error := take 128 e\<rparr>))\<rparr>)
      | Read_Ok tel \<Rightarrow> apply_telemetry env clk now slug tel w)"

fun poll_all ::
  "wipe_env \<Rightarrow> (nat \<Rightarrow> instant) \<Rightarrow> instant \<Rightarrow> (string \<Rightarrow> poll_answer) \<Rightarrow> string list \<Rightarrow> watcher \<Rightarrow> watcher"
  where
  "poll_all env clk now answers [] w = w"
| "poll_all env clk now answers (slug # slugs) w =
     poll_all env clk now answers slugs (poll_one env clk now slug (answers slug) w)"

lemmas poll_defs = poll_one_def apply_telemetry_def diff_and_dispatch_def Let_def

section \<open>One poll\<close>

lemma poll_one_telemetry:
  "prev_telemetry (poll_one env clk now slug answer w) slug' =
     (case answer of Read_Ok tel \<Rightarrow> if slug' = slug then tel else prev_telemetry w slug'
      | _ \<Rightarrow> prev_telemetry w slug')"
  by (auto simp: poll_defs prev_telemetry_def split: poll_answer.splits)

lemma poll_one_sink_quiet:
  "answer = No_Device \<or> (\<exists>e. answer = Read_Error e) \<Longrightarrow>
   sink (poll_one env clk now slug answer w) = sink w"
  by (auto simp: poll_defs)

lemma poll_one_sink_ok:
  "sink (poll_one env clk now slug (Read_Ok tel) w) =
     diff_and_dispatch env clk slug (prev_telemetry w slug) tel (sink w)"
  by (simp add: poll_defs)

lemma diff_and_dispatch_sound:
  "at_sound at slug \<Longrightarrow> at_sound (diff_and_dispatch env clk slug prev cur at) slug"
  using at_sink.sound_burst [of at slug env] at_sink.sound_ok
  by (simp add: diff_and_dispatch_def Let_def at_burst_def)

lemma diff_and_dispatch_tally:
  assumes "at_sound at slug" "\<not> success_seen prev cur"
  shows "at_tally (diff_and_dispatch env clk slug prev cur at) slug =
           at_tally at slug + new_failures prev cur"
proof -
  have "0 \<le> new_failures prev cur" by (simp add: new_failures_def)
  then show ?thesis
    using at_sink.tally_burst [OF assms(1), of env "map clk [0..<nat (new_failures prev cur)]"]
      assms(2)
    by (simp add: diff_and_dispatch_def Let_def at_burst_def)
qed

text \<open>A sequence of polls of one device.\<close>

fun poll_run ::
  "wipe_env \<Rightarrow> (nat \<Rightarrow> instant) \<Rightarrow> instant \<Rightarrow> string \<Rightarrow> poll_answer list \<Rightarrow> watcher \<Rightarrow> watcher" where
  "poll_run env clk now slug [] w = w"
| "poll_run env clk now slug (a # as) w =
     poll_run env clk now slug as (poll_one env clk now slug a w)"

text \<open>What the answers add up to, and whether any of them looks like a success, from a telemetry.\<close>

fun failures_seen :: "telemetry \<Rightarrow> poll_answer list \<Rightarrow> int" where
  "failures_seen prev [] = 0"
| "failures_seen prev (Read_Ok tel # as) = new_failures prev tel + failures_seen tel as"
| "failures_seen prev (_ # as) = failures_seen prev as"

fun any_success :: "telemetry \<Rightarrow> poll_answer list \<Rightarrow> bool" where
  "any_success prev [] = False"
| "any_success prev (Read_Ok tel # as) = (success_seen prev tel \<or> any_success tel as)"
| "any_success prev (_ # as) = any_success prev as"

lemma poll_run_tally:
  assumes "at_sound (sink w) slug" "\<not> any_success (prev_telemetry w slug) as"
  shows "at_sound (sink (poll_run env clk now slug as w)) slug
         \<and> at_tally (sink (poll_run env clk now slug as w)) slug =
             at_tally (sink w) slug + failures_seen (prev_telemetry w slug) as"
  using assms
proof (induction as arbitrary: w)
  case (Cons a as)
  let ?w = "poll_one env clk now slug a w"
  show ?case
  proof (cases a)
    case (Read_Ok tel)
    with Cons.prems have "at_sound (sink ?w) slug"
        "at_tally (sink ?w) slug = at_tally (sink w) slug + new_failures (prev_telemetry w slug) tel"
      by (simp_all add: poll_one_sink_ok diff_and_dispatch_sound diff_and_dispatch_tally)
    with Cons.IH [of ?w] Cons.prems Read_Ok show ?thesis
      by (simp add: poll_one_telemetry)
  qed (use Cons.IH [of ?w] Cons.prems in \<open>simp_all add: poll_one_telemetry poll_one_sink_quiet\<close>)
qed simp

lemma at_burst_frame:
  "at_armed (diff_and_dispatch env clk slug prev cur at) slug = at_armed at slug"
  "at_threshold (diff_and_dispatch env clk slug prev cur at) slug = at_threshold at slug"
  by (simp_all add: diff_and_dispatch_def Let_def at_burst_config)

lemma poll_run_config:
  "at_armed (sink (poll_run env clk now slug as w)) slug = at_armed (sink w) slug"
  "at_threshold (sink (poll_run env clk now slug as w)) slug = at_threshold (sink w) slug"
proof (induction as arbitrary: w)
  case (Cons a as)
  { case 1 show ?case using Cons.IH(1)
      by (cases a) (simp_all add: poll_one_sink_ok poll_one_sink_quiet at_burst_frame) }
  { case 2 show ?case using Cons.IH(2)
      by (cases a) (simp_all add: poll_one_sink_ok poll_one_sink_quiet at_burst_frame) }
qed simp_all

lemma poll_run_append:
  "poll_run env clk now slug (as @ bs) w = poll_run env clk now slug bs (poll_run env clk now slug as w)"
  by (induction as arbitrary: w) simp_all

lemma poll_run_fires:
  assumes "at_sound (sink w) slug" "at_armed (sink w) slug"
    and "\<not> any_success (prev_telemetry w slug) as"
  shows "int (fired_for (sink (poll_run env clk now slug as w)) slug) =
           int (fired_for (sink w) slug)
           + (at_count (sink w) slug + failures_seen (prev_telemetry w slug) as)
               div at_threshold (sink w) slug"
  using at_tally_split(1) [of "sink (poll_run env clk now slug as w)" slug "sink w"]
    poll_run_tally [OF assms(1,3)] poll_run_config assms(2)
  by simp

section \<open>Properties\<close>


definition errors_at :: "int \<Rightarrow> poll_answer" where
  "errors_at n = Read_Ok \<lparr>continuous_errors = n, exceed_count = 0, exceed_limit = False\<rparr>"

definition locked_at :: "int \<Rightarrow> poll_answer" where
  "locked_at n = Read_Ok \<lparr>continuous_errors = 0, exceed_count = n, exceed_limit = True\<rparr>"

definition sample_watcher :: watcher where
  "sample_watcher = \<lparr>snapshots = Map.empty, sink = sample_armed\<rparr>"


text \<open>
  The device's own lockout, seen by a poller that misses nothing: the streak counter rises to \<open>k - 1\<close>,
  the \<open>k\<close>-th wrong PIN moves the count into the lockout counter, and the lockout expires.
\<close>

definition streak_polls :: "nat \<Rightarrow> poll_answer list" where
  "streak_polls k = map (\<lambda>i. errors_at (int i)) [1..<k] @ [locked_at (int k)]"

definition lockout_round :: "nat \<Rightarrow> poll_answer list" where
  "lockout_round k = streak_polls k @ [errors_at 0]"

definition quiet :: "telemetry \<Rightarrow> bool" where
  "quiet tel \<longleftrightarrow> continuous_errors tel = 0 \<and> exceed_count tel = 0"

lemma streak_polls_seen:
  assumes "0 < k" "quiet prev"
  shows "failures_seen prev (streak_polls k) = 2 * int k - 1 \<and> \<not> any_success prev (streak_polls k)"
proof -
  have rise: "failures_seen tel (map (\<lambda>i. errors_at (int i)) [Suc m..<Suc m + n] @ [locked_at l]) =
        int n + l \<and> \<not> any_success tel (map (\<lambda>i. errors_at (int i)) [Suc m..<Suc m + n] @ [locked_at l])"
    if "continuous_errors tel = int m" "exceed_count tel = 0" "0 < l" for m n l tel
    using that
  proof (induction n arbitrary: m tel)
    case 0
    then show ?case by (simp add: locked_at_def new_failures_def success_seen_def)
  next
    case (Suc n)
    from Suc.IH [of "\<lparr>continuous_errors = int (Suc m), exceed_count = 0, exceed_limit = False\<rparr>"
        "Suc m"] Suc.prems
    show ?case
      by (simp add: upt_rec [of "Suc m"] errors_at_def new_failures_def success_seen_def
          del: upt_Suc)
  qed
  from rise [of prev 0 "int k" "k - 1"] assms show ?thesis
    by (simp add: quiet_def streak_polls_def of_nat_diff)
qed

text \<open>
  One lockout counts nearly twice. Watched poll by poll, a device whose lockout takes \<open>k\<close> wrong
  PINs reports \<open>2 k - 1\<close> failures for them: the lockout counter holds the failures that caused it,
  and they were already reported while the streak counter rose.
\<close>

theorem lockout_counts_twice:
  assumes "0 < k" "quiet (prev_telemetry w slug)" "at_sound (sink w) slug"
  shows "at_tally (sink (poll_run env clk now slug (streak_polls k) w)) slug =
           at_tally (sink w) slug + (2 * int k - 1)"
  using poll_run_tally [OF assms(3)] streak_polls_seen [OF assms(1,2)] by simp

lemma quiet_start [simp]: "quiet (prev_telemetry sample_watcher slug)"
  by (simp add: quiet_def prev_telemetry_def sample_watcher_def no_telemetry_def)

lemma lockout_counts_twice_witness:
  "at_tally (sink (poll_run sample_env (\<lambda>_. 0) 0 ''s7'' (streak_polls 5) sample_watcher)) ''s7'' = 9"
proof -
  have "sink sample_watcher = sample_armed" by (simp add: sample_watcher_def)
  moreover have "at_tally sample_armed ''s7'' = 0"
    by (simp add: at_tally_def sample_armed_view)
  ultimately show ?thesis
    using lockout_counts_twice [of 5 sample_watcher "''s7''" sample_env "\<lambda>_. 0" 0]
    by (simp add: sample_armed_view)
qed

lemma lockout_round_quiet:
  fixes env clk now
  assumes "0 < k" "2 * int k - 1 < at_threshold (sink w) slug"
    and "at_sound (sink w) slug" "at_armed (sink w) slug" "at_count (sink w) slug = 0"
    and "quiet (prev_telemetry w slug)"
  defines "w' \<equiv> poll_run env clk now slug (lockout_round k) w"
  shows "fired_for (sink w') slug = fired_for (sink w) slug \<and> at_count (sink w') slug = 0
         \<and> at_sound (sink w') slug \<and> quiet (prev_telemetry w' slug)"
proof -
  let ?w1 = "poll_run env clk now slug (streak_polls k) w"
  note seen = streak_polls_seen [OF assms(1,6)]
  have "int (fired_for (sink ?w1) slug) = int (fired_for (sink w) slug)"
    using poll_run_fires [OF assms(3,4)] seen assms(1,2,5) by simp
  moreover have "prev_telemetry ?w1 slug =
      \<lparr>continuous_errors = 0, exceed_count = int k, exceed_limit = True\<rparr>"
    by (simp add: streak_polls_def poll_run_append poll_one_telemetry locked_at_def)
  moreover have "at_sound (sink ?w1) slug"
    using poll_run_tally [OF assms(3)] seen by simp
  ultimately show ?thesis
    using assms(1) unfolding w'_def lockout_round_def
    by (simp add: poll_run_append errors_at_def poll_one_sink_ok poll_one_telemetry quiet_def
        diff_and_dispatch_def new_failures_def success_seen_def at_burst_def at_sink.sound_ok)
qed

text \<open>
  The patient thief. On a device armed with a threshold above \<open>2 k - 1\<close>, going through the
  device's lockouts one after the other any number of times never fires the action and leaves the
  cumulative count at zero: the expiry of a lockout clears both counters and is taken for a success.
\<close>

theorem patient_attack_never_fires:
  assumes "0 < k" "2 * int k - 1 < at_threshold (sink w) slug"
    and "at_sound (sink w) slug" "at_armed (sink w) slug" "at_count (sink w) slug = 0"
    and "quiet (prev_telemetry w slug)"
  shows "fired_for (sink (poll_run env clk now slug (concat (replicate n (lockout_round k))) w)) slug
           = fired_for (sink w) slug
         \<and> at_count (sink (poll_run env clk now slug (concat (replicate n (lockout_round k))) w)) slug
           = 0"
  using assms
proof (induction n arbitrary: w)
  case (Suc n)
  let ?w = "poll_run env clk now slug (lockout_round k) w"
  from lockout_round_quiet [OF Suc.prems, of env clk now] Suc.prems
  show ?case
    using Suc.IH [of ?w] by (simp add: poll_run_append poll_run_config)
qed simp

definition sample_watcher10 :: watcher where
  "sample_watcher10 = \<lparr>snapshots = Map.empty, sink =
     at_upsert \<lparr>at_rows = Map.empty, fired = [], remote = []\<rparr> ''s7'' True 10 ''soft_wipe'' []\<rparr>"

lemma patient_attack_never_fires_witness:
  "fired_for (sink (poll_run sample_env (\<lambda>_. 0) 0 ''s7''
     (concat (replicate 1000 (lockout_round 5))) sample_watcher10)) ''s7'' = 0"
proof -
  have "at_threshold (sink sample_watcher10) ''s7'' = 10" "at_sound (sink sample_watcher10) ''s7''"
    "at_armed (sink sample_watcher10) ''s7''" "at_count (sink sample_watcher10) ''s7'' = 0"
    "quiet (prev_telemetry sample_watcher10 ''s7'')"
    "fired_for (sink sample_watcher10) ''s7'' = 0"
    by (simp_all add: sample_watcher10_def at_upsert_def at_sound_def at_view_defs
        at_default_row_def quiet_def prev_telemetry_def no_telemetry_def)
  then show ?thesis
    using patient_attack_never_fires [of 5 sample_watcher10 "''s7''" sample_env "\<lambda>_. 0" 0 1000]
    by simp
qed

end
