(* ===== verification/Webhook_Auth.thy ===== *)
theory Webhook_Auth
  imports Py_Int
begin

text \<open>
  Authentication of the webhooks a device posts (\<^verbatim>\<open>backend/app/webhooks/auth.py\<close>, with the table
  \<^verbatim>\<open>WebhookSecretRow\<close> of \<^verbatim>\<open>backend/app/db/models.py\<close>): per-device HMAC secrets, their rotation with a
  grace period, and the verification of a signed request.

  The HMAC is a parameter \<open>mac key payload\<close>, the hexadecimal digest. The random secrets are inputs of
  the operations that draw one. Bytes are characters; \<^verbatim>\<open>compare_digest\<close> is equality.
\<close>

section \<open>State\<close>

definition MAX_SKEW_S :: int where "MAX_SKEW_S = 300"
definition PREVIOUS_GRACE_S :: int where "PREVIOUS_GRACE_S = 30"

record secret_row =
  secret :: string
  previous_secret :: string
  previous_valid_until :: "instant option"
  rotated_at :: "instant option"

type_synonym secret_table = "string \<Rightarrow> secret_row option"

datatype auth_error =
  Missing_Header | Invalid_Timestamp | Skew_Exceeded int | No_Secret string | Signature_Mismatch

definition new_secret_row :: "string \<Rightarrow> secret_row" where
  "new_secret_row k =
     \<lparr>secret = k, previous_secret = [], previous_valid_until = None, rotated_at = None\<rparr>"

section \<open>Operations\<close>

definition get_or_create_secret ::
  "string \<Rightarrow> secret_table \<Rightarrow> string \<Rightarrow> string \<times> secret_table" where
  "get_or_create_secret fresh rows slug =
     (case rows slug of
        Some row \<Rightarrow> (secret row, rows)
      | None \<Rightarrow> (fresh, rows(slug \<mapsto> new_secret_row fresh)))"

definition rotate_secret ::
  "string \<Rightarrow> instant \<Rightarrow> secret_table \<Rightarrow> string \<Rightarrow> string \<times> secret_table" where
  "rotate_secret fresh now rows slug =
     (case rows slug of
        None \<Rightarrow> (fresh, rows(slug \<mapsto> new_secret_row fresh))
      | Some row \<Rightarrow>
          (fresh, rows(slug \<mapsto>
             row\<lparr>previous_secret := secret row,
                 previous_valid_until := Some (now + seconds PREVIOUS_GRACE_S),
                 secret := fresh, rotated_at := Some now\<rparr>)))"

definition signed_payload :: "int \<Rightarrow> string \<Rightarrow> string" where
  "signed_payload ts body = py_str ts @ ''.'' @ body"

text \<open>Clock reads: for the skew, and again for the grace period.\<close>

definition verify_webhook ::
  "(string \<Rightarrow> string \<Rightarrow> string) \<Rightarrow> secret_table \<Rightarrow> string \<Rightarrow> string \<Rightarrow> string \<Rightarrow> string
     \<Rightarrow> instant \<Rightarrow> instant \<Rightarrow> auth_error + unit" where
  "verify_webhook mac rows slug ts_header sig body now now2 =
     (if slug = [] \<or> ts_header = [] \<or> sig = [] then Inl Missing_Header
      else case py_int ts_header of
        None \<Rightarrow> Inl Invalid_Timestamp
      | Some ts \<Rightarrow>
          if MAX_SKEW_S < \<bar>whole_seconds now - ts\<bar>
          then Inl (Skew_Exceeded \<bar>whole_seconds now - ts\<bar>)
          else case rows slug of
            None \<Rightarrow> Inl (No_Secret slug)
          | Some row \<Rightarrow>
              if mac (secret row) (signed_payload ts body) = sig then Inr ()
              else case previous_valid_until row of
                Some vu \<Rightarrow>
                  if previous_secret row \<noteq> [] \<and> now2 < vu
                     \<and> mac (previous_secret row) (signed_payload ts body) = sig
                  then Inr () else Inl Signature_Mismatch
              | None \<Rightarrow> Inl Signature_Mismatch)"

section \<open>Lemmas\<close>

text \<open>The keys a table honours for a device at an instant.\<close>

definition honoured :: "secret_table \<Rightarrow> string \<Rightarrow> instant \<Rightarrow> string set" where
  "honoured rows slug now =
     (case rows slug of
        None \<Rightarrow> {}
      | Some row \<Rightarrow> insert (secret row)
          (case previous_valid_until row of
             Some vu \<Rightarrow> if previous_secret row \<noteq> [] \<and> now < vu then {previous_secret row} else {}
           | None \<Rightarrow> {}))"

lemma verify_webhook_iff:
  "verify_webhook mac rows slug ts_header sig body now now2 = Inr () \<longleftrightarrow>
     slug \<noteq> [] \<and> ts_header \<noteq> [] \<and> sig \<noteq> [] \<and>
     (case py_int ts_header of
        None \<Rightarrow> False
      | Some ts \<Rightarrow> \<bar>whole_seconds now - ts\<bar> \<le> MAX_SKEW_S
          \<and> sig \<in> (\<lambda>k. mac k (signed_payload ts body)) ` honoured rows slug now2)"
  by (auto simp: verify_webhook_def honoured_def split: option.splits if_splits)

datatype secret_op = Get_Secret string string | Rotate_Secret string string instant
  \<comment> \<open>device, fresh secret, and the instant of a rotation\<close>

fun secret_run :: "secret_table \<Rightarrow> secret_op list \<Rightarrow> secret_table" where
  "secret_run rows [] = rows"
| "secret_run rows (Get_Secret slug fresh # ops) =
     secret_run (snd (get_or_create_secret fresh rows slug)) ops"
| "secret_run rows (Rotate_Secret slug fresh now # ops) =
     secret_run (snd (rotate_secret fresh now rows slug)) ops"

lemma secret_run_append: "secret_run rows (xs @ ys) = secret_run (secret_run rows xs) ys"
  by (induction rows xs rule: secret_run.induct) simp_all

text \<open>The rotations of a device in a run, with their secrets.\<close>

definition rotations :: "string \<Rightarrow> secret_op list \<Rightarrow> (string \<times> instant) list" where
  "rotations slug ops =
     concat (map (\<lambda>op. case op of Rotate_Secret s k t \<Rightarrow> if s = slug then [(k, t)] else []
                     | _ \<Rightarrow> []) ops)"

lemma rotations_simps [simp]:
  "rotations slug [] = []"
  "rotations slug (xs @ ys) = rotations slug xs @ rotations slug ys"
  "rotations slug (Get_Secret s k # ops) = rotations slug ops"
  "rotations slug (Rotate_Secret s k t # ops) =
     (if s = slug then (k, t) # rotations slug ops else rotations slug ops)"
  by (simp_all add: rotations_def)

text \<open>The row of a device is what its last rotations left.\<close>

definition rotated_row :: "string \<Rightarrow> secret_op list \<Rightarrow> secret_row \<Rightarrow> bool" where
  "rotated_row slug ops row \<longleftrightarrow>
     (case rev (rotations slug ops) of
        [] \<Rightarrow> True
      | [(k, t)] \<Rightarrow> secret row = k
      | (k, t) # (k', t') # _ \<Rightarrow> secret row = k \<and> previous_secret row = k'
          \<and> previous_valid_until row = Some (t + seconds PREVIOUS_GRACE_S))"

lemma secret_run_rotated:
  "rotations slug ops \<noteq> [] \<Longrightarrow>
   \<exists>row. secret_run rows ops slug = Some row \<and> rotated_row slug ops row"
proof (induction ops rule: rev_induct)
  case (snoc op ops)
  show ?case
  proof (cases op)
    case (Get_Secret s k)
    with snoc show ?thesis
      by (auto simp: secret_run_append get_or_create_secret_def rotated_row_def split: option.splits)
  next
    case (Rotate_Secret s k t)
    show ?thesis
    proof (cases "s = slug")
      case True
      show ?thesis
      proof (cases "rotations slug ops = []")
        case True
        with Rotate_Secret \<open>s = slug\<close> show ?thesis
          by (auto simp: secret_run_append rotate_secret_def rotated_row_def new_secret_row_def
              split: option.splits)
      next
        case False
        then obtain k' t' rs where rs: "rotations slug ops = rs @ [(k', t')]"
          by (cases "rotations slug ops" rule: rev_cases) auto
        from snoc.IH False obtain row where "secret_run rows ops slug = Some row"
          "rotated_row slug ops row" by auto
        with rs Rotate_Secret \<open>s = slug\<close> show ?thesis
          by (auto simp: secret_run_append rotate_secret_def rotated_row_def split: list.splits)
      qed
    next
      case False
      with snoc Rotate_Secret show ?thesis
        by (auto simp: secret_run_append rotate_secret_def rotated_row_def split: option.splits)
    qed
  qed
qed simp

section \<open>Properties\<close>

text \<open>
  A retired secret is worthless. After any operations on any devices that rotate a device's
  secret at least twice, a request is accepted only with the signature of the secret of the last
  rotation, or of the one before while the last rotation is less than 30 seconds old.
\<close>

theorem only_two_secrets_honoured:
  assumes "rotations slug ops = rs @ [(k', t'), (k, t)]"
    and "verify_webhook mac (secret_run rows ops) slug ts_header sig body now now2 = Inr ()"
  shows "\<exists>ts. py_int ts_header = Some ts \<and> \<bar>whole_seconds now - ts\<bar> \<le> 300
           \<and> (sig = mac k (signed_payload ts body)
              \<or> now2 < t + seconds 30 \<and> sig = mac k' (signed_payload ts body))"
proof -
  obtain row where "secret_run rows ops slug = Some row" "rotated_row slug ops row"
    using secret_run_rotated [of slug ops rows] assms(1) by auto
  then have "honoured (secret_run rows ops) slug now2 \<subseteq>
      (if now2 < t + seconds 30 then {k, k'} else {k})"
    using assms(1) by (auto simp: honoured_def rotated_row_def PREVIOUS_GRACE_S_def)
  moreover obtain ts where "py_int ts_header = Some ts" "\<bar>whole_seconds now - ts\<bar> \<le> 300"
    "sig \<in> (\<lambda>k. mac k (signed_payload ts body)) ` honoured (secret_run rows ops) slug now2"
    using assms(2) by (auto simp: verify_webhook_iff MAX_SKEW_S_def split: option.splits)
  ultimately show ?thesis by (auto split: if_splits)
qed

definition sample_mac :: "string \<Rightarrow> string \<Rightarrow> string" where
  "sample_mac k p = k @ ''/'' @ p"

definition sample_ops :: "secret_op list" where
  "sample_ops = [Get_Secret ''s7'' ''k0'', Rotate_Secret ''s7'' ''k1'' (seconds 90),
                 Rotate_Secret ''s7'' ''k2'' (seconds 100)]"

lemma py_int_120 [simp]: "py_int ''120'' = Some 120"
  by (simp add: py_int_def strip_defs MAX_STR_DIGITS_def char_class_defs digit_val_def Let_def)

lemma only_two_secrets_honoured_witness:
  "\<exists>ts. py_int ''120'' = Some ts
      \<and> (sample_mac ''k1'' (signed_payload 120 ''{}'') = sample_mac ''k2'' (signed_payload ts ''{}'')
         \<or> seconds 120 < seconds 100 + seconds 30
           \<and> sample_mac ''k1'' (signed_payload 120 ''{}'') = sample_mac ''k1'' (signed_payload ts ''{}''))"
proof -
  have "verify_webhook sample_mac (secret_run Map.empty sample_ops) ''s7'' ''120''
      (sample_mac ''k1'' (signed_payload 120 ''{}'')) ''{}'' (seconds 120) (seconds 120) = Inr ()"
    by (simp add: verify_webhook_iff honoured_def sample_ops_def get_or_create_secret_def
        rotate_secret_def new_secret_row_def whole_seconds_def seconds_def MAX_SKEW_S_def
        PREVIOUS_GRACE_S_def sample_mac_def)
  then show ?thesis
    using only_two_secrets_honoured [of "''s7''" sample_ops "[]" "''k1''" "seconds 90" "''k2''"
        "seconds 100" sample_mac Map.empty "''120''" "sample_mac ''k1'' (signed_payload 120 ''{}'')"
        "''{}''" "seconds 120" "seconds 120"]
    by (simp add: sample_ops_def)
qed

text \<open>
  Rotation loses nothing for exactly 30 seconds: a request signed with the secret a device holds
  is accepted before the rotation, and after it while it is less than 30 seconds old, and no longer
  (where the new secret gives that request another signature).
\<close>

theorem rotation_grace_is_thirty_seconds:
  assumes "rows slug = Some row" "secret row \<noteq> []" "slug \<noteq> []"
    and "py_int ts_header = Some ts" "ts_header \<noteq> []" "\<bar>whole_seconds now - ts\<bar> \<le> 300"
    and "sig = mac (secret row) (signed_payload ts body)" "sig \<noteq> []"
    and "mac fresh (signed_payload ts body) \<noteq> sig"
  shows "verify_webhook mac rows slug ts_header sig body now now2 = Inr ()
         \<and> (verify_webhook mac (snd (rotate_secret fresh t rows slug)) slug ts_header sig body now now2
              = Inr () \<longleftrightarrow> now2 < t + seconds 30)"
  using assms
  by (auto simp: verify_webhook_iff honoured_def rotate_secret_def MAX_SKEW_S_def
      PREVIOUS_GRACE_S_def)

lemma rotation_grace_is_thirty_seconds_witness:
  "verify_webhook sample_mac
     (snd (rotate_secret ''k1'' (seconds 100) [''s7'' \<mapsto> new_secret_row ''k0''] ''s7'')) ''s7''
     ''120'' (sample_mac ''k0'' (signed_payload 120 ''{}'')) ''{}'' (seconds 120) (seconds 120) = Inr ()"
  using rotation_grace_is_thirty_seconds [of "[''s7'' \<mapsto> new_secret_row ''k0'']" "''s7''"
      "new_secret_row ''k0''" "''120''" 120 "seconds 120" "sample_mac ''k0'' (signed_payload 120 ''{}'')"
      sample_mac "''{}''" "''k1''" "seconds 120" "seconds 100"]
  by (simp add: new_secret_row_def sample_mac_def whole_seconds_def seconds_def)

text \<open>
  Inside the skew window a captured request can be replayed: one accepted with the current secret
  is accepted again, unchanged, at any instant up to 300 seconds after its timestamp (so for up to
  600 seconds when the sender's clock runs ahead).
\<close>

theorem replay_inside_the_window:
  assumes "verify_webhook mac rows slug ts_header sig body now now2 = Inr ()"
    and "rows slug = Some row" "previous_valid_until row = None"
    and "py_int ts_header = Some ts" "ts - 300 \<le> whole_seconds later" "whole_seconds later \<le> ts + 300"
  shows "verify_webhook mac rows slug ts_header sig body later later2 = Inr ()"
  using assms by (auto simp: verify_webhook_iff honoured_def MAX_SKEW_S_def)

lemma replay_inside_the_window_witness:
  "verify_webhook sample_mac [''s7'' \<mapsto> new_secret_row ''k0''] ''s7'' ''120''
     (sample_mac ''k0'' (signed_payload 120 ''{}'')) ''{}'' (seconds 420) (seconds 420) = Inr ()"
  using replay_inside_the_window [of sample_mac "[''s7'' \<mapsto> new_secret_row ''k0'']" "''s7''" "''120''"
      "sample_mac ''k0'' (signed_payload 120 ''{}'')" "''{}''" 0 0 "new_secret_row ''k0''" 120
      "seconds 420" "seconds 420"]
  by (simp add: verify_webhook_iff honoured_def new_secret_row_def sample_mac_def
      whole_seconds_def seconds_def MAX_SKEW_S_def)

end
