(* ===== verification/Shell_Quote.thy ===== *)
theory Shell_Quote
  imports Py_Int
begin

text \<open>
  \<^verbatim>\<open>shlex.quote\<close> and \<^verbatim>\<open>repr\<close> of a string, as Python defines them, and how a POSIX shell reads a word:
  what the backend quotes is what the remote shell gets.
\<close>

section \<open>Quoting\<close>

definition shell_safe :: "char \<Rightarrow> bool" where
  "shell_safe c \<longleftrightarrow> py_isalnum c \<or> c \<in> set ''@%+=:,./_-''"

fun escape_squotes :: "string \<Rightarrow> string" where
  "escape_squotes [] = []"
| "escape_squotes (c # s) =
     (if c = squote then [squote, dquote, squote, dquote, squote] else [c]) @ escape_squotes s"

definition shlex_quote :: "string \<Rightarrow> string" where
  "shlex_quote s =
     (if s = [] then [squote, squote]
      else if list_all shell_safe s then s
      else squote # escape_squotes s @ [squote])"

definition backslash :: char where "backslash = CHR 0x5C"

definition hex_digit :: "nat \<Rightarrow> char" where
  "hex_digit n = (''0123456789abcdef'' ! n)"

definition repr_char :: "char \<Rightarrow> char \<Rightarrow> string" where
  "repr_char q c =
     (let n = of_char c in
      if c = q \<or> c = backslash then [backslash, c]
      else if n = 9 then [backslash, CHR ''t'']
      else if n = 10 then [backslash, CHR ''n'']
      else if n = 13 then [backslash, CHR ''r'']
      else if n < 32 \<or> n = 127
      then [backslash, CHR ''x'', hex_digit (n div 16), hex_digit (n mod 16)]
      else [c])"

definition py_repr :: "string \<Rightarrow> string" where
  "py_repr s =
     (let q = (if squote \<in> set s \<and> dquote \<notin> set s then dquote else squote)
      in q # concat (map (repr_char q) s) @ [q])"

definition py_repr_opt :: "string option \<Rightarrow> string" where
  "py_repr_opt v = (case v of None \<Rightarrow> ''None'' | Some s \<Rightarrow> py_repr s)"

section \<open>Reading a shell word\<close>

text \<open>
  The word at the start of a command line, with what follows it. Within single quotes every character
  stands for itself; within double quotes the model accepts only characters the shell does not
  expand there; outside quotes only the characters that \<^verbatim>\<open>shlex.quote\<close> deems safe. Anything else, an
  unclosed quote included, is not a plain word (\<^const>\<open>None\<close>).
\<close>

datatype quoting = Bare | In_Single | In_Double

fun sh_word :: "quoting \<Rightarrow> string \<Rightarrow> (string \<times> string) option" where
  "sh_word Bare [] = Some ([], [])"
| "sh_word q [] = None"
| "sh_word Bare (c # s) =
     (if c = CHR '' '' then Some ([], c # s)
      else if c = squote then sh_word In_Single s
      else if c = dquote then sh_word In_Double s
      else if shell_safe c then map_option (apfst (Cons c)) (sh_word Bare s)
      else None)"
| "sh_word In_Single (c # s) =
     (if c = squote then sh_word Bare s else map_option (apfst (Cons c)) (sh_word In_Single s))"
| "sh_word In_Double (c # s) =
     (if c = dquote then sh_word Bare s
      else if c \<in> {backslash, CHR ''$'', CHR 0x60} then None
      else map_option (apfst (Cons c)) (sh_word In_Double s))"

lemma quotes_not_safe [simp]:
  "\<not> shell_safe squote" "\<not> shell_safe dquote" "\<not> shell_safe (CHR '' '')" "squote \<noteq> dquote"
  "squote \<noteq> CHR '' ''" "dquote \<noteq> CHR '' ''" "dquote \<noteq> squote"
  by (simp_all add: shell_safe_def squote_def dquote_def py_isalnum_def char_class_defs)

lemma sh_word_safe:
  "list_all shell_safe s \<Longrightarrow> sh_word Bare (s @ r) = map_option (apfst ((@) s)) (sh_word Bare r)"
proof (induction s)
  case (Cons c s)
  then have "c \<noteq> CHR '' ''" "c \<noteq> squote" "c \<noteq> dquote" "shell_safe c" by auto
  with Cons show ?case by (simp add: option.map_comp comp_def apfst_def map_prod_def case_prod_beta)
qed (simp add: option.map_ident option.map_id apfst_def map_prod_def)

lemma sh_word_single:
  "sh_word In_Single (escape_squotes s @ squote # r) =
     map_option (apfst ((@) s)) (sh_word Bare r)"
proof (induction s)
  case (Cons c s)
  have "squote \<notin> {backslash, CHR ''$'', CHR 0x60}" by (simp add: squote_def backslash_def)
  with Cons show ?case
    by (simp add: option.map_comp comp_def apfst_def map_prod_def case_prod_beta)
qed (simp add: option.map_ident option.map_id apfst_def map_prod_def)

text \<open>The first words of a command line, separated by spaces.\<close>

fun sh_words :: "nat \<Rightarrow> string \<Rightarrow> string list option" where
  "sh_words 0 s = Some []"
| "sh_words (Suc n) s =
     (case sh_word Bare (dropWhile (\<lambda>c. c = CHR '' '') s) of
        None \<Rightarrow> None
      | Some (w, r) \<Rightarrow> map_option (Cons w) (sh_words n r))"

text \<open>The shell reads back exactly the string that was quoted.\<close>

theorem sh_word_shlex_quote:
  "sh_word Bare (shlex_quote s @ CHR '' '' # r) = Some (s, CHR '' '' # r)"
  using sh_word_safe [of s "CHR '' '' # r"] sh_word_single [of s "CHR '' '' # r"]
  by (auto simp: shlex_quote_def)

end
