(* ===== verification/Exit_Node_HA.thy ===== *)
theory Exit_Node_HA
  imports Shell_Quote
begin

text \<open>
  High availability of the Tailscale exit node: the stored configuration and tick state
  (\<^verbatim>\<open>backend/app/tailscale/ha_store.py\<close>), the watchdog that keeps the first online candidate as the
  exit node (\<^verbatim>\<open>backend/app/tailscale/ha_watchdog.py\<close>) and the command it sends
  (\<^verbatim>\<open>set_exit_node\<close> of \<^verbatim>\<open>backend/app/tailscale/client.py\<close>).

  The device is a parameter: a function from its state and a command to the new state and either an
  SSH error or an exit status and output; the JSON decoder gives the peers of a status, \<^const>\<open>None\<close>
  for a peer that is not an object. (A message's arrow is written in ASCII.)
\<close>

section \<open>The stored half\<close>

definition DEFAULT_CHECK_INTERVAL :: int where "DEFAULT_CHECK_INTERVAL = 60"
definition MIN_CHECK_INTERVAL :: int where "MIN_CHECK_INTERVAL = 15"
definition MAX_CHECK_INTERVAL :: int where "MAX_CHECK_INTERVAL = 600"

definition FAILSAFE_MODES :: "string list" where "FAILSAFE_MODES = [''fail_open'', ''keep'']"

record ha_meta =
  m_enabled :: "bool option"
  m_candidates :: "string list option"
  m_interval :: "int option"
  m_failsafe :: "string option"
  m_last_action :: "string option"
  m_last_action_at :: "instant option"
  m_last_detail :: "string option"
  m_last_target :: "string option"
  m_last_switched :: "instant option"

definition empty_meta :: ha_meta where
  "empty_meta = \<lparr>m_enabled = None, m_candidates = None, m_interval = None, m_failsafe = None,
     m_last_action = None, m_last_action_at = None, m_last_detail = None, m_last_target = None,
     m_last_switched = None\<rparr>"

record ha_config =
  enabled :: bool
  candidates :: "string list"
  check_interval :: int
  failsafe_mode :: string
  last_target :: "string option"

definition ha_get :: "ha_meta option \<Rightarrow> ha_config" where
  "ha_get row =
     (let meta = (case row of Some m \<Rightarrow> m | None \<Rightarrow> empty_meta)
      in \<lparr>enabled = (m_enabled meta = Some True),
          candidates = (case m_candidates meta of Some cs \<Rightarrow> cs | None \<Rightarrow> []),
          check_interval = (case m_interval meta of
             Some v \<Rightarrow> if v = 0 then DEFAULT_CHECK_INTERVAL else v | None \<Rightarrow> DEFAULT_CHECK_INTERVAL),
          failsafe_mode = (case m_failsafe meta of
             Some m \<Rightarrow> if m = [] then ''fail_open'' else m | None \<Rightarrow> ''fail_open''),
          last_target = m_last_target meta\<rparr>)"

definition clean_candidates :: "string list \<Rightarrow> string list" where
  "clean_candidates cs = map py_strip (filter (\<lambda>c. py_strip c \<noteq> []) cs)"

text \<open>An unknown failsafe mode is a \<^verbatim>\<open>ValueError\<close> before anything is written.\<close>

definition update_config ::
  "ha_meta option \<Rightarrow> bool option \<Rightarrow> string list option \<Rightarrow> int option \<Rightarrow> string option
     \<Rightarrow> string + ha_meta option" where
  "update_config row en cands interval mode =
     (let meta = (case row of Some m \<Rightarrow> m | None \<Rightarrow> empty_meta);
          meta1 = (case en of Some b \<Rightarrow> meta\<lparr>m_enabled := Some b\<rparr> | None \<Rightarrow> meta);
          meta2 = (case cands of Some cs \<Rightarrow> meta1\<lparr>m_candidates := Some (clean_candidates cs)\<rparr>
                   | None \<Rightarrow> meta1);
          meta3 = (case interval of
                     Some v \<Rightarrow> meta2\<lparr>m_interval := Some (max MIN_CHECK_INTERVAL (min MAX_CHECK_INTERVAL v))\<rparr>
                   | None \<Rightarrow> meta2)
      in case mode of
           None \<Rightarrow> Inr (Some meta3)
         | Some m \<Rightarrow> if m \<in> set FAILSAFE_MODES then Inr (Some (meta3\<lparr>m_failsafe := Some m\<rparr>)) else Inl m)"

definition record_tick ::
  "instant \<Rightarrow> string \<Rightarrow> string \<Rightarrow> string option \<Rightarrow> bool \<Rightarrow> ha_meta option \<Rightarrow> ha_meta option" where
  "record_tick now action detail target switched row =
     map_option (\<lambda>meta.
       let meta1 = meta\<lparr>m_last_action := Some action, m_last_action_at := Some now,
                        m_last_detail := Some detail\<rparr>;
           meta2 = (case target of Some t \<Rightarrow> meta1\<lparr>m_last_target := Some t\<rparr> | None \<Rightarrow> meta1)
       in if switched then meta2\<lparr>m_last_switched := Some now\<rparr> else meta2) row"

section \<open>Peers\<close>

record peer =
  host_name :: string
  dns_name :: string
  tailscale_ips :: "string list"
  is_exit_node :: bool
  exit_node_option :: bool
  online :: bool

definition rstrip_dots :: "string \<Rightarrow> string" where
  "rstrip_dots = rstrip_by (\<lambda>c. c = CHR ''.'')"

definition peer_matches :: "peer \<Rightarrow> string \<Rightarrow> bool" where
  "peer_matches p identifier =
     (let ident = py_lower (py_strip identifier);
          dns = rstrip_dots (py_lower (dns_name p))
      in if ident = [] then False
         else if ident = py_lower (host_name p) then True
         else if dns = ident \<or> starts_with (ident @ ''.'') dns then True
         else ident \<in> set (tailscale_ips p))"

definition same_node :: "string option \<Rightarrow> string option \<Rightarrow> bool" where
  "same_node a b =
     (case (a, b) of
        (Some x, Some y) \<Rightarrow> x \<noteq> [] \<and> y \<noteq> []
           \<and> py_lower (rstrip_dots (py_strip x)) = py_lower (rstrip_dots (py_strip y))
      | _ \<Rightarrow> False)"

definition peer_name :: "peer \<Rightarrow> string option" where
  "peer_name p =
     (if host_name p \<noteq> [] then Some (host_name p)
      else if dns_name p \<noteq> [] then Some (dns_name p)
      else case tailscale_ips p of ip # _ \<Rightarrow> Some ip | [] \<Rightarrow> None)"

fun current_exit :: "peer option list \<Rightarrow> string option" where
  "current_exit [] = None"
| "current_exit (Some p # ps) = (if is_exit_node p then peer_name p else current_exit ps)"
| "current_exit (None # ps) = current_exit ps"

definition eligible :: "peer option list \<Rightarrow> string \<Rightarrow> bool" where
  "eligible ps cand \<longleftrightarrow>
     list_ex (\<lambda>q. case q of None \<Rightarrow> False
                 | Some p \<Rightarrow> peer_matches p cand \<and> online p \<and> exit_node_option p) ps"

fun first_eligible :: "peer option list \<Rightarrow> string list \<Rightarrow> string option" where
  "first_eligible ps [] = None"
| "first_eligible ps (c # cs) = (if eligible ps c then Some c else first_eligible ps cs)"

definition select_target ::
  "peer option list \<Rightarrow> string list \<Rightarrow> string option \<times> string option" where
  "select_target ps cs = (first_eligible ps cs, current_exit ps)"

section \<open>The device\<close>

type_synonym 'd runner = "'d \<Rightarrow> string \<Rightarrow> 'd \<times> (string + int \<times> string)"

definition status_cmd :: string where "status_cmd = ''tailscale status --json 2>&1''"

definition exit_node_cmd :: "string \<Rightarrow> string" where
  "exit_node_cmd target =
     ''tailscale set --exit-node='' @ (if target \<noteq> [] then shlex_quote target else [dquote, dquote])
     @ '' '' @ (if target \<noteq> [] then ''--exit-node-allow-lan-access=true'' else []) @ '' 2>&1''"

definition set_exit_node :: "'d runner \<Rightarrow> 'd \<Rightarrow> string \<Rightarrow> 'd \<times> bool \<times> string" where
  "set_exit_node run d target =
     (case run d (exit_node_cmd target) of
        (d1, Inl e) \<Rightarrow> (d1, False, ''SSH error: '' @ e)
      | (d1, Inr (code, out)) \<Rightarrow> (d1, code = 0, take 400 (py_strip out)))"

section \<open>One tick\<close>

type_synonym decoder = "string \<Rightarrow> peer option list option"

definition ha_tick ::
  "'d runner \<Rightarrow> decoder \<Rightarrow> instant \<Rightarrow> ha_config \<Rightarrow> 'd \<times> ha_meta option \<Rightarrow> 'd \<times> ha_meta option" where
  "ha_tick run decode now cfg st =
     (case st of (d, row) \<Rightarrow> let count = py_str (int (length (candidates cfg))) in
      if candidates cfg = []
      then (d, record_tick now ''noop'' ''no candidates configured'' None False row)
      else (case run d status_cmd of
        (d1, Inl e) \<Rightarrow> (d1, record_tick now ''error'' (''status fetch: '' @ e) None False row)
      | (d1, Inr (_, out)) \<Rightarrow>
        (case decode out of
           None \<Rightarrow> (d1, record_tick now ''error'' ''status not JSON'' None False row)
         | Some ps \<Rightarrow>
           (case select_target ps (candidates cfg) of
              (None, current) \<Rightarrow>
                if failsafe_mode cfg = ''fail_open'' \<and> current \<noteq> None \<and> current \<noteq> Some [] then
                  (case set_exit_node run d1 [] of
                     (d2, True, _) \<Rightarrow>
                       (d2, record_tick now ''killswitch_open''
                              (''all '' @ count @ '' candidate(s) offline; dropped exit-node ''
                               @ py_repr_opt current @ '' > WAN fallback'')
                              (Some []) True row)
                   | (d2, False, out2) \<Rightarrow>
                       (d2, record_tick now ''error''
                              (''failsafe: set --exit-node='' @ [squote, squote] @ '' failed: '' @ take 200 out2) current False row))
                else (d1, record_tick now ''down''
                           (''all '' @ count @ '' candidate(s) offline; kept current='' @ py_repr_opt current)
                           current False row)
            | (Some c, current) \<Rightarrow>
                if same_node (Some c) current
                then (d1, record_tick now ''noop'' (''current='' @ py_repr_opt current) current False row)
                else (case set_exit_node run d1 c of
                   (d2, True, _) \<Rightarrow>
                     (d2, record_tick now ''set''
                            (''switched '' @ py_repr_opt current @ '' > '' @ py_repr c) (Some c) True row)
                 | (d2, False, out2) \<Rightarrow>
                     (d2, record_tick now ''error''
                            (''set --exit-node failed: '' @ take 200 out2) current False row))))))"

text \<open>One round of the endless loop: the state after it and how long it sleeps.\<close>

definition watchdog_round ::
  "'d runner \<Rightarrow> decoder \<Rightarrow> instant \<Rightarrow> 'd \<times> ha_meta option \<Rightarrow> int \<times> 'd \<times> ha_meta option" where
  "watchdog_round run decode now st =
     (let cfg = ha_get (snd st)
      in (check_interval cfg, if enabled cfg then ha_tick run decode now cfg st else st))"

fun watchdog_rounds ::
  "'d runner \<Rightarrow> decoder \<Rightarrow> instant list \<Rightarrow> 'd \<times> ha_meta option \<Rightarrow> 'd \<times> ha_meta option" where
  "watchdog_rounds run decode [] st = st"
| "watchdog_rounds run decode (now # ts) st =
     watchdog_rounds run decode ts (snd (watchdog_round run decode now st))"

section \<open>What a tick does to the device\<close>

lemma first_eligible_find: "first_eligible ps cs = find (eligible ps) cs"
  by (induction cs) simp_all

lemma set_exit_node_device [simp]: "fst (set_exit_node run d t) = fst (run d (exit_node_cmd t))"
  by (simp add: set_exit_node_def split: prod.splits sum.splits)

lemma ha_tick_device:
  assumes "candidates cfg \<noteq> []" "run d status_cmd = (d1, Inr (code, out))" "decode out = Some ps"
  shows "fst (ha_tick run decode now cfg (d, row)) =
    (case find (eligible ps) (candidates cfg) of
       Some c \<Rightarrow> if same_node (Some c) (current_exit ps) then d1 else fst (run d1 (exit_node_cmd c))
     | None \<Rightarrow> if failsafe_mode cfg = ''fail_open'' \<and> current_exit ps \<notin> {None, Some []}
               then fst (run d1 (exit_node_cmd [])) else d1)"
proof (cases "find (eligible ps) (candidates cfg)")
  case None
  obtain d2 ok out2 where "set_exit_node run d1 [] = (d2, ok, out2)"
    by (cases "set_exit_node run d1 []")
  with None assms set_exit_node_device [of run d1 "[]"] show ?thesis
    by (cases ok; cases "current_exit ps")
      (simp_all add: ha_tick_def select_target_def first_eligible_find Let_def)
next
  case (Some c)
  obtain d2 ok out2 where "set_exit_node run d1 c = (d2, ok, out2)"
    by (cases "set_exit_node run d1 c")
  with Some assms set_exit_node_device [of run d1 c] show ?thesis
    by (cases ok) (simp_all add: ha_tick_def select_target_def first_eligible_find Let_def)
qed

lemma ha_get_record_tick:
  "ha_get (record_tick now action detail target switched row) =
     (ha_get row)\<lparr>last_target := (case row of None \<Rightarrow> last_target (ha_get row)
        | Some _ \<Rightarrow> (case target of Some t \<Rightarrow> Some t | None \<Rightarrow> last_target (ha_get row)))\<rparr>"
  by (cases row; cases target) (simp_all add: ha_get_def record_tick_def Let_def)

lemma ha_tick_row:
  "\<exists>action detail target switched.
     snd (ha_tick run decode now cfg st) = record_tick now action detail target switched (snd st)"
  by (cases st) (auto simp: ha_tick_def select_target_def Let_def
      split: option.splits prod.splits sum.splits bool.splits)

definition same_config :: "ha_config \<Rightarrow> ha_config \<Rightarrow> bool" where
  "same_config a b \<longleftrightarrow> b = a\<lparr>last_target := last_target b\<rparr>"

lemma same_config_trans: "same_config a b \<Longrightarrow> same_config b c \<Longrightarrow> same_config a c"
  unfolding same_config_def by (metis ha_config.update_convs(5) ha_config.surjective)

lemma watchdog_round_config: "same_config (ha_get (snd st)) (ha_get (snd (snd (watchdog_round run decode now st))))"
  using ha_tick_row [of run decode now "ha_get (snd st)" st]
  by (auto simp: watchdog_round_def Let_def same_config_def ha_get_record_tick)

section \<open>Properties\<close>


text \<open>A device that logs its commands, whose status always shows one peer as the exit node.\<close>

definition sample_peer :: peer where
  "sample_peer = \<lparr>host_name = ''UI-ETR-P'', dns_name = ''ui-etr-p.tail.ts.net.'',
     tailscale_ips = [''100.64.0.7''], is_exit_node = True, exit_node_option = True, online = True\<rparr>"

definition sample_run :: "string list runner" where
  "sample_run d cmd = (if cmd = status_cmd then (d, Inr (0, ''{}'')) else (cmd # d, Inr (0, [])))"

definition sample_cfg :: "string list \<Rightarrow> ha_config" where
  "sample_cfg cs = \<lparr>enabled = True, candidates = cs, check_interval = 60,
                   failsafe_mode = ''fail_open'', last_target = None\<rparr>"

lemma sample_eval:
  "eligible [Some sample_peer] ''ui-etr-p''" "\<not> eligible [Some sample_peer] ''other''"
  "same_node (Some ''ui-etr-p'') (current_exit [Some sample_peer])"
  "peer_matches sample_peer ''100.64.0.7''"
  "\<not> same_node (Some ''100.64.0.7'') (peer_name sample_peer)"
  "exit_node_cmd ''100.64.0.7'' \<noteq> status_cmd"
  by code_simp+


text \<open>
  C14. When the watchdog settles. On a device whose exit node is the peer that the configured candidate
  stands for, the rounds send nothing exactly when the candidate is spelled like the name the status
  gives that peer; otherwise (a candidate given as a Tailscale IP, or as a DNS name of a peer that has
  a host name) every round sets the exit node again.
\<close>

theorem watchdog_settles_or_thrashes:
  assumes "\<And>d. run d status_cmd = (d, Inr (0, out))" "decode out = Some [Some p]"
    and "\<And>d. fst (run d (exit_node_cmd c)) = f d"
    and "is_exit_node p" "online p" "exit_node_option p" "peer_matches p c"
    and "enabled (ha_get row)" "candidates (ha_get row) = [c]"
  shows "fst (watchdog_rounds run decode ts (d, row)) =
           (if same_node (Some c) (peer_name p) then d else (f ^^ length ts) d)"
  using assms(8,9)
proof (induction ts arbitrary: d row)
  case (Cons t ts)
  obtain d1 row1 where st: "snd (watchdog_round run decode t (d, row)) = (d1, row1)"
    by (cases "snd (watchdog_round run decode t (d, row))")
  have "d1 = (if same_node (Some c) (peer_name p) then d else f d)"
    using st ha_tick_device [of "ha_get row" run d d 0 out decode "[Some p]" t row] assms Cons.prems
    by (auto simp: watchdog_round_def Let_def eligible_def dest: arg_cong [of _ _ fst])
  moreover have "enabled (ha_get row1)" "candidates (ha_get row1) = [c]"
    using st watchdog_round_config [of "(d, row)" run decode t] Cons.prems
    by (simp_all add: same_config_def) (metis ha_config.select_convs ha_config.surjective ha_config.update_convs(5))+
  ultimately show ?case
    using Cons.IH st by (simp add: funpow_swap1)
qed simp

definition sample_row :: "string \<Rightarrow> ha_meta option" where
  "sample_row c = Some (empty_meta\<lparr>m_enabled := Some True, m_candidates := Some [c]\<rparr>)"

lemma watchdog_settles_or_thrashes_witness:
  "fst (watchdog_rounds (\<lambda>n cmd. if cmd = status_cmd then (n, Inr (0, [])) else (Suc n, Inr (0, [])))
     (\<lambda>_. Some [Some sample_peer]) (replicate 1440 0) (0, sample_row ''100.64.0.7'')) = 1440"
proof -
  let ?run = "\<lambda>n cmd. if cmd = status_cmd then (n, Inr (0, [])) else (Suc n, Inr (0, []))"
  have "(Suc ^^ n) m = n + m" for n m by (induction n) simp_all
  then show ?thesis
    using sample_eval watchdog_settles_or_thrashes [of ?run "[]" "\<lambda>_. Some [Some sample_peer]" sample_peer
        "''100.64.0.7''" Suc "sample_row ''100.64.0.7''" "replicate 1440 0" 0]
    by (simp add: sample_row_def ha_get_def empty_meta_def Let_def) (simp add: sample_peer_def)
qed

text \<open>
  No candidate can inject a command: whatever string is set as the exit node, the shell of the
  device reads the command as \<open>tailscale set\<close> with that very string as the value of its option.
\<close>

theorem exit_node_argument_is_target:
  "sh_words 3 (exit_node_cmd t) = Some [''tailscale'', ''set'', ''--exit-node='' @ t]"
proof -
  let ?q = "if t \<noteq> [] then shlex_quote t else [dquote, dquote]"
  have "sh_word Bare (?q @ CHR '' '' # r) = Some (t, CHR '' '' # r)" for r
    using sh_word_shlex_quote [of t r] by (simp add: squote_def dquote_def)
  then have option_word: "sh_word Bare (''--exit-node='' @ ?q @ CHR '' '' # r) = Some (''--exit-node='' @ t, CHR '' '' # r)" for r
    using sh_word_safe [of "''--exit-node=''" "?q @ CHR '' '' # r"] by (simp add: shell_safe_def char_class_defs)
  have first: "sh_word Bare (''tailscale'' @ CHR '' '' # r) = Some (''tailscale'', CHR '' '' # r)"
    "sh_word Bare (''set'' @ CHR '' '' # r) = Some (''set'', CHR '' '' # r)" for r
    using sh_word_safe [of "''tailscale''" "CHR '' '' # r"] sh_word_safe [of "''set''" "CHR '' '' # r"]
    by (simp_all add: shell_safe_def char_class_defs)
  obtain r where cmd: "exit_node_cmd t = ''tailscale'' @ CHR '' '' # ''set'' @ CHR '' '' # ''--exit-node='' @ ?q @ CHR '' '' # r"
    by (simp add: exit_node_cmd_def)
  have head: "dropWhile (\<lambda>c. c = CHR '' '') (''tailscale'' @ s) = ''tailscale'' @ s"
    "dropWhile (\<lambda>c. c = CHR '' '') (CHR '' '' # ''set'' @ s) = ''set'' @ s"
    "dropWhile (\<lambda>c. c = CHR '' '') (CHR '' '' # ''--exit-node='' @ s) = ''--exit-node='' @ s" for s
    by simp_all
  show ?thesis
    unfolding cmd numeral_3_eq_3 sh_words.simps head first option_word by (simp only: option.case prod.case head first option_word option.map)
qed

text \<open>Any use of the store: configuration updates (refused or not) and ticks of the watchdog.\<close>

datatype ha_op =
  Update "bool option" "string list option" "int option" "string option"
| Tick instant string string "string option" bool

fun ha_apply :: "ha_meta option \<Rightarrow> ha_op \<Rightarrow> ha_meta option" where
  "ha_apply row (Update en cs v m) = (case update_config row en cs v m of Inl _ \<Rightarrow> row | Inr r \<Rightarrow> r)"
| "ha_apply row (Tick now a dt t sw) = record_tick now a dt t sw row"

definition config_ok :: "ha_config \<Rightarrow> bool" where
  "config_ok cfg \<longleftrightarrow> 15 \<le> check_interval cfg \<and> check_interval cfg \<le> 600
     \<and> list_all (\<lambda>c. c \<noteq> [] \<and> py_strip c = c) (candidates cfg)
     \<and> failsafe_mode cfg \<in> set FAILSAFE_MODES"

lemma clean_candidates_ok: "list_all (\<lambda>c. c \<noteq> [] \<and> py_strip c = c) (clean_candidates cs)"
  by (auto simp: clean_candidates_def list_all_iff)

lemma config_ok_empty: "config_ok (ha_get None)"
  by (simp add: config_ok_def ha_get_def empty_meta_def DEFAULT_CHECK_INTERVAL_def FAILSAFE_MODES_def)

lemma config_ok_updates:
  assumes "config_ok (ha_get (Some meta))"
  shows "config_ok (ha_get (Some (meta\<lparr>m_enabled := b\<rparr>)))"
    "config_ok (ha_get (Some (meta\<lparr>m_candidates := Some (clean_candidates cs)\<rparr>)))"
    "config_ok (ha_get (Some (meta\<lparr>m_interval :=
       Some (max MIN_CHECK_INTERVAL (min MAX_CHECK_INTERVAL v))\<rparr>)))"
    "m \<in> set FAILSAFE_MODES \<Longrightarrow> config_ok (ha_get (Some (meta\<lparr>m_failsafe := Some m\<rparr>)))"
  using assms clean_candidates_ok [of cs]
  by (simp_all add: config_ok_def ha_get_def Let_def MIN_CHECK_INTERVAL_def MAX_CHECK_INTERVAL_def
      FAILSAFE_MODES_def) auto

lemma update_config_ok:
  assumes "config_ok (ha_get row)" "update_config row en cs v m = Inr row'"
  shows "config_ok (ha_get row')"
proof -
  have "ha_get (Some empty_meta) = ha_get None" by (simp add: ha_get_def)
  with assms(1) have "config_ok (ha_get (Some (case row of Some m \<Rightarrow> m | None \<Rightarrow> empty_meta)))"
    by (cases row) simp_all
  with assms(2) show ?thesis
    unfolding update_config_def Let_def
    by (cases en; cases cs; cases v) (auto intro!: config_ok_updates split: option.splits if_splits)
qed

lemma record_tick_ok:
  "config_ok (ha_get (record_tick now a dt t sw row)) = config_ok (ha_get row)"
  by (simp add: ha_get_record_tick config_ok_def)

text \<open>
  The stored configuration is always one the watchdog can run with: from an empty database, after
  any updates (refused ones included) and ticks, the check interval is between 15 and 600 seconds,
  the candidates are stripped and not empty, and the failsafe mode is a known one.
\<close>

theorem ha_config_always_ok: "config_ok (ha_get (foldl ha_apply None ops))"
proof (induction ops rule: rev_induct)
  case (snoc op ops)
  then show ?case
    by (cases op) (auto simp: record_tick_ok intro: update_config_ok split: sum.splits)
qed (simp add: config_ok_empty)

end
