(* ===== verification/Tag_Codec.thy ===== *)
theory Tag_Codec
  imports Main
begin

text \<open>
  The contract between the code that labels firewall rules and the code that reads the labels back: a
  label decodes to what it encodes. What a reader of labels recovers from a list of them, and that
  labels of different things differ, follows from it alone.
\<close>

locale tag_codec =
  fixes encode :: "'a \<Rightarrow> 't"
    and decode :: "'t \<Rightarrow> 'a option"
    and good :: "'a \<Rightarrow> bool"
  assumes decode_encode: "good x \<Longrightarrow> decode (encode x) = Some x"
begin

lemma encode_inj: "good x \<Longrightarrow> good y \<Longrightarrow> encode x = encode y \<Longrightarrow> x = y"
  by (metis decode_encode option.inject)

text \<open>What a reader collects, in order, from the labels it can decode.\<close>

lemma recover_list: "\<forall>x\<in>set xs. good x \<Longrightarrow> List.map_filter decode (map encode xs) = xs"
  by (induction xs) (simp_all add: map_filter_simps decode_encode)

lemma recover_set:
  assumes "\<forall>x\<in>set xs. good x" "\<forall>t\<in>set junk. decode t = None"
    and "set ts = encode ` set xs \<union> set junk"
  shows "set (List.map_filter decode ts) = set xs"
proof -
  have "set (List.map_filter decode ts) = {x. \<exists>t\<in>set ts. decode t = Some x}"
    by (force simp: List.map_filter_def)
  with assms decode_encode show ?thesis by auto fastforce+
qed

end

end
