(* ===== verification/Ts_Tags.thy ===== *)
theory Ts_Tags
  imports Py_Int Tag_Codec
begin

text \<open>
  The comment tags that mark the firewall rules of the forwarding reconciler
  (\<^verbatim>\<open>backend/app/tailscale/forwarding.py\<close>): each encodes a source zone and a destination CIDR, and
  discovery decodes them to know which rules are live.
\<close>

definition TS_ZONE_NAME :: string where "TS_ZONE_NAME = ''tailscale0''"
definition FWD_TAG_PREFIX :: string where "FWD_TAG_PREFIX = ''SC_FR_TS_FWD_''"
definition SNAT_TAG_PREFIX :: string where "SNAT_TAG_PREFIX = ''SC_FR_TS_SNAT_''"
definition TOR_TAG_PREFIX :: string where "TOR_TAG_PREFIX = ''SC_FR_TS_TOR_''"

lemmas tag_prefixes = TS_ZONE_NAME_def FWD_TAG_PREFIX_def SNAT_TAG_PREFIX_def TOR_TAG_PREFIX_def

section \<open>Encoding\<close>

definition dest_slug :: "string \<Rightarrow> string" where
  "dest_slug cidr = py_replace (CHR ''.'') (CHR ''_'') (py_replace (CHR ''/'') (CHR ''_'') cidr)"

definition fwd_tag :: "string \<Rightarrow> string \<Rightarrow> string" where
  "fwd_tag zone cidr = FWD_TAG_PREFIX @ py_upper zone @ ''_'' @ dest_slug cidr"

definition snat_tag :: "string \<Rightarrow> string \<Rightarrow> string" where
  "snat_tag zone cidr = SNAT_TAG_PREFIX @ py_upper zone @ ''_'' @ dest_slug cidr"

definition tor_tag :: "string \<Rightarrow> string \<Rightarrow> string \<Rightarrow> string" where
  "tor_tag zone cidr proto =
     TOR_TAG_PREFIX @ py_upper zone @ ''_'' @ dest_slug cidr @ ''_'' @ py_upper proto"

section \<open>Decoding\<close>

text \<open>
  \<^verbatim>\<open>{s.zone.upper(): s.zone for s in subnets}\<close>, and its keys by decreasing length (Python's reversed
  sort keeps the order of equal keys).
\<close>

definition zones_by_upper :: "string list \<Rightarrow> (string, string) dict" where
  "zones_by_upper zones = foldl (\<lambda>d z. dict_set (py_upper z) z d) [] zones"

definition by_length :: "(string, string) dict \<Rightarrow> (string \<times> string) list" where
  "by_length d = sort_key (\<lambda>kv. - int (length (fst kv))) d"

definition decode_dest :: "string \<Rightarrow> string option" where
  "decode_dest slug =
     (if CHR ''_'' \<notin> set slug then None
      else case py_rpartition (CHR ''_'') slug of
        (head, len) \<Rightarrow> Some (py_replace (CHR ''_'') (CHR ''.'') head @ ''/'' @ len))"

fun decode_zone :: "(string \<times> string) list \<Rightarrow> string \<Rightarrow> (string \<times> string) option" where
  "decode_zone [] rest = None"
| "decode_zone ((upper, zone) # zs) rest =
     (if starts_with (upper @ ''_'') rest
      then map_option (Pair zone) (decode_dest (drop (length upper + 1) rest))
      else decode_zone zs rest)"

definition decode_tag :: "string list \<Rightarrow> string \<Rightarrow> string \<Rightarrow> (string \<times> string) option" where
  "decode_tag zones pfx tag =
     (if \<not> starts_with pfx tag then None
      else decode_zone (by_length (zones_by_upper zones)) (drop (length pfx) tag))"

definition tags_to_pairs :: "string list \<Rightarrow> string \<Rightarrow> string list \<Rightarrow> (string \<times> string) list" where
  "tags_to_pairs zones pfx tags = List.map_filter (decode_tag zones pfx) tags"

text \<open>A Tor tag carries the protocol as a suffix, which is stripped first.\<close>

definition decode_tor_tag :: "string list \<Rightarrow> string \<Rightarrow> (string \<times> string) option" where
  "decode_tor_tag zones t =
     (if ends_with ''_TCP'' t \<or> ends_with ''_UDP'' t
      then decode_tag zones TOR_TAG_PREFIX (take (length t - 4) t) else None)"

section \<open>When a tag decodes to what it encodes\<close>

text \<open>
  A destination written as an address, a slash and a length; and zones of which no longer one, put in
  upper case, reads as the beginning of this zone's tag.
\<close>

definition plain_cidr :: "string \<Rightarrow> bool" where
  "plain_cidr c \<longleftrightarrow> CHR ''/'' \<in> set c \<and> CHR ''_'' \<notin> set c \<and>
     CHR ''/'' \<notin> set (snd (py_partition (CHR ''/'') c)) \<and>
     CHR ''.'' \<notin> set (snd (py_partition (CHR ''/'') c))"

definition unambiguous :: "string list \<Rightarrow> string \<Rightarrow> string \<Rightarrow> bool" where
  "unambiguous zones zone cidr \<longleftrightarrow>
     plain_cidr cidr \<and> zone \<in> set zones \<and>
     list_all (\<lambda>z. z = zone \<or> \<not> starts_with (py_upper z @ ''_'')
                                (py_upper zone @ ''_'' @ dest_slug cidr)) zones"

lemma partition_parts: "d \<in> set s \<Longrightarrow> s = fst (py_partition d s) @ d # snd (py_partition d s)"
  by (induction s) (auto simp: py_partition_def)

lemma partition_fst_no_sep: "d \<notin> set (fst (py_partition d s))"
  by (auto simp: py_partition_def dest: set_takeWhileD)

lemma plain_cidr_cases:
  assumes "plain_cidr c"
  obtains h p where "c = h @ ''/'' @ p" "CHR ''/'' \<notin> set h" "CHR ''_'' \<notin> set h"
    "CHR ''/'' \<notin> set p" "CHR ''.'' \<notin> set p" "CHR ''_'' \<notin> set p"
proof -
  let ?h = "fst (py_partition (CHR ''/'') c)" and ?p = "snd (py_partition (CHR ''/'') c)"
  have c: "c = ?h @ ''/'' @ ?p"
    using assms partition_parts [of "CHR ''/''" c] by (simp add: plain_cidr_def)
  have "set c = set ?h \<union> insert (CHR ''/'') (set ?p)"
    using arg_cong [OF c, of set] by simp
  then have "CHR ''_'' \<notin> set ?h" "CHR ''_'' \<notin> set ?p"
    using assms by (auto simp: plain_cidr_def)
  with assms show thesis
    using that [OF c] partition_fst_no_sep [of "CHR ''/''" c] by (simp add: plain_cidr_def)
qed

lemma py_replace_absent [simp]: "a \<notin> set s \<Longrightarrow> py_replace a b s = s"
  by (induction s) auto

lemma set_py_replace: "a \<noteq> b \<Longrightarrow> a \<notin> set (py_replace a b s)"
  by (induction s) auto

lemma decode_dest_slug:
  assumes "plain_cidr c"
  shows "decode_dest (dest_slug c) = Some c"
proof -
  from assms obtain h p where c: "c = h @ ''/'' @ p" "CHR ''/'' \<notin> set h" "CHR ''_'' \<notin> set h"
    "CHR ''/'' \<notin> set p" "CHR ''.'' \<notin> set p" "CHR ''_'' \<notin> set p"
    by (rule plain_cidr_cases)
  then have "dest_slug c = py_replace (CHR ''.'') (CHR ''_'') h @ CHR ''_'' # p"
    by (simp add: dest_slug_def)
  with c show ?thesis
    by (simp add: decode_dest_def py_rpartition_append py_replace_back)
qed

lemma dict_get_zones_by_upper:
  "dict_get (zones_by_upper zones) u = find (\<lambda>z. py_upper z = u) (rev zones)"
  unfolding zones_by_upper_def by (induction zones rule: rev_induct) auto

lemma distinct_zones_by_upper: "distinct (dict_keys (zones_by_upper zones))"
  unfolding zones_by_upper_def by (induction zones rule: rev_induct) (simp_all add: distinct_update)

lemma zones_by_upper_entry:
  assumes "(u, z) \<in> set (zones_by_upper zones)"
  shows "u = py_upper z \<and> z \<in> set zones"
proof -
  have "dict_get (zones_by_upper zones) u = Some z"
    using assms distinct_zones_by_upper by simp
  then show ?thesis
    unfolding dict_get_zones_by_upper find_Some_iff by (metis length_rev nth_mem set_rev)
qed

lemma decode_zone_unique:
  assumes "(py_upper zone, zone) \<in> set zs"
    and "\<forall>(u, z)\<in>set zs. z = zone \<and> u = py_upper zone \<or> \<not> starts_with (u @ ''_'') rest"
    and "rest = py_upper zone @ ''_'' @ slug"
  shows "decode_zone zs rest = map_option (Pair zone) (decode_dest slug)"
  using assms by (induction zs) auto

lemma decode_tag_encode:
  assumes "unambiguous zones zone cidr"
  shows "decode_tag zones pfx (pfx @ py_upper zone @ ''_'' @ dest_slug cidr) = Some (zone, cidr)"
proof -
  let ?zs = "by_length (zones_by_upper zones)" and ?rest = "py_upper zone @ ''_'' @ dest_slug cidr"
  have set: "set ?zs = set (zones_by_upper zones)" by (simp add: by_length_def)
  have ok: "plain_cidr cidr" "zone \<in> set zones"
    "\<And>z. z \<in> set zones \<Longrightarrow> z = zone \<or> \<not> starts_with (py_upper z @ ''_'') ?rest"
    using assms by (auto simp: unambiguous_def list_all_iff)
  obtain z where z: "dict_get (zones_by_upper zones) (py_upper zone) = Some z"
    using ok(2) by (cases "find (\<lambda>z. py_upper z = py_upper zone) (rev zones)")
      (auto simp: dict_get_zones_by_upper find_None_iff)
  from zones_by_upper_entry [OF map_of_SomeD [OF z]] have "py_upper zone = py_upper z" "z \<in> set zones"
    by auto
  moreover have "starts_with (py_upper zone @ ''_'') ?rest"
    unfolding starts_with_iff by simp
  ultimately have "z = zone" using ok(3) by metis
  with z have "(py_upper zone, zone) \<in> set ?zs" by (simp add: set map_of_SomeD)
  moreover have "\<forall>(u, z)\<in>set ?zs. z = zone \<and> u = py_upper zone \<or> \<not> starts_with (u @ ''_'') ?rest"
    using ok(3) zones_by_upper_entry by (fastforce simp: set)
  ultimately have "decode_zone ?zs ?rest = map_option (Pair zone) (decode_dest (dest_slug cidr))"
    by (rule decode_zone_unique) simp
  with decode_dest_slug [OF ok(1)] show ?thesis by (simp add: decode_tag_def)
qed

lemma py_upper_underscore [simp]: "CHR ''_'' \<in> set (py_upper z) \<longleftrightarrow> CHR ''_'' \<in> set z"
proof -
  have "CHR ''_'' = char_upper c \<longleftrightarrow> c = CHR ''_''" for c
  proof (cases "py_islower c")
    case True
    then have b: "of_char c \<le> (122 :: nat)" "(97 :: nat) \<le> of_char c"
      by (simp_all add: py_islower_def char_le_code)
    then have "of_char (char_upper c) = (of_char c - 32 :: nat)"
      using True by (simp add: char_upper_def of_char_of)
    with b have "char_upper c \<noteq> CHR ''_''" "c \<noteq> CHR ''_''"
      by auto
    then show ?thesis by metis
  qed (auto simp: char_upper_def)
  then show ?thesis by (simp add: py_upper_def image_iff)
qed

text \<open>Zones without underscores, distinct up to case, are never ambiguous.\<close>

lemma unambiguous_plain_zones:
  assumes "plain_cidr cidr" "zone \<in> set zones" "distinct (map py_upper zones)"
    and "\<forall>z\<in>set zones. CHR ''_'' \<notin> set z"
  shows "unambiguous zones zone cidr"
proof -
  have "z = zone" if "z \<in> set zones" "starts_with (py_upper z @ ''_'') (py_upper zone @ ''_'' @ s)" for z s
  proof -
    from that obtain r where "py_upper zone @ CHR ''_'' # s = py_upper z @ CHR ''_'' # r"
      by (auto simp: starts_with_iff)
    moreover have "CHR ''_'' \<notin> set (py_upper zone)" "CHR ''_'' \<notin> set (py_upper z)"
      using assms(2,4) that(1) by simp_all
    ultimately have "py_upper zone = py_upper z"
      by (metis fst_conv py_partition_append)
    with assms(2,3) that(1) show ?thesis by (metis distinct_map inj_onD)
  qed
  with assms show ?thesis by (auto simp: unambiguous_def list_all_iff)
qed

section \<open>The codecs of the three kinds of rule\<close>

definition tag_good :: "string list \<Rightarrow> string \<times> string \<Rightarrow> bool" where
  "tag_good zones p \<longleftrightarrow> unambiguous zones (fst p) (snd p)"

interpretation fwd: tag_codec
  "\<lambda>(z, c). fwd_tag z c" "decode_tag zones FWD_TAG_PREFIX" "tag_good zones"
  by unfold_locales (auto simp: tag_good_def fwd_tag_def decode_tag_encode [simplified])

interpretation snat: tag_codec
  "\<lambda>(z, c). snat_tag z c" "decode_tag zones SNAT_TAG_PREFIX" "tag_good zones"
  by unfold_locales (auto simp: tag_good_def snat_tag_def decode_tag_encode [simplified])

lemma decode_tor_tag_encode:
  "proto \<in> {''tcp'', ''udp''} \<Longrightarrow> unambiguous zones zone cidr \<Longrightarrow>
   decode_tor_tag zones (tor_tag zone cidr proto) = Some (zone, cidr)"
proof -
  assume "proto \<in> {''tcp'', ''udp''}" and ok: "unambiguous zones zone cidr"
  moreover have "py_upper ''tcp'' = ''TCP''" "py_upper ''udp'' = ''UDP''" by code_simp+
  ultimately obtain sfx where "py_upper proto = sfx" "sfx = ''TCP'' \<or> sfx = ''UDP''" by auto
  with decode_tag_encode [OF ok, of TOR_TAG_PREFIX] show ?thesis
    by (auto simp: decode_tor_tag_def tor_tag_def ends_with_def)
qed

interpretation tor_tcp: tag_codec
  "\<lambda>(z, c). tor_tag z c ''tcp''" "decode_tor_tag zones" "tag_good zones"
  by unfold_locales (auto simp: tag_good_def decode_tor_tag_encode)

interpretation tor_udp: tag_codec
  "\<lambda>(z, c). tor_tag z c ''udp''" "decode_tor_tag zones" "tag_good zones"
  by unfold_locales (auto simp: tag_good_def decode_tor_tag_encode)

section \<open>Properties\<close>

text \<open>
  C8. Discovery recovers the live pairs: from the tags of any rules between unambiguous pairs, mixed
  with any tags that do not decode, the reader gets exactly those pairs.
\<close>

theorem forward_tags_recovered:
  assumes "\<forall>p\<in>set ps. unambiguous zones (fst p) (snd p)"
    and "\<forall>t\<in>set junk. decode_tag zones FWD_TAG_PREFIX t = None"
    and "set tags = (\<lambda>(z, c). fwd_tag z c) ` set ps \<union> set junk"
  shows "set (tags_to_pairs zones FWD_TAG_PREFIX tags) = set ps"
  unfolding tags_to_pairs_def
  using assms by (intro fwd.recover_set [of _ zones junk]) (simp_all add: tag_good_def)

lemma forward_tags_recovered_witness:
  "set (tags_to_pairs [''nexus'', ''iot''] FWD_TAG_PREFIX
     [''SC_FR_TS_FWD_GONE_10_0_0_0_8'', ''SC_FR_TS_FWD_IOT_10_13_69_0_24'',
      ''SC_FR_TS_FWD_NEXUS_0_0_0_0_0'']) = {(''iot'', ''10.13.69.0/24''), (''nexus'', ''0.0.0.0/0'')}"
proof -
  have "unambiguous [''nexus'', ''iot''] ''iot'' ''10.13.69.0/24''"
    "unambiguous [''nexus'', ''iot''] ''nexus'' ''0.0.0.0/0''"
    "decode_tag [''nexus'', ''iot''] FWD_TAG_PREFIX ''SC_FR_TS_FWD_GONE_10_0_0_0_8'' = None"
    "fwd_tag ''iot'' ''10.13.69.0/24'' = ''SC_FR_TS_FWD_IOT_10_13_69_0_24''"
    "fwd_tag ''nexus'' ''0.0.0.0/0'' = ''SC_FR_TS_FWD_NEXUS_0_0_0_0_0''"
    by code_simp+
  then show ?thesis
    using forward_tags_recovered [of "[(''iot'', ''10.13.69.0/24''), (''nexus'', ''0.0.0.0/0'')]"
        "[''nexus'', ''iot'']" "[''SC_FR_TS_FWD_GONE_10_0_0_0_8'']"
        "[''SC_FR_TS_FWD_GONE_10_0_0_0_8'', ''SC_FR_TS_FWD_IOT_10_13_69_0_24'',
          ''SC_FR_TS_FWD_NEXUS_0_0_0_0_0'']"]
    by simp
qed

lemma map_append_parts:
  "py_upper (a @ b) = py_upper a @ py_upper b" "dest_slug (a @ b) = dest_slug a @ dest_slug b"
  "dest_slug (CHR ''.'' # b) = CHR ''_'' # dest_slug b" "py_upper (CHR ''_'' # b) = CHR ''_'' # py_upper b"
  by (simp_all add: py_upper_def dest_slug_def char_upper_def py_islower_def char_le_code)

text \<open>
  Zones with underscores break the encoding: when one zone is called like another followed by an
  underscore and some digits, the tag of the other zone's rule to an address that starts with those
  digits is the tag of a rule of the longer zone, and is read so.
\<close>

theorem underscore_zone_is_misread:
  assumes "list_all py_isdigit n" "plain_cidr rest"
  shows "fwd_tag z (n @ ''.'' @ rest) = fwd_tag (z @ ''_'' @ n) rest
    \<and> decode_tag [z, z @ ''_'' @ n] FWD_TAG_PREFIX (fwd_tag z (n @ ''.'' @ rest))
        = Some (z @ ''_'' @ n, rest)"
proof -
  have n: "py_upper n = n" "dest_slug n = n"
    using assms(1)
    by (induction n) (auto simp: py_upper_def dest_slug_def char_upper_def py_islower_def
        py_isdigit_def char_le_code)
  let ?u = "py_upper z @ ''_'' @ n"
  have u: "char_upper CHR ''_'' = CHR ''_''" by code_simp
  have tag: "fwd_tag z (n @ ''.'' @ rest) = FWD_TAG_PREFIX @ ?u @ ''_'' @ dest_slug rest"
    "fwd_tag (z @ ''_'' @ n) rest = FWD_TAG_PREFIX @ ?u @ ''_'' @ dest_slug rest"
    by (simp_all add: fwd_tag_def map_append_parts n u)
  have "by_length (zones_by_upper [z, z @ ''_'' @ n]) = [(?u, z @ ''_'' @ n), (py_upper z, z)]"
    by (simp add: by_length_def zones_by_upper_def map_append_parts n u)
  moreover have "starts_with (?u @ ''_'') (?u @ ''_'' @ dest_slug rest)"
    unfolding starts_with_iff by simp
  ultimately have "decode_tag [z, z @ ''_'' @ n] FWD_TAG_PREFIX (FWD_TAG_PREFIX @ ?u @ ''_'' @ dest_slug rest)
      = Some (z @ ''_'' @ n, rest)"
    using decode_dest_slug [OF assms(2)] by (simp add: decode_tag_def)
  with tag show ?thesis by simp
qed

lemma underscore_zone_is_misread_witness:
  "decode_tag [''lan'', ''lan_10''] FWD_TAG_PREFIX (fwd_tag ''lan'' ''10.0.0.0/8'') = Some (''lan_10'', ''0.0.0/8'')"
proof -
  have "list_all py_isdigit ''10''" "plain_cidr ''0.0.0/8''" by code_simp+
  from underscore_zone_is_misread [OF this, of "''lan''"] show ?thesis unfolding append.simps by (rule conjunct2)
qed

end
