(* ===== verification/Ts_Discover.thy ===== *)
theory Ts_Discover
  imports Ts_Tags Shell_Quote
    "HOL-Library.List_Lexorder" "HOL-Library.Product_Lexorder"
begin

text \<open>
  Discovery of the live forwarding state (\<^verbatim>\<open>discover_state\<close> and its parsers in
  \<^verbatim>\<open>backend/app/tailscale/forwarding.py\<close>): one SSH command prints the network and firewall
  configuration and the tagged rules in labelled sections, and the parser folds over its lines.

  Python's sets of tags and pairs are lists without duplicates here; their order is not observed.
\<close>

unbundle bit_operations_syntax

definition single_quoted :: "string \<Rightarrow> string" where
  "single_quoted s = squote # s @ [squote]"

section \<open>Addresses\<close>

text \<open>\<^verbatim>\<open>bin(m).count("1")\<close>, of the magnitude of a negative number.\<close>

fun ones :: "nat \<Rightarrow> nat" where
  "ones n = (if n = 0 then 0 else n mod 2 + ones (n div 2))"

declare ones.simps [simp del]

fun py_ints :: "string list \<Rightarrow> int list option" where
  "py_ints [] = Some []"
| "py_ints (s # ss) =
     (case py_int s of None \<Rightarrow> None | Some n \<Rightarrow> map_option (Cons n) (py_ints ss))"

definition ip_netmask_to_cidr :: "string \<Rightarrow> string \<Rightarrow> string" where
  "ip_netmask_to_cidr ip msk =
     (case (py_ints (py_split (CHR ''.'') ip), py_ints (py_split (CHR ''.'') msk)) of
        (Some [a, b, c, d], Some [m1, m2, m3, m4]) \<Rightarrow>
          py_join ''.'' (map py_str [a AND m1, b AND m2, c AND m3, d AND m4]) @ ''/''
          @ py_str (int (ones (nat \<bar>m1\<bar>) + ones (nat \<bar>m2\<bar>) + ones (nat \<bar>m3\<bar>) + ones (nat \<bar>m4\<bar>)))
      | _ \<Rightarrow> ip @ ''/24'')"

section \<open>The dump\<close>

type_synonym options = "(string, string) dict"

record dump =
  d_networks :: "(string, options) dict"
  d_zones :: "(string, options) dict"
  d_ts_ip :: "string option"
  d_wan :: "string option"
  d_proton :: "string option"
  d_tor :: bool
  d_snat_tags :: "string list"
  d_fwd_tags :: "string list"
  d_tor_tags :: "string list"

definition empty_dump :: dump where
  "empty_dump = \<lparr>d_networks = [], d_zones = [], d_ts_ip = None, d_wan = None, d_proton = None,
     d_tor = False, d_snat_tags = [], d_fwd_tags = [], d_tor_tags = []\<rparr>"

text \<open>
  The tag of a rule's comment. (A stripped line cannot end in \<^verbatim>\<open>--comment\<close> and a space, so the code's
  \<^verbatim>\<open>split()[0]\<close> always finds a word.)
\<close>

definition is_quote :: "char \<Rightarrow> bool" where
  "is_quote c \<longleftrightarrow> c = dquote \<or> c = squote"

definition comment_tag :: "string \<Rightarrow> string option" where
  "comment_tag line =
     (case after_first ''--comment '' line of
        None \<Rightarrow> None
      | Some rest \<Rightarrow> (case py_split_ws (py_strip rest) of
           w # _ \<Rightarrow> Some (strip_by is_quote w) | [] \<Rightarrow> None))"

definition add_tag :: "string \<Rightarrow> string \<Rightarrow> string list \<Rightarrow> string list" where
  "add_tag pfx line tags =
     (case comment_tag line of
        Some t \<Rightarrow> if starts_with pfx t then List.insert t tags else tags
      | None \<Rightarrow> tags)"

definition set_option :: "string \<Rightarrow> string \<Rightarrow> string \<Rightarrow> (string, options) dict \<Rightarrow> (string, options) dict"
  where "set_option sec key val d = dict_set sec (dict_set key val (dict_get_or d sec [])) d"

text \<open>One line, in the section it is in.\<close>

definition dump_line :: "string \<Rightarrow> string \<Rightarrow> dump \<Rightarrow> dump" where
  "dump_line sec line d =
     (if sec = ''ts_ip'' then
        (if CHR ''/'' \<in> set line
         then let ip = py_strip (fst (py_partition (CHR ''/'') line))
              in d\<lparr>d_ts_ip := (if ip = [] then None else Some ip)\<rparr>
         else d)
      else if sec = ''wan_iface'' then
        (if line \<noteq> [] \<and> d_wan d = None then d\<lparr>d_wan := Some line\<rparr> else d)
      else if sec = ''proton_iface'' then
        (if line \<noteq> [] \<and> d_proton d = None then d\<lparr>d_proton := Some line\<rparr> else d)
      else if sec = ''tor_active'' then
        (if line \<in> {''yes'', ''no''} \<and> \<not> d_tor d then d\<lparr>d_tor := (line = ''yes'')\<rparr> else d)
      else if sec = ''snat_tags'' then
        d\<lparr>d_snat_tags := add_tag SNAT_TAG_PREFIX line (d_snat_tags d)\<rparr>
      else if sec = ''fwd_tags'' then
        d\<lparr>d_fwd_tags := add_tag FWD_TAG_PREFIX line (d_fwd_tags d)\<rparr>
      else if sec = ''tor_tags'' then
        d\<lparr>d_tor_tags := add_tag TOR_TAG_PREFIX line (d_tor_tags d)\<rparr>
      else if CHR ''='' \<notin> set line then d
      else (case py_partition (CHR ''='') line of (left, right) \<Rightarrow>
             (case py_split (CHR ''.'') left of
                _ # name # key # _ \<Rightarrow>
                  (let val = strip_by is_quote right in
                   if sec = ''networks'' then d\<lparr>d_networks := set_option name key val (d_networks d)\<rparr>
                   else if sec = ''zones'' \<or> sec = ''ts_zone''
                   then d\<lparr>d_zones := set_option name key val (d_zones d)\<rparr>
                   else d)
              | _ \<Rightarrow> d)))"

definition is_header :: "string \<Rightarrow> bool" where
  "is_header line \<longleftrightarrow> starts_with ''---'' line \<and> ends_with ''---'' line"

definition header_name :: "string \<Rightarrow> string" where
  "header_name line = py_lower (strip_by (\<lambda>c. c = CHR ''-'' \<or> c = CHR '' '') line)"

fun scan_dump :: "string \<Rightarrow> string list \<Rightarrow> dump \<Rightarrow> dump" where
  "scan_dump sec [] d = d"
| "scan_dump sec (raw # ls) d =
     (let line = py_strip raw
      in if is_header line then scan_dump (header_name line) ls d
         else scan_dump sec ls (dump_line sec line d))"

text \<open>Zones by name, each with the section it came from.\<close>

definition index_zones :: "(string, options) dict \<Rightarrow> (string, options) dict" where
  "index_zones zones =
     foldl (\<lambda>d (sec, kv).
       let nm = (case dict_get kv ''name'' of Some n \<Rightarrow> if n = [] then sec else n | None \<Rightarrow> sec)
       in dict_set nm (dict_set ''_section'' sec kv) d) [] zones"

definition parse_uci_dump :: "string \<Rightarrow> dump" where
  "parse_uci_dump text =
     (let d = scan_dump [] (py_splitlines text) empty_dump
      in d\<lparr>d_zones := index_zones (d_zones d)\<rparr>)"

section \<open>The snapshot\<close>

record subnet =
  sn_slug :: string
  sn_zone :: string
  sn_iface :: string
  sn_cidr :: string
  sn_ipaddr :: string

record snapshot =
  subnets :: "subnet list"
  ts_zone_exists :: bool
  ts_self_ip :: "string option"
  wan_iface :: "string option"
  proton_iface :: "string option"
  tor_active :: bool
  active_snat :: "(string \<times> string) list"
  active_fwd :: "(string \<times> string) list"
  active_tor :: "(string \<times> string) list"

fun zone_for_network :: "(string, options) dict \<Rightarrow> string \<Rightarrow> string option" where
  "zone_for_network [] slug = None"
| "zone_for_network ((zone, kv) # zs) slug =
     (if slug \<in> set (py_split_ws (dict_get_or kv ''network'' [])) then Some zone
      else zone_for_network zs slug)"

definition subnet_of :: "(string, options) dict \<Rightarrow> string \<times> options \<Rightarrow> subnet option" where
  "subnet_of zones net =
     (case net of (slug, kv) \<Rightarrow>
        (let ip = dict_get_or kv ''ipaddr'' []; msk = dict_get_or kv ''netmask'' []
         in if dict_get kv ''proto'' \<noteq> Some ''static'' \<or> ip = [] \<or> msk = [] then None
            else (case (if slug \<in> set (dict_keys zones) then Some slug
                        else zone_for_network zones slug) of
                    None \<Rightarrow> None
                  | Some zone \<Rightarrow>
                      if zone = [] then None
                      else Some \<lparr>sn_slug = slug, sn_zone = zone, sn_iface = dict_get_or kv ''device'' [],
                                 sn_cidr = ip_netmask_to_cidr ip msk, sn_ipaddr = ip\<rparr>)))"

type_synonym 'd shell = "'d \<Rightarrow> string \<Rightarrow> 'd \<times> (string + string)"

definition grep_tags :: "string \<Rightarrow> string" where
  "grep_tags pfx = ''| grep -E -- '' @ single_quoted (''--comment '' @ pfx)"

definition discover_cmd :: string where
  "discover_cmd =
     ''echo '' @ single_quoted ''---NETWORKS---'' @ ''; uci show network | grep -E ''
     @ single_quoted (''^network'' @ [backslash] @ ''.[a-zA-Z0-9_-]+'' @ [backslash]
                      @ ''.(ipaddr|netmask|device|proto)='')
     @ ''; echo '' @ single_quoted ''---ZONES---'' @ ''; uci show firewall | grep -E ''
     @ single_quoted (''^firewall'' @ [backslash] @ ''.[a-zA-Z0-9_-]+'' @ [backslash] @ ''.(name|network)='')
     @ ''; echo '' @ single_quoted ''---TS_ZONE---''
     @ ''; uci show firewall.'' @ TS_ZONE_NAME @ '' 2>/dev/null || true; echo ''
     @ single_quoted ''---TS_IP---'' @ ''; ip -4 -o addr show tailscale0 2>/dev/null | awk ''
     @ single_quoted ''{print $4}'' @ ''; echo '' @ single_quoted ''---WAN_IFACE---''
     @ ''; ip -4 route show default 2>/dev/null | awk '' @ single_quoted ''{print $5}''
     @ '' | head -1 || uci -q get network.wan.device || true; echo ''
     @ single_quoted ''---PROTON_IFACE---'' @ ''; ip -4 -o addr show 2>/dev/null | awk ''
     @ single_quoted ''{print $2}'' @ '' | grep -E ''
     @ single_quoted ''^(proton[0-9]*|wgproton[0-9]*|wg-proton|wg[0-9]+)$'' @ '' | head -1; echo ''
     @ single_quoted ''---TOR_ACTIVE---'' @ ''; pgrep -x tor >/dev/null && netstat -tln 2>/dev/null ''
     @ ''| grep -q '' @ single_quoted '':9040 '' @ ''&& echo yes || echo no; echo ''
     @ single_quoted ''---SNAT_TAGS---'' @ ''; iptables -t nat -S POSTROUTING 2>/dev/null ''
     @ grep_tags SNAT_TAG_PREFIX @ '' || true; echo '' @ single_quoted ''---FWD_TAGS---''
     @ ''; iptables -S 2>/dev/null '' @ grep_tags FWD_TAG_PREFIX @ '' || true; echo ''
     @ single_quoted ''---TOR_TAGS---'' @ ''; iptables -t nat -S PREROUTING 2>/dev/null ''
     @ grep_tags TOR_TAG_PREFIX @ '' || true''"

definition snapshot_of :: "string \<Rightarrow> snapshot" where
  "snapshot_of out =
     (let d = parse_uci_dump out;
          sns = sort_key sn_slug (List.map_filter (subnet_of (d_zones d)) (d_networks d));
          zones = map sn_zone sns
      in \<lparr>subnets = sns,
          ts_zone_exists = (TS_ZONE_NAME \<in> set (dict_keys (d_zones d))),
          ts_self_ip = d_ts_ip d, wan_iface = d_wan d, proton_iface = d_proton d,
          tor_active = d_tor d,
          active_snat = tags_to_pairs zones SNAT_TAG_PREFIX (d_snat_tags d),
          active_fwd = tags_to_pairs zones FWD_TAG_PREFIX (d_fwd_tags d),
          active_tor = List.map_filter (decode_tor_tag zones) (d_tor_tags d)\<rparr>)"

text \<open>An SSH error is the exception \<^verbatim>\<open>SSH discover failed\<close>.\<close>

definition discover_state :: "'d shell \<Rightarrow> 'd \<Rightarrow> 'd \<times> (string + snapshot)" where
  "discover_state run d =
     (case run d discover_cmd of
        (d1, Inl e) \<Rightarrow> (d1, Inl (''SSH discover failed: '' @ e))
      | (d1, Inr out) \<Rightarrow> (d1, Inr (snapshot_of out)))"

section \<open>Addresses: lemmas\<close>

definition dotted :: "int list \<Rightarrow> string" where
  "dotted octets = py_join ''.'' (map py_str octets)"

text \<open>The number of host bits in octet \<open>i\<close> of a mask of \<open>n\<close> network bits, and the octets of the mask.\<close>

definition host_bits :: "nat \<Rightarrow> nat \<Rightarrow> nat" where
  "host_bits n i = 8 - min 8 (n - 8 * i)"

definition mask_octets :: "nat \<Rightarrow> int list" where
  "mask_octets n = map (\<lambda>i. 256 - 2 ^ host_bits n i) [0, 1, 2, 3]"

definition clear_low :: "nat \<Rightarrow> int \<Rightarrow> int" where
  "clear_low k x = x - x mod 2 ^ k"

lemma ones_octet:
  assumes "h \<le> 8"
  shows "ones (nat \<bar>256 - 2 ^ h\<bar>) = 8 - h"
proof -
  from assms have "h \<in> {0, 1, 2, 3, 4, 5, 6, 7, 8}" by auto
  then show ?thesis by (elim insertE emptyE) (simp_all add: ones.simps)
qed

lemma and_octet:
  assumes "0 \<le> x" "x < 256" "h \<le> 8"
  shows "x AND (256 - 2 ^ h) = clear_low h x"
proof -
  have "(256 :: int) - 2 ^ h = push_bit h (mask (8 - h))"
    using assms(3) by (simp add: mask_eq_exp_minus_1 push_bit_eq_mult left_diff_distrib
        flip: power_add)
  moreover have "x AND push_bit h (mask (8 - h)) = push_bit h (drop_bit h x AND mask (8 - h))"
    by (rule bit_eqI) (auto simp: bit_simps)
  moreover have "drop_bit h x AND mask (8 - h) = drop_bit h x"
  proof -
    have "drop_bit h x < 2 ^ (8 - h)"
    proof -
      have "(2 :: int) ^ (8 - h) * 2 ^ h = 256" using assms(3) by (simp flip: power_add)
      moreover have "x div 2 ^ h * 2 ^ h \<le> x"
        using div_mult_mod_eq [of x "2 ^ h"] pos_mod_sign [of "2 ^ h" x]
        by (metis le_add_same_cancel1 zero_less_numeral zero_less_power)
      ultimately have "x div 2 ^ h * 2 ^ h < 2 ^ (8 - h) * 2 ^ h" using assms(2) by linarith
      then show ?thesis by (simp add: drop_bit_eq_div)
    qed
    with assms(1) show ?thesis by (simp add: take_bit_int_eq_self flip: take_bit_eq_mask)
  qed
  ultimately show ?thesis
    by (simp add: clear_low_def push_bit_eq_mult drop_bit_eq_div minus_mod_eq_mult_div mult.commute)
qed

lemma host_bits_sum:
  "n \<le> 32 \<Longrightarrow> (8 - host_bits n 0) + (8 - host_bits n 1) + (8 - host_bits n 2) + (8 - host_bits n 3) = n"
  by (simp add: host_bits_def)

lemma py_str_no_dot: "0 \<le> n \<Longrightarrow> CHR ''.'' \<notin> set (py_str n)"
  using py_str_digits [of n] by (auto simp: py_isdigit_def char_le_code)

lemma split_dotted:
  assumes "octets \<noteq> []" "\<forall>x\<in>set octets. 0 \<le> x"
  shows "py_split (CHR ''.'') (dotted octets) = map py_str octets"
  unfolding dotted_def using assms by (intro py_split_join) (auto dest: py_str_no_dot)

lemma py_ints_py_str: "\<forall>x\<in>set xs. \<bar>x\<bar> < 256 \<Longrightarrow> py_ints (map py_str xs) = Some xs"
  by (induction xs) (simp_all add: py_int_py_str_small)

section \<open>The dump by sections\<close>

fun section_lines :: "string \<Rightarrow> string \<Rightarrow> string list \<Rightarrow> string list" where
  "section_lines name sec [] = []"
| "section_lines name sec (raw # ls) =
     (let line = py_strip raw
      in if is_header line then section_lines name (header_name line) ls
         else if sec = name then line # section_lines name sec ls
         else section_lines name sec ls)"

lemma dump_line_fields:
  "d_fwd_tags (dump_line sec line d) =
     (if sec = ''fwd_tags'' then add_tag FWD_TAG_PREFIX line (d_fwd_tags d) else d_fwd_tags d)"
  "d_snat_tags (dump_line sec line d) =
     (if sec = ''snat_tags'' then add_tag SNAT_TAG_PREFIX line (d_snat_tags d) else d_snat_tags d)"
  "d_tor_tags (dump_line sec line d) =
     (if sec = ''tor_tags'' then add_tag TOR_TAG_PREFIX line (d_tor_tags d) else d_tor_tags d)"
  "d_wan (dump_line sec line d) =
     (if sec = ''wan_iface'' \<and> line \<noteq> [] \<and> d_wan d = None then Some line else d_wan d)"
  "d_proton (dump_line sec line d) =
     (if sec = ''proton_iface'' \<and> line \<noteq> [] \<and> d_proton d = None then Some line else d_proton d)"
  "d_tor (dump_line sec line d) \<longleftrightarrow> d_tor d \<or> sec = ''tor_active'' \<and> line = ''yes''"
proof -
  obtain l r where p: "py_partition (CHR ''='') line = (l, r)" by fastforce
  define rest where "rest = (if CHR ''='' \<notin> set line then d
      else (case py_split (CHR ''.'') l of
                _ # name # key # _ \<Rightarrow>
                  (let val = strip_by is_quote r in
                   if sec = ''networks'' then d\<lparr>d_networks := set_option name key val (d_networks d)\<rparr>
                   else if sec = ''zones'' \<or> sec = ''ts_zone''
                   then d\<lparr>d_zones := set_option name key val (d_zones d)\<rparr>
                   else d)
              | _ \<Rightarrow> d))"
  have rest: "d_fwd_tags rest = d_fwd_tags d" "d_snat_tags rest = d_snat_tags d" "d_tor_tags rest = d_tor_tags d"
    "d_wan rest = d_wan d" "d_proton rest = d_proton d" "d_tor rest = d_tor d"
    by (simp_all add: rest_def Let_def split: list.split)
  note line = dump_line_def [of sec line d, unfolded p prod.case, folded rest_def]
  show "d_fwd_tags (dump_line sec line d) =
     (if sec = ''fwd_tags'' then add_tag FWD_TAG_PREFIX line (d_fwd_tags d) else d_fwd_tags d)"
  "d_snat_tags (dump_line sec line d) =
     (if sec = ''snat_tags'' then add_tag SNAT_TAG_PREFIX line (d_snat_tags d) else d_snat_tags d)"
  "d_tor_tags (dump_line sec line d) =
     (if sec = ''tor_tags'' then add_tag TOR_TAG_PREFIX line (d_tor_tags d) else d_tor_tags d)"
  "d_wan (dump_line sec line d) =
     (if sec = ''wan_iface'' \<and> line \<noteq> [] \<and> d_wan d = None then Some line else d_wan d)"
  "d_proton (dump_line sec line d) =
     (if sec = ''proton_iface'' \<and> line \<noteq> [] \<and> d_proton d = None then Some line else d_proton d)"
  "d_tor (dump_line sec line d) \<longleftrightarrow> d_tor d \<or> sec = ''tor_active'' \<and> line = ''yes''"
    by (simp_all add: line Let_def rest)
qed

lemma scan_tags:
  "d_fwd_tags (scan_dump sec ls d) =
     foldl (\<lambda>ts l. add_tag FWD_TAG_PREFIX l ts) (d_fwd_tags d) (section_lines ''fwd_tags'' sec ls)"
  "d_snat_tags (scan_dump sec ls d) =
     foldl (\<lambda>ts l. add_tag SNAT_TAG_PREFIX l ts) (d_snat_tags d) (section_lines ''snat_tags'' sec ls)"
  "d_tor_tags (scan_dump sec ls d) =
     foldl (\<lambda>ts l. add_tag TOR_TAG_PREFIX l ts) (d_tor_tags d) (section_lines ''tor_tags'' sec ls)"
  by (induction sec ls d rule: scan_dump.induct) (simp_all add: Let_def dump_line_fields)

lemma scan_ifaces:
  "d_wan (scan_dump sec ls d) =
     (case d_wan d of Some w \<Rightarrow> Some w
      | None \<Rightarrow> find (\<lambda>l. l \<noteq> []) (section_lines ''wan_iface'' sec ls))"
  "d_proton (scan_dump sec ls d) =
     (case d_proton d of Some w \<Rightarrow> Some w
      | None \<Rightarrow> find (\<lambda>l. l \<noteq> []) (section_lines ''proton_iface'' sec ls))"
  by (induction sec ls d rule: scan_dump.induct)
    (auto simp: Let_def dump_line_fields split: option.splits)

lemma scan_tor:
  "d_tor (scan_dump sec ls d) \<longleftrightarrow>
     d_tor d \<or> ''yes'' \<in> set (section_lines ''tor_active'' sec ls)"
  by (induction sec ls d rule: scan_dump.induct) (auto simp: Let_def dump_line_fields)

section \<open>Properties\<close>

text \<open>
  Network addresses are computed right: for any address and any mask of \<open>n\<close> network bits in dotted
  form, the CIDR is the address with its host bits cleared, octet by octet, and the length \<open>n\<close>.
\<close>

theorem cidr_of_netmask:
  assumes "\<forall>x\<in>set [a, b, c, d]. 0 \<le> x \<and> x < 256" "n \<le> 32"
  shows "ip_netmask_to_cidr (dotted [a, b, c, d]) (dotted (mask_octets n)) =
    dotted [clear_low (host_bits n 0) a, clear_low (host_bits n 1) b,
            clear_low (host_bits n 2) c, clear_low (host_bits n 3) d] @ ''/'' @ py_str (int n)"
proof -
  have h: "host_bits n i \<le> 8" for i by (simp add: host_bits_def)
  then have m: "0 \<le> 256 - (2 :: int) ^ host_bits n i" "256 - (2 :: int) ^ host_bits n i < 256" for i
    using power_increasing [of "host_bits n i" 8 "2 :: int"] by simp_all
  have "py_ints (py_split (CHR ''.'') (dotted (mask_octets n))) = Some (mask_octets n)"
  proof -
    have "\<forall>x\<in>set (mask_octets n). 0 \<le> x" "\<forall>x\<in>set (mask_octets n). \<bar>x\<bar> < 256"
      "mask_octets n \<noteq> []"
      using m by (auto simp: mask_octets_def)
    then show ?thesis by (simp add: split_dotted py_ints_py_str)
  qed
  moreover have "py_ints (py_split (CHR ''.'') (dotted [a, b, c, d])) = Some [a, b, c, d]"
    using assms(1) by (simp add: split_dotted py_ints_py_str del: list.map)
  moreover
  have "ones (nat \<bar>256 - 2 ^ host_bits n 0\<bar>) + ones (nat \<bar>256 - 2 ^ host_bits n 1\<bar>)
      + ones (nat \<bar>256 - 2 ^ host_bits n 2\<bar>) + ones (nat \<bar>256 - 2 ^ host_bits n 3\<bar>) = n"
    using host_bits_sum [OF assms(2)] by (simp only: ones_octet [OF h])
  from arg_cong [OF this, of int]
  have "int (ones (nat \<bar>256 - 2 ^ host_bits n 0\<bar>)) + int (ones (nat \<bar>256 - 2 ^ host_bits n 1\<bar>))
      + int (ones (nat \<bar>256 - 2 ^ host_bits n 2\<bar>)) + int (ones (nat \<bar>256 - 2 ^ host_bits n 3\<bar>)) = int n"
    by simp
  ultimately show ?thesis
    using assms(1) by (simp add: ip_netmask_to_cidr_def mask_octets_def and_octet [OF _ _ h] dotted_def)
qed

lemma cidr_of_netmask_witness:
  "ip_netmask_to_cidr (dotted [192, 168, 77, 130]) (dotted (mask_octets 26)) =
     dotted [192, 168, 77, 128] @ ''/'' @ py_str 26"
  using cidr_of_netmask [of 192 168 77 130 26] by (simp add: clear_low_def host_bits_def)

text \<open>
  The sections of the dump do not disturb each other: the tags of each kind are those of the lines of
  its own section, the WAN and Proton interfaces are the first non-empty lines of theirs, and Tor is
  active when its section has a line \<open>yes\<close>, whatever the rest of the text is.
\<close>

theorem dump_by_sections:
  "let d = parse_uci_dump text; part = (\<lambda>name. section_lines name [] (py_splitlines text)) in
   d_fwd_tags d = foldl (\<lambda>ts l. add_tag FWD_TAG_PREFIX l ts) [] (part ''fwd_tags'')
   \<and> d_snat_tags d = foldl (\<lambda>ts l. add_tag SNAT_TAG_PREFIX l ts) [] (part ''snat_tags'')
   \<and> d_tor_tags d = foldl (\<lambda>ts l. add_tag TOR_TAG_PREFIX l ts) [] (part ''tor_tags'')
   \<and> d_wan d = find (\<lambda>l. l \<noteq> []) (part ''wan_iface'')
   \<and> d_proton d = find (\<lambda>l. l \<noteq> []) (part ''proton_iface'')
   \<and> (d_tor d = (''yes'' \<in> set (part ''tor_active'')))"
  by (simp add: parse_uci_dump_def Let_def scan_tags scan_ifaces scan_tor empty_dump_def)

end
