(* ===== verification/Reconciler.thy ===== *)
theory Reconciler
  imports Ts_Discover
begin

text \<open>
  What the two reconcilers of \<^verbatim>\<open>backend/app/tailscale\<close> (\<^verbatim>\<open>forwarding.py\<close> and \<^verbatim>\<open>dns_routing.py\<close>) share: one
  question to the device, a check of the wanted rules against the answer, and the operations sent in
  batches until one fails. The locale states the contract of such a reconciler; its lemmas say exactly
  which commands the device gets, whatever it answers.
\<close>

section \<open>Batches\<close>

definition BATCH_SIZE :: nat where "BATCH_SIZE = 20"

function chunks :: "nat \<Rightarrow> 'a list \<Rightarrow> 'a list list" where
  "chunks n xs = (if n = 0 \<or> xs = [] then [] else take n xs # chunks n (drop n xs))"
  by auto

termination by (relation "measure (\<lambda>(n, xs). length xs)") auto

declare chunks.simps [simp del]

fun run_chunks :: "'d shell \<Rightarrow> 'd \<Rightarrow> string \<Rightarrow> string list list \<Rightarrow> 'd \<times> (string + string)" where
  "run_chunks run d last_output [] = (d, Inr last_output)"
| "run_chunks run d last_output (c # cs) =
     (case run d (py_join '' ; '' c) of
        (d1, Inl e) \<Rightarrow> (d1, Inl e)
      | (d1, Inr out) \<Rightarrow> run_chunks run d1 out cs)"

lemma chunks_Nil [simp]: "chunks n [] = []"
  by (simp add: chunks.simps)

lemma concat_chunks: "0 < n \<Longrightarrow> concat (chunks n xs) = xs"
proof (induction n xs rule: chunks.induct)
  case (1 n xs)
  then show ?case by (cases "xs = []") (simp_all add: chunks.simps [of n xs])
qed

lemma chunks_size: "c \<in> set (chunks n xs) \<Longrightarrow> 0 < length c \<and> length c \<le> n"
proof (induction n xs rule: chunks.induct)
  case (1 n xs)
  then show ?case by (subst (asm) (2) chunks.simps) (auto split: if_splits)
qed

section \<open>A device that keeps a log\<close>

text \<open>A device that logs what it is sent; its answers, failures included, are arbitrary.\<close>

definition recorder :: "(string \<Rightarrow> string + string) \<Rightarrow> string list shell" where
  "recorder answer log cmd = (log @ [cmd], answer cmd)"

definition answered :: "(string \<Rightarrow> string + string) \<Rightarrow> string \<Rightarrow> bool" where
  "answered answer cmd \<longleftrightarrow> \<not> isl (answer cmd)"

text \<open>The commands that reach the device when the sender stops at the first failure.\<close>

fun sent :: "(string \<Rightarrow> bool) \<Rightarrow> string list \<Rightarrow> string list" where
  "sent ok [] = []"
| "sent ok (c # cs) = c # (if ok c then sent ok cs else [])"

lemma sent_all: "list_all ok cs \<Longrightarrow> sent ok cs = cs"
  by (induction cs) auto

lemma run_chunks_recorder:
  "fst (run_chunks (recorder a) log out cs) = log @ sent (answered a) (map (py_join '' ; '') cs)"
  "\<not> isl (snd (run_chunks (recorder a) log out cs)) \<longleftrightarrow> list_all (answered a) (map (py_join '' ; '') cs)"
  by (induction cs arbitrary: log out)
    (auto simp: recorder_def answered_def split: sum.splits)

section \<open>The contract\<close>

locale reconciler =
  fixes reconcile :: "string list shell \<Rightarrow> string list \<Rightarrow> 'r list \<Rightarrow> string list \<times> ('e + 'x)"
    and question :: string
    and state_of :: "string \<Rightarrow> 's"
    and check :: "'r list \<Rightarrow> 's \<Rightarrow> 'e option"
    and ops :: "'s \<Rightarrow> 'r list \<Rightarrow> string list"
    and followup :: "string list"
  assumes unreachable: "run d question = (d1, Inl e) \<Longrightarrow> \<exists>x. reconcile run d rules = (d1, Inl x)"
    and rejected: "run d question = (d1, Inr out) \<Longrightarrow> check rules (state_of out) = Some x
      \<Longrightarrow> reconcile run d rules = (d1, Inl x)"
    and aborted: "run d question = (d1, Inr out) \<Longrightarrow> check rules (state_of out) = None
      \<Longrightarrow> run_chunks run d1 [] (chunks BATCH_SIZE (ops (state_of out) rules)) = (d2, Inl e)
      \<Longrightarrow> \<exists>x. reconcile run d rules = (d2, Inl x)"
    and completed: "run d question = (d1, Inr out) \<Longrightarrow> check rules (state_of out) = None
      \<Longrightarrow> run_chunks run d1 [] (chunks BATCH_SIZE (ops (state_of out) rules)) = (d2, Inr res)
      \<Longrightarrow> fst (reconcile run d rules) = foldl (\<lambda>d c. fst (run d c)) d2 followup"
begin

definition batches :: "string \<Rightarrow> 'r list \<Rightarrow> string list list" where
  "batches out rules = chunks BATCH_SIZE (ops (state_of out) rules)"

lemma batches_whole: "concat (batches out rules) = ops (state_of out) rules"
  by (simp add: batches_def concat_chunks BATCH_SIZE_def)

lemma batches_small: "list_all (\<lambda>b. 0 < length b \<and> length b \<le> 20) (batches out rules)"
  using chunks_size [of _ BATCH_SIZE "ops (state_of out) rules"]
  by (auto simp: list_all_iff BATCH_SIZE_def batches_def)

lemma follow_recorder: "foldl (\<lambda>d c. fst (recorder a d c)) d cs = d @ cs"
  by (induction cs arbitrary: d) (simp_all add: recorder_def)

lemma commands_reaching_the_device:
  assumes "a question = Inr out" "check rules (state_of out) = None"
    and "cs = map (py_join '' ; '') (batches out rules)"
  shows "fst (reconcile (recorder a) log rules) =
           log @ question # sent (answered a) cs @ (if list_all (answered a) cs then followup else [])"
    and "\<not> list_all (answered a) cs \<Longrightarrow> isl (snd (reconcile (recorder a) log rules))"
proof -
  have q: "recorder a log question = (log @ [question], Inr out)"
    using assms(1) by (simp add: recorder_def)
  let ?run = "run_chunks (recorder a) (log @ [question]) [] (chunks BATCH_SIZE (ops (state_of out) rules))"
  have r: "fst ?run = log @ question # sent (answered a) cs" "\<not> isl (snd ?run) \<longleftrightarrow> list_all (answered a) cs"
    using assms(3) by (simp_all add: run_chunks_recorder batches_def)
  have "fst (reconcile (recorder a) log rules) =
           log @ question # sent (answered a) cs @ (if list_all (answered a) cs then followup else [])
        \<and> (\<not> list_all (answered a) cs \<longrightarrow> isl (snd (reconcile (recorder a) log rules)))"
  proof (cases "snd ?run")
    case (Inl e)
    then have run: "?run = (fst ?run, Inl e)" by (metis prod.collapse)
    then obtain x where "reconcile (recorder a) log rules = (fst ?run, Inl x)"
      using aborted [of "recorder a" log "log @ [question]" out rules, OF q assms(2)] by blast
    with r Inl show ?thesis by simp
  next
    case (Inr res)
    then have run: "?run = (fst ?run, Inr res)" by (metis prod.collapse)
    from completed [of "recorder a" log "log @ [question]" out rules, OF q assms(2) run] r Inr show ?thesis by (simp add: follow_recorder)
  qed
  then show "fst (reconcile (recorder a) log rules) =
           log @ question # sent (answered a) cs @ (if list_all (answered a) cs then followup else [])"
    "\<not> list_all (answered a) cs \<Longrightarrow> isl (snd (reconcile (recorder a) log rules))" by blast+
qed

lemma only_the_question:
  assumes "\<And>out. a question = Inr out \<Longrightarrow> check rules (state_of out) \<noteq> None"
  shows "fst (reconcile (recorder a) log rules) = log @ [question] \<and> isl (snd (reconcile (recorder a) log rules))"
proof (cases "a question")
  case (Inl e)
  then show ?thesis
    using unreachable [of "recorder a" log "log @ [question]" e rules] by (auto simp: recorder_def)
next
  case (Inr out)
  then obtain x where "check rules (state_of out) = Some x" using assms by blast
  with Inr rejected [of "recorder a" log "log @ [question]" out rules x]
  show ?thesis by (simp add: recorder_def)
qed

end

end
