(* ===== verification/Ts_Apply.thy ===== *)
theory Ts_Apply
  imports Reconciler
begin

text \<open>
  Applying forwarding rules to a device (\<^verbatim>\<open>apply_state\<close>, \<^verbatim>\<open>_build_persist_lines\<close> and
  \<^verbatim>\<open>_rewrite_firewall_user_block\<close> of \<^verbatim>\<open>backend/app/tailscale/forwarding.py\<close>): validation against the
  discovered state, the commands that flush and inject the rules, the block that makes them survive a
  firewall reload, and the batches they are sent in.
\<close>

definition TOR_TRANS_PORT :: string where "TOR_TRANS_PORT = ''9040''"
definition TOR_DNS_PORT :: string where "TOR_DNS_PORT = ''9053''"

definition BLOCK_BEGIN :: string where
  "BLOCK_BEGIN = ''### SC_FR_TS_SNAT block - managed by slate-controller - do not edit ###''"

definition BLOCK_END :: string where
  "BLOCK_END = ''### SC_FR_TS_SNAT block end ###''"

datatype nat_mode = Routed | Snat

datatype via = Tailnet | Wan | Proton | Tor

record desired_rule =
  src_zone :: string
  src_cidr :: string
  dest_cidr :: string
  nat_mode :: nat_mode
  via :: via

datatype apply_error =
  Discover_Failed string | No_Ts_Zone | No_Ts_Address | No_Wan | No_Proton | No_Tor
| Apply_Failed string

section \<open>Validation\<close>

definition present :: "string option \<Rightarrow> bool" where
  "present v \<longleftrightarrow> (case v of None \<Rightarrow> False | Some s \<Rightarrow> s \<noteq> [])"

definition check_rules :: "desired_rule list \<Rightarrow> snapshot \<Rightarrow> apply_error option" where
  "check_rules rules st =
     (if list_ex (\<lambda>r. via r = Tailnet) rules \<and> \<not> ts_zone_exists st then Some No_Ts_Zone
      else if list_ex (\<lambda>r. via r = Tailnet) rules
              \<and> list_ex (\<lambda>r. nat_mode r = Snat \<and> via r = Tailnet) rules \<and> \<not> present (ts_self_ip st)
      then Some No_Ts_Address
      else if list_ex (\<lambda>r. via r = Wan) rules \<and> \<not> present (wan_iface st) then Some No_Wan
      else if list_ex (\<lambda>r. via r = Proton) rules \<and> \<not> present (proton_iface st) then Some No_Proton
      else if list_ex (\<lambda>r. via r = Tor) rules \<and> \<not> tor_active st then Some No_Tor
      else None)"

section \<open>Live commands\<close>

definition quoted_line :: string where
  "quoted_line = ''echo '' @ [dquote] @ ''$line'' @ [dquote]"

definition flush_ops :: "string list" where
  "flush_ops =
     [''iptables -S 2>/dev/null '' @ grep_tags FWD_TAG_PREFIX @ '' | while read line; do ''
      @ ''  chain=$('' @ quoted_line @ '' | awk '' @ single_quoted ''{print $2}'' @ ''); ''
      @ ''  rest=$('' @ quoted_line @ '' | sed '' @ single_quoted ''s/^-A [^ ]* //'' @ ''); ''
      @ ''  iptables -D $chain $rest 2>/dev/null; done; true'',
      ''iptables -t nat -S POSTROUTING 2>/dev/null '' @ grep_tags SNAT_TAG_PREFIX
      @ '' | while read line; do ''
      @ ''  rule=$('' @ quoted_line @ '' | sed '' @ single_quoted ''s/^-A POSTROUTING //'' @ ''); ''
      @ ''  iptables -t nat -D POSTROUTING $rule 2>/dev/null; done; true'',
      ''iptables -t nat -S PREROUTING 2>/dev/null '' @ grep_tags TOR_TAG_PREFIX
      @ '' | while read line; do ''
      @ ''  rule=$('' @ quoted_line @ '' | sed '' @ single_quoted ''s/^-A PREROUTING //'' @ ''); ''
      @ ''  iptables -t nat -D PREROUTING $rule 2>/dev/null; done; true'']"

definition tor_match :: "string \<Rightarrow> string" where
  "tor_match proto = (if proto = ''tcp'' then ''-p tcp'' else ''-p udp --dport 53'')"

definition tor_protos :: "(string \<times> string) list" where
  "tor_protos = [(''tcp'', TOR_TRANS_PORT), (''udp'', TOR_DNS_PORT)]"

text \<open>\<^verbatim>\<open>{s.zone: s.iface for s in state.subnets}\<close>, the last subnet of a zone wins.\<close>

definition iface_by_zone :: "subnet list \<Rightarrow> (string, string) dict" where
  "iface_by_zone sns = foldl (\<lambda>d s. dict_set (sn_zone s) (sn_iface s) d) [] sns"

definition out_iface :: "snapshot \<Rightarrow> via \<Rightarrow> string" where
  "out_iface st v =
     (case v of
        Tailnet \<Rightarrow> TS_ZONE_NAME
      | Wan \<Rightarrow> (case wan_iface st of Some i \<Rightarrow> i | None \<Rightarrow> [])
      | Proton \<Rightarrow> (case proton_iface st of Some i \<Rightarrow> i | None \<Rightarrow> [])
      | Tor \<Rightarrow> [])"

definition ts_ip :: "snapshot \<Rightarrow> string" where
  "ts_ip st = (case ts_self_ip st of Some i \<Rightarrow> i | None \<Rightarrow> [])"

definition chain_of :: "desired_rule \<Rightarrow> string" where
  "chain_of r = ''forwarding_'' @ src_zone r @ ''_rule''"

definition rule_ops :: "snapshot \<Rightarrow> desired_rule \<Rightarrow> string list" where
  "rule_ops st r =
     (let q = shlex_quote; out = out_iface st (via r);
          src_iface = dict_get_or (iface_by_zone (subnets st)) (src_zone r) []
      in
      if src_zone r \<notin> sn_zone ` set (subnets st) then []
      else if via r = Tor then
        (if src_iface = [] then []
         else map (\<lambda>(proto, port).
                ''iptables -t nat -I PREROUTING '' @ ''-i '' @ q src_iface @ '' -d '' @ q (dest_cidr r)
                @ '' '' @ tor_match proto @ '' -j REDIRECT --to-port '' @ port
                @ '' -m comment --comment '' @ q (tor_tag (src_zone r) (dest_cidr r) proto)) tor_protos)
      else
        [''iptables -I '' @ chain_of r @ '' -d '' @ q (dest_cidr r) @ '' -o '' @ q out
         @ '' -j ACCEPT -m comment --comment '' @ q (fwd_tag (src_zone r) (dest_cidr r))]
        @ (case nat_mode r of
             Routed \<Rightarrow> []
           | Snat \<Rightarrow>
               [''iptables -t nat -I POSTROUTING '' @ ''-s '' @ q (src_cidr r) @ '' -d '' @ q (dest_cidr r)
                @ (if via r = Tailnet
                   then '' -o '' @ TS_ZONE_NAME @ '' -j SNAT --to-source '' @ q (ts_ip st)
                   else '' -o '' @ q out @ '' -j MASQUERADE'')
                @ '' -m comment --comment '' @ q (snat_tag (src_zone r) (dest_cidr r))]))"

section \<open>Persisted lines\<close>

definition delete_insert :: "string \<Rightarrow> string \<Rightarrow> string \<Rightarrow> string list" where
  "delete_insert table chain tail =
     [''iptables '' @ table @ ''-D '' @ chain @ '' '' @ tail @ '' 2>/dev/null'',
      ''iptables '' @ table @ ''-I '' @ chain @ '' '' @ tail]"

definition persist_rule :: "snapshot \<Rightarrow> desired_rule \<Rightarrow> string list" where
  "persist_rule st r =
     (let out = out_iface st (via r);
          src_iface = dict_get_or (iface_by_zone (subnets st)) (src_zone r) []
      in
      if src_zone r \<notin> sn_zone ` set (subnets st) then []
      else if via r = Tor then
        (if src_iface = [] then []
         else concat (map (\<lambda>(proto, port).
                delete_insert ''-t nat '' ''PREROUTING''
                  (''-i '' @ src_iface @ '' -d '' @ dest_cidr r @ '' '' @ tor_match proto
                   @ '' -j REDIRECT --to-port '' @ port
                   @ '' -m comment --comment '' @ tor_tag (src_zone r) (dest_cidr r) proto)) tor_protos))
      else if out = [] then []
      else
        delete_insert [] (chain_of r)
          (''-d '' @ dest_cidr r @ '' -o '' @ out @ '' -j ACCEPT -m comment --comment ''
           @ fwd_tag (src_zone r) (dest_cidr r))
        @ (if nat_mode r = Snat then
             (if via r = Tailnet then
                (if ts_ip st = [] then []
                 else delete_insert ''-t nat '' ''POSTROUTING''
                   (''-s '' @ src_cidr r @ '' -d '' @ dest_cidr r @ '' -o '' @ TS_ZONE_NAME
                    @ '' -j SNAT --to-source '' @ ts_ip st
                    @ '' -m comment --comment '' @ snat_tag (src_zone r) (dest_cidr r)))
              else delete_insert ''-t nat '' ''POSTROUTING''
                   (''-s '' @ src_cidr r @ '' -d '' @ dest_cidr r @ '' -o '' @ out
                    @ '' -j MASQUERADE'' @ '' -m comment --comment ''
                    @ snat_tag (src_zone r) (dest_cidr r)))
           else []))"

definition build_persist_lines :: "snapshot \<Rightarrow> desired_rule list \<Rightarrow> string list" where
  "build_persist_lines st rules = concat (map (persist_rule st) rules)"

definition newline :: char where "newline = CHR 0x0A"

definition new_block :: "string list \<Rightarrow> string" where
  "new_block ls = BLOCK_BEGIN @ [newline] @ py_join [newline] ls @ [newline] @ BLOCK_END"

definition block_script :: "string \<Rightarrow> string \<Rightarrow> string \<Rightarrow> string" where
  "block_script first final block =
     (let file = [dquote] @ ''$FILE'' @ [dquote]; tmp = [dquote] @ ''$FILE.tmp'' @ [dquote] in
      ''FILE=/etc/firewall.user; touch '' @ file @ ''; ''
      @ ''awk -v begin='' @ single_quoted first @ '' -v end='' @ single_quoted final @ '' ''
      @ single_quoted (''BEGIN{drop=0}  $0==begin{drop=1; next}  $0==end{drop=0; next}  drop==0{print}'')
      @ '' '' @ file @ '' > '' @ tmp @ ''; ''
      @ ''printf '' @ single_quoted (''%s'' @ [backslash] @ ''n'') @ '' '' @ shlex_quote block
      @ '' >> '' @ tmp @ ''; mv '' @ tmp @ '' '' @ file @ ''; chmod +x '' @ file)"

definition rewrite_block_op :: "string list \<Rightarrow> string" where
  "rewrite_block_op ls = block_script BLOCK_BEGIN BLOCK_END (new_block ls)"

text \<open>
  What that script does to the lines of the file: the \<^verbatim>\<open>awk\<close> program drops the blocks (\<open>drop\<close> is its
  flag), then the new block is appended.
\<close>

fun awk_keep :: "bool \<Rightarrow> string list \<Rightarrow> string list" where
  "awk_keep dropping [] = []"
| "awk_keep dropping (l # ls) =
     (if l = BLOCK_BEGIN then awk_keep True ls
      else if l = BLOCK_END then awk_keep False ls
      else if dropping then awk_keep dropping ls else l # awk_keep dropping ls)"

definition firewall_user_after :: "string list \<Rightarrow> string list \<Rightarrow> string list" where
  "firewall_user_after file ls = awk_keep False file @ py_split newline (new_block ls)"

section \<open>Apply\<close>

definition all_ops :: "snapshot \<Rightarrow> desired_rule list \<Rightarrow> string list" where
  "all_ops st rules =
     flush_ops @ concat (map (rule_ops st) rules) @ [rewrite_block_op (build_persist_lines st rules)]"

record apply_result =
  applied_rules :: nat
  res_active_fwd :: "(string \<times> string) list"
  res_active_snat :: "(string \<times> string) list"
  reload_output :: string

definition last_chars :: "nat \<Rightarrow> string \<Rightarrow> string" where
  "last_chars n s = drop (length s - n) s"

definition apply_state ::
  "'d shell \<Rightarrow> 'd \<Rightarrow> desired_rule list \<Rightarrow> 'd \<times> (apply_error + apply_result)" where
  "apply_state run d rules =
     (case discover_state run d of
        (d1, Inl e) \<Rightarrow> (d1, Inl (Discover_Failed e))
      | (d1, Inr st) \<Rightarrow>
          (case check_rules rules st of
             Some e \<Rightarrow> (d1, Inl e)
           | None \<Rightarrow>
               (case run_chunks run d1 [] (chunks BATCH_SIZE (all_ops st rules)) of
                  (d2, Inl e) \<Rightarrow> (d2, Inl (Apply_Failed e))
                | (d2, Inr out) \<Rightarrow>
                    (case discover_state run d2 of
                       (d3, Inl e) \<Rightarrow> (d3, Inl (Discover_Failed e))
                     | (d3, Inr new) \<Rightarrow>
                         (d3, Inr \<lparr>applied_rules = length rules,
                                  res_active_fwd = sort (remdups (active_fwd new)),
                                  res_active_snat = sort (remdups (active_snat new)),
                                  reload_output = last_chars 300 (py_strip out)\<rparr>)))))"

section \<open>Live commands and persisted lines agree\<close>

definition plain :: "string \<Rightarrow> bool" where
  "plain s \<longleftrightarrow> s \<noteq> [] \<and> list_all shell_safe s"

definition rule_plain :: "desired_rule \<Rightarrow> bool" where
  "rule_plain r \<longleftrightarrow>
     list_all shell_safe (src_zone r) \<and> plain (src_cidr r) \<and> plain (dest_cidr r)"

definition safe_opt :: "string option \<Rightarrow> bool" where
  "safe_opt v = (case v of None \<Rightarrow> True | Some s \<Rightarrow> list_all shell_safe s)"

definition snapshot_plain :: "snapshot \<Rightarrow> bool" where
  "snapshot_plain st \<longleftrightarrow> safe_opt (ts_self_ip st) \<and> safe_opt (wan_iface st) \<and> safe_opt (proton_iface st)
     \<and> list_all (\<lambda>s. list_all shell_safe (sn_iface s)) (subnets st)"

definition is_insert :: "string \<Rightarrow> bool" where
  "is_insert l \<longleftrightarrow> starts_with ''iptables -I '' l \<or> starts_with ''iptables -t nat -I '' l"

lemma plain_quote [simp]: "plain s \<Longrightarrow> shlex_quote s = s"
  by (simp add: plain_def shlex_quote_def)

lemma shell_safe_upper: "shell_safe c \<Longrightarrow> shell_safe (char_upper c)"
proof (cases "py_islower c")
  case True
  then have b: "of_char c \<le> (122 :: nat)" "(97 :: nat) \<le> of_char c"
    by (simp_all add: py_islower_def char_le_code)
  then have "of_char (char_upper c) = (of_char c - 32 :: nat)"
    using True by (simp add: char_upper_def of_char_of)
  moreover have "65 \<le> of_char c - (32 :: nat)" "of_char c - (32 :: nat) \<le> 90"
    using b by linarith+
  ultimately have "py_isupper (char_upper c)" by (simp add: py_isupper_def char_le_code)
  then show ?thesis by (simp add: shell_safe_def py_isalnum_def)
qed (simp add: char_upper_def)

lemma shell_safe_consts [simp]:
  "shell_safe (CHR ''_'')" "list_all shell_safe FWD_TAG_PREFIX" "list_all shell_safe SNAT_TAG_PREFIX"
  "list_all shell_safe TOR_TAG_PREFIX" "plain TS_ZONE_NAME"
  by code_simp+

lemma safe_replace: "list_all shell_safe s \<Longrightarrow> list_all shell_safe (py_replace a (CHR ''_'') s)"
  by (induction s) auto

lemma safe_upper: "list_all shell_safe s \<Longrightarrow> list_all shell_safe (py_upper s)"
  by (induction s) (simp_all add: shell_safe_upper)

lemma tags_plain:
  assumes "rule_plain r"
  shows "plain (fwd_tag (src_zone r) (dest_cidr r))" "plain (snat_tag (src_zone r) (dest_cidr r))"
    "proto \<in> {''tcp'', ''udp''} \<Longrightarrow> plain (tor_tag (src_zone r) (dest_cidr r) proto)"
proof -
  have p: "proto \<in> {''tcp'', ''udp''} \<Longrightarrow> list_all shell_safe (py_upper proto)"
  proof -
    have "list_all shell_safe (py_upper ''tcp'')" "list_all shell_safe (py_upper ''udp'')" by code_simp+
    then show "proto \<in> {''tcp'', ''udp''} \<Longrightarrow> list_all shell_safe (py_upper proto)" by auto
  qed
  have "list_all shell_safe (py_upper (src_zone r))" "list_all shell_safe (dest_slug (dest_cidr r))"
    using assms by (simp_all add: rule_plain_def plain_def safe_upper dest_slug_def safe_replace)
  with p show "plain (fwd_tag (src_zone r) (dest_cidr r))" "plain (snat_tag (src_zone r) (dest_cidr r))"
    "proto \<in> {''tcp'', ''udp''} \<Longrightarrow> plain (tor_tag (src_zone r) (dest_cidr r) proto)"
    by (simp_all add: plain_def fwd_tag_def snat_tag_def tor_tag_def)
qed

lemma iface_by_zone_in:
  "dict_get (iface_by_zone sns) z = Some i \<Longrightarrow> \<exists>s\<in>set sns. i = sn_iface s"
  unfolding iface_by_zone_def
  by (induction sns arbitrary: i rule: rev_induct) (auto split: if_splits)

lemma src_iface_plain:
  assumes "snapshot_plain st" "dict_get_or (iface_by_zone (subnets st)) z [] \<noteq> []"
  shows "plain (dict_get_or (iface_by_zone (subnets st)) z [])"
  using assms iface_by_zone_in [of "subnets st" z]
  by (auto simp: dict_get_or_def snapshot_plain_def plain_def list_all_iff split: option.splits)

lemma out_iface_plain:
  assumes "check_rules rules st = None" "r \<in> set rules" "snapshot_plain st" "via r \<noteq> Tor"
  shows "plain (out_iface st (via r))"
    "via r = Tailnet \<Longrightarrow> nat_mode r = Snat \<Longrightarrow> plain (ts_ip st)"
proof -
  note facts = assms(1) [unfolded check_rules_def] assms(2,3)
  show "plain (out_iface st (via r))"
    using facts assms(4)
    by (cases "via r") (auto simp: list_ex_iff present_def out_iface_def snapshot_plain_def safe_opt_def
        plain_def [of "case wan_iface st of Some i \<Rightarrow> i | None \<Rightarrow> []"]
        plain_def [of "case proton_iface st of Some i \<Rightarrow> i | None \<Rightarrow> []"]
        split: if_splits option.splits)
  show "plain (ts_ip st)" if "via r = Tailnet" "nat_mode r = Snat"
    using facts that
    by (auto simp: list_ex_iff present_def ts_ip_def snapshot_plain_def safe_opt_def plain_def
        split: if_splits option.splits)
qed

lemma filter_delete_insert:
  "filter is_insert (delete_insert [] c t) = [''iptables -I '' @ c @ '' '' @ t]"
  "filter is_insert (delete_insert ''-t nat '' c t) = [''iptables -t nat -I '' @ c @ '' '' @ t]"
  by (simp_all add: delete_insert_def is_insert_def starts_with_def)

lemma persist_rule_inserts:
  assumes "check_rules rules st = None" "r \<in> set rules" "snapshot_plain st" "rule_plain r"
  shows "filter is_insert (persist_rule st r) = rule_ops st r"
proof (cases "via r = Tor")
  case True
  with tags_plain [OF assms(4)] src_iface_plain [OF assms(3), of "src_zone r"] assms(4)
  show ?thesis
    by (auto simp: persist_rule_def rule_ops_def Let_def filter_concat tor_protos_def
        filter_delete_insert rule_plain_def)
next
  case False
  note out = out_iface_plain [OF assms(1-3) False]
  show ?thesis
  proof (cases "nat_mode r")
    case Routed
    with False tags_plain [OF assms(4)] out(1) assms(4) show ?thesis
      by (auto simp: persist_rule_def rule_ops_def Let_def filter_delete_insert rule_plain_def
          plain_def [of "out_iface st (via r)"])
  next
    case Snat
    from out(1) have "out_iface st (via r) \<noteq> []" by (simp add: plain_def)
    moreover have "via r = Tailnet \<Longrightarrow> ts_ip st \<noteq> []" using out(2) Snat by (simp add: plain_def)
    ultimately show ?thesis
      using False Snat tags_plain [OF assms(4)] out assms(4)
      by (auto simp: persist_rule_def rule_ops_def Let_def filter_delete_insert rule_plain_def)
  qed
qed

section \<open>The reconciler\<close>

interpretation forwarding: reconciler apply_state discover_cmd snapshot_of check_rules all_ops "[discover_cmd]"
proof
  fix run :: "string list shell" and d d1 d2 rules e out res x
  show "\<exists>x. apply_state run d rules = (d1, Inl x)" if "run d discover_cmd = (d1, Inl e)"
    using that by (simp add: apply_state_def discover_state_def)
  show "apply_state run d rules = (d1, Inl x)"
    if "run d discover_cmd = (d1, Inr out)" "check_rules rules (snapshot_of out) = Some x"
    using that by (simp add: apply_state_def discover_state_def)
  show "\<exists>x. apply_state run d rules = (d2, Inl x)"
    if "run d discover_cmd = (d1, Inr out)" "check_rules rules (snapshot_of out) = None"
      "run_chunks run d1 [] (chunks BATCH_SIZE (all_ops (snapshot_of out) rules)) = (d2, Inl e)"
    using that by (simp add: apply_state_def discover_state_def)
  show "fst (apply_state run d rules) = foldl (\<lambda>d c. fst (run d c)) d2 [discover_cmd]"
    if "run d discover_cmd = (d1, Inr out)" "check_rules rules (snapshot_of out) = None"
      "run_chunks run d1 [] (chunks BATCH_SIZE (all_ops (snapshot_of out) rules)) = (d2, Inr res)"
    using that by (simp add: apply_state_def discover_state_def split: prod.split sum.split)
qed

section \<open>The block in the file\<close>

lemma delete_insert_iptables: "\<forall>l\<in>set (delete_insert t c s). starts_with ''iptables '' l"
  by (simp add: delete_insert_def starts_with_def)

lemma persist_rule_iptables: "\<forall>l\<in>set (persist_rule st r). starts_with ''iptables '' l"
  unfolding persist_rule_def Let_def
  using delete_insert_iptables by (auto simp: tor_protos_def)

lemma persist_line_iptables:
  "l \<in> set (build_persist_lines st rules) \<Longrightarrow> starts_with ''iptables '' l"
  using persist_rule_iptables by (auto simp: build_persist_lines_def)

lemma awk_keep_append:
  "\<forall>l\<in>set xs. l \<noteq> BLOCK_BEGIN \<and> l \<noteq> BLOCK_END \<Longrightarrow> awk_keep False (xs @ ys) = xs @ awk_keep False ys"
  "\<forall>l\<in>set xs. l \<noteq> BLOCK_BEGIN \<and> l \<noteq> BLOCK_END \<Longrightarrow> awk_keep True (xs @ ys) = awk_keep True ys"
  by (induction xs) auto

lemma awk_keep_clean: "l \<in> set (awk_keep b ls) \<Longrightarrow> l \<noteq> BLOCK_BEGIN \<and> l \<noteq> BLOCK_END"
  by (induction b ls rule: awk_keep.induct) (auto split: if_splits)

lemma block_markers: "newline \<notin> set BLOCK_BEGIN" "newline \<notin> set BLOCK_END" "BLOCK_END \<noteq> BLOCK_BEGIN"
  "\<not> starts_with ''iptables '' BLOCK_BEGIN" "\<not> starts_with ''iptables '' BLOCK_END"
  "BLOCK_BEGIN \<noteq> []" "BLOCK_END \<noteq> []"
  by code_simp+

text \<open>The lines of the block, when no line of it holds a line break.\<close>

definition block_lines :: "string list \<Rightarrow> string list" where
  "block_lines ls = (if ls = [] then [[]] else ls)"

lemma split_new_block:
  assumes "\<forall>l\<in>set ls. newline \<notin> set l"
  shows "py_split newline (new_block ls) = BLOCK_BEGIN # block_lines ls @ [BLOCK_END]"
proof -
  have j: "py_join [newline] ls @ newline # BLOCK_END = py_join [newline] (block_lines ls @ [BLOCK_END])"
  proof (cases ls)
    case (Cons l ls')
    then show ?thesis unfolding Cons
      by (induction ls' arbitrary: l) (simp_all add: block_lines_def)
  qed (simp add: block_lines_def)
  have "py_split newline (py_join [newline] (block_lines ls @ [BLOCK_END])) = block_lines ls @ [BLOCK_END]"
    using assms block_markers by (intro py_split_join) (auto simp: block_lines_def)
  with j block_markers show ?thesis by (simp add: new_block_def py_split_append)
qed

lemma awk_drops_block:
  assumes "\<forall>l\<in>set ls. newline \<notin> set l \<and> starts_with ''iptables '' l"
  shows "awk_keep False (firewall_user_after file ls) = awk_keep False file"
proof -
  have ls: "\<forall>l\<in>set (block_lines ls). l \<noteq> BLOCK_BEGIN \<and> l \<noteq> BLOCK_END"
    using assms block_markers by (auto simp: block_lines_def)
  have kept: "\<forall>l\<in>set (awk_keep False file). l \<noteq> BLOCK_BEGIN \<and> l \<noteq> BLOCK_END"
    using awk_keep_clean by blast
  show ?thesis
    using awk_keep_append(1) [OF kept] awk_keep_append(2) [OF ls] block_markers assms
    by (simp add: firewall_user_after_def split_new_block)
qed

section \<open>Properties\<close>

text \<open>
  C7. A firewall reload restores the same rules: when the rules pass validation and no value needs
  quoting, the insertions persisted in \<^verbatim>\<open>/etc/firewall.user\<close> are, command for command and in order,
  those injected live.
\<close>

theorem reload_restores_live_rules:
  assumes "check_rules rules st = None" "snapshot_plain st" "\<forall>r\<in>set rules. rule_plain r"
  shows "filter is_insert (build_persist_lines st rules) = concat (map (rule_ops st) rules)"
proof -
  have "map (filter is_insert \<circ> persist_rule st) rules = map (rule_ops st) rules"
    using persist_rule_inserts [OF assms(1) _ assms(2)] assms(3) by simp
  then show ?thesis by (simp only: build_persist_lines_def filter_concat map_map)
qed

definition sample_snapshot :: snapshot where
  "sample_snapshot =
     \<lparr>subnets = [\<lparr>sn_slug = ''iot'', sn_zone = ''iot'', sn_iface = ''br-iot'',
                   sn_cidr = ''192.168.9.0/24'', sn_ipaddr = ''192.168.9.1''\<rparr>],
      ts_zone_exists = True, ts_self_ip = Some ''100.64.0.7'', wan_iface = Some ''eth0'',
      proton_iface = None, tor_active = True, active_snat = [], active_fwd = [], active_tor = []\<rparr>"

definition sample_rule :: "nat_mode \<Rightarrow> via \<Rightarrow> desired_rule" where
  "sample_rule m v = \<lparr>src_zone = ''iot'', src_cidr = ''192.168.9.0/24'', dest_cidr = ''10.13.69.0/24'',
                      nat_mode = m, via = v\<rparr>"

definition sample_rules :: "desired_rule list" where
  "sample_rules = [sample_rule Snat Tailnet, sample_rule Routed Wan, sample_rule Snat Wan,
                   sample_rule Routed Tor]"

lemma reload_restores_live_rules_witness:
  "filter is_insert (build_persist_lines sample_snapshot sample_rules)
     = concat (map (rule_ops sample_snapshot) sample_rules)"
proof -
  have "check_rules sample_rules sample_snapshot = None" "snapshot_plain sample_snapshot"
    "list_all rule_plain sample_rules"
    by code_simp+
  then show ?thesis
    using reload_restores_live_rules [of sample_rules sample_snapshot] by (simp add: list_all_iff)
qed

text \<open>
  C25. What an apply sends, whatever the device answers: a validated list of rules becomes the flush of
  every tagged rule, the injections and the rewrite of the persisted block, cut into consecutive
  batches of one to twenty operations. Between two discoveries the batches are sent in order; the first
  one that fails is the last command the device gets, and the caller gets an error.
\<close>

theorem apply_sends_batches_until_failure:
  assumes "answer discover_cmd = Inr out" "check_rules rules (snapshot_of out) = None"
  shows "\<exists>batches. concat batches = flush_ops @ concat (map (rule_ops (snapshot_of out)) rules)
             @ [rewrite_block_op (build_persist_lines (snapshot_of out) rules)]
         \<and> list_all (\<lambda>b. 0 < length b \<and> length b \<le> 20) batches
         \<and> (let cs = map (py_join '' ; '') batches; ok = list_all (answered answer) cs
            in fst (apply_state (recorder answer) log rules) =
                 log @ discover_cmd # sent (answered answer) cs @ (if ok then [discover_cmd] else [])
               \<and> (ok \<or> isl (snd (apply_state (recorder answer) log rules))))"
  using forwarding.batches_whole [of out rules] forwarding.batches_small [of out rules]
    forwarding.commands_reaching_the_device [of answer out rules, OF assms refl]
  unfolding all_ops_def Let_def by blast

text \<open>A device that answers the discovery and fails on everything else.\<close>

definition stubborn :: "string \<Rightarrow> string \<Rightarrow> string + string" where
  "stubborn question cmd = (if cmd = question then Inr [] else Inl ''timeout'')"

lemma apply_sends_batches_until_failure_witness:
  "\<exists>batches. concat batches = flush_ops @ concat (map (rule_ops (snapshot_of [])) [])
         @ [rewrite_block_op (build_persist_lines (snapshot_of []) [])]
     \<and> list_all (\<lambda>b. 0 < length b \<and> length b \<le> 20) batches
     \<and> (let cs = map (py_join '' ; '') batches; ok = list_all (answered (stubborn discover_cmd)) cs
        in fst (apply_state (recorder (stubborn discover_cmd)) [] []) =
             [] @ discover_cmd # sent (answered (stubborn discover_cmd)) cs @ (if ok then [discover_cmd] else [])
           \<and> (ok \<or> isl (snd (apply_state (recorder (stubborn discover_cmd)) [] []))))"
proof -
  have "stubborn discover_cmd discover_cmd = Inr []" "check_rules [] (snapshot_of []) = None"
    by (simp_all add: check_rules_def stubborn_def)
  then show ?thesis by (rule apply_sends_batches_until_failure)
qed

text \<open>
  Validation comes before the flush: rules that need a missing tailnet zone or address, WAN or Proton
  interface or Tor daemon leave the device as the discovery left it, with the error that says which.
\<close>

theorem invalid_rules_touch_nothing:
  assumes "discover_state run d = (d1, Inr st)" "check_rules rules st = Some e"
  shows "apply_state run d rules = (d1, Inl e)
         \<and> (\<exists>r\<in>set rules.
              (e = No_Ts_Zone \<and> via r = Tailnet \<and> \<not> ts_zone_exists st)
              \<or> (e = No_Ts_Address \<and> via r = Tailnet \<and> nat_mode r = Snat \<and> \<not> present (ts_self_ip st))
              \<or> (e = No_Wan \<and> via r = Wan \<and> \<not> present (wan_iface st))
              \<or> (e = No_Proton \<and> via r = Proton \<and> \<not> present (proton_iface st))
              \<or> (e = No_Tor \<and> via r = Tor \<and> \<not> tor_active st))"
  using assms by (auto simp: apply_state_def check_rules_def list_ex_iff split: if_splits)

lemma invalid_rules_touch_nothing_witness:
  "apply_state (recorder (\<lambda>_. Inr [])) [] sample_rules = ([discover_cmd], Inl No_Ts_Zone)"
proof -
  have "discover_state (recorder (\<lambda>_. Inr [])) [] = ([discover_cmd], Inr (snapshot_of []))"
    by (simp add: discover_state_def recorder_def)
  moreover have "check_rules sample_rules (snapshot_of []) = Some No_Ts_Zone"
    by code_simp
  ultimately show ?thesis
    using invalid_rules_touch_nothing [of "recorder (\<lambda>_. Inr [])" "[]" "[discover_cmd]" "snapshot_of []"
        sample_rules No_Ts_Zone] by simp
qed

text \<open>
  Rewriting the block replaces the old one and touches nothing else: applying other rules later
  leaves the file as if only they had been applied, and a block that other lines precede and follow is
  dropped while those lines stay, in order, ahead of the new block.
\<close>

theorem block_rewrite_idempotent:
  assumes "\<forall>l\<in>set (build_persist_lines st1 rules1). newline \<notin> set l"
    and "\<forall>l\<in>set (pre @ mid @ post). l \<noteq> BLOCK_BEGIN \<and> l \<noteq> BLOCK_END"
  shows "firewall_user_after (firewall_user_after file (build_persist_lines st1 rules1))
             (build_persist_lines st2 rules2)
           = firewall_user_after file (build_persist_lines st2 rules2)
         \<and> firewall_user_after (pre @ BLOCK_BEGIN # mid @ BLOCK_END # post) (build_persist_lines st2 rules2)
             = pre @ post @ py_split newline (new_block (build_persist_lines st2 rules2))"
proof -
  have "awk_keep False (firewall_user_after file (build_persist_lines st1 rules1)) = awk_keep False file"
    using assms(1) persist_line_iptables by (intro awk_drops_block) blast
  moreover have "awk_keep False (pre @ BLOCK_BEGIN # mid @ BLOCK_END # post) = pre @ post"
  proof -
    have "awk_keep False post = post"
      using awk_keep_append(1) [of post "[]"] assms(2) by simp
    then show ?thesis
      using awk_keep_append(1) [of pre] awk_keep_append(2) [of mid] assms(2) block_markers by simp
  qed
  ultimately show ?thesis by (simp add: firewall_user_after_def)
qed

lemma block_rewrite_idempotent_witness:
  "firewall_user_after (firewall_user_after [''# mine''] (build_persist_lines sample_snapshot sample_rules)) []
     = [''# mine'', BLOCK_BEGIN, [], BLOCK_END]
   \<and> firewall_user_after [''# mine'', BLOCK_BEGIN, ''old'', BLOCK_END, ''# also mine''] []
     = [''# mine'', ''# also mine'', BLOCK_BEGIN, [], BLOCK_END]"
proof -
  have "list_all (\<lambda>l. newline \<notin> set l) (build_persist_lines sample_snapshot sample_rules)"
    "firewall_user_after [''# mine''] [] = [''# mine'', BLOCK_BEGIN, [], BLOCK_END]"
    "py_split newline (new_block []) = [BLOCK_BEGIN, [], BLOCK_END]"
    "list_all (\<lambda>l. l \<noteq> BLOCK_BEGIN \<and> l \<noteq> BLOCK_END) [''# mine'', ''old'', ''# also mine'']"
    by code_simp+
  moreover have "build_persist_lines sample_snapshot [] = []" by (simp add: build_persist_lines_def)
  ultimately show ?thesis
    using block_rewrite_idempotent [of sample_snapshot sample_rules "[''# mine'']" "[''old'']"
        "[''# also mine'']" "[''# mine'']" sample_snapshot "[]"]
    by (simp add: list_all_iff)
qed

end
