(* ===== verification/Sha1.thy ===== *)
theory Sha1
  imports Main "HOL-Library.Word"
begin

text \<open>
  SHA-1 (FIPS 180-4), as Python's \<^verbatim>\<open>hashlib.sha1\<close> computes it: the digest of a byte string as its
  five words. The backend derives firewall marks from it. A 32-bit word is an integer, and additions
  are reduced modulo \<open>2 ^ 32\<close>, so that the simplifier computes digests.
\<close>

unbundle bit_operations_syntax

definition byte_of :: "char \<Rightarrow> int" where
  "byte_of c = of_char c"

text \<open>Padding to a multiple of 64 bytes: a one bit, zeros, the length in bits on 64 bits.\<close>

definition length_bytes :: "nat \<Rightarrow> int list" where
  "length_bytes n = map (\<lambda>i. 8 * int n div 256 ^ i mod 256) [7, 6, 5, 4, 3, 2, 1, 0]"

definition padded :: "string \<Rightarrow> int list" where
  "padded s =
     map byte_of s @ [128] @ replicate ((119 - length s mod 64) mod 64) 0 @ length_bytes (length s)"

fun be_words :: "int list \<Rightarrow> int list" where
  "be_words (a # b # c # d # bs) =
     (push_bit 24 a OR push_bit 16 b OR push_bit 8 c OR d) # be_words bs"
| "be_words _ = []"

definition add32 :: "int \<Rightarrow> int \<Rightarrow> int" where
  "add32 x y = (x + y) mod 0x100000000"

definition rotl32 :: "nat \<Rightarrow> int \<Rightarrow> int" where
  "rotl32 n x = take_bit 32 (push_bit n x) OR drop_bit (32 - n) x"

text \<open>The message schedule, last word first.\<close>

fun extend_schedule :: "nat \<Rightarrow> int list \<Rightarrow> int list" where
  "extend_schedule 0 ws = ws"
| "extend_schedule (Suc n) ws =
     extend_schedule n (rotl32 1 ((ws ! 2) XOR (ws ! 7) XOR (ws ! 13) XOR (ws ! 15)) # ws)"

definition round_f :: "nat \<Rightarrow> int \<Rightarrow> int \<Rightarrow> int \<Rightarrow> int" where
  "round_f t b c d =
     (if t < 20 then (b AND c) OR ((0xFFFFFFFF XOR b) AND d)
      else if t < 40 then b XOR c XOR d
      else if t < 60 then (b AND c) OR (b AND d) OR (c AND d)
      else b XOR c XOR d)"

definition round_k :: "nat \<Rightarrow> int" where
  "round_k t = (if t < 20 then 0x5A827999 else if t < 40 then 0x6ED9EBA1
                else if t < 60 then 0x8F1BBCDC else 0xCA62C1D6)"

type_synonym sha_state = "int \<times> int \<times> int \<times> int \<times> int"

fun sha_rounds :: "nat \<Rightarrow> int list \<Rightarrow> sha_state \<Rightarrow> sha_state" where
  "sha_rounds t [] st = st"
| "sha_rounds t (w # ws) (a, b, c, d, e) =
     sha_rounds (Suc t) ws
       (add32 (rotl32 5 a + round_f t b c d) (e + round_k t + w), a, rotl32 30 b, c, d)"

definition sha_block :: "sha_state \<Rightarrow> int list \<Rightarrow> sha_state" where
  "sha_block st ws =
     (case (st, sha_rounds 0 (rev (extend_schedule 64 (rev ws))) st) of
        ((a, b, c, d, e), (a', b', c', d', e')) \<Rightarrow> (add32 a a', add32 b b', add32 c c', add32 d d', add32 e e'))"

fun sha_blocks :: "nat \<Rightarrow> sha_state \<Rightarrow> int list \<Rightarrow> sha_state" where
  "sha_blocks 0 st ws = st"
| "sha_blocks (Suc n) st ws = sha_blocks n (sha_block st (take 16 ws)) (drop 16 ws)"

definition sha1 :: "string \<Rightarrow> sha_state" where
  "sha1 s =
     (let ws = be_words (padded s)
      in sha_blocks (length ws div 16)
           (0x67452301, 0xEFCDAB89, 0x98BADCFE, 0x10325476, 0xC3D2E1F0) ws)"

text \<open>The first two bytes of the digest, as a big-endian number.\<close>

definition sha1_16 :: "string \<Rightarrow> int" where
  "sha1_16 s = fst (sha1 s) div 0x10000 mod 0x10000"

lemma sha1_16_range: "0 \<le> sha1_16 s \<and> sha1_16 s < 65536"
  by (simp add: sha1_16_def)

lemma sha1_16_kids_test: "sha1_16 ''kids|test'' = 55898"
  by code_simp

end
