(* ===== verification/Dns_Routing.thy ===== *)
theory Dns_Routing
  imports Ts_Apply Sha1
begin

text \<open>
  DNS-based policy routing (\<^verbatim>\<open>backend/app/tailscale/dns_routing.py\<close>): every rule becomes an ipset, a
  mangle mark derived from the SHA-1 of its zone and label, a policy rule and a routing table. The
  reconciler discovers the device's state, builds the script lines and sends them in batches.
\<close>

definition DNS_TAG_PREFIX :: string where "DNS_TAG_PREFIX = ''SC_FR_DNS_''"
definition DNSMASQ_CONFDIR :: string where "DNSMASQ_CONFDIR = ''/tmp/dnsmasq.d''"
definition DNSMASQ_CONF_PATH :: string where
  "DNSMASQ_CONF_PATH = DNSMASQ_CONFDIR @ ''/slate-ctrl-policies.conf''"
definition PERSIST_BLOCK_BEGIN :: string where
  "PERSIST_BLOCK_BEGIN = ''### SC_FR_DNS block - managed by slate-controller - do not edit ###''"
definition PERSIST_BLOCK_END :: string where
  "PERSIST_BLOCK_END = ''### SC_FR_DNS block end ###''"

record domain_rule =
  dr_zone :: string
  dr_iface :: string
  dr_label :: string
  dr_domains :: "string list"
  dr_mode :: nat_mode
  dr_via :: via
  egress_iface :: string
  egress_snat_ip :: string

record dns_snapshot =
  ipset_installed :: bool
  dnsmasq_path :: string
  active_ipsets :: "string list"
  active_marks :: "(string \<times> string) list"

section \<open>Names, marks, tables\<close>

definition ipset_name :: "string \<Rightarrow> string \<Rightarrow> string" where
  "ipset_name zone label = take 31 (py_lower (''slate_'' @ zone @ ''_'' @ label))"

definition mangle_tag :: "string \<Rightarrow> string \<Rightarrow> string" where
  "mangle_tag zone label = DNS_TAG_PREFIX @ py_upper zone @ ''_'' @ py_upper label"

definition fwmark_for :: "string \<Rightarrow> string \<Rightarrow> int" where
  "fwmark_for zone label = 0x0100 + sha1_16 (zone @ ''|'' @ label) mod 0xFE00"

definition route_table_for :: "string \<Rightarrow> string \<Rightarrow> int" where
  "route_table_for zone label = 100 + fwmark_for zone label mod 800"

text \<open>\<^verbatim>\<open>f"0x{mark:x}"\<close> for a mark that is not negative.\<close>

fun hex_digits :: "nat \<Rightarrow> string" where
  "hex_digits n = (if n < 16 then [hex_digit n] else hex_digits (n div 16) @ [hex_digit (n mod 16)])"

declare hex_digits.simps [simp del]

definition hex_mark :: "int \<Rightarrow> string" where
  "hex_mark n = ''0x'' @ hex_digits (nat n)"

section \<open>Discovery\<close>

definition dns_discover_cmd :: string where
  "dns_discover_cmd =
     ''echo '' @ single_quoted ''---IPSET---'' @ ''; which ipset 2>/dev/null && echo yes || echo no; ''
     @ ''echo '' @ single_quoted ''---DNSMASQ---'' @ ''; which dnsmasq; ''
     @ ''echo '' @ single_quoted ''---ACTIVE_IPSETS---'' @ ''; ipset list -n 2>/dev/null | grep ''
     @ single_quoted ''^slate_'' @ '' || true; echo '' @ single_quoted ''---ACTIVE_MARKS---''
     @ ''; iptables -t mangle -S PREROUTING 2>/dev/null '' @ grep_tags DNS_TAG_PREFIX @ '' || true''"

definition mark_pair :: "string \<Rightarrow> (string \<times> string) option" where
  "mark_pair tag =
     (let rest = drop (length DNS_TAG_PREFIX) tag
      in if starts_with DNS_TAG_PREFIX tag \<and> CHR ''_'' \<in> set rest
         then (case py_partition (CHR ''_'') rest of (z, l) \<Rightarrow> Some (py_lower z, py_lower l))
         else None)"

definition dns_line :: "string \<Rightarrow> string \<Rightarrow> dns_snapshot \<Rightarrow> dns_snapshot" where
  "dns_line sec line d =
     (if line = [] then d
      else if sec = ''ipset'' \<and> (line = ''yes'' \<or> starts_with ''/'' line) then d\<lparr>ipset_installed := True\<rparr>
      else if sec = ''dnsmasq'' \<and> starts_with ''/'' line then d\<lparr>dnsmasq_path := line\<rparr>
      else if sec = ''active_ipsets'' \<and> starts_with ''slate_'' line
      then d\<lparr>active_ipsets := List.insert line (active_ipsets d)\<rparr>
      else if sec = ''active_marks'' then
        (case Option.bind (comment_tag line) mark_pair of
           Some p \<Rightarrow> d\<lparr>active_marks := List.insert p (active_marks d)\<rparr> | None \<Rightarrow> d)
      else d)"

fun dns_scan :: "string \<Rightarrow> string list \<Rightarrow> dns_snapshot \<Rightarrow> dns_snapshot" where
  "dns_scan sec [] d = d"
| "dns_scan sec (raw # ls) d =
     (let line = py_strip raw
      in if is_header line then dns_scan (header_name line) ls d
         else dns_scan sec ls (dns_line sec line d))"

definition dns_snapshot_of :: "string \<Rightarrow> dns_snapshot" where
  "dns_snapshot_of out =
     dns_scan [] (py_splitlines out)
       \<lparr>ipset_installed = False, dnsmasq_path = [], active_ipsets = [], active_marks = []\<rparr>"

definition dns_discover :: "'d shell \<Rightarrow> 'd \<Rightarrow> 'd \<times> (string + dns_snapshot)" where
  "dns_discover run d =
     (case run d dns_discover_cmd of
        (d1, Inl e) \<Rightarrow> (d1, Inl (''SSH discover failed: '' @ e))
      | (d1, Inr out) \<Rightarrow> (d1, Inr (dns_snapshot_of out)))"

section \<open>The script\<close>

definition conf_header :: "string list" where
  "conf_header =
     [''# This file is generated by slate-controller. Do not edit manually.'',
      ''# Each `ipset=/<domain>/<ipset>` line tells dnsmasq to push every resolved IP'',
      ''# for <domain> into the named ipset. The mangle MARK rules and policy'',
      ''# routing entries are in /etc/firewall.user.'', []]"

definition dnsmasq_conf :: "domain_rule list \<Rightarrow> string" where
  "dnsmasq_conf rules =
     py_join [newline]
       (conf_header @ concat (map (\<lambda>r. map (\<lambda>dom.
          ''ipset=/'' @ dom @ ''/'' @ ipset_name (dr_zone r) (dr_label r)) (dr_domains r)) rules))
     @ [newline]"

definition dns_rule_lines :: "domain_rule \<Rightarrow> string list" where
  "dns_rule_lines r =
     (let name = ipset_name (dr_zone r) (dr_label r);
          tag = mangle_tag (dr_zone r) (dr_label r);
          mark = hex_mark (fwmark_for (dr_zone r) (dr_label r));
          table = py_str (route_table_for (dr_zone r) (dr_label r))
      in
      [''ipset create '' @ name @ '' hash:ip family inet timeout 3600 -exist'']
      @ delete_insert ''-t mangle '' ''PREROUTING''
          (''-i '' @ dr_iface r @ '' -m set --match-set '' @ name @ '' dst -j MARK --set-mark ''
           @ mark @ '' -m comment --comment '' @ tag)
      @ [''ip rule del fwmark '' @ mark @ '' table '' @ table @ '' 2>/dev/null'',
         ''ip rule add fwmark '' @ mark @ '' table '' @ table @ '' priority 5000'',
         ''ip route flush table '' @ table @ '' 2>/dev/null'',
         ''ip route add default dev '' @ egress_iface r @ '' table '' @ table]
      @ (case dr_mode r of
           Routed \<Rightarrow> []
         | Snat \<Rightarrow>
             delete_insert ''-t nat '' ''POSTROUTING''
               (''-m mark --mark '' @ mark @ '' -o '' @ egress_iface r
                @ (if dr_via r = Tailnet \<and> egress_snat_ip r \<noteq> []
                   then '' -j SNAT --to-source '' @ egress_snat_ip r else '' -j MASQUERADE'')
                @ '' -m comment --comment '' @ tag)))"

definition wanted_ipsets :: "domain_rule list \<Rightarrow> string list" where
  "wanted_ipsets rules = remdups (map (\<lambda>r. ipset_name (dr_zone r) (dr_label r)) rules)"

definition orphan_ipsets :: "dns_snapshot \<Rightarrow> domain_rule list \<Rightarrow> string list" where
  "orphan_ipsets st rules =
     sort (remdups (filter (\<lambda>n. n \<notin> set (wanted_ipsets rules)) (active_ipsets st)))"

definition dns_persist_lines :: "dns_snapshot \<Rightarrow> domain_rule list \<Rightarrow> string list" where
  "dns_persist_lines st rules =
     concat (map dns_rule_lines rules)
     @ map (\<lambda>n. ''ipset destroy '' @ n @ '' 2>/dev/null'') (orphan_ipsets st rules)"

text \<open>Standard base64 of a byte string.\<close>

definition b64_char :: "nat \<Rightarrow> char" where
  "b64_char n = ''ABCDEFGHIJKLMNOPQRSTUVWXYZabcdefghijklmnopqrstuvwxyz0123456789+/'' ! n"

fun b64 :: "nat list \<Rightarrow> string" where
  "b64 [] = []"
| "b64 [a] = [b64_char (a div 4), b64_char (a mod 4 * 16), CHR ''='', CHR ''='']"
| "b64 [a, b] =
     [b64_char (a div 4), b64_char (a mod 4 * 16 + b div 16), b64_char (b mod 16 * 4), CHR ''='']"
| "b64 (a # b # c # bs) =
     [b64_char (a div 4), b64_char (a mod 4 * 16 + b div 16),
      b64_char (b mod 16 * 4 + c div 64), b64_char (c mod 64)] @ b64 bs"

definition b64encode :: "string \<Rightarrow> string" where
  "b64encode s = b64 (map of_char s)"

definition push_conf_op :: "domain_rule list \<Rightarrow> string" where
  "push_conf_op rules =
     ''mkdir -p '' @ DNSMASQ_CONFDIR @ '' && echo '' @ b64encode (dnsmasq_conf rules)
     @ '' | openssl base64 -d > '' @ DNSMASQ_CONF_PATH @ ''.tmp && mv '' @ DNSMASQ_CONF_PATH @ ''.tmp ''
     @ DNSMASQ_CONF_PATH"

definition dns_flush_ops :: "string list" where
  "dns_flush_ops =
     map (\<lambda>(table, chain).
       ''iptables -t '' @ table @ '' -S '' @ chain @ '' 2>/dev/null '' @ grep_tags DNS_TAG_PREFIX
       @ '' | while read line; do ''
       @ ''  rule=$('' @ quoted_line @ '' | sed '' @ single_quoted (''s/^-A '' @ chain @ '' //'') @ ''); ''
       @ ''  iptables -t '' @ table @ '' -D '' @ chain @ '' $rule 2>/dev/null; done; true'')
       [(''mangle'', ''PREROUTING''), (''nat'', ''POSTROUTING'')]"

definition dns_block :: "string list \<Rightarrow> string" where
  "dns_block ls =
     PERSIST_BLOCK_BEGIN @ [newline] @ py_join [newline] ls @ [newline] @ PERSIST_BLOCK_END"

definition dns_ops :: "dns_snapshot \<Rightarrow> domain_rule list \<Rightarrow> string list" where
  "dns_ops st rules =
     [push_conf_op rules]
     @ (if rules = [] then [''echo '' @ [squote, squote] @ '' > '' @ DNSMASQ_CONF_PATH] else [])
     @ dns_flush_ops
     @ dns_persist_lines st rules
     @ [block_script PERSIST_BLOCK_BEGIN PERSIST_BLOCK_END (dns_block (dns_persist_lines st rules)),
        ''/etc/init.d/dnsmasq restart 2>&1 | tail -3 || true'']"

section \<open>Apply\<close>

datatype dns_error = Dns_Discover_Failed string | No_Ipset | No_Dnsmasq | Dns_Apply_Failed string

record dns_result =
  dns_applied :: nat
  dns_ipsets :: "string list"
  dns_orphans :: "string list"
  dns_output :: string

definition dns_check :: "domain_rule list \<Rightarrow> dns_snapshot \<Rightarrow> dns_error option" where
  "dns_check rules st =
     (if rules \<noteq> [] \<and> \<not> ipset_installed st then Some No_Ipset
      else if rules \<noteq> [] \<and> dnsmasq_path st = [] then Some No_Dnsmasq
      else None)"

definition dns_apply ::
  "'d shell \<Rightarrow> 'd \<Rightarrow> domain_rule list \<Rightarrow> 'd \<times> (dns_error + dns_result)" where
  "dns_apply run d rules =
     (case dns_discover run d of
        (d1, Inl e) \<Rightarrow> (d1, Inl (Dns_Discover_Failed e))
      | (d1, Inr st) \<Rightarrow>
          (case dns_check rules st of
             Some e \<Rightarrow> (d1, Inl e)
           | None \<Rightarrow>
               (case run_chunks run d1 [] (chunks BATCH_SIZE (dns_ops st rules)) of
                  (d2, Inl e) \<Rightarrow> (d2, Inl (Dns_Apply_Failed e))
                | (d2, Inr out) \<Rightarrow>
                    (d2, Inr \<lparr>dns_applied = length rules, dns_ipsets = sort (wanted_ipsets rules),
                             dns_orphans = orphan_ipsets st rules,
                             dns_output = last_chars 300 (py_strip out)\<rparr>))))"

section \<open>Properties\<close>

lemma fwmark_range: "0x0100 \<le> fwmark_for zone label \<and> fwmark_for zone label \<le> 0xFEFF"
  by (simp add: fwmark_for_def pos_mod_bound zle_diff1_eq [symmetric] del: zle_diff1_eq)

lemma wanted_is_created:
  assumes "n \<in> set (wanted_ipsets rules)"
  shows "''ipset create '' @ n @ '' hash:ip family inet timeout 3600 -exist'' \<in> set (dns_ops st rules)"
proof -
  from assms obtain r where r: "r \<in> set rules" "n = ipset_name (dr_zone r) (dr_label r)"
    by (auto simp: wanted_ipsets_def)
  then have "''ipset create '' @ n @ '' hash:ip family inet timeout 3600 -exist'' \<in> set (dns_rule_lines r)"
    by (simp add: dns_rule_lines_def Let_def)
  with r(1) have "''ipset create '' @ n @ '' hash:ip family inet timeout 3600 -exist''
      \<in> set (concat (map dns_rule_lines rules))"
    unfolding set_concat set_map by blast
  then show ?thesis unfolding dns_ops_def dns_persist_lines_def by simp
qed

lemma orphan_is_destroyed:
  assumes "n \<in> set (active_ipsets st)" "n \<notin> set (wanted_ipsets rules)"
  shows "''ipset destroy '' @ n @ '' 2>/dev/null'' \<in> set (dns_ops st rules)"
proof -
  have "n \<in> set (orphan_ipsets st rules)" using assms by (simp add: orphan_ipsets_def)
  then show ?thesis by (simp add: dns_ops_def dns_persist_lines_def)
qed

text \<open>
  Names and numbers stay in their ranges: for any zone and label the mark is a 16-bit number of
  0x0100 to 0xFEFF, the routing table is 100 to 899, and the ipset name fits the kernel's 31 characters.
\<close>

theorem dns_routing_ranges:
  "0x0100 \<le> fwmark_for zone label \<and> fwmark_for zone label \<le> 0xFEFF
   \<and> 100 \<le> route_table_for zone label \<and> route_table_for zone label \<le> 899
   \<and> length (ipset_name zone label) \<le> 31"
proof -
  have "fwmark_for zone label mod 800 < 800" "0 \<le> fwmark_for zone label mod 800" by simp_all
  moreover have "length (ipset_name zone label) \<le> 31"
    unfolding ipset_name_def length_take by simp
  ultimately show ?thesis
    using fwmark_range [of zone label] unfolding route_table_for_def by linarith
qed

text \<open>
  A rule may flush the main routing table: the range of tables contains the kernel's own (253 to
  255), and the rule of zone \<open>kids\<close> with label \<open>test\<close> is given table 254, the main one, so that applying
  it to any device flushes that table and sets its default route.
\<close>

theorem rule_takes_main_table:
  assumes "r \<in> set rules" "dr_zone r = ''kids''" "dr_label r = ''test''"
  shows "route_table_for (dr_zone r) (dr_label r) = 254
         \<and> ''ip route flush table 254 2>/dev/null'' \<in> set (dns_ops st rules)
         \<and> ''ip route add default dev '' @ egress_iface r @ '' table 254'' \<in> set (dns_ops st rules)"
proof -
  have t: "route_table_for ''kids'' ''test'' = 254"
    using sha1_16_kids_test by (simp add: route_table_for_def fwmark_for_def)
  have "py_str 254 = ''254''" by code_simp
  with t assms have "''ip route flush table 254 2>/dev/null'' \<in> set (dns_rule_lines r)"
    "''ip route add default dev '' @ egress_iface r @ '' table 254'' \<in> set (dns_rule_lines r)"
    by (simp_all add: dns_rule_lines_def Let_def)
  moreover have "set (dns_rule_lines r) \<subseteq> set (dns_ops st rules)"
    using assms(1) by (auto simp: dns_ops_def dns_persist_lines_def)
  ultimately show ?thesis using t assms by auto
qed

definition kids_rule :: domain_rule where
  "kids_rule = \<lparr>dr_zone = ''kids'', dr_iface = ''br-kids'', dr_label = ''test'',
     dr_domains = [''example.org''], dr_mode = Routed, dr_via = Tailnet,
     egress_iface = ''tailscale0'', egress_snat_ip = []\<rparr>"

lemma rule_takes_main_table_witness:
  "''ip route flush table 254 2>/dev/null'' \<in> set (dns_ops (dns_snapshot_of []) [kids_rule])"
  using rule_takes_main_table [of kids_rule "[kids_rule]" "dns_snapshot_of []"]
  by (simp add: kids_rule_def)

interpretation dns: reconciler dns_apply dns_discover_cmd dns_snapshot_of dns_check dns_ops "[]"
proof
  fix run :: "string list shell" and d d1 d2 rules e out res x
  show "\<exists>x. dns_apply run d rules = (d1, Inl x)" if "run d dns_discover_cmd = (d1, Inl e)"
    using that by (simp add: dns_apply_def dns_discover_def)
  show "dns_apply run d rules = (d1, Inl x)"
    if "run d dns_discover_cmd = (d1, Inr out)" "dns_check rules (dns_snapshot_of out) = Some x"
    using that by (simp add: dns_apply_def dns_discover_def)
  show "\<exists>x. dns_apply run d rules = (d2, Inl x)"
    if "run d dns_discover_cmd = (d1, Inr out)" "dns_check rules (dns_snapshot_of out) = None"
      "run_chunks run d1 [] (chunks BATCH_SIZE (dns_ops (dns_snapshot_of out) rules)) = (d2, Inl e)"
    using that by (simp add: dns_apply_def dns_discover_def)
  show "fst (dns_apply run d rules) = foldl (\<lambda>d c. fst (run d c)) d2 []"
    if "run d dns_discover_cmd = (d1, Inr out)" "dns_check rules (dns_snapshot_of out) = None"
      "run_chunks run d1 [] (chunks BATCH_SIZE (dns_ops (dns_snapshot_of out) rules)) = (d2, Inr res)"
    using that by (simp add: dns_apply_def dns_discover_def)
qed

text \<open>
  Reconciliation is complete: a checked list of rules is sent whole, in consecutive batches of one
  to twenty operations and up to the first failure; every live \<open>slate_\<close> ipset is then either wanted by a
  rule and created, or destroyed.
\<close>

theorem dns_apply_complete:
  assumes "answer dns_discover_cmd = Inr out" "dns_check rules (dns_snapshot_of out) = None"
    and "n \<in> set (active_ipsets (dns_snapshot_of out))"
  shows "\<exists>batches. concat batches = dns_ops (dns_snapshot_of out) rules
         \<and> list_all (\<lambda>b. 0 < length b \<and> length b \<le> 20) batches
         \<and> (let cs = map (py_join '' ; '') batches
            in fst (dns_apply (recorder answer) log rules) =
                 log @ dns_discover_cmd # sent (answered answer) cs
               \<and> (list_all (answered answer) cs \<or> isl (snd (dns_apply (recorder answer) log rules))))
         \<and> (if n \<in> set (wanted_ipsets rules)
            then ''ipset create '' @ n @ '' hash:ip family inet timeout 3600 -exist'' \<in> set (concat batches)
            else ''ipset destroy '' @ n @ '' 2>/dev/null'' \<in> set (concat batches))"
proof -
  let ?bs = "dns.batches out rules"
  have "if n \<in> set (wanted_ipsets rules)
      then ''ipset create '' @ n @ '' hash:ip family inet timeout 3600 -exist'' \<in> set (concat ?bs)
      else ''ipset destroy '' @ n @ '' 2>/dev/null'' \<in> set (concat ?bs)"
    unfolding dns.batches_whole
    using orphan_is_destroyed [OF assms(3)] wanted_is_created by presburger
  moreover have "let cs = map (py_join '' ; '') ?bs
      in fst (dns_apply (recorder answer) log rules) = log @ dns_discover_cmd # sent (answered answer) cs
       \<and> (list_all (answered answer) cs \<or> isl (snd (dns_apply (recorder answer) log rules)))"
    using dns.commands_reaching_the_device [of answer out rules, OF assms(1,2) refl]
    by (simp add: Let_def) blast
  ultimately show ?thesis
    using dns.batches_whole [of out rules] dns.batches_small [of out rules]
    by (intro exI [of _ ?bs]) (simp only: simp_thms)
qed

definition stale_set :: "string \<Rightarrow> string + string" where
  "stale_set cmd = Inr (''---ACTIVE_IPSETS---'' @ newline # ''slate_iot_old'')"

lemma dns_apply_complete_witness:
  "\<exists>batches. (let cs = map (py_join '' ; '') batches in
      fst (dns_apply (recorder stale_set) [] []) = [] @ dns_discover_cmd # sent (answered stale_set) cs)
   \<and> ''ipset destroy slate_iot_old 2>/dev/null'' \<in> set (concat batches)"
proof -
  let ?out = "''---ACTIVE_IPSETS---'' @ newline # ''slate_iot_old''"
  have "stale_set dns_discover_cmd = Inr ?out" by (simp add: stale_set_def)
  moreover have "dns_check [] (dns_snapshot_of ?out) = None" by (simp add: dns_check_def)
  moreover have "''slate_iot_old'' \<in> set (active_ipsets (dns_snapshot_of ?out))" by code_simp
  ultimately show ?thesis
    using dns_apply_complete [of stale_set ?out "[]" "''slate_iot_old''" "[]"]
    unfolding Let_def wanted_ipsets_def list.map remdups.simps list.set append.assoc by auto
qed

end
