(* ===== verification/Sec_Inventory.thy ===== *)
theory Sec_Inventory
  imports Shell_Quote
begin

text \<open>
  The software inventory of a device (\<^verbatim>\<open>backend/app/security/inventory.py\<close>, with \<^verbatim>\<open>Package\<close> and
  \<^verbatim>\<open>Inventory\<close> of \<^verbatim>\<open>backend/app/security/models.py\<close>): one SSH command prints three blocks between
  sentinels, which are parsed into the release, the board and the installed packages.

  SSH is a parameter (a function from the device state and the command to the new state and an error
  or the output), and so is the JSON decoder of the board block.
\<close>

record package =
  pkg_name :: string
  pkg_version :: string
  upstream_version :: string
  vendor_specific :: bool

record inventory =
  taken_at :: instant
  distrib_id :: string
  release :: string
  target :: string
  arch :: string
  taints :: string
  firmware_version :: string
  kernel :: string
  board_name :: string
  hostname :: string
  model :: string
  packages :: "package list"

definition VENDOR_PREFIXES :: "string list" where
  "VENDOR_PREFIXES = [''gl-'', ''gli-'', ''glinet-'']"

definition VENDOR_EXACT :: "string list" where
  "VENDOR_EXACT =
     [''1905daemon'', ''ated_ext'', ''aw-s2s'', ''adguardhome-conntrack'', ''datconf'',
      ''modemmanager-gl'', ''ddns-scripts-gl'', ''mwan3-gl'']"

definition DELIM :: string where "DELIM = ''===SLATE-SBOM-DELIM-7f3a===''"

text \<open>\<^verbatim>\<open>re.match(r"^(.*)-\d+$", version)\<close> on a string without line breaks.\<close>

definition strip_revision :: "string \<Rightarrow> string" where
  "strip_revision v =
     (case py_rpartition (CHR ''-'') v of
        (up, num) \<Rightarrow> if CHR ''-'' \<in> set v \<and> num \<noteq> [] \<and> list_all py_isdigit num then up else v)"

definition is_vendor :: "string \<Rightarrow> bool" where
  "is_vendor name \<longleftrightarrow> name \<in> set VENDOR_EXACT \<or> list_ex (\<lambda>p. starts_with p name) VENDOR_PREFIXES"

definition make_package :: "string \<Rightarrow> string \<Rightarrow> package" where
  "make_package name version =
     \<lparr>pkg_name = name, pkg_version = version, upstream_version = strip_revision version,
      vendor_specific = is_vendor name\<rparr>"

definition opkg_line :: "string \<Rightarrow> package option" where
  "opkg_line raw =
     (case split_first '' - '' (py_strip raw) of
        None \<Rightarrow> None
      | Some (n, v) \<Rightarrow>
          if py_strip n = [] \<or> py_strip v = [] then None
          else Some (make_package (py_strip n) (py_strip v)))"

definition parse_opkg :: "string \<Rightarrow> package list" where
  "parse_opkg stdout = List.map_filter opkg_line (py_splitlines stdout)"

definition strip_quotes :: "string \<Rightarrow> string" where
  "strip_quotes = strip_by (\<lambda>c. c = squote \<or> c = dquote)"

definition release_step :: "(string, string) dict \<Rightarrow> string \<Rightarrow> (string, string) dict" where
  "release_step d raw =
     (let line = py_strip raw in
      if CHR ''='' \<notin> set line then d
      else case py_partition (CHR ''='') line of
        (k, v) \<Rightarrow> dict_set (py_strip k) (strip_quotes (py_strip v)) d)"

definition parse_openwrt_release :: "string \<Rightarrow> (string, string) dict" where
  "parse_openwrt_release stdout = foldl release_step [] (py_splitlines stdout)"

definition inventory_cmd :: string where
  "inventory_cmd =
     ''cat /etc/openwrt_release; echo '' @ [squote] @ DELIM @ [squote]
     @ ''; ubus call system board; echo '' @ [squote] @ DELIM @ [squote]
     @ ''; opkg list-installed''"

text \<open>
  The blocks, padded to three; with more, the ones after the third are not read.
\<close>

definition blocks_of :: "string \<Rightarrow> string list" where
  "blocks_of out =
     (let bs = split_str_from DELIM [] out in bs @ replicate (3 - length bs) [])"

definition collect_inventory ::
  "('d \<Rightarrow> string \<Rightarrow> 'd \<times> (string + string)) \<Rightarrow> (string \<Rightarrow> (string, string) dict option) \<Rightarrow> instant
     \<Rightarrow> string \<Rightarrow> 'd \<Rightarrow> 'd \<times> (string + inventory)" where
  "collect_inventory run json now fw d =
     (case run d inventory_cmd of
        (d1, Inl e) \<Rightarrow> (d1, Inl e)
      | (d1, Inr out) \<Rightarrow>
          (let bs = blocks_of out;
               rel = parse_openwrt_release (bs ! 0);
               board = (case json (py_strip (bs ! 1)) of None \<Rightarrow> [] | Some b \<Rightarrow> b)
           in (d1, Inr \<lparr>taken_at = now, distrib_id = dict_get_or rel ''DISTRIB_ID'' [],
                 release = dict_get_or rel ''DISTRIB_RELEASE'' [],
                 target = dict_get_or rel ''DISTRIB_TARGET'' [],
                 arch = dict_get_or rel ''DISTRIB_ARCH'' [],
                 taints = dict_get_or rel ''DISTRIB_TAINTS'' [],
                 firmware_version = fw, kernel = dict_get_or board ''kernel'' [],
                 board_name = dict_get_or board ''board_name'' [],
                 hostname = dict_get_or board ''hostname'' [],
                 model = dict_get_or board ''model'' [],
                 packages = parse_opkg (bs ! 2)\<rparr>)))"

section \<open>The package list\<close>

definition opkg_print :: "string \<times> string \<Rightarrow> string" where
  "opkg_print p = fst p @ '' - '' @ snd p"

text \<open>A word of the package database: not empty and without white space.\<close>

definition opkg_word :: "string \<Rightarrow> bool" where
  "opkg_word w \<longleftrightarrow> w \<noteq> [] \<and> list_all (\<lambda>c. \<not> py_isspace c) w"

lemma opkg_word_strip: "opkg_word w \<Longrightarrow> py_strip w = w"
  unfolding py_strip_def opkg_word_def list_all_iff
  by (intro strip_by_id) (metis hd_in_set last_in_set)

lemma opkg_word_plain: "opkg_word w \<Longrightarrow> CHR '' '' \<notin> set w \<and> (\<forall>c\<in>set w. \<not> py_linebreak c)"
  by (auto simp: opkg_word_def list_all_iff py_isspace_def py_linebreak_def)

lemma opkg_print_no_break:
  assumes "opkg_word n" "opkg_word v"
  shows "\<forall>c\<in>set (opkg_print (n, v)). \<not> py_linebreak c"
proof -
  have "\<not> py_linebreak (CHR '' '')" "\<not> py_linebreak (CHR ''-'')" by (simp_all add: py_linebreak_def)
  with assms opkg_word_plain show ?thesis by (simp add: opkg_print_def ball_Un)
qed

lemma opkg_line_print:
  assumes "opkg_word n" "opkg_word v"
  shows "opkg_line (opkg_print (n, v)) = Some (make_package n v)"
proof -
  have "\<not> py_isspace (hd n)" "\<not> py_isspace (last v)" "n \<noteq> []" "v \<noteq> []"
    using assms by (auto simp: opkg_word_def list_all_iff)
  then have "py_strip (n @ '' - '' @ v) = n @ '' - '' @ v"
    unfolding py_strip_def by (intro strip_by_id) simp
  moreover have "split_first '' - '' (n @ '' - '' @ v) = Some (n, v)"
    using split_first_append [of "'' - ''" n v] opkg_word_plain [OF assms(1)] by simp
  ultimately show ?thesis
    using assms opkg_word_strip \<open>n \<noteq> []\<close> \<open>v \<noteq> []\<close> by (simp add: opkg_line_def opkg_print_def)
qed

text \<open>
  Nothing installed is missed: what \<^verbatim>\<open>opkg\<close> prints for any packages whose names and versions are
  words (hyphens included) parses to exactly those packages, in order, duplicates kept.
\<close>

theorem opkg_list_parses_back:
  assumes "\<forall>(n, v)\<in>set ps. opkg_word n \<and> opkg_word v"
  shows "parse_opkg (unlines (map opkg_print ps)) = map (\<lambda>(n, v). make_package n v) ps"
proof -
  have "\<forall>l\<in>set (map opkg_print ps). \<forall>c\<in>set l. \<not> py_linebreak c"
    using assms opkg_print_no_break by auto
  then have "py_splitlines (unlines (map opkg_print ps)) = map opkg_print ps"
    by (rule splitlines_unlines)
  moreover have "List.map_filter opkg_line (map opkg_print ps) = map (\<lambda>(n, v). make_package n v) ps"
    using assms by (induction ps) (auto simp: map_filter_simps opkg_line_print)
  ultimately show ?thesis by (simp add: parse_opkg_def)
qed

lemma opkg_list_parses_back_witness:
  "parse_opkg (unlines (map opkg_print [(''busybox'', ''1.33.2-5''), (''gl-sdk4-repeater'', ''git-2026-1'')]))
     = [make_package ''busybox'' ''1.33.2-5'', make_package ''gl-sdk4-repeater'' ''git-2026-1'']"
proof -
  have "opkg_word ''busybox''" "opkg_word ''1.33.2-5''" "opkg_word ''gl-sdk4-repeater''"
    "opkg_word ''git-2026-1''" by code_simp+
  then show ?thesis
    using opkg_list_parses_back [of "[(''busybox'', ''1.33.2-5''), (''gl-sdk4-repeater'', ''git-2026-1'')]"]
    by simp
qed

end
