(* ===== verification/Sec_Store.thy ===== *)
theory Sec_Store
  imports Sec_Inventory "HOL-Library.List_Lexorder"
begin

text \<open>
  The tables of the vulnerability scanner and their operations (\<^verbatim>\<open>backend/app/security/store.py\<close>, with
  the row classes of \<^verbatim>\<open>backend/app/db/models.py\<close> and \<^verbatim>\<open>Finding\<close> of \<^verbatim>\<open>security/models.py\<close>).

  A table is the list of its rows in the order of their ids. A CVSS score has one decimal and is held in
  tenths. The database is SQLite as the application opens it, without the pragma that enforces foreign
  keys: deleting a snapshot deletes that row only. A query ordered by time keeps the order of ids among
  rows of the same instant.
\<close>

datatype severity = Critical | High | Medium | Low | Unknown

record attack_path =
  cwe :: "string list"
  capec :: "string list"
  techniques :: "string list"
  atlas :: "string list"

record finding =
  cve_id :: string
  package_name :: string
  package_version :: string
  severity :: severity
  source :: string
  fixed_in :: "string option"
  url :: "string option"
  summary :: string
  cvss_score :: "int option"
  cvss_vector :: "string option"
  aliases :: "string list"
  attack_path :: "attack_path option"

record snapshot_row =
  snap_id :: nat
  snap_device :: nat
  snap_inv :: inventory
  package_count :: nat
  scan_status :: string
  scan_error :: string

record finding_row =
  f_snapshot :: nat
  f_finding :: finding
  f_created_at :: instant

record ack_row =
  ack_note :: string
  acknowledged_at :: instant

record risk_row =
  accepted_by :: string
  accepted_at :: instant
  reason :: string
  expires_at :: "instant option"

record sec_db =
  snapshots :: "snapshot_row list"
  findings :: "finding_row list"
  acks :: "(string \<times> string, ack_row) dict"
  risks :: "(string \<times> string, risk_row) dict"

definition MAX_SNAPSHOTS_PER_DEVICE :: nat where "MAX_SNAPSHOTS_PER_DEVICE = 30"

section \<open>Snapshots\<close>

text \<open>The rows of a device, newest first.\<close>

definition newest_first :: "sec_db \<Rightarrow> nat \<Rightarrow> snapshot_row list" where
  "newest_first db dev =
     sort_key (\<lambda>r. - taken_at (snap_inv r)) (filter (\<lambda>r. snap_device r = dev) (snapshots db))"

definition next_id :: "sec_db \<Rightarrow> nat" where
  "next_id db = Suc (foldl max 0 (map snap_id (snapshots db)))"

definition prune :: "sec_db \<Rightarrow> nat \<Rightarrow> sec_db" where
  "prune db dev =
     (let stale = map snap_id (drop MAX_SNAPSHOTS_PER_DEVICE (newest_first db dev))
      in db\<lparr>snapshots := filter (\<lambda>r. snap_id r \<notin> set stale) (snapshots db)\<rparr>)"

definition create_snapshot :: "sec_db \<Rightarrow> nat \<Rightarrow> inventory \<Rightarrow> nat \<times> sec_db" where
  "create_snapshot db dev invt =
     (let row = \<lparr>snap_id = next_id db, snap_device = dev, snap_inv = invt,
                 package_count = length (packages invt), scan_status = ''pending'', scan_error = []\<rparr>
      in (snap_id row, prune (db\<lparr>snapshots := snapshots db @ [row]\<rparr>) dev))"

definition mark_scan_complete :: "sec_db \<Rightarrow> nat \<Rightarrow> string \<Rightarrow> string \<Rightarrow> sec_db" where
  "mark_scan_complete db sid status err =
     db\<lparr>snapshots := map (\<lambda>r. if snap_id r = sid
          then r\<lparr>scan_status := status, scan_error := take 512 err\<rparr> else r) (snapshots db)\<rparr>"

definition list_snapshots :: "sec_db \<Rightarrow> nat \<Rightarrow> nat \<Rightarrow> snapshot_row list" where
  "list_snapshots db dev limit = take limit (newest_first db dev)"

definition get_snapshot :: "sec_db \<Rightarrow> nat \<Rightarrow> snapshot_row option" where
  "get_snapshot db sid = find (\<lambda>r. snap_id r = sid) (snapshots db)"

definition latest_snapshot :: "sec_db \<Rightarrow> nat \<Rightarrow> snapshot_row option" where
  "latest_snapshot db dev = (case newest_first db dev of r # _ \<Rightarrow> Some r | [] \<Rightarrow> None)"

definition snapshot_packages :: "sec_db \<Rightarrow> nat \<Rightarrow> package list" where
  "snapshot_packages db sid =
     (case get_snapshot db sid of None \<Rightarrow> [] | Some r \<Rightarrow> packages (snap_inv r))"

section \<open>Findings\<close>

definition replace_findings :: "sec_db \<Rightarrow> nat \<Rightarrow> finding list \<Rightarrow> instant \<Rightarrow> sec_db" where
  "replace_findings db sid fs now =
     db\<lparr>findings := filter (\<lambda>r. f_snapshot r \<noteq> sid) (findings db)
          @ map (\<lambda>f. \<lparr>f_snapshot = sid, f_finding = f, f_created_at = now\<rparr>) fs\<rparr>"

text \<open>By score, best first and none last, then by package.\<close>

definition list_findings :: "sec_db \<Rightarrow> nat \<Rightarrow> finding list" where
  "list_findings db sid =
     sort_key (\<lambda>f. case cvss_score f of None \<Rightarrow> 1 | Some c \<Rightarrow> - c)
       (sort_key package_name (map f_finding (filter (\<lambda>r. f_snapshot r = sid) (findings db))))"

section \<open>Acknowledgements and accepted risks\<close>

definition acknowledge :: "sec_db \<Rightarrow> string \<Rightarrow> string \<Rightarrow> string \<Rightarrow> instant \<Rightarrow> sec_db" where
  "acknowledge db cve pkg note now =
     db\<lparr>acks := dict_set (cve, pkg) \<lparr>ack_note = take 512 note, acknowledged_at = now\<rparr> (acks db)\<rparr>"

definition unacknowledge :: "sec_db \<Rightarrow> string \<Rightarrow> string \<Rightarrow> sec_db" where
  "unacknowledge db cve pkg = db\<lparr>acks := AList.delete (cve, pkg) (acks db)\<rparr>"

definition acked_keys :: "sec_db \<Rightarrow> (string \<times> string, ack_row) dict" where
  "acked_keys db = acks db"

definition accept_risk ::
  "sec_db \<Rightarrow> string \<Rightarrow> string \<Rightarrow> string \<Rightarrow> string \<Rightarrow> instant option \<Rightarrow> instant \<Rightarrow> sec_db" where
  "accept_risk db cve pkg who why until now =
     db\<lparr>risks := dict_set (cve, pkg)
          \<lparr>accepted_by = take 64 who, accepted_at = now, reason = take 1024 why, expires_at = until\<rparr>
          (risks db)\<rparr>"

definition revoke_risk :: "sec_db \<Rightarrow> string \<Rightarrow> string \<Rightarrow> sec_db" where
  "revoke_risk db cve pkg = db\<lparr>risks := AList.delete (cve, pkg) (risks db)\<rparr>"

definition risk_accepted_keys ::
  "sec_db \<Rightarrow> instant \<Rightarrow> (string \<times> string, risk_row \<times> bool) dict" where
  "risk_accepted_keys db now =
     map (\<lambda>(k, r). (k, r, case expires_at r of None \<Rightarrow> False | Some e \<Rightarrow> e < now)) (risks db)"

section \<open>The invariant of the ids and what pruning keeps\<close>

definition ids_ok :: "sec_db \<Rightarrow> bool" where
  "ids_ok db \<longleftrightarrow> distinct (map snap_id (snapshots db))"

lemma foldl_max_upper: "n \<le> foldl max n xs \<and> (\<forall>x\<in>set xs. x \<le> foldl max (n :: nat) xs)"
proof (induction xs arbitrary: n)
  case (Cons x xs)
  from Cons [of "max n x"] show ?case by auto
qed simp

lemma next_id_new: "next_id db \<notin> snap_id ` set (snapshots db)"
  using foldl_max_upper [of 0 "map snap_id (snapshots db)"] by (auto simp: next_id_def)

lemma ids_ok_prune: "ids_ok db \<Longrightarrow> ids_ok (prune db dev)"
  by (simp add: ids_ok_def prune_def Let_def distinct_map_filter)

lemma ids_ok_create: "ids_ok db \<Longrightarrow> ids_ok (snd (create_snapshot db dev invt))"
  using next_id_new [of db]
  by (auto simp: create_snapshot_def Let_def ids_ok_def intro!: ids_ok_prune [unfolded ids_ok_def])

lemma ids_ok_others [simp]:
  "ids_ok (mark_scan_complete db sid st e) = ids_ok db"
  "ids_ok (replace_findings db sid fs now) = ids_ok db"
  by (simp_all add: ids_ok_def mark_scan_complete_def replace_findings_def comp_def if_distrib
      cong: if_cong)

lemma prune_device_rows:
  assumes "ids_ok db"
  shows "set (filter (\<lambda>r. snap_device r = dev) (snapshots (prune db dev)))
           = set (take MAX_SNAPSHOTS_PER_DEVICE (newest_first db dev))"
proof -
  let ?n = "newest_first db dev"
  have set: "set ?n = {r \<in> set (snapshots db). snap_device r = dev}"
    by (auto simp: newest_first_def)
  have inj: "inj_on snap_id (set (snapshots db))" and d: "distinct ?n"
    using assms by (auto simp: ids_ok_def distinct_map newest_first_def)
  have split: "set (take m ?n) \<inter> set (drop m ?n) = {}" "set (take m ?n) \<union> set (drop m ?n) = set ?n" for m
    using d by (metis append_take_drop_id distinct_append, metis append_take_drop_id set_append)
  have "snap_id r \<in> snap_id ` set (drop m ?n) \<longleftrightarrow> r \<in> set (drop m ?n)" if "r \<in> set ?n" for r m
    using that set inj set_drop_subset [of m ?n] by (auto simp: inj_on_def)
  then show ?thesis
    using split [of MAX_SNAPSHOTS_PER_DEVICE] set by (auto simp: prune_def Let_def)
qed

lemma prune_other_rows:
  assumes "ids_ok db" "r \<in> set (snapshots db)" "snap_device r \<noteq> dev"
  shows "r \<in> set (snapshots (prune db dev))"
proof -
  have "snap_id r \<noteq> snap_id x" if "x \<in> set (drop m (newest_first db dev))" for x m
    using that set_drop_subset [of m "newest_first db dev"] assms
    by (auto simp: newest_first_def ids_ok_def distinct_map inj_on_def)
  with assms(2) show ?thesis by (auto simp: prune_def Let_def)
qed

section \<open>Properties\<close>

text \<open>
  Retention: a new snapshot of a device leaves it with the thirty newest of its snapshots (all of
  them while they are fewer), and every snapshot of every other device.
\<close>

theorem create_keeps_the_newest_thirty:
  assumes "ids_ok db" "create_snapshot db dev invt = (sid, db')"
    and "new = \<lparr>snap_id = sid, snap_device = dev, snap_inv = invt,
           package_count = length (packages invt), scan_status = ''pending'', scan_error = []\<rparr>"
  shows "set (filter (\<lambda>r. snap_device r = dev) (snapshots db'))
           = set (take 30 (sort_key (\<lambda>r. - taken_at (snap_inv r))
               (filter (\<lambda>r. snap_device r = dev) (snapshots db @ [new]))))
         \<and> set (filter (\<lambda>r. snap_device r \<noteq> dev) (snapshots db'))
           = set (filter (\<lambda>r. snap_device r \<noteq> dev) (snapshots db))"
proof -
  let ?db = "db\<lparr>snapshots := snapshots db @ [new]\<rparr>"
  have db': "db' = prune ?db dev" and sid: "sid = next_id db"
    using assms(2,3) by (auto simp: create_snapshot_def Let_def)
  have ok: "ids_ok ?db"
    using assms(1,3) sid next_id_new [of db] by (auto simp: ids_ok_def)
  have "set (snapshots (prune ?db dev)) \<subseteq> set (snapshots ?db)"
    by (auto simp: prune_def Let_def)
  then show ?thesis
    using prune_device_rows [OF ok, of dev] prune_other_rows [OF ok] assms(3) db'
    by (fastforce simp: newest_first_def MAX_SNAPSHOTS_PER_DEVICE_def)
qed

definition sample_inv :: "int \<Rightarrow> inventory" where
  "sample_inv t = \<lparr>taken_at = t, distrib_id = [], release = [], target = [], arch = [], taints = [],
     firmware_version = [], kernel = [], board_name = [], hostname = [], model = [], packages = []\<rparr>"

definition empty_db :: sec_db where
  "empty_db = \<lparr>snapshots = [], findings = [], acks = [], risks = []\<rparr>"

fun snapshots_from :: "nat \<Rightarrow> nat \<Rightarrow> sec_db \<Rightarrow> sec_db" where
  "snapshots_from 0 dev db = db"
| "snapshots_from (Suc n) dev db =
     snd (create_snapshot (snapshots_from n dev db) dev (sample_inv (int n)))"

lemma ids_ok_snapshots_from: "ids_ok db \<Longrightarrow> ids_ok (snapshots_from n dev db)"
  by (induction n) (simp_all add: ids_ok_create)

lemma create_keeps_the_newest_thirty_witness:
  "set (filter (\<lambda>r. snap_device r \<noteq> 2) (snapshots (snd (create_snapshot
     (snapshots_from 40 1 empty_db) 2 (sample_inv 99)))))
   = set (filter (\<lambda>r. snap_device r \<noteq> 2) (snapshots (snapshots_from 40 1 empty_db)))"
proof -
  have "ids_ok (snapshots_from 40 1 empty_db)"
    by (rule ids_ok_snapshots_from) (simp add: ids_ok_def empty_db_def)
  then show ?thesis
    using create_keeps_the_newest_thirty [of "snapshots_from 40 1 empty_db" 2 "sample_inv 99"
        "fst (create_snapshot (snapshots_from 40 1 empty_db) 2 (sample_inv 99))"
        "snd (create_snapshot (snapshots_from 40 1 empty_db) 2 (sample_inv 99))"]
    by simp
qed

end
