(* ===== verification/Sec_Scan.thy ===== *)
theory Sec_Scan
  imports Sec_Store
begin

text \<open>
  The vulnerability scan (\<^verbatim>\<open>backend/app/security/scanner.py\<close>): sources are run one by one, their findings
  merged per (CVE, package), enriched, stored, and the outcome recorded on the snapshot.

  What a source answers (an error or its findings), what the attack-path and exploit enrichers answer,
  and the inventory are inputs. A Python set turned into a list keeps the order of first occurrence.
\<close>

section \<open>Merging\<close>

fun severity_rank :: "severity \<Rightarrow> nat" where
  "severity_rank Critical = 4"
| "severity_rank High = 3"
| "severity_rank Medium = 2"
| "severity_rank Low = 1"
| "severity_rank Unknown = 0"

text \<open>Severities are ordered by their rank.\<close>

lemma severity_rank_inj: "severity_rank a = severity_rank b \<Longrightarrow> a = b"
  by (cases a; cases b) simp_all

instantiation severity :: linorder
begin

definition less_eq_severity :: "severity \<Rightarrow> severity \<Rightarrow> bool" where
  "a \<le> b \<longleftrightarrow> severity_rank a \<le> severity_rank b"

definition less_severity :: "severity \<Rightarrow> severity \<Rightarrow> bool" where
  "a < b \<longleftrightarrow> severity_rank a < severity_rank b"

instance
  by standard (auto simp: less_eq_severity_def less_severity_def intro: severity_rank_inj)

end

definition finding_key :: "finding \<Rightarrow> string \<times> string" where
  "finding_key f = (cve_id f, package_name f)"

definition has_fix :: "finding \<Rightarrow> bool" where
  "has_fix f \<longleftrightarrow> (case fixed_in f of None \<Rightarrow> False | Some v \<Rightarrow> v \<noteq> [])"

definition keep_new :: "finding \<Rightarrow> finding \<Rightarrow> bool" where
  "keep_new prev f \<longleftrightarrow>
     severity prev < severity f
     \<or> (cvss_score prev = None \<and> cvss_score f \<noteq> None)
     \<or> (\<not> has_fix prev \<and> has_fix f)"

definition best_of :: "finding option \<Rightarrow> finding \<Rightarrow> finding" where
  "best_of prev f = (case prev of None \<Rightarrow> f | Some p \<Rightarrow> if keep_new p f then f else p)"

definition add_source :: "string list option \<Rightarrow> finding \<Rightarrow> string list" where
  "add_source prev f = List.insert (source f) (case prev of None \<Rightarrow> [] | Some ss \<Rightarrow> ss)"

definition extra_sources :: "finding list \<Rightarrow> finding \<Rightarrow> string list" where
  "extra_sources fs f =
     sort (filter (\<lambda>s. s \<noteq> source f)
       (dict_get_or (group_fold finding_key add_source [] fs) (finding_key f) []))"

definition stash_sources :: "finding list \<Rightarrow> finding \<Rightarrow> finding" where
  "stash_sources fs f =
     (let extras = extra_sources fs f
      in if extras = [] then f
         else f\<lparr>aliases := remdups (aliases f @ map (\<lambda>e. ''source:'' @ e) extras)\<rparr>)"

definition merge_cross_source :: "finding list \<Rightarrow> finding list" where
  "merge_cross_source fs =
     map (\<lambda>(_, f). stash_sources fs f) (group_fold finding_key best_of [] fs)"

section \<open>The scan\<close>

type_synonym source_answer = "string \<times> (string + finding list)"

fun run_sources :: "source_answer list \<Rightarrow> finding list \<times> string list" where
  "run_sources [] = ([], [])"
| "run_sources ((sid, Inl e) # ss) =
     (case run_sources ss of (fs, es) \<Rightarrow> (fs, (sid @ '': '' @ e) # es))"
| "run_sources ((sid, Inr got) # ss) =
     (case run_sources ss of (fs, es) \<Rightarrow> (got @ fs, es))"

type_synonym path_answer = "string + (string \<Rightarrow> attack_path option)"

definition enrich_paths :: "path_answer option \<Rightarrow> finding list \<Rightarrow> finding list \<times> string list" where
  "enrich_paths enricher merged =
     (if merged = [] then (merged, [])
      else case enricher of
        None \<Rightarrow> (merged, [])
      | Some (Inl e) \<Rightarrow> (merged, [''enrich:cve2capec: '' @ e])
      | Some (Inr paths) \<Rightarrow>
          (map (\<lambda>f. case paths (cve_id f) of
                  Some p \<Rightarrow> f\<lparr>attack_path := Some p\<rparr> | None \<Rightarrow> f) merged, []))"

text \<open>The exploit enricher is asked when some finding is a CVE; it answers or raises.\<close>

definition enrich_exploits :: "string option option \<Rightarrow> finding list \<Rightarrow> string list" where
  "enrich_exploits enricher merged =
     (case enricher of
        None \<Rightarrow> []
      | Some answer \<Rightarrow>
          if list_ex (\<lambda>f. starts_with ''CVE-'' (cve_id f)) merged
          then (case answer of None \<Rightarrow> [] | Some e \<Rightarrow> [''exploit_enrich: '' @ e])
          else [])"

definition scan_outcome :: "source_answer list \<Rightarrow> string list \<Rightarrow> string" where
  "scan_outcome sources errors =
     (if sources = [] then ''scanned''
      else if errors \<noteq> [] \<and> length errors = length sources then ''error''
      else if errors \<noteq> [] then ''partial''
      else ''scanned'')"

definition scan_run ::
  "sec_db \<Rightarrow> nat \<Rightarrow> inventory \<Rightarrow> source_answer list \<Rightarrow> path_answer option \<Rightarrow> string option option
     \<Rightarrow> instant \<Rightarrow> (nat \<times> finding list) \<times> sec_db" where
  "scan_run db dev invt sources enricher exploits now =
     (case create_snapshot db dev invt of
        (sid, db1) \<Rightarrow>
          (case run_sources sources of
             (all, errs) \<Rightarrow>
               (case enrich_paths enricher (merge_cross_source all) of
                  (merged, errs2) \<Rightarrow>
                    let errors = errs @ errs2 @ enrich_exploits exploits merged;
                        db2 = replace_findings db1 sid merged now
                    in ((sid, merged),
                        mark_scan_complete db2 sid (scan_outcome sources errors)
                          (py_join '' | '' errors)))))"

section \<open>Lemmas on merging\<close>

lemma best_of_pick:
  "foldl (\<lambda>a x. Some (best_of a x)) a xs = Some f \<Longrightarrow> f \<in> set xs \<or> a = Some f"
proof (induction xs arbitrary: a)
  case (Cons x xs)
  then have "f \<in> set xs \<or> best_of a x = f" by auto
  then show ?case by (auto simp: best_of_def split: option.splits if_splits)
qed simp

lemma best_entry:
  assumes "(k, f) \<in> set (group_fold finding_key best_of [] fs)"
  shows "f \<in> set fs \<and> finding_key f = k"
proof -
  have "distinct (dict_keys (group_fold finding_key best_of [] fs))"
    by (rule distinct_keys_group_fold) simp
  with assms have "dict_get (group_fold finding_key best_of [] fs) k = Some f" by simp
  then show ?thesis using best_of_pick by (fastforce simp: dict_get_group_fold)
qed

lemma stash_sources_key [simp]: "finding_key (stash_sources fs f) = finding_key f"
  by (simp add: stash_sources_def finding_key_def Let_def)

lemma merge_keys:
  "map finding_key (merge_cross_source fs) = dict_keys (group_fold finding_key best_of [] fs)"
  using best_entry by (force simp: merge_cross_source_def)

lemma add_source_fold:
  "foldl (\<lambda>a x. Some (add_source a x)) a xs =
     (if xs = [] then a else Some (foldl (\<lambda>ss x. List.insert (source x) ss)
        (case a of None \<Rightarrow> [] | Some ss \<Rightarrow> ss) xs))"
  by (induction xs arbitrary: a) (auto simp: add_source_def)

lemma set_insert_fold: "set (foldl (\<lambda>ss x. List.insert (g x) ss) a xs) = set a \<union> g ` set xs"
  by (induction xs arbitrary: a) auto

lemma set_extra_sources:
  assumes "f \<in> set fs"
  shows "set (extra_sources fs f) =
     {source x |x. x \<in> set fs \<and> finding_key x = finding_key f \<and> source x \<noteq> source f}"
proof -
  have "filter (\<lambda>x. finding_key x = finding_key f) fs \<noteq> []"
    using assms by (auto simp: filter_empty_conv)
  then show ?thesis
    by (auto simp: extra_sources_def dict_get_or_def dict_get_group_fold add_source_fold set_insert_fold)
qed

section \<open>Properties\<close>

text \<open>
  One finding per vulnerability: merging keeps exactly the (CVE, package) pairs that some source
  reported, each once (so the database's uniqueness constraint holds); each merged finding is one of the
  reported ones but for its aliases, and these name every other source that reported the pair.
\<close>

theorem merge_one_per_vulnerability:
  assumes "g \<in> set (merge_cross_source fs)"
  shows "distinct (map finding_key (merge_cross_source fs))
         \<and> finding_key ` set (merge_cross_source fs) = finding_key ` set fs
         \<and> (\<exists>f\<in>set fs. g = f\<lparr>aliases := aliases g\<rparr> \<and> set (aliases f) \<subseteq> set (aliases g)
              \<and> (\<forall>x\<in>set fs. finding_key x = finding_key g \<longrightarrow> source x \<noteq> source g \<longrightarrow>
                    ''source:'' @ source x \<in> set (aliases g)))"
proof -
  have "finding_key ` set (merge_cross_source fs) = finding_key ` set fs"
    using arg_cong [OF merge_keys [of fs], of set]
    by (simp add: set_keys_group_fold)
  moreover have "distinct (map finding_key (merge_cross_source fs))"
    unfolding merge_keys by (rule distinct_keys_group_fold) simp
  moreover obtain k f where f: "(k, f) \<in> set (group_fold finding_key best_of [] fs)"
    "g = stash_sources fs f" using assms by (auto simp: merge_cross_source_def)
  from best_entry [OF f(1)] have "f \<in> set fs" by simp
  moreover have "g = f\<lparr>aliases := aliases g\<rparr> \<and> set (aliases f) \<subseteq> set (aliases g)
      \<and> (\<forall>x\<in>set fs. finding_key x = finding_key g \<longrightarrow> source x \<noteq> source g \<longrightarrow>
            ''source:'' @ source x \<in> set (aliases g))"
    using set_extra_sources [OF \<open>f \<in> set fs\<close>] f(2)
    by (auto simp: stash_sources_def Let_def finding_key_def)
  ultimately show ?thesis by blast
qed

definition sample_finding :: "string \<Rightarrow> severity \<Rightarrow> string option \<Rightarrow> finding" where
  "sample_finding src sev fix =
     \<lparr>cve_id = ''CVE-2024-1'', package_name = ''busybox'', package_version = ''1.33.2'',
      severity = sev, source = src, fixed_in = fix, url = None, summary = [],
      cvss_score = None, cvss_vector = None, aliases = [], attack_path = None\<rparr>"

lemma sample_merge:
  "merge_cross_source [sample_finding ''nvd'' Critical None, sample_finding ''osv'' Low (Some ''1.36'')]
     = [(sample_finding ''osv'' Low (Some ''1.36''))\<lparr>aliases := [''source:nvd'']\<rparr>]"
  by code_simp

lemma merge_one_per_vulnerability_witness:
  "distinct (map finding_key (merge_cross_source
     [sample_finding ''nvd'' Critical None, sample_finding ''osv'' Low (Some ''1.36'')]))"
  using merge_one_per_vulnerability [of "(sample_finding ''osv'' Low (Some ''1.36''))\<lparr>aliases := [''source:nvd'']\<rparr>"
      "[sample_finding ''nvd'' Critical None, sample_finding ''osv'' Low (Some ''1.36'')]"]
    sample_merge by simp

text \<open>
  The merge may lower a severity: of two reports of the same pair the merge keeps the second exactly
  when it is more severe, or brings the first score, or the first fix; so a less severe second report
  takes the place of the first exactly when it brings a score or a fix.
\<close>

theorem merge_can_lower_severity:
  assumes "finding_key f = finding_key g"
  shows "map severity (merge_cross_source [f, g]) = [if keep_new f g then severity g else severity f]
    \<and> (severity g < severity f \<longrightarrow>
        (keep_new f g \<longleftrightarrow>
           (cvss_score f = None \<and> cvss_score g \<noteq> None) \<or> (\<not> has_fix f \<and> has_fix g)))"
proof -
  have "group_fold finding_key best_of [] [f, g] = [(finding_key f, if keep_new f g then g else f)]"
    using assms by (simp add: group_step_def best_of_def)
  moreover have "severity (stash_sources fs h) = severity h" for fs h
    by (simp add: stash_sources_def Let_def)
  ultimately show ?thesis by (auto simp: merge_cross_source_def keep_new_def)
qed

lemma merge_can_lower_severity_witness:
  "map severity (merge_cross_source
       [sample_finding ''nvd'' Critical None, sample_finding ''osv'' Low (Some ''1.36'')]) = [Low]
   \<and> Low < Critical"
proof -
  have "keep_new (sample_finding ''nvd'' Critical None) (sample_finding ''osv'' Low (Some ''1.36''))"
    "Low < Critical" by code_simp+
  then show ?thesis
    using merge_can_lower_severity [of "sample_finding ''nvd'' Critical None"
        "sample_finding ''osv'' Low (Some ''1.36'')"]
    by (simp add: sample_finding_def finding_key_def)
qed

lemma run_sources_findings:
  "fst (run_sources ss) = concat (map (\<lambda>(_, a). case a of Inl _ \<Rightarrow> [] | Inr got \<Rightarrow> got) ss)"
  "length (snd (run_sources ss)) = length (filter (\<lambda>(_, a). isl a) ss)"
  by (induction ss rule: run_sources.induct) (simp_all add: case_prod_beta)

lemma enrich_paths_keys: "map finding_key (fst (enrich_paths e m)) = map finding_key m"
  by (auto simp: enrich_paths_def finding_key_def split: option.splits sum.splits)

lemma snapshot_after_scan:
  assumes "(sid, db1) = create_snapshot db dev invt" "r \<in> set (snapshots db1)" "snap_id r = sid"
  shows "\<exists>r' \<in> set (snapshots (snd (scan_run db dev invt sources enricher exploits now))).
           snap_id r' = sid \<and> scan_status r' = scan_outcome sources
             (snd (run_sources sources)
              @ snd (enrich_paths enricher (merge_cross_source (fst (run_sources sources))))
              @ enrich_exploits exploits
                  (fst (enrich_paths enricher (merge_cross_source (fst (run_sources sources))))))"
proof -
  let ?all = "fst (run_sources sources)"
  let ?ep = "enrich_paths enricher (merge_cross_source ?all)"
  let ?errors = "snd (run_sources sources) @ snd ?ep @ enrich_exploits exploits (fst ?ep)"
  let ?r = "r\<lparr>scan_status := scan_outcome sources ?errors,
               scan_error := take 512 (py_join '' | '' ?errors)\<rparr>"
  have "snapshots (snd (scan_run db dev invt sources enricher exploits now)) =
      snapshots (mark_scan_complete db1 sid (scan_outcome sources ?errors) (py_join '' | '' ?errors))"
    using assms(1) [symmetric]
    by (simp add: scan_run_def Let_def mark_scan_complete_def replace_findings_def case_prod_beta)
  moreover have "?r \<in> set (snapshots
      (mark_scan_complete db1 sid (scan_outcome sources ?errors) (py_join '' | '' ?errors)))"
    using assms(2,3) by (force simp: mark_scan_complete_def)
  ultimately show ?thesis using assms(3) by (intro bexI [of _ ?r]) simp_all
qed

text \<open>
  One broken source loses nothing of the others: whatever sources and enrichers raise, the findings
  stored for the new snapshot are, pair for pair, the merged findings of the sources that answered, and
  the findings of every other snapshot stay.
\<close>

theorem scan_isolates_failures:
  "let res = scan_run db dev invt sources enricher exploits now; sid = fst (fst res) in
   map (finding_key \<circ> f_finding) (filter (\<lambda>r. f_snapshot r = sid) (findings (snd res)))
     = map finding_key (merge_cross_source
         (concat (map (\<lambda>(_, a). case a of Inl _ \<Rightarrow> [] | Inr got \<Rightarrow> got) sources)))
   \<and> filter (\<lambda>r. f_snapshot r \<noteq> sid) (findings (snd res))
     = filter (\<lambda>r. f_snapshot r \<noteq> sid) (findings db)"
proof -
  obtain sid db1 where c: "create_snapshot db dev invt = (sid, db1)" by (cases "create_snapshot db dev invt")
  then have f: "findings db1 = findings db"
    by (auto simp: create_snapshot_def prune_def Let_def)
  obtain all errs where s: "run_sources sources = (all, errs)" by (cases "run_sources sources")
  obtain merged errs2 where e: "enrich_paths enricher (merge_cross_source all) = (merged, errs2)"
    by (cases "enrich_paths enricher (merge_cross_source all)")
  have "map finding_key merged = map finding_key (merge_cross_source all)"
    using enrich_paths_keys [of enricher "merge_cross_source all"] e by simp
  moreover have "all = concat (map (\<lambda>(_, a). case a of Inl _ \<Rightarrow> [] | Inr got \<Rightarrow> got) sources)"
    using run_sources_findings(1) [of sources] s by simp
  ultimately show ?thesis
    using c s e f
    by (simp add: scan_run_def Let_def mark_scan_complete_def replace_findings_def comp_def)
qed

text \<open>
  A scan may be recorded as failed although every source answered: with one source that answers and
  an attack-path enrichment that raises, the outcome is \<open>error\<close>, because the errors of the enrichers are
  counted against the number of sources.
\<close>

theorem enrichment_error_reads_as_failed_scan:
  assumes "merge_cross_source got \<noteq> []"
    and "create_snapshot db dev invt = (sid, db1)" "r \<in> set (snapshots db1)" "snap_id r = sid"
  shows "\<exists>r' \<in> set (snapshots (snd (scan_run db dev invt [(src, Inr got)] (Some (Inl e)) None now))).
           snap_id r' = sid \<and> scan_status r' = ''error''"
  using snapshot_after_scan [OF assms(2) [symmetric] assms(3,4), of "[(src, Inr got)]" "Some (Inl e)" None now]
    assms(1)
  by (simp add: enrich_paths_def enrich_exploits_def scan_outcome_def)

lemma enrichment_error_reads_as_failed_scan_witness:
  "\<exists>r' \<in> set (snapshots (snd (scan_run empty_db 1 (sample_inv 5)
      [(''osv'', Inr [sample_finding ''osv'' High None])] (Some (Inl ''timeout'')) None 9))).
     snap_id r' = 1 \<and> scan_status r' = ''error''"
proof -
  have "merge_cross_source [sample_finding ''osv'' High None] \<noteq> []" by code_simp
  moreover have "create_snapshot empty_db 1 (sample_inv 5) =
      (1, empty_db\<lparr>snapshots := [\<lparr>snap_id = 1, snap_device = 1, snap_inv = sample_inv 5,
         package_count = 0, scan_status = ''pending'', scan_error = []\<rparr>]\<rparr>)"
    by code_simp
  ultimately show ?thesis
    using enrichment_error_reads_as_failed_scan [of "[sample_finding ''osv'' High None]" empty_db 1
        "sample_inv 5" 1 _ "\<lparr>snap_id = 1, snap_device = 1, snap_inv = sample_inv 5,
         package_count = 0, scan_status = ''pending'', scan_error = []\<rparr>" "''osv''" "''timeout''" 9]
    by simp
qed

end
