(* ===== verification/Surveillance.thy ===== *)
theory Surveillance
  imports Py_Int
begin

text \<open>
  Surveillance sessions (\<^verbatim>\<open>backend/app/scheduler/surveillance.py\<close>, with the table
  \<^verbatim>\<open>SurveillanceSessionRow\<close>): time-bounded periods of repeated scanning, one scheduled job per session
  and band, and the timeline computed from what the passes saw.

  The scheduler is the dictionary of its jobs, from job id to interval. The scan of a band and the
  device registry are inputs of a pass. Coordinates are in micro-degrees; the fields of a scan and of a
  neighbour that no operation here reads are left out.
\<close>

section \<open>State\<close>

datatype status = Active | Completed | Cancelled

record session =
  ses_id :: nat
  device_slug :: string
  ses_name :: string
  status :: status
  started_at :: instant
  ended_at :: "instant option"
  target_duration_s :: int
  interval_s :: int
  bands :: string
  location :: "(int \<times> int) option"
  location_label :: string
  ses_note :: string
  total_passes :: nat
  unique_bssids :: nat

record neighbor =
  bssid :: string
  ssid :: string
  vendor :: string
  vendor_slug :: string
  channel :: int
  band :: string
  ap_root :: string
  rssi_dbm :: int
  is_randomized :: bool

record scan =
  scan_id :: nat
  scan_session :: nat
  scan_slug :: string
  scan_band :: string
  scan_started :: instant
  neighbors_count :: nat

record surveillance =
  sessions :: "session list"
  jobs :: "(string, int) dict"
  scans :: "scan list"
  seen :: "(nat \<times> neighbor) list"  \<comment> \<open>scan id and neighbour\<close>

definition job_id :: "nat \<Rightarrow> string \<Rightarrow> string" where
  "job_id sid b = ''surveillance__'' @ py_str (int sid) @ ''__'' @ b"

definition parse_bands :: "string \<Rightarrow> string list" where
  "parse_bands csv =
     filter (\<lambda>b. b \<in> {''2'', ''5'', ''6''}) (map py_strip (py_split (CHR '','') csv))"

section \<open>Lifecycle\<close>

definition schedule_one :: "nat \<Rightarrow> int \<Rightarrow> (string, int) dict \<Rightarrow> string \<Rightarrow> (string, int) dict" where
  "schedule_one sid interval js b = dict_set (job_id sid b) interval js"

definition remove_jobs :: "nat \<Rightarrow> string list \<Rightarrow> (string, int) dict \<Rightarrow> (string, int) dict" where
  "remove_jobs sid bs js = foldl (\<lambda>d b. AList.delete (job_id sid b) d) js bs"

definition deadline :: "session \<Rightarrow> instant" where
  "deadline r = started_at r + seconds (target_duration_s r)"

text \<open>After a restart of the process the scheduler has no job.\<close>

definition restart :: "surveillance \<Rightarrow> surveillance" where
  "restart st = st\<lparr>jobs := []\<rparr>"

definition complete_if_due :: "instant \<Rightarrow> session \<Rightarrow> session" where
  "complete_if_due now r =
     (if status r = Active \<and> deadline r \<le> now
      then r\<lparr>status := Completed, ended_at := Some now\<rparr> else r)"

definition register_all :: "instant \<Rightarrow> surveillance \<Rightarrow> surveillance" where
  "register_all now st =
     st\<lparr>jobs := foldl (\<lambda>js r.
           if status r = Active \<and> \<not> deadline r \<le> now
           then foldl (schedule_one (ses_id r) (interval_s r)) js (parse_bands (bands r)) else js)
         (jobs st) (sessions st),
        sessions := map (complete_if_due now) (sessions st)\<rparr>"

definition next_session :: "surveillance \<Rightarrow> nat" where
  "next_session st = Suc (foldr max (map ses_id (sessions st)) 0)"

text \<open>The default name of a session holds the formatted instant, which is an input.\<close>

definition start_session ::
  "instant \<Rightarrow> string \<Rightarrow> string \<Rightarrow> string \<Rightarrow> string \<Rightarrow> int \<Rightarrow> int \<Rightarrow> (int \<times> int) option \<Rightarrow> string \<Rightarrow> string
     \<Rightarrow> surveillance \<Rightarrow> string + (session \<times> surveillance)" where
  "start_session now stamp slug nam bands_csv duration interval loc label nt st =
     (let bs = parse_bands bands_csv in
      if bs = [] then Inl bands_csv
      else
        let row = \<lparr>ses_id = next_session st, device_slug = slug,
                   ses_name = (if take 128 nam \<noteq> [] then take 128 nam else ''Session '' @ stamp),
                   status = Active, started_at = now, ended_at = None,
                   target_duration_s = duration, interval_s = interval, bands = py_join '','' bs,
                   location = loc, location_label = take 128 label, ses_note = take 1024 nt,
                   total_passes = 0, unique_bssids = 0\<rparr>
        in Inr (row, st\<lparr>sessions := sessions st @ [row],
                       jobs := foldl (schedule_one (ses_id row) interval) (jobs st) bs\<rparr>))"

definition get_session :: "surveillance \<Rightarrow> nat \<Rightarrow> session option" where
  "get_session st sid = find (\<lambda>r. ses_id r = sid) (sessions st)"

definition update_session :: "nat \<Rightarrow> (session \<Rightarrow> session) \<Rightarrow> surveillance \<Rightarrow> surveillance" where
  "update_session sid f st =
     st\<lparr>sessions := map (\<lambda>r. if ses_id r = sid then f r else r) (sessions st)\<rparr>"

definition cancel_session :: "instant \<Rightarrow> nat \<Rightarrow> surveillance \<Rightarrow> surveillance" where
  "cancel_session now sid st =
     (case get_session st sid of
        None \<Rightarrow> st
      | Some row \<Rightarrow>
          if status row \<noteq> Active then st
          else (update_session sid (\<lambda>r. r\<lparr>status := Cancelled, ended_at := Some now\<rparr>) st)
                 \<lparr>jobs := remove_jobs sid (parse_bands (bands row)) (jobs st)\<rparr>)"

definition run_supervisor :: "instant \<Rightarrow> surveillance \<Rightarrow> surveillance" where
  "run_supervisor now st =
     st\<lparr>jobs := foldl (\<lambda>js r.
           if status r = Active \<and> deadline r \<le> now
           then remove_jobs (ses_id r) (parse_bands (bands r)) js else js)
         (jobs st) (sessions st),
        sessions := map (complete_if_due now) (sessions st)\<rparr>"

section \<open>A pass\<close>

definition next_scan :: "surveillance \<Rightarrow> nat" where
  "next_scan st = Suc (foldr max (map scan_id (scans st)) 0)"

definition session_scans :: "surveillance \<Rightarrow> nat \<Rightarrow> scan list" where
  "session_scans st sid = filter (\<lambda>s. scan_session s = sid) (scans st)"

definition session_seen :: "surveillance \<Rightarrow> nat \<Rightarrow> (nat \<times> neighbor) list" where
  "session_seen st sid = filter (\<lambda>(i, n). i \<in> scan_id ` set (session_scans st sid)) (seen st)"

text \<open>
  The scan's answer is \<^const>\<open>None\<close> when the device cannot be reached or the scan raises; the session may
  have changed by the time it answers, so it is read again (\<open>mid\<close> is the state then).
\<close>

definition record_pass ::
  "instant \<Rightarrow> nat \<Rightarrow> string \<Rightarrow> string \<Rightarrow> neighbor list \<Rightarrow> surveillance \<Rightarrow> surveillance" where
  "record_pass t sid slug b ns mid =
     (let run = \<lparr>scan_id = next_scan mid, scan_session = sid, scan_slug = slug, scan_band = b,
                 scan_started = t, neighbors_count = length ns\<rparr>;
          st1 = mid\<lparr>scans := scans mid @ [run], seen := seen mid @ map (Pair (scan_id run)) ns\<rparr>
      in (case get_session mid sid of
            None \<Rightarrow> st1
          | Some row \<Rightarrow>
              if status row \<noteq> Active then st1
              else update_session sid (\<lambda>r. r\<lparr>total_passes := total_passes r + 1,
                     unique_bssids := length (remdups (map (bssid \<circ> snd) (session_seen st1 sid)))\<rparr>) st1))"

definition run_pass ::
  "instant \<Rightarrow> nat \<Rightarrow> string \<Rightarrow> neighbor list option \<Rightarrow> (surveillance \<Rightarrow> surveillance) \<Rightarrow> surveillance \<Rightarrow> surveillance"
  where
  "run_pass t sid b answer meanwhile st =
     (case get_session st sid of
        None \<Rightarrow> st
      | Some row \<Rightarrow>
          if status row \<noteq> Active then st
          else (case answer of
            None \<Rightarrow> meanwhile st
          | Some ns \<Rightarrow> record_pass t sid (device_slug row) b ns (meanwhile st)))"

section \<open>Timeline\<close>

record slot =
  sl_bssid :: string
  sl_ssid :: string
  sl_vendor :: string
  sl_vendor_slug :: string
  sl_channel :: int
  sl_band :: string
  sl_ap_root :: string
  sl_randomized :: bool
  rssi_max :: int
  rssi_min :: int
  sl_buckets :: "(int, int) dict"
  sl_scans :: "nat list"

datatype presence_class = Stable | Edge | Drifting | Transient

text \<open>
  The code compares the floating-point ratio \<open>p = n / passes\<close> with 0.8, 0.5 and 0.2; for counts below
  \<open>2 ^ 49\<close> that is the comparison of the exact fractions.
\<close>

definition classify :: "nat \<Rightarrow> nat \<Rightarrow> int \<Rightarrow> presence_class" where
  "classify n passes drift =
     (if 0 < passes \<and> 4 * passes \<le> 5 * n \<and> drift < 5 then Stable
      else if 0 < passes \<and> passes \<le> 2 * n \<and> 5 \<le> drift then Edge
      else if passes = 0 \<or> 5 * n < passes then Transient
      else Drifting)"

text \<open>
  The bucket of an offset in a window, both in microseconds. (The code computes it in floating point,
  which may move an offset that falls within a rounding error of a bucket's border.)
\<close>

definition bucket_of :: "int \<Rightarrow> int \<Rightarrow> int \<Rightarrow> int" where
  "bucket_of num_buckets window offset =
     min (num_buckets - 1) (max 0 (offset * num_buckets div window))"

record observation =
  ob_neighbor :: neighbor
  ob_started :: instant
  ob_scan :: nat

definition slot_step :: "(instant \<Rightarrow> int) \<Rightarrow> slot option \<Rightarrow> observation \<Rightarrow> slot" where
  "slot_step idx prev ob =
     (let n = ob_neighbor ob;
          sl = (case prev of Some s \<Rightarrow> s
                | None \<Rightarrow> \<lparr>sl_bssid = bssid n, sl_ssid = ssid n, sl_vendor = vendor n,
                          sl_vendor_slug = vendor_slug n, sl_channel = channel n, sl_band = band n,
                          sl_ap_root = ap_root n, sl_randomized = is_randomized n,
                          rssi_max = rssi_dbm n, rssi_min = rssi_dbm n, sl_buckets = [], sl_scans = []\<rparr>);
          i = idx (ob_started ob);
          stronger = (case dict_get (sl_buckets sl) i of None \<Rightarrow> True | Some c \<Rightarrow> c < rssi_dbm n)
      in sl\<lparr>rssi_max := max (rssi_max sl) (rssi_dbm n), rssi_min := min (rssi_min sl) (rssi_dbm n),
            sl_buckets := (if stronger then dict_set i (rssi_dbm n) (sl_buckets sl) else sl_buckets sl),
            sl_scans := List.insert (ob_scan ob) (sl_scans sl),
            sl_ssid := ssid n, sl_vendor := vendor n, sl_vendor_slug := vendor_slug n\<rparr>)"

record timeline_row =
  tr_slot :: slot
  tr_drift :: int
  tr_passes_seen :: nat
  tr_class :: presence_class
  tr_buckets :: "(int \<times> int option) list"

definition row_of :: "int \<Rightarrow> nat \<Rightarrow> slot \<Rightarrow> timeline_row" where
  "row_of num_buckets passes sl =
     \<lparr>tr_slot = sl, tr_drift = rssi_max sl - rssi_min sl, tr_passes_seen = length (sl_scans sl),
      tr_class = classify (length (sl_scans sl)) passes (rssi_max sl - rssi_min sl),
      tr_buckets = map (\<lambda>i. (i, dict_get (sl_buckets sl) i)) [0..num_buckets - 1]\<rparr>"

definition observations :: "surveillance \<Rightarrow> nat \<Rightarrow> observation list" where
  "observations st sid =
     sort_key ob_started
       (concat (map (\<lambda>s. map (\<lambda>(_, n). \<lparr>ob_neighbor = n, ob_started = scan_started s, ob_scan = scan_id s\<rparr>)
                    (filter (\<lambda>(i, _). i = scan_id s) (seen st)))
          (session_scans st sid)))"

definition window_of :: "session \<Rightarrow> instant \<Rightarrow> int" where
  "window_of r now = max 1000000 ((case ended_at r of Some e \<Rightarrow> e | None \<Rightarrow> now) - started_at r)"

definition slots_of :: "(instant \<Rightarrow> int) \<Rightarrow> observation list \<Rightarrow> (string, slot) dict" where
  "slots_of idx obs = group_fold (bssid \<circ> ob_neighbor) (slot_step idx) [] obs"

text \<open>The rows, the strongest first; a session that does not exist has none.\<close>

definition timeline_for :: "instant \<Rightarrow> int \<Rightarrow> nat \<Rightarrow> surveillance \<Rightarrow> timeline_row list" where
  "timeline_for now num_buckets sid st =
     (case get_session st sid of
        None \<Rightarrow> []
      | Some r \<Rightarrow>
          sort_key (\<lambda>row. - ((rssi_max (tr_slot row) + rssi_min (tr_slot row)) div 2))
            (map (\<lambda>(_, sl). row_of num_buckets (length (session_scans st sid)) sl)
              (slots_of (\<lambda>t. bucket_of num_buckets (window_of r now) (t - started_at r))
                (observations st sid))))"

section \<open>Job ids\<close>

lemma py_str_no_underscore: "CHR ''_'' \<notin> set (py_str (int n))"
  using py_str_digits [of "int n"] by (auto simp: py_isdigit_def char_le_code)

lemma py_str_nat_inj:
  assumes "py_str (int m) = py_str (int n)"
  shows "m = n"
proof -
  have "nat_digits m = nat_digits n" using assms by (simp add: py_str_def)
  then have "Some (int m) = Some (int n)" by (metis int_digits_nat_digits)
  then show ?thesis by simp
qed

lemma job_id_inj [simp]: "job_id i b = job_id j b' \<longleftrightarrow> i = j \<and> b = b'"
proof
  assume "job_id i b = job_id j b'"
  then have e: "py_str (int i) @ CHR ''_'' # CHR ''_'' # b = py_str (int j) @ CHR ''_'' # CHR ''_'' # b'"
    by (simp add: job_id_def)
  then have "py_partition (CHR ''_'') (py_str (int i) @ CHR ''_'' # CHR ''_'' # b) =
      py_partition (CHR ''_'') (py_str (int j) @ CHR ''_'' # CHR ''_'' # b')" by simp
  then have "py_str (int i) = py_str (int j)"
    by (simp add: py_partition_append py_str_no_underscore)
  with e show "i = j \<and> b = b'" using py_str_nat_inj by auto
qed simp

lemma parse_bands_join:
  assumes "set bs \<subseteq> {''2'', ''5'', ''6''}" "bs \<noteq> []"
  shows "parse_bands (py_join '','' bs) = bs"
proof -
  have one: "py_strip ''2'' = ''2''" "py_strip ''5'' = ''5''" "py_strip ''6'' = ''6''" by code_simp+
  have "py_split (CHR '','') (py_join '','' bs) = bs"
    using assms by (intro py_split_join) auto
  moreover have "map py_strip bs = bs" using assms(1) one by (intro map_idI) auto
  ultimately show ?thesis using assms(1) by (auto simp: parse_bands_def filter_id_conv)
qed

lemma parse_bands_valid: "set (parse_bands csv) \<subseteq> {''2'', ''5'', ''6''}"
  by (auto simp: parse_bands_def)

section \<open>Jobs and active sessions\<close>

definition job_keys :: "surveillance \<Rightarrow> string set" where
  "job_keys st = set (dict_keys (jobs st))"

definition jobs_of :: "session \<Rightarrow> string set" where
  "jobs_of r = job_id (ses_id r) ` set (parse_bands (bands r))"

definition wanted_jobs :: "surveillance \<Rightarrow> string set" where
  "wanted_jobs st = \<Union> (jobs_of ` {r \<in> set (sessions st). status r = Active})"

lemma jobs_of_disjoint: "k \<in> jobs_of r \<Longrightarrow> k \<in> jobs_of r' \<Longrightarrow> ses_id r = ses_id r'"
  by (auto simp: jobs_of_def)

definition sv_ok :: "surveillance \<Rightarrow> bool" where
  "sv_ok st \<longleftrightarrow> distinct (map ses_id (sessions st)) \<and> distinct (dict_keys (jobs st))
     \<and> job_keys st = wanted_jobs st"

lemma keys_schedule:
  "set (dict_keys (foldl (schedule_one i v) js bs)) = set (dict_keys js) \<union> job_id i ` set bs"
  "distinct (dict_keys js) \<Longrightarrow> distinct (dict_keys (foldl (schedule_one i v) js bs))"
  by (induction bs arbitrary: js) (auto simp: schedule_one_def distinct_update)

lemma keys_delete:
  "fst ` set (AList.delete k js) = fst ` set js - {k}"
  "distinct (dict_keys js) \<Longrightarrow> distinct (dict_keys (AList.delete k js))"
proof -
  have "set (dict_keys (AList.delete k js)) = set (dict_keys js) - {k}"
    unfolding delete_keys by auto
  then show "fst ` set (AList.delete k js) = fst ` set js - {k}" by simp
  show "distinct (dict_keys js) \<Longrightarrow> distinct (dict_keys (AList.delete k js))"
    unfolding delete_keys by (rule distinct_removeAll)
qed

lemma keys_remove:
  "set (dict_keys (remove_jobs i bs js)) = set (dict_keys js) - job_id i ` set bs"
  "distinct (dict_keys js) \<Longrightarrow> distinct (dict_keys (remove_jobs i bs js))"
  unfolding remove_jobs_def
proof (induction bs arbitrary: js)
  case (Cons b bs)
  { case 1 show ?case using Cons(1) [of "AList.delete (job_id i b) js"] by (auto simp: keys_delete) }
  { case 2 then show ?case using Cons(2) [of "AList.delete (job_id i b) js"] by (simp add: keys_delete) }
qed simp_all

lemma next_session_fresh: "next_session st \<notin> ses_id ` set (sessions st)"
proof
  have upper: "x \<le> foldr max xs (0 :: nat)" if "x \<in> set xs" for x xs
    using that by (induction xs) auto
  assume "next_session st \<in> ses_id ` set (sessions st)"
  then have "next_session st \<le> foldr max (map ses_id (sessions st)) 0"
    by (intro upper) simp
  then show False by (simp add: next_session_def)
qed

lemma Diff_Un_assoc: "A - B - C = A - (B \<union> C)"
  by blast

lemma keys_remove_due:
  "fst ` set (foldl (\<lambda>js r. if p r then remove_jobs (ses_id r) (parse_bands (bands r)) js else js) js rs) =
     fst ` set js - \<Union> (jobs_of ` {r \<in> set rs. p r})"
  "distinct (dict_keys js) \<Longrightarrow> distinct (dict_keys
     (foldl (\<lambda>js r. if p r then remove_jobs (ses_id r) (parse_bands (bands r)) js else js) js rs))"
proof (induction rs arbitrary: js)
  case (Cons r rs)
  have e: "{x \<in> set (r # rs). p x} =
      (if p r then insert r {x \<in> set rs. p x} else {x \<in> set rs. p x})" by auto
  { case 1
    let ?js = "if p r then remove_jobs (ses_id r) (parse_bands (bands r)) js else js"
    show ?case
      unfolding e using Cons(1) [of ?js]
      by (cases "p r") (simp_all add: keys_remove [simplified] jobs_of_def [symmetric] Diff_Un_assoc) }
  { case 2
    let ?js = "if p r then remove_jobs (ses_id r) (parse_bands (bands r)) js else js"
    from 2 show ?case using Cons(2) [of ?js] by (simp add: keys_remove) }
qed simp_all

lemma keys_schedule_live:
  "fst ` set (foldl (\<lambda>js r. if p r then foldl (schedule_one (ses_id r) (v r)) js (parse_bands (bands r))
      else js) js rs) = fst ` set js \<union> \<Union> (jobs_of ` {r \<in> set rs. p r})"
  "distinct (dict_keys js) \<Longrightarrow> distinct (dict_keys
     (foldl (\<lambda>js r. if p r then foldl (schedule_one (ses_id r) (v r)) js (parse_bands (bands r))
      else js) js rs))"
proof (induction rs arbitrary: js)
  case (Cons r rs)
  have e: "{x \<in> set (r # rs). p x} =
      (if p r then insert r {x \<in> set rs. p x} else {x \<in> set rs. p x})" by auto
  { case 1
    let ?js = "if p r then foldl (schedule_one (ses_id r) (v r)) js (parse_bands (bands r)) else js"
    show ?case
      unfolding e using Cons(1) [of ?js]
      by (cases "p r") (simp_all add: keys_schedule [simplified] jobs_of_def [symmetric] Un_assoc) }
  { case 2
    let ?js = "if p r then foldl (schedule_one (ses_id r) (v r)) js (parse_bands (bands r)) else js"
    from 2 show ?case using Cons(2) [of ?js] by (simp add: keys_schedule) }
qed simp_all

lemma complete_if_due_fields [simp]:
  "ses_id (complete_if_due now r) = ses_id r" "bands (complete_if_due now r) = bands r"
  "deadline (complete_if_due now r) = deadline r" "jobs_of (complete_if_due now r) = jobs_of r"
  "status (complete_if_due now r) = Active \<longleftrightarrow> status r = Active \<and> \<not> deadline r \<le> now"
  by (auto simp: complete_if_due_def deadline_def jobs_of_def)

lemma wanted_complete:
  "sessions st' = map (complete_if_due now) rs \<Longrightarrow>
   wanted_jobs st' = \<Union> (jobs_of ` {r \<in> set rs. status r = Active \<and> \<not> deadline r \<le> now})"
  by (auto simp: wanted_jobs_def)

lemma sv_ok_supervisor [inv_intros]:
  assumes "sv_ok st"
  shows "sv_ok (run_supervisor now st)"
proof -
  let ?st = "run_supervisor now st"
  have ids: "\<And>r r'. r \<in> set (sessions st) \<Longrightarrow> r' \<in> set (sessions st) \<Longrightarrow> ses_id r = ses_id r' \<Longrightarrow> r = r'"
    using assms by (auto simp: sv_ok_def distinct_map inj_on_def)
  have "job_keys ?st = wanted_jobs st
      - \<Union> (jobs_of ` {r \<in> set (sessions st). status r = Active \<and> deadline r \<le> now})"
    using assms by (simp add: run_supervisor_def job_keys_def sv_ok_def keys_remove_due(1))
  also have "\<dots> = \<Union> (jobs_of ` {r \<in> set (sessions st). status r = Active \<and> \<not> deadline r \<le> now})"
    using ids jobs_of_disjoint unfolding wanted_jobs_def by blast
  also have "\<dots> = wanted_jobs ?st"
    by (rule wanted_complete [symmetric]) (simp add: run_supervisor_def)
  finally show ?thesis
    using assms by (simp add: sv_ok_def run_supervisor_def keys_remove_due(2) comp_def)
qed

lemma sv_ok_register [inv_intros]:
  assumes "sv_ok st"
  shows "sv_ok (register_all now (restart st))"
proof -
  let ?st = "register_all now (restart st)"
  have "job_keys ?st =
      \<Union> (jobs_of ` {r \<in> set (sessions st). status r = Active \<and> \<not> deadline r \<le> now})"
    by (simp add: register_all_def restart_def job_keys_def keys_schedule_live(1))
  moreover have "wanted_jobs ?st =
      \<Union> (jobs_of ` {r \<in> set (sessions st). status r = Active \<and> \<not> deadline r \<le> now})"
    by (rule wanted_complete) (simp add: register_all_def restart_def)
  ultimately show ?thesis
    using assms by (simp add: sv_ok_def register_all_def restart_def keys_schedule_live(2) comp_def)
qed

lemma sv_ok_start:
  assumes "sv_ok st" "start_session now stamp slug nam csv du iv loc lab nt st = Inr (row, st')"
  shows "sv_ok st'"
proof -
  let ?bs = "parse_bands csv"
  from assms(2) have st': "?bs \<noteq> []" "sessions st' = sessions st @ [row]" "status row = Active"
    "ses_id row = next_session st" "bands row = py_join '','' ?bs"
    "jobs st' = foldl (schedule_one (ses_id row) iv) (jobs st) ?bs"
    by (auto simp: start_session_def Let_def split: if_splits)
  then have row: "jobs_of row = job_id (ses_id row) ` set ?bs"
    using parse_bands_join [OF parse_bands_valid, of csv] by (simp add: jobs_of_def)
  have "wanted_jobs st' = wanted_jobs st \<union> jobs_of row"
    using st' by (auto simp: wanted_jobs_def)
  moreover have "job_keys st' = job_keys st \<union> jobs_of row"
    using st' row by (simp add: job_keys_def keys_schedule [simplified])
  ultimately show ?thesis
    using assms(1) st' next_session_fresh [of st] by (simp add: sv_ok_def keys_schedule)
qed

lemma get_session_in:
  "get_session st sid = Some r \<Longrightarrow> r \<in> set (sessions st) \<and> ses_id r = sid"
  unfolding get_session_def by (auto simp: find_Some_iff)

lemma sv_ok_cancel [inv_intros]:
  assumes "sv_ok st"
  shows "sv_ok (cancel_session now sid st)"
proof (cases "\<exists>row. get_session st sid = Some row \<and> status row = Active")
  case False
  then have "cancel_session now sid st = st"
    by (auto simp: cancel_session_def split: option.splits)
  then show ?thesis using assms by simp
next
  case True
  then obtain row where r: "get_session st sid = Some row" "status row = Active" by auto
  note row = get_session_in [OF r(1)]
  let ?st = "cancel_session now sid st"
  let ?f = "\<lambda>r. if ses_id r = sid then r\<lparr>status := Cancelled, ended_at := Some now\<rparr> else r"
  have s: "sessions ?st = map ?f (sessions st)"
    "jobs ?st = remove_jobs sid (parse_bands (bands row)) (jobs st)"
    using r by (simp_all add: cancel_session_def update_session_def)
  have ids: "\<And>r. r \<in> set (sessions st) \<Longrightarrow> ses_id r = sid \<Longrightarrow> r = row"
    using assms row by (auto simp: sv_ok_def distinct_map inj_on_def)
  have "wanted_jobs ?st = \<Union> (jobs_of ` {r \<in> set (sessions st). status r = Active \<and> ses_id r \<noteq> sid})"
    unfolding wanted_jobs_def s by (auto split: if_splits)
  also have "\<dots> = wanted_jobs st - jobs_of row"
    using ids row jobs_of_disjoint unfolding wanted_jobs_def by blast
  finally have "wanted_jobs ?st = wanted_jobs st - jobs_of row" .
  moreover have "job_keys ?st = job_keys st - jobs_of row"
    using row by (simp add: job_keys_def s jobs_of_def keys_remove [simplified])
  moreover have "map ses_id (sessions ?st) = map ses_id (sessions st)" by (simp add: s)
  ultimately show ?thesis using assms by (simp add: sv_ok_def s(2) keys_remove(2))
qed

lemma wanted_jobs_image:
  "wanted_jobs st = (\<Union>(i, x, bs) \<in> set (map (\<lambda>r. (ses_id r, status r, bands r)) (sessions st)).
     if x = Active then job_id i ` set (parse_bands bs) else {})"
  by (auto simp: wanted_jobs_def jobs_of_def split: if_splits)

lemma sv_ok_counters:
  assumes "sv_ok st" "jobs st' = jobs st"
    and "map (\<lambda>r. (ses_id r, status r, bands r)) (sessions st') =
         map (\<lambda>r. (ses_id r, status r, bands r)) (sessions st)"
  shows "sv_ok st'"
proof -
  have "map ses_id (sessions st') = map ses_id (sessions st)"
    using arg_cong [OF assms(3), of "map fst"] by (simp add: comp_def)
  then show ?thesis
    using assms(1,2) unfolding sv_ok_def wanted_jobs_image job_keys_def assms(3) by simp
qed

lemma sv_ok_record [inv_intros]:
  assumes "sv_ok st"
  shows "sv_ok (record_pass t sid slug b ns st)"
  by (rule sv_ok_counters [OF assms])
    (auto simp: record_pass_def Let_def update_session_def split: option.splits)

text \<open>The states the manager can be in: operations in any order, a pass overlapping any of them.\<close>

definition no_sessions :: surveillance where
  "no_sessions = \<lparr>sessions = [], jobs = [], scans = [], seen = []\<rparr>"

inductive sv_reach :: "surveillance \<Rightarrow> bool" where
  sv_empty: "sv_reach no_sessions"
| sv_start: "sv_reach st \<Longrightarrow>
    start_session now stamp slug nam csv du iv loc lab nt st = Inr (row, st') \<Longrightarrow> sv_reach st'"
| sv_cancel: "sv_reach st \<Longrightarrow> sv_reach (cancel_session now sid st)"
| sv_supervise: "sv_reach st \<Longrightarrow> sv_reach (run_supervisor now st)"
| sv_reboot: "sv_reach st \<Longrightarrow> sv_reach (register_all now (restart st))"
| sv_pass: "sv_reach st \<Longrightarrow> sv_reach (meanwhile st) \<Longrightarrow>
    sv_reach (run_pass t sid b answer meanwhile st)"

lemma sv_ok_empty [inv_intros]: "sv_ok no_sessions"
  by (simp add: sv_ok_def no_sessions_def job_keys_def wanted_jobs_def)

lemma sv_reach_ok: "sv_reach st \<Longrightarrow> sv_ok st"
proof (induction rule: sv_reach.induct)
  case (sv_pass st meanwhile t sid b answer)
  then show ?case
    by (auto simp: run_pass_def intro: inv_intros split: option.splits)
qed (auto intro: inv_intros dest: sv_ok_start)

section \<open>What a timeline row says\<close>

definition rssi_of :: "observation \<Rightarrow> int" where
  "rssi_of ob = rssi_dbm (ob_neighbor ob)"

definition strongest_in :: "(instant \<Rightarrow> int) \<Rightarrow> int \<Rightarrow> observation list \<Rightarrow> int option" where
  "strongest_in idx i obs =
     (let rs = map rssi_of (filter (\<lambda>ob. idx (ob_started ob) = i) obs)
      in if rs = [] then None else Some (Max (set rs)))"

definition summarises :: "(instant \<Rightarrow> int) \<Rightarrow> observation list \<Rightarrow> slot \<Rightarrow> bool" where
  "summarises idx obs sl \<longleftrightarrow>
     rssi_max sl = Max (rssi_of ` set obs) \<and> rssi_min sl = Min (rssi_of ` set obs)
     \<and> distinct (sl_scans sl) \<and> set (sl_scans sl) = ob_scan ` set obs
     \<and> (\<forall>i. dict_get (sl_buckets sl) i = strongest_in idx i obs)"

lemma strongest_in_snoc:
  "strongest_in idx i (obs @ [ob]) =
     (if idx (ob_started ob) = i
      then Some (case strongest_in idx i obs of None \<Rightarrow> rssi_of ob | Some m \<Rightarrow> max m (rssi_of ob))
      else strongest_in idx i obs)"
  by (auto simp: strongest_in_def Let_def max.commute simp del: set_filter)

lemma slot_step_first: "summarises idx [ob] (slot_step idx None ob)"
  by (simp add: summarises_def slot_step_def Let_def strongest_in_def rssi_of_def)

lemma slot_step_next:
  assumes "summarises idx obs sl" "obs \<noteq> []"
  shows "summarises idx (obs @ [ob]) (slot_step idx (Some sl) ob)"
proof -
  have "dict_get (sl_buckets (slot_step idx (Some sl) ob)) i = strongest_in idx i (obs @ [ob])" for i
    using assms(1)
    by (auto simp: strongest_in_snoc summarises_def slot_step_def Let_def rssi_of_def
        split: option.splits)
  moreover have "rssi_of ` set (obs @ [ob]) = insert (rssi_of ob) (rssi_of ` set obs)" by auto
  ultimately show ?thesis
    using assms
    by (simp add: summarises_def slot_step_def Let_def rssi_of_def max.commute min.commute)
qed

lemma slot_step_bssid:
  "sl_bssid (slot_step idx None ob) = bssid (ob_neighbor ob)"
  "sl_bssid (slot_step idx (Some sl) ob) = sl_bssid sl"
  by (simp_all add: slot_step_def Let_def)

lemma slot_fold:
  assumes "obs \<noteq> []"
  shows "\<exists>sl. foldl (\<lambda>a ob. Some (slot_step idx a ob)) None obs = Some sl \<and> summarises idx obs sl
           \<and> sl_bssid sl = bssid (ob_neighbor (hd obs))"
  using assms
proof (induction obs rule: rev_induct)
  case (snoc ob obs)
  show ?case
  proof (cases "obs = []")
    case True
    then show ?thesis using slot_step_first by (simp add: slot_step_bssid)
  next
    case False
    with snoc.IH slot_step_next [of idx obs] show ?thesis
      by (auto simp: slot_step_bssid)
  qed
qed simp

lemma slots_entry:
  assumes "(k, sl) \<in> set (slots_of idx obs)"
  shows "sl_bssid sl = k \<and> filter (\<lambda>ob. bssid (ob_neighbor ob) = k) obs \<noteq> []
         \<and> summarises idx (filter (\<lambda>ob. bssid (ob_neighbor ob) = k) obs) sl"
proof -
  let ?f = "filter (\<lambda>ob. bssid (ob_neighbor ob) = k) obs"
  have "distinct (dict_keys (slots_of idx obs))"
    unfolding slots_of_def by (rule distinct_keys_group_fold) simp
  with assms have g: "dict_get (slots_of idx obs) k = Some sl" by simp
  then have ne: "?f \<noteq> []" by (auto simp: slots_of_def dict_get_group_fold)
  with g slot_fold [of ?f idx] have "summarises idx ?f sl" "sl_bssid sl = bssid (ob_neighbor (hd ?f))"
    by (auto simp: slots_of_def dict_get_group_fold)
  moreover have "bssid (ob_neighbor (hd ?f)) = k" using hd_in_set [OF ne] by simp
  ultimately show ?thesis using ne by simp
qed

lemma observations_iff:
  "ob \<in> set (observations st sid) \<longleftrightarrow>
     (\<exists>s n. s \<in> set (session_scans st sid) \<and> (scan_id s, n) \<in> set (seen st)
        \<and> ob = \<lparr>ob_neighbor = n, ob_started = scan_started s, ob_scan = scan_id s\<rparr>)"
  by (force simp: observations_def)

section \<open>Properties\<close>

text \<open>
  C12. Jobs follow sessions: in every state the manager can reach, whatever the interleaving of starts,
  cancellations, passes, supervisor runs and reboots, the scheduled jobs are exactly one per band of
  each active session; and after a supervisor run no active session is past its deadline.
\<close>

theorem jobs_follow_sessions:
  assumes "sv_reach st"
  shows "set (dict_keys (jobs st)) =
           {job_id (ses_id r) b |r b. r \<in> set (sessions st) \<and> status r = Active
              \<and> b \<in> set (parse_bands (bands r))}
         \<and> (\<forall>r \<in> set (sessions (run_supervisor now st)). status r = Active \<longrightarrow> now < deadline r)"
proof -
  have "set (dict_keys (jobs st)) = wanted_jobs st"
    using sv_reach_ok [OF assms] by (simp add: sv_ok_def job_keys_def)
  also have "\<dots> = {job_id (ses_id r) b |r b. r \<in> set (sessions st) \<and> status r = Active
              \<and> b \<in> set (parse_bands (bands r))}"
    by (auto simp: wanted_jobs_def jobs_of_def)
  finally show ?thesis by (auto simp: run_supervisor_def)
qed

definition sample_started :: "string + session \<times> surveillance" where
  "sample_started = start_session 0 [] ''s7'' ''cafe'' ''2, 5'' 3600 60 None [] [] no_sessions"

lemma jobs_follow_sessions_witness:
  "set (dict_keys (jobs (run_supervisor (seconds 4000) (snd (projr sample_started))))) = {}"
proof -
  have "sample_started = Inr (projr sample_started)" by code_simp
  then have "sv_reach (snd (projr sample_started))"
    using sv_start [OF sv_empty, of 0 "[]" "''s7''" "''cafe''" "''2, 5''" 3600 60 None "[]" "[]"]
    by (metis prod.collapse sample_started_def)
  from sv_supervise [OF this, of "seconds 4000"]
  have "sv_reach (run_supervisor (seconds 4000) (snd (projr sample_started)))" .
  moreover have "map status (sessions (run_supervisor (seconds 4000) (snd (projr sample_started)))) = [Completed]"
    by code_simp
  ultimately show ?thesis
    using jobs_follow_sessions [of "run_supervisor (seconds 4000) (snd (projr sample_started))" 0]
    by auto
qed

lemma distinct_map_sort: "distinct (map f (sort_key k xs)) = distinct (map f xs)"
  by (simp add: distinct_map)

text \<open>
  A timeline row tells the truth about its access point: there is one row per address observed, its
  RSSI bounds are the strongest and the weakest of its observations, its passes are the distinct scans
  that saw it, and each bucket holds the strongest observation that falls into it.
\<close>

theorem timeline_rows_are_summaries:
  assumes "get_session st sid = Some r" "row \<in> set (timeline_for now n sid st)"
    and "obs = filter (\<lambda>ob. bssid (ob_neighbor ob) = sl_bssid (tr_slot row)) (observations st sid)"
    and "idx = (\<lambda>t. bucket_of n (window_of r now) (t - started_at r))"
  shows "distinct (map (sl_bssid \<circ> tr_slot) (timeline_for now n sid st)) \<and> obs \<noteq> []
         \<and> rssi_max (tr_slot row) = Max (rssi_of ` set obs)
         \<and> rssi_min (tr_slot row) = Min (rssi_of ` set obs)
         \<and> tr_passes_seen row = card (ob_scan ` set obs)
         \<and> tr_buckets row = map (\<lambda>i. (i, strongest_in idx i obs)) [0..n - 1]"
proof -
  let ?slots = "slots_of idx (observations st sid)"
  have set: "set (timeline_for now n sid st) =
      (\<lambda>(_, sl). row_of n (length (session_scans st sid)) sl) ` set ?slots"
    using assms(1,4) by (simp add: timeline_for_def)
  have keys: "map fst ?slots = map (\<lambda>x. sl_bssid (snd x)) ?slots"
    using slots_entry [of _ _ idx "observations st sid"] by force
  have "distinct (map fst ?slots)"
    unfolding slots_of_def by (rule distinct_keys_group_fold) simp
  then have "distinct (map (\<lambda>x. sl_bssid (snd x)) ?slots)" unfolding keys .
  then have "distinct (map (sl_bssid \<circ> tr_slot)
      (map (\<lambda>(_, sl). row_of n (length (session_scans st sid)) sl) ?slots))"
    by (simp add: comp_def row_of_def case_prod_beta)
  then have d: "distinct (map (sl_bssid \<circ> tr_slot) (timeline_for now n sid st))"
    using assms(1,4) by (simp add: timeline_for_def distinct_map_sort)
  from assms(2) set obtain k sl where e: "(k, sl) \<in> set ?slots"
    "row = row_of n (length (session_scans st sid)) sl" by auto
  from slots_entry [OF e(1)] have sl: "sl_bssid sl = k" "obs \<noteq> []" "summarises idx obs sl"
    using assms(3) e(2) by (simp_all add: row_of_def)
  then have "length (sl_scans sl) = card (ob_scan ` set obs)"
    by (metis distinct_card summarises_def)
  with d sl e(2) show ?thesis by (simp add: row_of_def summarises_def)
qed

definition sample_ap :: neighbor where
  "sample_ap = \<lparr>bssid = ''02:00:00:00:00:01'', ssid = ''cafe'', vendor = [], vendor_slug = [],
     channel = 6, band = ''2'', ap_root = ''02:00:00:00:00'', rssi_dbm = -40, is_randomized = False\<rparr>"

text \<open>A session on two bands: four passes, the access point seen in both passes of its own band.\<close>

definition sample_passes :: surveillance where
  "sample_passes =
     run_pass (seconds 240) 1 ''5'' (Some []) id (run_pass (seconds 180) 1 ''2'' (Some [sample_ap]) id
       (run_pass (seconds 120) 1 ''5'' (Some []) id (run_pass (seconds 60) 1 ''2'' (Some [sample_ap]) id
         (snd (projr sample_started)))))"

definition sample_row :: timeline_row where
  "sample_row = hd (timeline_for (seconds 300) 4 1 sample_passes)"

lemma timeline_rows_are_summaries_witness:
  "tr_buckets sample_row = [(0, Some (-40)), (1, None), (2, Some (-40)), (3, None)]
   \<and> tr_passes_seen sample_row = 2"
proof -
  let ?st = sample_passes
  let ?r = "the (get_session ?st 1)"
  let ?idx = "\<lambda>t. bucket_of 4 (window_of ?r (seconds 300)) (t - started_at ?r)"
  let ?obs = "filter (\<lambda>ob. bssid (ob_neighbor ob) = sl_bssid (tr_slot sample_row)) (observations ?st 1)"
  have r: "get_session ?st 1 = Some ?r" by code_simp
  have "timeline_for (seconds 300) 4 1 ?st \<noteq> []" by code_simp
  then have row: "sample_row \<in> set (timeline_for (seconds 300) 4 1 ?st)"
    by (simp add: sample_row_def)
  have b: "map (\<lambda>i. (i, strongest_in ?idx i ?obs)) [0..4 - 1] =
      [(0, Some (-40)), (1, None), (2, Some (-40)), (3, None)]" by code_simp
  have c: "card (ob_scan ` set ?obs) = 2" by code_simp
  from timeline_rows_are_summaries [OF r row refl refl] b c show ?thesis by presburger
qed

text \<open>
  On a session that scans several bands no access point is ever classified stable: an access point
  answers on its own band only, and the presence ratio counts the passes of the other bands too. As soon
  as the passes of its band are less than four fifths of the session's, being seen in each of them with
  a constant signal does not make it stable.
\<close>

theorem multi_band_never_stable:
  assumes "row \<in> set (timeline_for now n sid st)"
    and "\<And>s nb. s \<in> set (session_scans st sid) \<Longrightarrow> (scan_id s, nb) \<in> set (seen st)
          \<Longrightarrow> bssid nb = sl_bssid (tr_slot row) \<Longrightarrow> scan_band s = b"
    and "5 * length (filter (\<lambda>s. scan_band s = b) (session_scans st sid)) < 4 * length (session_scans st sid)"
  shows "tr_class row \<noteq> Stable"
proof -
  from assms(1) obtain r where r: "get_session st sid = Some r"
    by (cases "get_session st sid") (auto simp: timeline_for_def)
  let ?idx = "\<lambda>t. bucket_of n (window_of r now) (t - started_at r)"
  let ?obs = "filter (\<lambda>ob. bssid (ob_neighbor ob) = sl_bssid (tr_slot row)) (observations st sid)"
  let ?own = "filter (\<lambda>s. scan_band s = b) (session_scans st sid)"
  from assms(1) r obtain k sl where e: "(k, sl) \<in> set (slots_of ?idx (observations st sid))"
    "row = row_of n (length (session_scans st sid)) sl" by (auto simp: timeline_for_def)
  from slots_entry [OF e(1)] e(2) have "summarises ?idx ?obs sl" by (simp add: row_of_def)
  then have "length (sl_scans sl) = card (ob_scan ` set ?obs)"
    by (metis distinct_card summarises_def)
  also have "\<dots> \<le> card (scan_id ` set ?own)"
    using assms(2) by (intro card_mono) (auto simp: observations_iff)
  also have "\<dots> \<le> length ?own"
    by (metis card_length list.set_map length_map)
  finally have "length (sl_scans sl) \<le> length ?own" .
  with assms(3) have "\<not> 4 * length (session_scans st sid) \<le> 5 * length (sl_scans sl)" by linarith
  then show ?thesis by (simp add: e(2) row_of_def classify_def)
qed

lemma multi_band_never_stable_witness:
  "sl_scans (tr_slot sample_row) = [3, 1] \<and> tr_drift sample_row = 0 \<and> tr_class sample_row \<noteq> Stable"
proof -
  have "timeline_for (seconds 300) 4 1 sample_passes \<noteq> []" by code_simp
  then have row: "sample_row \<in> set (timeline_for (seconds 300) 4 1 sample_passes)"
    by (simp add: sample_row_def)
  have "\<forall>s \<in> set (session_scans sample_passes 1). \<forall>(i, nb) \<in> set (seen sample_passes).
      i = scan_id s \<longrightarrow> bssid nb = sl_bssid (tr_slot sample_row) \<longrightarrow> scan_band s = ''2''"
    by code_simp
  moreover have "5 * length (filter (\<lambda>s. scan_band s = ''2'') (session_scans sample_passes 1))
      < 4 * length (session_scans sample_passes 1)" by code_simp
  ultimately have "tr_class sample_row \<noteq> Stable"
    by (intro multi_band_never_stable [OF row]) auto
  moreover have "sl_scans (tr_slot sample_row) = [3, 1] \<and> tr_drift sample_row = 0" by code_simp
  ultimately show ?thesis by simp
qed

end
