(* ===== verification/Wg_Parser.thy ===== *)
theory Wg_Parser
  imports Prelude
begin

text \<open>
  The WireGuard configuration parser (\<^verbatim>\<open>backend/app/vpn/wg_parser.py\<close>): an INI-like text with an
  \<open>[Interface]\<close> and a \<open>[Peer]\<close> section becomes a \<open>ParsedWGConfig\<close>. The \<open>WGConfigParseError\<close> the code
  raises is a value of \<open>wg_error\<close>, with what its message names.
\<close>

datatype wg_error =
    Before_Section string
  | Not_Key_Value string
  | Missing_Section string
  | Missing_Field string string

record wg_config =
  interface_private_key :: string
  interface_address :: string
  interface_dns :: "string list"
  peer_public_key :: string
  peer_endpoint :: string
  peer_allowed_ips :: "string list"

definition split_csv :: "string \<Rightarrow> string list" where
  "split_csv value = filter (\<lambda>v. v \<noteq> []) (map py_strip (py_split (CHR '','') value))"

type_synonym wg_section = "(string, string) dict"
type_synonym wg_sections = "(string, wg_section) dict"

text \<open>A line that is kept: not blank and not a comment.\<close>

definition wg_significant :: "string \<Rightarrow> bool" where
  "wg_significant line \<longleftrightarrow> line \<noteq> [] \<and> hd line \<noteq> CHR ''#'' \<and> hd line \<noteq> CHR '';''"

definition wg_is_header :: "string \<Rightarrow> bool" where
  "wg_is_header line \<longleftrightarrow> starts_with ''['' line \<and> ends_with '']'' line"

definition wg_header_name :: "string \<Rightarrow> string" where
  "wg_header_name line = py_lower (py_strip (butlast (tl line)))"

text \<open>One pass over the lines; \<open>current\<close> is the section being filled.\<close>

fun wg_scan :: "string option \<Rightarrow> wg_sections \<Rightarrow> string list \<Rightarrow> wg_error + wg_sections" where
  "wg_scan current secs [] = Inr secs"
| "wg_scan current secs (raw # raws) =
     (let line = py_strip raw in
      if \<not> wg_significant line then wg_scan current secs raws
      else if wg_is_header line then
        wg_scan (Some (wg_header_name line)) (dict_setdefault (wg_header_name line) [] secs) raws
      else case current of
        None \<Rightarrow> Inl (Before_Section line)
      | Some cur \<Rightarrow>
          if CHR ''='' \<notin> set line then Inl (Not_Key_Value line)
          else let (key, value) = py_partition (CHR ''='') line in
            wg_scan current
              (dict_set cur (dict_set (py_lower (py_strip key)) (py_strip value) (dict_get_or secs cur [])) secs)
              raws)"

fun first_missing :: "(string \<times> wg_section \<times> string) list \<Rightarrow> wg_error option" where
  "first_missing [] = None"
| "first_missing ((key, sec, sec_name) # rest) =
     (if dict_get sec key = None then Some (Missing_Field key sec_name) else first_missing rest)"

definition wg_build :: "wg_sections \<Rightarrow> wg_error + wg_config" where
  "wg_build secs =
     (case dict_get secs ''interface'' of
        None \<Rightarrow> Inl (Missing_Section ''Interface'')
      | Some iface \<Rightarrow>
      (case dict_get secs ''peer'' of
        None \<Rightarrow> Inl (Missing_Section ''Peer'')
      | Some peer \<Rightarrow>
      (case first_missing [(''privatekey'', iface, ''Interface''), (''address'', iface, ''Interface''),
                           (''publickey'', peer, ''Peer''), (''endpoint'', peer, ''Peer'')] of
        Some e \<Rightarrow> Inl e
      | None \<Rightarrow>
          Inr \<lparr>interface_private_key = dict_get_or iface ''privatekey'' [],
               interface_address = dict_get_or iface ''address'' [],
               interface_dns = split_csv (dict_get_or iface ''dns'' []),
               peer_public_key = dict_get_or peer ''publickey'' [],
               peer_endpoint = dict_get_or peer ''endpoint'' [],
               peer_allowed_ips = split_csv (dict_get_or peer ''allowedips'' ''0.0.0.0/0'')\<rparr>)))"

definition parse_wg_config :: "string \<Rightarrow> wg_error + wg_config" where
  "parse_wg_config text =
     (case wg_scan None [] (py_splitlines text) of Inl e \<Rightarrow> Inl e | Inr secs \<Rightarrow> wg_build secs)"

section \<open>What the scan depends on\<close>

definition wg_lines_of :: "string \<Rightarrow> string list" where
  "wg_lines_of text = filter wg_significant (map py_strip (py_splitlines text))"

text \<open>Blank lines, comments and the white space around a line do not count.\<close>

lemma wg_scan_lines: "wg_scan cur secs raws = wg_scan cur secs (filter wg_significant (map py_strip raws))"
  by (induction raws arbitrary: cur secs) (auto simp: Let_def split: option.splits prod.splits)

lemma parse_wg_config_lines:
  "parse_wg_config text =
     (case wg_scan None [] (wg_lines_of text) of Inl e \<Rightarrow> Inl e | Inr secs \<Rightarrow> wg_build secs)"
  by (simp add: parse_wg_config_def wg_lines_of_def wg_scan_lines [symmetric])

text \<open>A key line writes its key and nothing else.\<close>

definition wg_entry :: "string \<Rightarrow> string \<Rightarrow> string" where
  "wg_entry key value = key @ '' = '' @ value"

definition wg_value :: "string \<Rightarrow> bool" where
  "wg_value v \<longleftrightarrow> v \<noteq> [] \<and> py_strip v = v"

lemma py_strip_ends: "py_strip v = v \<Longrightarrow> v \<noteq> [] \<Longrightarrow> \<not> py_isspace (hd v) \<and> \<not> py_isspace (last v)"
  using strip_by_ends [of py_isspace v] by (simp add: py_strip_def)

lemma py_strip_intro: "v = [] \<or> \<not> py_isspace (hd v) \<and> \<not> py_isspace (last v) \<Longrightarrow> py_strip v = v"
  unfolding py_strip_def by (rule strip_by_id)

definition wg_key :: "string \<Rightarrow> bool" where
  "wg_key k \<longleftrightarrow> k \<noteq> [] \<and> list_all py_isalnum k"

lemma alnum_char:
  assumes "py_isalnum c"
  shows "\<not> py_isspace c \<and> c \<notin> set ''[#;=''"
  using assms by (auto simp: char_class_defs)

lemma wg_entry_line:
  assumes "wg_key k" "wg_value v"
  shows "wg_significant (wg_entry k v)" "\<not> wg_is_header (wg_entry k v)"
    "py_strip (wg_entry k v) = wg_entry k v" "CHR ''='' \<in> set (wg_entry k v)"
    "py_partition (CHR ''='') (wg_entry k v) = (k @ '' '', '' '' @ v)"
    "py_strip (k @ '' '') = k" "py_strip ('' '' @ v) = v"
proof -
  from assms(1) obtain c cs where k: "k = c # cs" by (cases k) (simp_all add: wg_key_def)
  from assms have ends: "\<not> py_isspace (hd v)" "\<not> py_isspace (last v)" "v \<noteq> []"
    using py_strip_ends [of v] by (auto simp: wg_value_def)
  have c: "py_isalnum c" using assms(1) k by (simp add: wg_key_def)
  have alk: "\<forall>d\<in>set k. py_isalnum d" using assms(1) by (simp add: wg_key_def list_all_iff)
  show "wg_significant (wg_entry k v)" "\<not> wg_is_header (wg_entry k v)"
    "CHR ''='' \<in> set (wg_entry k v)"
    using alnum_char [OF c] k
    by (auto simp: wg_entry_def wg_significant_def wg_is_header_def starts_with_def)
  show "py_strip (wg_entry k v) = wg_entry k v"
    using alnum_char [OF c] k ends by (intro py_strip_intro) (simp add: wg_entry_def)
  have "CHR ''='' \<notin> set (k @ '' '')" using alk alnum_char by auto
  from py_partition_append [OF this, of "'' '' @ v"]
  show "py_partition (CHR ''='') (wg_entry k v) = (k @ '' '', '' '' @ v)"
    by (simp add: wg_entry_def)
  have sp: "py_isspace (CHR '' '')" by (simp add: py_isspace_def)
  have lk: "\<not> py_isspace (last k)" using alk k alnum_char last_in_set [of k] by blast
  have "dropWhile py_isspace (rev k) = rev k"
    using lk by (simp add: dropWhile_eq_self_iff hd_rev)
  moreover have "dropWhile py_isspace (k @ '' '') = k @ '' ''" using k alnum_char [OF c] by simp
  ultimately show "py_strip (k @ '' '') = k" using sp by (simp add: strip_defs)
  have "dropWhile py_isspace v = v" "dropWhile py_isspace (rev v) = rev v"
    using ends by (simp_all add: dropWhile_eq_self_iff hd_rev)
  then show "py_strip ('' '' @ v) = v" using sp by (simp add: strip_defs)
qed

lemma wg_scan_entry:
  assumes "wg_key k" "wg_value v"
  shows "wg_scan (Some cur) secs (wg_entry k v # ls) =
    wg_scan (Some cur) (dict_set cur (dict_set (py_lower k) v (dict_get_or secs cur [])) secs) ls"
  using wg_entry_line [OF assms] by (simp add: Let_def)

lemma wg_scan_header:
  assumes "h \<in> {''[Interface]'', ''[Peer]''}"
  shows "wg_scan cur secs (h # ls) =
    wg_scan (Some (wg_header_name h)) (dict_setdefault (wg_header_name h) [] secs) ls"
proof -
  have "wg_is_header h \<and> wg_significant h \<and> py_strip h = h"
    if "h \<in> {''[Interface]'', ''[Peer]''}" for h
  proof -
    have "list_all (\<lambda>h. wg_is_header h \<and> wg_significant h \<and> py_strip h = h) [''[Interface]'', ''[Peer]'']"
      by code_simp
    with that show ?thesis by auto
  qed
  with assms show ?thesis by simp
qed

section \<open>A canonical text\<close>

definition wg_csv :: "string list \<Rightarrow> string" where
  "wg_csv vs = py_join '','' vs"

definition wg_items :: "string list \<Rightarrow> bool" where
  "wg_items vs \<longleftrightarrow> list_all (\<lambda>v. wg_value v \<and> CHR '','' \<notin> set v) vs"

definition wg_ok :: "wg_config \<Rightarrow> bool" where
  "wg_ok c \<longleftrightarrow> wg_value (interface_private_key c) \<and> wg_value (interface_address c)
     \<and> wg_items (interface_dns c) \<and> wg_value (peer_public_key c) \<and> wg_value (peer_endpoint c)
     \<and> wg_items (peer_allowed_ips c) \<and> peer_allowed_ips c \<noteq> []"

definition wg_text_lines :: "wg_config \<Rightarrow> string list" where
  "wg_text_lines c =
     [''[Interface]'', wg_entry ''PrivateKey'' (interface_private_key c),
      wg_entry ''Address'' (interface_address c)]
     @ (if interface_dns c = [] then [] else [wg_entry ''DNS'' (wg_csv (interface_dns c))])
     @ [''[Peer]'', wg_entry ''PublicKey'' (peer_public_key c),
        wg_entry ''AllowedIPs'' (wg_csv (peer_allowed_ips c)),
        wg_entry ''Endpoint'' (peer_endpoint c)]"

lemma split_csv_join:
  assumes "wg_items vs"
  shows "split_csv (wg_csv vs) = vs"
proof (cases "vs = []")
  case True
  then show ?thesis by (simp add: wg_csv_def split_csv_def strip_defs)
next
  case False
  then have "py_split (CHR '','') (wg_csv vs) = vs"
    using assms unfolding wg_csv_def by (intro py_split_join) (auto simp: wg_items_def list_all_iff)
  moreover have "map py_strip vs = vs" "filter (\<lambda>v. v \<noteq> []) vs = vs"
    using assms by (auto simp: wg_items_def list_all_iff wg_value_def intro: map_idI filter_True)
  ultimately show ?thesis by (simp add: split_csv_def)
qed

lemma wg_value_csv:
  assumes "wg_items vs" "vs \<noteq> []"
  shows "wg_value (wg_csv vs)"
proof -
  from assms have "wg_csv vs \<noteq> [] \<and> \<not> py_isspace (hd (wg_csv vs)) \<and> \<not> py_isspace (last (wg_csv vs))"
    unfolding wg_csv_def
  proof (induction "'',''" vs rule: py_join.induct)
    case (2 w)
    then show ?case using py_strip_ends [of w] by (auto simp: wg_items_def wg_value_def)
  next
    case (3 w v ws)
    then show ?case using py_strip_ends [of w] by (auto simp: wg_items_def wg_value_def)
  qed simp
  then show ?thesis unfolding wg_value_def by (auto intro: py_strip_intro)
qed

lemma wg_names:
  "wg_header_name ''[Interface]'' = ''interface''" "wg_header_name ''[Peer]'' = ''peer''"
  "py_lower ''PrivateKey'' = ''privatekey''" "py_lower ''Address'' = ''address''"
  "py_lower ''DNS'' = ''dns''" "py_lower ''PublicKey'' = ''publickey''"
  "py_lower ''AllowedIPs'' = ''allowedips''" "py_lower ''Endpoint'' = ''endpoint''"
  "list_all wg_key [''PrivateKey'', ''Address'', ''DNS'', ''PublicKey'', ''AllowedIPs'', ''Endpoint'']"
  by code_simp+

lemma wg_scan_text:
  assumes "wg_ok c"
  shows "wg_scan None [] (wg_text_lines c) =
    Inr [(''interface'', [(''privatekey'', interface_private_key c), (''address'', interface_address c)]
            @ (if interface_dns c = [] then [] else [(''dns'', wg_csv (interface_dns c))])),
         (''peer'', [(''publickey'', peer_public_key c), (''allowedips'', wg_csv (peer_allowed_ips c)),
                     (''endpoint'', peer_endpoint c)])]"
  using assms wg_names(9)
  by (simp add: wg_text_lines_def wg_ok_def wg_scan_header wg_scan_entry wg_value_csv wg_names
      dict_setdefault_def dict_get_or_def del: wg_scan.simps(2) py_lower_simps)

lemma wg_text_parses:
  assumes "wg_ok c" "wg_lines_of text = wg_text_lines c"
  shows "parse_wg_config text = Inr c"
proof -
  have "wg_build [(''interface'', [(''privatekey'', interface_private_key c), (''address'', interface_address c)]
            @ (if interface_dns c = [] then [] else [(''dns'', wg_csv (interface_dns c))])),
         (''peer'', [(''publickey'', peer_public_key c), (''allowedips'', wg_csv (peer_allowed_ips c)),
                     (''endpoint'', peer_endpoint c)])] = Inr c"
    using assms(1)
    by (simp add: wg_build_def dict_get_or_def wg_ok_def split_csv_join) (simp add: split_csv_def strip_defs)
  then show ?thesis
    using wg_scan_text [OF assms(1)] assms(2) by (simp add: parse_wg_config_lines)
qed

section \<open>Properties\<close>

text \<open>
  C22. The parser reads back what a configuration prints: a text whose lines, apart from blank lines,
  comments and surrounding white space, are those of a configuration, is read as that configuration.
\<close>

theorem wg_config_parses_back:
  assumes "wg_ok c" "wg_lines_of text = wg_text_lines c"
  shows "parse_wg_config text = Inr c"
  using assms by (rule wg_text_parses)

definition sample_wg :: wg_config where
  "sample_wg = \<lparr>interface_private_key = ''aGVsbG8='', interface_address = ''10.2.0.2/32'',
     interface_dns = [''10.2.0.1'', ''1.1.1.1''], peer_public_key = ''d29ybGQ='',
     peer_endpoint = ''185.1.2.3:51820'', peer_allowed_ips = [''0.0.0.0/0'', ''::/0'']\<rparr>"

lemma wg_config_parses_back_witness:
  "parse_wg_config (unlines ([''# exported'', [], ''  [Interface]  ''] @ tl (wg_text_lines sample_wg)))
     = Inr sample_wg"
proof -
  have "wg_ok sample_wg"
    "wg_lines_of (unlines ([''# exported'', [], ''  [Interface]  ''] @ tl (wg_text_lines sample_wg)))
       = wg_text_lines sample_wg"
    by code_simp+
  then show ?thesis by (rule wg_config_parses_back)
qed

end
