(* ===== verification/Profile_Model.thy ===== *)
theory Profile_Model
  imports Prelude
begin

text \<open>
  The data of a contextual profile (\<^verbatim>\<open>backend/app/models/profile.py\<close>) and of a Wi-Fi network
  (\<^verbatim>\<open>backend/app/wifi/models.py\<close>), with the validators that rewrite a payload. A profile is valid by
  construction here: unknown keys, which the code rejects, have no field to go to.
\<close>

section \<open>Profiles\<close>

datatype vpn_type = Wireguard | Openvpn | No_Vpn

datatype log_level = Debug | Info | Warning | Error | Critical_Level

record vpn_config =
  vpn_kind :: vpn_type
  client :: "string option"
  kill_switch :: bool

record connection_override =
  accept_routes :: "bool option"
  accept_dns :: "bool option"
  advertise_exit_node :: "bool option"
  exit_node :: "string option"
  shields_up :: "bool option"

record ha_override =
  ha_enabled :: "bool option"
  ha_candidates :: "string list option"
  ha_failsafe :: "string option"

record tailscale_config =
  ts_enabled :: bool
  admin_only :: bool
  connection :: "connection_override option"
  ha :: "ha_override option"

record ssid_ref =
  ref_slug :: string
  ref_enabled :: bool
  network_slug :: string

record firewall_config =
  lockdown :: bool
  geoip_whitelist :: "string list"
  block_telemetry :: bool
  block_all_outbound :: bool

record logging_config =
  level :: log_level
  forward_to_siem :: bool

record profile =
  pr_name :: string
  description :: string
  icon :: "string option"
  color :: "string option"
  vpn :: vpn_config
  tailscale :: tailscale_config
  ssids :: "ssid_ref list"
  firewall :: firewall_config
  logging :: logging_config

text \<open>The defaults of the fields, as a payload with only a name gives them.\<close>

definition default_profile :: "string \<Rightarrow> profile" where
  "default_profile n =
     \<lparr>pr_name = n, description = [], icon = None, color = None,
      vpn = \<lparr>vpn_kind = No_Vpn, client = None, kill_switch = False\<rparr>,
      tailscale = \<lparr>ts_enabled = False, admin_only = False, connection = None, ha = None\<rparr>,
      ssids = [],
      firewall = \<lparr>lockdown = False, geoip_whitelist = [], block_telemetry = False,
                  block_all_outbound = False\<rparr>,
      logging = \<lparr>level = Info, forward_to_siem = False\<rparr>\<rparr>"

text \<open>Blocks of older payloads that are dropped before validation; other unknown keys are errors.\<close>

definition LEGACY_KEYS :: "string list" where
  "LEGACY_KEYS = [''dns'', ''adguard'', ''tor'']"

definition PROFILE_KEYS :: "string list" where
  "PROFILE_KEYS = [''name'', ''description'', ''icon'', ''color'', ''vpn'', ''tailscale'', ''ssids'',
                   ''firewall'', ''logging'']"

definition drop_legacy_keys :: "(string, 'j) dict \<Rightarrow> (string, 'j) dict" where
  "drop_legacy_keys data = filter (\<lambda>(k, _). k \<notin> set LEGACY_KEYS) data"

definition drop_legacy_advertise_routes :: "(string, 'j) dict \<Rightarrow> (string, 'j) dict" where
  "drop_legacy_advertise_routes data = filter (\<lambda>(k, _). k \<noteq> ''advertise_routes'') data"

text \<open>The keys left over, which \<^verbatim>\<open>extra="forbid"\<close> rejects.\<close>

definition profile_extras :: "(string, 'j) dict \<Rightarrow> string list" where
  "profile_extras data = filter (\<lambda>k. k \<notin> set PROFILE_KEYS) (dict_keys (drop_legacy_keys data))"

section \<open>Wi-Fi networks\<close>

datatype wifi_security = WPA3_SAE | WPA3_PSK | WPA2_PSK | WPA2_WPA3_Mixed | Open_Net

fun security_str :: "wifi_security \<Rightarrow> string" where
  "security_str WPA3_SAE = ''WPA3-SAE''"
| "security_str WPA3_PSK = ''WPA3-PSK''"
| "security_str WPA2_PSK = ''WPA2-PSK''"
| "security_str WPA2_WPA3_Mixed = ''WPA2-WPA3-Mixed''"
| "security_str Open_Net = ''open''"

datatype wifi_pmf = Pmf_Disabled | Pmf_Optional | Pmf_Required

record ssid_advanced =
  pmf :: wifi_pmf
  ft_802_11r :: bool
  rrm_802_11k :: bool
  btm_802_11v :: bool
  dtim_period :: int
  wmm :: bool
  proxy_arp :: bool
  wds :: bool

definition default_advanced :: ssid_advanced where
  "default_advanced = \<lparr>pmf = Pmf_Optional, ft_802_11r = False, rrm_802_11k = False,
     btm_802_11v = False, dtim_period = 2, wmm = True, proxy_arp = False, wds = False\<rparr>"

text \<open>The request body of a create or an update of a network.\<close>

record ssid_write =
  w_ssid_name :: string
  w_bands :: "string list"
  w_mlo :: bool
  w_security :: wifi_security
  w_password :: "string option"
  w_client_isolation :: bool
  w_hidden :: bool
  w_notes :: string
  w_advanced :: ssid_advanced

definition band_order :: "string \<Rightarrow> nat" where
  "band_order b = (if b = ''2'' then 0 else if b = ''5'' then 1 else if b = ''6'' then 2 else 99)"

text \<open>First occurrences in their order (the loop over \<open>seen\<close>), then a stable sort.\<close>

fun first_occurrences :: "'a list \<Rightarrow> 'a list \<Rightarrow> 'a list" where
  "first_occurrences seen [] = []"
| "first_occurrences seen (b # bs) =
     (if b \<in> set seen then first_occurrences seen bs else b # first_occurrences (b # seen) bs)"

definition dedupe_bands :: "string list \<Rightarrow> string list" where
  "dedupe_bands value = sort_key band_order (first_occurrences [] value)"

lemma set_first_occurrences: "set (first_occurrences seen xs) = set xs - set seen"
  by (induction seen xs rule: first_occurrences.induct) auto

lemma distinct_first_occurrences: "distinct (first_occurrences seen xs)"
  by (induction seen xs rule: first_occurrences.induct) (auto simp: set_first_occurrences)

lemma first_occurrences_fresh:
  "distinct xs \<Longrightarrow> set xs \<inter> set seen = {} \<Longrightarrow> first_occurrences seen xs = xs"
  by (induction seen xs rule: first_occurrences.induct) auto

lemma sorted_by_key_unique:
  assumes "inj_on f (set xs)" "distinct xs" "distinct ys" "set xs = set ys"
    and "sorted (map f xs)" "sorted (map f ys)"
  shows "xs = ys"
proof -
  have "map f xs = map f ys"
    using assms by (intro sorted_distinct_set_unique) (simp_all add: distinct_map)
  then show ?thesis
    using assms(1,4) by (intro map_inj_on [of f xs ys]) simp_all
qed

lemma band_order_inj: "inj_on band_order {''2'', ''5'', ''6''}"
proof -
  have "band_order ''2'' = 0" "band_order ''5'' = 1" "band_order ''6'' = 2" by code_simp+
  then show ?thesis by (auto simp: inj_on_def)
qed

text \<open>Two lists of the same bands are stored as the same list, in the canonical order.\<close>

lemma dedupe_bands_canonical:
  assumes "set xs = set ys" "set xs \<subseteq> {''2'', ''5'', ''6''}"
  shows "dedupe_bands xs = dedupe_bands ys"
proof -
  have p: "distinct (dedupe_bands zs)" "set (dedupe_bands zs) = set zs"
    "sorted (map band_order (dedupe_bands zs))" for zs
    by (simp_all add: dedupe_bands_def distinct_first_occurrences set_first_occurrences)
  have "inj_on band_order (set (dedupe_bands xs))"
    unfolding p(2) by (rule inj_on_subset [OF band_order_inj assms(2)])
  then show ?thesis by (rule sorted_by_key_unique) (simp_all add: p assms(1))
qed

end
