(* ===== verification/Row_Table.thy ===== *)
theory Row_Table
  imports Prelude "HOL-Library.List_Lexorder"
begin

text \<open>
  The database tables that the stores keep one row per name in: what their queries compute, and the
  contract of such a store. A table is the list of its rows in insertion order; \<open>key\<close> is the column with
  the unique constraint, whose violation makes the commit fail.
\<close>

section \<open>Queries\<close>

definition row_find :: "('r \<Rightarrow> 'k) \<Rightarrow> 'k \<Rightarrow> 'r list \<Rightarrow> 'r option" where
  "row_find key k rows = find (\<lambda>r. key r = k) rows"

definition row_insert :: "('r \<Rightarrow> 'k) \<Rightarrow> 'r \<Rightarrow> 'r list \<Rightarrow> 'r list option" where
  "row_insert key r rows = (if row_find key (key r) rows = None then Some (rows @ [r]) else None)"

definition row_update :: "('r \<Rightarrow> 'k) \<Rightarrow> 'k \<Rightarrow> ('r \<Rightarrow> 'r) \<Rightarrow> 'r list \<Rightarrow> 'r list" where
  "row_update key k f rows = map (\<lambda>r. if key r = k then f r else r) rows"

definition row_delete :: "('r \<Rightarrow> 'k) \<Rightarrow> 'k \<Rightarrow> 'r list \<Rightarrow> 'r list" where
  "row_delete key k rows = filter (\<lambda>r. key r \<noteq> k) rows"

text \<open>Insert each row whose key is not there yet (the seeding loops).\<close>

definition row_seed :: "('r \<Rightarrow> 'k) \<Rightarrow> 'r list \<Rightarrow> 'r list \<Rightarrow> 'r list" where
  "row_seed key new rows =
     foldl (\<lambda>rs r. if row_find key (key r) rs = None then rs @ [r] else rs) rows new"

definition keys_of :: "('r \<Rightarrow> 'k) \<Rightarrow> 'r list \<Rightarrow> 'k list" where
  "keys_of key rows = map key rows"

lemma row_find_append [simp]:
  "row_find key k (xs @ ys) = (case row_find key k xs of Some r \<Rightarrow> Some r | None \<Rightarrow> row_find key k ys)"
  by (induction xs) (auto simp: row_find_def)

lemma row_find_simps [simp]:
  "row_find key k [] = None"
  "row_find key k (r # rs) = (if key r = k then Some r else row_find key k rs)"
  by (simp_all add: row_find_def)

lemma row_find_key: "row_find key k rows = Some r \<Longrightarrow> key r = k \<and> r \<in> set rows"
  by (auto simp: row_find_def find_Some_iff)

lemma row_find_None: "row_find key k rows = None \<longleftrightarrow> k \<notin> key ` set rows"
  by (auto simp: row_find_def find_None_iff)

lemma row_find_in:
  "distinct (keys_of key rows) \<Longrightarrow> r \<in> set rows \<Longrightarrow> row_find key (key r) rows = Some r"
  by (induction rows) (auto simp: keys_of_def)

lemma row_find_update [simp]:
  assumes "\<And>r. key r = k \<Longrightarrow> key (f r) = k"
  shows "row_find key k' (row_update key k f rows) =
    (if k' = k then map_option f (row_find key k rows) else row_find key k' rows)"
  using assms by (induction rows) (auto simp: row_update_def)

lemma row_find_delete [simp]:
  "row_find key k' (row_delete key k rows) = (if k' = k then None else row_find key k' rows)"
  by (induction rows) (auto simp: row_delete_def)

lemma row_find_insert:
  "row_insert key r rows = Some rows' \<Longrightarrow>
   row_find key k rows' = (if k = key r then Some r else row_find key k rows)"
  by (auto simp: row_insert_def split: if_splits option.splits)

lemma row_insert_Some: "row_insert key r rows = Some rows' \<Longrightarrow> row_find key (key r) rows = None"
  by (simp add: row_insert_def split: if_splits)

lemma row_insert_None: "row_insert key r rows = None \<longleftrightarrow> row_find key (key r) rows \<noteq> None"
  by (simp add: row_insert_def)

lemma keys_insert:
  "row_insert key r rows = Some rows' \<Longrightarrow> distinct (keys_of key rows) \<Longrightarrow> distinct (keys_of key rows')"
  by (auto simp: row_insert_def keys_of_def row_find_None split: if_splits)

lemma keys_update [simp]:
  assumes "\<And>r. key r = k \<Longrightarrow> key (f r) = k"
  shows "keys_of key (row_update key k f rows) = keys_of key rows"
  using assms by (auto simp: keys_of_def row_update_def)

lemma keys_row_delete: "distinct (keys_of key rows) \<Longrightarrow> distinct (keys_of key (row_delete key k rows))"
  by (simp add: keys_of_def row_delete_def distinct_map_filter)

lemma row_find_seed:
  "row_find key k (row_seed key new rows) =
     (case row_find key k rows of Some r \<Rightarrow> Some r | None \<Rightarrow> row_find key k new)"
proof (induction new arbitrary: rows)
  case (Cons r new)
  show ?case
  proof (cases "row_find key (key r) rows")
    case None
    then have "row_seed key (r # new) rows = row_seed key new (rows @ [r])" by (simp add: row_seed_def)
    with None Cons.IH [of "rows @ [r]"] show ?thesis by (auto split: option.splits)
  next
    case (Some r')
    then have "row_seed key (r # new) rows = row_seed key new rows" by (simp add: row_seed_def)
    with Some Cons.IH [of rows] show ?thesis by (auto split: option.splits)
  qed
qed (simp add: row_seed_def split: option.splits)

lemma keys_seed: "distinct (keys_of key rows) \<Longrightarrow> distinct (keys_of key (row_seed key new rows))"
proof (induction new arbitrary: rows)
  case (Cons r new)
  show ?case
  proof (cases "row_find key (key r) rows")
    case None
    then have "row_seed key (r # new) rows = row_seed key new (rows @ [r])" by (simp add: row_seed_def)
    moreover have "distinct (keys_of key (rows @ [r]))"
      using None Cons.prems by (auto simp: keys_of_def row_find_None)
    ultimately show ?thesis using Cons.IH by simp
  next
    case (Some r')
    then have "row_seed key (r # new) rows = row_seed key new rows" by (simp add: row_seed_def)
    then show ?thesis using Cons by simp
  qed
qed (simp add: row_seed_def)

section \<open>The contract of a store\<close>

text \<open>
  A store refines a map from names to rows: every operation, failed ones included, has on the lookups
  the effect its specification gives, and keeps the names distinct.
\<close>

locale row_store =
  fixes table :: "'s \<Rightarrow> 'r list"
    and key :: "'r \<Rightarrow> string"
    and step :: "'o \<Rightarrow> 's \<Rightarrow> 's"
    and effect :: "'o \<Rightarrow> (string \<Rightarrow> 'r option) \<Rightarrow> (string \<Rightarrow> 'r option)"
  assumes step_effect: "distinct (keys_of key (table s)) \<Longrightarrow>
      (\<lambda>k. row_find key k (table (step op s))) = effect op (\<lambda>k. row_find key k (table s))"
    and step_keys: "distinct (keys_of key (table s)) \<Longrightarrow> distinct (keys_of key (table (step op s)))"
begin

definition lookup :: "'s \<Rightarrow> string \<Rightarrow> 'r option" where
  "lookup s k = row_find key k (table s)"

definition run :: "'o list \<Rightarrow> 's \<Rightarrow> 's" where
  "run ops s = foldl (\<lambda>s op. step op s) s ops"

lemma run_keys: "distinct (keys_of key (table s)) \<Longrightarrow> distinct (keys_of key (table (run ops s)))"
  unfolding run_def by (induction ops arbitrary: s) (simp_all add: step_keys)

lemma run_refines:
  "distinct (keys_of key (table s)) \<Longrightarrow> lookup (run ops s) = foldl (\<lambda>m op. effect op m) (lookup s) ops"
proof (induction ops arbitrary: s)
  case (Cons op ops)
  have "lookup (step op s) = effect op (lookup s)"
    using step_effect [OF Cons.prems] by (simp add: lookup_def [abs_def])
  then show ?case
    using Cons.IH [OF step_keys [OF Cons.prems, of op]] by (simp add: run_def)
qed (simp add: run_def)

end

end
