(* ===== verification/Profile_Store.thy ===== *)
theory Profile_Store
  imports Profile_Model Row_Table
begin

text \<open>
  The profile store (\<^verbatim>\<open>backend/app/profiles/store.py\<close>, tables \<^verbatim>\<open>ProfileRow\<close> and \<^verbatim>\<open>AppStateRow\<close>): profiles
  by name, and the marker of the active one. Each operation is one transaction; the instants it reads
  from the clock are inputs. Validating a stored payload gives back the profile that was dumped.
\<close>

section \<open>Names\<close>

definition slug_char :: "char \<Rightarrow> bool" where
  "slug_char c \<longleftrightarrow> py_islower c \<or> py_isdigit c \<or> c = CHR ''_'' \<or> c = CHR ''-''"

text \<open>\<^verbatim>\<open>^[a-z0-9][a-z0-9_-]{0,62}$\<close>, on a string without line breaks.\<close>

definition name_pattern :: "(char \<Rightarrow> bool) \<Rightarrow> string \<Rightarrow> bool" where
  "name_pattern ok s \<longleftrightarrow>
     (case s of [] \<Rightarrow> False | c # cs \<Rightarrow> (py_islower c \<or> py_isdigit c) \<and> list_all ok cs \<and> length cs \<le> 62)"

definition slugify :: "(char \<Rightarrow> bool) \<Rightarrow> string \<Rightarrow> string option" where
  "slugify ok raw =
     (let slug = filter ok (py_replace (CHR '' '') (CHR ''-'') (py_lower (py_strip raw)))
      in if name_pattern ok slug then Some slug else None)"

definition normalize_name :: "string \<Rightarrow> string option" where
  "normalize_name = slugify slug_char"

section \<open>State\<close>

datatype profile_source = Template | User

record profile_row =
  prow_name :: string
  source :: profile_source
  payload :: profile
  created_at :: instant
  updated_at :: instant
  last_synced_at :: "instant option"

record profile_db =
  profile_rows :: "profile_row list"
  app_state :: "(string, string) dict"

datatype profile_error = Bad_Name | Not_Found string | Duplicate string | Immutable string

definition ACTIVE_PROFILE_KEY :: string where "ACTIVE_PROFILE_KEY = ''active_profile''"

definition out_of_sync :: "profile_row \<Rightarrow> bool" where
  "out_of_sync r =
     (case last_synced_at r of None \<Rightarrow> True | Some t \<Rightarrow> t + seconds 2 < updated_at r)"

section \<open>Operations\<close>

definition ps_list_all :: "profile_db \<Rightarrow> profile_row list" where
  "ps_list_all db = sort_key prow_name (profile_rows db)"

definition ps_get :: "profile_db \<Rightarrow> string \<Rightarrow> profile_error + profile_row" where
  "ps_get db n =
     (case row_find prow_name n (profile_rows db) of None \<Rightarrow> Inl (Not_Found n) | Some r \<Rightarrow> Inr r)"

definition new_profile_row :: "instant \<Rightarrow> profile_source \<Rightarrow> profile \<Rightarrow> profile_row" where
  "new_profile_row now src p =
     \<lparr>prow_name = pr_name p, source = src, payload = p, created_at = now, updated_at = now,
      last_synced_at = None\<rparr>"

definition ps_create ::
  "instant \<Rightarrow> profile \<Rightarrow> profile_source \<Rightarrow> profile_db \<Rightarrow> profile_error + (profile_row \<times> profile_db)" where
  "ps_create now p src db =
     (case normalize_name (pr_name p) of
        None \<Rightarrow> Inl Bad_Name
      | Some slug \<Rightarrow>
          let row = new_profile_row now src (p\<lparr>pr_name := slug\<rparr>)
          in (case row_insert prow_name row (profile_rows db) of
                None \<Rightarrow> Inl (Duplicate slug)
              | Some rows \<Rightarrow> Inr (row, db\<lparr>profile_rows := rows\<rparr>)))"

text \<open>Assigning the payload the row already has writes nothing, so the update time stays.\<close>

definition ps_update :: "instant \<Rightarrow> string \<Rightarrow> profile \<Rightarrow> profile_db \<Rightarrow> profile_error + profile_db" where
  "ps_update now n p db =
     (case row_find prow_name n (profile_rows db) of
        None \<Rightarrow> Inl (Not_Found n)
      | Some r \<Rightarrow>
          Inr (db\<lparr>profile_rows := row_update prow_name n
                 (\<lambda>r. if payload r = p\<lparr>pr_name := n\<rparr> then r
                      else r\<lparr>payload := p\<lparr>pr_name := n\<rparr>, updated_at := now\<rparr>) (profile_rows db)\<rparr>))"

definition ps_delete :: "string \<Rightarrow> profile_db \<Rightarrow> profile_error + profile_db" where
  "ps_delete n db =
     (case row_find prow_name n (profile_rows db) of
        None \<Rightarrow> Inl (Not_Found n)
      | Some r \<Rightarrow>
          if source r = Template then Inl (Immutable n)
          else Inr (db\<lparr>profile_rows := row_delete prow_name n (profile_rows db),
                       app_state := (if dict_get (app_state db) ACTIVE_PROFILE_KEY = Some n
                                     then dict_set ACTIVE_PROFILE_KEY [] (app_state db)
                                     else app_state db)\<rparr>))"

definition ps_mark_synced :: "instant \<Rightarrow> instant \<Rightarrow> string \<Rightarrow> profile_db \<Rightarrow> profile_db" where
  "ps_mark_synced now now2 n db =
     (case row_find prow_name n (profile_rows db) of
        None \<Rightarrow> db
      | Some r \<Rightarrow>
          db\<lparr>profile_rows := row_update prow_name n
               (\<lambda>r. r\<lparr>last_synced_at := Some now, updated_at := now2\<rparr>) (profile_rows db)\<rparr>)"

definition copy_profile :: "string \<Rightarrow> string \<Rightarrow> profile \<Rightarrow> profile" where
  "copy_profile slug src p =
     p\<lparr>pr_name := slug, description := description p @ '' (copie de '' @ src @ '')''\<rparr>"

definition ps_duplicate ::
  "instant \<Rightarrow> string \<Rightarrow> string \<Rightarrow> profile_db \<Rightarrow> profile_error + (profile_row \<times> profile_db)" where
  "ps_duplicate now src new_name db =
     (case ps_get db src of
        Inl e \<Rightarrow> Inl e
      | Inr original \<Rightarrow>
          (case normalize_name new_name of
             None \<Rightarrow> Inl Bad_Name
           | Some slug \<Rightarrow>
               ps_create now (copy_profile slug src (payload original)) User db))"

definition ps_get_active_name :: "profile_db \<Rightarrow> string option" where
  "ps_get_active_name db =
     (case dict_get (app_state db) ACTIVE_PROFILE_KEY of
        None \<Rightarrow> None
      | Some v \<Rightarrow> if v = [] then None else Some v)"

definition ps_set_active :: "string \<Rightarrow> profile_db \<Rightarrow> profile_error + profile_db" where
  "ps_set_active n db =
     (case row_find prow_name n (profile_rows db) of
        None \<Rightarrow> Inl (Not_Found n)
      | Some r \<Rightarrow> Inr (db\<lparr>app_state := dict_set ACTIVE_PROFILE_KEY n (app_state db)\<rparr>))"

definition ps_is_empty :: "profile_db \<Rightarrow> bool" where
  "ps_is_empty db \<longleftrightarrow> profile_rows db = []"

definition ps_seed_from :: "instant \<Rightarrow> profile list \<Rightarrow> profile_db \<Rightarrow> nat \<times> profile_db" where
  "ps_seed_from now ps db =
     (let rows = row_seed prow_name (map (new_profile_row now Template) ps) (profile_rows db)
      in (length rows - length (profile_rows db), db\<lparr>profile_rows := rows\<rparr>))"

section \<open>Refinement: a map from names to rows\<close>

datatype ps_op =
    Create instant profile profile_source
  | Update instant string profile
  | Delete string
  | Synced instant instant string
  | Copy instant string string
  | Activate string
  | Seed instant "profile list"

definition ps_step :: "ps_op \<Rightarrow> profile_db \<Rightarrow> profile_db" where
  "ps_step op db =
     (case op of
        Create now p src \<Rightarrow> (case ps_create now p src db of Inl _ \<Rightarrow> db | Inr (_, db') \<Rightarrow> db')
      | Update now n p \<Rightarrow> (case ps_update now n p db of Inl _ \<Rightarrow> db | Inr db' \<Rightarrow> db')
      | Delete n \<Rightarrow> (case ps_delete n db of Inl _ \<Rightarrow> db | Inr db' \<Rightarrow> db')
      | Synced now now2 n \<Rightarrow> ps_mark_synced now now2 n db
      | Copy now src new_name \<Rightarrow> (case ps_duplicate now src new_name db of Inl _ \<Rightarrow> db | Inr (_, db') \<Rightarrow> db')
      | Activate n \<Rightarrow> (case ps_set_active n db of Inl _ \<Rightarrow> db | Inr db' \<Rightarrow> db')
      | Seed now ps \<Rightarrow> snd (ps_seed_from now ps db))"

text \<open>What the operations mean on the map: failed ones mean nothing.\<close>

definition add_profile :: "instant \<Rightarrow> profile \<Rightarrow> profile_source \<Rightarrow> (string \<Rightarrow> profile_row option) \<Rightarrow> string \<Rightarrow> profile_row option" where
  "add_profile now p src m =
     (case normalize_name (pr_name p) of
        None \<Rightarrow> m
      | Some slug \<Rightarrow> if m slug = None then m(slug \<mapsto> new_profile_row now src (p\<lparr>pr_name := slug\<rparr>)) else m)"

definition ps_effect :: "ps_op \<Rightarrow> (string \<Rightarrow> profile_row option) \<Rightarrow> string \<Rightarrow> profile_row option" where
  "ps_effect op m =
     (case op of
        Create now p src \<Rightarrow> add_profile now p src m
      | Update now n p \<Rightarrow>
          m(n := map_option (\<lambda>r. if payload r = p\<lparr>pr_name := n\<rparr> then r
                 else r\<lparr>payload := p\<lparr>pr_name := n\<rparr>, updated_at := now\<rparr>) (m n))
      | Delete n \<Rightarrow>
          (case m n of None \<Rightarrow> m | Some r \<Rightarrow> if source r = Template then m else m(n := None))
      | Synced now now2 n \<Rightarrow>
          m(n := map_option (\<lambda>r. r\<lparr>last_synced_at := Some now, updated_at := now2\<rparr>) (m n))
      | Copy now src new_name \<Rightarrow>
          (case (m src, normalize_name new_name) of
             (Some r, Some slug) \<Rightarrow>
               add_profile now (copy_profile slug src (payload r)) User m
           | _ \<Rightarrow> m)
      | Activate n \<Rightarrow> m
      | Seed now ps \<Rightarrow>
          (\<lambda>k. case m k of Some r \<Rightarrow> Some r
               | None \<Rightarrow> row_find prow_name k (map (new_profile_row now Template) ps)))"

lemma prow_name_new [simp]: "prow_name (new_profile_row now src p) = pr_name p"
  by (simp add: new_profile_row_def)

definition ps_lookup :: "profile_db \<Rightarrow> string \<Rightarrow> profile_row option" where
  "ps_lookup db k = row_find prow_name k (profile_rows db)"

lemma ps_create_lookup:
  "(case ps_create now p src db of Inl _ \<Rightarrow> ps_lookup db | Inr (_, db') \<Rightarrow> ps_lookup db')
     = add_profile now p src (ps_lookup db)"
  by (auto simp: ps_create_def add_profile_def ps_lookup_def [abs_def] row_insert_None
      Let_def fun_eq_iff row_find_insert split: option.splits dest: row_insert_Some)

lemma ps_create_keys:
  "ps_create now p src db = Inr (row, db') \<Longrightarrow> distinct (keys_of prow_name (profile_rows db)) \<Longrightarrow>
   distinct (keys_of prow_name (profile_rows db'))"
  by (auto simp: ps_create_def Let_def split: option.splits dest: keys_insert)

lemma ps_step_lookup: "ps_lookup (ps_step op db) = ps_effect op (ps_lookup db)"
proof (cases op)
  case (Create now p src)
  then show ?thesis
    using ps_create_lookup [where now = now and p = p and src = src and db = db]
    by (simp add: ps_step_def ps_effect_def split: sum.splits prod.splits)
next
  case (Copy now src new_name)
  show ?thesis
  proof (cases "ps_lookup db src")
    case None
    then show ?thesis using Copy
      by (simp add: ps_step_def ps_effect_def ps_duplicate_def ps_get_def ps_lookup_def)
  next
    case (Some r)
    then have "ps_get db src = Inr r" by (simp add: ps_get_def ps_lookup_def)
    show ?thesis
    proof (cases "normalize_name new_name")
      case None
      with Copy Some \<open>ps_get db src = Inr r\<close> show ?thesis
        by (simp add: ps_step_def ps_effect_def ps_duplicate_def)
    next
      case slug: (Some slug)
      with Copy Some \<open>ps_get db src = Inr r\<close> show ?thesis
        using ps_create_lookup [where now = now and src = User and db = db
            and p = "copy_profile slug src (payload r)"]
        by (simp add: ps_step_def ps_effect_def ps_duplicate_def split: sum.splits prod.splits)
    qed
  qed
qed (auto simp: ps_step_def ps_effect_def ps_update_def ps_delete_def ps_mark_synced_def ps_set_active_def
    ps_seed_from_def Let_def ps_lookup_def row_find_seed fun_eq_iff split: option.splits)

lemma ps_step_keys:
  assumes "distinct (keys_of prow_name (profile_rows db))"
  shows "distinct (keys_of prow_name (profile_rows (ps_step op db)))"
proof (cases op)
  case (Copy now src new_name)
  then show ?thesis using assms
    by (auto simp: ps_step_def ps_duplicate_def split: option.splits sum.splits prod.splits dest: ps_create_keys)
qed (use assms in \<open>auto simp: ps_step_def ps_update_def ps_delete_def ps_mark_synced_def ps_set_active_def
    ps_seed_from_def Let_def keys_row_delete keys_seed split: option.splits sum.splits prod.splits
    dest: ps_create_keys\<close>)

interpretation profiles: row_store profile_rows prow_name ps_step ps_effect
  using ps_step_lookup ps_step_keys by unfold_locales (simp_all add: ps_lookup_def [abs_def])

section \<open>The active marker\<close>

definition marker_ok :: "profile_db \<Rightarrow> bool" where
  "marker_ok db \<longleftrightarrow> (\<forall>n. ps_get_active_name db = Some n \<longrightarrow> ps_lookup db n \<noteq> None)"

lemma ps_step_keeps:
  assumes "ps_lookup db n \<noteq> None" "op \<noteq> Delete n"
  shows "ps_lookup (ps_step op db) n \<noteq> None"
  using assms
  by (cases op) (auto simp: ps_step_lookup ps_effect_def add_profile_def split: option.splits prod.splits)

lemma app_state_step:
  "app_state (ps_step op db) =
     (case op of
        Activate n \<Rightarrow> (if ps_lookup db n = None then app_state db
                       else dict_set ACTIVE_PROFILE_KEY n (app_state db))
      | Delete n \<Rightarrow> (if ps_lookup (ps_step op db) n = None \<and> dict_get (app_state db) ACTIVE_PROFILE_KEY = Some n
                        \<and> ps_lookup db n \<noteq> None
                     then dict_set ACTIVE_PROFILE_KEY [] (app_state db) else app_state db)
      | _ \<Rightarrow> app_state db)"
  by (cases op)
    (auto simp: ps_step_def ps_create_def ps_update_def ps_delete_def ps_mark_synced_def ps_duplicate_def
      ps_set_active_def ps_seed_from_def ps_lookup_def Let_def split: option.splits sum.splits prod.splits)

lemma marker_ok_step [inv_intros]:
  assumes "marker_ok db"
  shows "marker_ok (ps_step op db)"
proof -
  have "ps_lookup (ps_step op db) n \<noteq> None" if act: "ps_get_active_name (ps_step op db) = Some n" for n
  proof (cases "\<exists>k. op = Activate k \<and> ps_lookup db k \<noteq> None")
    case True
    then obtain k where k: "op = Activate k" "ps_lookup db k \<noteq> None" by blast
    then have "n = k"
      using act by (auto simp: ps_get_active_name_def app_state_step split: if_splits)
    with k show ?thesis using ps_step_keeps by blast
  next
    case False
    have "ps_get_active_name db = Some n"
      using act False by (auto simp: ps_get_active_name_def app_state_step split: ps_op.splits if_splits option.splits)
    then have "ps_lookup db n \<noteq> None" using assms by (auto simp: marker_ok_def)
    show ?thesis
    proof (cases "op = Delete n")
      case del: True
      show ?thesis
      proof
        assume gone: "ps_lookup (ps_step op db) n = None"
        have "dict_get (app_state db) ACTIVE_PROFILE_KEY = Some n"
          using \<open>ps_get_active_name db = Some n\<close>
          by (auto simp: ps_get_active_name_def split: option.splits if_splits)
        with gone del \<open>ps_lookup db n \<noteq> None\<close>
        have "app_state (ps_step op db) = dict_set ACTIVE_PROFILE_KEY [] (app_state db)"
          by (simp add: app_state_step)
        then show False using act by (simp add: ps_get_active_name_def)
      qed
    qed (use \<open>ps_lookup db n \<noteq> None\<close> ps_step_keeps in blast)
  qed
  then show ?thesis by (simp add: marker_ok_def)
qed

section \<open>Properties\<close>

definition empty_profiles :: profile_db where
  "empty_profiles = \<lparr>profile_rows = [], app_state = []\<rparr>"

text \<open>
  C10. The store is a map from names to profiles, and the active marker never dangles: after any sequence
  of creations, edits, deletions, copies, activations, synchronisations and seedings, starting from an
  empty database, looking a name up gives what the same sequence gives on a map in which failed
  operations do nothing, names are unique, and the active profile, when there is one, exists.
\<close>

theorem profile_store_refines_map:
  "(\<lambda>n. row_find prow_name n (profile_rows (foldl (\<lambda>db op. ps_step op db) empty_profiles ops)))
       = foldl (\<lambda>m op. ps_effect op m) Map.empty ops
   \<and> distinct (map prow_name (profile_rows (foldl (\<lambda>db op. ps_step op db) empty_profiles ops)))
   \<and> (case ps_get_active_name (foldl (\<lambda>db op. ps_step op db) empty_profiles ops) of
        None \<Rightarrow> True
      | Some n \<Rightarrow> foldl (\<lambda>m op. ps_effect op m) Map.empty ops n \<noteq> None)"
proof -
  let ?db = "foldl (\<lambda>db op. ps_step op db) empty_profiles ops"
  have e: "distinct (keys_of prow_name (profile_rows empty_profiles))"
    "(\<lambda>n. row_find prow_name n (profile_rows empty_profiles)) = Map.empty"
    by (simp_all add: empty_profiles_def keys_of_def)
  have refines: "(\<lambda>n. row_find prow_name n (profile_rows ?db)) = foldl (\<lambda>m op. ps_effect op m) Map.empty ops"
    using profiles.run_refines [OF e(1), of ops] e(2)
    by (simp add: profiles.run_def profiles.lookup_def [abs_def])
  have "distinct (map prow_name (profile_rows ?db))"
    using profiles.run_keys [OF e(1), of ops] by (simp add: profiles.run_def keys_of_def)
  moreover have "marker_ok ?db"
    by (induction ops rule: rev_induct)
      (simp_all add: marker_ok_step, simp add: marker_ok_def empty_profiles_def ps_get_active_name_def)
  ultimately show ?thesis
    using refines by (auto simp: marker_ok_def ps_lookup_def fun_eq_iff split: option.splits)
qed

text \<open>
  When a profile reads as synchronised. After a synchronisation stamped at one instant and committed
  within two seconds of it, the profile is in sync, and an edit that changes it makes it out of sync
  exactly when it is made more than two seconds after the stamp: an edit inside those two seconds is
  not shown, though the device holds the older version.
\<close>

theorem sync_window:
  assumes "ps_lookup db n = Some r" "t2 \<le> t + seconds 2" "p\<lparr>pr_name := n\<rparr> \<noteq> payload r"
    and "db1 = ps_mark_synced t t2 n db" "ps_update later n p db1 = Inr db2"
  shows "map_option out_of_sync (ps_lookup db1 n) = Some False
    \<and> map_option out_of_sync (ps_lookup db2 n) = Some (t + seconds 2 < later)"
proof -
  have "ps_lookup db1 n = Some (r\<lparr>last_synced_at := Some t, updated_at := t2\<rparr>)"
    using assms(1,4) by (simp add: ps_mark_synced_def ps_lookup_def)
  moreover from this assms(3,5) have "ps_lookup db2 n = Some (r\<lparr>last_synced_at := Some t,
      updated_at := later, payload := p\<lparr>pr_name := n\<rparr>\<rparr>)"
    by (auto simp: ps_update_def ps_lookup_def)
  ultimately show ?thesis using assms(2) by (simp add: out_of_sync_def)
qed

definition sample_profiles :: profile_db where
  "sample_profiles = empty_profiles\<lparr>profile_rows := [new_profile_row 0 User (default_profile ''mission'')]\<rparr>"

lemma sync_window_witness:
  "map_option out_of_sync (ps_lookup (projr (ps_update (seconds 11) ''mission''
      ((default_profile ''mission'')\<lparr>description := ''edited''\<rparr>)
      (ps_mark_synced (seconds 10) (seconds 10) ''mission'' sample_profiles))) ''mission'') = Some False"
proof -
  let ?p = "(default_profile ''mission'')\<lparr>description := ''edited''\<rparr>"
  let ?db1 = "ps_mark_synced (seconds 10) (seconds 10) ''mission'' sample_profiles"
  let ?db2 = "projr (ps_update (seconds 11) ''mission'' ?p ?db1)"
  have l: "ps_lookup sample_profiles ''mission'' = Some (new_profile_row 0 User (default_profile ''mission''))"
    by (simp add: ps_lookup_def sample_profiles_def default_profile_def)
  have u: "ps_update (seconds 11) ''mission'' ?p ?db1 = Inr ?db2"
    using l by (simp add: ps_update_def ps_mark_synced_def ps_lookup_def)
  have "?p\<lparr>pr_name := ''mission''\<rparr> \<noteq> payload (new_profile_row 0 User (default_profile ''mission''))"
    by (simp add: new_profile_row_def default_profile_def)
  from sync_window [OF l _ this refl u] show ?thesis by (simp add: seconds_def)
qed

text \<open>A normalised name is stable, so a stored name finds its row again.\<close>

lemma slugify_idem:
  assumes "slugify ok raw = Some s" "\<And>c. ok c \<Longrightarrow> \<not> py_isspace c \<and> \<not> py_isupper c"
  shows "slugify ok s = Some s"
proof -
  have s: "name_pattern ok s" "list_all ok s"
    using assms(1) by (auto simp: slugify_def Let_def list_all_iff split: if_splits)
  then have ne: "s \<noteq> []" by (auto simp: name_pattern_def)
  have "\<not> py_isspace (hd s) \<and> \<not> py_isspace (last s)"
    using s(2) ne assms(2) by (auto simp: list_all_iff)
  then have strip: "py_strip s = s" unfolding py_strip_def by (intro strip_by_id) simp
  have cs: "\<not> py_isspace c \<and> \<not> py_isupper c" if "c \<in> set s" for c
    using s(2) that assms(2) by (simp add: list_all_iff)
  then have low: "py_lower s = s"
    unfolding py_lower_def by (intro map_idI) (simp add: char_lower_def)
  have "c \<noteq> CHR '' ''" if "c \<in> set s" for c
    using cs [OF that] by (auto simp: py_isspace_def)
  then have "py_replace (CHR '' '') (CHR ''-'') s = s"
    unfolding py_replace_def by (intro map_idI) simp
  with strip low s show ?thesis
    by (simp add: slugify_def Let_def filter_id_conv list_all_iff)
qed

lemma normalize_name_idem: "normalize_name raw = Some s \<Longrightarrow> normalize_name s = Some s"
  unfolding normalize_name_def
  by (erule slugify_idem) (auto simp: slug_char_def char_class_defs)

end
