(* ===== verification/Vpn_Store.thy ===== *)
theory Vpn_Store
  imports Wg_Parser Profile_Store
begin

text \<open>
  Stored VPN configurations (\<^verbatim>\<open>backend/app/vpn/configs_store.py\<close>, table \<^verbatim>\<open>VPNConfigRow\<close>, models in
  \<^verbatim>\<open>backend/app/models/vpn_config.py\<close>). The cipher of \<^verbatim>\<open>backend/app/vpn/crypto.py\<close> is a library's: it is
  the parameter \<open>encrypt\<close> of \<open>vs_add\<close> and the parameter \<open>decrypt\<close> of \<open>vs_get_private_key\<close>.
\<close>

datatype vpn_provider = Proton | Other_Provider

record vpn_row =
  vr_name :: string
  provider :: vpn_provider
  vr_address :: string
  vr_dns_servers :: string
  vr_peer_public_key :: string
  vr_peer_endpoint :: string
  vr_peer_allowed_ips :: string
  private_key_encrypted :: string
  vr_created_at :: instant

record vpn_public =
  vp_name :: string
  vp_provider :: vpn_provider
  vp_address :: string
  vp_dns_servers :: "string list"
  vp_peer_public_key :: string
  vp_peer_endpoint :: string
  vp_peer_allowed_ips :: "string list"
  vp_created_at :: instant

datatype vpn_store_error = Vpn_Bad_Name | Vpn_Not_Found string | Vpn_Duplicate string | Vpn_Crypto

definition vpn_slug_char :: "char \<Rightarrow> bool" where
  "vpn_slug_char c \<longleftrightarrow> slug_char c \<or> c = CHR ''.''"

definition vpn_normalize_name :: "string \<Rightarrow> string option" where
  "vpn_normalize_name = slugify vpn_slug_char"

definition csv_parts :: "string \<Rightarrow> string list" where
  "csv_parts s = filter (\<lambda>p. p \<noteq> []) (py_split (CHR '','') s)"

definition vpn_row_to_public :: "vpn_row \<Rightarrow> vpn_public" where
  "vpn_row_to_public r =
     \<lparr>vp_name = vr_name r, vp_provider = provider r, vp_address = vr_address r,
      vp_dns_servers = csv_parts (vr_dns_servers r), vp_peer_public_key = vr_peer_public_key r,
      vp_peer_endpoint = vr_peer_endpoint r, vp_peer_allowed_ips = csv_parts (vr_peer_allowed_ips r),
      vp_created_at = vr_created_at r\<rparr>"

definition vs_list_all :: "vpn_row list \<Rightarrow> vpn_public list" where
  "vs_list_all rows = map vpn_row_to_public (sort_key (\<lambda>r. - vr_created_at r) rows)"

definition vs_get :: "vpn_row list \<Rightarrow> string \<Rightarrow> vpn_store_error + vpn_public" where
  "vs_get rows n =
     (case row_find vr_name n rows of
        None \<Rightarrow> Inl (Vpn_Not_Found n) | Some r \<Rightarrow> Inr (vpn_row_to_public r))"

definition vpn_row_of :: "(string \<Rightarrow> string) \<Rightarrow> instant \<Rightarrow> string \<Rightarrow> vpn_provider \<Rightarrow> wg_config \<Rightarrow> vpn_row" where
  "vpn_row_of encrypt now slug prov cfg =
     \<lparr>vr_name = slug, provider = prov, vr_address = interface_address cfg,
      vr_dns_servers = py_join '','' (interface_dns cfg), vr_peer_public_key = peer_public_key cfg,
      vr_peer_endpoint = peer_endpoint cfg, vr_peer_allowed_ips = py_join '','' (peer_allowed_ips cfg),
      private_key_encrypted = encrypt (interface_private_key cfg), vr_created_at = now\<rparr>"

definition vs_add ::
  "(string \<Rightarrow> string) \<Rightarrow> instant \<Rightarrow> string \<Rightarrow> vpn_provider \<Rightarrow> wg_config \<Rightarrow> vpn_row list
     \<Rightarrow> vpn_store_error + (vpn_public \<times> vpn_row list)" where
  "vs_add encrypt now n prov cfg rows =
     (case vpn_normalize_name n of
        None \<Rightarrow> Inl Vpn_Bad_Name
      | Some slug \<Rightarrow>
          (case row_insert vr_name (vpn_row_of encrypt now slug prov cfg) rows of
             None \<Rightarrow> Inl (Vpn_Duplicate slug)
           | Some rows' \<Rightarrow> Inr (vpn_row_to_public (vpn_row_of encrypt now slug prov cfg), rows')))"

definition vs_delete :: "string \<Rightarrow> vpn_row list \<Rightarrow> vpn_store_error + vpn_row list" where
  "vs_delete n rows =
     (if row_find vr_name n rows = None then Inl (Vpn_Not_Found n) else Inr (row_delete vr_name n rows))"

definition vs_get_private_key ::
  "(string \<Rightarrow> string option) \<Rightarrow> vpn_row list \<Rightarrow> string \<Rightarrow> vpn_store_error + string" where
  "vs_get_private_key decrypt rows n =
     (case row_find vr_name n rows of
        None \<Rightarrow> Inl (Vpn_Not_Found n)
      | Some r \<Rightarrow> (case decrypt (private_key_encrypted r) of None \<Rightarrow> Inl Vpn_Crypto | Some k \<Rightarrow> Inr k))"

section \<open>Refinement\<close>

datatype vs_op = Vpn_Add instant string vpn_provider wg_config | Vpn_Delete string

definition vs_step :: "(string \<Rightarrow> string) \<Rightarrow> vs_op \<Rightarrow> vpn_row list \<Rightarrow> vpn_row list" where
  "vs_step encrypt op rows =
     (case op of
        Vpn_Add now n prov cfg \<Rightarrow> (case vs_add encrypt now n prov cfg rows of Inl _ \<Rightarrow> rows | Inr (_, rows') \<Rightarrow> rows')
      | Vpn_Delete n \<Rightarrow> (case vs_delete n rows of Inl _ \<Rightarrow> rows | Inr rows' \<Rightarrow> rows'))"

definition vs_effect :: "(string \<Rightarrow> string) \<Rightarrow> vs_op \<Rightarrow> (string \<Rightarrow> vpn_row option) \<Rightarrow> string \<Rightarrow> vpn_row option" where
  "vs_effect encrypt op m =
     (case op of
        Vpn_Add now n prov cfg \<Rightarrow>
          (case vpn_normalize_name n of
             None \<Rightarrow> m
           | Some slug \<Rightarrow> if m slug = None then m(slug \<mapsto> vpn_row_of encrypt now slug prov cfg) else m)
      | Vpn_Delete n \<Rightarrow> m(n := None))"

lemma vr_name_of [simp]: "vr_name (vpn_row_of encrypt now slug prov cfg) = slug"
  by (simp add: vpn_row_of_def)

interpretation vpn_configs: row_store "\<lambda>rows. rows" vr_name "vs_step encrypt" "vs_effect encrypt"
proof
  fix rows :: "vpn_row list" and op
  show "(\<lambda>k. row_find vr_name k (vs_step encrypt op rows)) = vs_effect encrypt op (\<lambda>k. row_find vr_name k rows)"
    by (cases op) (auto simp: vs_step_def vs_effect_def vs_add_def vs_delete_def row_insert_None
        row_find_insert fun_eq_iff split: option.splits dest: row_insert_Some)
  show "distinct (keys_of vr_name (vs_step encrypt op rows))" if "distinct (keys_of vr_name rows)"
    using that by (cases op) (auto simp: vs_step_def vs_add_def vs_delete_def keys_row_delete
        split: option.splits dest: keys_insert)
qed

section \<open>Properties\<close>

lemma csv_parts_join:
  assumes "list_all (\<lambda>v. v \<noteq> [] \<and> CHR '','' \<notin> set v) vs"
  shows "csv_parts (py_join '','' vs) = vs"
proof (cases "vs = []")
  case False
  then have "py_split (CHR '','') (py_join '','' vs) = vs"
    using assms by (intro py_split_join) (auto simp: list_all_iff)
  then show ?thesis using assms by (simp add: csv_parts_def filter_id_conv list_all_iff)
qed (simp add: csv_parts_def)

lemma split_csv_items: "list_all (\<lambda>v. v \<noteq> [] \<and> CHR '','' \<notin> set v) (split_csv value)"
  unfolding split_csv_def list_all_iff py_strip_def
  using py_split_no_sep [of _ "CHR '',''" "value"] set_strip_by by fastforce

lemma parsed_items:
  assumes "parse_wg_config text = Inr cfg"
  shows "list_all (\<lambda>v. v \<noteq> [] \<and> CHR '','' \<notin> set v) (interface_dns cfg)"
    "list_all (\<lambda>v. v \<noteq> [] \<and> CHR '','' \<notin> set v) (peer_allowed_ips cfg)"
  using assms
  by (auto simp: parse_wg_config_def wg_build_def split_csv_items split: sum.splits option.splits)

text \<open>
  An uploaded configuration survives its storage: what the parser read from a file, stored under a
  free name, is what the store shows under the normalised name, and the private key decrypts to the
  file's, provided the cipher decrypts what it encrypted; and it stays so whatever other configurations
  are then added or deleted, as long as this name is not deleted.
\<close>

theorem stored_config_reads_back:
  assumes "parse_wg_config text = Inr cfg"
    and "\<And>s. decrypt (encrypt s) = Some s"
    and "vs_add encrypt now n prov cfg rows = Inr (pub, rows1)"
    and "distinct (keys_of vr_name rows)"
    and "vpn_normalize_name n = Some slug"
    and "\<forall>op\<in>set ops. op \<noteq> Vpn_Delete slug"
    and "rows2 = foldl (\<lambda>rs op. vs_step encrypt op rs) rows1 ops"
  shows "vs_get rows2 slug =
           Inr \<lparr>vp_name = slug, vp_provider = prov, vp_address = interface_address cfg,
                vp_dns_servers = interface_dns cfg, vp_peer_public_key = peer_public_key cfg,
                vp_peer_endpoint = peer_endpoint cfg, vp_peer_allowed_ips = peer_allowed_ips cfg,
                vp_created_at = now\<rparr>
         \<and> vs_get_private_key decrypt rows2 slug = Inr (interface_private_key cfg)"
proof -
  let ?row = "vpn_row_of encrypt now slug prov cfg"
  have rows1: "row_insert vr_name ?row rows = Some rows1"
    using assms(3,5) by (auto simp: vs_add_def split: option.splits)
  then have "distinct (keys_of vr_name rows1)" using assms(4) by (rule keys_insert)
  then have run: "(\<lambda>k. row_find vr_name k rows2) = foldl (\<lambda>m op. vs_effect encrypt op m) (\<lambda>k. row_find vr_name k rows1) ops"
    using vpn_configs.run_refines [of rows1 encrypt ops] assms(7)
    by (simp add: vpn_configs.run_def vpn_configs.lookup_def [abs_def])
  have "foldl (\<lambda>m op. vs_effect encrypt op m) m ops slug = Some ?row" if "m slug = Some ?row" for m
    using assms(6) that
  proof (induction ops arbitrary: m)
    case (Cons op ops)
    then have "vs_effect encrypt op m slug = Some ?row"
      by (cases op) (auto simp: vs_effect_def split: option.splits)
    with Cons show ?case by simp
  qed simp
  then have "row_find vr_name slug rows2 = Some ?row"
    using rows1 run by (simp add: row_find_insert fun_eq_iff)
  then show ?thesis
    using parsed_items [OF assms(1)] assms(2)
    by (simp add: vs_get_def vs_get_private_key_def vpn_row_to_public_def vpn_row_of_def csv_parts_join)
qed

lemma stored_config_reads_back_witness:
  "vs_get_private_key (\<lambda>s. Some (rev s))
     (vs_step rev (Vpn_Delete ''other'')
        (snd (projr (vs_add rev 7 ''Proton CH '' Proton sample_wg [])))) ''proton-ch''
   = Inr ''aGVsbG8=''"
proof -
  let ?text = "unlines (wg_text_lines sample_wg)"
  let ?add = "vs_add rev 7 ''Proton CH '' Proton sample_wg []"
  have p: "parse_wg_config ?text = Inr sample_wg"
    by (rule wg_text_parses) code_simp+
  have n: "vpn_normalize_name ''Proton CH '' = Some ''proton-ch''" by code_simp
  have a: "?add = Inr (fst (projr ?add), snd (projr ?add))"
    by (simp add: vs_add_def n row_insert_def)
  from stored_config_reads_back [OF p _ a _ n, of "\<lambda>s. Some (rev s)" "[Vpn_Delete ''other'']"]
  show ?thesis by (simp add: keys_of_def sample_wg_def)
qed

end
