(* ===== verification/Wifi_Store.thy ===== *)
theory Wifi_Store
  imports Profile_Model Row_Table
begin

text \<open>
  The Wi-Fi catalogue (\<^verbatim>\<open>backend/app/wifi/store.py\<close>, table \<^verbatim>\<open>WifiSsidRow\<close>). The cipher of the stored
  passwords is the parameter \<open>encrypt\<close>, whose token for a text may differ at every call (by the instant of
  the call); no password is stored as the empty string.
\<close>

record ssid_row =
  sr_slug :: string
  ssid_name :: string
  bands :: "string list"
  mlo :: bool
  security :: wifi_security
  password_encrypted :: string
  client_isolation :: bool
  hidden :: bool
  ssid_notes :: string
  advanced :: ssid_advanced
  sr_created_at :: instant
  sr_updated_at :: instant

record ssid_public =
  sp_slug :: string
  sp_ssid_name :: string
  sp_bands :: "string list"
  sp_mlo :: bool
  sp_security :: wifi_security
  sp_client_isolation :: bool
  sp_hidden :: bool
  sp_notes :: string
  has_password :: bool
  sp_advanced :: ssid_advanced
  sp_created_at :: instant
  sp_updated_at :: instant

datatype ssid_error = Ssid_Not_Found string | Ssid_Duplicate string | Ssid_Crypto

definition ssid_to_public :: "ssid_row \<Rightarrow> ssid_public" where
  "ssid_to_public r =
     \<lparr>sp_slug = sr_slug r, sp_ssid_name = ssid_name r, sp_bands = bands r, sp_mlo = mlo r,
      sp_security = security r, sp_client_isolation = client_isolation r, sp_hidden = hidden r,
      sp_notes = ssid_notes r, has_password = (password_encrypted r \<noteq> []), sp_advanced = advanced r,
      sp_created_at = sr_created_at r, sp_updated_at = sr_updated_at r\<rparr>"

definition ws_list_all :: "ssid_row list \<Rightarrow> ssid_public list" where
  "ws_list_all rows = map ssid_to_public (sort_key sr_slug rows)"

definition ws_get :: "ssid_row list \<Rightarrow> string \<Rightarrow> ssid_error + ssid_public" where
  "ws_get rows slug =
     (case row_find sr_slug slug rows of
        None \<Rightarrow> Inl (Ssid_Not_Found slug) | Some r \<Rightarrow> Inr (ssid_to_public r))"

definition ws_get_password ::
  "(string \<Rightarrow> string option) \<Rightarrow> ssid_row list \<Rightarrow> string \<Rightarrow> ssid_error + string" where
  "ws_get_password decrypt rows slug =
     (case row_find sr_slug slug rows of
        None \<Rightarrow> Inl (Ssid_Not_Found slug)
      | Some r \<Rightarrow>
          if password_encrypted r = [] then Inr []
          else (case decrypt (password_encrypted r) of None \<Rightarrow> Inl Ssid_Crypto | Some pw \<Rightarrow> Inr pw))"

definition sealed :: "(string \<Rightarrow> string) \<Rightarrow> string option \<Rightarrow> string" where
  "sealed encrypt pw = (case pw of None \<Rightarrow> [] | Some p \<Rightarrow> if p = [] then [] else encrypt p)"

definition ssid_row_of :: "(instant \<Rightarrow> string \<Rightarrow> string) \<Rightarrow> instant \<Rightarrow> string \<Rightarrow> ssid_write \<Rightarrow> ssid_row" where
  "ssid_row_of encrypt now slug body =
     \<lparr>sr_slug = slug, ssid_name = w_ssid_name body, bands = w_bands body, mlo = w_mlo body,
      security = w_security body, password_encrypted = sealed (encrypt now) (w_password body),
      client_isolation = w_client_isolation body, hidden = w_hidden body, ssid_notes = w_notes body,
      advanced = w_advanced body, sr_created_at = now, sr_updated_at = now\<rparr>"

definition ws_create ::
  "(instant \<Rightarrow> string \<Rightarrow> string) \<Rightarrow> instant \<Rightarrow> string \<Rightarrow> ssid_write \<Rightarrow> ssid_row list
     \<Rightarrow> ssid_error + (ssid_public \<times> ssid_row list)" where
  "ws_create encrypt now slug body rows =
     (case row_insert sr_slug (ssid_row_of encrypt now slug body) rows of
        None \<Rightarrow> Inl (Ssid_Duplicate slug)
      | Some rows' \<Rightarrow> Inr (ssid_to_public (ssid_row_of encrypt now slug body), rows'))"

text \<open>No password in the body leaves the stored one alone; the empty one clears it.\<close>

definition ssid_overwrite :: "(instant \<Rightarrow> string \<Rightarrow> string) \<Rightarrow> instant \<Rightarrow> ssid_write \<Rightarrow> ssid_row \<Rightarrow> ssid_row" where
  "ssid_overwrite encrypt now body r =
     r\<lparr>ssid_name := w_ssid_name body, bands := w_bands body, mlo := w_mlo body,
       security := w_security body, client_isolation := w_client_isolation body,
       hidden := w_hidden body, ssid_notes := w_notes body, advanced := w_advanced body,
       password_encrypted := (case w_password body of None \<Rightarrow> password_encrypted r
                              | Some p \<Rightarrow> sealed (encrypt now) (Some p))\<rparr>"

definition ssid_edit :: "(instant \<Rightarrow> string \<Rightarrow> string) \<Rightarrow> instant \<Rightarrow> ssid_write \<Rightarrow> ssid_row \<Rightarrow> ssid_row" where
  "ssid_edit encrypt now body r =
     (if ssid_overwrite encrypt now body r = r then r
      else (ssid_overwrite encrypt now body r)\<lparr>sr_updated_at := now\<rparr>)"

definition ws_update ::
  "(instant \<Rightarrow> string \<Rightarrow> string) \<Rightarrow> instant \<Rightarrow> string \<Rightarrow> ssid_write \<Rightarrow> ssid_row list \<Rightarrow> ssid_error + ssid_row list" where
  "ws_update encrypt now slug body rows =
     (if row_find sr_slug slug rows = None then Inl (Ssid_Not_Found slug)
      else Inr (row_update sr_slug slug (ssid_edit encrypt now body) rows))"

definition ws_delete :: "string \<Rightarrow> ssid_row list \<Rightarrow> ssid_error + ssid_row list" where
  "ws_delete slug rows =
     (if row_find sr_slug slug rows = None then Inl (Ssid_Not_Found slug)
      else Inr (row_delete sr_slug slug rows))"

text \<open>Seeding does not copy the advanced section: the row gets the column defaults.\<close>

definition ws_seed_defaults ::
  "(instant \<Rightarrow> string \<Rightarrow> string) \<Rightarrow> instant \<Rightarrow> (string \<times> ssid_write) list \<Rightarrow> ssid_row list \<Rightarrow> nat \<times> ssid_row list" where
  "ws_seed_defaults encrypt now defaults rows =
     (let rows' = row_seed sr_slug
            (map (\<lambda>(slug, body). (ssid_row_of encrypt now slug body)\<lparr>advanced := default_advanced\<rparr>) defaults) rows
      in (length rows' - length rows, rows'))"

section \<open>Refinement\<close>

datatype ws_op =
    Ssid_Create instant string ssid_write
  | Ssid_Update instant string ssid_write
  | Ssid_Delete string
  | Ssid_Seed instant "(string \<times> ssid_write) list"

definition ws_step :: "(instant \<Rightarrow> string \<Rightarrow> string) \<Rightarrow> ws_op \<Rightarrow> ssid_row list \<Rightarrow> ssid_row list" where
  "ws_step encrypt op rows =
     (case op of
        Ssid_Create now slug body \<Rightarrow>
          (case ws_create encrypt now slug body rows of Inl _ \<Rightarrow> rows | Inr (_, rows') \<Rightarrow> rows')
      | Ssid_Update now slug body \<Rightarrow>
          (case ws_update encrypt now slug body rows of Inl _ \<Rightarrow> rows | Inr rows' \<Rightarrow> rows')
      | Ssid_Delete slug \<Rightarrow> (case ws_delete slug rows of Inl _ \<Rightarrow> rows | Inr rows' \<Rightarrow> rows')
      | Ssid_Seed now defaults \<Rightarrow> snd (ws_seed_defaults encrypt now defaults rows))"

definition ws_effect :: "(instant \<Rightarrow> string \<Rightarrow> string) \<Rightarrow> ws_op \<Rightarrow> (string \<Rightarrow> ssid_row option) \<Rightarrow> string \<Rightarrow> ssid_row option" where
  "ws_effect encrypt op m =
     (case op of
        Ssid_Create now slug body \<Rightarrow>
          if m slug = None then m(slug \<mapsto> ssid_row_of encrypt now slug body) else m
      | Ssid_Update now slug body \<Rightarrow>
          m(slug := map_option (ssid_edit encrypt now body) (m slug))
      | Ssid_Delete slug \<Rightarrow> m(slug := None)
      | Ssid_Seed now defaults \<Rightarrow>
          (\<lambda>k. case m k of Some r \<Rightarrow> Some r
               | None \<Rightarrow> row_find sr_slug k
                   (map (\<lambda>(slug, body). (ssid_row_of encrypt now slug body)\<lparr>advanced := default_advanced\<rparr>) defaults)))"

lemma password_overwrite:
  "password_encrypted (ssid_overwrite encrypt now body r) =
     (case w_password body of None \<Rightarrow> password_encrypted r | Some p \<Rightarrow> sealed (encrypt now) (Some p))"
  by (simp add: ssid_overwrite_def)

lemma password_edit [simp]:
  "password_encrypted (ssid_edit encrypt now body r) =
     (case w_password body of None \<Rightarrow> password_encrypted r | Some p \<Rightarrow> sealed (encrypt now) (Some p))"
  using password_overwrite [of encrypt now body r] by (auto simp: ssid_edit_def)

lemma sr_slug_simps [simp]:
  "sr_slug (ssid_row_of encrypt now slug body) = slug"
  "sr_slug (ssid_edit encrypt now body r) = sr_slug r"
  by (simp_all add: ssid_row_of_def ssid_overwrite_def ssid_edit_def)

interpretation wifi_catalog: row_store "\<lambda>rows. rows" sr_slug "ws_step encrypt" "ws_effect encrypt"
proof
  fix rows :: "ssid_row list" and op
  show "(\<lambda>k. row_find sr_slug k (ws_step encrypt op rows)) = ws_effect encrypt op (\<lambda>k. row_find sr_slug k rows)"
    by (cases op) (auto simp: ws_step_def ws_effect_def ws_create_def ws_update_def ws_delete_def
        ws_seed_defaults_def Let_def row_insert_None row_find_insert row_find_seed fun_eq_iff
        split: option.splits dest: row_insert_Some)
  show "distinct (keys_of sr_slug (ws_step encrypt op rows))" if "distinct (keys_of sr_slug rows)"
    using that by (cases op) (auto simp: ws_step_def ws_create_def ws_update_def ws_delete_def
        ws_seed_defaults_def Let_def keys_row_delete keys_seed split: option.splits dest: keys_insert)
qed

section \<open>Properties\<close>

text \<open>The password last written by a sequence of operations on one network.\<close>

definition written_password :: "string \<Rightarrow> string \<Rightarrow> ws_op \<Rightarrow> string" where
  "written_password slug pw op =
     (case op of
        Ssid_Update _ s body \<Rightarrow> if s = slug then (case w_password body of None \<Rightarrow> pw | Some p \<Rightarrow> p) else pw
      | _ \<Rightarrow> pw)"

text \<open>
  A network keeps the password last written: whatever sequence of creations, edits, deletions of
  other networks and seedings follows the creation of a network, its password is the one of the last
  edit that carried one, the empty one clearing it and a missing one leaving it alone.
\<close>

theorem password_last_written:
  assumes "\<And>t s. decrypt (encrypt t s) = Some s" "\<And>t s. encrypt t s \<noteq> []"
    and "ws_create encrypt now slug body rows = Inr (pub, rows1)"
    and "distinct (keys_of sr_slug rows)"
    and "\<forall>op\<in>set ops. op \<noteq> Ssid_Delete slug"
  shows "ws_get_password decrypt (foldl (\<lambda>rs op. ws_step encrypt op rs) rows1 ops) slug
    = Inr (foldl (written_password slug) (case w_password body of None \<Rightarrow> [] | Some p \<Rightarrow> p) ops)"
proof -
  let ?holds = "\<lambda>m pw. \<exists>r. m slug = Some r \<and> (\<exists>t. password_encrypted r = (if pw = [] then [] else encrypt t pw))"
  let ?pw0 = "case w_password body of None \<Rightarrow> [] | Some p \<Rightarrow> p"
  let ?m1 = "\<lambda>k. row_find sr_slug k rows1"
  have rows1: "row_insert sr_slug (ssid_row_of encrypt now slug body) rows = Some rows1"
    using assms(3) by (auto simp: ws_create_def split: option.splits)
  then have d: "distinct (keys_of sr_slug rows1)" using assms(4) by (rule keys_insert)
  have start: "?holds ?m1 ?pw0"
    using rows1 by (auto simp: row_find_insert ssid_row_of_def sealed_def split: option.splits)
  have step: "?holds (ws_effect encrypt op m) (written_password slug pw op)"
    if "op \<noteq> Ssid_Delete slug" "?holds m pw" for op m pw
    using that
    by (cases op) (auto simp: ws_effect_def written_password_def sealed_def split: option.splits)
  have "?holds (foldl (\<lambda>m op. ws_effect encrypt op m) m ops) (foldl (written_password slug) pw ops)"
    if "?holds m pw" "\<forall>op\<in>set ops. op \<noteq> Ssid_Delete slug" for m pw ops
    using that
  proof (induction ops arbitrary: m pw)
    case Nil
    then show ?case unfolding foldl_Nil by blast
  next
    case (Cons op ops)
    have "?holds (ws_effect encrypt op m) (written_password slug pw op)"
      using Cons.prems by (intro step) simp_all
    moreover have "\<forall>op\<in>set ops. op \<noteq> Ssid_Delete slug" using Cons.prems(2) by simp
    ultimately show ?case unfolding foldl_Cons by (rule Cons.IH)
  qed
  from this [of ?m1 ?pw0 ops, OF start assms(5)]
  obtain r t where
    r: "foldl (\<lambda>m op. ws_effect encrypt op m) ?m1 ops slug = Some r"
    "password_encrypted r = (if foldl (written_password slug) ?pw0 ops = [] then []
       else encrypt t (foldl (written_password slug) ?pw0 ops))" by blast
  have "(\<lambda>k. row_find sr_slug k (foldl (\<lambda>rs op. ws_step encrypt op rs) rows1 ops)) =
      foldl (\<lambda>m op. ws_effect encrypt op m) ?m1 ops"
    using wifi_catalog.run_refines [OF d, of encrypt ops]
    by (simp add: wifi_catalog.run_def wifi_catalog.lookup_def [abs_def])
  from fun_cong [OF this, of slug] r show ?thesis using assms(1,2) by (simp add: ws_get_password_def)
qed

definition sample_ssid :: "string option \<Rightarrow> ssid_write" where
  "sample_ssid pw = \<lparr>w_ssid_name = ''Home'', w_bands = [''2'', ''5''], w_mlo = False, w_security = WPA3_SAE,
     w_password = pw, w_client_isolation = False, w_hidden = False, w_notes = [],
     w_advanced = default_advanced\<rparr>"

lemma password_last_written_witness:
  "ws_get_password (\<lambda>s. Some (tl s)) (foldl (\<lambda>rs op. ws_step (\<lambda>t. Cons (CHR ''k'')) op rs)
     (snd (projr (ws_create (\<lambda>t. Cons (CHR ''k'')) 1 ''home'' (sample_ssid (Some ''first-one'')) [])))
     [Ssid_Update 2 ''home'' (sample_ssid (Some ''second-one'')), Ssid_Update 3 ''home'' (sample_ssid None),
      Ssid_Delete ''guest'']) ''home'' = Inr ''second-one''"
proof -
  let ?c = "ws_create (\<lambda>t. Cons (CHR ''k'')) 1 ''home'' (sample_ssid (Some ''first-one'')) []"
  have c: "?c = Inr (fst (projr ?c), snd (projr ?c))" by (simp add: ws_create_def row_insert_def)
  show ?thesis
    using password_last_written [OF _ _ c, of "\<lambda>s. Some (tl s)" "[Ssid_Update 2 ''home'' (sample_ssid (Some ''second-one'')),
        Ssid_Update 3 ''home'' (sample_ssid None), Ssid_Delete ''guest'']"]
    by (simp add: keys_of_def written_password_def sample_ssid_def)
qed

end
