(* ===== verification/Profile_Plan.thy ===== *)
theory Profile_Plan
  imports Vpn_Store Wifi_Store
begin

text \<open>
  The activation plan of a profile (\<^verbatim>\<open>backend/app/profiles/applier.py\<close>): the steps the agent would take,
  each with its readiness. The French summaries and notes of the steps are left out.
\<close>

datatype subsystem =
    Sub_Vpn | Sub_Firewall | Sub_Wifi | Sub_Radio | Sub_Network | Sub_Adguard | Sub_Tor | Sub_Tailscale
  | Sub_Screen | Sub_Wallpaper | Sub_Logging

datatype action_kind = Rpc | Uci | Service | Noop

datatype readiness = Ready | Needs_Probe | Skipped | Blocker

datatype target_value = Flag bool | Text string | Texts "string list" | Kind vpn_type | At_Level log_level

record plan_step =
  subsystem :: subsystem
  action_kind :: action_kind
  target_values :: "(string, target_value) dict"
  readiness :: readiness

definition mk_step ::
  "subsystem \<Rightarrow> action_kind \<Rightarrow> (string, target_value) dict \<Rightarrow> readiness \<Rightarrow> plan_step" where
  "mk_step s k tv rd = \<lparr>subsystem = s, action_kind = k, target_values = tv, readiness = rd\<rparr>"

section \<open>Subsystems\<close>

text \<open>\<open>if not vpn.client\<close>: no client, or the empty name.\<close>

definition plan_vpn :: "vpn_row list \<Rightarrow> profile \<Rightarrow> plan_step list" where
  "plan_vpn configs p =
     (let v = vpn p; ready = (if vpn_kind v = Wireguard then Ready else Needs_Probe) in
      if vpn_kind v = No_Vpn then [mk_step Sub_Vpn Noop [] Skipped]
      else case client v of
        None \<Rightarrow> [mk_step Sub_Vpn Noop [] Blocker]
      | Some c \<Rightarrow>
          if c = [] then [mk_step Sub_Vpn Noop [] Blocker]
          else if vpn_kind v = Wireguard \<and> isl (vs_get configs c) then [mk_step Sub_Vpn Noop [] Blocker]
          else [mk_step Sub_Vpn Uci [(''type'', Kind (vpn_kind v)), (''client_name'', Text c)] ready,
                mk_step Sub_Vpn Service [] ready]
             @ (if kill_switch v then [mk_step Sub_Vpn Uci [(''kill_switch'', Flag True)] Ready] else []))"

definition plan_firewall :: "profile \<Rightarrow> plan_step list" where
  "plan_firewall p =
     (let fw = firewall p in
      [mk_step Sub_Firewall Uci [(''lockdown'', Flag (lockdown fw))] Ready]
      @ (if geoip_whitelist fw \<noteq> []
         then [mk_step Sub_Firewall Noop [(''whitelist'', Texts (geoip_whitelist fw))] Skipped] else [])
      @ (if block_telemetry fw then [mk_step Sub_Firewall Noop [] Skipped] else [])
      @ (if block_all_outbound fw
         then [mk_step Sub_Firewall Uci [(''deny_all_outbound'', Flag True)] Ready] else []))"

text \<open>\<^verbatim>\<open>{s.slug: s for s in list_all()}\<close>.\<close>

definition catalog_of :: "ssid_row list \<Rightarrow> (string, ssid_public) dict" where
  "catalog_of rows = foldl (\<lambda>d s. dict_set (sp_slug s) s d) [] (ws_list_all rows)"

definition plan_ssid :: "(string, ssid_public) dict \<Rightarrow> ssid_ref \<Rightarrow> plan_step" where
  "plan_ssid catalog ref =
     (case dict_get catalog (ref_slug ref) of
        None \<Rightarrow> mk_step Sub_Wifi Noop [] Blocker
      | Some s \<Rightarrow>
          mk_step Sub_Wifi Uci
            [(''slug'', Text (sp_slug s)), (''ssid_name'', Text (sp_ssid_name s)),
             (''bands'', Texts (sp_bands s)), (''mlo'', Flag (sp_mlo s)),
             (''network'', Text (network_slug ref)), (''enabled'', Flag (ref_enabled ref))] Ready)"

definition plan_wifi :: "ssid_row list \<Rightarrow> profile \<Rightarrow> plan_step list" where
  "plan_wifi rows p =
     (if ssids p = [] then [mk_step Sub_Wifi Noop [] Skipped]
      else map (plan_ssid (catalog_of rows)) (ssids p))"

definition plan_tor :: "plan_step list" where
  "plan_tor = [mk_step Sub_Tor Service [] Ready]"

definition plan_tailscale :: "profile \<Rightarrow> plan_step list" where
  "plan_tailscale p =
     (if \<not> ts_enabled (tailscale p) then [mk_step Sub_Tailscale Service [] Ready]
      else [mk_step Sub_Tailscale Service [] Ready, mk_step Sub_Tailscale Uci [] Ready])"

definition plan_logging :: "profile \<Rightarrow> plan_step list" where
  "plan_logging p =
     mk_step Sub_Logging Noop [(''level'', At_Level (level (logging p)))] Skipped
     # (if forward_to_siem (logging p) then [mk_step Sub_Logging Noop [] Skipped] else [])"

definition plan :: "vpn_row list \<Rightarrow> ssid_row list \<Rightarrow> profile \<Rightarrow> plan_step list" where
  "plan configs rows p =
     [mk_step Sub_Screen Service [] Ready, mk_step Sub_Network Uci [] Ready, mk_step Sub_Radio Uci [] Ready]
     @ plan_firewall p
     @ [mk_step Sub_Adguard Service [] Ready]
     @ plan_wifi rows p @ plan_vpn configs p @ plan_tor @ plan_tailscale p
     @ [mk_step Sub_Wallpaper Service [] Ready]
     @ plan_logging p"

definition blockers :: "plan_step list \<Rightarrow> plan_step list" where
  "blockers steps = filter (\<lambda>s. readiness s = Blocker) steps"

section \<open>Properties\<close>

lemma step_fields [simp]:
  "readiness (mk_step s k tv rd) = rd" "subsystem (mk_step s k tv rd) = s"
  "target_values (mk_step s k tv rd) = tv"
  by (simp_all add: mk_step_def)

lemma dict_get_catalog:
  "dict_get (foldl (\<lambda>d s. dict_set (sp_slug s) s d) [] xs) k = None \<longleftrightarrow> k \<notin> sp_slug ` set xs"
  by (induction xs rule: rev_induct) auto

lemma catalog_of_None: "dict_get (catalog_of rows) k = None \<longleftrightarrow> row_find sr_slug k rows = None"
  unfolding catalog_of_def dict_get_catalog row_find_None
  by (auto simp: ws_list_all_def ssid_to_public_def image_iff)

lemma blockers_parts [simp]:
  "blockers [] = []" "blockers (s # ss) = (if readiness s = Blocker then s # blockers ss else blockers ss)"
  "blockers (ss @ ts) = blockers ss @ blockers ts"
  by (simp_all add: blockers_def)

lemma blockers_firewall: "blockers (plan_firewall p) = []"
  by (simp add: plan_firewall_def Let_def)

lemma blockers_rest: "blockers plan_tor = []" "blockers (plan_tailscale p) = []" "blockers (plan_logging p) = []"
  by (simp_all add: plan_tor_def plan_tailscale_def plan_logging_def)

lemma plan_ssid_blocker:
  "readiness (plan_ssid (catalog_of rows) ref) = Blocker \<longleftrightarrow> row_find sr_slug (ref_slug ref) rows = None"
  using catalog_of_None [of rows "ref_slug ref"] by (auto simp: plan_ssid_def split: option.splits)

lemma blockers_wifi:
  "blockers (plan_wifi rows p) =
     replicate (length (filter (\<lambda>ref. row_find sr_slug (ref_slug ref) rows = None) (ssids p)))
       (mk_step Sub_Wifi Noop [] Blocker)"
proof -
  have s: "plan_ssid (catalog_of rows) ref = mk_step Sub_Wifi Noop [] Blocker"
    if "row_find sr_slug (ref_slug ref) rows = None" for ref
    using that catalog_of_None [of rows "ref_slug ref"] by (simp add: plan_ssid_def)
  have "blockers (map (plan_ssid (catalog_of rows)) refs) =
      replicate (length (filter (\<lambda>ref. row_find sr_slug (ref_slug ref) rows = None) refs))
        (mk_step Sub_Wifi Noop [] Blocker)" for refs
    by (induction refs) (use s plan_ssid_blocker in auto)
  then show ?thesis by (simp add: plan_wifi_def)
qed

lemma plan_vpn_steps: "filter (\<lambda>s. subsystem s = Sub_Vpn) (plan configs rows p) = plan_vpn configs p"
proof -
  have "filter (\<lambda>s. subsystem s = Sub_Vpn) (plan_vpn configs p) = plan_vpn configs p"
    by (auto simp: plan_vpn_def Let_def split: option.splits)
  moreover have "filter (\<lambda>s. subsystem s = Sub_Vpn) (plan_wifi rows p) = []"
    by (auto simp: plan_wifi_def plan_ssid_def filter_empty_conv split: option.splits)
  moreover have "filter (\<lambda>s. subsystem s = Sub_Vpn) (plan_firewall p) = []"
    "filter (\<lambda>s. subsystem s = Sub_Vpn) plan_tor = []"
    "filter (\<lambda>s. subsystem s = Sub_Vpn) (plan_tailscale p) = []"
    "filter (\<lambda>s. subsystem s = Sub_Vpn) (plan_logging p) = []"
    by (simp_all add: plan_firewall_def plan_tor_def plan_tailscale_def plan_logging_def Let_def)
  ultimately show ?thesis by (simp add: plan_def)
qed

definition vpn_blocked :: "vpn_row list \<Rightarrow> profile \<Rightarrow> bool" where
  "vpn_blocked configs p \<longleftrightarrow> vpn_kind (vpn p) \<noteq> No_Vpn \<and>
     (case client (vpn p) of None \<Rightarrow> True
      | Some c \<Rightarrow> c = [] \<or> (vpn_kind (vpn p) = Wireguard \<and> row_find vr_name c configs = None))"

lemma blockers_vpn:
  "blockers (plan_vpn configs p) = (if vpn_blocked configs p then [mk_step Sub_Vpn Noop [] Blocker] else [])"
  by (auto simp: plan_vpn_def vpn_blocked_def vs_get_def Let_def split: option.splits)

text \<open>
  What blocks an activation: the plan has one blocker for each network reference of the profile that
  the Wi-Fi catalogue does not hold, and one more when the profile wants a VPN but names no client, or
  a WireGuard client that is not stored; nothing else blocks, and every plan starts with the screen and
  the catalogue of networks, before any step of the firewall, the Wi-Fi or the VPN.
\<close>

theorem plan_blockers:
  "blockers (plan configs rows p) =
     replicate (length (filter (\<lambda>ref. row_find sr_slug (ref_slug ref) rows = None) (ssids p)))
       (mk_step Sub_Wifi Noop [] Blocker)
     @ (if vpn_blocked configs p then [mk_step Sub_Vpn Noop [] Blocker] else [])
   \<and> map subsystem (take 4 (plan configs rows p)) = [Sub_Screen, Sub_Network, Sub_Radio, Sub_Firewall]"
  by (simp add: plan_def blockers_firewall blockers_rest blockers_wifi blockers_vpn)
    (simp add: plan_firewall_def Let_def)

text \<open>
  A kill switch without a tunnel is not planned: the plan sets the kill switch exactly when the
  profile asks for it and its VPN is not blocked, so a profile whose VPN is off or blocked gets a plan
  with no kill switch even when it asks for one.
\<close>

theorem kill_switch_planned:
  "(\<exists>s\<in>set (plan configs rows p). subsystem s = Sub_Vpn \<and> dict_get (target_values s) ''kill_switch'' = Some (Flag True))
   \<longleftrightarrow> kill_switch (vpn p) \<and> vpn_kind (vpn p) \<noteq> No_Vpn \<and> \<not> vpn_blocked configs p"
proof -
  let ?k = "\<lambda>s. dict_get (target_values s) ''kill_switch'' = Some (Flag True)"
  have "(\<exists>s\<in>set (plan configs rows p). subsystem s = Sub_Vpn \<and> ?k s) \<longleftrightarrow> (\<exists>s\<in>set (plan_vpn configs p). ?k s)"
    using arg_cong [OF plan_vpn_steps [of configs rows p], of set] by auto
  also have "\<dots> \<longleftrightarrow> kill_switch (vpn p) \<and> vpn_kind (vpn p) \<noteq> No_Vpn \<and> \<not> vpn_blocked configs p"
    by (cases "client (vpn p)")
      (auto simp: plan_vpn_def vpn_blocked_def vs_get_def Let_def split: option.splits)
  finally show ?thesis .
qed

end
