(* ===== verification/Profile_Scoring.thy ===== *)
theory Profile_Scoring
  imports Profile_Model
begin

text \<open>
  Profile scores (\<^verbatim>\<open>backend/app/profiles/scoring.py\<close>): two sums of points with their breakdown. A
  criterion stands for the French name the code gives the item; the explanatory notes are left out.
\<close>

datatype criterion =
    Vpn_Active | Kill_Switch | Telemetry_Firewall | Geoip_Anonymity
  | Firewall_Lockdown | Vpn_And_Kill_Switch | Geoip_Security | Telemetry_Security
  | Block_Outbound | Logging_Siem | Wpa3_Everywhere | Psk_Strength | No_Open_Ssid

record score_item =
  item_name :: criterion
  points :: int
  max_points :: int

definition score_if :: "criterion \<Rightarrow> int \<Rightarrow> bool \<Rightarrow> score_item" where
  "score_if c m ok = \<lparr>item_name = c, points = (if ok then m else 0), max_points = m\<rparr>"

definition total_points :: "score_item list \<Rightarrow> int" where
  "total_points items = sum_list (map points items)"

definition score_anonymization :: "profile \<Rightarrow> int \<times> score_item list" where
  "score_anonymization p =
     (let items = [score_if Vpn_Active 25 (vpn_kind (vpn p) \<noteq> No_Vpn),
                   score_if Kill_Switch 10 (kill_switch (vpn p)),
                   score_if Telemetry_Firewall 5 (block_telemetry (firewall p)),
                   score_if Geoip_Anonymity 5 (geoip_whitelist (firewall p) \<noteq> [])]
      in (min (total_points items) 100, items))"

definition password_strength :: "string \<Rightarrow> nat" where
  "password_strength pw =
     (if length pw < 8 then 0
      else let classes = length (filter id [list_ex py_islower pw, list_ex py_isupper pw,
                                            list_ex py_isdigit pw, list_ex (\<lambda>c. \<not> py_isalnum c) pw])
        in if 16 \<le> length pw \<and> 3 \<le> classes then 3
           else if 12 \<le> length pw \<and> 2 \<le> classes then 2
           else 1)"

definition score_wifi_strength ::
  "profile \<Rightarrow> (string, wifi_security \<times> string) dict \<Rightarrow> score_item list" where
  "score_wifi_strength p wifi_secrets =
     (let enabled_slugs = map ref_slug (filter ref_enabled (ssids p)) in
      if enabled_slugs = [] then
        [score_if Wpa3_Everywhere 5 False, score_if Psk_Strength 5 False, score_if No_Open_Ssid 3 False]
      else
        let secrets = List.map_filter (dict_get wifi_secrets) enabled_slugs;
            securities = map fst secrets; passwords = map snd secrets
        in [score_if Wpa3_Everywhere 5
              (securities \<noteq> [] \<and> list_all (\<lambda>s. starts_with ''WPA3'' (security_str s)) securities),
            score_if Psk_Strength 5 (passwords \<noteq> [] \<and> list_all (\<lambda>pw. 2 \<le> password_strength pw) passwords),
            score_if No_Open_Ssid 3 (securities \<noteq> [] \<and> \<not> list_ex (\<lambda>s. s = Open_Net) securities)])"

definition score_security ::
  "profile \<Rightarrow> (string, wifi_security \<times> string) dict option \<Rightarrow> int \<times> score_item list" where
  "score_security p wifi_secrets =
     (let fw = firewall p;
          items = [score_if Firewall_Lockdown 20 (lockdown fw),
                   score_if Vpn_And_Kill_Switch 15 (vpn_kind (vpn p) \<noteq> No_Vpn \<and> kill_switch (vpn p)),
                   score_if Geoip_Security 10 (geoip_whitelist fw \<noteq> []),
                   score_if Telemetry_Security 5 (block_telemetry fw),
                   score_if Block_Outbound 20 (block_all_outbound fw),
                   score_if Logging_Siem 10
                     (forward_to_siem (logging p) \<and> level (logging p) \<in> {Debug, Info})]
            @ (case wifi_secrets of None \<Rightarrow> [] | Some ws \<Rightarrow> score_wifi_strength p ws)
      in (min (total_points items) 100, items))"

record profile_scores =
  anonymization :: int
  security_score :: int
  breakdown_anonymization :: "score_item list"
  breakdown_security :: "score_item list"

definition compute_scores ::
  "profile \<Rightarrow> (string, wifi_security \<times> string) dict option \<Rightarrow> profile_scores" where
  "compute_scores p wifi_secrets =
     (case score_anonymization p of (an, ai) \<Rightarrow> case score_security p wifi_secrets of (sc, si) \<Rightarrow>
        \<lparr>anonymization = an, security_score = sc,
         breakdown_anonymization = ai, breakdown_security = si\<rparr>)"

section \<open>Properties\<close>

definition item_ok :: "score_item \<Rightarrow> bool" where
  "item_ok i \<longleftrightarrow> 0 \<le> points i \<and> points i \<le> max_points i"

lemma score_if_simps [simp]:
  "points (score_if c m ok) = (if ok then m else 0)" "max_points (score_if c m ok) = m"
  "item_ok (score_if c m ok) \<longleftrightarrow> 0 \<le> m" "total_points [] = 0"
  "total_points (i # is) = points i + total_points is"
  "total_points (is @ js) = total_points is + total_points js"
  by (simp_all add: score_if_def item_ok_def total_points_def)

definition total_max :: "score_item list \<Rightarrow> int" where
  "total_max items = sum_list (map max_points items)"

lemma total_max_simps [simp]:
  "total_max [] = 0" "total_max (i # is) = max_points i + total_max is"
  "total_max (is @ js) = total_max is + total_max js"
  by (simp_all add: total_max_def)

lemma total_points_bounds:
  "list_all item_ok items \<Longrightarrow> 0 \<le> total_points items \<and> total_points items \<le> total_max items"
  by (induction items) (auto simp: item_ok_def)

lemma anonymization_items:
  "list_all item_ok (snd (score_anonymization p))" "total_max (snd (score_anonymization p)) = 45"
  "fst (score_anonymization p) = min (total_points (snd (score_anonymization p))) 100"
  by (simp_all add: score_anonymization_def Let_def del: score_if_simps(1))

lemma wifi_items:
  "list_all item_ok (score_wifi_strength p ws)" "total_max (score_wifi_strength p ws) = 13"
  by (simp_all add: score_wifi_strength_def Let_def del: score_if_simps(1))

lemma security_items:
  "list_all item_ok (snd (score_security p ws))"
  "total_max (snd (score_security p ws)) = (if ws = None then 80 else 93)"
  "fst (score_security p ws) = min (total_points (snd (score_security p ws))) 100"
  by (cases ws; simp add: score_security_def Let_def wifi_items del: score_if_simps(1))+

lemma compute_scores_parts:
  "anonymization (compute_scores p ws) = fst (score_anonymization p)"
  "security_score (compute_scores p ws) = fst (score_security p ws)"
  "breakdown_anonymization (compute_scores p ws) = snd (score_anonymization p)"
  "breakdown_security (compute_scores p ws) = snd (score_security p ws)"
  by (simp_all add: compute_scores_def case_prod_beta)

text \<open>
  What the scores can be. The code and its doc speak of percentages, but the points run out earlier:
  no profile scores more than 45 in anonymization, nor more than 93 in security (80 when the Wi-Fi
  secrets are not supplied); the cap at 100 never applies, each score is the sum of the points in its
  breakdown, and no item of a breakdown is negative or above its own maximum.
\<close>

theorem scores_bounded:
  "0 \<le> anonymization (compute_scores p ws) \<and> anonymization (compute_scores p ws) \<le> 45
   \<and> 0 \<le> security_score (compute_scores p ws)
   \<and> security_score (compute_scores p ws) \<le> (if ws = None then 80 else 93)
   \<and> anonymization (compute_scores p ws) = total_points (breakdown_anonymization (compute_scores p ws))
   \<and> security_score (compute_scores p ws) = total_points (breakdown_security (compute_scores p ws))
   \<and> list_all item_ok (breakdown_anonymization (compute_scores p ws) @ breakdown_security (compute_scores p ws))"
proof -
  have "0 \<le> total_points (snd (score_anonymization p))" "total_points (snd (score_anonymization p)) \<le> 45"
    "0 \<le> total_points (snd (score_security p ws))"
    "total_points (snd (score_security p ws)) \<le> (if ws = None then 80 else 93)"
    using total_points_bounds [OF anonymization_items(1) [of p]] anonymization_items(2) [of p]
      total_points_bounds [OF security_items(1) [of p ws]] security_items(2) [of p ws] by simp_all
  then show ?thesis
    unfolding compute_scores_parts list_all_append anonymization_items(3) security_items(3)
    using anonymization_items(1) security_items(1) by (cases ws) simp_all
qed

text \<open>Both maxima are reached.\<close>

definition paranoid_profile :: profile where
  "paranoid_profile = (default_profile ''paranoid'')
     \<lparr>vpn := \<lparr>vpn_kind = Wireguard, client = Some ''ch-1'', kill_switch = True\<rparr>,
      ssids := [\<lparr>ref_slug = ''home'', ref_enabled = True, network_slug = ''lan''\<rparr>],
      firewall := \<lparr>lockdown = True, geoip_whitelist = [''CH''], block_telemetry = True,
                   block_all_outbound = True\<rparr>,
      logging := \<lparr>level = Info, forward_to_siem = True\<rparr>\<rparr>"

lemma paranoid_scores:
  "anonymization (compute_scores paranoid_profile (Some [(''home'', (WPA3_SAE, ''correct-Horse7''))])) = 45"
  "security_score (compute_scores paranoid_profile (Some [(''home'', (WPA3_SAE, ''correct-Horse7''))])) = 93"
  by code_simp+

text \<open>The posture of a profile: what each criterion looks at.\<close>

definition at_least_as_strict :: "profile \<Rightarrow> profile \<Rightarrow> bool" where
  "at_least_as_strict p q \<longleftrightarrow>
     (vpn_kind (vpn p) \<noteq> No_Vpn \<longrightarrow> vpn_kind (vpn q) \<noteq> No_Vpn)
     \<and> (kill_switch (vpn p) \<longrightarrow> kill_switch (vpn q))
     \<and> (lockdown (firewall p) \<longrightarrow> lockdown (firewall q))
     \<and> (geoip_whitelist (firewall p) \<noteq> [] \<longrightarrow> geoip_whitelist (firewall q) \<noteq> [])
     \<and> (block_telemetry (firewall p) \<longrightarrow> block_telemetry (firewall q))
     \<and> (block_all_outbound (firewall p) \<longrightarrow> block_all_outbound (firewall q))
     \<and> (forward_to_siem (logging p) \<and> level (logging p) \<in> {Debug, Info} \<longrightarrow>
          forward_to_siem (logging q) \<and> level (logging q) \<in> {Debug, Info})
     \<and> ssids p = ssids q"

lemma wifi_same_ssids: "ssids p = ssids q \<Longrightarrow> score_wifi_strength p ws = score_wifi_strength q ws"
  by (simp add: score_wifi_strength_def)

lemma score_if_mono: "(a \<longrightarrow> b) \<Longrightarrow> 0 \<le> m \<Longrightarrow> points (score_if c m a) \<le> points (score_if c m b)"
  by simp

text \<open>
  Turning a protection on never lowers a score: if every criterion outside the Wi-Fi list that holds
  of a profile holds of another one with the same Wi-Fi list, the other scores at least as much in both
  scores.
\<close>

theorem scores_monotone:
  assumes "at_least_as_strict p q"
  shows "anonymization (compute_scores p ws) \<le> anonymization (compute_scores q ws)
    \<and> security_score (compute_scores p ws) \<le> security_score (compute_scores q ws)"
proof -
  let ?w = "\<lambda>p. case ws of None \<Rightarrow> [] | Some ws \<Rightarrow> score_wifi_strength p ws"
  note facts = assms [unfolded at_least_as_strict_def]
  have w: "?w p = ?w q"
    using facts wifi_same_ssids [of p q] by (simp split: option.splits)
  have "total_points (snd (score_anonymization p)) \<le> total_points (snd (score_anonymization q))"
    using facts
    by (simp add: score_anonymization_def Let_def del: score_if_simps(1))
      (intro add_mono score_if_mono; simp)
  moreover have "total_points (snd (score_security p ws)) \<le> total_points (snd (score_security q ws))"
    unfolding score_security_def Let_def snd_conv w score_if_simps(5,6) score_if_simps(4)
    by (intro add_mono score_if_mono order_refl) (use facts in auto)
  ultimately show ?thesis
    unfolding compute_scores_parts anonymization_items(3) security_items(3)
    by (simp add: min.coboundedI1 min_le_iff_disj)
qed

lemma scores_monotone_witness:
  "security_score (compute_scores (default_profile ''x'') None)
     \<le> security_score (compute_scores (paranoid_profile\<lparr>ssids := []\<rparr>) None)"
proof -
  have "at_least_as_strict (default_profile ''x'') (paranoid_profile\<lparr>ssids := []\<rparr>)"
    by (simp add: at_least_as_strict_def default_profile_def paranoid_profile_def)
  from scores_monotone [OF this, of None] show ?thesis by (rule conjunct2)
qed

end
