(* ===== verification/Url_Resolver.thy ===== *)
theory Url_Resolver
  imports Prelude
begin

text \<open>
  Choice of the address a device is reached at (\<^verbatim>\<open>backend/app/slate/url_resolver.py\<close>). The candidates
  are in order of preference; a probe tries all of them and the first that answers becomes the active
  one. Instants are microseconds of the monotonic clock; whether a host answers at a probe is the input
  \<open>reach\<close>. Latencies are not modelled.
\<close>

section \<open>State\<close>

record probe_result =
  pr_url :: string
  pr_host :: string
  reachable :: bool
  last_probed_at :: instant

record resolver =
  urls :: "string list"
  active_url :: string
  last_probe_at :: instant
  cache_ttl :: int
  last_results :: "probe_result list"

datatype resolver_error = No_Url | Index_Error

text \<open>
  \<^verbatim>\<open>raw.split("://", 1)[1]\<close>, trailing slashes dropped, and the port cut off unless the host is in brackets.
\<close>

definition extract_host :: "string \<Rightarrow> string" where
  "extract_host url =
     (let raw0 = py_strip url;
          raw1 = (case split_first ''://'' raw0 of None \<Rightarrow> raw0 | Some (_, r) \<Rightarrow> r);
          raw = rstrip_by (\<lambda>c. c = CHR ''/'') raw1
      in if CHR '':'' \<in> set raw \<and> \<not> starts_with ''['' raw then fst (py_partition (CHR '':'') raw) else raw)"

definition normal_url :: "string \<Rightarrow> string" where
  "normal_url u = rstrip_by (\<lambda>c. c = CHR ''/'') (py_strip u)"

fun dedup_urls :: "string list \<Rightarrow> string list \<Rightarrow> string list" where
  "dedup_urls seen [] = []"
| "dedup_urls seen (u # us) =
     (let n = normal_url u in
      if n \<noteq> [] \<and> n \<notin> set seen then n # dedup_urls (n # seen) us else dedup_urls seen us)"

section \<open>Operations\<close>

text \<open>The constructor; a list of blank addresses passes its guard and fails at \<^verbatim>\<open>self._urls[0]\<close>.\<close>

definition make_resolver :: "string list \<Rightarrow> int \<Rightarrow> resolver_error + resolver" where
  "make_resolver us ttl =
     (if us = [] then Inl No_Url
      else case dedup_urls [] us of
        [] \<Rightarrow> Inl Index_Error
      | v # vs \<Rightarrow> Inr \<lparr>urls = v # vs, active_url = v, last_probe_at = 0, cache_ttl = ttl, last_results = []\<rparr>)"

text \<open>The list is assigned before the active address is looked up in it, so an error leaves it assigned.\<close>

definition set_urls :: "string list \<Rightarrow> resolver \<Rightarrow> resolver_error option \<times> resolver" where
  "set_urls us s =
     (if us = [] then (Some No_Url, s)
      else let new_list = dedup_urls [] us; s1 = s\<lparr>urls := new_list\<rparr> in
        if active_url s \<in> set new_list then (None, s1\<lparr>last_probe_at := 0\<rparr>)
        else case new_list of
          [] \<Rightarrow> (Some Index_Error, s1)
        | v # vs \<Rightarrow> (None, s1\<lparr>active_url := v, last_probe_at := 0\<rparr>))"

definition mark_failed :: "resolver \<Rightarrow> resolver" where
  "mark_failed s = s\<lparr>last_probe_at := 0\<rparr>"

definition probe :: "(string \<Rightarrow> bool) \<Rightarrow> instant \<Rightarrow> string \<Rightarrow> probe_result" where
  "probe reach done_at url =
     \<lparr>pr_url = url, pr_host = extract_host url, reachable = reach (extract_host url),
      last_probed_at = done_at\<rparr>"

definition probe_all :: "(string \<Rightarrow> bool) \<Rightarrow> instant \<Rightarrow> resolver \<Rightarrow> resolver" where
  "probe_all reach done_at s =
     (let results = map (probe reach done_at) (urls s)
      in s\<lparr>last_results := results, last_probe_at := done_at,
           active_url := (case find reachable results of Some r \<Rightarrow> pr_url r | None \<Rightarrow> active_url s)\<rparr>)"

definition cache_fresh :: "instant \<Rightarrow> resolver \<Rightarrow> bool" where
  "cache_fresh now s \<longleftrightarrow> now - last_probe_at s < cache_ttl s"

text \<open>
  \<open>active\<close> reads the clock once, may then wait for the lock (\<open>wait\<close> is what others do meanwhile), and
  looks at the cache again before it probes.
\<close>

definition active ::
  "instant \<Rightarrow> (resolver \<Rightarrow> resolver) \<Rightarrow> (string \<Rightarrow> bool) \<Rightarrow> instant \<Rightarrow> resolver \<Rightarrow> string \<times> resolver" where
  "active now wait reach done_at s =
     (if cache_fresh now s then (active_url s, s)
      else let s1 = wait s in
        if cache_fresh now s1 then (active_url s1, s1)
        else let s2 = probe_all reach done_at s1 in (active_url s2, s2))"

definition force_refresh ::
  "(string \<Rightarrow> bool) \<Rightarrow> instant \<Rightarrow> resolver \<Rightarrow> probe_result list \<times> resolver" where
  "force_refresh reach done_at s = (let s1 = probe_all reach done_at s in (last_results s1, s1))"

section \<open>Invariant\<close>

lemma set_dedup_urls: "set (dedup_urls seen us) = (normal_url ` set us - {[]}) - set seen"
  by (induction seen us rule: dedup_urls.induct) (auto simp: Let_def)

lemma distinct_dedup_urls: "distinct (dedup_urls seen us)"
  by (induction seen us rule: dedup_urls.induct) (auto simp: Let_def set_dedup_urls)

definition resolver_ok :: "resolver \<Rightarrow> bool" where
  "resolver_ok s \<longleftrightarrow> distinct (urls s) \<and> [] \<notin> set (urls s) \<and> (urls s \<noteq> [] \<longrightarrow> active_url s \<in> set (urls s))"

lemma find_probe:
  "find reachable (map (probe reach t) us) = map_option (probe reach t) (find (\<lambda>u. reach (extract_host u)) us)"
  by (induction us) (simp_all add: probe_def)

lemma active_url_probe_all:
  "active_url (probe_all reach t s) =
     (case find (\<lambda>u. reach (extract_host u)) (urls s) of Some u \<Rightarrow> u | None \<Rightarrow> active_url s)"
  by (simp add: probe_all_def Let_def find_probe probe_def split: option.splits)

lemma resolver_ok_probe [inv_intros]:
  assumes "resolver_ok s"
  shows "resolver_ok (probe_all reach t s)"
proof -
  have u: "urls (probe_all reach t s) = urls s" by (simp add: probe_all_def Let_def)
  have "active_url (probe_all reach t s) \<in> set (urls s)" if "urls s \<noteq> []"
  proof (cases "find (\<lambda>u. reach (extract_host u)) (urls s)")
    case None
    then show ?thesis using assms that by (simp add: active_url_probe_all resolver_ok_def)
  next
    case (Some v)
    then have "v \<in> set (urls s)" by (auto simp: find_Some_iff)
    with Some show ?thesis by (simp add: active_url_probe_all)
  qed
  then show ?thesis using assms by (simp add: resolver_ok_def u)
qed

lemma resolver_ok_mark [inv_intros]: "resolver_ok s \<Longrightarrow> resolver_ok (mark_failed s)"
  by (simp add: resolver_ok_def mark_failed_def)

lemma resolver_ok_set [inv_intros]:
  assumes "resolver_ok s"
  shows "resolver_ok (snd (set_urls us s))"
proof -
  have d: "distinct (dedup_urls [] us)" by (rule distinct_dedup_urls)
  have b: "[] \<notin> set (dedup_urls [] us)" by (simp add: set_dedup_urls)
  show ?thesis
  proof (cases "us = [] \<or> active_url s \<in> set (dedup_urls [] us)")
    case True
    then show ?thesis using assms d b by (auto simp: set_urls_def resolver_ok_def Let_def)
  next
    case False
    then show ?thesis using d b by (cases "dedup_urls [] us") (simp_all add: set_urls_def resolver_ok_def)
  qed
qed

lemma resolver_ok_active:
  assumes "resolver_ok s" "resolver_ok (wait s)"
  shows "resolver_ok (snd (active now wait reach t s))"
  using assms by (simp add: active_def Let_def resolver_ok_probe)

lemma resolver_ok_make:
  assumes "make_resolver us ttl = Inr s"
  shows "resolver_ok s"
proof -
  have "[] \<notin> set (dedup_urls [] us)" by (simp add: set_dedup_urls)
  moreover from assms have "urls s = dedup_urls [] us" "active_url s \<in> set (urls s)"
    by (auto simp: make_resolver_def split: if_splits list.splits)
  ultimately show ?thesis using distinct_dedup_urls [of "[]" us] by (simp add: resolver_ok_def)
qed

text \<open>The states of a resolver, the operations in any order and \<open>active\<close> waiting for any of them.\<close>

inductive resolver_reach :: "resolver \<Rightarrow> bool" where
  reach_make: "make_resolver us ttl = Inr s \<Longrightarrow> resolver_reach s"
| reach_set: "resolver_reach s \<Longrightarrow> resolver_reach (snd (set_urls us s))"
| reach_mark: "resolver_reach s \<Longrightarrow> resolver_reach (mark_failed s)"
| reach_refresh: "resolver_reach s \<Longrightarrow> resolver_reach (snd (force_refresh reach t s))"
| reach_active: "resolver_reach s \<Longrightarrow> resolver_reach (wait s) \<Longrightarrow>
    resolver_reach (snd (active now wait reach t s))"

lemma resolver_reach_ok: "resolver_reach s \<Longrightarrow> resolver_ok s"
proof (induction rule: resolver_reach.induct)
  case (reach_make us ttl s)
  then show ?case by (rule resolver_ok_make)
next
  case (reach_active s wait now reach t)
  then show ?case by (intro resolver_ok_active)
qed (simp_all add: force_refresh_def Let_def resolver_ok_set resolver_ok_mark resolver_ok_probe)

section \<open>Properties\<close>

text \<open>
  C21. Failover follows the preference order: in any state the resolver can reach, after a failed
  connection was reported and once the clock is past the cache time, \<open>active\<close> answers the first candidate
  whose host accepts a connection; when none does it keeps the address it had, which is still one of
  the candidates; and until the cache expires later calls answer the same without probing.
\<close>

theorem failover_in_preference_order:
  assumes "resolver_reach s" "urls s \<noteq> []" "cache_ttl s \<le> now"
    and "active now id reach t (mark_failed s) = (u, s')"
    and "now' - t < cache_ttl s"
  shows "u = (case find (\<lambda>v. reach (extract_host v)) (urls s) of Some v \<Rightarrow> v | None \<Rightarrow> active_url s)
    \<and> u \<in> set (urls s) \<and> active now' wait reach' t' s' = (u, s')"
proof -
  let ?s = "probe_all reach t (mark_failed s)"
  have "\<not> cache_fresh now (mark_failed s)" using assms(3) by (simp add: cache_fresh_def mark_failed_def)
  then have us: "u = active_url ?s" "s' = ?s"
    using assms(4) by (auto simp: active_def Let_def)
  have ok: "resolver_ok ?s" using resolver_reach_ok [OF assms(1)] by (intro inv_intros)
  have "urls ?s = urls s" by (simp add: probe_all_def Let_def mark_failed_def)
  then have "u \<in> set (urls s)" using ok us assms(2) by (simp add: resolver_ok_def)
  moreover have "cache_fresh now' s'"
    using assms(5) us by (simp add: cache_fresh_def probe_all_def Let_def mark_failed_def)
  moreover have "active_url ?s = (case find (\<lambda>v. reach (extract_host v)) (urls s) of Some v \<Rightarrow> v | None \<Rightarrow> active_url s)"
    unfolding active_url_probe_all by (simp add: mark_failed_def cong: option.case_cong)
  ultimately show ?thesis using us by (simp add: active_def)
qed

definition sample_resolver :: resolver where
  "sample_resolver = projr (make_resolver [''https://192.168.8.1/'', '' https://100.64.0.7:443''] 10000000)"

lemma failover_in_preference_order_witness:
  "fst (active 20000000 id (\<lambda>h. h = ''100.64.0.7'') 20000001 (mark_failed sample_resolver)) = ''https://100.64.0.7:443''"
proof -
  let ?r = "\<lambda>h. h = ''100.64.0.7''"
  let ?a = "active 20000000 id ?r 20000001 (mark_failed sample_resolver)"
  have m: "make_resolver [''https://192.168.8.1/'', '' https://100.64.0.7:443''] 10000000 = Inr sample_resolver"
    "urls sample_resolver = [''https://192.168.8.1'', ''https://100.64.0.7:443'']" "cache_ttl sample_resolver = 10000000"
    by code_simp+
  have "find (\<lambda>v. ?r (extract_host v)) (urls sample_resolver) = Some ''https://100.64.0.7:443''"
    by code_simp
  then show ?thesis
    using failover_in_preference_order [OF reach_make [OF m(1)], of 20000000 ?r 20000001 "fst ?a" "snd ?a" 20000002]
      m by simp
qed

text \<open>
  A blank list of addresses wedges the resolver: it passes the emptiness check, the list of
  candidates is emptied before the error is raised, and from then on every probe keeps the old address
  and answers that nothing was tried.
\<close>

theorem blank_urls_wedge:
  assumes "us \<noteq> []" "\<forall>u\<in>set us. normal_url u = []"
  shows "fst (set_urls us s) = Some Index_Error
    \<and> force_refresh reach t (snd (set_urls us s)) =
        ([], (snd (set_urls us s))\<lparr>last_results := [], last_probe_at := t\<rparr>)
    \<and> active_url (snd (force_refresh reach t (snd (set_urls us s)))) = active_url s"
proof -
  have "set (dedup_urls [] us) = {}" unfolding set_dedup_urls using assms(2) by auto
  then have "dedup_urls [] us = []" by simp
  then show ?thesis
    using assms(1) by (simp add: set_urls_def Let_def force_refresh_def probe_all_def)
qed

lemma blank_urls_wedge_witness:
  "fst (set_urls [''  '', ''/''] sample_resolver) = Some Index_Error"
proof -
  have "\<forall>u\<in>set [''  '', ''/'']. normal_url u = []" by code_simp
  then show ?thesis using blank_urls_wedge [of "[''  '', ''/'']" sample_resolver] by blast
qed

end
