(* ===== verification/Fw_Rules.thy ===== *)
theory Fw_Rules
  imports Prelude
begin

text \<open>
  Names of the firewall rules the controller writes (\<^verbatim>\<open>backend/app/firewall/rule_names.py\<close>) and the rules
  that stop clients from bypassing the local resolver (\<^verbatim>\<open>backend/app/firewall/dns_anti_bypass.py\<close>). SSH is
  a parameter; what the device's \<^verbatim>\<open>uci\<close> makes of the two scripts is written out as a function on the
  firewall configuration.
\<close>

section \<open>Names\<close>

definition UCI_MAX_SECTION_ID :: nat where "UCI_MAX_SECTION_ID = 32"
definition PREFIX :: string where "PREFIX = ''SC_FR_''"

definition scrub :: "string \<Rightarrow> string" where
  "scrub s =
     (let out = strip_by (\<lambda>c. c = CHR ''_'')
            (map (\<lambda>ch. if py_isalnum ch \<or> ch = CHR ''_'' then ch else CHR ''_'') (py_upper (py_strip s)))
      in if out = [] then ''X'' else out)"

text \<open>The name, or the name that is too long.\<close>

definition make_name :: "string \<Rightarrow> string \<Rightarrow> string + string" where
  "make_name intent detail =
     (let name = PREFIX @ scrub intent @ ''_'' @ scrub detail
      in if UCI_MAX_SECTION_ID < length name then Inl name else Inr name)"

definition is_managed_rule :: "string \<Rightarrow> bool" where
  "is_managed_rule section_id = starts_with PREFIX section_id"

definition LEGACY_NAMES :: "(string, string) dict" where
  "LEGACY_NAMES = [(''slate_ctrl_block_dot_lan'', ''SC_FR_AB_DOT853_LAN'')]"

definition name_char :: "char \<Rightarrow> bool" where
  "name_char c \<longleftrightarrow> py_isupper c \<or> py_isdigit c \<or> c = CHR ''_''"

lemma name_char_upper: "py_isalnum (char_upper c) \<Longrightarrow> name_char (char_upper c)"
  using char_upper_not_lower [of c] by (auto simp: name_char_def py_isalnum_def)

lemma scrub_chars: "list_all name_char (scrub s) \<and> scrub s \<noteq> []"
proof -
  let ?m = "map (\<lambda>ch. if py_isalnum ch \<or> ch = CHR ''_'' then ch else CHR ''_'') (py_upper (py_strip s))"
  have "\<forall>c\<in>set ?m. name_char c"
    using name_char_upper by (auto simp: py_upper_def) (simp_all add: name_char_def)
  then have "\<forall>c\<in>set (strip_by (\<lambda>c. c = CHR ''_'') ?m). name_char c"
    using set_strip_by [of "\<lambda>c. c = CHR ''_''" ?m] by blast
  moreover have "name_char (CHR ''X'')" by code_simp
  ultimately show ?thesis by (simp add: scrub_def Let_def list_all_iff)
qed

text \<open>
  A rule name is a valid UCI section id: when the code builds a name, it is at most 32 characters
  long, holds only capitals, digits and underscores, and is recognised as one of the controller's rules;
  it refuses exactly when the scrubbed parts take more than 25 characters together.
\<close>

theorem make_name_valid:
  "(case make_name intent detail of
      Inr name \<Rightarrow> length name \<le> 32 \<and> list_all name_char name \<and> is_managed_rule name
        \<and> length (scrub intent) + length (scrub detail) \<le> 25
    | Inl name \<Rightarrow> 25 < length (scrub intent) + length (scrub detail))"
proof -
  have "list_all name_char PREFIX" "name_char (CHR ''_'')" "length PREFIX = 6" by code_simp+
  then show ?thesis
    using scrub_chars [of intent] scrub_chars [of detail]
    by (simp add: make_name_def Let_def UCI_MAX_SECTION_ID_def is_managed_rule_def)
qed

section \<open>Anti-bypass\<close>

definition CUSTOM_RULE_NAME :: string where "CUSTOM_RULE_NAME = ''SC_FR_AB_DOT853_LAN''"

definition LEGACY_CUSTOM_RULE_NAMES :: "string list" where
  "LEGACY_CUSTOM_RULE_NAMES = map fst (filter (\<lambda>(old, new). new = CUSTOM_RULE_NAME) LEGACY_NAMES)"

lemma custom_rule_name: "make_name ''AB'' ''DOT853_LAN'' = Inr CUSTOM_RULE_NAME"
  by code_simp

definition GL_LEAKED_RULES :: "string list" where
  "GL_LEAKED_RULES =
     [''lan_drop_leaked_dns'', ''lan_drop_leak_adgdns'', ''guest_drop_leaked_dns'', ''guest_drop_leak_adgdns'',
      ''wgserver_drop_leaked_dns'', ''wgserver_drop_leaked_adgdns'', ''ovpnserver_drop_leaked_dns'',
      ''ovpnserver_drop_leaked_adgdns'']"

record bypass_status =
  custom_block_dot_active :: bool
  gl_rules_enabled :: "(string, bool option) dict"

definition all_active :: "bypass_status \<Rightarrow> bool" where
  "all_active st \<longleftrightarrow> custom_block_dot_active st
     \<and> list_all (\<lambda>v. v = Some True) (filter (\<lambda>v. v \<noteq> None) (map snd (gl_rules_enabled st)))"

definition any_active :: "bypass_status \<Rightarrow> bool" where
  "any_active st \<longleftrightarrow> custom_block_dot_active st \<or> list_ex (\<lambda>v. v = Some True) (map snd (gl_rules_enabled st))"

text \<open>One line of \<^verbatim>\<open>uci show\<close>; a value between single quotes loses them (a lone quote is both ends of itself).\<close>

definition uci_unquote :: "string \<Rightarrow> string" where
  "uci_unquote v = (if starts_with [squote] v \<and> ends_with [squote] v then butlast (tl v) else v)"

definition uci_show_line :: "(string, string) dict \<Rightarrow> string \<Rightarrow> (string, string) dict" where
  "uci_show_line d line =
     (if CHR ''='' \<notin> set line then d
      else let (key, value) = py_partition (CHR ''='') line in dict_set (py_strip key) (uci_unquote value) d)"

definition parse_uci_show :: "string \<Rightarrow> (string, string) dict" where
  "parse_uci_show out = foldl uci_show_line [] (py_splitlines out)"

definition uci_truthy :: "string \<Rightarrow> bool" where
  "uci_truthy v \<longleftrightarrow> v \<in> {''1'', ''yes'', ''true'', ''on''}"

definition rule_key :: "string \<Rightarrow> string" where "rule_key r = ''firewall.'' @ r"

definition status_of :: "(string, string) dict \<Rightarrow> bypass_status" where
  "status_of fw =
     (let key = rule_key CUSTOM_RULE_NAME; ex = dict_get fw key \<noteq> None in
      \<lparr>custom_block_dot_active =
         (ex \<and> uci_truthy (dict_get_or fw (key @ ''.enabled'') (if ex then ''1'' else ''0''))),
       gl_rules_enabled = map (\<lambda>slug. (slug,
         if dict_get fw (rule_key slug) = None then None
         else Some (uci_truthy (dict_get_or fw (rule_key slug @ ''.enabled'') ''1'')))) GL_LEAKED_RULES\<rparr>)"

datatype bypass_error = Ssh_Failed string | Not_Ok string string

type_synonym 'd uci_shell = "'d \<Rightarrow> string \<Rightarrow> 'd \<times> (string + (string \<times> string))"

definition show_cmd :: string where "show_cmd = ''uci show firewall 2>/dev/null''"

definition bypass_get_status :: "'d uci_shell \<Rightarrow> 'd \<Rightarrow> 'd \<times> (bypass_error + bypass_status)" where
  "bypass_get_status run d =
     (case run d show_cmd of
        (d1, Inl e) \<Rightarrow> (d1, Inl (Ssh_Failed e))
      | (d1, Inr (out, err)) \<Rightarrow> (d1, Inr (status_of (parse_uci_show out))))"

definition nl :: string where "nl = [CHR 0x0A]"

definition enable_gl :: "string \<Rightarrow> string \<Rightarrow> string" where
  "enable_gl v slug =
     ''uci -q get firewall.'' @ slug @ '' >/dev/null 2>&1 && uci set firewall.'' @ slug @ ''.enabled=''
     @ [squote] @ v @ [squote]"

definition commit_and_reload :: string where
  "commit_and_reload = ''uci commit firewall && /etc/init.d/firewall reload >/dev/null 2>&1 && echo OK''"

definition set_custom :: "string \<Rightarrow> string \<Rightarrow> string" where
  "set_custom opt v =
     ''    uci set firewall.'' @ CUSTOM_RULE_NAME @ ''.'' @ opt @ ''='' @ [squote] @ v @ [squote] @ nl"

definition CUSTOM_OPTIONS :: "(string \<times> string) list" where
  "CUSTOM_OPTIONS =
     [(''name'', CUSTOM_RULE_NAME), (''src'', ''lan''), (''dest'', ''wan''), (''proto'', ''tcp''),
      (''dest_port'', ''853''), (''target'', ''REJECT''), (''enabled'', ''1'')]"

definition legacy_purge :: string where
  "legacy_purge =
     (let p = py_join '' ; '' (map (\<lambda>old. ''uci -q delete firewall.'' @ old @ '' 2>/dev/null'') LEGACY_CUSTOM_RULE_NAMES)
      in if p = [] then ''true'' else p)"

definition enable_script :: string where
  "enable_script =
     nl @ ''    '' @ legacy_purge @ nl
     @ ''    if ! uci -q get firewall.'' @ CUSTOM_RULE_NAME @ '' >/dev/null 2>&1; then'' @ nl
     @ ''      uci set firewall.'' @ CUSTOM_RULE_NAME @ ''=rule'' @ nl
     @ ''    fi'' @ nl
     @ concat (map (\<lambda>(opt, v). set_custom opt v) CUSTOM_OPTIONS) @ ''    '' @ nl
     @ py_join '' ; '' (map (enable_gl ''1'') GL_LEAKED_RULES) @ nl
     @ commit_and_reload"

definition disable_script :: string where
  "disable_script =
     ''uci -q delete firewall.'' @ CUSTOM_RULE_NAME @ '' 2>/dev/null ; ''
     @ py_join '' ; '' (map (enable_gl ''0'') GL_LEAKED_RULES) @ '' ; '' @ commit_and_reload"

definition run_script :: "'d uci_shell \<Rightarrow> 'd \<Rightarrow> string \<Rightarrow> 'd \<times> (bypass_error + bypass_status)" where
  "run_script run d script =
     (case run d script of
        (d1, Inl e) \<Rightarrow> (d1, Inl (Ssh_Failed e))
      | (d1, Inr (out, err)) \<Rightarrow>
          if \<not> py_contains ''OK'' out then (d1, Inl (Not_Ok out err)) else bypass_get_status run d1)"

definition bypass_enable :: "'d uci_shell \<Rightarrow> 'd \<Rightarrow> 'd \<times> (bypass_error + bypass_status)" where
  "bypass_enable run d = run_script run d enable_script"

definition bypass_disable :: "'d uci_shell \<Rightarrow> 'd \<Rightarrow> 'd \<times> (bypass_error + bypass_status)" where
  "bypass_disable run d = run_script run d disable_script"

section \<open>What the scripts do to the configuration\<close>

text \<open>
  The configuration as the flat map \<^verbatim>\<open>uci show\<close> prints. The scripts' effect: the legacy rule and its
  options are deleted, the custom rule is created unless it exists and its options set, and every
  listed rule that exists is switched.
\<close>

definition in_section :: "string \<Rightarrow> string \<Rightarrow> bool" where
  "in_section sec key \<longleftrightarrow> key = rule_key sec \<or> starts_with (rule_key sec @ ''.'') key"

definition delete_section :: "string \<Rightarrow> (string, string) dict \<Rightarrow> (string, string) dict" where
  "delete_section sec fw = filter (\<lambda>(k, _). \<not> in_section sec k) fw"

definition switch_gl :: "string \<Rightarrow> (string, string) dict \<Rightarrow> string \<Rightarrow> (string, string) dict" where
  "switch_gl v fw slug =
     (if dict_get fw (rule_key slug) = None then fw else dict_set (rule_key slug @ ''.enabled'') v fw)"

definition after_enable :: "(string, string) dict \<Rightarrow> (string, string) dict" where
  "after_enable fw =
     (let fw1 = foldl (\<lambda>f old. delete_section old f) fw LEGACY_CUSTOM_RULE_NAMES;
          fw2 = dict_setdefault (rule_key CUSTOM_RULE_NAME) ''rule'' fw1;
          fw3 = foldl (\<lambda>f (opt, v). dict_set (rule_key CUSTOM_RULE_NAME @ ''.'' @ opt) v f) fw2 CUSTOM_OPTIONS
      in foldl (switch_gl ''1'') fw3 GL_LEAKED_RULES)"

definition after_disable :: "(string, string) dict \<Rightarrow> (string, string) dict" where
  "after_disable fw = foldl (switch_gl ''0'') (delete_section CUSTOM_RULE_NAME fw) GL_LEAKED_RULES"

section \<open>Lookups after the scripts\<close>

lemma rule_key_eq [simp]: "rule_key a = rule_key b \<longleftrightarrow> a = b"
  by (simp add: rule_key_def)

lemma rule_key_option:
  "CHR ''.'' \<notin> set a \<Longrightarrow> rule_key a \<noteq> rule_key b @ CHR ''.'' # opt"
  "CHR ''.'' \<notin> set a \<Longrightarrow> CHR ''.'' \<notin> set b \<Longrightarrow>
     rule_key a @ CHR ''.'' # o1 = rule_key b @ CHR ''.'' # o2 \<longleftrightarrow> a = b \<and> o1 = o2"
proof -
  show "rule_key a \<noteq> rule_key b @ CHR ''.'' # opt" if "CHR ''.'' \<notin> set a"
  proof
    assume "rule_key a = rule_key b @ CHR ''.'' # opt"
    then have "a = b @ CHR ''.'' # opt" by (simp add: rule_key_def)
    with that show False by simp
  qed
  show "rule_key a @ CHR ''.'' # o1 = rule_key b @ CHR ''.'' # o2 \<longleftrightarrow> a = b \<and> o1 = o2"
    if "CHR ''.'' \<notin> set a" "CHR ''.'' \<notin> set b"
  proof
    assume "rule_key a @ CHR ''.'' # o1 = rule_key b @ CHR ''.'' # o2"
    then have "a @ CHR ''.'' # o1 = b @ CHR ''.'' # o2" by (simp add: rule_key_def)
    with that show "a = b \<and> o1 = o2" by (metis prod.inject py_partition_append)
  qed simp
qed

lemma switch_gl_get:
  "dict_get (switch_gl v fw slug) k =
     (if k = rule_key slug @ ''.enabled'' \<and> dict_get fw (rule_key slug) \<noteq> None then Some v else dict_get fw k)"
  by (auto simp: switch_gl_def)

lemma switch_all_get:
  assumes "\<forall>s\<in>set slugs. CHR ''.'' \<notin> set s"
  shows "dict_get (foldl (switch_gl v) fw slugs) k =
     (if \<exists>s\<in>set slugs. k = rule_key s @ ''.enabled'' \<and> dict_get fw (rule_key s) \<noteq> None
      then Some v else dict_get fw k)"
  using assms
proof (induction slugs arbitrary: fw)
  case (Cons s slugs)
  have "dict_get (switch_gl v fw s) (rule_key t) = dict_get fw (rule_key t)" if "t \<in> set slugs" for t
    using Cons.prems that rule_key_option(1) [of t s "''enabled''"] by (auto simp: switch_gl_get)
  then show ?case using Cons by (auto simp: switch_gl_get)
qed simp

lemma gl_names: "\<forall>s\<in>set GL_LEAKED_RULES. CHR ''.'' \<notin> set s \<and> s \<noteq> CUSTOM_RULE_NAME"
  "CHR ''.'' \<notin> set CUSTOM_RULE_NAME" "LEGACY_CUSTOM_RULE_NAMES = [''slate_ctrl_block_dot_lan'']"
proof -
  have "list_all (\<lambda>s. CHR ''.'' \<notin> set s \<and> s \<noteq> CUSTOM_RULE_NAME) GL_LEAKED_RULES" by code_simp
  then show "\<forall>s\<in>set GL_LEAKED_RULES. CHR ''.'' \<notin> set s \<and> s \<noteq> CUSTOM_RULE_NAME"
    by (simp only: list_all_iff)
  show "CHR ''.'' \<notin> set CUSTOM_RULE_NAME" "LEGACY_CUSTOM_RULE_NAMES = [''slate_ctrl_block_dot_lan'']"
    by code_simp+
qed

lemma delete_section_get:
  "dict_get (delete_section sec fw) k = (if in_section sec k then None else dict_get fw k)"
  unfolding delete_section_def by (induction fw) auto

lemma options_get:
  "dict_get (foldl (\<lambda>f (opt, v). dict_set (rule_key r @ ''.'' @ opt) v f) fw opts) k =
     (case find (\<lambda>(opt, v). k = rule_key r @ ''.'' @ opt) (rev opts) of
        Some (_, v) \<Rightarrow> Some v | None \<Rightarrow> dict_get fw k)"
  by (induction opts rule: rev_induct) (auto split: option.splits)

section \<open>Properties\<close>

text \<open>The keys the scripts may write: the custom and the legacy rule's, and the switches of the listed rules.\<close>

definition bypass_key :: "string \<Rightarrow> bool" where
  "bypass_key k \<longleftrightarrow> in_section CUSTOM_RULE_NAME k \<or> list_ex (\<lambda>s. in_section s k) LEGACY_CUSTOM_RULE_NAMES
     \<or> list_ex (\<lambda>s. k = rule_key s @ ''.enabled'') GL_LEAKED_RULES"

lemma status_switched:
  assumes "fw' = foldl (switch_gl v) fw GL_LEAKED_RULES"
  shows "gl_rules_enabled (status_of fw') =
    map (\<lambda>s. (s, if dict_get fw (rule_key s) = None then None else Some (uci_truthy v))) GL_LEAKED_RULES"
proof -
  have get: "dict_get fw' k = (if \<exists>s\<in>set GL_LEAKED_RULES. k = rule_key s @ ''.enabled'' \<and> dict_get fw (rule_key s) \<noteq> None
      then Some v else dict_get fw k)" for k
    using gl_names(1) assms by (simp add: switch_all_get)
  have "(if dict_get fw' (rule_key s) = None then None
         else Some (uci_truthy (dict_get_or fw' (rule_key s @ ''.enabled'') ''1'')))
      = (if dict_get fw (rule_key s) = None then None else Some (uci_truthy v))"
    if s: "s \<in> set GL_LEAKED_RULES" for s
  proof -
    have "dict_get fw' (rule_key s) = dict_get fw (rule_key s)"
      using s gl_names(1) rule_key_option(1) [of s _ "''enabled''"] by (auto simp: get)
    moreover have "dict_get fw' (rule_key s @ ''.enabled'') = Some v" if "dict_get fw (rule_key s) \<noteq> None"
      using s that by (auto simp: get)
    ultimately show ?thesis by (simp add: dict_get_or_def)
  qed
  then show ?thesis by (simp add: status_of_def Let_def)
qed

text \<open>
  Enabling and disabling do what the status reports: whatever the firewall configuration, after the
  enabling script every mechanism reads active, after the disabling script none does, and both scripts
  leave every other key of the configuration as it was.
\<close>

theorem anti_bypass_switches:
  "all_active (status_of (after_enable fw)) \<and> \<not> any_active (status_of (after_disable fw))
   \<and> (bypass_key k \<or> (dict_get (after_enable fw) k = dict_get fw k \<and> dict_get (after_disable fw) k = dict_get fw k))"
proof -
  let ?fw2 = "dict_setdefault (rule_key CUSTOM_RULE_NAME) ''rule''
    (foldl (\<lambda>f old. delete_section old f) fw LEGACY_CUSTOM_RULE_NAMES)"
  let ?fw3 = "foldl (\<lambda>f (opt, v). dict_set (rule_key CUSTOM_RULE_NAME @ ''.'' @ opt) v f) ?fw2 CUSTOM_OPTIONS"
  have en: "after_enable fw = foldl (switch_gl ''1'') ?fw3 GL_LEAKED_RULES"
    by (simp add: after_enable_def Let_def)
  have dis: "after_disable fw = foldl (switch_gl ''0'') (delete_section CUSTOM_RULE_NAME fw) GL_LEAKED_RULES"
    by (simp add: after_disable_def)
  have nodot: "\<forall>s\<in>set GL_LEAKED_RULES. CHR ''.'' \<notin> set s" using gl_names(1) by blast
  have no_gl: "rule_key CUSTOM_RULE_NAME @ rest \<noteq> rule_key s @ ''.enabled''"
    if "s \<in> set GL_LEAKED_RULES" "rest = [] \<or> hd rest = CHR ''.''" for s rest
    using that gl_names(1,2) rule_key_option(1) [of CUSTOM_RULE_NAME s "''enabled''"]
      rule_key_option(2) [of CUSTOM_RULE_NAME s "tl rest" "''enabled''"]
    by (cases rest) auto
  have c3: "dict_get ?fw3 (rule_key CUSTOM_RULE_NAME) \<noteq> None"
    unfolding options_get by (simp add: dict_setdefault_def split: option.splits prod.splits)
  have c3e: "dict_get ?fw3 (rule_key CUSTOM_RULE_NAME @ ''.enabled'') = Some ''1''"
    unfolding options_get CUSTOM_OPTIONS_def by simp
  have "custom_block_dot_active (status_of (after_enable fw))"
    using c3 c3e no_gl [of _ "[]"] no_gl [of _ "''.enabled''"]
    by (auto simp: status_of_def Let_def en switch_all_get [OF nodot] dict_get_or_def uci_truthy_def)
  moreover have "gl_rules_enabled (status_of (after_enable fw)) =
      map (\<lambda>s. (s, if dict_get ?fw3 (rule_key s) = None then None else Some True)) GL_LEAKED_RULES"
    unfolding status_switched [OF en] by (simp add: uci_truthy_def)
  ultimately have all: "all_active (status_of (after_enable fw))"
    by (auto simp: all_active_def list_all_iff)
  have "\<not> custom_block_dot_active (status_of (after_disable fw))"
    using no_gl [of _ "[]"]
    by (auto simp: status_of_def Let_def dis switch_all_get [OF nodot] delete_section_get in_section_def)
  moreover have "gl_rules_enabled (status_of (after_disable fw)) =
      map (\<lambda>s. (s, if dict_get (delete_section CUSTOM_RULE_NAME fw) (rule_key s) = None then None else Some False)) GL_LEAKED_RULES"
    unfolding status_switched [OF dis] by (simp add: uci_truthy_def)
  ultimately have none: "\<not> any_active (status_of (after_disable fw))"
    by (auto simp: any_active_def list_ex_iff)
  have "dict_get (after_enable fw) k = dict_get fw k \<and> dict_get (after_disable fw) k = dict_get fw k"
    if k: "\<not> bypass_key k"
  proof -
    from k have k': "\<not> in_section CUSTOM_RULE_NAME k" "\<not> in_section ''slate_ctrl_block_dot_lan'' k"
      "\<forall>s\<in>set GL_LEAKED_RULES. k \<noteq> rule_key s @ ''.enabled''"
      by (auto simp: bypass_key_def gl_names(3) list_ex_iff)
    then have "find (\<lambda>(opt, v). k = rule_key CUSTOM_RULE_NAME @ ''.'' @ opt) (rev CUSTOM_OPTIONS) = None"
      by (auto simp: find_None_iff in_section_def starts_with_iff)
    then have "dict_get ?fw3 k = dict_get fw k"
      unfolding options_get using k'
      by (simp add: gl_names(3) delete_section_get) (auto simp: in_section_def)
    moreover have "dict_get (delete_section CUSTOM_RULE_NAME fw) k = dict_get fw k"
      using k' by (simp add: delete_section_get)
    ultimately show ?thesis
      unfolding en dis switch_all_get [OF nodot] using k'(3) by auto
  qed
  with all none show ?thesis by blast
qed

end
