(* ===== verification/Button_Cycle.thy ===== *)
theory Button_Cycle
  imports Prelude
begin

text \<open>
  The steps of the reset button (\<^verbatim>\<open>backend/app/settings/button_cycle.py\<close>). The stored value is a JSON
  text; since the code writes it with \<^verbatim>\<open>json.dumps\<close> and reads it with \<^verbatim>\<open>json.loads\<close>, it is modelled by the
  items it lists: \<^const>\<open>None\<close> when there is no row, the row is empty or its text does not have the shape.
\<close>

datatype step_kind = Profile_Step | Action_Step

record cycle_step =
  step_kind :: step_kind
  step_name :: string

text \<open>An item as it was stored, before validation.\<close>

record raw_step =
  raw_kind :: string
  raw_name :: string

fun kind_str :: "step_kind \<Rightarrow> string" where
  "kind_str Profile_Step = ''profile''"
| "kind_str Action_Step = ''action''"

definition validate_step :: "raw_step \<Rightarrow> cycle_step option" where
  "validate_step r =
     (if raw_name r = [] \<or> 64 < length (raw_name r) then None
      else if raw_kind r = ''profile'' then Some \<lparr>step_kind = Profile_Step, step_name = raw_name r\<rparr>
      else if raw_kind r = ''action'' then Some \<lparr>step_kind = Action_Step, step_name = raw_name r\<rparr>
      else None)"

definition dump_step :: "cycle_step \<Rightarrow> raw_step" where
  "dump_step s = \<lparr>raw_kind = kind_str (step_kind s), raw_name = step_name s\<rparr>"

definition get_cycle :: "raw_step list option \<Rightarrow> cycle_step list" where
  "get_cycle stored = (case stored of None \<Rightarrow> [] | Some items \<Rightarrow> List.map_filter validate_step items)"

text \<open>The loop of \<open>save\<close>: \<open>clean\<close> is in reverse.\<close>

fun clean_steps :: "cycle_step list \<Rightarrow> cycle_step list \<Rightarrow> cycle_step list" where
  "clean_steps clean [] = rev clean"
| "clean_steps clean (s # ss) =
     (let s1 = s\<lparr>step_name := py_strip (step_name s)\<rparr> in
      if step_name s1 = [] then clean_steps clean ss
      else case clean of
        [] \<Rightarrow> clean_steps [s1] ss
      | p # ps \<Rightarrow>
          if step_kind p = step_kind s1 \<and> step_name p = step_name s1 then clean_steps clean ss
          else clean_steps (s1 # clean) ss)"

definition save_cycle :: "cycle_step list \<Rightarrow> cycle_step list \<times> raw_step list option" where
  "save_cycle steps = (let clean = clean_steps [] steps in (clean, Some (map dump_step clean)))"

definition agent_payload :: "cycle_step list \<Rightarrow> raw_step list" where
  "agent_payload steps = map dump_step steps"

section \<open>The loop and its specification\<close>

definition strip_step :: "cycle_step \<Rightarrow> cycle_step" where
  "strip_step s = s\<lparr>step_name := py_strip (step_name s)\<rparr>"

lemma step_eqI: "step_kind p = step_kind s \<Longrightarrow> step_name p = step_name s \<Longrightarrow> (p :: cycle_step) = s"
  by simp

lemma clean_steps_adj:
  "clean_steps clean ss =
     (case clean of
        [] \<Rightarrow> remdups_adj (filter (\<lambda>s. step_name s \<noteq> []) (map strip_step ss))
      | p # ps \<Rightarrow> rev ps @ remdups_adj (p # filter (\<lambda>s. step_name s \<noteq> []) (map strip_step ss)))"
proof (induction ss arbitrary: clean)
  case Nil
  then show ?case by (simp split: list.splits)
next
  case (Cons s ss)
  show ?case
  proof (cases "py_strip (step_name s) = []")
    case True
    then show ?thesis using Cons.IH [of clean] by (cases clean) (simp_all add: strip_step_def Let_def)
  next
    case False
    show ?thesis
    proof (cases clean)
      case Nil
      then show ?thesis using Cons.IH [of "[strip_step s]"] False by (simp add: strip_step_def Let_def)
    next
      case (Cons p ps)
      then show ?thesis
        using Cons.IH [of clean] Cons.IH [of "strip_step s # clean"] False
          step_eqI [of p "strip_step s"]
        by (cases "p = strip_step s") (auto simp: strip_step_def Let_def)
    qed
  qed
qed

lemma remdups_adj_twice: "remdups_adj (remdups_adj xs) = remdups_adj xs"
  using distinct_adj_altdef distinct_adj_remdups_adj by blast

lemma validate_dump: "step_name s \<noteq> [] \<Longrightarrow> length (step_name s) \<le> 64 \<Longrightarrow> validate_step (dump_step s) = Some s"
  by (cases "step_kind s") (simp_all add: validate_step_def dump_step_def)

text \<open>
  Saving a cycle stores exactly the given steps with their names stripped, without the blank ones
  and with runs of equal steps reduced to one (the reference \<^const>\<open>remdups_adj\<close>); reading it back gives
  that list, and saving the result again changes nothing.
\<close>

theorem save_cycle_reads_back:
  assumes "\<forall>s\<in>set steps. length (step_name s) \<le> 64"
  shows "fst (save_cycle steps) = remdups_adj (filter (\<lambda>s. step_name s \<noteq> []) (map strip_step steps))
    \<and> get_cycle (snd (save_cycle steps)) = fst (save_cycle steps)
    \<and> save_cycle (fst (save_cycle steps)) = save_cycle steps"
proof -
  let ?f = "filter (\<lambda>s. step_name s \<noteq> []) (map strip_step steps)"
  have fst: "fst (save_cycle steps) = remdups_adj ?f"
    by (simp add: save_cycle_def clean_steps_adj Let_def)
  have ok: "step_name s \<noteq> [] \<and> length (step_name s) \<le> 64 \<and> strip_step s = s" if "s \<in> set (remdups_adj ?f)" for s
  proof -
    from that obtain r where r: "r \<in> set steps" "s = strip_step r" "step_name s \<noteq> []" by auto
    have "length (py_strip (step_name r)) \<le> length (step_name r)"
      by (simp add: py_strip_def length_strip_by)
    moreover have "length (step_name r) \<le> 64" using assms r(1) by blast
    ultimately show ?thesis using r(2,3) by (simp add: strip_step_def)
  qed
  have "List.map_filter validate_step (map dump_step ss) = ss"
    if "\<forall>s\<in>set ss. step_name s \<noteq> [] \<and> length (step_name s) \<le> 64" for ss
    using that by (induction ss) (simp_all add: map_filter_simps validate_dump)
  moreover have "\<forall>s\<in>set (remdups_adj ?f). step_name s \<noteq> [] \<and> length (step_name s) \<le> 64" using ok by blast
  ultimately have "List.map_filter validate_step (map dump_step (remdups_adj ?f)) = remdups_adj ?f" by blast
  then have "get_cycle (snd (save_cycle steps)) = remdups_adj ?f"
    using fst by (simp add: get_cycle_def save_cycle_def Let_def)
  moreover have "clean_steps [] (remdups_adj ?f) = remdups_adj ?f"
  proof -
    have "map strip_step (remdups_adj ?f) = remdups_adj ?f" using ok by (intro map_idI) blast
    moreover have "filter (\<lambda>s. step_name s \<noteq> []) (remdups_adj ?f) = remdups_adj ?f"
      using ok by (intro filter_True) blast
    ultimately show ?thesis by (simp add: clean_steps_adj remdups_adj_twice)
  qed
  ultimately show ?thesis using fst by (simp add: save_cycle_def Let_def)
qed

lemma save_cycle_reads_back_witness:
  "get_cycle (snd (save_cycle
     [\<lparr>step_kind = Profile_Step, step_name = '' home''\<rparr>, \<lparr>step_kind = Profile_Step, step_name = ''home ''\<rparr>,
      \<lparr>step_kind = Action_Step, step_name = ''home''\<rparr>, \<lparr>step_kind = Action_Step, step_name = ''  ''\<rparr>]))
   = [\<lparr>step_kind = Profile_Step, step_name = ''home''\<rparr>, \<lparr>step_kind = Action_Step, step_name = ''home''\<rparr>]"
proof -
  let ?ss = "[\<lparr>step_kind = Profile_Step, step_name = '' home''\<rparr>, \<lparr>step_kind = Profile_Step, step_name = ''home ''\<rparr>,
      \<lparr>step_kind = Action_Step, step_name = ''home''\<rparr>, \<lparr>step_kind = Action_Step, step_name = ''  ''\<rparr>]"
  have "fst (save_cycle ?ss) = [\<lparr>step_kind = Profile_Step, step_name = ''home''\<rparr>,
      \<lparr>step_kind = Action_Step, step_name = ''home''\<rparr>]" by code_simp
  then show ?thesis using save_cycle_reads_back [of ?ss] by simp
qed

end
