(* ===== verification/Device_Store.thy ===== *)
theory Device_Store
  imports Row_Table
begin

text \<open>
  The devices table and the secrets table beside it (\<^verbatim>\<open>backend/app/devices/store.py\<close> with
  \<^verbatim>\<open>DeviceRow\<close> and \<^verbatim>\<open>DeviceSecretRow\<close> of \<^verbatim>\<open>backend/app/db/models.py\<close>).

  The database gives a new row the highest identifier in the table plus one. Whether it enforces foreign
  keys, so that deleting a device deletes its secrets, is the argument \<open>fk\<close>: the tables ask for the
  cascade, but the default database is SQLite, which enforces it only on connections that switch it on,
  and \<^verbatim>\<open>make_engine\<close> does not. \<open>enc\<close> and \<open>dec\<close> are the Fernet functions of \<^verbatim>\<open>vpn/crypto.py\<close>.
\<close>

section \<open>Rows\<close>

datatype device_status = Pending | Adopted | Failed_Probe

record device_row =
  dv_id :: nat
  dv_slug :: string
  dv_label :: string
  dv_model :: string
  dv_host :: string
  dv_admin_urls :: "string list"
  dv_rpc_port :: int
  dv_rpc_scheme :: string
  dv_ssh_port :: int
  dv_tls_fingerprint :: string
  dv_ssh_host_pubkey :: string
  dv_status :: device_status
  dv_default :: bool
  dv_notes :: string
  dv_security_label :: string
  dv_last_probe_at :: "instant option"
  dv_adopted_at :: "instant option"
  dv_created_at :: instant

record device_secret =
  sec_device :: nat
  sec_kind :: string
  sec_value :: string
  sec_username :: "string option"

record device_db =
  devices :: "device_row list"
  secrets :: "device_secret list"

datatype device_error =
  Device_Exists string | Device_Missing string | No_Creds string | Bad_Secret string
| Integrity_Error

definition SECRET_RPC_PASSWORD :: string where
  "SECRET_RPC_PASSWORD = ''rpc_password''"

record device_create =
  c_slug :: string
  c_label :: string
  c_model :: string
  c_host :: string
  c_rpc_port :: int
  c_rpc_scheme :: string
  c_ssh_port :: int
  c_rpc_username :: string
  c_rpc_password :: string
  c_notes :: string
  c_security_label :: string
  c_default :: bool

text \<open>The keyword arguments of \<open>update_fields\<close> that its callers pass; an absent one is \<^const>\<open>None\<close>.\<close>

record device_fields =
  f_label :: "string option"
  f_host :: "string option"
  f_admin_urls :: "string list option"
  f_rpc_port :: "int option"
  f_ssh_port :: "int option"
  f_notes :: "string option"
  f_security_label :: "string option"
  f_ssh_host_pubkey :: "string option"

definition no_fields :: device_fields where
  "no_fields = \<lparr>f_label = None, f_host = None, f_admin_urls = None, f_rpc_port = None, f_ssh_port = None,
     f_notes = None, f_security_label = None, f_ssh_host_pubkey = None\<rparr>"

section \<open>Queries\<close>

definition ds_list_all :: "device_db \<Rightarrow> device_row list" where
  "ds_list_all db = sort_key dv_id (devices db)"

definition ds_get :: "string \<Rightarrow> device_db \<Rightarrow> device_row option" where
  "ds_get slug db = row_find dv_slug slug (devices db)"

definition ds_get_default :: "device_db \<Rightarrow> device_row option" where
  "ds_get_default db = find dv_default (devices db)"

definition next_id :: "device_db \<Rightarrow> nat" where
  "next_id db = Suc (foldr max (map dv_id (devices db)) 0)"

definition rpc_secret :: "nat \<Rightarrow> device_db \<Rightarrow> device_secret option" where
  "rpc_secret i db = find (\<lambda>s. sec_device s = i \<and> sec_kind s = SECRET_RPC_PASSWORD) (secrets db)"

section \<open>Creation and update\<close>

definition clear_default :: "device_row list \<Rightarrow> device_row list" where
  "clear_default rows = map (\<lambda>r. if dv_default r then r\<lparr>dv_default := False\<rparr> else r) rows"

definition new_device_row :: "instant \<Rightarrow> device_create \<Rightarrow> nat \<Rightarrow> device_row" where
  "new_device_row now d i =
     \<lparr>dv_id = i, dv_slug = c_slug d, dv_label = c_label d, dv_model = c_model d, dv_host = c_host d,
      dv_admin_urls = [], dv_rpc_port = c_rpc_port d, dv_rpc_scheme = c_rpc_scheme d,
      dv_ssh_port = c_ssh_port d, dv_tls_fingerprint = [], dv_ssh_host_pubkey = [],
      dv_status = Pending, dv_default = c_default d, dv_notes = c_notes d,
      dv_security_label = c_security_label d, dv_last_probe_at = None, dv_adopted_at = None,
      dv_created_at = now\<rparr>"

text \<open>The commit fails when the pair of the device and the kind is already among the secrets.\<close>

definition ds_create ::
  "(string \<Rightarrow> string) \<Rightarrow> instant \<Rightarrow> device_create \<Rightarrow> device_db \<Rightarrow> device_error + device_row \<times> device_db" where
  "ds_create enc now d db =
     (if ds_get (c_slug d) db \<noteq> None then Inl (Device_Exists (c_slug d))
      else let rows = (if c_default d then clear_default (devices db) else devices db);
               i = next_id db; row = new_device_row now d i
        in if rpc_secret i db \<noteq> None then Inl Integrity_Error
           else Inr (row, \<lparr>devices = rows @ [row],
                  secrets = secrets db @ [\<lparr>sec_device = i, sec_kind = SECRET_RPC_PASSWORD,
                    sec_value = enc (c_rpc_password d), sec_username = Some (c_rpc_username d)\<rparr>]\<rparr>))"

definition set_opt :: "'a option \<Rightarrow> 'a \<Rightarrow> 'a" where
  "set_opt new old = (case new of None \<Rightarrow> old | Some v \<Rightarrow> v)"

definition set_fields :: "device_fields \<Rightarrow> device_row \<Rightarrow> device_row" where
  "set_fields f r =
     r\<lparr>dv_label := set_opt (f_label f) (dv_label r),
       dv_host := set_opt (f_host f) (dv_host r),
       dv_admin_urls := set_opt (f_admin_urls f) (dv_admin_urls r),
       dv_rpc_port := set_opt (f_rpc_port f) (dv_rpc_port r),
       dv_ssh_port := set_opt (f_ssh_port f) (dv_ssh_port r),
       dv_notes := set_opt (f_notes f) (dv_notes r),
       dv_security_label := set_opt (f_security_label f) (dv_security_label r),
       dv_ssh_host_pubkey := set_opt (f_ssh_host_pubkey f) (dv_ssh_host_pubkey r)\<rparr>"

text \<open>The operations that look a device up, change its row and commit.\<close>

definition edit_device ::
  "string \<Rightarrow> (device_row \<Rightarrow> device_row) \<Rightarrow> device_db \<Rightarrow> device_error + device_db" where
  "edit_device slug f db =
     (case ds_get slug db of
        None \<Rightarrow> Inl (Device_Missing slug)
      | Some _ \<Rightarrow> Inr (db\<lparr>devices := row_update dv_slug slug f (devices db)\<rparr>))"

definition ds_update_fields :: "string \<Rightarrow> device_fields \<Rightarrow> device_db \<Rightarrow> device_error + device_db" where
  "ds_update_fields slug f = edit_device slug (set_fields f)"

definition ds_update_credentials ::
  "(string \<Rightarrow> string) \<Rightarrow> string \<Rightarrow> string option \<Rightarrow> string option \<Rightarrow> device_db \<Rightarrow> device_error + device_db" where
  "ds_update_credentials enc slug user pw db =
     (if user = None \<and> pw = None then Inr db
      else case ds_get slug db of
        None \<Rightarrow> Inl (Device_Missing slug)
      | Some row \<Rightarrow>
          (case rpc_secret (dv_id row) db of
             None \<Rightarrow>
               (case pw of
                  None \<Rightarrow> Inl (No_Creds slug)
                | Some p \<Rightarrow> Inr (db\<lparr>secrets := secrets db @
                    [\<lparr>sec_device = dv_id row, sec_kind = SECRET_RPC_PASSWORD, sec_value = enc p,
                      sec_username = Some (set_opt user [])\<rparr>]\<rparr>))
           | Some _ \<Rightarrow>
               Inr (db\<lparr>secrets := map (\<lambda>s.
                      if sec_device s = dv_id row \<and> sec_kind s = SECRET_RPC_PASSWORD
                      then s\<lparr>sec_value := (case pw of None \<Rightarrow> sec_value s | Some p \<Rightarrow> enc p),
                             sec_username := (case user of None \<Rightarrow> sec_username s | Some u \<Rightarrow> Some u)\<rparr>
                      else s) (secrets db)\<rparr>)))"

definition ds_set_default :: "string \<Rightarrow> device_db \<Rightarrow> device_error + device_db" where
  "ds_set_default slug db =
     (case ds_get slug db of
        None \<Rightarrow> Inl (Device_Missing slug)
      | Some _ \<Rightarrow> Inr (db\<lparr>devices :=
          row_update dv_slug slug (\<lambda>r. r\<lparr>dv_default := True\<rparr>) (clear_default (devices db))\<rparr>))"

definition ds_delete :: "bool \<Rightarrow> string \<Rightarrow> device_db \<Rightarrow> bool \<times> device_db" where
  "ds_delete fk slug db =
     (case ds_get slug db of
        None \<Rightarrow> (False, db)
      | Some row \<Rightarrow>
          (True, \<lparr>devices = row_delete dv_slug slug (devices db),
                  secrets = (if fk then filter (\<lambda>s. sec_device s \<noteq> dv_id row) (secrets db)
                             else secrets db)\<rparr>))"

definition ds_mark_probed ::
  "instant \<Rightarrow> string \<Rightarrow> device_status \<Rightarrow> string option \<Rightarrow> device_db \<Rightarrow> device_error + device_db" where
  "ds_mark_probed now slug st fp =
     edit_device slug (\<lambda>r. r\<lparr>dv_status := st, dv_last_probe_at := Some now,
       dv_tls_fingerprint := set_opt fp (dv_tls_fingerprint r)\<rparr>)"

definition ds_mark_adopted :: "instant \<Rightarrow> string \<Rightarrow> device_db \<Rightarrow> device_error + device_db" where
  "ds_mark_adopted now slug = edit_device slug (\<lambda>r. r\<lparr>dv_status := Adopted, dv_adopted_at := Some now\<rparr>)"

definition ds_mark_forgotten :: "string \<Rightarrow> device_db \<Rightarrow> device_error + device_db" where
  "ds_mark_forgotten slug = edit_device slug (\<lambda>r. r\<lparr>dv_status := Pending, dv_adopted_at := None\<rparr>)"

definition ds_get_rpc_credentials ::
  "(string \<Rightarrow> string option) \<Rightarrow> string \<Rightarrow> device_db \<Rightarrow> device_error + (string \<times> string) option" where
  "ds_get_rpc_credentials dec slug db =
     (case ds_get slug db of
        None \<Rightarrow> Inr None
      | Some row \<Rightarrow>
          (case rpc_secret (dv_id row) db of
             None \<Rightarrow> Inr None
           | Some s \<Rightarrow>
               (case dec (sec_value s) of
                  None \<Rightarrow> Inl (Bad_Secret slug)
                | Some pw \<Rightarrow> Inr (Some (set_opt (sec_username s) ''root'', pw)))))"

section \<open>Runs of operations\<close>

datatype ds_op =
  Ds_Create instant device_create
| Ds_Update string device_fields
| Ds_Credentials string "string option" "string option"
| Ds_Set_Default string
| Ds_Delete string
| Ds_Probed instant string device_status "string option"
| Ds_Adopted instant string
| Ds_Forgotten string

text \<open>An operation that raises leaves the database as it was.\<close>

definition committed :: "'e + 's \<Rightarrow> 's \<Rightarrow> 's" where
  "committed res s = (case res of Inl _ \<Rightarrow> s | Inr s' \<Rightarrow> s')"

fun ds_step :: "bool \<Rightarrow> (string \<Rightarrow> string) \<Rightarrow> ds_op \<Rightarrow> device_db \<Rightarrow> device_db" where
  "ds_step fk enc (Ds_Create now d) db = (case ds_create enc now d db of Inl _ \<Rightarrow> db | Inr (_, db') \<Rightarrow> db')"
| "ds_step fk enc (Ds_Update slug f) db = committed (ds_update_fields slug f db) db"
| "ds_step fk enc (Ds_Credentials slug u p) db = committed (ds_update_credentials enc slug u p db) db"
| "ds_step fk enc (Ds_Set_Default slug) db = committed (ds_set_default slug db) db"
| "ds_step fk enc (Ds_Delete slug) db = snd (ds_delete fk slug db)"
| "ds_step fk enc (Ds_Probed now slug st fp) db = committed (ds_mark_probed now slug st fp db) db"
| "ds_step fk enc (Ds_Adopted now slug) db = committed (ds_mark_adopted now slug db) db"
| "ds_step fk enc (Ds_Forgotten slug) db = committed (ds_mark_forgotten slug db) db"

definition ds_run :: "bool \<Rightarrow> (string \<Rightarrow> string) \<Rightarrow> ds_op list \<Rightarrow> device_db \<Rightarrow> device_db" where
  "ds_run fk enc ops db = foldl (\<lambda>db op. ds_step fk enc op db) db ops"

definition no_devices :: device_db where
  "no_devices = \<lparr>devices = [], secrets = []\<rparr>"

section \<open>Invariants\<close>

definition db_ok :: "device_db \<Rightarrow> bool" where
  "db_ok db \<longleftrightarrow> distinct (map dv_slug (devices db)) \<and> distinct (map dv_id (devices db))
     \<and> 0 \<notin> set (map dv_id (devices db)) \<and> length (filter dv_default (devices db)) \<le> 1"

definition keeps_identity :: "(device_row \<Rightarrow> device_row) \<Rightarrow> bool" where
  "keeps_identity f \<longleftrightarrow> (\<forall>r. dv_slug (f r) = dv_slug r \<and> dv_id (f r) = dv_id r \<and> dv_default (f r) = dv_default r)"

lemma keeps_identityI:
  "(\<And>r. dv_slug (f r) = dv_slug r \<and> dv_id (f r) = dv_id r \<and> dv_default (f r) = dv_default r) \<Longrightarrow> keeps_identity f"
  by (simp add: keeps_identity_def)

lemma keeps_identity_ops [simp]:
  "keeps_identity (set_fields f)"
  "keeps_identity (\<lambda>r. r\<lparr>dv_status := st, dv_last_probe_at := t, dv_tls_fingerprint := g r\<rparr>)"
  "keeps_identity (\<lambda>r. r\<lparr>dv_status := st, dv_adopted_at := t\<rparr>)"
  by (simp_all add: keeps_identity_def set_fields_def)

lemma row_update_identity:
  assumes "keeps_identity f"
  shows "map dv_slug (row_update dv_slug k f rows) = map dv_slug rows"
    "map dv_id (row_update dv_slug k f rows) = map dv_id rows"
    "map dv_default (row_update dv_slug k f rows) = map dv_default rows"
  using assms by (auto simp: row_update_def keeps_identity_def)

lemma filter_default_length: "length (filter dv_default rows) = length (filter id (map dv_default rows))"
  by (simp add: filter_map)

lemma clear_default_simps [simp]:
  "map dv_slug (clear_default rows) = map dv_slug rows" "map dv_id (clear_default rows) = map dv_id rows"
  "filter dv_default (clear_default rows) = []"
  by (auto simp: clear_default_def filter_empty_conv)

text \<open>The identifiers and the secrets are all that the next creation depends on.\<close>

definition ids_of :: "device_db \<Rightarrow> nat list" where
  "ids_of db = map dv_id (devices db)"

definition has_secret :: "device_db \<Rightarrow> nat \<Rightarrow> bool" where
  "has_secret db i \<longleftrightarrow> rpc_secret i db \<noteq> None"

lemma has_secret_iff:
  "has_secret db i \<longleftrightarrow> (\<exists>s\<in>set (secrets db). sec_device s = i \<and> sec_kind s = SECRET_RPC_PASSWORD)"
  by (auto simp: has_secret_def rpc_secret_def find_None_iff)

lemma has_secret_keys:
  "has_secret db i \<longleftrightarrow> (i, SECRET_RPC_PASSWORD) \<in> (\<lambda>s. (sec_device s, sec_kind s)) ` set (secrets db)"
  unfolding has_secret_iff by (auto simp: image_iff)

lemma next_id_ids: "next_id db = Suc (foldr max (ids_of db) 0)"
  by (simp add: next_id_def ids_of_def)

lemma foldr_max_ge: "i \<in> set xs \<Longrightarrow> i \<le> foldr max xs (0::nat)"
  by (induction xs) auto

lemma foldr_max_le: "\<forall>i\<in>set xs. i \<le> m \<Longrightarrow> foldr max xs (0::nat) \<le> m"
  by (induction xs) auto

lemma foldr_max_mono: "set xs \<subseteq> set ys \<Longrightarrow> foldr max xs (0::nat) \<le> foldr max ys 0"
  by (induction xs) (auto intro: foldr_max_ge)

lemma foldr_max_snoc [simp]: "foldr max (xs @ [x]) (0::nat) = max (foldr max xs 0) x"
  by (induction xs) auto

lemma next_id_pos [simp]: "0 < next_id db"
  by (simp add: next_id_def)

lemma id_below_next: "i \<in> set (ids_of db) \<Longrightarrow> i < next_id db"
  unfolding next_id_ids using foldr_max_ge by fastforce

lemma edit_device_cases:
  assumes "keeps_identity f"
  shows "ids_of (committed (edit_device slug f db) db) = ids_of db
    \<and> secrets (committed (edit_device slug f db) db) = secrets db
    \<and> map dv_slug (devices (committed (edit_device slug f db) db)) = map dv_slug (devices db)
    \<and> map dv_default (devices (committed (edit_device slug f db) db)) = map dv_default (devices db)"
  using row_update_identity [OF assms]
  by (auto simp: edit_device_def committed_def ids_of_def split: option.splits)

lemma edit_device_ok: "keeps_identity f \<Longrightarrow> db_ok db \<Longrightarrow> db_ok (committed (edit_device slug f db) db)"
  using edit_device_cases [of f slug db]
  by (simp add: db_ok_def ids_of_def filter_default_length del: length_filter_map)

lemmas edit_ops = ds_update_fields_def ds_mark_probed_def ds_mark_adopted_def ds_mark_forgotten_def

lemma create_cases:
  assumes "ds_create enc now d db = Inr (row, db')"
  shows "row = new_device_row now d (next_id db)" "ds_get (c_slug d) db = None"
    "\<not> has_secret db (next_id db)"
    "devices db' = (if c_default d then clear_default (devices db) else devices db) @ [row]"
    "secrets db' = secrets db @ [\<lparr>sec_device = next_id db, sec_kind = SECRET_RPC_PASSWORD,
       sec_value = enc (c_rpc_password d), sec_username = Some (c_rpc_username d)\<rparr>]"
proof -
  let ?rows = "if c_default d then clear_default (devices db) else devices db"
  have fresh: "ds_get (c_slug d) db = None"
    using assms unfolding ds_create_def by (metis Inl_Inr_False)
  then have none: "rpc_secret (next_id db) db = None"
    using assms unfolding ds_create_def Let_def by (metis Inl_Inr_False)
  show "ds_get (c_slug d) db = None" by (rule fresh)
  show "\<not> has_secret db (next_id db)" using none by (simp add: has_secret_def)
  have "row = new_device_row now d (next_id db) \<and> db' =
      \<lparr>devices = ?rows @ [new_device_row now d (next_id db)],
       secrets = secrets db @ [\<lparr>sec_device = next_id db, sec_kind = SECRET_RPC_PASSWORD,
         sec_value = enc (c_rpc_password d), sec_username = Some (c_rpc_username d)\<rparr>]\<rparr>"
    using assms fresh none unfolding ds_create_def Let_def by (metis Pair_inject sum.inject(2))
  then show "row = new_device_row now d (next_id db)" "devices db' = ?rows @ [row]"
    "secrets db' = secrets db @ [\<lparr>sec_device = next_id db, sec_kind = SECRET_RPC_PASSWORD,
       sec_value = enc (c_rpc_password d), sec_username = Some (c_rpc_username d)\<rparr>]"
    by simp_all
qed

lemma new_device_row_simps [simp]:
  "dv_slug (new_device_row now d i) = c_slug d" "dv_id (new_device_row now d i) = i"
  "dv_default (new_device_row now d i) = c_default d"
  by (simp_all add: new_device_row_def)

lemma create_ids:
  assumes "ds_create enc now d db = Inr (row, db')"
  shows "ids_of db' = ids_of db @ [next_id db]"
  using create_cases(1,4) [OF assms] by (simp add: ids_of_def)

lemma create_ok:
  assumes "db_ok db" "ds_create enc now d db = Inr (row, db')"
  shows "db_ok db'"
proof -
  note c = create_cases [OF assms(2)]
  have "next_id db \<notin> set (ids_of db)" using id_below_next by blast
  moreover have "c_slug d \<notin> set (map dv_slug (devices db))"
    using c(2) by (simp add: ds_get_def row_find_None)
  moreover have "map dv_slug (devices db') = map dv_slug (devices db) @ [c_slug d]" using c(1,4) by simp
  moreover have "length (filter dv_default (devices db')) \<le> 1"
    using assms(1) c(1,4) by (simp add: db_ok_def)
  ultimately show ?thesis
    using assms(1) create_ids [OF assms(2)] by (simp add: db_ok_def ids_of_def)
qed

lemma at_most_one_with_key: "distinct (map f xs) \<Longrightarrow> length (filter (\<lambda>r. f r = k) xs) \<le> 1"
proof (induction xs)
  case (Cons x xs)
  show ?case
  proof (cases "f x = k")
    case True
    then have "filter (\<lambda>r. f r = k) xs = []" using Cons.prems by (auto simp: filter_empty_conv image_iff)
    then show ?thesis using True by simp
  qed (use Cons in simp)
qed simp

lemma length_filter_twice: "length (filter P (filter Q xs)) \<le> length (filter P xs)"
  by (induction xs) auto

lemma map_row_update: "(\<And>r. g (f r) = g r) \<Longrightarrow> map g (row_update key k f rows) = map g rows"
  by (simp add: row_update_def)

lemma set_default_filter:
  "filter dv_default (row_update dv_slug slug (\<lambda>r. r\<lparr>dv_default := True\<rparr>) (clear_default rows))
   = filter (\<lambda>r. dv_slug r = slug) (row_update dv_slug slug (\<lambda>r. r\<lparr>dv_default := True\<rparr>) (clear_default rows))"
proof (rule filter_cong [OF refl])
  fix x
  assume "x \<in> set (row_update dv_slug slug (\<lambda>r. r\<lparr>dv_default := True\<rparr>) (clear_default rows))"
  then obtain y where y: "y \<in> set (clear_default rows)"
    "x = (if dv_slug y = slug then y\<lparr>dv_default := True\<rparr> else y)"
    unfolding row_update_def by fastforce
  have "\<not> dv_default y" using y(1) clear_default_simps(3) [of rows] by (metis filter_empty_conv)
  then show "dv_default x = (dv_slug x = slug)" using y(2) by (cases "dv_slug y = slug") simp_all
qed

lemma set_default_ok:
  assumes "db_ok db"
  shows "db_ok (committed (ds_set_default slug db) db)"
proof (cases "ds_get slug db")
  case (Some r)
  let ?rows = "row_update dv_slug slug (\<lambda>r. r\<lparr>dv_default := True\<rparr>) (clear_default (devices db))"
  have slugs: "map dv_slug ?rows = map dv_slug (devices db)"
    by (subst map_row_update) simp_all
  have ids: "map dv_id ?rows = map dv_id (devices db)"
    by (subst map_row_update) simp_all
  have "filter dv_default ?rows = filter (\<lambda>r. dv_slug r = slug) ?rows"
    by (rule set_default_filter)
  then have "length (filter dv_default ?rows) \<le> 1"
    using at_most_one_with_key [of dv_slug ?rows slug] assms slugs by (simp add: db_ok_def)
  then show ?thesis
    using assms Some slugs ids by (simp add: db_ok_def ds_set_default_def committed_def)
qed (simp add: assms ds_set_default_def committed_def)

lemma delete_ok:
  assumes "db_ok db"
  shows "db_ok (snd (ds_delete fk slug db))"
proof (cases "ds_get slug db")
  case (Some r)
  have "length (filter dv_default (row_delete dv_slug slug (devices db))) \<le> length (filter dv_default (devices db))"
    unfolding row_delete_def by (rule length_filter_twice)
  then show ?thesis
    using assms Some by (auto simp: ds_delete_def db_ok_def row_delete_def distinct_map_filter)
qed (simp add: assms ds_delete_def)

section \<open>The default device\<close>

lemma secrets_credentials:
  "ids_of (committed (ds_update_credentials enc slug u pw db) db) = ids_of db"
  "devices (committed (ds_update_credentials enc slug u pw db) db) = devices db"
  by (auto simp: ds_update_credentials_def committed_def ids_of_def split: option.splits)

lemma step_ok: "db_ok db \<Longrightarrow> db_ok (ds_step fk enc op db)"
proof (cases op)
  case (Ds_Create now d)
  assume "db_ok db"
  then show ?thesis using create_ok [of db enc now d] Ds_Create by (auto split: sum.splits)
next
  case (Ds_Credentials slug u pw)
  assume "db_ok db"
  then show ?thesis using Ds_Credentials secrets_credentials [of enc slug u pw db] by (simp add: db_ok_def)
qed (simp_all add: edit_ops edit_device_ok set_default_ok delete_ok)

lemma run_simps [simp]:
  "ds_run fk enc [] db = db" "ds_run fk enc (op # ops) db = ds_run fk enc ops (ds_step fk enc op db)"
  "ds_run fk enc (ops @ ops') db = ds_run fk enc ops' (ds_run fk enc ops db)"
  by (simp_all add: ds_run_def)

lemma run_ok: "db_ok db \<Longrightarrow> db_ok (ds_run fk enc ops db)"
  by (induction ops arbitrary: db) (simp_all add: step_ok)

lemma no_devices_ok [simp]: "db_ok no_devices"
  by (simp add: db_ok_def no_devices_def)

lemma default_after_set:
  assumes "ds_get slug db = Some r"
  shows "\<exists>r'. ds_get_default (committed (ds_set_default slug db) db) = Some r' \<and> dv_slug r' = slug"
proof -
  let ?f = "\<lambda>r. r\<lparr>dv_default := True\<rparr>"
  let ?rows = "row_update dv_slug slug ?f (clear_default (devices db))"
  have "slug \<in> dv_slug ` set (devices db)"
    using assms row_find_key [of dv_slug slug "devices db" r] by (auto simp: ds_get_def)
  moreover have "map dv_slug ?rows = map dv_slug (devices db)" by (subst map_row_update) simp_all
  then have "dv_slug ` set ?rows = dv_slug ` set (devices db)" by (metis set_map)
  ultimately have "slug \<in> dv_slug ` set ?rows" by (simp only:)
  then obtain x where x: "x \<in> set ?rows" "dv_slug x = slug" by (metis imageE)
  have only: "dv_default y \<longleftrightarrow> dv_slug y = slug" if "y \<in> set ?rows" for y
    using that arg_cong [OF set_default_filter [of slug "devices db"], of set] by auto
  then obtain y where y: "find dv_default ?rows = Some y"
    using x by (metis find_None_iff not_None_eq)
  then have "dv_slug y = slug" using only by (metis find_Some_iff nth_mem)
  then show ?thesis using y assms by (simp add: ds_set_default_def ds_get_default_def committed_def)
qed

text \<open>
  C11. Whatever operations the device store goes through, no two devices share a slug or an identifier and
  at most one is the default; and setting an existing device as the default makes it the one that
  \<^verbatim>\<open>get_default\<close> finds.
\<close>

theorem one_default_device:
  "db_ok (ds_run fk enc ops no_devices)
   \<and> (case ds_get slug (ds_run fk enc ops no_devices) of None \<Rightarrow> True
      | Some _ \<Rightarrow> map_option dv_slug (ds_get_default (ds_run fk enc (ops @ [Ds_Set_Default slug]) no_devices)) = Some slug)"
proof (cases "ds_get slug (ds_run fk enc ops no_devices)")
  case None
  then show ?thesis by (simp add: run_ok)
next
  case (Some r)
  then show ?thesis using default_after_set [OF Some] by (auto simp: run_ok)
qed

section \<open>Identifiers and left-over secrets\<close>

lemma secrets_update: "secrets (db\<lparr>secrets := ss\<rparr>) = ss"
  by simp

lemma image_set_map: "(\<And>s. g (f s) = g s) \<Longrightarrow> g ` set (map f xs) = g ` set xs"
  by (simp add: image_image)

lemma has_secret_snoc:
  "has_secret (db\<lparr>secrets := ss @ [s]\<rparr>) i \<longleftrightarrow>
     has_secret (db\<lparr>secrets := ss\<rparr>) i \<or> (sec_device s = i \<and> sec_kind s = SECRET_RPC_PASSWORD)"
  by (auto simp: has_secret_iff)

lemma has_secret_credentials:
  "has_secret (committed (ds_update_credentials enc slug u pw db) db) i \<longleftrightarrow>
     has_secret db i \<or> (\<exists>r p. ds_get slug db = Some r \<and> dv_id r = i \<and> pw = Some p)"
proof -
  have map: "has_secret (db\<lparr>secrets := map (\<lambda>s. if sec_device s = k \<and> sec_kind s = SECRET_RPC_PASSWORD
      then s\<lparr>sec_value := v s, sec_username := w s\<rparr> else s) (secrets db)\<rparr>) i = has_secret db i" for k v w
    unfolding has_secret_keys secrets_update by (subst image_set_map) simp_all
  show ?thesis
  proof (cases "ds_get slug db")
    case None
    then show ?thesis by (auto simp: ds_update_credentials_def committed_def)
  next
    case (Some r)
    show ?thesis
    proof (cases "rpc_secret (dv_id r) db")
      case None
      have "has_secret (db\<lparr>secrets := secrets db @ [\<lparr>sec_device = dv_id r, sec_kind = SECRET_RPC_PASSWORD,
          sec_value = v, sec_username = w\<rparr>]\<rparr>) i \<longleftrightarrow> has_secret db i \<or> dv_id r = i" for v w
        using has_secret_snoc by simp
      then show ?thesis
        using Some None by (auto simp: ds_update_credentials_def committed_def split: option.splits)
    next
      case (Some s)
      then have "has_secret db (dv_id r)" by (simp add: has_secret_def)
      then show ?thesis
        using \<open>ds_get slug db = Some r\<close> Some map
        by (auto simp: ds_update_credentials_def committed_def)
    qed
  qed
qed

lemma has_secret_create:
  assumes "ds_create enc now d db = Inr (row, db')"
  shows "has_secret db' i \<longleftrightarrow> has_secret db i \<or> i = next_id db"
  using create_cases(5) [OF assms] by (auto simp: has_secret_iff)

lemma ids_set_default: "ids_of (committed (ds_set_default slug db) db) = ids_of db"
  "has_secret (committed (ds_set_default slug db) db) = has_secret db"
proof -
  have "map dv_id (row_update dv_slug slug (\<lambda>r. r\<lparr>dv_default := True\<rparr>) (clear_default (devices db)))
    = map dv_id (devices db)"
    by (subst map_row_update) simp_all
  then show "ids_of (committed (ds_set_default slug db) db) = ids_of db"
    by (simp add: ds_set_default_def committed_def ids_of_def split: option.splits)
  show "has_secret (committed (ds_set_default slug db) db) = has_secret db"
    by (auto simp: ds_set_default_def committed_def has_secret_iff [abs_def] split: option.splits)
qed

lemma edit_secrets:
  "keeps_identity f \<Longrightarrow> ids_of (committed (edit_device slug f db) db) = ids_of db"
  "keeps_identity f \<Longrightarrow> has_secret (committed (edit_device slug f db) db) = has_secret db"
  using edit_device_cases [of f slug db] by (simp_all add: has_secret_iff [abs_def])

text \<open>Without foreign keys a secret is never removed, and the next identifier only grows by using one.\<close>

lemma step_False:
  "has_secret db i \<Longrightarrow> has_secret (ds_step False enc op db) i"
proof (cases op)
  case (Ds_Create now d)
  assume "has_secret db i"
  then show ?thesis using Ds_Create has_secret_create [of enc now d db] by (auto split: sum.splits)
next
  case (Ds_Delete slug)
  assume "has_secret db i"
  then show ?thesis using Ds_Delete by (simp add: ds_delete_def has_secret_iff split: option.splits)
qed (simp_all add: edit_ops edit_secrets ids_set_default has_secret_credentials)

lemma next_id_mono: "set (ids_of db') \<subseteq> set (ids_of db) \<Longrightarrow> next_id db' \<le> next_id db"
  by (simp add: next_id_ids foldr_max_mono)

lemma ids_step:
  assumes "\<not> (\<exists>now d. op = Ds_Create now d)"
  shows "set (ids_of (ds_step fk enc op db)) \<subseteq> set (ids_of db)"
proof (cases op)
  case (Ds_Create now d)
  then show ?thesis using assms by blast
next
  case (Ds_Delete slug)
  then show ?thesis by (auto simp: ds_delete_def ids_of_def row_delete_def split: option.splits)
qed (simp_all add: edit_ops edit_secrets ids_set_default secrets_credentials)

lemma next_id_create:
  "ds_create enc now d db = Inr (row, db') \<Longrightarrow> next_id db' = Suc (next_id db)"
  by (simp add: next_id_ids create_ids del: foldr_append)

definition all_used :: "nat \<Rightarrow> device_db \<Rightarrow> bool" where
  "all_used n db \<longleftrightarrow> (\<forall>i. 1 \<le> i \<and> i < n \<longrightarrow> has_secret db i)"

lemma used_step: "all_used (next_id db) db \<Longrightarrow> all_used (next_id (ds_step False enc op db)) (ds_step False enc op db)"
proof (cases "\<exists>now d. op = Ds_Create now d")
  case True
  then obtain now d where op: "op = Ds_Create now d" by blast
  assume used: "all_used (next_id db) db"
  show ?thesis
  proof (cases "ds_create enc now d db")
    case (Inr p)
    obtain row db' where "p = (row, db')" by (cases p)
    then have cr: "ds_create enc now d db = Inr (row, db')" using Inr by simp
    then show ?thesis
      using used op next_id_create [OF cr] has_secret_create [OF cr] by (auto simp: all_used_def less_Suc_eq)
  qed (use used op in simp)
next
  case False
  assume used: "all_used (next_id db) db"
  then show ?thesis
    using step_False [of db _ enc op] next_id_mono [OF ids_step [OF False, of False enc db]]
    unfolding all_used_def by (meson less_le_trans)
qed

lemma used_run: "all_used (next_id db) db \<Longrightarrow> all_used (next_id (ds_run False enc ops db)) (ds_run False enc ops db)"
  by (induction ops arbitrary: db) (simp_all add: used_step)

definition stuck :: "device_db \<Rightarrow> bool" where
  "stuck db \<longleftrightarrow> all_used (Suc (next_id db)) db"

lemma stuck_create: "stuck db \<Longrightarrow> isl (ds_create enc now d db)"
proof (cases "ds_create enc now d db")
  case (Inr p)
  assume "stuck db"
  then have "has_secret db (next_id db)" by (simp add: stuck_def all_used_def next_id_def)
  then show ?thesis using create_cases(3) [of enc now d db "fst p" "snd p"] Inr by simp
qed simp

lemma stuck_step: "stuck db \<Longrightarrow> stuck (ds_step False enc op db)"
proof (cases "\<exists>now d. op = Ds_Create now d")
  case True
  assume stuck: "stuck db"
  from True obtain now d where op: "op = Ds_Create now d" by blast
  then have "ds_step False enc op db = db"
    using stuck_create [OF stuck, of enc now d] by (auto split: sum.splits)
  then show ?thesis using stuck by simp
next
  case False
  assume "stuck db"
  then show ?thesis
    using step_False [of db _ enc op] next_id_mono [OF ids_step [OF False, of False enc db]]
    unfolding stuck_def all_used_def by (meson Suc_le_mono less_le_trans)
qed

lemma stuck_run: "stuck db \<Longrightarrow> stuck (ds_run False enc ops db)"
  by (induction ops arbitrary: db) (simp_all add: stuck_step)

lemma delete_newest_sticks:
  assumes "all_used (next_id db) db" "ds_get slug db = Some r" "Suc (dv_id r) = next_id db" "db_ok db"
  shows "stuck (snd (ds_delete False slug db))"
proof -
  let ?db = "snd (ds_delete False slug db)"
  have rs: "dv_slug r = slug" "r \<in> set (devices db)"
    using assms(2) row_find_key unfolding ds_get_def by fastforce+
  have "set (ids_of ?db) \<subseteq> {i \<in> set (ids_of db). i \<noteq> dv_id r}"
  proof
    fix i
    assume "i \<in> set (ids_of ?db)"
    then obtain x where x: "x \<in> set (devices db)" "dv_slug x \<noteq> slug" "dv_id x = i"
      using assms(2) by (auto simp: ds_delete_def ids_of_def row_delete_def)
    have "x \<noteq> r" using x(2) rs(1) by auto
    then have "dv_id x \<noteq> dv_id r"
      using assms(4) x(1) rs(2) by (metis db_ok_def distinct_map inj_onD)
    then show "i \<in> {i \<in> set (ids_of db). i \<noteq> dv_id r}" using x by (auto simp: ids_of_def)
  qed
  then have "\<forall>i\<in>set (ids_of ?db). i < dv_id r"
    using id_below_next [of _ db] assms(3) by fastforce
  moreover have "1 \<le> dv_id r"
    using assms(4) rs(2) unfolding db_ok_def by (metis image_eqI less_one not_less set_map)
  ultimately have "next_id ?db \<le> dv_id r"
    using foldr_max_le [of "ids_of ?db" "dv_id r - 1"] unfolding next_id_ids by fastforce
  moreover have "has_secret ?db i" if "1 \<le> i" "i \<le> dv_id r" for i
    using that assms(1-3) unfolding all_used_def
    by (auto simp: ds_delete_def has_secret_iff)
  ultimately show ?thesis by (simp add: stuck_def all_used_def less_Suc_eq_le)
qed

text \<open>With foreign keys every secret belongs to a device, so the next identifier is free.\<close>

definition owned :: "device_db \<Rightarrow> bool" where
  "owned db \<longleftrightarrow> (\<forall>i. has_secret db i \<longrightarrow> i \<in> set (ids_of db))"

lemma owned_step: "db_ok db \<Longrightarrow> owned db \<Longrightarrow> owned (ds_step True enc op db)"
proof (cases op)
  case (Ds_Create now d)
  assume "owned db"
  then show ?thesis
    using Ds_Create has_secret_create [of enc now d db] create_ids [of enc now d db]
    by (auto simp: owned_def split: sum.splits)
next
  case (Ds_Credentials slug u pw)
  assume owned: "owned db"
  have "dv_id r \<in> set (ids_of db)" if "ds_get slug db = Some r" for r
    using that row_find_key by (fastforce simp: ds_get_def ids_of_def)
  then show ?thesis
    using owned Ds_Credentials by (auto simp: owned_def secrets_credentials has_secret_credentials)
next
  case (Ds_Delete slug)
  assume ok: "db_ok db" and owned: "owned db"
  show ?thesis
  proof (cases "ds_get slug db")
    case (Some r)
    have r: "r \<in> set (devices db)" "dv_slug r = slug"
      using Some row_find_key unfolding ds_get_def by fastforce+
    have "i \<in> set (ids_of (snd (ds_delete True slug db)))"
      if i: "i \<in> set (ids_of db)" "i \<noteq> dv_id r" for i
    proof -
      obtain x where x: "x \<in> set (devices db)" "dv_id x = i" using i(1) by (auto simp: ids_of_def)
      have "dv_slug x \<noteq> slug"
        using ok x r i(2) by (metis db_ok_def distinct_map inj_onD)
      then show ?thesis using x Some by (auto simp: ds_delete_def ids_of_def row_delete_def)
    qed
    then show ?thesis
      using Ds_Delete Some owned unfolding owned_def
      by (auto simp: ds_delete_def has_secret_iff)
  qed (use Ds_Delete owned in \<open>simp add: ds_delete_def\<close>)
qed (simp_all add: edit_ops owned_def edit_secrets ids_set_default)

lemma owned_run: "db_ok db \<Longrightarrow> owned db \<Longrightarrow> owned (ds_run True enc ops db)"
  by (induction ops arbitrary: db) (simp_all add: owned_step step_ok)

lemma owned_create:
  assumes "owned db" "ds_get (c_slug d) db = None"
  shows "\<not> isl (ds_create enc now d db)"
proof -
  have "\<not> has_secret db (next_id db)"
    using assms(1) id_below_next [of "next_id db" db] unfolding owned_def by blast
  then show ?thesis using assms(2) by (simp add: ds_create_def Let_def has_secret_def)
qed

text \<open>
  What happens to registration once the newest device has been deleted. Where the database enforces
  foreign keys, a device with an unused slug can be registered after any operations. Where it does not
  (SQLite as \<^verbatim>\<open>make_engine\<close> opens it), the deleted device's password stays behind under an identifier
  that the next device would get: every later registration fails with an integrity error, whatever else is
  done through the store.
\<close>

theorem registration_after_delete:
  assumes "ds_get slug (ds_run fk enc ops no_devices) = Some r"
    and "\<forall>x\<in>set (devices (ds_run fk enc ops no_devices)). dv_id x \<le> dv_id r"
  shows "if fk
    then ds_get (c_slug d) (ds_run fk enc (ops @ Ds_Delete slug # later) no_devices) = None
      \<longrightarrow> \<not> isl (ds_create enc now d (ds_run fk enc (ops @ Ds_Delete slug # later) no_devices))
    else isl (ds_create enc now d (ds_run fk enc (ops @ Ds_Delete slug # later) no_devices))"
proof (cases fk)
  case True
  have "owned no_devices" by (simp add: owned_def has_secret_def rpc_secret_def no_devices_def)
  then have "owned (ds_run True enc (ops @ Ds_Delete slug # later) no_devices)"
    by (rule owned_run [OF no_devices_ok])
  then show ?thesis using owned_create True by simp
next
  case False
  let ?db = "ds_run False enc ops no_devices"
  have used: "all_used (next_id ?db) ?db"
    by (rule used_run) (simp add: all_used_def next_id_def no_devices_def)
  have "r \<in> set (devices ?db)" using assms(1) False row_find_key by (fastforce simp: ds_get_def)
  then have "foldr max (ids_of ?db) 0 = dv_id r"
    using assms(2) False foldr_max_ge [of "dv_id r" "ids_of ?db"] foldr_max_le [of "ids_of ?db" "dv_id r"]
    by (auto simp: ids_of_def intro: antisym)
  then have "stuck (snd (ds_delete False slug ?db))"
    using delete_newest_sticks [OF used, of slug r] assms(1) False by (simp add: next_id_ids run_ok)
  then show ?thesis using False stuck_create stuck_run by simp
qed

definition sample_device :: device_create where
  "sample_device = \<lparr>c_slug = ''slate'', c_label = ''Slate'', c_model = ''slate-7-pro'', c_host = ''192.168.8.1'',
     c_rpc_port = 443, c_rpc_scheme = ''https'', c_ssh_port = 22, c_rpc_username = ''root'',
     c_rpc_password = ''secret'', c_notes = [], c_security_label = [], c_default = False\<rparr>"

theorem registration_after_delete_witness:
  "ds_create id 2 sample_device (ds_run False id ([Ds_Create 1 sample_device] @ Ds_Delete ''slate'' # []) no_devices)
     = Inl Integrity_Error
   \<and> isl (ds_create id 2 sample_device
       (ds_run False id ([Ds_Create 1 sample_device] @ Ds_Delete ''slate'' # []) no_devices))"
proof
  show "ds_create id 2 sample_device
      (ds_run False id ([Ds_Create 1 sample_device] @ Ds_Delete ''slate'' # []) no_devices) = Inl Integrity_Error"
    by code_simp
  let ?r = "new_device_row 1 sample_device 1"
  have "ds_get ''slate'' (ds_run False id [Ds_Create 1 sample_device] no_devices) = Some ?r" by code_simp
  moreover have "\<forall>x\<in>set (devices (ds_run False id [Ds_Create 1 sample_device] no_devices)). dv_id x \<le> dv_id ?r"
    by code_simp
  ultimately show "isl (ds_create id 2 sample_device
      (ds_run False id ([Ds_Create 1 sample_device] @ Ds_Delete ''slate'' # []) no_devices))"
    using registration_after_delete [of "''slate''" False id "[Ds_Create 1 sample_device]" ?r sample_device "[]" 2]
    by simp
qed

end
