(* ===== verification/Slate_Ssh.thy ===== *)
theory Slate_Ssh
  imports Shell_Quote
begin

text \<open>
  The SSH connection to a device (\<^verbatim>\<open>backend/app/slate/ssh.py\<close>): one connection at a time, opened on
  demand, whose host key is recorded on first use and checked ever after.

  A connection is a value of type \<open>'p\<close>; \<open>live p\<close> is its exported host key, \<^const>\<open>None\<close> when asyncssh
  gives none or the export raises. What a use of the connection meets is the input \<open>connect_env\<close>: whether
  the transport is still open, what the resolver answers, and the outcome of each attempt to connect.
  \<open>hostname\<close> is \<^verbatim>\<open>urlparse(url).hostname\<close>. The waits between attempts and the logs are not modelled; a
  failing persistence callback is logged and ignored, so it has no outcome here.
\<close>

section \<open>Host keys\<close>

text \<open>\<^verbatim>\<open>pk.strip().split(None, 2)\<close>, of which only the first two words are used.\<close>

definition normalize_pubkey :: "string \<Rightarrow> string" where
  "normalize_pubkey pk =
     (case py_split_ws (py_strip pk) of
        a # b # _ \<Rightarrow> a @ '' '' @ b
      | _ \<Rightarrow> py_strip pk)"

definition pubkeys_equal :: "string \<Rightarrow> string \<Rightarrow> bool" where
  "pubkeys_equal a b \<longleftrightarrow> normalize_pubkey a = normalize_pubkey b"

definition ssh_extract_host :: "(string \<Rightarrow> string option) \<Rightarrow> string \<Rightarrow> string" where
  "ssh_extract_host hostname slate_url =
     (if \<not> py_contains ''://'' slate_url then fst (py_partition (CHR ''/'') slate_url)
      else case hostname slate_url of Some h \<Rightarrow> h | None \<Rightarrow> slate_url)"

section \<open>Connecting\<close>

record 'p slate_ssh =
  sh_host :: string
  sh_username :: string
  sh_password :: string
  sh_port :: int
  sh_pem :: "string option"
  sh_resolver :: bool
  sh_expected :: string
  sh_callback :: bool
  sh_conn :: "'p option"

datatype ssh_error =
  Connect_Failed string | Host_Key_Mismatch | Run_Failed string | Upload_Failed string

datatype ssh_event = Persist_Key string | Mark_Failed string

record 'p connect_env =
  ce_alive :: bool
  ce_active :: string
  ce_candidates :: "string list"
  ce_attempt :: "nat \<Rightarrow> 'p option"

definition make_ssh ::
  "(string \<Rightarrow> string option) \<Rightarrow> string \<Rightarrow> string \<Rightarrow> string \<Rightarrow> int \<Rightarrow> string option \<Rightarrow> bool \<Rightarrow> string \<Rightarrow> bool \<Rightarrow> 'p slate_ssh" where
  "make_ssh hostname url username password port pem resolver expected callback =
     \<lparr>sh_host = ssh_extract_host hostname url, sh_username = username, sh_password = password,
      sh_port = port, sh_pem = pem, sh_resolver = resolver, sh_expected = py_strip expected,
      sh_callback = callback, sh_conn = None\<rparr>"

definition auth_mode :: "'p slate_ssh \<Rightarrow> string" where
  "auth_mode s = (case sh_pem s of Some (c # cs) \<Rightarrow> ''key'' | _ \<Rightarrow> ''password'')"

definition drop_conn :: "'p slate_ssh \<Rightarrow> 'p slate_ssh" where
  "drop_conn s = s\<lparr>sh_conn := None\<rparr>"

definition use_private_key :: "string option \<Rightarrow> 'p slate_ssh \<Rightarrow> 'p slate_ssh" where
  "use_private_key pem s = drop_conn (s\<lparr>sh_pem := pem\<rparr>)"

text \<open>
  The check of the host key after a connection: nothing to check when it cannot be read; with a pin,
  equality up to the comment or the connection is dropped; without one, the live key becomes the pin when
  there is a callback to persist it.
\<close>

definition verify_or_record ::
  "('p \<Rightarrow> string option) \<Rightarrow> 'p \<Rightarrow> 'p slate_ssh \<Rightarrow> ssh_error option \<times> 'p slate_ssh \<times> ssh_event list" where
  "verify_or_record live p s =
     (case live p of
        None \<Rightarrow> (None, s, [])
      | Some k \<Rightarrow>
          let lk = py_strip k in
          if sh_expected s \<noteq> [] then
            if pubkeys_equal lk (sh_expected s) then (None, s, [])
            else (Some Host_Key_Mismatch, drop_conn s, [])
          else if sh_callback s then (None, s\<lparr>sh_expected := lk\<rparr>, [Persist_Key lk])
          else (None, s, []))"

text \<open>At most three attempts; the first that succeeds counts.\<close>

definition try_connect :: "'p connect_env \<Rightarrow> 'p option" where
  "try_connect env = (case filter (\<lambda>a. a \<noteq> None) (map (ce_attempt env) [0, 1, 2]) of [] \<Rightarrow> None | a # _ \<Rightarrow> a)"

definition ensure_connected ::
  "(string \<Rightarrow> string option) \<Rightarrow> ('p \<Rightarrow> string option) \<Rightarrow> 'p connect_env \<Rightarrow> 'p slate_ssh
   \<Rightarrow> (ssh_error + 'p) \<times> 'p slate_ssh \<times> ssh_event list" where
  "ensure_connected hostname live env s =
     (case (if ce_alive env then sh_conn s else None) of
        Some p \<Rightarrow> (Inr p, s, [])
      | None \<Rightarrow>
          let s1 = drop_conn s;
              s2 = (if sh_resolver s1 then s1\<lparr>sh_host := ssh_extract_host hostname (ce_active env)\<rparr> else s1)
          in case try_connect env of
            None \<Rightarrow>
              (Inl (Connect_Failed (sh_host s2)), s2,
               if sh_resolver s2
               then (case find (\<lambda>c. ssh_extract_host hostname c = sh_host s2) (ce_candidates env) of
                       Some c \<Rightarrow> [Mark_Failed c] | None \<Rightarrow> [])
               else [])
          | Some p \<Rightarrow>
              (case verify_or_record live p (s2\<lparr>sh_conn := Some p\<rparr>) of
                 (Some e, s3, evs) \<Rightarrow> (Inl e, s3, evs)
               | (None, s3, evs) \<Rightarrow> (Inr p, s3, evs)))"

section \<open>Commands and uploads\<close>

text \<open>
  What a command on a connection comes to: an exception of the transport, or an exit status with the
  output streams. \<open>exec\<close> is given the device's state, the connection, the command and the bytes for its
  standard input.
\<close>

datatype exec_result = Raised | Exited int string string

type_synonym ('d, 'p) exec = "'d \<Rightarrow> 'p \<Rightarrow> string \<Rightarrow> string \<Rightarrow> 'd \<times> exec_result"

definition ssh_run ::
  "(string \<Rightarrow> string option) \<Rightarrow> ('p \<Rightarrow> string option) \<Rightarrow> ('d, 'p) exec \<Rightarrow> 'p connect_env \<Rightarrow> string
   \<Rightarrow> 'd \<times> 'p slate_ssh \<Rightarrow> (ssh_error + string \<times> string \<times> int) \<times> ('d \<times> 'p slate_ssh) \<times> 'p option \<times> ssh_event list" where
  "ssh_run hostname live exec env command st =
     (case st of (d, s) \<Rightarrow>
        case ensure_connected hostname live env s of
          (Inl e, s1, evs) \<Rightarrow> (Inl e, (d, s1), None, evs)
        | (Inr p, s1, evs) \<Rightarrow>
            (case exec d p command [] of
               (d1, Raised) \<Rightarrow> (Inl (Run_Failed command), (d1, drop_conn s1), Some p, evs)
             | (d1, Exited rc out err) \<Rightarrow> (Inr (out, err, rc), (d1, s1), Some p, evs)))"

fun octal :: "nat \<Rightarrow> string" where
  "octal n = (if n < 8 then [digit_char n] else octal (n div 8) @ [digit_char (n mod 8)])"

text \<open>The upload's steps on an open connection, with the clean-up whose failure is suppressed.\<close>

definition upload_steps ::
  "('d, 'p) exec \<Rightarrow> 'p \<Rightarrow> string \<Rightarrow> string \<Rightarrow> nat \<Rightarrow> 'd \<Rightarrow> 'd \<times> ssh_error option \<times> bool" where
  "upload_steps exec p payload remote_path mode d =
     (let q_tmp = shlex_quote (remote_path @ ''.tmp''); q_target = shlex_quote remote_path in
      case exec d p (''cat > '' @ q_tmp) payload of
        (d1, Raised) \<Rightarrow> (d1, Some (Upload_Failed remote_path), True)
      | (d1, Exited rc _ _) \<Rightarrow>
          if rc \<noteq> 0 then (d1, Some (Upload_Failed remote_path), False)
          else (case exec d1 p (''chmod '' @ octal mode @ '' '' @ q_tmp @ '' && mv '' @ q_tmp @ '' '' @ q_target) [] of
              (d2, Raised) \<Rightarrow> (d2, Some (Upload_Failed remote_path), True)
            | (d2, Exited rc2 _ _) \<Rightarrow>
                if rc2 \<noteq> 0 then (fst (exec d2 p (''rm -f '' @ q_tmp) []), Some (Upload_Failed remote_path), False)
                else (d2, None, False)))"

definition put_bytes ::
  "(string \<Rightarrow> string option) \<Rightarrow> ('p \<Rightarrow> string option) \<Rightarrow> ('d, 'p) exec \<Rightarrow> 'p connect_env \<Rightarrow> string \<Rightarrow> string \<Rightarrow> nat
   \<Rightarrow> 'd \<times> 'p slate_ssh \<Rightarrow> ssh_error option \<times> ('d \<times> 'p slate_ssh) \<times> 'p option \<times> ssh_event list" where
  "put_bytes hostname live exec env payload remote_path mode st =
     (case st of (d, s) \<Rightarrow>
        case ensure_connected hostname live env s of
          (Inl e, s1, evs) \<Rightarrow> (Some e, (d, s1), None, evs)
        | (Inr p, s1, evs) \<Rightarrow>
            (case upload_steps exec p payload remote_path mode d of
               (d1, res, broken) \<Rightarrow> (res, (d1, if broken then drop_conn s1 else s1), Some p, evs)))"

section \<open>Trust on first use\<close>

datatype 'p ssh_use =
  Use_Run "'p connect_env" string
| Use_Put "'p connect_env" string string nat
| Use_Key "string option"
| Use_Close

text \<open>One use of the connection, with the peer it gave a command to.\<close>

fun use_step ::
  "(string \<Rightarrow> string option) \<Rightarrow> ('p \<Rightarrow> string option) \<Rightarrow> ('d, 'p) exec \<Rightarrow> 'd \<times> 'p slate_ssh \<Rightarrow> 'p ssh_use
   \<Rightarrow> ('d \<times> 'p slate_ssh) \<times> 'p option" where
  "use_step hostname live exec st (Use_Run env cmd) =
     (case ssh_run hostname live exec env cmd st of (_, st1, p, _) \<Rightarrow> (st1, p))"
| "use_step hostname live exec st (Use_Put env payload path mode) =
     (case put_bytes hostname live exec env payload path mode st of (_, st1, p, _) \<Rightarrow> (st1, p))"
| "use_step hostname live exec (d, s) (Use_Key pem) = ((d, use_private_key pem s), None)"
| "use_step hostname live exec (d, s) Use_Close = ((d, drop_conn s), None)"

fun served ::
  "(string \<Rightarrow> string option) \<Rightarrow> ('p \<Rightarrow> string option) \<Rightarrow> ('d, 'p) exec \<Rightarrow> 'd \<times> 'p slate_ssh \<Rightarrow> 'p ssh_use list
   \<Rightarrow> 'p list" where
  "served hostname live exec st [] = []"
| "served hostname live exec st (u # us) =
     (case use_step hostname live exec st u of
        (st1, None) \<Rightarrow> served hostname live exec st1 us
      | (st1, Some p) \<Rightarrow> p # served hostname live exec st1 us)"

lemma normalize_strip [simp]: "normalize_pubkey (py_strip k) = normalize_pubkey k"
  by (simp add: normalize_pubkey_def split: list.split)

text \<open>An exported key is never blank: asyncssh writes the algorithm and the encoded key.\<close>

definition keys_nonblank :: "('p \<Rightarrow> string option) \<Rightarrow> bool" where
  "keys_nonblank live \<longleftrightarrow> (\<forall>p k. live p = Some k \<longrightarrow> py_strip k \<noteq> [])"

text \<open>The peer's key, where it can be read, is the pinned one.\<close>

definition peer_trusted :: "('p \<Rightarrow> string option) \<Rightarrow> 'p slate_ssh \<Rightarrow> 'p \<Rightarrow> bool" where
  "peer_trusted live s p \<longleftrightarrow>
     (case live p of None \<Rightarrow> True
      | Some k \<Rightarrow> sh_expected s \<noteq> [] \<and> pubkeys_equal k (sh_expected s))"

definition conn_trusted :: "('p \<Rightarrow> string option) \<Rightarrow> 'p slate_ssh \<Rightarrow> bool" where
  "conn_trusted live s \<longleftrightarrow> sh_callback s \<and> (case sh_conn s of None \<Rightarrow> True | Some p \<Rightarrow> peer_trusted live s p)"

text \<open>The pin, once there, never changes.\<close>

definition pin_kept :: "'p slate_ssh \<Rightarrow> 'p slate_ssh \<Rightarrow> bool" where
  "pin_kept s s' \<longleftrightarrow> (sh_expected s \<noteq> [] \<longrightarrow> sh_expected s' = sh_expected s)"

lemma trusted_simps [simp]:
  "conn_trusted live (drop_conn s) \<longleftrightarrow> sh_callback s" "pin_kept s (drop_conn s')  \<longleftrightarrow> pin_kept s s'"
  "conn_trusted live (use_private_key pem s) \<longleftrightarrow> sh_callback s" "pin_kept s s"
  "sh_callback (drop_conn s) = sh_callback s" "sh_expected (drop_conn s) = sh_expected s"
  "pin_kept s (use_private_key pem s)" "peer_trusted live (drop_conn s) p = peer_trusted live s p"
  by (simp_all add: conn_trusted_def drop_conn_def pin_kept_def use_private_key_def peer_trusted_def split: option.split)

lemma verify_cases:
  assumes "verify_or_record live p s = (e, s1, evs)" "sh_callback s"
    and "keys_nonblank live"
  shows "sh_callback s1 \<and> pin_kept s s1
    \<and> (if e = None then sh_conn s1 = sh_conn s \<and> peer_trusted live s1 p else sh_conn s1 = None)"
  using assms
  by (auto simp: keys_nonblank_def verify_or_record_def peer_trusted_def pin_kept_def pubkeys_equal_def drop_conn_def Let_def
      split: option.splits if_splits)

lemma ensure_trusted:
  assumes "ensure_connected hostname live env s = (r, s1, evs)" "conn_trusted live s"
    and "keys_nonblank live"
  shows "conn_trusted live s1 \<and> pin_kept s s1 \<and> (case r of Inl _ \<Rightarrow> True | Inr p \<Rightarrow> peer_trusted live s1 p)"
proof (cases "if ce_alive env then sh_conn s else None")
  case (Some p)
  then show ?thesis using assms(1,2)
    by (auto simp: ensure_connected_def conn_trusted_def split: if_splits)
next
  case None
  define s2 where "s2 = (if sh_resolver (drop_conn s)
    then drop_conn s\<lparr>sh_host := ssh_extract_host hostname (ce_active env)\<rparr> else drop_conn s)"
  have s2: "sh_callback s2" "sh_expected s2 = sh_expected s" "sh_conn s2 = None"
    using assms(2) by (auto simp: s2_def conn_trusted_def drop_conn_def)
  show ?thesis
  proof (cases "try_connect env")
    case None
    then have "s1 = s2" "isl r"
      using assms(1) \<open>(if ce_alive env then sh_conn s else None) = None\<close>
      by (auto simp: ensure_connected_def s2_def Let_def)
    then show ?thesis using s2 by (auto simp: conn_trusted_def pin_kept_def split: sum.splits)
  next
    case (Some p)
    obtain e s3 evs3 where v: "verify_or_record live p (s2\<lparr>sh_conn := Some p\<rparr>) = (e, s3, evs3)"
      by (cases "verify_or_record live p (s2\<lparr>sh_conn := Some p\<rparr>)")
    have "s1 = s3 \<and> r = (case e of Some x \<Rightarrow> Inl x | None \<Rightarrow> Inr p)"
      using assms(1) Some v \<open>(if ce_alive env then sh_conn s else None) = None\<close>
      by (auto simp: ensure_connected_def s2_def [symmetric] Let_def split: option.splits)
    moreover have "sh_callback s3 \<and> pin_kept (s2\<lparr>sh_conn := Some p\<rparr>) s3
      \<and> (if e = None then sh_conn s3 = Some p \<and> peer_trusted live s3 p else sh_conn s3 = None)"
      using verify_cases [OF v] s2(1) assms(3) by fastforce
    ultimately show ?thesis
      using s2 by (auto simp: conn_trusted_def pin_kept_def split: option.splits if_splits)
  qed
qed

lemma use_step_trusted:
  assumes "use_step hostname live exec (d, s) u = ((d1, s1), po)" "conn_trusted live s"
    and "keys_nonblank live"
  shows "conn_trusted live s1 \<and> pin_kept s s1 \<and> (case po of None \<Rightarrow> True | Some p \<Rightarrow> peer_trusted live s1 p)"
proof -
  have cb: "conn_trusted live s2 \<Longrightarrow> sh_callback s2" for s2
    by (simp add: conn_trusted_def)
  show ?thesis
  proof (cases u)
    case (Use_Run env cmd)
    obtain r s2 evs where e: "ensure_connected hostname live env s = (r, s2, evs)"
      by (cases "ensure_connected hostname live env s")
    show ?thesis
      using assms(1) Use_Run e ensure_trusted [OF e assms(2,3)]
      by (auto simp: ssh_run_def cb split: sum.splits prod.splits exec_result.splits)
  next
    case (Use_Put env payload path mode)
    obtain r s2 evs where e: "ensure_connected hostname live env s = (r, s2, evs)"
      by (cases "ensure_connected hostname live env s")
    show ?thesis
      using assms(1) Use_Put e ensure_trusted [OF e assms(2,3)]
      by (auto simp: put_bytes_def cb split: sum.splits prod.splits if_splits)
  qed (use assms in \<open>auto simp: cb\<close>)
qed

lemma served_trusted:
  assumes "conn_trusted live s" and nonblank: "keys_nonblank live"
  shows "\<exists>pin. (sh_expected s \<noteq> [] \<longrightarrow> pin = sh_expected s)
    \<and> (\<forall>p\<in>set (served hostname live exec (d, s) us). \<forall>k. live p = Some k \<longrightarrow> pubkeys_equal k pin)"
  using assms(1)
proof (induction us arbitrary: d s)
  case (Cons u us)
  obtain d1 s1 po where st: "use_step hostname live exec (d, s) u = ((d1, s1), po)"
    by (metis prod.collapse)
  note t = use_step_trusted [OF st Cons.prems nonblank]
  then have "conn_trusted live s1" by simp
  from Cons.IH [OF this, of d1] obtain pin where pin:
    "sh_expected s1 \<noteq> [] \<longrightarrow> pin = sh_expected s1"
    "\<forall>p\<in>set (served hostname live exec (d1, s1) us). \<forall>k. live p = Some k \<longrightarrow> pubkeys_equal k pin"
    by blast
  have "sh_expected s \<noteq> [] \<longrightarrow> pin = sh_expected s" using pin(1) t by (auto simp: pin_kept_def)
  moreover have "pubkeys_equal k pin" if "po = Some p" "live p = Some k" for p k
    using t that pin(1) by (simp add: peer_trusted_def)
  ultimately show ?case using pin(2) st by (intro exI [of _ pin]) (auto split: option.splits)
qed auto

text \<open>
  C23. A device's SSH connection trusts on first use: whatever runs, uploads, key swaps, disconnections and
  failed attempts happen, any two peers that were given a command and whose host keys could be read have
  the same key up to its comment, which is the stored pin when there was one. A key that cannot be read is
  not checked.
\<close>

theorem trust_on_first_use:
  assumes "sh_conn s = None" "sh_callback s"
    and "keys_nonblank live"
    and "p \<in> set (served hostname live exec (d, s) us)" "live p = Some k"
  shows "(sh_expected s \<noteq> [] \<longrightarrow> pubkeys_equal k (sh_expected s))
    \<and> (\<forall>q\<in>set (served hostname live exec (d, s) us). \<forall>k'. live q = Some k' \<longrightarrow> pubkeys_equal k k')"
proof -
  have "conn_trusted live s" using assms(1,2) by (simp add: conn_trusted_def)
  from served_trusted [OF this assms(3), where hostname = hostname and exec = exec and d = d and us = us] obtain pin where
    pin: "sh_expected s \<noteq> [] \<longrightarrow> pin = sh_expected s"
    and all: "\<forall>p\<in>set (served hostname live exec (d, s) us). \<forall>k. live p = Some k \<longrightarrow> pubkeys_equal k pin"
    by blast
  have k: "pubkeys_equal k pin" using all assms(4,5) by blast
  moreover have "pubkeys_equal k k'"
    if "q \<in> set (served hostname live exec (d, s) us)" "live q = Some k'" for q k'
  proof -
    have "pubkeys_equal k' pin" using all that by blast
    then show ?thesis using k unfolding pubkeys_equal_def by (rule trans [OF _ sym, rotated])
  qed
  ultimately show ?thesis using pin by blast
qed

text \<open>The device answers, its key is recorded, and a second host that takes its place gets nothing.\<close>

definition sample_env :: "nat \<Rightarrow> nat connect_env" where
  "sample_env peer = \<lparr>ce_alive = False, ce_active = [], ce_candidates = [], ce_attempt = (\<lambda>_. Some peer)\<rparr>"

definition sample_live :: "nat \<Rightarrow> string option" where
  "sample_live n = Some (if n = 0 then ''ssh-ed25519 AAAA slate'' else ''ssh-ed25519 BBBB'')"

definition sample_exec :: "(unit, nat) exec" where
  "sample_exec d p cmd input = (d, Exited 0 [] [])"

definition sample_ssh :: "nat slate_ssh" where
  "sample_ssh = make_ssh (\<lambda>_. None) ''192.168.8.1'' ''root'' ''pw'' 22 None False [] True"

theorem trust_on_first_use_witness:
  "served (\<lambda>_. None) sample_live sample_exec ((), sample_ssh)
     [Use_Run (sample_env 0) ''ls'', Use_Run (sample_env 1) ''ls'', Use_Run (sample_env 0) ''ls''] = [0, 0]
   \<and> pubkeys_equal ''ssh-ed25519 AAAA slate'' ''ssh-ed25519 AAAA slate''"
proof
  let ?us = "[Use_Run (sample_env 0) ''ls'', Use_Run (sample_env 1) ''ls'', Use_Run (sample_env 0) ''ls'']"
  show s: "served (\<lambda>_. None) sample_live sample_exec ((), sample_ssh) ?us = [0, 0]" by code_simp
  have key: "sample_live 0 = Some ''ssh-ed25519 AAAA slate''" by (simp add: sample_live_def)
  have "py_strip ''ssh-ed25519 AAAA slate'' \<noteq> []" "py_strip ''ssh-ed25519 BBBB'' \<noteq> []" by code_simp+
  then have nonblank: "keys_nonblank sample_live"
    by (simp add: keys_nonblank_def sample_live_def)
  have "sh_conn sample_ssh = None" "sh_callback sample_ssh" by (simp_all add: sample_ssh_def make_ssh_def)
  moreover have mem: "0 \<in> set (served (\<lambda>_. None) sample_live sample_exec ((), sample_ssh) ?us)"
    unfolding s by simp
  ultimately have "\<forall>q\<in>set (served (\<lambda>_. None) sample_live sample_exec ((), sample_ssh) ?us).
      \<forall>k'. sample_live q = Some k' \<longrightarrow> pubkeys_equal ''ssh-ed25519 AAAA slate'' k'"
    by (rule trust_on_first_use [OF _ _ nonblank _ key, THEN conjunct2])
  then show "pubkeys_equal ''ssh-ed25519 AAAA slate'' ''ssh-ed25519 AAAA slate''"
    using mem key by blast
qed

end
