(* ===== verification/Slate_Client.thy ===== *)
theory Slate_Client
  imports Prelude
begin

text \<open>
  The JSON-RPC client of a device (\<^verbatim>\<open>backend/app/slate/client.py\<close>): a session opened on demand behind a
  circuit breaker. pyglinet and the sockets are inputs: whether the TCP probe connects, how the login and
  the requests end. Instants are microseconds of the event loop's clock.
\<close>

section \<open>State\<close>

definition normalize_url :: "string \<Rightarrow> string" where
  "normalize_url url =
     (let stripped = rstrip_by (\<lambda>c. c = CHR ''/'') url
      in if ends_with ''/rpc'' stripped then stripped else stripped @ ''/rpc'')"

definition remove_rpc :: "string \<Rightarrow> string" where
  "remove_rpc url = (if ends_with ''/rpc'' url then take (length url - 4) url else url)"

definition tls_pin :: "string \<Rightarrow> string" where
  "tls_pin fp = py_lower (filter (\<lambda>c. c \<noteq> CHR '':'') fp)"

record rpc_client =
  cl_url :: string
  cl_username :: string
  cl_password :: string
  cl_resolver :: bool
  cl_pin :: string
  cl_session :: bool
  cl_failures :: nat
  cl_open_until :: instant

datatype client_error = Breaker_Open | No_Tcp | Login_Timeout_Err | Login_Err | Rpc_Timeout | Rpc_Error string

datatype login_outcome = Login_Ok | Login_Timeout | Login_Failed

record connect_inputs =
  before_lock :: instant
  in_lock :: instant
  ci_active :: string
  tcp_ok :: bool
  login :: login_outcome
  at_failure :: instant

datatype net_event = Tcp_Probe string | Login string | Logout | Url_Failed string | Request

definition CB_FAILURE_THRESHOLD :: nat where "CB_FAILURE_THRESHOLD = 3"
definition CB_OPEN_DURATION :: int where "CB_OPEN_DURATION = seconds 30"

definition make_client :: "string \<Rightarrow> string \<Rightarrow> string \<Rightarrow> bool \<Rightarrow> string \<Rightarrow> rpc_client" where
  "make_client url username password resolver fingerprint =
     \<lparr>cl_url = normalize_url url, cl_username = username, cl_password = password, cl_resolver = resolver,
      cl_pin = tls_pin fingerprint, cl_session = False, cl_failures = 0, cl_open_until = 0\<rparr>"

section \<open>The breaker\<close>

definition cl_record_failure :: "instant \<Rightarrow> rpc_client \<Rightarrow> rpc_client" where
  "cl_record_failure now c =
     (let c1 = c\<lparr>cl_failures := Suc (cl_failures c)\<rparr>
      in if CB_FAILURE_THRESHOLD \<le> cl_failures c1 then c1\<lparr>cl_open_until := now + CB_OPEN_DURATION\<rparr> else c1)"

definition cl_record_success :: "rpc_client \<Rightarrow> rpc_client" where
  "cl_record_success c = c\<lparr>cl_failures := 0, cl_open_until := 0\<rparr>"

record circuit_state =
  cs_open :: bool
  cs_failures :: nat
  cs_remaining :: instant

definition cl_circuit_state :: "instant \<Rightarrow> rpc_client \<Rightarrow> circuit_state" where
  "cl_circuit_state now c =
     (let remaining = max 0 (cl_open_until c - now)
      in \<lparr>cs_open = 0 < remaining, cs_failures = cl_failures c, cs_remaining = remaining\<rparr>)"

definition cl_force_reset :: "rpc_client \<Rightarrow> rpc_client" where
  "cl_force_reset c = c\<lparr>cl_session := False, cl_failures := 0, cl_open_until := 0\<rparr>"

definition cl_disconnect :: "rpc_client \<Rightarrow> rpc_client \<times> net_event list" where
  "cl_disconnect c = (if cl_session c then (c\<lparr>cl_session := False\<rparr>, [Logout]) else (c, []))"

section \<open>Connecting and calling\<close>

definition connect_failed ::
  "client_error \<Rightarrow> connect_inputs \<Rightarrow> string \<Rightarrow> rpc_client \<Rightarrow> net_event list
   \<Rightarrow> client_error option \<times> rpc_client \<times> net_event list" where
  "connect_failed e env target c evs =
     (Some e, cl_record_failure (at_failure env) c,
      evs @ (if cl_resolver c then [Url_Failed (remove_rpc target)] else []))"

definition cl_connect ::
  "connect_inputs \<Rightarrow> rpc_client \<Rightarrow> client_error option \<times> rpc_client \<times> net_event list" where
  "cl_connect env c =
     (if before_lock env < cl_open_until c then (Some Breaker_Open, c, [])
      else if in_lock env < cl_open_until c then (Some Breaker_Open, c, [])
      else let target = (if cl_resolver c then normalize_url (ci_active env) else cl_url c) in
        if cl_session c \<and> target = cl_url c then (None, c, [])
        else
          let evs0 = (if cl_session c then [Logout] else []);
              c1 = c\<lparr>cl_session := False, cl_url := target\<rparr>
          in if \<not> tcp_ok env then connect_failed No_Tcp env target c1 (evs0 @ [Tcp_Probe target])
             else case login env of
               Login_Ok \<Rightarrow>
                 (None, cl_record_success (c1\<lparr>cl_session := True\<rparr>), evs0 @ [Tcp_Probe target, Login target])
             | Login_Timeout \<Rightarrow>
                 connect_failed Login_Timeout_Err env target c1 (evs0 @ [Tcp_Probe target, Login target])
             | Login_Failed \<Rightarrow>
                 connect_failed Login_Err env target c1 (evs0 @ [Tcp_Probe target, Login target]))"

datatype request_outcome = Answer | Call_Timeout instant | Call_Error string

definition session_lost :: "string \<Rightarrow> bool" where
  "session_lost err =
     (let error_text = py_lower err
      in list_ex (\<lambda>m. py_contains m error_text) [''auth'', ''sid'', ''session'', ''unauthorized''])"

record call_inputs =
  connect1 :: connect_inputs
  request1 :: request_outcome
  connect2 :: connect_inputs
  request2 :: request_outcome

text \<open>The retry after a lost session: no breaker bookkeeping, every exception is an RPC error.\<close>

definition retry_call ::
  "call_inputs \<Rightarrow> rpc_client \<Rightarrow> client_error option \<times> rpc_client \<times> net_event list" where
  "retry_call env c =
     (case cl_disconnect c of (c1, evs1) \<Rightarrow>
        case cl_connect (connect2 env) c1 of
          (Some e, c2, evs2) \<Rightarrow> (Some e, c2, evs1 @ evs2)
        | (None, c2, evs2) \<Rightarrow>
            (case request2 env of
               Answer \<Rightarrow> None
             | Call_Timeout _ \<Rightarrow> Some (Rpc_Error [])
             | Call_Error err \<Rightarrow> Some (Rpc_Error err),
             c2, evs1 @ evs2 @ [Request]))"

definition cl_call :: "call_inputs \<Rightarrow> rpc_client \<Rightarrow> client_error option \<times> rpc_client \<times> net_event list" where
  "cl_call env c =
     (case cl_connect (connect1 env) c of
        (Some e, c1, evs) \<Rightarrow> (Some e, c1, evs)
      | (None, c1, evs) \<Rightarrow>
          (case request1 env of
             Answer \<Rightarrow> (None, cl_record_success c1, evs @ [Request])
           | Call_Timeout now \<Rightarrow>
               (Some Rpc_Timeout, (cl_record_failure now c1)\<lparr>cl_session := False\<rparr>, evs @ [Request])
           | Call_Error err \<Rightarrow>
               if session_lost err
               then (case retry_call env c1 of (r, c2, evs2) \<Rightarrow> (r, c2, evs @ [Request] @ evs2))
               else (Some (Rpc_Error err), c1, evs @ [Request])))"

section \<open>The breaker limits the attempts\<close>

fun cl_run :: "call_inputs list \<Rightarrow> rpc_client \<Rightarrow> rpc_client \<times> net_event list" where
  "cl_run [] c = (c, [])"
| "cl_run (env # envs) c =
     (case cl_call env c of (_, c1, evs) \<Rightarrow>
        case cl_run envs c1 of (c2, evs2) \<Rightarrow> (c2, evs @ evs2))"

definition probes :: "net_event list \<Rightarrow> nat" where
  "probes evs = length (filter (\<lambda>e. case e of Tcp_Probe _ \<Rightarrow> True | _ \<Rightarrow> False) evs)"

lemma probes_simps [simp]:
  "probes [] = 0" "probes (Tcp_Probe u # evs) = Suc (probes evs)" "probes (Login u # evs) = probes evs"
  "probes (Logout # evs) = probes evs" "probes (Url_Failed u # evs) = probes evs"
  "probes (Request # evs) = probes evs" "probes (evs @ evs') = probes evs + probes evs'"
  by (simp_all add: probes_def)

definition attempt_fails :: "connect_inputs \<Rightarrow> bool" where
  "attempt_fails env \<longleftrightarrow> \<not> tcp_ok env \<or> login env \<noteq> Login_Ok"

text \<open>How many more probes fit before the instant \<open>t\<close> plus the open duration.\<close>

definition credit :: "instant \<Rightarrow> rpc_client \<Rightarrow> nat" where
  "credit t c = (if t + CB_OPEN_DURATION \<le> cl_open_until c then 0 else max 1 (3 - cl_failures c))"

lemma credit_failure:
  assumes "t \<le> now" "\<not> t + CB_OPEN_DURATION \<le> cl_open_until c"
  shows "Suc (credit t (cl_record_failure now c)) \<le> credit t c"
  using assms by (auto simp: credit_def cl_record_failure_def CB_FAILURE_THRESHOLD_def Let_def)

lemma credit_session [simp]:
  "credit t (c\<lparr>cl_session := b\<rparr>) = credit t c" "credit t (c\<lparr>cl_session := b, cl_url := u\<rparr>) = credit t c"
  "cl_session (cl_record_failure now c) = cl_session c"
  by (simp_all add: credit_def cl_record_failure_def Let_def)

lemma connect_attempt:
  assumes "\<not> cl_session c" "\<not> (before_lock env < cl_open_until c \<or> in_lock env < cl_open_until c)"
  defines "target \<equiv> if cl_resolver c then normalize_url (ci_active env) else cl_url c"
  defines "c1 \<equiv> c\<lparr>cl_session := False, cl_url := target\<rparr>"
  shows "cl_connect env c =
    (if \<not> tcp_ok env then connect_failed No_Tcp env target c1 [Tcp_Probe target]
     else case login env of
       Login_Ok \<Rightarrow> (None, cl_record_success (c1\<lparr>cl_session := True\<rparr>), [Tcp_Probe target, Login target])
     | Login_Timeout \<Rightarrow> connect_failed Login_Timeout_Err env target c1 [Tcp_Probe target, Login target]
     | Login_Failed \<Rightarrow> connect_failed Login_Err env target c1 [Tcp_Probe target, Login target])"
  using assms(1,2) unfolding cl_connect_def Let_def c1_def target_def by (simp split: login_outcome.split)

lemma connect_credit:
  assumes "\<not> cl_session c" "attempt_fails env" "t \<le> at_failure env" "before_lock env < t + CB_OPEN_DURATION"
    and "cl_connect env c = (r, c1, evs)"
  shows "r \<noteq> None \<and> \<not> cl_session c1 \<and> probes evs + credit t c1 \<le> credit t c"
proof (cases "before_lock env < cl_open_until c \<or> in_lock env < cl_open_until c")
  case True
  then have "cl_connect env c = (Some Breaker_Open, c, [])" by (auto simp: cl_connect_def)
  then show ?thesis using assms(1,5) by simp
next
  case False
  let ?target = "if cl_resolver c then normalize_url (ci_active env) else cl_url c"
  let ?c1 = "c\<lparr>cl_session := False, cl_url := ?target\<rparr>"
  have cr: "Suc (credit t (cl_record_failure (at_failure env) ?c1)) \<le> credit t ?c1"
    using assms(3,4) False by (intro credit_failure) auto
  have eq: "(r, c1, evs) = (if \<not> tcp_ok env then connect_failed No_Tcp env ?target ?c1 [Tcp_Probe ?target]
     else case login env of
       Login_Ok \<Rightarrow> (None, cl_record_success (?c1\<lparr>cl_session := True\<rparr>), [Tcp_Probe ?target, Login ?target])
     | Login_Timeout \<Rightarrow> connect_failed Login_Timeout_Err env ?target ?c1 [Tcp_Probe ?target, Login ?target]
     | Login_Failed \<Rightarrow> connect_failed Login_Err env ?target ?c1 [Tcp_Probe ?target, Login ?target])"
    using connect_attempt [OF assms(1) False] assms(5) by metis
  obtain e evs0 where cf: "(r, c1, evs) = connect_failed e env ?target ?c1 evs0" "probes evs0 = 1"
  proof (cases "tcp_ok env")
    case False
    then have "(r, c1, evs) = connect_failed No_Tcp env ?target ?c1 [Tcp_Probe ?target]"
      unfolding eq by simp
    then show thesis by (rule that) simp
  next
    case True
    then have "\<exists>e. (r, c1, evs) = connect_failed e env ?target ?c1 [Tcp_Probe ?target, Login ?target]"
      using assms(2) unfolding eq attempt_fails_def by (cases "login env") auto
    then show thesis using that by fastforce
  qed
  show ?thesis using cr cf assms(1) by (auto simp: connect_failed_def)
qed

lemma call_credit:
  assumes "\<not> cl_session c" "attempt_fails (connect1 env)" "t \<le> at_failure (connect1 env)"
    and "before_lock (connect1 env) < t + CB_OPEN_DURATION" "cl_call env c = (r, c1, evs)"
  shows "r \<noteq> None \<and> \<not> cl_session c1 \<and> probes evs + credit t c1 \<le> credit t c"
proof -
  obtain r1 c2 evs1 where conn: "cl_connect (connect1 env) c = (r1, c2, evs1)"
    by (cases "cl_connect (connect1 env) c")
  note k = connect_credit [OF assms(1-4) conn]
  then obtain e where "r1 = Some e" by auto
  then show ?thesis using k assms(5) conn by (auto simp: cl_call_def)
qed

lemma run_credit:
  assumes "\<not> cl_session c"
    and "\<forall>env\<in>set envs. attempt_fails (connect1 env) \<and> t \<le> at_failure (connect1 env)
      \<and> before_lock (connect1 env) < t + CB_OPEN_DURATION"
  shows "probes (snd (cl_run envs c)) \<le> credit t c"
  using assms
proof (induction envs arbitrary: c)
  case (Cons env envs)
  obtain r c1 evs where call: "cl_call env c = (r, c1, evs)" by (cases "cl_call env c")
  have k: "\<not> cl_session c1 \<and> probes evs + credit t c1 \<le> credit t c"
    using call_credit [where t = t, OF Cons.prems(1) _ _ _ call] Cons.prems(2) by simp
  have "probes (snd (cl_run envs c1)) \<le> credit t c1" using Cons.IH k Cons.prems(2) by simp
  then show ?case using k call by (simp add: case_prod_beta)
qed simp

text \<open>
  C24. While a device cannot be reached, the breaker keeps the traffic down: in any thirty seconds in which
  every attempt fails, however many calls are made, at most three TCP probes are sent, and only one once
  three attempts in a row have failed before.
\<close>

theorem breaker_limits_probes:
  assumes "\<not> cl_session c"
    and "\<forall>env\<in>set envs. attempt_fails (connect1 env) \<and> t \<le> at_failure (connect1 env)
      \<and> before_lock (connect1 env) < t + CB_OPEN_DURATION"
  shows "probes (snd (cl_run envs c)) \<le> (if cl_failures c < CB_FAILURE_THRESHOLD then 3 else 1)"
  using run_credit [OF assms] unfolding credit_def CB_FAILURE_THRESHOLD_def
  by (cases "cl_failures c < 3"; cases "t + CB_OPEN_DURATION \<le> cl_open_until c") auto

definition sample_call :: "int \<Rightarrow> bool \<Rightarrow> call_inputs" where
  "sample_call s ok =
     (let env = \<lparr>before_lock = seconds s, in_lock = seconds s, ci_active = [], tcp_ok = ok, login = Login_Ok,
                 at_failure = seconds s\<rparr>
      in \<lparr>connect1 = env, request1 = Answer, connect2 = env, request2 = Answer\<rparr>)"

definition sample_client :: rpc_client where
  "sample_client = make_client ''https://192.168.8.1/'' ''root'' ''pw'' False []"

theorem breaker_limits_probes_witness:
  "probes (snd (cl_run (map (\<lambda>s. sample_call s False) [0..29]) sample_client)) = 3
   \<and> probes (snd (cl_run (map (\<lambda>s. sample_call s False) [0..29]) sample_client)) \<le> 3"
proof
  show "probes (snd (cl_run (map (\<lambda>s. sample_call s False) [0..29]) sample_client)) = 3" by code_simp
  have "\<not> cl_session sample_client" "cl_failures sample_client < CB_FAILURE_THRESHOLD"
    by (simp_all add: sample_client_def make_client_def CB_FAILURE_THRESHOLD_def)
  moreover have "\<forall>env\<in>set (map (\<lambda>s. sample_call s False) [0..29]). attempt_fails (connect1 env)
      \<and> 0 \<le> at_failure (connect1 env) \<and> before_lock (connect1 env) < 0 + CB_OPEN_DURATION"
    by (auto simp: sample_call_def attempt_fails_def CB_OPEN_DURATION_def seconds_def Let_def)
  ultimately show "probes (snd (cl_run (map (\<lambda>s. sample_call s False) [0..29]) sample_client)) \<le> 3"
    using breaker_limits_probes [of sample_client "map (\<lambda>s. sample_call s False) [0..29]" 0] by simp
qed

end
