(* ===== verification/Device_Registry.thy ===== *)
theory Device_Registry
  imports Device_Store Slate_Ssh Slate_Client Url_Resolver
begin

text \<open>
  The connections of each device, built on first use and cached by slug
  (\<^verbatim>\<open>backend/app/devices/registry.py\<close>), and the controller's SSH key pair with the ledger of the devices
  it is deployed to (\<^verbatim>\<open>backend/app/settings/ssh_keys.py\<close>). Builds are serialised by a lock; one build is
  one step here. \<open>dec\<close> and \<open>enc\<close> are the Fernet functions, as in \<^verbatim>\<open>Device_Store\<close>; freshly generated keys
  are inputs.
\<close>

section \<open>The key pair\<close>

record keypair_row =
  kp_value :: string
  kp_public :: string
  kp_fingerprint :: string
  kp_deployed :: "(string, instant) dict"
  kp_created :: instant

record keypair_status =
  ks_generated :: bool
  ks_public :: "string option"
  ks_fingerprint :: "string option"
  ks_created :: "instant option"
  ks_deployed :: bool
  ks_deployed_at :: "instant option"

record ssh_keypair =
  public_openssh :: string
  private_pem :: string
  fingerprint_sha256 :: string

datatype key_error = No_Keypair | Bad_Key

definition ks_get_status :: "string \<Rightarrow> keypair_row option \<Rightarrow> keypair_status" where
  "ks_get_status slug row =
     (case row of
        None \<Rightarrow> \<lparr>ks_generated = False, ks_public = None, ks_fingerprint = None, ks_created = None,
                 ks_deployed = False, ks_deployed_at = None\<rparr>
      | Some r \<Rightarrow>
          let at = dict_get (kp_deployed r) slug
          in \<lparr>ks_generated = True, ks_public = Some (kp_public r), ks_fingerprint = Some (kp_fingerprint r),
              ks_created = Some (kp_created r), ks_deployed = (at \<noteq> None), ks_deployed_at = at\<rparr>)"

definition ks_get_private_pem ::
  "(string \<Rightarrow> string option) \<Rightarrow> keypair_row option \<Rightarrow> key_error + string option" where
  "ks_get_private_pem dec row =
     (case row of
        None \<Rightarrow> Inr None
      | Some r \<Rightarrow> (case dec (kp_value r) of None \<Rightarrow> Inl Bad_Key | Some pem \<Rightarrow> Inr (Some pem)))"

text \<open>A new key pair empties the ledger; the row, when there is one, keeps its creation date.\<close>

definition ks_generate :: "(string \<Rightarrow> string) \<Rightarrow> instant \<Rightarrow> ssh_keypair \<Rightarrow> keypair_row option \<Rightarrow> keypair_row option" where
  "ks_generate enc now kp row =
     Some \<lparr>kp_value = enc (private_pem kp), kp_public = public_openssh kp,
           kp_fingerprint = fingerprint_sha256 kp, kp_deployed = [],
           kp_created = (case row of None \<Rightarrow> now | Some r \<Rightarrow> kp_created r)\<rparr>"

definition ks_mark_deployed ::
  "instant \<Rightarrow> string \<Rightarrow> keypair_row option \<Rightarrow> key_error + keypair_row option" where
  "ks_mark_deployed now slug row =
     (case row of
        None \<Rightarrow> Inl No_Keypair
      | Some r \<Rightarrow> Inr (Some (r\<lparr>kp_deployed := dict_set slug now (kp_deployed r)\<rparr>)))"

definition ks_revoke :: "keypair_row option \<Rightarrow> bool \<times> keypair_row option" where
  "ks_revoke row = (row \<noteq> None, None)"

definition ks_forget_device :: "string \<Rightarrow> keypair_row option \<Rightarrow> keypair_row option" where
  "ks_forget_device slug row =
     map_option (\<lambda>r. r\<lparr>kp_deployed := filter (\<lambda>(k, _). k \<noteq> slug) (kp_deployed r)\<rparr>) row"

section \<open>Connections\<close>

record 'p connections =
  cn_slug :: string
  cn_client :: rpc_client
  cn_ssh :: "'p slate_ssh"
  cn_resolver :: resolver
  cn_adguard_hosts :: "string list"

datatype registry_error =
  No_Device | Unknown_Device string | No_Credentials string | No_Address string
| Store_Error device_error | Blank_Urls

record ('d, 'p) controller =
  co_db :: device_db
  co_keys :: "keypair_row option"
  co_cache :: "(string, 'p connections) dict"
  co_dev :: 'd

text \<open>What a build meets: which hosts answer on the probe port, and the first SSH connection.\<close>

record 'p build_env =
  be_reach :: "int \<Rightarrow> string \<Rightarrow> bool"
  be_probed_at :: instant
  be_ssh :: "'p connect_env"

record ('d, 'p) runtime =
  rt_dec :: "string \<Rightarrow> string option"
  rt_enc :: "string \<Rightarrow> string"
  rt_hostname :: "string \<Rightarrow> string option"
  rt_live :: "'p \<Rightarrow> string option"
  rt_exec :: "('d, 'p) exec"

definition DEFAULT_CACHE_TTL :: int where "DEFAULT_CACHE_TTL = seconds 10"

definition default_url_for :: "string \<Rightarrow> string \<Rightarrow> int \<Rightarrow> string" where
  "default_url_for host rpc_scheme rpc_port =
     (if rpc_port \<noteq> 80 \<and> rpc_port \<noteq> 443 then rpc_scheme @ ''://'' @ host @ '':'' @ py_str rpc_port
      else rpc_scheme @ ''://'' @ host)"

definition admin_urls_of :: "device_row \<Rightarrow> string list" where
  "admin_urls_of row =
     (if dv_admin_urls row = [] \<and> dv_host row \<noteq> []
      then [default_url_for (dv_host row) (dv_rpc_scheme row) (dv_rpc_port row)] else dv_admin_urls row)"

text \<open>The persistence callback of the SSH connection, whose errors are swallowed.\<close>

definition persist_events :: "string \<Rightarrow> ssh_event list \<Rightarrow> device_db \<Rightarrow> device_db" where
  "persist_events slug evs db =
     foldl (\<lambda>db ev. case ev of
        Persist_Key k \<Rightarrow> committed (ds_update_fields slug (no_fields\<lparr>f_ssh_host_pubkey := Some k\<rparr>) db) db
      | Mark_Failed _ \<Rightarrow> db) db evs"

definition fail_events :: "ssh_event list \<Rightarrow> resolver \<Rightarrow> resolver" where
  "fail_events evs rs = foldl (\<lambda>rs ev. case ev of Persist_Key _ \<Rightarrow> rs | Mark_Failed _ \<Rightarrow> mark_failed rs) rs evs"

text \<open>Key authentication when the key pair is deployed to this device and can be read.\<close>

definition load_key ::
  "(string \<Rightarrow> string option) \<Rightarrow> string \<Rightarrow> keypair_row option \<Rightarrow> 'p slate_ssh \<Rightarrow> 'p slate_ssh" where
  "load_key dec slug keys ssh =
     (if ks_generated (ks_get_status slug keys) \<and> ks_deployed (ks_get_status slug keys)
      then case ks_get_private_pem dec keys of
        Inr (Some (c # cs)) \<Rightarrow> use_private_key (Some (c # cs)) ssh
      | _ \<Rightarrow> ssh
      else ssh)"

definition TAILSCALE_IP_CMD :: string where
  "TAILSCALE_IP_CMD = ''tailscale ip -4 2>/dev/null | head -1''"

definition adguard_hosts_of :: "string \<Rightarrow> ssh_error + string \<times> string \<times> int \<Rightarrow> string list" where
  "adguard_hosts_of host res =
     (case res of
        Inl _ \<Rightarrow> [host]
      | Inr (out, _, _) \<Rightarrow> if py_strip out \<noteq> [] \<and> py_strip out \<noteq> host then [host, py_strip out] else [host])"

definition connect_device ::
  "('d, 'p) runtime \<Rightarrow> 'p build_env \<Rightarrow> device_row \<Rightarrow> string \<Rightarrow> string \<Rightarrow> resolver \<Rightarrow> ('d, 'p) controller
   \<Rightarrow> 'p connections \<times> ('d, 'p) controller" where
  "connect_device rt env row username password rs co =
     (let slug = dv_slug row;
          port = (if dv_ssh_port row = 0 then 22 else dv_ssh_port row);
          url = active_url rs;
          client = make_client url username password True (dv_tls_fingerprint row);
          ssh0 = load_key (rt_dec rt) slug (co_keys co)
            (make_ssh (rt_hostname rt) url username password port None True (dv_ssh_host_pubkey row) True)
      in case ssh_run (rt_hostname rt) (rt_live rt) (rt_exec rt) (be_ssh env) TAILSCALE_IP_CMD (co_dev co, ssh0) of
        (res, (d1, ssh1), _, evs) \<Rightarrow>
          (\<lparr>cn_slug = slug, cn_client = client, cn_ssh = ssh1, cn_resolver = fail_events evs rs,
            cn_adguard_hosts = adguard_hosts_of (sh_host ssh0) res\<rparr>,
           co\<lparr>co_db := persist_events slug evs (co_db co), co_dev := d1\<rparr>))"

definition rg_build ::
  "('d, 'p) runtime \<Rightarrow> 'p build_env \<Rightarrow> string \<Rightarrow> ('d, 'p) controller
   \<Rightarrow> (registry_error + 'p connections) \<times> ('d, 'p) controller" where
  "rg_build rt env slug co =
     (case ds_get slug (co_db co) of
        None \<Rightarrow> (Inl (Unknown_Device slug), co)
      | Some row \<Rightarrow>
          (case ds_get_rpc_credentials (rt_dec rt) slug (co_db co) of
             Inl e \<Rightarrow> (Inl (Store_Error e), co)
           | Inr None \<Rightarrow> (Inl (No_Credentials slug), co)
           | Inr (Some (username, password)) \<Rightarrow>
               if admin_urls_of row = [] then (Inl (No_Address slug), co)
               else (case make_resolver (admin_urls_of row) DEFAULT_CACHE_TTL of
                  Inl _ \<Rightarrow> (Inl Blank_Urls, co)
                | Inr rs0 \<Rightarrow>
                    let port = (if dv_ssh_port row = 0 then 22 else dv_ssh_port row);
                        rs = snd (force_refresh (be_reach env port) (be_probed_at env) rs0)
                    in case connect_device rt env row username password rs co of
                      (conn, co1) \<Rightarrow> (Inr conn, co1))))"

definition rg_for_slug ::
  "('d, 'p) runtime \<Rightarrow> 'p build_env \<Rightarrow> string \<Rightarrow> ('d, 'p) controller
   \<Rightarrow> (registry_error + 'p connections) \<times> ('d, 'p) controller" where
  "rg_for_slug rt env slug co =
     (case dict_get (co_cache co) slug of
        Some conn \<Rightarrow> (Inr conn, co)
      | None \<Rightarrow>
          (case rg_build rt env slug co of
             (Inl e, co1) \<Rightarrow> (Inl e, co1)
           | (Inr conn, co1) \<Rightarrow> (Inr conn, co1\<lparr>co_cache := dict_set slug conn (co_cache co1)\<rparr>)))"

definition rg_for_default ::
  "('d, 'p) runtime \<Rightarrow> 'p build_env \<Rightarrow> ('d, 'p) controller \<Rightarrow> (registry_error + 'p connections) \<times> ('d, 'p) controller" where
  "rg_for_default rt env co =
     (case ds_get_default (co_db co) of
        Some row \<Rightarrow> rg_for_slug rt env (dv_slug row) co
      | None \<Rightarrow>
          (case ds_list_all (co_db co) of
             [] \<Rightarrow> (Inl No_Device, co)
           | row # _ \<Rightarrow> rg_for_slug rt env (dv_slug row) co))"

definition rg_invalidate :: "string \<Rightarrow> ('d, 'p) controller \<Rightarrow> ('d, 'p) controller" where
  "rg_invalidate slug co = co\<lparr>co_cache := filter (\<lambda>(k, _). k \<noteq> slug) (co_cache co)\<rparr>"

definition rg_close_all :: "('d, 'p) controller \<Rightarrow> ('d, 'p) controller" where
  "rg_close_all co = co\<lparr>co_cache := []\<rparr>"

section \<open>What a build depends on\<close>

lemma dict_get_drop [simp]: "dict_get (filter (\<lambda>(k, _). k \<noteq> a) d) b = (if b = a then None else dict_get d b)"
  by (induction d) auto

lemma invalidate_simps [simp]:
  "dict_get (co_cache (rg_invalidate slug co)) s = (if s = slug then None else dict_get (co_cache co) s)"
  "co_db (rg_invalidate slug co) = co_db co" "co_keys (rg_invalidate slug co) = co_keys co"
  "co_dev (rg_invalidate slug co) = co_dev co"
  by (simp_all add: rg_invalidate_def)

lemma for_slug_cached: "dict_get (co_cache co) slug = Some conn \<Longrightarrow> rg_for_slug rt env slug co = (Inr conn, co)"
  by (simp add: rg_for_slug_def)

end
