(* ===== verification/Device_Routes.thy ===== *)
theory Device_Routes
  imports Device_Registry
begin

text \<open>
  The routes that create, edit, probe and delete devices (\<^verbatim>\<open>backend/app/api/routes/devices.py\<close>), over the
  store, the connection registry and the key ledger. A route returns its HTTP status and the new state of
  the controller; the public view it also returns is a projection of the row and is left out.
\<close>

datatype http_error =
  Http_404 | Http_400 | Http_409 | Http_500 | Http_502 | Http_503

text \<open>\<open>get_device_connections\<close>: the bundle of the \<^verbatim>\<open>?device=\<close> query parameter, or of the default device.\<close>

definition resolve_connections ::
  "('d, 'p) runtime \<Rightarrow> 'p build_env \<Rightarrow> string option \<Rightarrow> ('d, 'p) controller
   \<Rightarrow> (http_error + 'p connections) \<times> ('d, 'p) controller" where
  "resolve_connections rt env device co =
     (case (case device of None \<Rightarrow> rg_for_default rt env co | Some s \<Rightarrow> rg_for_slug rt env s co) of
        (Inr conn, co1) \<Rightarrow> (Inr conn, co1)
      | (Inl e, co1) \<Rightarrow>
          (Inl (case e of
             Unknown_Device _ \<Rightarrow> Http_404
           | Store_Error _ \<Rightarrow> Http_500
           | Blank_Urls \<Rightarrow> Http_500
           | _ \<Rightarrow> Http_503), co1))"

section \<open>Creation and editing\<close>

definition create_device_route ::
  "('d, 'p) runtime \<Rightarrow> instant \<Rightarrow> device_create \<Rightarrow> ('d, 'p) controller \<Rightarrow> http_error option \<times> ('d, 'p) controller" where
  "create_device_route rt now body co =
     (let d = body\<lparr>c_label := (if c_label body = [] then c_host body else c_label body), c_default := False\<rparr> in
      case ds_create (rt_enc rt) now d (co_db co) of
        Inl Integrity_Error \<Rightarrow> (Some Http_500, co)
      | Inl _ \<Rightarrow> (Some Http_409, co)
      | Inr (_, db') \<Rightarrow> (None, co\<lparr>co_db := db'\<rparr>))"

record device_patch =
  p_label :: "string option"
  p_host :: "string option"
  p_admin_urls :: "string list option"
  p_rpc_port :: "int option"
  p_ssh_port :: "int option"
  p_rpc_username :: "string option"
  p_rpc_password :: "string option"
  p_notes :: "string option"
  p_security_label :: "string option"

definition empty_patch :: device_patch where
  "empty_patch = \<lparr>p_label = None, p_host = None, p_admin_urls = None, p_rpc_port = None, p_ssh_port = None,
     p_rpc_username = None, p_rpc_password = None, p_notes = None, p_security_label = None\<rparr>"

definition normalize_admin_urls :: "string list \<Rightarrow> string list" where
  "normalize_admin_urls raws = filter (\<lambda>v. v \<noteq> []) (map normal_url raws)"

definition patch_fields :: "device_patch \<Rightarrow> device_fields" where
  "patch_fields body =
     no_fields\<lparr>f_label := p_label body, f_host := p_host body, f_rpc_port := p_rpc_port body,
       f_ssh_port := p_ssh_port body, f_notes := p_notes body, f_security_label := p_security_label body,
       f_admin_urls := map_option normalize_admin_urls (p_admin_urls body)\<rparr>"

text \<open>The hot swap acts on the resolver of the bundle the request resolved, here \<open>slug\<close>'s.\<close>

definition swap_urls ::
  "'p build_env \<Rightarrow> string list \<Rightarrow> string \<Rightarrow> ('d, 'p) controller \<Rightarrow> ('d, 'p) controller" where
  "swap_urls env us slug co =
     (case dict_get (co_cache co) slug of
        None \<Rightarrow> co
      | Some conn \<Rightarrow>
          (case set_urls us (cn_resolver conn) of
             (Some _, rs) \<Rightarrow> co\<lparr>co_cache := dict_set slug (conn\<lparr>cn_resolver := rs\<rparr>) (co_cache co)\<rparr>
           | (None, rs) \<Rightarrow>
               co\<lparr>co_cache := dict_set slug
                 (conn\<lparr>cn_resolver := snd (force_refresh (be_reach env (sh_port (cn_ssh conn))) (be_probed_at env) rs)\<rparr>)
                 (co_cache co)\<rparr>))"

text \<open>
  The comparison of the ports reads the row that \<open>update_fields\<close> returned, which the ports of the body
  have already been written to.
\<close>

definition ports_changed :: "device_patch \<Rightarrow> device_row \<Rightarrow> bool" where
  "ports_changed body row \<longleftrightarrow>
     (p_rpc_port body \<noteq> None \<and> p_rpc_port body \<noteq> Some (dv_rpc_port row))
     \<or> (p_ssh_port body \<noteq> None \<and> p_ssh_port body \<noteq> Some (dv_ssh_port row))"

definition update_device_route ::
  "('d, 'p) runtime \<Rightarrow> 'p build_env \<Rightarrow> string option \<Rightarrow> string \<Rightarrow> device_patch \<Rightarrow> ('d, 'p) controller
   \<Rightarrow> http_error option \<times> ('d, 'p) controller" where
  "update_device_route rt env device slug body co =
     (case resolve_connections rt env device co of
        (Inl e, co1) \<Rightarrow> (Some e, co1)
      | (Inr conn, co1) \<Rightarrow>
          (case ds_update_fields slug (patch_fields body) (co_db co1) of
             Inl _ \<Rightarrow> (Some Http_404, co1)
           | Inr db1 \<Rightarrow>
               (case (ds_get slug db1,
                      ds_update_credentials (rt_enc rt) slug (p_rpc_username body) (p_rpc_password body) db1) of
                  (Some row, Inr db2) \<Rightarrow>
                    let co2 = co1\<lparr>co_db := db2\<rparr>;
                        us = (case p_admin_urls body of None \<Rightarrow> [] | Some raws \<Rightarrow> normalize_admin_urls raws);
                        co3 = (if dv_default row \<and> us \<noteq> [] then swap_urls env us (cn_slug conn) co2 else co2);
                        creds_changed = (p_rpc_username body \<noteq> None \<or> p_rpc_password body \<noteq> None);
                        urls_changed = (p_admin_urls body \<noteq> None)
                    in (None, if creds_changed \<or> ports_changed body row \<or> urls_changed
                              then rg_invalidate slug co3 else co3)
                | _ \<Rightarrow> (Some Http_404, co1\<lparr>co_db := db1\<rparr>))))"

definition delete_device_route ::
  "bool \<Rightarrow> string \<Rightarrow> ('d, 'p) controller \<Rightarrow> http_error option \<times> ('d, 'p) controller" where
  "delete_device_route fk slug co =
     (case ds_get slug (co_db co) of
        None \<Rightarrow> (Some Http_404, co)
      | Some row \<Rightarrow>
          if dv_default row then (Some Http_400, co)
          else let co1 = rg_invalidate slug (co\<lparr>co_db := snd (ds_delete fk slug (co_db co))\<rparr>)
            in (None, co1\<lparr>co_keys := ks_forget_device slug (co_keys co1)\<rparr>))"

definition db_route :: "device_error + device_db \<Rightarrow> ('d, 'p) controller \<Rightarrow> http_error option \<times> ('d, 'p) controller" where
  "db_route res co = (case res of Inl _ \<Rightarrow> (Some Http_404, co) | Inr db' \<Rightarrow> (None, co\<lparr>co_db := db'\<rparr>))"

definition set_default_route :: "string \<Rightarrow> ('d, 'p) controller \<Rightarrow> http_error option \<times> ('d, 'p) controller" where
  "set_default_route slug co = db_route (ds_set_default slug (co_db co)) co"

definition forget_device_route :: "string \<Rightarrow> ('d, 'p) controller \<Rightarrow> http_error option \<times> ('d, 'p) controller" where
  "forget_device_route slug co = db_route (ds_mark_forgotten slug (co_db co)) co"

text \<open>
  The factory reset: \<open>sent d\<close> is the device after the reset command, which goes out over whichever
  connection and whose failure only shows in the report. The row is marked forgotten in any case.
\<close>

definition factory_reset_route ::
  "(string \<Rightarrow> string option) \<Rightarrow> ('d \<Rightarrow> 'd) \<Rightarrow> string \<Rightarrow> string \<Rightarrow> ('d, 'p) controller
   \<Rightarrow> http_error option \<times> ('d, 'p) controller" where
  "factory_reset_route dec sent slug confirm_slug co =
     (if confirm_slug \<noteq> slug then (Some Http_400, co)
      else case ds_get slug (co_db co) of
        None \<Rightarrow> (Some Http_404, co)
      | Some row \<Rightarrow>
          (case (if dv_default row then Inr (Some ([], [])) else ds_get_rpc_credentials dec slug (co_db co)) of
             Inl _ \<Rightarrow> (Some Http_500, co)
           | Inr None \<Rightarrow> (Some Http_400, co)
           | Inr (Some _) \<Rightarrow>
               (None, co\<lparr>co_dev := sent (co_dev co),
                         co_db := committed (ds_mark_forgotten slug (co_db co)) (co_db co)\<rparr>)))"

section \<open>Probing\<close>

definition extract_probe_host :: "string \<Rightarrow> string" where
  "extract_probe_host url_or_host =
     (let raw0 = py_strip url_or_host;
          raw1 = (case split_first ''://'' raw0 of None \<Rightarrow> raw0 | Some (_, r) \<Rightarrow> r);
          raw = fst (py_partition (CHR ''/'') (rstrip_by (\<lambda>c. c = CHR ''/'') raw1))
      in if CHR '':'' \<in> set raw \<and> \<not> starts_with ''['' raw then fst (py_partition (CHR '':'') raw) else raw)"

definition probe_candidates :: "string option \<Rightarrow> device_row \<Rightarrow> string list" where
  "probe_candidates active_now row =
     (let c0 = (case active_now of Some u \<Rightarrow> if dv_default row then [extract_probe_host u] else [] | None \<Rightarrow> []);
          c1 = foldl (\<lambda>cs u. let h = extract_probe_host u in if h \<noteq> [] \<and> h \<notin> set cs then cs @ [h] else cs)
                 c0 (dv_admin_urls row)
      in if dv_host row \<noteq> [] \<and> dv_host row \<notin> set c1 then c1 @ [dv_host row] else c1)"

text \<open>\<open>fetch h p\<close> is the fingerprint of the certificate at that address, \<^const>\<open>None\<close> when the fetch raises.\<close>

definition probed_fingerprint :: "(string \<Rightarrow> int \<Rightarrow> string option) \<Rightarrow> int \<Rightarrow> string list \<Rightarrow> string" where
  "probed_fingerprint fetch port candidates =
     (case List.map_filter (\<lambda>h. fetch h port) candidates of [] \<Rightarrow> [] | fp # _ \<Rightarrow> fp)"

record 'p probe_inputs =
  pi_active :: "string option"
  pi_fetch :: "string \<Rightarrow> int \<Rightarrow> string option"
  pi_now :: instant
  pi_build :: "'p build_env"
  pi_run :: "'p connect_env"

definition mark_db ::
  "instant \<Rightarrow> string \<Rightarrow> device_status \<Rightarrow> string option \<Rightarrow> ('d, 'p) controller \<Rightarrow> ('d, 'p) controller" where
  "mark_db now slug st fp co = co\<lparr>co_db := committed (ds_mark_probed now slug st fp (co_db co)) (co_db co)\<rparr>"

text \<open>A command over a bundle from the registry; the connection's state stays in the cached bundle.\<close>

definition run_cached ::
  "('d, 'p) runtime \<Rightarrow> 'p connect_env \<Rightarrow> string \<Rightarrow> 'p connections \<Rightarrow> ('d, 'p) controller
   \<Rightarrow> (ssh_error + string \<times> string \<times> int) \<times> ('d, 'p) controller" where
  "run_cached rt env cmd conn co =
     (case ssh_run (rt_hostname rt) (rt_live rt) (rt_exec rt) env cmd (co_dev co, cn_ssh conn) of
        (res, (d1, ssh1), _, evs) \<Rightarrow>
          (res, co\<lparr>co_dev := d1, co_db := persist_events (cn_slug conn) evs (co_db co),
                   co_cache := dict_set (cn_slug conn)
                     (conn\<lparr>cn_ssh := ssh1, cn_resolver := fail_events evs (cn_resolver conn)\<rparr>) (co_cache co)\<rparr>))"

definition probe_ssh ::
  "('d, 'p) runtime \<Rightarrow> 'p probe_inputs \<Rightarrow> device_row \<Rightarrow> string \<Rightarrow> ('d, 'p) controller
   \<Rightarrow> http_error option \<times> ('d, 'p) controller" where
  "probe_ssh rt env row fingerprint co =
     (let slug = dv_slug row; now = pi_now env in
      case rg_for_slug rt (pi_build env) slug co of
        (Inl (Store_Error _), co1) \<Rightarrow> (Some Http_500, co1)
      | (Inl Blank_Urls, co1) \<Rightarrow> (Some Http_500, co1)
      | (Inl _, co1) \<Rightarrow> (Some Http_500, mark_db now slug Failed_Probe (Some fingerprint) co1)
      | (Inr conn, co1) \<Rightarrow>
          (case run_cached rt (pi_run env) ''echo OK'' conn co1 of
             (Inl _, co2) \<Rightarrow> (Some Http_502, mark_db now slug Failed_Probe (Some fingerprint) co2)
           | (Inr (out, _, _), co2) \<Rightarrow>
               if \<not> py_contains ''OK'' out
               then (Some Http_502, mark_db now slug Failed_Probe (Some fingerprint) co2)
               else let st = (if dv_status row = Adopted \<or> dv_adopted_at row \<noteq> None then Adopted else Pending)
                 in (None, rg_invalidate slug (mark_db now slug st (Some fingerprint) co2))))"

definition probe_device_route ::
  "('d, 'p) runtime \<Rightarrow> 'p probe_inputs \<Rightarrow> string \<Rightarrow> ('d, 'p) controller \<Rightarrow> http_error option \<times> ('d, 'p) controller" where
  "probe_device_route rt env slug co =
     (case ds_get slug (co_db co) of
        None \<Rightarrow> (Some Http_404, co)
      | Some row \<Rightarrow>
          (case ds_get_rpc_credentials (rt_dec rt) slug (co_db co) of
             Inl _ \<Rightarrow> (Some Http_500, co)
           | Inr None \<Rightarrow> (Some Http_400, co)
           | Inr (Some _) \<Rightarrow>
               let now = pi_now env;
                   fingerprint = probed_fingerprint (pi_fetch env) (dv_rpc_port row)
                     (probe_candidates (pi_active env) row)
               in if fingerprint = [] then (Some Http_502, mark_db now slug Failed_Probe None co)
                  else if dv_tls_fingerprint row \<noteq> [] \<and> dv_tls_fingerprint row \<noteq> fingerprint
                  then (Some Http_409, mark_db now slug Failed_Probe (Some fingerprint) co)
                  else probe_ssh rt env row fingerprint co))"

section \<open>What a row and a cached bundle become\<close>

lemma ds_get_edit:
  assumes "keeps_identity f" "edit_device slug f db = Inr db'"
  shows "ds_get s db' = (if s = slug then map_option f (ds_get s db) else ds_get s db)"
    "ds_get slug db \<noteq> None"
proof -
  have db': "db' = db\<lparr>devices := row_update dv_slug slug f (devices db)\<rparr>" and ne: "ds_get slug db \<noteq> None"
    using assms(2) by (auto simp: edit_device_def split: option.splits)
  show "ds_get slug db \<noteq> None" by (rule ne)
  show "ds_get s db' = (if s = slug then map_option f (ds_get s db) else ds_get s db)"
    using assms(1) unfolding db' ds_get_def by (simp add: keeps_identity_def)
qed

lemma ds_get_committed_edit:
  assumes "keeps_identity f"
  shows "ds_get s (committed (edit_device slug f db) db) =
    (if s = slug then map_option f (ds_get s db) else ds_get s db)"
proof (cases "edit_device slug f db")
  case (Inl e)
  then have "ds_get slug db = None" by (simp add: edit_device_def split: option.splits)
  then show ?thesis using Inl by (simp add: committed_def)
qed (simp add: committed_def ds_get_edit(1) [OF assms])

lemma ds_get_credentials:
  "ds_update_credentials enc slug u pw db = Inr db' \<Longrightarrow> ds_get s db' = ds_get s db"
  using secrets_credentials(2) [of enc slug u pw db] by (simp add: committed_def ds_get_def)

lemma swap_urls_simps [simp]:
  "co_db (swap_urls env us s co) = co_db co" "co_dev (swap_urls env us s co) = co_dev co"
  "co_keys (swap_urls env us s co) = co_keys co"
  by (simp_all add: swap_urls_def split: option.splits prod.splits)

lemma patch_success:
  assumes "update_device_route rt env device slug body co = (None, co')"
  obtains conn co1 db1 row db2 where
    "resolve_connections rt env device co = (Inr conn, co1)"
    "ds_update_fields slug (patch_fields body) (co_db co1) = Inr db1" "ds_get slug db1 = Some row"
    "ds_update_credentials (rt_enc rt) slug (p_rpc_username body) (p_rpc_password body) db1 = Inr db2"
    "co' = (let co2 = co1\<lparr>co_db := db2\<rparr>;
        us = (case p_admin_urls body of None \<Rightarrow> [] | Some raws \<Rightarrow> normalize_admin_urls raws);
        co3 = (if dv_default row \<and> us \<noteq> [] then swap_urls env us (cn_slug conn) co2 else co2)
      in if (p_rpc_username body \<noteq> None \<or> p_rpc_password body \<noteq> None) \<or> ports_changed body row
            \<or> p_admin_urls body \<noteq> None
         then rg_invalidate slug co3 else co3)"
proof -
  obtain r co1 where rc: "resolve_connections rt env device co = (r, co1)"
    by (cases "resolve_connections rt env device co")
  show thesis
  proof (cases r)
    case (Inl e)
    then show thesis using assms rc by (simp add: update_device_route_def)
  next
    case (Inr conn)
    show thesis
    proof (cases "ds_update_fields slug (patch_fields body) (co_db co1)")
      case (Inl e)
      then show thesis using assms rc \<open>r = Inr conn\<close> by (simp add: update_device_route_def)
    next
      case (Inr db1)
      show thesis
      proof (cases "ds_get slug db1")
        case None
        then show thesis using assms rc \<open>r = Inr conn\<close> Inr by (simp add: update_device_route_def)
      next
        case (Some row)
        show thesis
        proof (cases "ds_update_credentials (rt_enc rt) slug (p_rpc_username body) (p_rpc_password body) db1")
          case (Inl e)
          then show thesis using assms rc \<open>r = Inr conn\<close> Inr Some by (simp add: update_device_route_def)
        next
          case (Inr db2)
          then show thesis
            using that rc \<open>r = Inr conn\<close> \<open>ds_update_fields _ _ _ = Inr db1\<close> Some assms
            by (simp add: update_device_route_def Let_def)
        qed
      qed
    qed
  qed
qed

lemma patched_row:
  assumes "ds_update_fields slug f db = Inr db1" "ds_get slug db1 = Some row"
  shows "\<exists>row0. ds_get slug db = Some row0 \<and> row = set_fields f row0"
  using assms ds_get_edit(1) [of "set_fields f" slug db db1 slug]
  by (auto simp: ds_update_fields_def)

lemma ports_never_changed:
  assumes "ds_update_fields slug (patch_fields body) db = Inr db1" "ds_get slug db1 = Some row"
  shows "\<not> ports_changed body row"
proof -
  obtain row0 where "row = set_fields (patch_fields body) row0" using patched_row [OF assms] by blast
  then have "dv_rpc_port row = set_opt (p_rpc_port body) (dv_rpc_port row0)"
    "dv_ssh_port row = set_opt (p_ssh_port body) (dv_ssh_port row0)"
    by (simp_all add: set_fields_def patch_fields_def)
  then show ?thesis by (cases "p_rpc_port body"; cases "p_ssh_port body") (simp_all add: ports_changed_def set_opt_def)
qed

text \<open>
  An accepted PATCH of a device: the row takes the ports that were sent, and the cached connections of
  the device are dropped exactly when credentials or admin URLs were sent. The ports themselves never
  drop them, although the code compares them for that purpose, so the registry goes on serving the
  connections with the old port.
\<close>

theorem patch_effect:
  assumes "update_device_route rt env device slug body co = (None, co')"
  shows "(let co1 = snd (resolve_connections rt env device co) in
    (case ds_get slug (co_db co1) of None \<Rightarrow> False | Some row \<Rightarrow>
       map_option dv_ssh_port (ds_get slug (co_db co')) = Some (set_opt (p_ssh_port body) (dv_ssh_port row))
       \<and> map_option dv_rpc_port (ds_get slug (co_db co')) = Some (set_opt (p_rpc_port body) (dv_rpc_port row)))
    \<and> dict_get (co_cache co') slug =
        (if p_rpc_username body \<noteq> None \<or> p_rpc_password body \<noteq> None \<or> p_admin_urls body \<noteq> None then None
         else dict_get (co_cache co1) slug))"
proof -
  obtain conn co1 db1 row db2 where p:
    "resolve_connections rt env device co = (Inr conn, co1)"
    "ds_update_fields slug (patch_fields body) (co_db co1) = Inr db1" "ds_get slug db1 = Some row"
    "ds_update_credentials (rt_enc rt) slug (p_rpc_username body) (p_rpc_password body) db1 = Inr db2"
    "co' = (let co2 = co1\<lparr>co_db := db2\<rparr>;
        us = (case p_admin_urls body of None \<Rightarrow> [] | Some raws \<Rightarrow> normalize_admin_urls raws);
        co3 = (if dv_default row \<and> us \<noteq> [] then swap_urls env us (cn_slug conn) co2 else co2)
      in if (p_rpc_username body \<noteq> None \<or> p_rpc_password body \<noteq> None) \<or> ports_changed body row
            \<or> p_admin_urls body \<noteq> None
         then rg_invalidate slug co3 else co3)"
    by (rule patch_success [OF assms])
  obtain row0 where row0: "ds_get slug (co_db co1) = Some row0" "row = set_fields (patch_fields body) row0"
    using patched_row [OF p(2,3)] by blast
  have "co_db co' = db2" using p(5) by (simp add: Let_def)
  then have "ds_get slug (co_db co') = Some row" using ds_get_credentials [OF p(4)] p(3) by simp
  moreover have "dict_get (co_cache co') slug =
      (if p_rpc_username body \<noteq> None \<or> p_rpc_password body \<noteq> None \<or> p_admin_urls body \<noteq> None then None
       else dict_get (co_cache co1) slug)"
    using p(5) ports_never_changed [OF p(2,3)] by (simp add: Let_def)
  ultimately show ?thesis
    using p(1) row0 by (simp add: Let_def set_fields_def patch_fields_def no_fields_def)
qed

text \<open>A controller with one default device, whose SSH connection answers, and a PATCH of its SSH port.\<close>

definition sample_row :: device_row where
  "sample_row = (new_device_row 0 sample_device 1)\<lparr>dv_default := True, dv_status := Adopted,
     dv_adopted_at := Some 0, dv_tls_fingerprint := ''AA''\<rparr>"

definition sample_controller :: "(unit, nat) controller" where
  "sample_controller =
     \<lparr>co_db = \<lparr>devices = [sample_row], secrets = [\<lparr>sec_device = 1, sec_kind = SECRET_RPC_PASSWORD,
        sec_value = ''secret'', sec_username = Some ''root''\<rparr>]\<rparr>,
      co_keys = None, co_cache = [], co_dev = ()\<rparr>"

definition sample_runtime :: "(unit, nat) runtime" where
  "sample_runtime = \<lparr>rt_dec = Some, rt_enc = id, rt_hostname = (\<lambda>_. None), rt_live = sample_live,
     rt_exec = (\<lambda>d p cmd input. (d, Exited 0 ''OK'' []))\<rparr>"

definition sample_build :: "nat build_env" where
  "sample_build = \<lparr>be_reach = (\<lambda>_ _. True), be_probed_at = 1, be_ssh = sample_env 0\<rparr>"

definition port_patch :: device_patch where
  "port_patch = empty_patch\<lparr>p_ssh_port := Some 2222\<rparr>"

definition after_patch :: "(unit, nat) controller" where
  "after_patch = snd (update_device_route sample_runtime sample_build None ''slate'' port_patch sample_controller)"

theorem patch_effect_witness:
  "map_option (\<lambda>c. sh_port (cn_ssh c)) (dict_get (co_cache after_patch) ''slate'') = Some 22
   \<and> map_option dv_ssh_port (ds_get ''slate'' (co_db after_patch)) = Some 2222"
proof
  show "map_option (\<lambda>c. sh_port (cn_ssh c)) (dict_get (co_cache after_patch) ''slate'') = Some 22"
    by code_simp
  have ok: "update_device_route sample_runtime sample_build None ''slate'' port_patch sample_controller
      = (None, after_patch)"
    by (rule prod_eqI) (code_simp, simp add: after_patch_def)
  have row: "map_option dv_ssh_port (ds_get ''slate'' (co_db (snd (resolve_connections sample_runtime sample_build
      None sample_controller)))) = Some 22" by code_simp
  have port: "p_ssh_port port_patch = Some 2222" by (simp add: port_patch_def empty_patch_def)
  show "map_option dv_ssh_port (ds_get ''slate'' (co_db after_patch)) = Some 2222"
    using patch_effect [OF ok] row port by (simp add: Let_def set_opt_def split: option.splits)
qed

section \<open>A probe that finds another certificate\<close>

lemma committed_probed:
  "ds_get s (committed (ds_mark_probed now slug st fp db) db) =
     (if s = slug then map_option (\<lambda>r. r\<lparr>dv_status := st, dv_last_probe_at := Some now,
        dv_tls_fingerprint := set_opt fp (dv_tls_fingerprint r)\<rparr>) (ds_get s db) else ds_get s db)"
  unfolding ds_mark_probed_def by (rule ds_get_committed_edit) simp

lemma mark_db_simps [simp]:
  "co_cache (mark_db now slug st fp co) = co_cache co" "co_keys (mark_db now slug st fp co) = co_keys co"
  "co_dev (mark_db now slug st fp co) = co_dev co"
  "co_db (mark_db now slug st fp co) = committed (ds_mark_probed now slug st fp (co_db co)) (co_db co)"
  by (simp_all add: mark_db_def)

lemma credentials_probed:
  "ds_get_rpc_credentials dec slug (committed (ds_mark_probed now slug st fp db) db) =
   ds_get_rpc_credentials dec slug db"
proof -
  have "secrets (committed (ds_mark_probed now slug st fp db) db) = secrets db"
    unfolding ds_mark_probed_def by (simp add: edit_device_cases)
  then show ?thesis
    unfolding ds_get_rpc_credentials_def committed_probed rpc_secret_def by (simp split: option.splits)
qed

lemma make_client_pin [simp]: "cl_pin (make_client u n pw r fp) = tls_pin fp"
  by (simp add: make_client_def)

lemma built_pin:
  assumes "rg_for_slug rt env slug co = (Inr conn, co1)" "dict_get (co_cache co) slug = None"
    and "ds_get slug (co_db co) = Some row"
  shows "cl_pin (cn_client conn) = tls_pin (dv_tls_fingerprint row)"
proof -
  obtain co2 where "rg_build rt env slug co = (Inr conn, co2)"
    using assms(1,2) by (auto simp: rg_for_slug_def split: sum.splits prod.splits)
  then show ?thesis
    using assms(3)
    by (auto simp: rg_build_def connect_device_def Let_def split: sum.splits prod.splits option.splits if_splits)
qed

definition accepted_row :: "instant \<Rightarrow> device_status \<Rightarrow> string \<Rightarrow> device_row \<Rightarrow> device_row" where
  "accepted_row now st fp = (\<lambda>r. r\<lparr>dv_status := st, dv_last_probe_at := Some now, dv_tls_fingerprint := fp\<rparr>)"

lemma mark_db_get:
  "ds_get slug (co_db (mark_db now slug st (Some fp) co)) = map_option (accepted_row now st fp) (ds_get slug (co_db co))"
  by (simp add: committed_probed accepted_row_def set_opt_def)

lemma candidates_accepted: "probe_candidates a (accepted_row now st fp r) = probe_candidates a r"
proof -
  have "dv_default (accepted_row now st fp r) = dv_default r" "dv_host (accepted_row now st fp r) = dv_host r"
    "dv_admin_urls (accepted_row now st fp r) = dv_admin_urls r" by (simp_all add: accepted_row_def)
  then show ?thesis unfolding probe_candidates_def by (simp only:)
qed

lemma persist_events_simps [simp]:
  "persist_events slug [] db = db"
  "persist_events slug (Mark_Failed u # evs) db = persist_events slug evs db"
  "persist_events slug (Persist_Key k # evs) db = persist_events slug evs
     (committed (ds_update_fields slug (no_fields\<lparr>f_ssh_host_pubkey := Some k\<rparr>) db) db)"
  by (simp_all add: persist_events_def)

lemma committed_fields:
  "ds_get s (committed (ds_update_fields slug f db) db) =
     (if s = slug then map_option (set_fields f) (ds_get s db) else ds_get s db)"
  unfolding ds_update_fields_def by (rule ds_get_committed_edit) simp

lemma persist_exists: "ds_get s (persist_events slug evs db) = None \<longleftrightarrow> ds_get s db = None"
proof (induction evs arbitrary: db)
  case (Cons ev evs)
  then show ?case by (cases ev) (simp_all add: committed_fields)
qed simp

lemma connect_device_db:
  "connect_device rt env row u pw rs co = (conn, co1) \<Longrightarrow>
   (\<exists>evs. co_db co1 = persist_events (dv_slug row) evs (co_db co)) \<and> co_cache co1 = co_cache co"
  by (auto simp: connect_device_def Let_def split: prod.splits)

lemma build_db:
  assumes "rg_build rt env slug co = (r, co1)"
  shows "(\<exists>evs. co_db co1 = persist_events slug evs (co_db co)) \<and> co_cache co1 = co_cache co"
proof -
  have nil: "\<exists>evs. co_db co = persist_events slug evs (co_db co)" by (rule exI [of _ "[]"]) simp
  have slug: "dv_slug row = slug" if "ds_get slug (co_db co) = Some row" for row
    using that row_find_key unfolding ds_get_def by fastforce
  show ?thesis
    using assms nil
    by (auto simp: rg_build_def Let_def slug dest!: connect_device_db
        split: option.splits sum.splits prod.splits if_splits)
qed

lemma for_slug_db:
  assumes "rg_for_slug rt env slug co = (r, co1)"
  shows "ds_get s (co_db co1) = None \<longleftrightarrow> ds_get s (co_db co) = None"
proof (cases "dict_get (co_cache co) slug")
  case (Some conn)
  then show ?thesis using assms by (simp add: rg_for_slug_def)
next
  case None
  obtain r2 co2 where b: "rg_build rt env slug co = (r2, co2)" by (cases "rg_build rt env slug co")
  have "co_db co1 = co_db co2" using assms None b by (auto simp: rg_for_slug_def split: sum.splits)
  then show ?thesis using build_db [OF b] persist_exists by fastforce
qed

lemma run_cached_db:
  "run_cached rt env cmd conn co = (r, co1) \<Longrightarrow> ds_get s (co_db co1) = None \<longleftrightarrow> ds_get s (co_db co) = None"
  by (auto simp: run_cached_def persist_exists split: prod.splits)

lemma probe_ssh_accepts:
  assumes "probe_ssh rt env row fp co = (None, co')" "ds_get (dv_slug row) (co_db co) \<noteq> None"
  shows "dict_get (co_cache co') (dv_slug row) = None
    \<and> (\<exists>r. ds_get (dv_slug row) (co_db co') = Some (accepted_row (pi_now env)
          (if dv_status row = Adopted \<or> dv_adopted_at row \<noteq> None then Adopted else Pending) fp r))"
proof -
  obtain conn co1 where fs: "rg_for_slug rt (pi_build env) (dv_slug row) co = (Inr conn, co1)"
    using assms(1) by (auto simp: probe_ssh_def Let_def split: prod.splits sum.splits registry_error.splits)
  obtain res co2 where rc: "run_cached rt (pi_run env) ''echo OK'' conn co1 = (res, co2)"
    by (cases "run_cached rt (pi_run env) ''echo OK'' conn co1")
  define st where "st = (if dv_status row = Adopted \<or> dv_adopted_at row \<noteq> None then Adopted else Pending)"
  have co': "co' = rg_invalidate (dv_slug row) (mark_db (pi_now env) (dv_slug row) st (Some fp) co2)"
    using assms(1) fs rc unfolding probe_ssh_def Let_def st_def
    by (auto split: sum.splits prod.splits if_splits simp del: mark_db_simps)
  have "ds_get (dv_slug row) (co_db co2) \<noteq> None"
    using for_slug_db [OF fs] run_cached_db [OF rc] assms(2) by simp
  then show ?thesis unfolding co' st_def [symmetric] by (auto simp: mark_db_get simp del: mark_db_simps(4))
qed

text \<open>
  C17. What a certificate mismatch leads to. A probe that finds another certificate than the pinned one is
  refused with 409, but it stores the new fingerprint as the pin. A second probe that meets the same
  certificate is therefore never refused for it; if the SSH check passes, the device, once adopted, is
  adopted again, and the next client built for it pins the other certificate.
\<close>

theorem mismatch_replaces_the_pin:
  assumes "ds_get slug (co_db co) = Some row"
    and "ds_get_rpc_credentials (rt_dec rt) slug (co_db co) = Inr (Some creds)"
    and "probed_fingerprint (pi_fetch env) (dv_rpc_port row) (probe_candidates (pi_active env) row) = fp"
    and "fp \<noteq> []" "dv_tls_fingerprint row \<noteq> []" "dv_tls_fingerprint row \<noteq> fp"
    and "probe_device_route rt env slug co = (answer, co1)"
    and "probe_device_route rt env slug co1 = (answer2, co2)"
  shows "answer = Some Http_409
    \<and> map_option dv_tls_fingerprint (ds_get slug (co_db co1)) = Some fp
    \<and> answer2 \<noteq> Some Http_409
    \<and> (answer2 = None \<longrightarrow>
        (\<exists>row2. ds_get slug (co_db co2) = Some row2 \<and> dv_tls_fingerprint row2 = fp
          \<and> (dv_adopted_at row \<noteq> None \<longrightarrow> dv_status row2 = Adopted)
          \<and> (\<forall>env2 conn co3. rg_for_slug rt env2 slug co2 = (Inr conn, co3)
              \<longrightarrow> cl_pin (cn_client conn) = tls_pin fp)))"
proof -
  let ?row1 = "accepted_row (pi_now env) Failed_Probe fp row"
  have first: "answer = Some Http_409" "co1 = mark_db (pi_now env) slug Failed_Probe (Some fp) co"
    using assms by (simp_all add: probe_device_route_def Let_def)
  have row1: "ds_get slug (co_db co1) = Some ?row1" unfolding first(2) mark_db_get assms(1) by simp
  have cands: "probe_candidates (pi_active env) ?row1 = probe_candidates (pi_active env) row"
    by (rule candidates_accepted)
  have fields: "dv_rpc_port ?row1 = dv_rpc_port row" "dv_tls_fingerprint ?row1 = fp" "dv_slug ?row1 = slug"
    "dv_adopted_at ?row1 = dv_adopted_at row"
    using assms(1) row_find_key [of dv_slug slug "devices (co_db co)" row] by (simp_all add: accepted_row_def ds_get_def)
  have second: "probe_ssh rt env ?row1 fp co1 = (answer2, co2)"
    using assms(2-4,8) row1 cands fields(1,2) unfolding first(2)
    by (simp add: probe_device_route_def Let_def credentials_probed)
  have not_409: "answer2 \<noteq> Some Http_409"
    using second by (auto simp: probe_ssh_def Let_def simp del: mark_db_simps
        split: prod.splits sum.splits registry_error.splits if_splits)
  have "\<exists>row2. ds_get slug (co_db co2) = Some row2 \<and> dv_tls_fingerprint row2 = fp
          \<and> (dv_adopted_at row \<noteq> None \<longrightarrow> dv_status row2 = Adopted)
          \<and> (\<forall>env2 conn co3. rg_for_slug rt env2 slug co2 = (Inr conn, co3) \<longrightarrow> cl_pin (cn_client conn) = tls_pin fp)"
    if "answer2 = None"
  proof -
    have "ds_get (dv_slug ?row1) (co_db co1) \<noteq> None" using row1 fields(3) by simp
    from probe_ssh_accepts [OF second [unfolded that] this]
    obtain r where cache: "dict_get (co_cache co2) slug = None"
      and r: "ds_get slug (co_db co2) = Some (accepted_row (pi_now env)
        (if dv_status ?row1 = Adopted \<or> dv_adopted_at ?row1 \<noteq> None then Adopted else Pending) fp r)"
      using fields(3) by auto
    show ?thesis
      using r built_pin [OF _ cache r] fields(4) by (auto simp: accepted_row_def)
  qed
  then show ?thesis using first(1) row1 fields(2) not_409 by simp
qed

definition mitm_probe :: "nat probe_inputs" where
  "mitm_probe = \<lparr>pi_active = None, pi_fetch = (\<lambda>_ _. Some ''EE''), pi_now = 5, pi_build = sample_build,
     pi_run = sample_env 0\<rparr>"

definition after_mismatch :: "(unit, nat) controller" where
  "after_mismatch = snd (probe_device_route sample_runtime mitm_probe ''slate'' sample_controller)"

theorem mismatch_replaces_the_pin_witness:
  "fst (probe_device_route sample_runtime mitm_probe ''slate'' after_mismatch) = None
   \<and> map_option dv_tls_fingerprint (ds_get ''slate'' (co_db after_mismatch)) = Some ''EE''"
proof
  show "fst (probe_device_route sample_runtime mitm_probe ''slate'' after_mismatch) = None" by code_simp
  have a: "ds_get ''slate'' (co_db sample_controller) = Some sample_row" by code_simp
  have b: "ds_get_rpc_credentials (rt_dec sample_runtime) ''slate'' (co_db sample_controller)
    = Inr (Some (''root'', ''secret''))" by code_simp
  have c: "probed_fingerprint (pi_fetch mitm_probe) (dv_rpc_port sample_row)
      (probe_candidates (pi_active mitm_probe) sample_row) = ''EE''" by code_simp
  have d: "''EE'' \<noteq> []" "dv_tls_fingerprint sample_row \<noteq> []" "dv_tls_fingerprint sample_row \<noteq> ''EE''"
    by (simp_all add: sample_row_def)
  have e: "probe_device_route sample_runtime mitm_probe ''slate'' sample_controller =
      (fst (probe_device_route sample_runtime mitm_probe ''slate'' sample_controller), after_mismatch)"
    unfolding after_mismatch_def by (rule prod.collapse [symmetric])
  show "map_option dv_tls_fingerprint (ds_get ''slate'' (co_db after_mismatch)) = Some ''EE''"
    by (rule mismatch_replaces_the_pin [OF a b c d e prod.collapse [symmetric], THEN conjunct2, THEN conjunct1])
qed

end
