(* ===== verification/Device_Pin.thy ===== *)
theory Device_Pin
  imports Device_Routes
begin

text \<open>
  The life of the SSH host key that is pinned in a device's row: the store, the registry, the SSH
  connections and the device routes together.
\<close>

section \<open>Requests\<close>

text \<open>\<open>Do_Use\<close> is any request that runs a command over the connections it resolves.\<close>

datatype ('d, 'p) request =
  Do_Create instant device_create
| Do_Patch "'p build_env" "string option" string device_patch
| Do_Delete string
| Do_Default string
| Do_Forget string
| Do_Reset "'d \<Rightarrow> 'd" string string
| Do_Probe "'p probe_inputs" string
| Do_Use "'p build_env" "string option" "'p connect_env" string

fun handle :: "bool \<Rightarrow> ('d, 'p) runtime \<Rightarrow> ('d, 'p) request \<Rightarrow> ('d, 'p) controller \<Rightarrow> ('d, 'p) controller" where
  "handle fk rt (Do_Create now d) co = snd (create_device_route rt now d co)"
| "handle fk rt (Do_Patch env device slug body) co = snd (update_device_route rt env device slug body co)"
| "handle fk rt (Do_Delete slug) co = snd (delete_device_route fk slug co)"
| "handle fk rt (Do_Default slug) co = snd (set_default_route slug co)"
| "handle fk rt (Do_Forget slug) co = snd (forget_device_route slug co)"
| "handle fk rt (Do_Reset sent slug confirm) co = snd (factory_reset_route (rt_dec rt) sent slug confirm co)"
| "handle fk rt (Do_Probe env slug) co = snd (probe_device_route rt env slug co)"
| "handle fk rt (Do_Use benv device env cmd) co =
     (case resolve_connections rt benv device co of
        (Inl _, co1) \<Rightarrow> co1
      | (Inr conn, co1) \<Rightarrow> snd (run_cached rt env cmd conn co1))"

definition handle_all ::
  "bool \<Rightarrow> ('d, 'p) runtime \<Rightarrow> ('d, 'p) request list \<Rightarrow> ('d, 'p) controller \<Rightarrow> ('d, 'p) controller" where
  "handle_all fk rt reqs co = foldl (\<lambda>co r. handle fk rt r co) co reqs"

section \<open>Pins\<close>

definition pin_of :: "device_db \<Rightarrow> string \<Rightarrow> string option" where
  "pin_of db slug = map_option dv_ssh_host_pubkey (ds_get slug db)"

definition pins_ok :: "('d, 'p) controller \<Rightarrow> bool" where
  "pins_ok co \<longleftrightarrow>
     (\<forall>slug k. pin_of (co_db co) slug = Some k \<longrightarrow> k = [] \<or> py_strip k \<noteq> [])
     \<and> (\<forall>slug conn. dict_get (co_cache co) slug = Some conn \<longrightarrow>
          cn_slug conn = slug \<and> sh_callback (cn_ssh conn)
          \<and> (\<forall>k. pin_of (co_db co) slug = Some k \<and> k \<noteq> [] \<longrightarrow> sh_expected (cn_ssh conn) \<noteq> []))"

text \<open>Every pin stays, except possibly the one of a given device.\<close>

definition pins_kept :: "string set \<Rightarrow> device_db \<Rightarrow> device_db \<Rightarrow> bool" where
  "pins_kept except db db' \<longleftrightarrow>
     (\<forall>slug k. slug \<notin> except \<and> k \<noteq> [] \<and> pin_of db slug = Some k \<longrightarrow> pin_of db' slug = Some k)"

lemma pins_kept_refl [simp]: "pins_kept A db db"
  by (simp add: pins_kept_def)

lemma pins_kept_trans: "pins_kept {} db db1 \<Longrightarrow> pins_kept A db1 db2 \<Longrightarrow> pins_kept A db db2"
  by (simp add: pins_kept_def)

definition keeps_pin :: "(device_row \<Rightarrow> device_row) \<Rightarrow> bool" where
  "keeps_pin f \<longleftrightarrow> keeps_identity f \<and> (\<forall>r. dv_ssh_host_pubkey (f r) = dv_ssh_host_pubkey r)"

lemma pin_edit: "keeps_pin f \<Longrightarrow> pin_of (committed (edit_device slug f db) db) = pin_of db"
  by (rule ext) (simp add: pin_of_def keeps_pin_def ds_get_committed_edit option.map_comp o_def cong: option.map_cong)

lemma pin_edit_Inr: "keeps_pin f \<Longrightarrow> edit_device slug f db = Inr db' \<Longrightarrow> pin_of db' = pin_of db"
  using pin_edit [of f slug db] by (simp add: committed_def)

lemma keeps_pin_ops [simp]:
  "keeps_pin (\<lambda>r. r\<lparr>dv_status := st, dv_last_probe_at := t, dv_tls_fingerprint := g r\<rparr>)"
  "keeps_pin (\<lambda>r. r\<lparr>dv_status := st, dv_adopted_at := t\<rparr>)"
  "keeps_pin (set_fields (patch_fields body))"
  by (simp_all add: keeps_pin_def) (simp add: set_fields_def patch_fields_def no_fields_def set_opt_def)

lemma pin_probed [simp]: "pin_of (committed (ds_mark_probed now slug st fp db) db) = pin_of db"
  unfolding ds_mark_probed_def by (rule pin_edit) simp

lemma pin_forgotten [simp]: "pin_of (committed (ds_mark_forgotten slug db) db) = pin_of db"
  unfolding ds_mark_forgotten_def by (rule pin_edit) simp

lemma pin_patch: "ds_update_fields slug (patch_fields body) db = Inr db' \<Longrightarrow> pin_of db' = pin_of db"
  unfolding ds_update_fields_def by (rule pin_edit_Inr) simp_all

lemma pin_credentials: "ds_update_credentials enc slug u pw db = Inr db' \<Longrightarrow> pin_of db' = pin_of db"
  by (rule ext) (simp add: pin_of_def ds_get_credentials)

lemma find_clear:
  "row_find dv_slug s (clear_default rows) =
     map_option (\<lambda>r. if dv_default r then r\<lparr>dv_default := False\<rparr> else r) (row_find dv_slug s rows)"
  by (induction rows) (simp_all add: clear_default_def)

lemma pin_clear:
  "map_option dv_ssh_host_pubkey (row_find dv_slug s (clear_default rows)) =
     map_option dv_ssh_host_pubkey (row_find dv_slug s rows)"
  unfolding find_clear by (cases "row_find dv_slug s rows") simp_all

lemma pin_set_default: "ds_set_default slug db = Inr db' \<Longrightarrow> pin_of db' = pin_of db"
proof (rule ext)
  fix s
  assume a: "ds_set_default slug db = Inr db'"
  have db': "db' = db\<lparr>devices := row_update dv_slug slug (\<lambda>r. r\<lparr>dv_default := True\<rparr>) (clear_default (devices db))\<rparr>"
    using a by (simp add: ds_set_default_def split: option.splits)
  show "pin_of db' s = pin_of db s"
    unfolding pin_of_def ds_get_def db'
    using pin_clear [of _ "devices db"]
    by (simp add: option.map_comp o_def cong: option.map_cong)
qed

lemma pin_create:
  assumes "ds_create enc now d db = Inr (row, db')"
  shows "pin_of db' s = (if s = c_slug d then Some [] else pin_of db s)"
proof -
  note c = create_cases [OF assms]
  have "dv_ssh_host_pubkey row = []" "dv_slug row = c_slug d" using c(1) by (simp_all add: new_device_row_def)
  moreover have "pin_of \<lparr>devices = clear_default (devices db), secrets = ss\<rparr> s = pin_of db s" for ss
    using pin_clear by (simp add: pin_of_def ds_get_def)
  ultimately show ?thesis
    using c(2,4) by (cases "c_default d"; cases "row_find dv_slug s (devices db)")
      (auto simp: pin_of_def ds_get_def find_clear)
qed

lemma pin_delete: "pin_of (snd (ds_delete fk slug db)) s = (if s = slug then None else pin_of db s)"
  by (auto simp: ds_delete_def pin_of_def ds_get_def split: option.splits)

section \<open>What a connection persists\<close>

text \<open>At most one event; a key is persisted only where none was pinned, and is then pinned in memory too.\<close>

definition events_ok :: "'p slate_ssh \<Rightarrow> 'p slate_ssh \<Rightarrow> ssh_event list \<Rightarrow> bool" where
  "events_ok s s1 evs \<longleftrightarrow> sh_callback s1 = sh_callback s
     \<and> (sh_expected s \<noteq> [] \<longrightarrow> sh_expected s1 = sh_expected s)
     \<and> (case evs of
          [] \<Rightarrow> True
        | [Mark_Failed _] \<Rightarrow> True
        | [Persist_Key k] \<Rightarrow> sh_expected s = [] \<and> sh_expected s1 = k \<and> py_strip k \<noteq> []
        | _ \<Rightarrow> False)"

lemma verify_events:
  "verify_or_record live p s = (e, s1, evs) \<Longrightarrow> keys_nonblank live \<Longrightarrow> events_ok s s1 evs"
  by (auto simp: verify_or_record_def events_ok_def keys_nonblank_def drop_conn_def Let_def
      split: option.splits if_splits)

lemma events_ok_cong:
  "events_ok s s1 evs \<Longrightarrow> sh_callback s' = sh_callback s \<Longrightarrow> sh_expected s' = sh_expected s \<Longrightarrow> events_ok s' s1 evs"
  by (simp add: events_ok_def split: list.splits ssh_event.splits)

lemma ensure_events:
  assumes "ensure_connected hostname live env s = (r, s1, evs)" "keys_nonblank live"
  shows "events_ok s s1 evs"
proof (cases "if ce_alive env then sh_conn s else None")
  case (Some p)
  then show ?thesis using assms(1) by (auto simp: ensure_connected_def events_ok_def)
next
  case None
  define s2 where "s2 = (if sh_resolver (drop_conn s)
    then drop_conn s\<lparr>sh_host := ssh_extract_host hostname (ce_active env)\<rparr> else drop_conn s)"
  have s2: "sh_callback s = sh_callback s2" "sh_expected s = sh_expected s2"
    by (auto simp: s2_def drop_conn_def)
  show ?thesis
  proof (cases "try_connect env")
    case None
    then show ?thesis
      using assms(1) \<open>(if ce_alive env then sh_conn s else None) = None\<close> s2
      by (auto simp: ensure_connected_def s2_def [symmetric] Let_def events_ok_def split: option.splits)
  next
    case (Some p)
    obtain e s3 evs3 where v: "verify_or_record live p (s2\<lparr>sh_conn := Some p\<rparr>) = (e, s3, evs3)"
      by (cases "verify_or_record live p (s2\<lparr>sh_conn := Some p\<rparr>)")
    have "s1 = s3 \<and> evs = evs3"
      using assms(1) Some v \<open>(if ce_alive env then sh_conn s else None) = None\<close>
      by (auto simp: ensure_connected_def s2_def [symmetric] Let_def split: option.splits)
    then show ?thesis
      using verify_events [OF v assms(2)] s2 by (auto intro: events_ok_cong)
  qed
qed

lemma run_events:
  assumes "ssh_run hostname live exec env cmd (d, s) = (r, (d1, s1), po, evs)" "keys_nonblank live"
  shows "events_ok s s1 evs"
proof -
  obtain r2 s2 evs2 where e: "ensure_connected hostname live env s = (r2, s2, evs2)"
    by (cases "ensure_connected hostname live env s")
  have "events_ok s (drop_conn s2) evs2" "events_ok s s2 evs2"
    using ensure_events [OF e assms(2)] by (simp_all add: events_ok_def split: list.splits ssh_event.splits)
  then show ?thesis
    using assms(1) e by (auto simp: ssh_run_def split: sum.splits prod.splits exec_result.splits)
qed

lemma pin_persist:
  assumes "events_ok s s1 evs"
  shows "pin_of (persist_events slug evs db) t =
    (case evs of [Persist_Key k] \<Rightarrow> if t = slug then map_option (\<lambda>_. k) (pin_of db t) else pin_of db t
     | _ \<Rightarrow> pin_of db t)"
proof -
  consider "evs = []" | u where "evs = [Mark_Failed u]" | k where "evs = [Persist_Key k]"
    using assms by (auto simp: events_ok_def split: list.splits ssh_event.splits)
  then show ?thesis
    by cases (auto simp: pin_of_def committed_fields set_fields_def no_fields_def set_opt_def
        option.map_comp o_def)
qed

text \<open>A connection and the row of its device agree on whether a host key is pinned.\<close>

definition pin_guard :: "device_db \<Rightarrow> string \<Rightarrow> 'p slate_ssh \<Rightarrow> bool" where
  "pin_guard db slug s \<longleftrightarrow> sh_callback s \<and> (\<forall>k. pin_of db slug = Some k \<and> k \<noteq> [] \<longrightarrow> sh_expected s \<noteq> [])"

lemma persist_bundle:
  assumes "events_ok s s1 evs" "pin_guard db slug s" "db' = persist_events slug evs db"
  shows "pins_kept {} db db' \<and> pin_guard db' slug s1
    \<and> (\<forall>t k. pin_of db' t = Some k \<longrightarrow> pin_of db t = Some k \<or> py_strip k \<noteq> [])
    \<and> (\<forall>t. t \<noteq> slug \<longrightarrow> pin_of db' t = pin_of db t)"
proof -
  have pp: "pin_of db' t = (case evs of [Persist_Key k] \<Rightarrow> if t = slug then map_option (\<lambda>_. k) (pin_of db t) else pin_of db t
     | _ \<Rightarrow> pin_of db t)" for t
    unfolding assms(3) by (rule pin_persist [OF assms(1)])
  have cb: "sh_callback s1 = sh_callback s" "sh_expected s \<noteq> [] \<Longrightarrow> sh_expected s1 = sh_expected s"
    using assms(1) by (simp_all add: events_ok_def)
  consider "evs = []" | u where "evs = [Mark_Failed u]"
    | k where "evs = [Persist_Key k]" "sh_expected s = []" "sh_expected s1 = k" "py_strip k \<noteq> []"
    using assms(1) by (auto simp: events_ok_def split: list.splits ssh_event.splits)
  then show ?thesis
  proof cases
    case (3 k)
    have "k \<noteq> []" using 3(4) by (auto simp: strip_defs)
    then show ?thesis using 3 assms(2) cb(1) by (auto simp: pp pins_kept_def pin_guard_def split: if_splits)
  qed (use assms(2) cb in \<open>auto simp: pp pins_kept_def pin_guard_def\<close>)
qed

section \<open>Every request keeps the pins\<close>

text \<open>What a step of the controller keeps.\<close>

definition step_ok :: "string set \<Rightarrow> ('d, 'p) controller \<Rightarrow> ('d, 'p) controller \<Rightarrow> bool" where
  "step_ok A co co' \<longleftrightarrow> pins_ok co' \<and> pins_kept A (co_db co) (co_db co')"

lemma pins_ok_bundle:
  "pins_ok co \<Longrightarrow> dict_get (co_cache co) slug = Some conn \<Longrightarrow> pin_guard (co_db co) slug (cn_ssh conn) \<and> cn_slug conn = slug"
  by (simp add: pins_ok_def pin_guard_def)

lemma pins_okI:
  assumes "\<And>slug k. pin_of (co_db co) slug = Some k \<Longrightarrow> k = [] \<or> py_strip k \<noteq> []"
    and "\<And>slug conn. dict_get (co_cache co) slug = Some conn \<Longrightarrow> cn_slug conn = slug \<and> pin_guard (co_db co) slug (cn_ssh conn)"
  shows "pins_ok co"
  using assms by (simp add: pins_ok_def pin_guard_def)

lemma pins_ok_same:
  assumes "pins_ok co" "pin_of (co_db co') = pin_of (co_db co)" "co_cache co' = co_cache co"
  shows "step_ok A co co'"
  using assms by (simp add: step_ok_def pins_ok_def pins_kept_def)

lemma pins_ok_invalidate: "step_ok A co co' \<Longrightarrow> step_ok A co (rg_invalidate slug co')"
  by (simp add: step_ok_def pins_ok_def pins_kept_def)

lemma persist_step:
  assumes "pins_ok co" "events_ok s s1 evs" "pin_guard (co_db co) slug s"
    and "co_db co' = persist_events slug evs (co_db co)"
    and "co_cache co' = dict_set slug conn (co_cache co)" "cn_slug conn = slug" "cn_ssh conn = s1"
  shows "step_ok {} co co'"
proof -
  note p = persist_bundle [OF assms(2-4)]
  have "pins_ok co'"
  proof (rule pins_okI)
    fix t k
    assume "pin_of (co_db co') t = Some k"
    then have "pin_of (co_db co) t = Some k \<or> py_strip k \<noteq> []" using p by blast
    then show "k = [] \<or> py_strip k \<noteq> []" using assms(1) unfolding pins_ok_def by blast
  next
    fix t c
    assume c: "dict_get (co_cache co') t = Some c"
    show "cn_slug c = t \<and> pin_guard (co_db co') t (cn_ssh c)"
    proof (cases "t = slug")
      case True
      then have "c = conn" using c assms(5) by simp
      then show ?thesis using True p assms(6,7) by simp
    next
      case False
      then have "dict_get (co_cache co) t = Some c" using c assms(5) by simp
      then show ?thesis using pins_ok_bundle [OF assms(1)] p False by (simp add: pin_guard_def)
    qed
  qed
  then show ?thesis using p by (simp add: step_ok_def)
qed

lemma run_cached_step:
  assumes "run_cached rt env cmd conn co = (r, co')" "pins_ok co" "keys_nonblank (rt_live rt)"
    and "pin_guard (co_db co) (cn_slug conn) (cn_ssh conn)"
  shows "step_ok {} co co'"
proof -
  obtain res d1 s1 po evs where run: "ssh_run (rt_hostname rt) (rt_live rt) (rt_exec rt) env cmd (co_dev co, cn_ssh conn)
      = (res, (d1, s1), po, evs)"
    by (metis prod.collapse)
  show ?thesis
    by (rule persist_step [OF assms(2) run_events [OF run assms(3)] assms(4), where
          conn = "conn\<lparr>cn_ssh := s1, cn_resolver := fail_events evs (cn_resolver conn)\<rparr>"])
      (use assms(1) run in \<open>auto simp: run_cached_def\<close>)
qed

lemma load_key_simps [simp]:
  "sh_callback (load_key dec slug keys s) = sh_callback s" "sh_expected (load_key dec slug keys s) = sh_expected s"
  by (auto simp: load_key_def use_private_key_def drop_conn_def split: sum.splits option.splits list.splits)

lemma make_ssh_simps [simp]:
  "sh_callback (make_ssh h u n pw port pem r e cb) = cb" "sh_expected (make_ssh h u n pw port pem r e cb) = py_strip e"
  by (simp_all add: make_ssh_def)

lemma for_slug_step:
  fixes co :: "('d, 'p) controller"
  assumes "rg_for_slug rt env slug co = (r, co')" "pins_ok co" "keys_nonblank (rt_live rt)"
  shows "step_ok {} co co' \<and> (case r of Inl _ \<Rightarrow> True | Inr conn \<Rightarrow>
     dict_get (co_cache co') slug = Some conn)"
proof (cases "dict_get (co_cache co) slug")
  case (Some conn)
  then show ?thesis using assms by (auto simp: rg_for_slug_def step_ok_def)
next
  case None
  obtain r2 co2 where b: "rg_build rt env slug co = (r2, co2)" by (cases "rg_build rt env slug co")
  show ?thesis
  proof (cases r2)
    case (Inl e)
    then have "co2 = co"
      using b by (auto simp: rg_build_def Let_def split: option.splits sum.splits prod.splits if_splits)
    then show ?thesis using assms b None Inl by (auto simp: rg_for_slug_def step_ok_def)
  next
    case (Inr conn)
    then have eq: "r = Inr conn" "co' = co2\<lparr>co_cache := dict_set slug conn (co_cache co2)\<rparr>"
      using assms(1) b None by (simp_all add: rg_for_slug_def)
    obtain row u pw rs where cd: "ds_get slug (co_db co) = Some row"
      "connect_device rt env row u pw rs co = (conn, co2)"
      using b Inr by (auto simp: rg_build_def Let_def split: option.splits sum.splits prod.splits if_splits)
    have slug: "dv_slug row = slug" using cd(1) row_find_key unfolding ds_get_def by fastforce
    define s0 where "s0 = load_key (rt_dec rt) slug (co_keys co) (make_ssh (rt_hostname rt) (active_url rs) u pw
      (if dv_ssh_port row = 0 then 22 else dv_ssh_port row) None True (dv_ssh_host_pubkey row) True :: 'p slate_ssh)"
    obtain res d1 s1 po evs where run: "ssh_run (rt_hostname rt) (rt_live rt) (rt_exec rt) (be_ssh env)
        TAILSCALE_IP_CMD (co_dev co, s0) = (res, (d1, s1), po, evs)"
      by (metis prod.collapse)
    have conn: "cn_slug conn = slug" "cn_ssh conn = s1" "co_db co2 = persist_events slug evs (co_db co)"
      "co_cache co2 = co_cache co"
      using cd(2) run slug unfolding connect_device_def Let_def s0_def [symmetric]
      by (auto simp: s0_def)
    have "pin_of (co_db co) slug = Some (dv_ssh_host_pubkey row)" using cd(1) by (simp add: pin_of_def)
    then have "pin_guard (co_db co) slug s0" using assms(2) by (auto simp: s0_def pins_ok_def pin_guard_def)
    then have "step_ok {} co co'"
      by (rule persist_step [OF assms(2) run_events [OF run assms(3)], where conn = conn]) (use conn eq(2) in auto)
    then show ?thesis using eq by simp
  qed
qed

lemma step_ok_trans: "step_ok {} co co1 \<Longrightarrow> step_ok A co1 co2 \<Longrightarrow> step_ok A co co2"
  unfolding step_ok_def using pins_kept_trans by blast

lemma step_ok_same_db:
  assumes "pins_ok co1" "pin_of (co_db co2) = pin_of (co_db co1)" "co_cache co2 = co_cache co1"
  shows "step_ok A co1 co2"
  using assms by (rule pins_ok_same)

lemma resolve_step:
  assumes "resolve_connections rt env device co = (r, co')" "pins_ok co" "keys_nonblank (rt_live rt)"
  shows "step_ok {} co co' \<and> (case r of Inl _ \<Rightarrow> True | Inr conn \<Rightarrow> pin_guard (co_db co') (cn_slug conn) (cn_ssh conn))"
proof -
  have fs: "step_ok {} co co1 \<and> (case r1 of Inl _ \<Rightarrow> True | Inr conn \<Rightarrow> pin_guard (co_db co1) (cn_slug conn) (cn_ssh conn))"
    if "rg_for_slug rt env slug co = (r1, co1)" for slug r1 co1
  proof -
    note f = for_slug_step [OF that assms(2,3)]
    show ?thesis
    proof (cases r1)
      case (Inr conn)
      then have "pin_guard (co_db co1) slug (cn_ssh conn) \<and> cn_slug conn = slug"
        using f pins_ok_bundle unfolding step_ok_def by fastforce
      then show ?thesis using f Inr by simp
    qed (use f in simp)
  qed
  have nil: "step_ok {} co co" using assms(2) by (simp add: step_ok_def)
  obtain r1 co1 where r1: "(case device of None \<Rightarrow> rg_for_default rt env co | Some s \<Rightarrow> rg_for_slug rt env s co) = (r1, co1)"
    by (cases "case device of None \<Rightarrow> rg_for_default rt env co | Some s \<Rightarrow> rg_for_slug rt env s co")
  have "step_ok {} co co1 \<and> (case r1 of Inl _ \<Rightarrow> True | Inr conn \<Rightarrow> pin_guard (co_db co1) (cn_slug conn) (cn_ssh conn))"
  proof (cases device)
    case None
    then show ?thesis
      using r1 fs nil by (auto simp: rg_for_default_def split: option.splits list.splits)
  qed (use r1 fs in simp)
  then show ?thesis using assms(1) r1 by (auto simp: resolve_connections_def split: sum.splits)
qed

lemma swap_step:
  assumes "pins_ok co"
  shows "step_ok {} co (swap_urls env us slug co)"
proof (cases "dict_get (co_cache co) slug")
  case (Some conn)
  have c: "cn_slug conn = slug" "pin_guard (co_db co) slug (cn_ssh conn)"
    using pins_ok_bundle [OF assms Some] by simp_all
  have "\<exists>rs. swap_urls env us slug co = co\<lparr>co_cache := dict_set slug (conn\<lparr>cn_resolver := rs\<rparr>) (co_cache co)\<rparr>"
    using Some unfolding swap_urls_def by (cases "set_urls us (cn_resolver conn)"; cases "fst (set_urls us (cn_resolver conn))") auto
  then obtain conn' where conn': "swap_urls env us slug co = co\<lparr>co_cache := dict_set slug conn' (co_cache co)\<rparr>"
    "cn_slug conn' = cn_slug conn" "cn_ssh conn' = cn_ssh conn"
    by fastforce
  have "pins_ok (swap_urls env us slug co)"
    using assms c conn' by (auto simp: pins_ok_def pin_guard_def)
  then show ?thesis by (simp add: step_ok_def)
qed (use assms in \<open>simp add: swap_urls_def step_ok_def\<close>)

lemma patch_step:
  assumes "pins_ok co" "keys_nonblank (rt_live rt)"
  shows "step_ok {} co (snd (update_device_route rt env device slug body co))"
proof -
  obtain r co1 where rc: "resolve_connections rt env device co = (r, co1)"
    by (cases "resolve_connections rt env device co")
  note r1 = resolve_step [OF rc assms]
  then have ok1: "step_ok {} co co1" "pins_ok co1" by (simp_all add: step_ok_def)
  show ?thesis
  proof (cases "fst (update_device_route rt env device slug body co)")
    case None
    then have "update_device_route rt env device slug body co = (None, snd (update_device_route rt env device slug body co))"
      by (metis prod.collapse)
    then obtain conn co1' db1 row db2 where p: "resolve_connections rt env device co = (Inr conn, co1')"
      "ds_update_fields slug (patch_fields body) (co_db co1') = Inr db1"
      "ds_update_credentials (rt_enc rt) slug (p_rpc_username body) (p_rpc_password body) db1 = Inr db2"
      "snd (update_device_route rt env device slug body co) = (let co2 = co1'\<lparr>co_db := db2\<rparr>;
        us = (case p_admin_urls body of None \<Rightarrow> [] | Some raws \<Rightarrow> normalize_admin_urls raws);
        co3 = (if dv_default row \<and> us \<noteq> [] then swap_urls env us (cn_slug conn) co2 else co2)
      in if (p_rpc_username body \<noteq> None \<or> p_rpc_password body \<noteq> None) \<or> ports_changed body row
            \<or> p_admin_urls body \<noteq> None
         then rg_invalidate slug co3 else co3)"
      by (rule patch_success)
    have co1: "co1' = co1" using p(1) rc by simp
    have pin: "pin_of db2 = pin_of (co_db co1)" using pin_patch [OF p(2)] pin_credentials [OF p(3)] co1 by simp
    have s2: "step_ok {} co1 (co1\<lparr>co_db := db2\<rparr>)" by (rule step_ok_same_db [OF ok1(2)]) (simp_all add: pin)
    then have "step_ok {} (co1\<lparr>co_db := db2\<rparr>) (swap_urls env us s (co1\<lparr>co_db := db2\<rparr>))" for us s
      by (intro swap_step) (simp add: step_ok_def)
    then have "step_ok {} co1 (swap_urls env us s (co1\<lparr>co_db := db2\<rparr>))" for us s
      using s2 step_ok_trans by blast
    then show ?thesis
      unfolding p(4) co1 Let_def using s2 ok1(1) by (auto intro: step_ok_trans pins_ok_invalidate)
  next
    case (Some e)
    then have "snd (update_device_route rt env device slug body co) = co1 \<or>
        (\<exists>db1. ds_update_fields slug (patch_fields body) (co_db co1) = Inr db1
          \<and> snd (update_device_route rt env device slug body co) = co1\<lparr>co_db := db1\<rparr>)"
      using rc by (auto simp: update_device_route_def Let_def split: sum.splits option.splits)
    then show ?thesis
    proof
      assume "\<exists>db1. ds_update_fields slug (patch_fields body) (co_db co1) = Inr db1
          \<and> snd (update_device_route rt env device slug body co) = co1\<lparr>co_db := db1\<rparr>"
      then obtain db1 where db1: "ds_update_fields slug (patch_fields body) (co_db co1) = Inr db1"
        "snd (update_device_route rt env device slug body co) = co1\<lparr>co_db := db1\<rparr>" by blast
      have "step_ok {} co1 (co1\<lparr>co_db := db1\<rparr>)"
        by (rule step_ok_same_db [OF ok1(2)]) (simp_all add: pin_patch [OF db1(1)])
      then show ?thesis unfolding db1(2) using ok1(1) step_ok_trans by blast
    qed (use ok1 in simp)
  qed
qed

lemma mark_step: "pins_ok co \<Longrightarrow> step_ok A co (mark_db now slug st fp co)"
  by (rule step_ok_same_db) simp_all

lemma probe_step:
  assumes "pins_ok co" "keys_nonblank (rt_live rt)"
  shows "step_ok {} co (snd (probe_device_route rt env slug co))"
proof -
  have nil: "step_ok {} co co" using assms(1) by (simp add: step_ok_def)
  have mk: "step_ok {} co (mark_db now s st fp co1)" if "step_ok {} co co1" for now s st fp co1
    using that mark_step step_ok_trans unfolding step_ok_def by blast
  have "step_ok {} co (snd (probe_ssh rt env row fp co))" for row fp
  proof -
    obtain r co1 where fs: "rg_for_slug rt (pi_build env) (dv_slug row) co = (r, co1)"
      by (cases "rg_for_slug rt (pi_build env) (dv_slug row) co")
    note f = for_slug_step [OF fs assms]
    show ?thesis
    proof (cases r)
      case (Inl e)
      then show ?thesis using fs f mk by (cases e) (simp_all add: probe_ssh_def Let_def)
    next
      case (Inr conn)
      obtain res co2 where rc: "run_cached rt (pi_run env) ''echo OK'' conn co1 = (res, co2)"
        by (cases "run_cached rt (pi_run env) ''echo OK'' conn co1")
      have g: "pins_ok co1" "pin_guard (co_db co1) (cn_slug conn) (cn_ssh conn)"
        using f Inr pins_ok_bundle [of co1 "dv_slug row" conn] by (auto simp: step_ok_def)
      have "step_ok {} co co2" using run_cached_step [OF rc g(1) assms(2) g(2)] f step_ok_trans by blast
      then show ?thesis
        using fs Inr rc
        by (auto simp: probe_ssh_def Let_def simp del: mark_db_simps split: sum.splits prod.splits
            intro!: pins_ok_invalidate mk)
    qed
  qed
  then show ?thesis
    using nil mk by (auto simp: probe_device_route_def Let_def simp del: mark_db_simps
        split: option.splits sum.splits prod.splits)
qed

lemma db_step:
  assumes "pins_ok co" "\<And>db'. res = Inr db' \<Longrightarrow> pin_of db' = pin_of (co_db co)"
  shows "step_ok {} co (snd (db_route res co))"
  using assms by (cases res) (auto simp: db_route_def step_ok_def pins_ok_def pins_kept_def)

lemma create_step:
  assumes "pins_ok co"
  shows "step_ok {} co (snd (create_device_route rt now body co))"
proof -
  define d where "d = body\<lparr>c_label := (if c_label body = [] then c_host body else c_label body), c_default := False\<rparr>"
  show ?thesis
  proof (cases "ds_create (rt_enc rt) now d (co_db co)")
    case (Inl e)
    then show ?thesis using assms
      by (cases e) (simp_all add: create_device_route_def d_def [symmetric] Let_def step_ok_def)
  next
    case (Inr p)
    obtain row db' where p: "p = (row, db')" by (cases p)
    have cr: "ds_create (rt_enc rt) now d (co_db co) = Inr (row, db')" using Inr p by simp
    have fresh: "pin_of (co_db co) (c_slug d) = None" using create_cases(2) [OF cr] by (simp add: pin_of_def)
    have "pins_ok (co\<lparr>co_db := db'\<rparr>)"
      using assms pin_create [OF cr] by (auto simp: pins_ok_def split: if_splits)
    moreover have "pins_kept {} (co_db co) db'" using pin_create [OF cr] fresh by (auto simp: pins_kept_def)
    ultimately show ?thesis
      using cr by (simp add: create_device_route_def d_def [symmetric] Let_def step_ok_def)
  qed
qed

lemma delete_step:
  assumes "pins_ok co"
  shows "step_ok {slug} co (snd (delete_device_route fk slug co))"
proof (cases "ds_get slug (co_db co)")
  case (Some row)
  have "step_ok {slug} co (rg_invalidate slug (co\<lparr>co_db := snd (ds_delete fk slug (co_db co))\<rparr>))"
    using assms by (auto simp: step_ok_def pins_ok_def pins_kept_def pin_delete split: if_splits)
  then show ?thesis
    using Some assms by (auto simp: delete_device_route_def Let_def step_ok_def pins_ok_def)
qed (use assms in \<open>simp add: delete_device_route_def step_ok_def\<close>)

lemma handle_step:
  assumes "pins_ok co" "keys_nonblank (rt_live rt)"
  shows "step_ok (case req of Do_Delete slug \<Rightarrow> {slug} | _ \<Rightarrow> {}) co (handle fk rt req co)"
proof (cases req)
  case (Do_Reset sent slug confirm)
  then show ?thesis using assms(1)
    by (auto simp: factory_reset_route_def step_ok_def pins_ok_def pins_kept_def split: option.splits sum.splits)
next
  case (Do_Use benv device env cmd)
  obtain r co1 where rc: "resolve_connections rt benv device co = (r, co1)"
    by (cases "resolve_connections rt benv device co")
  note s = resolve_step [OF rc assms]
  have "step_ok {} co (snd (run_cached rt env cmd conn co1))" if "r = Inr conn" for conn
    using run_cached_step [where rt = rt and env = env and cmd = cmd and conn = conn and co = co1, OF prod.collapse [symmetric]]
      s that assms(2) step_ok_trans
    by (metis (no_types, lifting) step_ok_def sum.simps(6))
  then show ?thesis using s rc Do_Use by (auto split: sum.splits)
next
  case (Do_Forget slug)
  then show ?thesis
    using assms(1) by (auto simp: forget_device_route_def ds_mark_forgotten_def
        intro!: db_step dest: pin_edit_Inr [OF keeps_pin_ops(2)])
next
  case (Do_Default slug)
  then show ?thesis using assms(1) by (auto simp: set_default_route_def intro!: db_step dest: pin_set_default)
qed (use assms create_step patch_step delete_step probe_step in auto)

lemma handle_all_simps [simp]:
  "handle_all fk rt [] co = co" "handle_all fk rt (r # rs) co = handle_all fk rt rs (handle fk rt r co)"
  by (simp_all add: handle_all_def)

lemma handle_all_ok:
  assumes "keys_nonblank (rt_live rt)" "pins_ok co"
  shows "pins_ok (handle_all fk rt reqs co)
    \<and> (pin_of (co_db co) slug = Some k \<and> k \<noteq> [] \<and> Do_Delete slug \<notin> set reqs
       \<longrightarrow> pin_of (co_db (handle_all fk rt reqs co)) slug = Some k)"
  using assms(2)
proof (induction reqs arbitrary: co)
  case (Cons req reqs)
  have s: "step_ok (case req of Do_Delete slug \<Rightarrow> {slug} | _ \<Rightarrow> {}) co (handle fk rt req co)"
    by (rule handle_step [OF Cons.prems assms(1)])
  have "pin_of (co_db (handle fk rt req co)) slug = Some k"
    if "pin_of (co_db co) slug = Some k" "k \<noteq> []" "Do_Delete slug \<noteq> req"
    using s that unfolding step_ok_def pins_kept_def by (cases req) auto
  then show ?case using Cons.IH [of "handle fk rt req co"] s by (auto simp: step_ok_def)
qed simp


text \<open>The first request pins the device's key; after the reset another key answers and is refused.\<close>

definition first_use :: "(unit, nat) request list" where
  "first_use = [Do_Create 1 sample_device, Do_Use sample_build None (sample_env 0) ''ls'']"

definition reset_and_probe :: "(unit, nat) request list" where
  "reset_and_probe =
     [Do_Reset (\<lambda>_. ()) ''slate'' ''slate'', Do_Use sample_build None (sample_env 1) ''ls'',
      Do_Probe mitm_probe ''slate'']"


end
