(* ===== verification/Device_Adoption.thy ===== *)
theory Device_Adoption
  imports Device_Registry Wifi_Store
begin

text \<open>
  Adoption of a device (\<^verbatim>\<open>backend/app/devices/adoption.py\<close>): a sequence of tasks over SSH, each with a
  report, and the status of the device they lead to. The SSH channel is a parameter: running a command and
  swapping the key change the device's state \<open>'d\<close>, which also holds the channel's own state. So are the
  deployment of the agent and the set-up of AdGuard Home. Reports have no message here, the scripts no
  comment lines.
\<close>

section \<open>Reports\<close>

datatype task_status = Task_Ok | Task_Skipped | Task_Failed

datatype task_name =
  Ensure_Ssh | Pin_Tls | Force_Https | Key_Only | Enable_Luci | Extra_Packages | Lock_Wan | Enable_Adguard
| Deploy_Agent | Disable_Upnp | Doh_Blocklist

type_synonym task_report = "task_name \<times> task_status"

datatype overall_status = All_Ok | Partial | All_Failed

record adoption_options =
  pin_tls :: bool
  force_https_webui :: bool
  ssh_key_only :: bool
  disable_upnp :: bool

record 'd channel =
  ch_run :: "'d \<Rightarrow> string \<Rightarrow> 'd \<times> (string + string \<times> string)"
  ch_use_key :: "string option \<Rightarrow> 'd \<Rightarrow> 'd"
  ch_deploy :: "(string \<times> string) option \<Rightarrow> (string, string) dict \<Rightarrow> 'd \<Rightarrow> 'd \<times> bool"
  ch_provision :: "'d \<Rightarrow> 'd \<times> bool"

record 'd adoption =
  ad_dev :: 'd
  ad_db :: device_db
  ad_keys :: "keypair_row option"

section \<open>Tasks\<close>

text \<open>The tasks that send one script and look for \<open>OK\<close> in its output.\<close>

definition simple_task :: "'d channel \<Rightarrow> string \<Rightarrow> 'd \<Rightarrow> task_status \<times> 'd" where
  "simple_task ch cmd d =
     (case ch_run ch d cmd of
        (d1, Inl _) \<Rightarrow> (Task_Failed, d1)
      | (d1, Inr (out, _)) \<Rightarrow> (if py_contains ''OK'' out then Task_Ok else Task_Failed, d1))"

definition escape_quotes :: "string \<Rightarrow> string" where
  "escape_quotes s = concat (map (\<lambda>c. if c = squote then [squote, backslash, squote, squote] else [c]) s)"

definition push_key_cmd :: "string \<Rightarrow> string" where
  "push_key_cmd public =
     (let quoted = squote # escape_quotes (py_strip public) @ [squote]
      in ''mkdir -p /etc/dropbear && touch /etc/dropbear/authorized_keys && ''
       @ ''grep -qF '' @ quoted @ '' /etc/dropbear/authorized_keys || ''
       @ ''echo '' @ quoted @ '' >> /etc/dropbear/authorized_keys && ''
       @ ''chmod 600 /etc/dropbear/authorized_keys && echo OK'')"

text \<open>After the key was pushed: back to key authentication, checked by a command, then recorded.\<close>

definition restore_key ::
  "'d channel \<Rightarrow> (string \<Rightarrow> string option) \<Rightarrow> instant \<Rightarrow> string \<Rightarrow> 'd adoption \<Rightarrow> task_status \<times> 'd adoption" where
  "restore_key ch dec now slug st =
     (case ks_get_private_pem dec (ad_keys st) of
        Inr (Some pem) \<Rightarrow>
          (case ch_run ch (ch_use_key ch (Some pem) (ad_dev st)) ''echo OK_KEY'' of
             (d1, Inl _) \<Rightarrow> (Task_Failed, st\<lparr>ad_dev := d1\<rparr>)
           | (d1, Inr _) \<Rightarrow>
               (Task_Ok, st\<lparr>ad_dev := d1,
                  ad_keys := committed (ks_mark_deployed now slug (ad_keys st)) (ad_keys st)\<rparr>))
      | _ \<Rightarrow> (Task_Failed, st))"

definition task_ensure_ssh ::
  "'d channel \<Rightarrow> (string \<Rightarrow> string option) \<Rightarrow> instant \<Rightarrow> string \<Rightarrow> 'd adoption \<Rightarrow> task_status \<times> 'd adoption" where
  "task_ensure_ssh ch dec now slug st =
     (case ch_run ch (ad_dev st) ''echo OK_PROBE'' of
        (d1, Inr _) \<Rightarrow> (Task_Ok, st\<lparr>ad_dev := d1\<rparr>)
      | (d1, Inl err) \<Rightarrow>
          if \<not> py_contains ''Permission denied'' err then (Task_Failed, st\<lparr>ad_dev := d1\<rparr>)
          else (case ks_public (ks_get_status slug (ad_keys st)) of
             Some (c # cs) \<Rightarrow>
               (case ch_run ch (ch_use_key ch None d1) ''echo OK_PASSWORD'' of
                  (d2, Inl _) \<Rightarrow> (Task_Failed, st\<lparr>ad_dev := d2\<rparr>)
                | (d2, Inr _) \<Rightarrow>
                    (case ch_run ch d2 (push_key_cmd (c # cs)) of
                       (d3, Inr (out, _)) \<Rightarrow>
                         if py_contains ''OK'' out then restore_key ch dec now slug (st\<lparr>ad_dev := d3\<rparr>)
                         else (Task_Failed, st\<lparr>ad_dev := d3\<rparr>)
                     | (d3, Inl _) \<Rightarrow> (Task_Failed, st\<lparr>ad_dev := d3\<rparr>)))
           | _ \<Rightarrow> (Task_Failed, st\<lparr>ad_dev := d1\<rparr>)))"

text \<open>\<open>fetch\<close> is the fingerprint of the certificate at the device's address, when it can be had.\<close>

definition task_pin_tls ::
  "instant \<Rightarrow> string \<Rightarrow> string option \<Rightarrow> 'd adoption \<Rightarrow> task_status \<times> 'd adoption" where
  "task_pin_tls now slug fetch st =
     (case fetch of
        None \<Rightarrow> (Task_Failed, st)
      | Some fp \<Rightarrow>
          (Task_Ok, st\<lparr>ad_db := committed (ds_mark_probed now slug Pending (Some fp) (ad_db st)) (ad_db st)\<rparr>))"

definition FORCE_HTTPS_CMD :: string where
  \<open>FORCE_HTTPS_CMD = ''uci set glconfig.general.webui_redirect='on' 2>/dev/null; uci set uhttpd.main.redirect_https='1' 2>/dev/null; uci commit glconfig 2>/dev/null; uci commit uhttpd 2>/dev/null; /etc/init.d/uhttpd reload 2>/dev/null; echo OK''\<close>

definition KEY_ONLY_CMD :: string where
  \<open>KEY_ONLY_CMD = ''uci set dropbear.@dropbear[0].PasswordAuth=off && uci commit dropbear && /etc/init.d/dropbear restart && echo OK''\<close>

definition task_key_only :: "'d channel \<Rightarrow> string \<Rightarrow> keypair_row option \<Rightarrow> 'd \<Rightarrow> task_status \<times> 'd" where
  "task_key_only ch slug keys d =
     (let st = ks_get_status slug keys in
      if \<not> ks_generated st then (Task_Skipped, d)
      else if \<not> ks_deployed st then (Task_Skipped, d)
      else simple_task ch KEY_ONLY_CMD d)"

definition LUCI_CMD :: string where
  \<open>LUCI_CMD = ''
        if opkg list-installed 2>/dev/null | grep -q '^gl-sdk4-luci '; then
            echo "LUCI_PRESENT=1"
        else
            echo "LUCI_INSTALL=start"
            opkg update >/dev/null 2>&1 || { echo "OPKG_UPDATE_FAILED"; exit 1; }
            opkg install gl-sdk4-luci >/tmp/slate-ctrl-luci-install.log 2>&1 '' @ [backslash] @ ''
                || { echo "OPKG_INSTALL_FAILED"; tail -3 /tmp/slate-ctrl-luci-install.log; exit 1; }
            echo "LUCI_INSTALL=done"
        fi
        uci -q set glconfig.luci_main='glconfig' 2>/dev/null
        uci -q set glconfig.luci_main.luci_enable='1' 2>/dev/null
        uci -q set glconfig.general.luci_access='1' 2>/dev/null
        uci -q commit glconfig 2>/dev/null
        /etc/init.d/uhttpd reload 2>/dev/null
        /etc/init.d/nginx reload 2>/dev/null
        echo OK
    ''\<close>

definition task_enable_luci :: "'d channel \<Rightarrow> 'd \<Rightarrow> task_status \<times> 'd" where
  "task_enable_luci ch d =
     (case ch_run ch d LUCI_CMD of
        (d1, Inl _) \<Rightarrow> (Task_Failed, d1)
      | (d1, Inr (out, _)) \<Rightarrow>
          if py_contains ''OPKG_UPDATE_FAILED'' out then (Task_Failed, d1)
          else if py_contains ''OPKG_INSTALL_FAILED'' out then (Task_Failed, d1)
          else if \<not> py_contains ''OK'' out then (Task_Failed, d1)
          else (Task_Ok, d1))"

definition LOCK_WAN_CMD :: string where
  \<open>LOCK_WAN_CMD = ''
        for path in '' @ [backslash] @ ''
            glconfig.general.wan_ping '' @ [backslash] @ ''
            glconfig.general.https_remote_access '' @ [backslash] @ ''
            glconfig.general.ssh_remote_access '' @ [backslash] @ ''
            glconfig.remote_access.ping '' @ [backslash] @ ''
            glconfig.remote_access.https '' @ [backslash] @ ''
            glconfig.remote_access.ssh '' @ [backslash] @ ''
            glconfig.remote_access.wan_ping ; do
            uci -q set "$path=0" 2>/dev/null
        done
        uci -q set glconfig.general.wan_ping='off' 2>/dev/null
        uci -q commit glconfig 2>/dev/null

        uci -q set oui-httpd.main.security_rule='1' 2>/dev/null
        uci -q commit oui-httpd 2>/dev/null
        /etc/init.d/oui-httpd reload 2>/dev/null || '' @ [backslash] @ ''
            /etc/init.d/oui-httpd restart 2>/dev/null

        _sc_rule () {
            local name="$1"; shift
            uci -q get "firewall.$name" >/dev/null 2>&1 '' @ [backslash] @ ''
                || uci set "firewall.$name=rule"
            uci set "firewall.$name.name=$name"
            uci set "firewall.$name.enabled=1"
            uci set "firewall.$name.src=wan"
            uci set "firewall.$name.target=REJECT"
            uci set "firewall.$name.slate_ctrl_managed=1"
            while [ "$#" -ge 2 ]; do
                uci set "firewall.$name.$1=$2"
                shift 2
            done
        }
        _sc_rule SC_FR_HD_WAN_PING_DROP '' @ [backslash] @ ''
            proto icmp icmp_type echo-request family ipv4
        _sc_rule SC_FR_HD_WAN_HTTPS_DROP '' @ [backslash] @ ''
            proto tcp dest_port 443
        _sc_rule SC_FR_HD_WAN_SSH_DROP '' @ [backslash] @ ''
            proto tcp dest_port 22
        uci commit firewall

        /etc/init.d/uhttpd reload 2>/dev/null
        /etc/init.d/dropbear reload 2>/dev/null
        if command -v fw3 >/dev/null 2>&1; then
            fw3 reload 2>/dev/null
        else
            /etc/init.d/firewall reload 2>/dev/null
        fi
        echo OK
    ''\<close>

definition EXTRA_PACKAGES :: "string list" where
  "EXTRA_PACKAGES = [''tcpdump'']"

definition extras_cmd :: string where
  \<open>extras_cmd = ''MISSING='' @ [squote, squote] @ ''; for p in '' @ py_join '' '' EXTRA_PACKAGES
     @ ''; do   opkg list-installed | grep -q "^$p " || MISSING="$MISSING $p"; done; ''
     @ ''if [ -z "$MISSING" ]; then echo NOTHING_TO_DO; exit 0; fi; echo "MISSING:$MISSING"; ''
     @ ''opkg update >/dev/null 2>&1 || { echo OPKG_UPDATE_FAILED; exit 1; }; ''
     @ ''opkg install $MISSING 2>&1 | tail -20; echo INSTALL_DONE''\<close>

definition check_package_cmd :: "string \<Rightarrow> string" where
  \<open>check_package_cmd p = ''opkg list-installed | grep -q "^'' @ p @ '' " && echo PRESENT || echo MISSING''\<close>

fun missing_packages :: "'d channel \<Rightarrow> string list \<Rightarrow> 'd \<Rightarrow> string list \<times> 'd" where
  "missing_packages ch [] d = ([], d)"
| "missing_packages ch (p # ps) d =
     (case ch_run ch d (check_package_cmd p) of (d1, res) \<Rightarrow>
        case missing_packages ch ps d1 of (ms, d2) \<Rightarrow>
          (case res of
             Inl _ \<Rightarrow> (p # ms, d2)
           | Inr (out, _) \<Rightarrow> (if py_contains ''PRESENT'' out then ms else p # ms, d2)))"

definition task_extra_packages :: "'d channel \<Rightarrow> 'd \<Rightarrow> task_status \<times> 'd" where
  "task_extra_packages ch d =
     (case ch_run ch d extras_cmd of
        (d1, Inl _) \<Rightarrow> (Task_Failed, d1)
      | (d1, Inr (out, _)) \<Rightarrow>
          if py_contains ''NOTHING_TO_DO'' out then (Task_Ok, d1)
          else if py_contains ''OPKG_UPDATE_FAILED'' out then (Task_Failed, d1)
          else if \<not> py_contains ''INSTALL_DONE'' out then (Task_Failed, d1)
          else (case missing_packages ch EXTRA_PACKAGES d1 of
             (ms, d2) \<Rightarrow> (if ms \<noteq> [] then Task_Failed else Task_Ok, d2)))"

definition ENABLE_ADGUARD_CMD :: string where
  \<open>ENABLE_ADGUARD_CMD = ''uci set adguardhome.config.enabled=1 && uci commit adguardhome && /etc/init.d/adguardhome enable 2>/dev/null; /etc/init.d/adguardhome start 2>/dev/null; echo OK''\<close>

definition task_enable_adguard :: "'d channel \<Rightarrow> 'd \<Rightarrow> task_status \<times> 'd" where
  "task_enable_adguard ch d =
     (case simple_task ch ENABLE_ADGUARD_CMD d of
        (Task_Ok, d1) \<Rightarrow>
          (case ch_provision ch (fst (ch_run ch d1 TAILSCALE_IP_CMD)) of
             (d2, ok) \<Rightarrow> (if ok then Task_Ok else Task_Failed, d2))
      | (s, d1) \<Rightarrow> (s, d1))"

text \<open>The secrets that go with the agent: no placeholder admin password, and the Wi-Fi passwords that can
  be decrypted.\<close>

definition adguard_credentials :: "string \<Rightarrow> string \<Rightarrow> (string \<times> string) option" where
  "adguard_credentials username password =
     (if password \<noteq> [] \<and> py_lower (py_strip password) \<notin> {''change-me'', ''changeme'', ''password''}
      then Some (username, password) else None)"

definition wifi_passwords :: "(string \<Rightarrow> string option) \<Rightarrow> ssid_row list \<Rightarrow> (string, string) dict" where
  "wifi_passwords dec rows =
     foldl (\<lambda>acc e. if \<not> has_password e then acc
        else case ws_get_password dec rows (sp_slug e) of
          Inl _ \<Rightarrow> acc
        | Inr p \<Rightarrow> dict_set (sp_slug e) p acc) [] (ws_list_all rows)"

definition task_deploy_agent ::
  "'d channel \<Rightarrow> (string \<Rightarrow> string option) \<Rightarrow> string \<Rightarrow> string \<Rightarrow> ssid_row list \<Rightarrow> 'd \<Rightarrow> task_status \<times> 'd" where
  "task_deploy_agent ch dec username password rows d =
     (case ch_deploy ch (adguard_credentials username password) (wifi_passwords dec rows) d of
        (d1, ok) \<Rightarrow> (if ok then Task_Ok else Task_Failed, d1))"

definition DISABLE_UPNP_CMD :: string where
  \<open>DISABLE_UPNP_CMD = ''uci -q set upnpd.config.enabled='0'; uci -q commit upnpd; /etc/init.d/miniupnpd stop 2>/dev/null; /etc/init.d/miniupnpd disable 2>/dev/null; echo OK''\<close>

section \<open>The run\<close>

record 'd adoption_inputs =
  ai_slug :: string
  ai_options :: adoption_options
  ai_channel :: "'d channel"
  ai_dec :: "string \<Rightarrow> string option"
  ai_now :: instant
  ai_cert :: "string option"
  ai_admin :: "string \<times> string"
  ai_ssids :: "ssid_row list"

text \<open>A step of the run, and its task when it is selected.\<close>

type_synonym 'd run_state = "task_report list \<times> 'd adoption"

definition do_task :: "bool \<Rightarrow> task_name \<Rightarrow> ('d adoption \<Rightarrow> task_status \<times> 'd adoption) \<Rightarrow> 'd run_state \<Rightarrow> 'd run_state" where
  "do_task selected n f rs =
     (if selected then case f (snd rs) of (s, st) \<Rightarrow> (fst rs @ [(n, s)], st) else rs)"

definition on_dev :: "('d \<Rightarrow> task_status \<times> 'd) \<Rightarrow> 'd adoption \<Rightarrow> task_status \<times> 'd adoption" where
  "on_dev f st = (case f (ad_dev st) of (s, d1) \<Rightarrow> (s, st\<lparr>ad_dev := d1\<rparr>))"

definition overall_of :: "task_report list \<Rightarrow> overall_status" where
  "overall_of reports =
     (let statuses = snd ` set reports in
      if statuses \<subseteq> {Task_Ok, Task_Skipped} then All_Ok
      else if Task_Ok \<in> statuses then Partial else All_Failed)"

definition first_tasks :: "'d adoption_inputs \<Rightarrow> 'd run_state \<Rightarrow> 'd run_state" where
  "first_tasks ai rs =
     (let ch = ai_channel ai; o' = ai_options ai;
          rs1 = do_task (pin_tls o') Pin_Tls (task_pin_tls (ai_now ai) (ai_slug ai) (ai_cert ai)) rs;
          rs2 = do_task (force_https_webui o') Force_Https (on_dev (simple_task ch FORCE_HTTPS_CMD)) rs1
      in do_task (ssh_key_only o') Key_Only (\<lambda>st. on_dev (task_key_only ch (ai_slug ai) (ad_keys st)) st) rs2)"

definition last_tasks :: "'d adoption_inputs \<Rightarrow> 'd run_state \<Rightarrow> 'd run_state" where
  "last_tasks ai rs =
     (let ch = ai_channel ai;
          rs4 = do_task True Enable_Luci (on_dev (task_enable_luci ch)) rs;
          rs5 = do_task True Extra_Packages (on_dev (task_extra_packages ch)) rs4;
          rs6 = do_task True Lock_Wan (on_dev (simple_task ch LOCK_WAN_CMD)) rs5;
          rs7 = do_task True Enable_Adguard (on_dev (task_enable_adguard ch)) rs6;
          rs8 = do_task True Deploy_Agent
                  (on_dev (task_deploy_agent ch (ai_dec ai) (fst (ai_admin ai)) (snd (ai_admin ai)) (ai_ssids ai))) rs7
      in do_task (disable_upnp (ai_options ai)) Disable_Upnp (on_dev (simple_task ch DISABLE_UPNP_CMD)) rs8)"

definition later_tasks :: "'d adoption_inputs \<Rightarrow> 'd run_state \<Rightarrow> 'd run_state" where
  "later_tasks ai rs = last_tasks ai (first_tasks ai rs)"

definition run_adoption :: "'d adoption_inputs \<Rightarrow> 'd adoption \<Rightarrow> (overall_status \<times> task_report list) \<times> 'd adoption" where
  "run_adoption ai st =
     (let slug = ai_slug ai; now = ai_now ai;
          mark_error = (\<lambda>s. s\<lparr>ad_db := committed (ds_mark_probed now slug Failed_Probe None (ad_db s)) (ad_db s)\<rparr>)
      in case task_ensure_ssh (ai_channel ai) (ai_dec ai) now slug st of
        (Task_Failed, st1) \<Rightarrow> ((All_Failed, [(Ensure_Ssh, Task_Failed)]), mark_error st1)
      | (s, st1) \<Rightarrow>
          (case later_tasks ai ([(Ensure_Ssh, s)], st1) of (reports, st2) \<Rightarrow>
             let overall = overall_of reports
             in ((overall, reports),
                 if overall \<noteq> All_Failed
                 then st2\<lparr>ad_db := committed (ds_mark_adopted now slug (ad_db st2)) (ad_db st2)\<rparr>
                 else mark_error st2)))"

section \<open>What the tasks keep\<close>

lemma do_task_cases:
  "do_task b n f rs = (if b then (fst rs @ [(n, fst (f (snd rs)))], snd (f (snd rs))) else rs)"
  by (simp add: do_task_def case_prod_beta)

lemma snd_on_dev [simp]:
  "ad_db (snd (on_dev f st)) = ad_db st" "ad_keys (snd (on_dev f st)) = ad_keys st"
  "ad_dev (snd (on_dev f st)) = snd (f (ad_dev st))" "fst (on_dev f st) = fst (f (ad_dev st))"
  by (simp_all add: on_dev_def case_prod_beta)

text \<open>The reports only grow, the ledger stays, and a device that has a row keeps it.\<close>

definition run_grows :: "string \<Rightarrow> 'd run_state \<Rightarrow> 'd run_state \<Rightarrow> bool" where
  "run_grows slug rs rs' \<longleftrightarrow> (\<exists>ext. fst rs' = fst rs @ ext) \<and> ad_keys (snd rs') = ad_keys (snd rs)
     \<and> (ds_get slug (ad_db (snd rs)) \<noteq> None \<longrightarrow> ds_get slug (ad_db (snd rs')) \<noteq> None)"

lemma run_grows_refl [simp]: "run_grows slug rs rs"
  by (simp add: run_grows_def)

lemma run_grows_trans: "run_grows slug rs rs1 \<Longrightarrow> run_grows slug rs1 rs2 \<Longrightarrow> run_grows slug rs rs2"
  unfolding run_grows_def by (metis append.assoc)

lemma grows_on_dev: "run_grows slug rs (do_task b n (on_dev f) rs)"
  by (simp add: do_task_cases run_grows_def)

lemma grows_key_only: "run_grows slug rs (do_task b n (\<lambda>st. on_dev (f st) st) rs)"
  by (simp add: do_task_cases run_grows_def)

lemma mark_probed_exists:
  "ds_get slug db \<noteq> None \<Longrightarrow> ds_get slug (committed (ds_mark_probed now s st fp db) db) \<noteq> None"
  unfolding ds_mark_probed_def by (auto simp: edit_device_def committed_def ds_get_def split: option.splits)

lemma grows_pin_tls: "run_grows slug rs (do_task b n (task_pin_tls now s fetch) rs)"
  using mark_probed_exists [of slug "ad_db (snd rs)"]
  by (auto simp: do_task_cases run_grows_def task_pin_tls_def split: option.splits)

lemma grows_first: "run_grows slug rs (first_tasks ai rs)"
  unfolding first_tasks_def Let_def
  by (intro run_grows_trans [OF run_grows_trans [OF grows_pin_tls grows_on_dev] grows_key_only])

lemma grows_last: "run_grows slug rs (last_tasks ai rs)"
  unfolding last_tasks_def Let_def
  by (intro run_grows_trans [OF run_grows_trans [OF run_grows_trans [OF run_grows_trans
        [OF run_grows_trans [OF grows_on_dev grows_on_dev] grows_on_dev] grows_on_dev] grows_on_dev] grows_on_dev])

lemma grows_later: "run_grows slug rs (later_tasks ai rs)"
  unfolding later_tasks_def using grows_first grows_last by (rule run_grows_trans)

lemma ensure_ssh_cases:
  "fst (task_ensure_ssh ch dec now slug st) \<in> {Task_Ok, Task_Failed}
   \<and> ad_db (snd (task_ensure_ssh ch dec now slug st)) = ad_db st"
  by (auto simp: task_ensure_ssh_def restore_key_def
      split: prod.splits sum.splits option.splits list.splits)

lemma status_after_adopted:
  "ds_get slug db \<noteq> None \<Longrightarrow>
   map_option dv_status (ds_get slug (committed (ds_mark_adopted now slug db) db)) = Some Adopted"
  unfolding ds_mark_adopted_def by (auto simp: edit_device_def committed_def ds_get_def split: option.splits)

lemma status_after_probed:
  "ds_get slug db \<noteq> None \<Longrightarrow>
   map_option dv_status (ds_get slug (committed (ds_mark_probed now slug st fp db) db)) = Some st"
  unfolding ds_mark_probed_def by (auto simp: edit_device_def committed_def ds_get_def split: option.splits)

lemma no_failure: "S \<subseteq> {Task_Ok, Task_Skipped} \<longleftrightarrow> Task_Failed \<notin> S"
proof
  assume a: "Task_Failed \<notin> S"
  show "S \<subseteq> {Task_Ok, Task_Skipped}"
  proof
    fix x
    assume "x \<in> S"
    then show "x \<in> {Task_Ok, Task_Skipped}" using a by (cases x) auto
  qed
qed auto

lemma adoption_outcome_helper:
  assumes "ds_get (ai_slug ai) (ad_db st) \<noteq> None" "run_adoption ai st = ((overall, reports), st')"
  shows "if fst (task_ensure_ssh (ai_channel ai) (ai_dec ai) (ai_now ai) (ai_slug ai) st) = Task_Failed
    then overall = All_Failed \<and> reports = [(Ensure_Ssh, Task_Failed)]
      \<and> map_option dv_status (ds_get (ai_slug ai) (ad_db st')) = Some Failed_Probe
    else overall = (if Task_Failed \<in> snd ` set reports then Partial else All_Ok)
      \<and> map_option dv_status (ds_get (ai_slug ai) (ad_db st')) = Some Adopted"
proof -
  obtain s st1 where e: "task_ensure_ssh (ai_channel ai) (ai_dec ai) (ai_now ai) (ai_slug ai) st = (s, st1)"
    by (cases "task_ensure_ssh (ai_channel ai) (ai_dec ai) (ai_now ai) (ai_slug ai) st")
  have s: "s = Task_Ok \<or> s = Task_Failed" and db1: "ad_db st1 = ad_db st"
    using ensure_ssh_cases [of "ai_channel ai" "ai_dec ai" "ai_now ai" "ai_slug ai" st] e by auto
  from s show ?thesis
  proof
    assume s: "s = Task_Failed"
    then show ?thesis
      using assms e db1 status_after_probed by (auto simp: run_adoption_def Let_def)
  next
    assume s: "s = Task_Ok"
    obtain rs st2 where later: "later_tasks ai ([(Ensure_Ssh, Task_Ok)], st1) = (rs, st2)"
      by (cases "later_tasks ai ([(Ensure_Ssh, Task_Ok)], st1)")
    note g = grows_later [of "ai_slug ai" "([(Ensure_Ssh, Task_Ok)], st1)" ai]
    have rs: "(Ensure_Ssh, Task_Ok) \<in> set rs" using g later by (auto simp: run_grows_def)
    then have ok: "Task_Ok \<in> snd ` set rs" by force
    have row: "ds_get (ai_slug ai) (ad_db st2) \<noteq> None" using g later assms(1) db1 by (auto simp: run_grows_def)
    have iff: "snd ` set rs \<subseteq> {Task_Ok, Task_Skipped} \<longleftrightarrow> Task_Failed \<notin> snd ` set rs"
      by (rule no_failure)
    have overall: "overall_of rs = (if Task_Failed \<in> snd ` set rs then Partial else All_Ok)"
      using ok iff by (auto simp: overall_of_def Let_def)
    then have "overall_of rs \<noteq> All_Failed" by simp
    then have "(overall, reports) = (overall_of rs, rs)"
      "ad_db st' = committed (ds_mark_adopted (ai_now ai) (ai_slug ai) (ad_db st2)) (ad_db st2)"
      using assms(2) e s later by (auto simp: run_adoption_def Let_def)
    then show ?thesis using e s overall status_after_adopted [OF row] by simp
  qed
qed

text \<open>
  The outcome of an adoption hangs on its first task alone. If SSH access cannot be had, no other task
  is tried, the run has failed and the device is in error. Otherwise the device ends up adopted whatever
  the other tasks report: the run is never a failure, a success when no task failed and partial when one
  did.
\<close>

theorem adoption_outcome:
  assumes "ds_get (ai_slug ai) (ad_db st) \<noteq> None" "run_adoption ai st = ((overall, reports), st')"
  shows "if fst (task_ensure_ssh (ai_channel ai) (ai_dec ai) (ai_now ai) (ai_slug ai) st) = Task_Failed
    then overall = All_Failed \<and> reports = [(Ensure_Ssh, Task_Failed)]
      \<and> map_option dv_status (ds_get (ai_slug ai) (ad_db st')) = Some Failed_Probe
    else overall = (if Task_Failed \<in> snd ` set reports then Partial else All_Ok)
      \<and> map_option dv_status (ds_get (ai_slug ai) (ad_db st')) = Some Adopted"
  using assms by (rule adoption_outcome_helper)

lemma first_tasks_key:
  assumes "ssh_key_only (ai_options ai)"
  shows "\<exists>rs2. first_tasks ai rs = do_task True Key_Only
      (\<lambda>s. on_dev (task_key_only (ai_channel ai) (ai_slug ai) (ad_keys s)) s) rs2
    \<and> ad_keys (snd rs2) = ad_keys (snd rs)"
proof -
  let ?rs2 = "do_task (force_https_webui (ai_options ai)) Force_Https
    (on_dev (simple_task (ai_channel ai) FORCE_HTTPS_CMD))
    (do_task (pin_tls (ai_options ai)) Pin_Tls (task_pin_tls (ai_now ai) (ai_slug ai) (ai_cert ai)) rs)"
  have "run_grows [] rs ?rs2" by (rule run_grows_trans [OF grows_pin_tls grows_on_dev])
  then show ?thesis
    using assms by (intro exI [of _ ?rs2]) (simp add: first_tasks_def Let_def run_grows_def)
qed

section \<open>Locked out\<close>

text \<open>The commands the tasks after the first send, and the states of the device that all of them keep.\<close>

definition LATER_CMDS :: "string list" where
  "LATER_CMDS = [FORCE_HTTPS_CMD, KEY_ONLY_CMD, LUCI_CMD, extras_cmd, LOCK_WAN_CMD, ENABLE_ADGUARD_CMD,
     TAILSCALE_IP_CMD, DISABLE_UPNP_CMD] @ map check_package_cmd EXTRA_PACKAGES"

definition keeps :: "'d channel \<Rightarrow> ('d \<Rightarrow> bool) \<Rightarrow> bool" where
  "keeps ch P \<longleftrightarrow> (\<forall>d. P d \<longrightarrow>
     (\<forall>c\<in>set LATER_CMDS. P (fst (ch_run ch d c))) \<and> (\<forall>a w. P (fst (ch_deploy ch a w d))) \<and> P (fst (ch_provision ch d)))"

lemma keeps_cmd: "keeps ch P \<Longrightarrow> P d \<Longrightarrow> c \<in> set LATER_CMDS \<Longrightarrow> P (fst (ch_run ch d c))"
  by (simp add: keeps_def)

lemma keeps_simple:
  assumes "keeps ch P" "P d" "c \<in> set LATER_CMDS"
  shows "P (snd (simple_task ch c d))"
  using keeps_cmd [OF assms] by (auto simp: simple_task_def split: prod.splits sum.splits)

lemma keeps_missing:
  "keeps ch P \<Longrightarrow> P d \<Longrightarrow> set ps \<subseteq> set EXTRA_PACKAGES \<Longrightarrow> P (snd (missing_packages ch ps d))"
proof (induction ps arbitrary: d)
  case (Cons p ps)
  have "P (fst (ch_run ch d (check_package_cmd p)))"
    by (rule keeps_cmd [OF Cons.prems(1,2)]) (use Cons.prems(3) in \<open>simp add: LATER_CMDS_def\<close>)
  then have "P (snd (missing_packages ch ps (fst (ch_run ch d (check_package_cmd p)))))"
    using Cons by simp
  then show ?case by (auto split: prod.splits sum.splits)
qed simp

lemma later_cmds [simp]:
  "FORCE_HTTPS_CMD \<in> set LATER_CMDS" "KEY_ONLY_CMD \<in> set LATER_CMDS" "LUCI_CMD \<in> set LATER_CMDS"
  "extras_cmd \<in> set LATER_CMDS" "LOCK_WAN_CMD \<in> set LATER_CMDS" "ENABLE_ADGUARD_CMD \<in> set LATER_CMDS"
  "TAILSCALE_IP_CMD \<in> set LATER_CMDS" "DISABLE_UPNP_CMD \<in> set LATER_CMDS"
  by (simp_all add: LATER_CMDS_def)

lemma keeps_luci: "keeps ch P \<Longrightarrow> P d \<Longrightarrow> P (snd (task_enable_luci ch d))"
  using keeps_cmd [of ch P d LUCI_CMD] by (auto simp: task_enable_luci_def split: prod.splits sum.splits)

lemma keeps_extras: "keeps ch P \<Longrightarrow> P d \<Longrightarrow> P (snd (task_extra_packages ch d))"
  using keeps_cmd [of ch P d extras_cmd] keeps_missing [of ch P _ EXTRA_PACKAGES]
  by (fastforce simp: task_extra_packages_def split: prod.splits sum.splits)

lemma keeps_adguard: "keeps ch P \<Longrightarrow> P d \<Longrightarrow> P (snd (task_enable_adguard ch d))"
proof -
  assume k: "keeps ch P" "P d"
  obtain s d1 where st: "simple_task ch ENABLE_ADGUARD_CMD d = (s, d1)"
    by (cases "simple_task ch ENABLE_ADGUARD_CMD d")
  have "P d1" using keeps_simple [OF k, of ENABLE_ADGUARD_CMD] st by simp
  then have "P (fst (ch_provision ch (fst (ch_run ch d1 TAILSCALE_IP_CMD))))"
    using k(1) keeps_cmd [of ch P d1 TAILSCALE_IP_CMD] by (simp add: keeps_def)
  then show ?thesis using \<open>P d1\<close> st by (auto simp: task_enable_adguard_def split: prod.splits task_status.splits)
qed

lemma keeps_deploy: "keeps ch P \<Longrightarrow> P d \<Longrightarrow> P (snd (task_deploy_agent ch dec u pw rows d))"
  by (simp add: task_deploy_agent_def case_prod_beta keeps_def)

lemma keeps_on_dev:
  "(\<And>d. P d \<Longrightarrow> P (snd (f d))) \<Longrightarrow> P (ad_dev (snd rs)) \<Longrightarrow> P (ad_dev (snd (do_task b n (on_dev f) rs)))"
  by (simp add: do_task_cases)

lemma keeps_last:
  assumes "keeps (ai_channel ai) P" "P (ad_dev (snd rs))"
  shows "P (ad_dev (snd (last_tasks ai rs)))"
proof -
  let ?ch = "ai_channel ai"
  have luci: "\<And>d. P d \<Longrightarrow> P (snd (task_enable_luci ?ch d))" by (rule keeps_luci [OF assms(1)])
  have extras: "\<And>d. P d \<Longrightarrow> P (snd (task_extra_packages ?ch d))" by (rule keeps_extras [OF assms(1)])
  have wan: "\<And>d. P d \<Longrightarrow> P (snd (simple_task ?ch LOCK_WAN_CMD d))"
    by (rule keeps_simple [OF assms(1)]) simp_all
  have adguard: "\<And>d. P d \<Longrightarrow> P (snd (task_enable_adguard ?ch d))" by (rule keeps_adguard [OF assms(1)])
  have deploy: "\<And>d a b c e. P d \<Longrightarrow> P (snd (task_deploy_agent ?ch a b c e d))" by (rule keeps_deploy [OF assms(1)])
  have upnp: "\<And>d. P d \<Longrightarrow> P (snd (simple_task ?ch DISABLE_UPNP_CMD d))"
    by (rule keeps_simple [OF assms(1)]) simp_all
  show ?thesis
    unfolding last_tasks_def Let_def
    by (rule keeps_on_dev [OF upnp keeps_on_dev [OF deploy keeps_on_dev [OF adguard
          keeps_on_dev [OF wan keeps_on_dev [OF extras keeps_on_dev [OF luci assms(2)]]]]]])
qed

lemma keeps_first:
  assumes "keeps (ai_channel ai) P" "P (ad_dev (snd rs))"
  shows "P (ad_dev (snd (first_tasks ai rs)))"
proof -
  have pin: "P (ad_dev (snd (do_task b n (task_pin_tls now s f) rs)))" for b n now s f
    using assms(2) by (simp add: do_task_cases task_pin_tls_def split: option.splits)
  have key: "P (snd (task_key_only (ai_channel ai) slug keys d))" if "P d" for d slug keys
    using that keeps_simple [OF assms(1) that later_cmds(2)] by (simp add: task_key_only_def Let_def)
  have rs2: "P (ad_dev (snd (do_task b n (on_dev (simple_task (ai_channel ai) FORCE_HTTPS_CMD))
      (do_task b' n' (task_pin_tls now s f) rs))))" for b n b' n' now s f
    by (rule keeps_on_dev [OF keeps_simple [OF assms(1) _ later_cmds(1)] pin])
  show ?thesis
    unfolding first_tasks_def Let_def do_task_cases [of "ssh_key_only _"]
    using key [OF rs2] rs2 by simp
qed

lemma ok_contained: "py_contains ''OK'' ''OK''"
  by code_simp

text \<open>
  C16. An adoption can lock the controller out. Take a device whose \<open>authorized_keys\<close> was wiped (a factory
  reset) but that the ledger still lists, adopted over a channel that works with the password. Suppose
  none of the later commands authorises a key or turns password logins on again, and the key-only script
  turns them off. Then the run pushes no key, turns password logins off, and reports the device adopted,
  although neither way in is left.
\<close>

theorem adoption_can_lock_out:
  assumes "ds_get (ai_slug ai) (ad_db st) \<noteq> None" "ssh_key_only (ai_options ai)"
    and "ad_keys st = Some kp" "dict_get (kp_deployed kp) (ai_slug ai) = Some t"
    and "ch_run (ai_channel ai) (ad_dev st) ''echo OK_PROBE'' = (d1, Inr probe_out)" "\<not> key_ok d1"
    and "keeps (ai_channel ai) (\<lambda>d. \<not> key_ok d)" "keeps (ai_channel ai) (\<lambda>d. \<not> password_ok d)"
    and "\<forall>d. \<exists>err. snd (ch_run (ai_channel ai) d KEY_ONLY_CMD) = Inr (''OK'', err)
      \<and> \<not> password_ok (fst (ch_run (ai_channel ai) d KEY_ONLY_CMD))"
    and "run_adoption ai st = ((overall, reports), st')"
  shows "overall \<noteq> All_Failed \<and> (Key_Only, Task_Ok) \<in> set reports
    \<and> map_option dv_status (ds_get (ai_slug ai) (ad_db st')) = Some Adopted
    \<and> \<not> key_ok (ad_dev st') \<and> \<not> password_ok (ad_dev st')"
proof -
  let ?start = "([(Ensure_Ssh, Task_Ok)], st\<lparr>ad_dev := d1\<rparr>)"
  let ?rs = "later_tasks ai ?start"
  have e: "task_ensure_ssh (ai_channel ai) (ai_dec ai) (ai_now ai) (ai_slug ai) st = (Task_Ok, st\<lparr>ad_dev := d1\<rparr>)"
    using assms(5) by (simp add: task_ensure_ssh_def)
  have outcome: "overall \<noteq> All_Failed" "map_option dv_status (ds_get (ai_slug ai) (ad_db st')) = Some Adopted"
    using adoption_outcome_helper [OF assms(1,10)] e by (simp_all split: if_splits)
  have st': "reports = fst ?rs" "ad_dev st' = ad_dev (snd ?rs)"
    using assms(10) e by (auto simp: run_adoption_def Let_def split: prod.splits)
  have key: "\<not> key_ok (ad_dev (snd ?rs))"
    unfolding later_tasks_def by (rule keeps_last [OF assms(7) keeps_first [OF assms(7)]]) (simp add: assms(6))
  obtain rs2 where rs2: "first_tasks ai ?start = do_task True Key_Only
      (\<lambda>s. on_dev (task_key_only (ai_channel ai) (ai_slug ai) (ad_keys s)) s) rs2"
    "ad_keys (snd rs2) = Some kp"
    using first_tasks_key [OF assms(2), of ?start] assms(3) by auto
  have "task_key_only (ai_channel ai) (ai_slug ai) (Some kp) d = simple_task (ai_channel ai) KEY_ONLY_CMD d" for d
    using assms(4) by (simp add: task_key_only_def ks_get_status_def Let_def)
  moreover have "fst (simple_task (ai_channel ai) KEY_ONLY_CMD d) = Task_Ok
      \<and> \<not> password_ok (snd (simple_task (ai_channel ai) KEY_ONLY_CMD d))" for d
    using spec [OF assms(9), of d] ok_contained by (auto simp: simple_task_def split: prod.splits)
  ultimately have first: "(Key_Only, Task_Ok) \<in> set (fst (first_tasks ai ?start))"
    "\<not> password_ok (ad_dev (snd (first_tasks ai ?start)))"
    unfolding rs2(1) by (simp_all add: do_task_cases rs2(2))
  have "\<not> password_ok (ad_dev (snd ?rs))"
    unfolding later_tasks_def by (rule keeps_last [OF assms(8) first(2)])
  moreover have "(Key_Only, Task_Ok) \<in> set (fst ?rs)"
    using first(1) grows_last [of "ai_slug ai" "first_tasks ai ?start" ai] by (auto simp: run_grows_def later_tasks_def)
  ultimately show ?thesis using outcome st' key by simp
qed

text \<open>A device whose key file was wiped, with a password that works until the key-only script runs.\<close>

record wiped =
  wd_key :: bool
  wd_password :: bool

definition wiped_channel :: "wiped channel" where
  "wiped_channel =
     \<lparr>ch_run = (\<lambda>d cmd. (if cmd = KEY_ONLY_CMD then d\<lparr>wd_password := False\<rparr> else d, Inr (''OK'', []))),
      ch_use_key = (\<lambda>_ d. d), ch_deploy = (\<lambda>_ _ d. (d, True)), ch_provision = (\<lambda>d. (d, True))\<rparr>"

definition wiped_keys :: keypair_row where
  "wiped_keys = \<lparr>kp_value = ''pem'', kp_public = ''ssh-ed25519 AAAA'', kp_fingerprint = ''SHA256:x'',
     kp_deployed = [(''slate'', 0)], kp_created = 0\<rparr>"

definition wiped_inputs :: "wiped adoption_inputs" where
  "wiped_inputs =
     \<lparr>ai_slug = ''slate'', ai_options = \<lparr>pin_tls = True, force_https_webui = True, ssh_key_only = True,
        disable_upnp = True\<rparr>, ai_channel = wiped_channel, ai_dec = Some, ai_now = 1, ai_cert = Some ''AA'',
      ai_admin = (''admin'', ''secret''), ai_ssids = []\<rparr>"

definition wiped_start :: "wiped adoption" where
  "wiped_start = \<lparr>ad_dev = \<lparr>wd_key = False, wd_password = True\<rparr>,
     ad_db = \<lparr>devices = [new_device_row 0 sample_device 1], secrets = []\<rparr>, ad_keys = Some wiped_keys\<rparr>"

theorem adoption_can_lock_out_witness:
  "\<not> wd_key (ad_dev (snd (run_adoption wiped_inputs wiped_start)))
   \<and> \<not> wd_password (ad_dev (snd (run_adoption wiped_inputs wiped_start)))"
proof -
  let ?ch = "ai_channel wiped_inputs"
  have row: "ds_get (ai_slug wiped_inputs) (ad_db wiped_start) \<noteq> None"
    by (simp add: wiped_inputs_def wiped_start_def ds_get_def new_device_row_def sample_device_def)
  have opt: "ssh_key_only (ai_options wiped_inputs)" by (simp add: wiped_inputs_def)
  have keys: "ad_keys wiped_start = Some wiped_keys" by (simp add: wiped_start_def)
  have dep: "dict_get (kp_deployed wiped_keys) (ai_slug wiped_inputs) = Some 0"
    by (simp add: wiped_keys_def wiped_inputs_def)
  have "''echo OK_PROBE'' \<noteq> KEY_ONLY_CMD" by code_simp
  then have probe: "ch_run ?ch (ad_dev wiped_start) ''echo OK_PROBE'' = (ad_dev wiped_start, Inr (''OK'', []))"
    by (simp add: wiped_inputs_def wiped_channel_def)
  have start: "\<not> wd_key (ad_dev wiped_start)" by (simp add: wiped_start_def)
  have kk: "keeps ?ch (\<lambda>d. \<not> wd_key d)" "keeps ?ch (\<lambda>d. \<not> wd_password d)"
    by (simp_all add: keeps_def wiped_inputs_def wiped_channel_def)
  have off: "\<forall>d. \<exists>err. snd (ch_run ?ch d KEY_ONLY_CMD) = Inr (''OK'', err)
      \<and> \<not> wd_password (fst (ch_run ?ch d KEY_ONLY_CMD))"
    by (simp add: wiped_inputs_def wiped_channel_def)
  obtain ov reps st' where run: "run_adoption wiped_inputs wiped_start = ((ov, reps), st')"
    by (metis prod.collapse)
  show ?thesis
    using adoption_can_lock_out [OF row opt keys dep probe start kk off run] run by simp
qed

theorem adoption_outcome_witness:
  "fst (fst (run_adoption wiped_inputs wiped_start)) = Partial"
proof -
  have row: "ds_get (ai_slug wiped_inputs) (ad_db wiped_start) \<noteq> None"
    by (simp add: wiped_inputs_def wiped_start_def ds_get_def new_device_row_def sample_device_def)
  obtain ov reps st' where run: "run_adoption wiped_inputs wiped_start = ((ov, reps), st')"
    by (metis prod.collapse)
  have some: "Task_Failed \<in> snd ` set (snd (fst (run_adoption wiped_inputs wiped_start)))" by code_simp
  have ensure: "fst (task_ensure_ssh (ai_channel wiped_inputs) (ai_dec wiped_inputs) (ai_now wiped_inputs)
      (ai_slug wiped_inputs) wiped_start) = Task_Ok" by code_simp
  show ?thesis using adoption_outcome [OF row run] some run ensure by simp
qed

end
