(* ===== verification/Py_Match.thy ===== *)
theory Py_Match
  imports Shell_Quote Py_Int Complex_Main
begin

text \<open>
  The pieces of Python's \<^verbatim>\<open>re\<close>, \<^verbatim>\<open>int(s, 16)\<close> and \<^verbatim>\<open>round\<close> that the Wi-Fi and reconnaissance parsers
  use. A pattern without alternatives is a function from the text at a position to what its group
  captures there; \<^verbatim>\<open>re.search\<close> takes the first position where it succeeds.
\<close>

fun re_search :: "(string \<Rightarrow> 'a option) \<Rightarrow> string \<Rightarrow> 'a option" where
  "re_search p [] = p []"
| "re_search p (c # cs) = (case p (c # cs) of Some x \<Rightarrow> Some x | None \<Rightarrow> re_search p cs)"

definition strip_prefix :: "string \<Rightarrow> string \<Rightarrow> string option" where
  "strip_prefix p s = (if starts_with p s then Some (drop (length p) s) else None)"

text \<open>\<^verbatim>\<open>\s*\<close>, and \<^verbatim>\<open>(\d+)\<close> with the text after it; the number is read with \<^verbatim>\<open>int\<close>.\<close>

definition skip_ws :: "string \<Rightarrow> string" where
  "skip_ws s = dropWhile py_isspace s"

definition digits_val :: "string \<Rightarrow> int" where
  "digits_val ds = foldl (\<lambda>a c. 10 * a + digit_val c) 0 ds"

definition match_nat :: "string \<Rightarrow> (int \<times> string) option" where
  "match_nat s = (let ds = takeWhile py_isdigit s
                  in if ds = [] then None else Some (digits_val ds, dropWhile py_isdigit s))"

lemma digits_val_nonneg: "\<forall>c\<in>set ds. py_isdigit c \<Longrightarrow> 0 \<le> digits_val ds"
proof -
  have "0 \<le> a \<Longrightarrow> \<forall>c\<in>set ds. py_isdigit c \<Longrightarrow> 0 \<le> foldl (\<lambda>a c. 10 * a + digit_val c) a ds" for a
    by (induction ds arbitrary: a) (auto simp: digit_val_def py_isdigit_def char_le_code)
  then show "\<forall>c\<in>set ds. py_isdigit c \<Longrightarrow> 0 \<le> digits_val ds" by (simp add: digits_val_def)
qed

lemma match_nat_nonneg: "match_nat s = Some (n, r) \<Longrightarrow> 0 \<le> n"
  by (auto simp: match_nat_def Let_def dest: set_takeWhileD intro!: digits_val_nonneg split: if_splits)

lemma digits_val_nat_digits [simp]: "digits_val (nat_digits n) = int n"
  by (simp add: digits_val_def foldl_nat_digits)

lemma match_nat_digits:
  "r = [] \<or> \<not> py_isdigit (hd r) \<Longrightarrow> match_nat (nat_digits n @ r) = Some (int n, r)"
proof -
  have all: "takeWhile py_isdigit (nat_digits n) = nat_digits n" "dropWhile py_isdigit (nat_digits n) = []"
    using nat_digits_digits [of n] by (simp_all add: dropWhile_eq_Nil_conv)
  show "r = [] \<or> \<not> py_isdigit (hd r) \<Longrightarrow> match_nat (nat_digits n @ r) = Some (int n, r)"
    using nat_digits_digits [of n] nat_digits_nonempty [of n]
    by (cases r) (auto simp: match_nat_def Let_def takeWhile_append2 dropWhile_append2 all)
qed

section \<open>Hexadecimal numbers\<close>

text \<open>
  \<^verbatim>\<open>int(s, 16)\<close> on a string of hexadecimal digits in lower case or upper case; anything else is a
  \<^verbatim>\<open>ValueError\<close>. (Python also takes signs, underscores, white space and the prefix 0x, which the
  callers' patterns exclude.)
\<close>

definition is_hex :: "char \<Rightarrow> bool" where
  "is_hex c \<longleftrightarrow> py_isdigit c \<or> (CHR ''a'' \<le> c \<and> c \<le> CHR ''f'') \<or> (CHR ''A'' \<le> c \<and> c \<le> CHR ''F'')"

definition hex_val :: "char \<Rightarrow> nat" where
  "hex_val c = (if py_isdigit c then of_char c - 48 else if py_islower c then of_char c - 87 else of_char c - 55)"

definition py_int16 :: "string \<Rightarrow> nat option" where
  "py_int16 s = (if s \<noteq> [] \<and> (\<forall>c\<in>set s. is_hex c) then Some (foldl (\<lambda>a c. 16 * a + hex_val c) 0 s) else None)"

text \<open>\<^verbatim>\<open>f"{n:02x}"\<close> for a byte.\<close>

definition hex_byte :: "nat \<Rightarrow> string" where
  "hex_byte n = [hex_digit (n div 16), hex_digit (n mod 16)]"

lemma hex_digit_inj: "a < 16 \<Longrightarrow> b < 16 \<Longrightarrow> hex_digit a = hex_digit b \<Longrightarrow> a = b"
proof -
  have "distinct (map hex_digit [0..<16])" by code_simp
  then have "inj_on hex_digit (set [0..<16])" by (simp only: distinct_map)
  then show "a < 16 \<Longrightarrow> b < 16 \<Longrightarrow> hex_digit a = hex_digit b \<Longrightarrow> a = b"
    by (simp add: inj_on_def)
qed

lemma hex_byte_inj: "a < 256 \<Longrightarrow> b < 256 \<Longrightarrow> hex_byte a = hex_byte b \<Longrightarrow> a = b"
  by (auto simp: hex_byte_def dest!: hex_digit_inj [rotated 2])
    (metis div_mult_mod_eq less_mult_imp_div_less mod_less_divisor mult_2 numeral_Bit0 zero_less_numeral)

section \<open>Rounding\<close>

text \<open>
  \<^verbatim>\<open>round(x)\<close>: to the nearest integer, ties to the even one. Floats are modelled by the exact
  rational numbers that their expressions denote.
\<close>

definition py_round :: "rat \<Rightarrow> int" where
  "py_round x = (let f = \<lfloor>x\<rfloor>; d = x - of_int f
                 in if d < 1 / 2 then f else if 1 / 2 < d then f + 1
                 else if even f then f else f + 1)"

lemma py_round_near: "\<lfloor>x\<rfloor> \<le> py_round x" "py_round x \<le> \<lfloor>x\<rfloor> + 1"
  by (simp_all add: py_round_def Let_def)

lemma py_round_mono: "x \<le> y \<Longrightarrow> py_round x \<le> py_round y"
proof -
  assume le: "x \<le> y"
  then have f: "\<lfloor>x\<rfloor> \<le> \<lfloor>y\<rfloor>" by (rule floor_mono)
  show ?thesis
  proof (cases "\<lfloor>x\<rfloor> = \<lfloor>y\<rfloor>")
    case True
    with le show ?thesis by (auto simp: py_round_def Let_def)
  next
    case False
    with f have "\<lfloor>x\<rfloor> + 1 \<le> \<lfloor>y\<rfloor>" by linarith
    with py_round_near(2) [of x] py_round_near(1) [of y] show ?thesis by linarith
  qed
qed

lemma py_round_of_int [simp]: "py_round (of_int n) = n"
  by (simp add: py_round_def Let_def)

end
