(* ===== verification/Wifi_Oui.thy ===== *)
theory Wifi_Oui
  imports Py_Match
begin

text \<open>
  The registry of MAC address vendors (\<^verbatim>\<open>backend/app/wifi/oui.py\<close>): its table with the time it was loaded,
  the parsers of the two public lists, the refresh, and the lookup of an address. The rows that the csv module
  reads, the texts that are downloaded and the cache file are inputs.
\<close>

unbundle bit_operations_syntax

definition REFRESH_INTERVAL_S :: int where "REFRESH_INTERVAL_S = 7 * 24 * 3600"

record oui_info =
  oi_bssid :: string
  oi_oui :: string
  oi_vendor :: string
  oi_vendor_slug :: string
  oi_is_randomized :: bool

definition VENDOR_SLUGS :: "(string \<times> string) list" where
  "VENDOR_SLUGS =
     [(''apple'', ''apple''), (''ubiquiti'', ''ubiquiti''), (''cisco'', ''cisco''), (''aruba'', ''aruba''),
      (''hewlett packard'', ''hp''), (''hewlett-packard'', ''hp''), (''aruba networks'', ''aruba''),
      (''intel'', ''intel''), (''samsung'', ''samsung''), (''huawei'', ''huawei''), (''xiaomi'', ''xiaomi''),
      (''oneplus'', ''oneplus''), (''oppo'', ''oppo''), (''google'', ''google''), (''microsoft'', ''microsoft''),
      (''mediatek'', ''mediatek''), (''qualcomm'', ''qualcomm''), (''broadcom'', ''broadcom''),
      (''realtek'', ''realtek''), (''netgear'', ''netgear''), (''tp-link'', ''tplink''), (''tplink'', ''tplink''),
      (''asus'', ''asus''), (''d-link'', ''dlink''), (''dlink'', ''dlink''), (''mikrotik'', ''mikrotik''),
      (''ruckus'', ''ruckus''), (''zte'', ''zte''), (''nokia'', ''nokia''), (''amazon'', ''amazon''),
      (''raspberry pi'', ''raspberrypi''), (''sonos'', ''sonos''), (''nintendo'', ''nintendo''),
      (''sony'', ''sony''), (''lg electronics'', ''lg''), (''philips'', ''philips''), (''freebox'', ''freebox''),
      (''free sas'', ''freebox''), (''bouygues'', ''bouygues''), (''orange'', ''orange''),
      (''livebox'', ''orange''), (''sfr'', ''sfr''), (''gl technologies'', ''glinet''), (''gl.inet'', ''glinet''),
      (''mediatek inc.'', ''mediatek''), (''espressif'', ''espressif'')]"

definition vendor_slug :: "string \<Rightarrow> string" where
  "vendor_slug vendor =
     (if vendor = [] then []
      else case find (\<lambda>(needle, _). py_contains needle (py_lower vendor)) VENDOR_SLUGS of
        Some (_, slug) \<Rightarrow> slug
      | None \<Rightarrow> [])"

section \<open>The registry\<close>

record oui_registry =
  oui_table :: "(string, string) dict"
  oui_loaded_at :: instant

definition new_registry :: oui_registry where
  "new_registry = \<lparr>oui_table = [], oui_loaded_at = 0\<rparr>"

definition oui_is_stale :: "instant \<Rightarrow> oui_registry \<Rightarrow> bool" where
  "oui_is_stale now reg \<longleftrightarrow> now - oui_loaded_at reg > seconds REFRESH_INTERVAL_S"

text \<open>
  Reading the cache: \<^const>\<open>None\<close> when the file is missing, \<open>Some None\<close> when it cannot be read, otherwise its
  rows and its modification time.
\<close>

definition load_from_cache :: "(string list list \<times> instant) option option \<Rightarrow> oui_registry \<Rightarrow> oui_registry" where
  "load_from_cache cache reg =
     (case cache of
        None \<Rightarrow> reg
      | Some None \<Rightarrow> reg\<lparr>oui_table := []\<rparr>
      | Some (Some (rows, mtime)) \<Rightarrow>
          \<lparr>oui_table = foldl (\<lambda>d row. if 2 \<le> length row then dict_set (row ! 0) (row ! 1) d else d) [] rows,
           oui_loaded_at = mtime\<rparr>)"

definition drop_separators :: "string \<Rightarrow> string" where
  "drop_separators s = filter (\<lambda>c. c \<noteq> CHR ''-'' \<and> c \<noteq> CHR '':'') s"

definition parse_ieee_rows :: "string list list \<Rightarrow> (string, string) dict" where
  "parse_ieee_rows rows =
     foldl (\<lambda>out row.
       if length row < 3 then out
       else let oui = drop_separators (py_upper (py_strip (row ! 1))); name = py_strip (row ! 2)
         in if length oui = 6 \<and> name \<noteq> [] then dict_set oui name out else out) [] (tl rows)"

text \<open>One line of Wireshark's list: the prefix and the name it gives, if any.\<close>

definition manuf_line :: "string \<Rightarrow> (string \<times> string) option" where
  "manuf_line raw =
     (let line = py_strip raw in
      if line = [] \<or> starts_with ''#'' line then None
      else case py_partition (CHR ''#'') line of (head, tail) \<Rightarrow>
        let long_name = py_strip tail; parts = py_split_ws head in
        case parts of
          [] \<Rightarrow> None
        | field # rest \<Rightarrow>
            let oui = take 6 (drop_separators (py_upper (hd (py_split (CHR ''/'') field)))) in
            if length oui \<noteq> 6 then None
            else let name = (if long_name \<noteq> [] then long_name
                             else if 3 \<le> length parts then py_join '' '' (drop 2 parts)
                             else if length parts = 2 then parts ! 1 else [])
              in if name = [] then None else Some (oui, name))"

definition parse_wireshark_manuf :: "string \<Rightarrow> (string, string) dict" where
  "parse_wireshark_manuf raw =
     foldl (\<lambda>out line. case manuf_line line of Some (oui, name) \<Rightarrow> dict_set oui name out | None \<Rightarrow> out)
       [] (py_splitlines raw)"

text \<open>
  The refresh: the table of the first list that can be downloaded and is not empty. An answer is
  \<^const>\<open>None\<close> when the request fails or has another status than 200. The second component is what is
  written to the cache file.
\<close>

definition refresh_if_stale ::
  "(string \<Rightarrow> string list list) \<Rightarrow> instant \<Rightarrow> string option \<Rightarrow> string option \<Rightarrow> instant
    \<Rightarrow> oui_registry \<Rightarrow> oui_registry \<times> (string, string) dict option" where
  "refresh_if_stale csv now ieee wireshark done_at reg =
     (if oui_table reg \<noteq> [] \<and> \<not> oui_is_stale now reg then (reg, None)
      else let parsed1 = (case ieee of Some text \<Rightarrow> parse_ieee_rows (csv text) | None \<Rightarrow> []);
               parsed = (if parsed1 \<noteq> [] then parsed1
                         else case wireshark of Some text \<Rightarrow> parse_wireshark_manuf text | None \<Rightarrow> [])
        in if parsed = [] then (reg, None)
           else (\<lparr>oui_table = parsed, oui_loaded_at = done_at\<rparr>, Some parsed))"

definition oui_lookup :: "oui_registry \<Rightarrow> string \<Rightarrow> oui_info" where
  "oui_lookup reg bssid =
     (let normalised = py_strip (py_lower bssid);
          oui_key = py_upper (take 6 (drop_separators normalised));
          vendor = dict_get_or (oui_table reg) oui_key []
      in \<lparr>oi_bssid = normalised, oi_oui = oui_key, oi_vendor = vendor, oi_vendor_slug = vendor_slug vendor,
          oi_is_randomized = (case py_int16 (take 2 oui_key) of Some b \<Rightarrow> b AND 2 \<noteq> 0 | None \<Rightarrow> False)\<rparr>)"

section \<open>Properties\<close>

text \<open>
  A refresh never loses the table: whatever the downloads give, the registry keeps a table it had, and a
  refresh that does not find anything changes nothing.
\<close>

lemma refresh_keeps_a_table:
  "oui_table reg \<noteq> [] \<Longrightarrow> oui_table (fst (refresh_if_stale csv now ieee ws done_at reg)) \<noteq> []"
  by (auto simp: refresh_if_stale_def Let_def)

lemma refresh_all_or_nothing:
  "refresh_if_stale csv now ieee ws done_at reg = (reg', written) \<Longrightarrow>
   (written = None \<and> reg' = reg) \<or> (written = Some (oui_table reg') \<and> oui_loaded_at reg' = done_at)"
  by (auto simp: refresh_if_stale_def Let_def split: if_splits)

end
