(* ===== verification/Wifi_Scan.thy ===== *)
theory Wifi_Scan
  imports Wifi_Oui Profile_Model
begin

text \<open>
  The Wi-Fi scan (\<^verbatim>\<open>backend/app/wifi/scanner.py\<close>), first part: channel numbers, the parser of the output of
  \<^verbatim>\<open>iw dev scan\<close>, the identifier of a physical access point, and the threats that a scan shows. Bands are
  the tokens 2, 5 and 6 of the code. The numbers in the output of iw have at most fifteen digits, so that
  \<^verbatim>\<open>int(float(s))\<close> truncates exactly.
\<close>

unbundle bit_operations_syntax

section \<open>Channels and bands\<close>

definition CHANNELS_24 :: "int list" where "CHANNELS_24 = [1..13]"

definition CHANNELS_5_NON_DFS :: "int list" where
  "CHANNELS_5_NON_DFS = [36, 40, 44, 48, 149, 153, 157, 161, 165]"

definition CHANNELS_5_DFS :: "int list" where
  "CHANNELS_5_DFS = [52, 56, 60, 64, 100, 104, 108, 112, 116, 120, 124, 128, 132, 136, 140, 144]"

definition CHANNELS_5 :: "int list" where
  "CHANNELS_5 = sort (CHANNELS_5_DFS @ CHANNELS_5_NON_DFS)"

definition CHANNELS_6_PSC :: "int list" where
  "CHANNELS_6_PSC = [5, 21, 37, 53, 69, 85, 101, 117, 133, 149, 165, 181, 197, 213, 229]"

definition CHANNELS_6 :: "int list" where "CHANNELS_6 = sort CHANNELS_6_PSC"

definition band_for_channel :: "int \<Rightarrow> string" where
  "band_for_channel ch = (if 1 \<le> ch \<and> ch \<le> 14 then ''2'' else if 36 \<le> ch \<and> ch \<le> 196 then ''5'' else ''6'')"

definition band_for_freq :: "int \<Rightarrow> string" where
  "band_for_freq freq_mhz = (if freq_mhz < 3000 then ''2'' else if freq_mhz < 5950 then ''5'' else ''6'')"

definition freq_to_channel :: "int \<Rightarrow> int" where
  "freq_to_channel freq_mhz =
     (if 2412 \<le> freq_mhz \<and> freq_mhz \<le> 2484 then
        if freq_mhz = 2484 then 14 else (freq_mhz - 2407) div 5
      else if 5000 \<le> freq_mhz \<and> freq_mhz < 6000 then (freq_mhz - 5000) div 5
      else if 5950 \<le> freq_mhz \<and> freq_mhz \<le> 7115 then (freq_mhz - 5950) div 5
      else 0)"

section \<open>The physical access point of an address\<close>

definition ap_root_for :: "string \<Rightarrow> string" where
  "ap_root_for bssid =
     (let norm = py_strip (py_lower bssid); parts = py_split (CHR '':'') norm in
      if length parts \<noteq> 6 then norm
      else case py_int16 (parts ! 0) of
        None \<Rightarrow> py_join '':'' (take 5 parts)
      | Some v \<Rightarrow> hex_byte (v AND 0xF1) @ '':'' @ py_join '':'' (take 4 (drop 1 parts)))"

section \<open>Neighbours\<close>

record neighbor =
  nb_bssid :: string
  nb_ssid :: string
  nb_hidden :: bool
  nb_channel :: int
  nb_band :: string
  nb_rssi :: int
  nb_security :: string
  nb_ht_mode :: string
  nb_wps :: bool
  nb_ours :: bool
  nb_vendor :: string
  nb_vendor_slug :: string
  nb_randomized :: bool
  nb_ap_root :: string
  nb_seen_count :: nat
  nb_rssi_max :: int
  nb_rssi_min :: int
  nb_first_seen :: instant
  nb_last_seen :: instant

text \<open>
  \<^verbatim>\<open>BSS\s+([0-9a-fA-F:]{17})\b\<close> at the start of a line: seventeen characters, and after them a boundary
  between a word character and another one.
\<close>

definition word_char :: "char \<Rightarrow> bool" where
  "word_char c \<longleftrightarrow> py_isalnum c \<or> c = CHR ''_''"

definition bss_header :: "string \<Rightarrow> string option" where
  "bss_header line =
     (case strip_prefix ''BSS'' line of
        None \<Rightarrow> None
      | Some r \<Rightarrow>
          let m = take 17 (skip_ws r); after = drop 17 (skip_ws r) in
          if r \<noteq> [] \<and> py_isspace (hd r) \<and> length m = 17 \<and> (\<forall>c\<in>set m. is_hex c \<or> c = CHR '':'')
             \<and> word_char (last m) \<noteq> (after \<noteq> [] \<and> word_char (hd after))
          then Some m else None)"

fun scan_blocks :: "string list \<Rightarrow> string list \<Rightarrow> string list list" where
  "scan_blocks current [] = (if current = [] then [] else [current])"
| "scan_blocks current (line # lines) =
     (if bss_header line \<noteq> None then
        (if current = [] then scan_blocks [line] lines else current # scan_blocks [line] lines)
      else if current \<noteq> [] then scan_blocks (current @ [line]) lines
      else scan_blocks [] lines)"

definition match_freq :: "string \<Rightarrow> int option" where
  "match_freq s = Option.bind (strip_prefix ''freq:'' s) (\<lambda>r. map_option fst (match_nat (skip_ws r)))"

definition match_ds :: "string \<Rightarrow> int option" where
  "match_ds s = Option.bind (strip_prefix ''DS Parameter set: channel '' s) (\<lambda>r. map_option fst (match_nat r))"

text \<open>\<^verbatim>\<open>signal:\s*(-?\d+(?:\.\d+)?)\s*dBm\<close>, truncated towards zero.\<close>

definition match_signal :: "string \<Rightarrow> int option" where
  "match_signal s =
     Option.bind (strip_prefix ''signal:'' s) (\<lambda>r.
       let r1 = skip_ws r; neg = starts_with ''-'' r1; r2 = (if neg then drop 1 r1 else r1) in
       Option.bind (match_nat r2) (\<lambda>(n, r3).
         let r4 = (case strip_prefix ''.'' r3 of
                     Some q \<Rightarrow> (case match_nat q of Some (_, q') \<Rightarrow> q' | None \<Rightarrow> r3)
                   | None \<Rightarrow> r3)
         in if starts_with ''dBm'' (skip_ws r4) then Some (if neg then - n else n) else None))"

text \<open>
  \<^verbatim>\<open>^\tSSID:[ \t]*(.*)$\<close>: the first line that starts so. A name of null bytes is what iw prints for a
  hidden network.
\<close>

definition NULL_BYTE :: string where "NULL_BYTE = backslash # ''x00''"

definition block_ssid :: "string list \<Rightarrow> string \<times> bool" where
  "block_ssid block =
     (case find (starts_with (CHR 0x09 # ''SSID:'')) block of
        None \<Rightarrow> ([], True)
      | Some line \<Rightarrow>
          let ssid = py_strip (drop 6 line) in
          if ssid = [] \<or> (\<forall>p\<in>set (py_split_ws ssid). p = NULL_BYTE) then ([], True) else (ssid, False))"

definition security_from_caps :: "string \<Rightarrow> string \<times> bool" where
  "security_from_caps text =
     (let has_wps = py_contains ''WPS'' text \<or> py_contains ''WPS:'' text in
      if py_contains ''RSN:'' text then
        if py_contains ''SAE'' text \<and> py_contains ''PSK'' text then (''WPA2-WPA3-Mixed'', has_wps)
        else if py_contains ''SAE'' text then (''WPA3-SAE'', has_wps)
        else if py_contains ''PSK'' text then (''WPA2-PSK'', has_wps)
        else if py_contains ''EAP'' text \<or> py_contains ''802.1x'' text then (''WPA2-EAP'', has_wps)
        else (''WPA2'', has_wps)
      else if py_contains ''WPA:'' text then (''WPA1'', has_wps)
      else if py_contains ''Privacy'' text \<and> \<not> py_contains ''RSN'' text \<and> \<not> py_contains ''WPA'' text
      then (''WEP'', has_wps)
      else (''open'', has_wps))"

definition ht_mode_from_text :: "string \<Rightarrow> string" where
  "ht_mode_from_text text =
     (let has = (\<lambda>s. py_contains s text) in
      if has ''EHT capabilities'' \<or> has ''EHT operation'' then
        if has ''320 MHz'' then ''EHT320'' else if has ''160 MHz'' then ''EHT160''
        else if has ''80 MHz'' then ''EHT80'' else ''EHT''
      else if has ''HE capabilities'' \<or> has ''HE Operation'' then
        if has ''160 MHz'' then ''HE160'' else if has ''80 MHz'' then ''HE80'' else ''HE''
      else if has ''VHT capabilities'' then
        if has ''160 MHz'' then ''VHT160'' else if has ''80 MHz'' then ''VHT80'' else ''VHT''
      else if has ''HT capabilities'' then
        if has ''HT40'' \<or> has ''40 MHz'' then ''HT40'' else ''HT20''
      else ''legacy'')"

definition block_channel :: "string \<Rightarrow> int \<times> int" where
  "block_channel text =
     (let freq = (case re_search match_freq text of Some f \<Rightarrow> f | None \<Rightarrow> 0);
          ch = (if re_search match_freq text = None then 0 else freq_to_channel freq)
      in (freq, if ch = 0 then (case re_search match_ds text of Some d \<Rightarrow> d | None \<Rightarrow> 0) else ch))"

definition block_neighbor :: "oui_registry \<Rightarrow> string list \<Rightarrow> string \<Rightarrow> neighbor" where
  "block_neighbor reg block m =
     (let bssid = py_lower m; text = py_join [CHR 0x0A] block;
          (freq, ch) = block_channel text;
          rssi = (case re_search match_signal text of Some r \<Rightarrow> r | None \<Rightarrow> - 100);
          (ssid, hidden) = block_ssid block; (security, wps) = security_from_caps text;
          oui = oui_lookup reg bssid
      in \<lparr>nb_bssid = bssid, nb_ssid = ssid, nb_hidden = hidden, nb_channel = ch,
          nb_band = (if freq > 0 then band_for_freq freq else band_for_channel ch),
          nb_rssi = rssi, nb_security = security, nb_ht_mode = ht_mode_from_text text, nb_wps = wps,
          nb_ours = False, nb_vendor = oi_vendor oui, nb_vendor_slug = oi_vendor_slug oui,
          nb_randomized = oi_is_randomized oui, nb_ap_root = ap_root_for bssid,
          nb_seen_count = 1, nb_rssi_max = rssi, nb_rssi_min = rssi, nb_first_seen = 0, nb_last_seen = 0\<rparr>)"

definition parse_iw_scan :: "oui_registry \<Rightarrow> string \<Rightarrow> neighbor list" where
  "parse_iw_scan reg raw =
     List.map_filter (\<lambda>block. map_option (block_neighbor reg block) (bss_header (hd block)))
       (scan_blocks [] (py_splitlines raw))"

section \<open>Threats\<close>

datatype threat_level = Lv_Info | Lv_Warn | Lv_Alert

record threat =
  th_kind :: string
  th_level :: threat_level
  th_bssid :: string
  th_ssid :: string
  th_channel :: int
  th_rssi :: int

definition shown_ssid :: "string \<Rightarrow> string" where
  "shown_ssid s = (if s = [] then ''<hidden>'' else s)"

definition threat_of :: "string \<Rightarrow> threat_level \<Rightarrow> neighbor \<Rightarrow> string \<Rightarrow> threat" where
  "threat_of kind lv n ssid =
     \<lparr>th_kind = kind, th_level = lv, th_bssid = nb_bssid n, th_ssid = ssid, th_channel = nb_channel n,
      th_rssi = nb_rssi n\<rparr>"

definition neighbor_threats :: "string set \<Rightarrow> string set \<Rightarrow> (string \<Rightarrow> int option) \<Rightarrow> neighbor \<Rightarrow> threat list" where
  "neighbor_threats our_ssids our_bssids our_channels n =
     (if nb_bssid n \<in> our_bssids then []
      else (if nb_ssid n \<noteq> [] \<and> py_lower (py_strip (nb_ssid n)) \<in> our_ssids
            then [threat_of ''evil_twin'' Lv_Alert n (nb_ssid n)] else [])
         @ (if nb_security n \<in> {''WEP'', ''WPA1''}
            then [threat_of ''legacy_crypto'' Lv_Info n (shown_ssid (nb_ssid n))] else [])
         @ (if nb_wps n \<and> nb_rssi n > - 75
            then [threat_of ''wps_enabled'' Lv_Info n (shown_ssid (nb_ssid n))] else [])
         @ (case our_channels (nb_band n) of
              Some our_ch \<Rightarrow>
                if our_ch \<noteq> 0 \<and> nb_channel n = our_ch \<and> nb_rssi n > - 55
                then [threat_of ''strong_neighbor'' Lv_Warn n (shown_ssid (nb_ssid n))] else []
            | None \<Rightarrow> []))"

definition detect_threats :: "neighbor list \<Rightarrow> string set \<Rightarrow> string set \<Rightarrow> (string \<Rightarrow> int option) \<Rightarrow> threat list" where
  "detect_threats neighbors our_ssids our_bssids our_channels =
     concat (map (neighbor_threats our_ssids our_bssids our_channels) neighbors)"

section \<open>Addresses\<close>

text \<open>An address of six bytes, as iw prints it.\<close>

definition mac_str :: "nat list \<Rightarrow> string" where
  "mac_str bs = py_join '':'' (map hex_byte bs)"

lemma hex_digit_facts:
  assumes "h < 16"
  shows "is_hex (hex_digit h)" "hex_val (hex_digit h) = h" "char_lower (hex_digit h) = hex_digit h"
    "\<not> py_isspace (hex_digit h)" "hex_digit h \<noteq> CHR '':''"
proof -
  have "list_all (\<lambda>h. is_hex (hex_digit h) \<and> hex_val (hex_digit h) = h \<and> char_lower (hex_digit h) = hex_digit h
      \<and> \<not> py_isspace (hex_digit h) \<and> hex_digit h \<noteq> CHR '':'') [0..<16]"
    by code_simp
  with assms show "is_hex (hex_digit h)" "hex_val (hex_digit h) = h" "char_lower (hex_digit h) = hex_digit h"
    "\<not> py_isspace (hex_digit h)" "hex_digit h \<noteq> CHR '':''"
    by (auto simp: list_all_iff)
qed

lemma hex_byte_facts:
  assumes "b < 256"
  shows "py_int16 (hex_byte b) = Some b" "py_lower (hex_byte b) = hex_byte b" "CHR '':'' \<notin> set (hex_byte b)"
    "\<forall>c\<in>set (hex_byte b). \<not> py_isspace c" "hex_byte b \<noteq> []"
proof -
  have d: "b div 16 < 16" "b mod 16 < 16" using assms by auto
  show "py_int16 (hex_byte b) = Some b"
    by (simp add: py_int16_def hex_byte_def hex_digit_facts [OF d(1)] hex_digit_facts [OF d(2)])
  show "py_lower (hex_byte b) = hex_byte b" "CHR '':'' \<notin> set (hex_byte b)"
    "\<forall>c\<in>set (hex_byte b). \<not> py_isspace c" "hex_byte b \<noteq> []"
    using hex_digit_facts [OF d(1)] hex_digit_facts [OF d(2)] by (simp_all add: hex_byte_def)
qed

lemma length_6_cases:
  "length bs = 6 \<longleftrightarrow> (\<exists>b0 b1 b2 b3 b4 b5. bs = [b0, b1, b2, b3, b4, b5])"
  by (auto simp: length_Suc_conv eval_nat_numeral)

lemma py_lower_join:
  "py_lower sep = sep \<Longrightarrow> \<forall>w\<in>set ws. py_lower w = w \<Longrightarrow> py_lower (py_join sep ws) = py_join sep ws"
  by (induction sep ws rule: py_join.induct) auto

lemma mac_str_plain:
  assumes "length bs = 6" "\<forall>b\<in>set bs. b < 256"
  shows "py_strip (py_lower (mac_str bs)) = mac_str bs"
    and "py_split (CHR '':'') (mac_str bs) = map hex_byte bs"
proof -
  have "\<forall>c\<in>set (mac_str bs). \<not> py_isspace c"
  proof
    fix c assume "c \<in> set (mac_str bs)"
    then have "c = CHR '':'' \<or> (\<exists>b\<in>set bs. c \<in> set (hex_byte b))"
      using set_py_join [of "'':''" "map hex_byte bs"] by (auto simp: mac_str_def)
    then show "\<not> py_isspace c"
      using assms(2) hex_byte_facts(4) by (auto simp: py_isspace_def)
  qed
  moreover have "py_lower (py_join '':'' (map hex_byte bs)) = py_join '':'' (map hex_byte bs)"
    using assms(2)
    by (intro py_lower_join) (auto simp: hex_byte_facts char_lower_def py_isupper_def char_le_code)
  ultimately show "py_strip (py_lower (mac_str bs)) = mac_str bs"
    unfolding py_strip_def mac_str_def [symmetric]
    by (metis hd_in_set last_in_set mac_str_def strip_by_id)
  show "py_split (CHR '':'') (mac_str bs) = map hex_byte bs"
    unfolding mac_str_def using assms hex_byte_facts(3) by (intro py_split_join) auto
qed

text \<open>
  Two addresses belong to one access point exactly when their second to fifth bytes agree and their first
  bytes agree outside the three bits of the mask: all addresses that differ in the last byte, or that flip
  the locally administered bits of the first one, are brought together, and no others.
\<close>

lemma ap_root_of_mac:
  assumes "\<forall>b\<in>set [b0, b1, b2, b3, b4, b5]. b < 256"
  shows "ap_root_for (mac_str [b0, b1, b2, b3, b4, b5]) = mac_str [b0 AND 0xF1, b1, b2, b3, b4]"
proof -
  have "py_strip (py_lower (mac_str [b0, b1, b2, b3, b4, b5])) = mac_str [b0, b1, b2, b3, b4, b5]"
    "py_split (CHR '':'') (mac_str [b0, b1, b2, b3, b4, b5]) = map hex_byte [b0, b1, b2, b3, b4, b5]"
    by (rule mac_str_plain; use assms in simp)+
  then show ?thesis
    using assms by (simp add: ap_root_for_def Let_def hex_byte_facts) (simp add: mac_str_def)
qed

theorem siblings_share_an_access_point:
  assumes "\<forall>b\<in>set [b0, b1, b2, b3, b4, b5, c0, c1, c2, c3, c4, c5]. b < 256"
  shows "ap_root_for (mac_str [b0, b1, b2, b3, b4, b5]) = ap_root_for (mac_str [c0, c1, c2, c3, c4, c5])
    \<longleftrightarrow> b0 AND 0xF1 = c0 AND 0xF1 \<and> [b1, b2, b3, b4] = [c1, c2, c3, c4]"
proof -
  have byte: "(b AND 0xF1) < (256 :: nat)" for b
  proof -
    have "int (b AND 0xF1) = int b AND 0xF1" by (simp add: of_nat_and_eq)
    then show ?thesis using AND_upper2 [of "0xF1" "int b"] by linarith
  qed
  have inj: "hex_byte x = hex_byte y \<longleftrightarrow> x = y" if "x < 256" "y < 256" for x y
    using that hex_byte_inj by blast
  have join: "mac_str [x, b1, b2, b3, b4] = mac_str [y, c1, c2, c3, c4]
      \<longleftrightarrow> map hex_byte [x, b1, b2, b3, b4] = map hex_byte [y, c1, c2, c3, c4]" for x y
    by (simp add: mac_str_def hex_byte_def)
  show ?thesis
    using assms by (simp add: ap_root_of_mac join inj byte)
qed

lemma siblings_share_an_access_point_witness:
  "ap_root_for ''78:48:dc:20:fe:01'' = ap_root_for ''7e:48:dc:20:fe:9a''
   \<and> ap_root_for ''a8:0b:fb:b3:81:20'' \<noteq> ap_root_for ''a9:0b:fb:b3:81:20''"
proof -
  have m: "mac_str [0x78, 0x48, 0xdc, 0x20, 0xfe, 0x01] = ''78:48:dc:20:fe:01''"
    "mac_str [0x7e, 0x48, 0xdc, 0x20, 0xfe, 0x9a] = ''7e:48:dc:20:fe:9a''"
    "mac_str [0xa8, 0x0b, 0xfb, 0xb3, 0x81, 0x20] = ''a8:0b:fb:b3:81:20''"
    "mac_str [0xa9, 0x0b, 0xfb, 0xb3, 0x81, 0x20] = ''a9:0b:fb:b3:81:20''"
    by code_simp+
  show ?thesis
    using siblings_share_an_access_point [of 120 72 220 32 254 1 126 72 220 32 254 154]
      siblings_share_an_access_point [of 168 11 251 179 129 32 169 11 251 179 129 32]
    by (simp add: m del: One_nat_def)
qed

section \<open>What the parser reads wrong\<close>

text \<open>
  No frequency of the 6 GHz band is numbered 1, 5 or 9: below 6000 MHz the formula of the 5 GHz band comes
  first. Only a beacon that reports a frequency above the band can be given such a number.
\<close>

lemma match_nat_nonneg_fst: "map_option fst (match_nat s) = Some n \<Longrightarrow> 0 \<le> n"
  by (auto dest: match_nat_nonneg)

lemma low_6ghz_channels_unreachable:
  "f \<le> 7115 \<Longrightarrow> block_channel text = (f, ch) \<Longrightarrow>
   (if f > 0 then band_for_freq f else band_for_channel ch) = ''6'' \<Longrightarrow> ch \<noteq> 1 \<and> ch \<noteq> 5 \<and> ch \<noteq> 9"
  by (auto simp: block_channel_def band_for_freq_def band_for_channel_def freq_to_channel_def Let_def
        split: if_splits option.splits)

text \<open>
  A hidden network whose name iw prints as two or more null bytes is taken for a network with that name: the
  code looks for null bytes separated by white space, and iw prints them one after the other.
\<close>

lemma null_bytes_not_hidden:
  assumes "2 \<le> n"
  shows "block_ssid [CHR 0x09 # ''SSID: '' @ concat (replicate n NULL_BYTE)] = (concat (replicate n NULL_BYTE), False)"
proof -
  let ?s = "concat (replicate n NULL_BYTE)"
  obtain m where n: "n = Suc (Suc m)" using assms by (metis add_2_eq_Suc le_Suc_ex)
  have nb: "\<forall>c\<in>set NULL_BYTE. \<not> py_isspace c" by (simp add: NULL_BYTE_def backslash_def py_isspace_def)
  then have ns: "\<forall>c\<in>set ?s. \<not> py_isspace c" by auto
  have ne: "?s \<noteq> []" "?s \<noteq> NULL_BYTE" by (simp_all add: n NULL_BYTE_def)
  have st: "py_strip ?s = ?s"
    unfolding py_strip_def by (intro strip_by_id) (metis hd_in_set last_in_set ns)
  have st': "py_strip (CHR '' '' # ?s) = ?s"
    using st ne by (simp add: strip_defs py_isspace_def [of "CHR '' ''"])
  have "split_ws_from cur t = [rev cur @ t]" if "\<forall>c\<in>set t. \<not> py_isspace c" "rev cur @ t \<noteq> []" for cur t
    using that by (induction t arbitrary: cur) auto
  from this [of ?s "[]"] ns ne(1) have "py_split_ws ?s = [?s]" by (simp add: py_split_ws_def)
  then show ?thesis
    using ne by (simp add: block_ssid_def starts_with_def st')
qed

text \<open>
  The security label is read off the whole text of the block, the network's own name included: an open network
  can choose its label through its name.
\<close>

lemma contains_join:
  "py_contains s l \<Longrightarrow> l \<in> set ls \<Longrightarrow> py_contains s (py_join sep ls)"
proof -
  have mid: "py_contains s t \<Longrightarrow> py_contains s (u @ t @ v)" for t u v
    unfolding py_contains_def sublist_def by (metis append.assoc)
  show "py_contains s l \<Longrightarrow> l \<in> set ls \<Longrightarrow> py_contains s (py_join sep ls)"
  proof (induction sep ls rule: py_join.induct)
    case (3 sep w v ws)
    then consider "py_contains s w" | "py_contains s (py_join sep (v # ws))" by auto
    then show ?case
      using mid [of w "[]" "sep @ py_join sep (v # ws)"] mid [of "py_join sep (v # ws)" "w @ sep" "[]"]
      by cases simp_all
  qed auto
qed

lemma label_chosen_by_name:
  assumes "py_contains ''RSN:'' name" "py_contains ''SAE'' name" "name \<in> set block"
    and "\<not> py_contains ''PSK'' (py_join [CHR 0x0A] block)"
  shows "nb_security (block_neighbor reg block m) = ''WPA3-SAE''"
  using contains_join [OF assms(1,3)] contains_join [OF assms(2,3)] assms(4)
  by (simp add: block_neighbor_def security_from_caps_def Let_def split: prod.splits)

end
