(* ===== verification/Wifi_Channels.thy ===== *)
theory Wifi_Channels
  imports Wifi_Scan "HOL-Library.Product_Lexorder" "HOL-Library.List_Lexorder"
begin

text \<open>
  The Wi-Fi scan (\<^verbatim>\<open>backend/app/wifi/scanner.py\<close>), second part: the grouping of neighbours by access point,
  the scores of the channels and the recommendation, one scan and the scan in several passes. The scores are
  exact rationals where the code computes with floats.
\<close>

section \<open>Grouping by physical access point\<close>

record ap_group =
  ag_root :: string
  ag_channel :: int
  ag_channels :: "int list"
  ag_bands :: "string list"
  ag_members :: "neighbor list"
  ag_ssids :: "string list"
  ag_hidden :: nat
  ag_rssi :: int
  ag_vendor :: string
  ag_vendor_slug :: string
  ag_all_randomized :: bool
  ag_has_wps :: bool

definition group_key :: "neighbor \<Rightarrow> string" where
  "group_key n = (if nb_ap_root n \<noteq> [] then nb_ap_root n else nb_bssid n)"

definition ap_buckets :: "neighbor list \<Rightarrow> (string, neighbor list) dict" where
  "ap_buckets ns = group_fold group_key (\<lambda>old n. (case old of None \<Rightarrow> [] | Some ms \<Rightarrow> ms) @ [n]) [] ns"

text \<open>\<^verbatim>\<open>max(xs, key=...)\<close>: the first of the greatest.\<close>

fun first_max :: "('a \<Rightarrow> int) \<Rightarrow> 'a \<Rightarrow> 'a list \<Rightarrow> 'a" where
  "first_max f m [] = m"
| "first_max f m (x # xs) = first_max f (if f m < f x then x else m) xs"

definition build_group :: "string \<times> neighbor list \<Rightarrow> ap_group" where
  "build_group km =
     (let (key, members) = km;
          anchor = find (\<lambda>m. \<not> nb_randomized m \<and> nb_vendor m \<noteq> []) members
      in \<lparr>ag_root = key,
          ag_channel = nb_channel (first_max nb_rssi (hd members) (tl members)),
          ag_channels = sorted_list_of_set (nb_channel ` set members),
          ag_bands = sorted_list_of_set (nb_band ` set members),
          ag_members = members,
          ag_ssids = sorted_list_of_set (nb_ssid ` set (filter (\<lambda>m. nb_ssid m \<noteq> []) members)),
          ag_hidden = length (filter nb_hidden members),
          ag_rssi = sort (map nb_rssi members) ! (length members div 2),
          ag_vendor = (case anchor of Some m \<Rightarrow> nb_vendor m | None \<Rightarrow> []),
          ag_vendor_slug = (case anchor of Some m \<Rightarrow> nb_vendor_slug m | None \<Rightarrow> []),
          ag_all_randomized = (\<forall>m\<in>set members. nb_randomized m),
          ag_has_wps = (\<exists>m\<in>set members. nb_wps m)\<rparr>)"

definition group_by_physical_ap :: "neighbor list \<Rightarrow> ap_group list" where
  "group_by_physical_ap ns = sort_key (\<lambda>g. - ag_rssi g) (map build_group (ap_buckets ns))"

section \<open>Scores\<close>

definition rssi_to_weight :: "int \<Rightarrow> rat" where
  "rssi_to_weight r =
     (if r \<ge> - 30 then 1 else if r \<le> - 90 then 1 / 20
      else max (1 / 20) (min 1 ((of_int r + 90) / 60)))"

definition overlap_24 :: "int \<Rightarrow> int \<Rightarrow> rat" where
  "overlap_24 ch_a ch_b =
     (let delta = \<bar>ch_a - ch_b\<bar>
      in if delta = 0 then 1 else if delta \<ge> 5 then 0 else (5 - of_int delta) / 5)"

record channel_score =
  cs_band :: string
  cs_channel :: int
  cs_score :: int
  cs_neighbor_count :: nat
  cs_is_dfs :: bool
  cs_is_psc :: bool
  cs_is_current :: bool

text \<open>What one neighbour adds to the count and to the cost of a channel.\<close>

definition neighbor_cost :: "string \<Rightarrow> int \<Rightarrow> neighbor \<Rightarrow> nat \<times> rat" where
  "neighbor_cost band ch n =
     (if band = ''2'' then
        let overlap = overlap_24 ch (nb_channel n)
        in if overlap > 0
           then (if overlap \<ge> 2 / 5 then 1 else 0, overlap * rssi_to_weight (nb_rssi n) * 40)
           else (0, 0)
      else if nb_channel n = ch then (1, rssi_to_weight (nb_rssi n) * 25)
      else (0, 0))"

definition channel_cost :: "string \<Rightarrow> int \<Rightarrow> neighbor list \<Rightarrow> nat \<times> rat" where
  "channel_cost band ch ns =
     foldl (\<lambda>(own, cost) n. case neighbor_cost band ch n of (o1, c1) \<Rightarrow> (own + o1, cost + c1)) (0, 0) ns"

definition raw_score :: "string \<Rightarrow> int \<Rightarrow> rat \<Rightarrow> rat" where
  "raw_score band ch cost =
     100 - cost
     - (if band = ''5'' \<and> ch \<in> set CHANNELS_5_DFS then 15 else 0)
     - (if band = ''6'' \<and> ch \<notin> set CHANNELS_6_PSC then 25 else 0)
     + (if band = ''2'' \<and> ch \<in> {1, 6, 11} then 8 else 0)"

definition band_candidates :: "string \<Rightarrow> int list" where
  "band_candidates band = (if band = ''2'' then CHANNELS_24 else if band = ''5'' then CHANNELS_5 else CHANNELS_6)"

definition score_channel :: "string \<Rightarrow> neighbor list \<Rightarrow> int option \<Rightarrow> int \<Rightarrow> channel_score" where
  "score_channel band band_neighbors current ch =
     (case channel_cost band ch band_neighbors of (own, cost) \<Rightarrow>
        \<lparr>cs_band = band, cs_channel = ch,
         cs_score = max 0 (min 100 (py_round (raw_score band ch cost))),
         cs_neighbor_count = own,
         cs_is_dfs = (band = ''5'' \<and> ch \<in> set CHANNELS_5_DFS),
         cs_is_psc = (band = ''6'' \<and> ch \<in> set CHANNELS_6_PSC),
         cs_is_current = (current = Some ch)\<rparr>)"

definition score_channels :: "string \<Rightarrow> neighbor list \<Rightarrow> int option \<Rightarrow> channel_score list" where
  "score_channels band neighbors current =
     map (score_channel band (filter (\<lambda>n. nb_band n = band) neighbors) current) (band_candidates band)"

definition score_rank :: "channel_score \<Rightarrow> int \<times> int \<times> int" where
  "score_rank s = (- cs_score s, if cs_is_current s then 0 else 1, cs_channel s)"

definition best_channel :: "channel_score list \<Rightarrow> int option" where
  "best_channel scores =
     (if scores = [] then None else Some (cs_channel (hd (sort_key score_rank scores))))"

section \<open>One scan\<close>

definition DEFAULT_SCAN_IFACE :: "string \<Rightarrow> string" where
  "DEFAULT_SCAN_IFACE band = (if band = ''2'' then ''ra15'' else if band = ''5'' then ''rai15'' else ''rax0'')"

record scan_result =
  sr_band :: string
  sr_iface :: string
  sr_started_at :: instant
  sr_duration :: instant
  sr_neighbors :: "neighbor list"
  sr_scores :: "channel_score list"
  sr_recommended :: "int option"
  sr_current :: "int option"

datatype scan_error = Link_Error | Scan_Error

definition up_cmd :: "string \<Rightarrow> string" where
  "up_cmd iface = ''ip link set '' @ iface @ '' up 2>/dev/null; sleep 0.3''"

definition scan_cmd :: "string \<Rightarrow> string" where
  "scan_cmd iface = ''iw dev '' @ iface @ '' scan 2>&1''"

definition info_cmd :: "string \<Rightarrow> string" where
  "info_cmd iface = ''iw dev '' @ iface @ '' info 2>/dev/null''"

text \<open>\<^verbatim>\<open>channel\s+(\d+)\<close>\<close>

definition match_channel :: "string \<Rightarrow> int option" where
  "match_channel s =
     Option.bind (strip_prefix ''channel'' s) (\<lambda>r.
       if r \<noteq> [] \<and> py_isspace (hd r) then map_option fst (match_nat (skip_ws r)) else None)"

definition current_of_info :: "string option \<Rightarrow> int option" where
  "current_of_info out = Option.bind out (re_search match_channel)"

definition finish_scan ::
  "string \<Rightarrow> string \<Rightarrow> instant \<Rightarrow> instant \<Rightarrow> neighbor list \<Rightarrow> int option \<Rightarrow> scan_result" where
  "finish_scan band iface started duration neighbors current =
     (let scores = score_channels band neighbors current
      in \<lparr>sr_band = band, sr_iface = iface, sr_started_at = started, sr_duration = duration,
          sr_neighbors = neighbors, sr_scores = scores, sr_recommended = best_channel scores,
          sr_current = current\<rparr>)"

text \<open>The device's answers to the commands; \<^const>\<open>None\<close> is an SSH error.\<close>

definition scan_band ::
  "oui_registry \<Rightarrow> (string \<Rightarrow> string option) \<Rightarrow> string \<Rightarrow> string option \<Rightarrow> instant \<Rightarrow> instant
    \<Rightarrow> scan_error + scan_result" where
  "scan_band reg ssh band iface_arg started ended =
     (let iface = (case iface_arg of Some i \<Rightarrow> i | None \<Rightarrow> DEFAULT_SCAN_IFACE band) in
      case ssh (up_cmd iface) of
        None \<Rightarrow> Inl Link_Error
      | Some _ \<Rightarrow>
          (case ssh (scan_cmd iface) of
             None \<Rightarrow> Inl Scan_Error
           | Some raw \<Rightarrow>
               Inr (finish_scan band iface started (ended - started)
                 (filter (\<lambda>n. nb_band n = band) (parse_iw_scan reg raw))
                 (current_of_info (ssh (info_cmd iface))))))"

section \<open>Several passes\<close>

record slot =
  sl_latest :: neighbor
  sl_rssi_max :: int
  sl_rssi_min :: int
  sl_seen :: nat
  sl_first :: instant
  sl_last :: instant

definition slot_update :: "slot option \<Rightarrow> instant \<times> neighbor \<Rightarrow> slot" where
  "slot_update old x =
     (let (t, n) = x in case old of
        None \<Rightarrow> \<lparr>sl_latest = n, sl_rssi_max = nb_rssi n, sl_rssi_min = nb_rssi n, sl_seen = 1,
                 sl_first = t, sl_last = t\<rparr>
      | Some s \<Rightarrow>
          s\<lparr>sl_latest := n,
            sl_rssi_max := (if nb_rssi n > sl_rssi_max s then nb_rssi n else sl_rssi_max s),
            sl_rssi_min := (if nb_rssi n < sl_rssi_min s then nb_rssi n else sl_rssi_min s),
            sl_seen := sl_seen s + 1,
            sl_last := t\<rparr>)"

definition merge_pass :: "(string, slot) dict \<Rightarrow> instant \<Rightarrow> neighbor list \<Rightarrow> (string, slot) dict" where
  "merge_pass acc t ns = group_fold (nb_bssid \<circ> snd) slot_update acc (map (Pair t) ns)"

definition merged_neighbor :: "slot \<Rightarrow> neighbor" where
  "merged_neighbor s =
     (sl_latest s)\<lparr>nb_seen_count := sl_seen s, nb_rssi_max := sl_rssi_max s, nb_rssi_min := sl_rssi_min s,
                   nb_first_seen := sl_first s, nb_last_seen := sl_last s\<rparr>"

text \<open>
  One round of the loop: the clock when the loop tests it, the clock when the pass has been parsed, and the
  device's answers in between.
\<close>

record scan_round =
  rd_test :: instant
  rd_parsed :: instant
  rd_ssh :: "string \<Rightarrow> string option"

text \<open>
  The loop over the rounds that happen, until the deadline has passed or a scan fails. The result also tells
  the rounds that are left; \<^const>\<open>None\<close> means that the loop is still running after all of them.
\<close>

fun scan_loop ::
  "oui_registry \<Rightarrow> string \<Rightarrow> string \<Rightarrow> instant \<Rightarrow> instant \<Rightarrow> scan_round list
    \<Rightarrow> (string, slot) dict \<Rightarrow> int option \<Rightarrow> ((string, slot) dict \<times> int option) option" where
  "scan_loop reg band iface started deadline [] acc cur = None"
| "scan_loop reg band iface started deadline (r # rs) acc cur =
     (if \<not> rd_test r < deadline then Some (acc, cur)
      else case rd_ssh r (scan_cmd iface) of
        None \<Rightarrow> Some (acc, cur)
      | Some raw \<Rightarrow>
          scan_loop reg band iface started deadline rs
            (merge_pass acc (rd_parsed r - started) (filter (\<lambda>n. nb_band n = band) (parse_iw_scan reg raw)))
            (case cur of Some c \<Rightarrow> Some c | None \<Rightarrow> current_of_info (rd_ssh r (info_cmd iface))))"

definition scan_band_extended ::
  "oui_registry \<Rightarrow> (string \<Rightarrow> string option) \<Rightarrow> string \<Rightarrow> int \<Rightarrow> string option \<Rightarrow> instant \<Rightarrow> scan_round list \<Rightarrow> instant
    \<Rightarrow> (scan_error + scan_result) option" where
  "scan_band_extended reg ssh band total_s iface_arg started rounds ended =
     (let iface = (case iface_arg of Some i \<Rightarrow> i | None \<Rightarrow> DEFAULT_SCAN_IFACE band) in
      if total_s \<le> 0 then Some (scan_band reg ssh band (Some iface) started ended)
      else case ssh (up_cmd iface) of
        None \<Rightarrow> Some (Inl Link_Error)
      | Some _ \<Rightarrow>
          (case scan_loop reg band iface started (started + seconds total_s) rounds [] None of
             None \<Rightarrow> None
           | Some (acc, cur) \<Rightarrow>
               Some (Inr (finish_scan band iface started (ended - started)
                 (map (merged_neighbor \<circ> snd) acc) cur))))"

section \<open>The grouping partitions the neighbours\<close>

lemma bucket_of_key:
  "dict_get (ap_buckets ns) k =
     (if k \<in> group_key ` set ns then Some (filter (\<lambda>n. group_key n = k) ns) else None)"
proof -
  have fold: "foldl (\<lambda>a n. Some ((case a of None \<Rightarrow> [] | Some ms \<Rightarrow> ms) @ [n])) a ms =
      (if ms = [] then a else Some ((case a of None \<Rightarrow> [] | Some xs \<Rightarrow> xs) @ ms))" for a ms
    by (induction ms arbitrary: a) auto
  show ?thesis
    unfolding ap_buckets_def dict_get_group_fold fold
    by (auto simp: filter_empty_conv image_iff)
qed

lemma groups_partition_neighbours:
  shows "sorted (map (\<lambda>g. - ag_rssi g) (group_by_physical_ap ns))"
    and "g \<in> set (group_by_physical_ap ns) \<Longrightarrow>
      ag_members g = filter (\<lambda>n. group_key n = ag_root g) ns \<and> ag_members g \<noteq> []"
    and "n \<in> set ns \<Longrightarrow> \<exists>g\<in>set (group_by_physical_ap ns). n \<in> set (ag_members g)"
    and "distinct (map ag_root (group_by_physical_ap ns))"
proof -
  have root: "ag_root (build_group km) = fst km" and members: "ag_members (build_group km) = snd km" for km
    by (simp_all add: build_group_def Let_def split: prod.splits)
  have dist: "distinct (map fst (ap_buckets ns))"
    unfolding ap_buckets_def by (rule distinct_keys_group_fold) simp
  show "sorted (map (\<lambda>g. - ag_rssi g) (group_by_physical_ap ns))"
    by (simp add: group_by_physical_ap_def)
  show "ag_members g = filter (\<lambda>n. group_key n = ag_root g) ns \<and> ag_members g \<noteq> []"
    if g: "g \<in> set (group_by_physical_ap ns)"
  proof -
    from g obtain k ms where km: "(k, ms) \<in> set (ap_buckets ns)" "g = build_group (k, ms)"
      by (auto simp: group_by_physical_ap_def)
    then have "dict_get (ap_buckets ns) k = Some ms" using dist by simp
    then show ?thesis
      unfolding km(2) root members by (auto simp: bucket_of_key filter_empty_conv split: if_splits)
  qed
  show "\<exists>g\<in>set (group_by_physical_ap ns). n \<in> set (ag_members g)" if n: "n \<in> set ns"
  proof -
    from n have "dict_get (ap_buckets ns) (group_key n) = Some (filter (\<lambda>m. group_key m = group_key n) ns)"
      by (simp add: bucket_of_key)
    then have "build_group (group_key n, filter (\<lambda>m. group_key m = group_key n) ns) \<in> set (group_by_physical_ap ns)"
      by (auto simp: group_by_physical_ap_def dest: map_of_SomeD)
    then show ?thesis using n by (rule_tac bexI) (auto simp: members)
  qed
  have "distinct (map ag_root (map build_group (ap_buckets ns)))"
    using dist by (simp add: root comp_def)
  then show "distinct (map ag_root (group_by_physical_ap ns))"
    unfolding group_by_physical_ap_def distinct_map [of ag_root "sort_key _ _"] distinct_map [of ag_root "map _ _"]
    by simp
qed

section \<open>Scores and the recommendation\<close>

lemma channel_cost_sums:
  "channel_cost band ch ns =
     (sum_list (map (fst \<circ> neighbor_cost band ch) ns), sum_list (map (snd \<circ> neighbor_cost band ch) ns))"
proof -
  have "foldl (\<lambda>(own, cost) n. case neighbor_cost band ch n of (o1, c1) \<Rightarrow> (own + o1, cost + c1)) (a, b) ns =
      (a + sum_list (map (fst \<circ> neighbor_cost band ch) ns), b + sum_list (map (snd \<circ> neighbor_cost band ch) ns))" for a b
    by (induction ns arbitrary: a b) (auto simp: algebra_simps split: prod.splits)
  from this [of 0 0] show ?thesis by (simp add: channel_cost_def)
qed

lemma rssi_to_weight_bounds: "1 / 20 \<le> rssi_to_weight r" "rssi_to_weight r \<le> 1"
  by (auto simp: rssi_to_weight_def)

lemma neighbor_cost_nonneg: "0 \<le> snd (neighbor_cost band ch n)"
proof -
  have "0 \<le> rssi_to_weight (nb_rssi n)" using rssi_to_weight_bounds(1) [of "nb_rssi n"] by (meson order_trans zero_le_divide_1_iff zero_le_numeral)
  then show ?thesis by (auto simp: neighbor_cost_def Let_def)
qed

text \<open>One more neighbour never raises a score.\<close>

lemma crowding_lowers_scores:
  "cs_score (score_channel band (n # ns) cur ch) \<le> cs_score (score_channel band ns cur ch)"
proof -
  have "raw_score band ch (snd (channel_cost band ch (n # ns))) \<le> raw_score band ch (snd (channel_cost band ch ns))"
    using neighbor_cost_nonneg [of band ch n] by (simp add: channel_cost_sums raw_score_def)
  from py_round_mono [OF this] show ?thesis
    by (auto simp: score_channel_def split: prod.splits)
qed

lemma best_channel_least:
  assumes "best_channel scores = Some c"
  obtains s where "s \<in> set scores" "cs_channel s = c" "\<forall>s'\<in>set scores. score_rank s \<le> score_rank s'"
proof -
  let ?sorted = "sort_key score_rank scores"
  from assms have ne: "scores \<noteq> []" and c: "c = cs_channel (hd ?sorted)"
    by (auto simp: best_channel_def split: if_splits)
  obtain s ss where sorted: "?sorted = s # ss" using ne by (metis list.exhaust set_empty set_sort)
  have set: "set (s # ss) = set scores" by (metis sorted set_sort)
  have "sorted (map score_rank (s # ss))" by (metis sorted sorted_sort_key)
  then have "\<forall>s'\<in>set (s # ss). score_rank s \<le> score_rank s'" by auto
  with set sorted c show ?thesis by (intro that [of s]) auto
qed

text \<open>
  The recommended channel has the best score of all candidates; among the best the current channel is kept,
  otherwise the lowest number is taken.
\<close>

theorem recommendation_is_best:
  assumes "best_channel (score_channels band ns cur) = Some c"
  shows "\<exists>s\<in>set (score_channels band ns cur). cs_channel s = c
    \<and> (\<forall>s'\<in>set (score_channels band ns cur). cs_score s' \<le> cs_score s
        \<and> (cs_score s' = cs_score s \<longrightarrow> cur = Some c \<or> (cur \<noteq> Some (cs_channel s') \<and> c \<le> cs_channel s')))"
proof -
  obtain s where s: "s \<in> set (score_channels band ns cur)" "cs_channel s = c"
    "\<forall>s'\<in>set (score_channels band ns cur). score_rank s \<le> score_rank s'"
    by (rule best_channel_least [OF assms])
  have cur: "cs_is_current t \<longleftrightarrow> cur = Some (cs_channel t)" if "t \<in> set (score_channels band ns cur)" for t
    using that by (auto simp: score_channels_def score_channel_def split: prod.splits)
  from s show ?thesis
    by (intro bexI [of _ s]) (auto simp: score_rank_def less_eq_prod_def less_prod_def cur split: if_splits)
qed

section \<open>The channel that is always free\<close>

definition freqs_in_bands :: "string \<Rightarrow> bool" where
  "freqs_in_bands raw \<longleftrightarrow>
     (\<forall>block\<in>set (scan_blocks [] (py_splitlines raw)).
        case re_search match_freq (py_join [CHR 0x0A] block) of Some f \<Rightarrow> f \<le> 7115 | None \<Rightarrow> True)"

lemma no_neighbour_on_five:
  assumes "freqs_in_bands raw" "n \<in> set (parse_iw_scan reg raw)" "nb_band n = ''6''"
  shows "nb_channel n \<noteq> 5"
proof -
  from assms(2) obtain block m where
    block: "block \<in> set (scan_blocks [] (py_splitlines raw))" "n = block_neighbor reg block m"
    by (auto simp: parse_iw_scan_def map_filter_def)
  let ?text = "py_join [CHR 0x0A] block"
  obtain f ch where fc: "block_channel ?text = (f, ch)" by force
  have "f \<le> 7115"
    using assms(1) block(1) fc
    by (auto simp: freqs_in_bands_def block_channel_def Let_def split: option.splits if_splits dest!: bspec)
  moreover have "nb_channel n = ch" "nb_band n = (if f > 0 then band_for_freq f else band_for_channel ch)"
    by (simp_all add: block(2) block_neighbor_def Let_def fc split: prod.splits)
  ultimately show ?thesis
    using low_6ghz_channels_unreachable [OF _ fc] assms(3) by simp
qed

lemma free_channel_scores_100:
  assumes "\<forall>n\<in>set ns. nb_channel n \<noteq> ch" "band = ''6''" "ch \<in> set CHANNELS_6_PSC"
  shows "cs_score (score_channel band ns cur ch) = 100 \<and> cs_neighbor_count (score_channel band ns cur ch) = 0"
proof -
  have "\<forall>n\<in>set ns. neighbor_cost band ch n = (0, 0)"
    using assms(1,2) by (simp add: neighbor_cost_def)
  then have "sum_list (map (fst \<circ> neighbor_cost band ch) ns) = 0 \<and> sum_list (map (snd \<circ> neighbor_cost band ch) ns) = 0"
    by (induction ns) auto
  then have "channel_cost band ch ns = (0, 0)" by (simp add: channel_cost_sums)
  moreover have "py_round 100 = 100" using py_round_of_int [of 100] by simp
  ultimately show ?thesis
    using assms(2,3) by (simp add: score_channel_def raw_score_def)
qed

lemma candidates_6: "5 \<in> set (band_candidates ''6'')" "c \<in> set (band_candidates ''6'') \<Longrightarrow> 5 \<le> c"
  by (auto simp: band_candidates_def CHANNELS_6_def CHANNELS_6_PSC_def)

lemma low_channel_wins:
  assumes "5 \<in> set (band_candidates band)" "\<forall>c\<in>set (band_candidates band). 5 \<le> c"
    and "cs_score (score_channel band (filter (\<lambda>n. nb_band n = band) ns) cur 5) = 100"
    and "best_channel (score_channels band ns cur) = Some c"
  shows "c = 5 \<or> cur = Some c"
proof -
  let ?sc = "score_channel band (filter (\<lambda>n. nb_band n = band) ns) cur"
  have five: "?sc 5 \<in> set (score_channels band ns cur)" "cs_channel (?sc 5) = 5"
    using assms(1) by (auto simp: score_channels_def score_channel_def split: prod.splits)
  from recommendation_is_best [OF assms(4)] obtain s where
    s: "s \<in> set (score_channels band ns cur)" "cs_channel s = c"
    and best: "\<forall>s'\<in>set (score_channels band ns cur). cs_score s' \<le> cs_score s
        \<and> (cs_score s' = cs_score s \<longrightarrow> cur = Some c \<or> (cur \<noteq> Some (cs_channel s') \<and> c \<le> cs_channel s'))"
    by blast
  from s(1) obtain ch where ch: "s = ?sc ch" "ch \<in> set (band_candidates band)"
    by (auto simp: score_channels_def)
  then have "cs_score s \<le> 100" "cs_channel s = ch" by (simp_all add: score_channel_def split: prod.splits)
  moreover have "cs_score (?sc 5) \<le> cs_score s" using best five(1) by blast
  ultimately have "cs_score (?sc 5) = cs_score s" using assms(3) by simp
  with best five have "cur = Some c \<or> c \<le> 5" by auto
  moreover have "5 \<le> c" using assms(2) ch(2) s(2) \<open>cs_channel s = ch\<close> by simp
  ultimately show ?thesis by auto
qed

text \<open>
  Channel 5 of the 6 GHz band is always reported as free: whatever the scan of the band shows, however
  many access points are on channel 5, it counts no neighbour there and scores 100, because the frequencies below
  6000 MHz are numbered by the formula of the 5 GHz band. The scan therefore always recommends channel 5,
  unless the device's current channel has the perfect score too.
\<close>

theorem channel_five_always_free:
  assumes "scan_band reg ssh ''6'' iface t1 t2 = Inr r"
    and "\<forall>cmd raw. ssh cmd = Some raw \<longrightarrow> freqs_in_bands raw"
  shows "(\<exists>s\<in>set (sr_scores r). cs_channel s = 5 \<and> cs_score s = 100 \<and> cs_neighbor_count s = 0)
    \<and> (sr_recommended r = Some 5 \<or> (sr_recommended r \<noteq> None \<and> sr_recommended r = sr_current r))"
proof -
  from assms(1) obtain raw cur ifc where
    raw: "ssh (scan_cmd ifc) = Some raw"
    and r: "r = finish_scan ''6'' ifc t1 (t2 - t1) (filter (\<lambda>n. nb_band n = ''6'') (parse_iw_scan reg raw)) cur"
    by (auto simp: scan_band_def Let_def split: option.splits)
  let ?ns = "filter (\<lambda>n. nb_band n = ''6'') (parse_iw_scan reg raw)"
  have in6: "freqs_in_bands raw" using assms(2) raw by blast
  have five: "cs_score (score_channel ''6'' ?ns cur 5) = 100 \<and> cs_neighbor_count (score_channel ''6'' ?ns cur 5) = 0"
    by (rule free_channel_scores_100) (use no_neighbour_on_five [OF in6] in \<open>auto simp: CHANNELS_6_PSC_def\<close>)
  have scores: "sr_scores r = score_channels ''6'' ?ns cur" "sr_recommended r = best_channel (score_channels ''6'' ?ns cur)"
    "sr_current r = cur"
    by (simp_all add: r finish_scan_def Let_def)
  have member: "score_channel ''6'' ?ns cur 5 \<in> set (sr_scores r)" "cs_channel (score_channel ''6'' ?ns cur 5) = 5"
    using candidates_6(1) by (auto simp: scores score_channels_def score_channel_def split: prod.splits)
  have "sr_recommended r \<noteq> None" using member(1) by (auto simp: scores best_channel_def)
  then obtain c where c: "sr_recommended r = Some c" by blast
  have "c = 5 \<or> cur = Some c"
    by (rule low_channel_wins [of "''6''" ?ns cur c]) (use candidates_6 five c in \<open>auto simp: scores\<close>)
  with member five c show ?thesis by (auto simp: scores(3))
qed

definition crowded_output :: string where
  "crowded_output = unlines
     [''BSS a8:0b:fb:b3:81:20(on rax0)'', CHR 0x09 # ''freq: 5975'', CHR 0x09 # ''signal: -30.00 dBm'',
      CHR 0x09 # ''SSID: next door'']"

definition crowded_ssh :: "string \<Rightarrow> string option" where
  "crowded_ssh cmd = Some (if cmd = scan_cmd ''rax0'' then crowded_output else [])"

lemma channel_five_always_free_witness:
  "\<exists>r. scan_band new_registry crowded_ssh ''6'' None 0 1 = Inr r \<and> length (sr_neighbors r) = 1
    \<and> ((\<exists>s\<in>set (sr_scores r). cs_channel s = 5 \<and> cs_score s = 100 \<and> cs_neighbor_count s = 0)
    \<and> (sr_recommended r = Some 5 \<or> (sr_recommended r \<noteq> None \<and> sr_recommended r = sr_current r)))"
proof -
  have in_bands: "freqs_in_bands crowded_output" "freqs_in_bands []" by code_simp+
  have len: "length (filter (\<lambda>n. nb_band n = ''6'') (parse_iw_scan new_registry crowded_output)) = 1" by code_simp
  obtain r where r: "scan_band new_registry crowded_ssh ''6'' None 0 1 = Inr r"
    by (simp add: scan_band_def crowded_ssh_def Let_def)
  moreover have "sr_neighbors r = filter (\<lambda>n. nb_band n = ''6'') (parse_iw_scan new_registry crowded_output)"
    using r by (auto simp: scan_band_def crowded_ssh_def finish_scan_def Let_def DEFAULT_SCAN_IFACE_def)
  moreover have "\<forall>cmd raw. crowded_ssh cmd = Some raw \<longrightarrow> freqs_in_bands raw"
    using in_bands by (auto simp: crowded_ssh_def)
  ultimately show ?thesis using channel_five_always_free [OF r] len by simp
qed

section \<open>The passes are merged by address\<close>

text \<open>What the passes of the loop observe, with the times of the passes.\<close>

fun loop_observations ::
  "oui_registry \<Rightarrow> string \<Rightarrow> string \<Rightarrow> instant \<Rightarrow> instant \<Rightarrow> scan_round list \<Rightarrow> (instant \<times> neighbor) list" where
  "loop_observations reg band iface started deadline [] = []"
| "loop_observations reg band iface started deadline (r # rs) =
     (if \<not> rd_test r < deadline then []
      else case rd_ssh r (scan_cmd iface) of
        None \<Rightarrow> []
      | Some raw \<Rightarrow>
          map (Pair (rd_parsed r - started)) (filter (\<lambda>n. nb_band n = band) (parse_iw_scan reg raw))
          @ loop_observations reg band iface started deadline rs)"

lemma scan_loop_folds:
  "scan_loop reg band iface started deadline rounds acc cur = Some (acc', cur') \<Longrightarrow>
   acc' = group_fold (nb_bssid \<circ> snd) slot_update acc (loop_observations reg band iface started deadline rounds)"
  by (induction reg band iface started deadline rounds acc cur rule: scan_loop.induct)
    (auto simp: merge_pass_def split: if_splits option.splits)

definition slot_summary :: "(instant \<times> neighbor) list \<Rightarrow> slot" where
  "slot_summary obs =
     \<lparr>sl_latest = snd (last obs), sl_rssi_max = Max (nb_rssi ` snd ` set obs),
      sl_rssi_min = Min (nb_rssi ` snd ` set obs), sl_seen = length obs, sl_first = fst (hd obs),
      sl_last = fst (last obs)\<rparr>"

lemma max_if: "max a b = (if b < a then a else b)" for a b :: int
  by simp

lemma min_if: "min a b = (if a < b then a else b)" for a b :: int
  by simp

lemma slot_update_summary:
  assumes "obs \<noteq> []"
  shows "slot_update (Some (slot_summary obs)) x = slot_summary (obs @ [x])"
proof -
  let ?S = "nb_rssi ` snd ` set obs"
  obtain t n where x: "x = (t, n)" by force
  have fin: "finite ?S" "?S \<noteq> {}" using assms by auto
  have "Max (insert (nb_rssi n) ?S) = (if Max ?S < nb_rssi n then nb_rssi n else Max ?S)"
    unfolding Max_insert [OF fin] by (rule max_if)
  moreover have "Min (insert (nb_rssi n) ?S) = (if nb_rssi n < Min ?S then nb_rssi n else Min ?S)"
    unfolding Min_insert [OF fin] by (rule min_if)
  moreover have "set (obs @ [(t, n)]) = insert (t, n) (set obs)" by simp
  ultimately show ?thesis
    using assms by (simp only: x slot_update_def slot_summary_def) simp
qed

lemma pass_slot_fold:
  "foldl (\<lambda>a x. Some (slot_update a x)) None obs = (if obs = [] then None else Some (slot_summary obs))"
proof (induction obs rule: rev_induct)
  case (snoc x obs)
  show ?case
  proof (cases "obs = []")
    case True
    then show ?thesis by (simp add: slot_update_def slot_summary_def split: prod.splits)
  qed (simp add: snoc.IH slot_update_summary)
qed simp


section \<open>The loop ends\<close>

lemma scan_loop_ends:
  "\<exists>r\<in>set rounds. \<not> rd_test r < deadline \<Longrightarrow> scan_loop reg band iface started deadline rounds acc cur \<noteq> None"
  by (induction reg band iface started deadline rounds acc cur rule: scan_loop.induct) (auto split: option.splits)

text \<open>
  A scan in several passes ends: when every pass takes at least a time d, however short, the loop is
  left by the round in which the duration asked for is used up, whatever the device answers.
\<close>

theorem extended_scan_ends:
  assumes "0 < d" "\<forall>i<length rounds. started + int i * d \<le> rd_test (rounds ! i)"
    and "seconds total_s \<le> (int (length rounds) - 1) * d" "rounds \<noteq> []"
  shows "scan_band_extended reg ssh band total_s iface started rounds ended \<noteq> None"
proof -
  let ?last = "rounds ! (length rounds - 1)"
  have "started + int (length rounds - 1) * d \<le> rd_test ?last" using assms(2,4) by simp
  then have "\<not> rd_test ?last < started + seconds total_s"
    using assms(3,4) by (simp add: of_nat_diff Suc_le_eq)
  then have "\<exists>r\<in>set rounds. \<not> rd_test r < started + seconds total_s"
    using assms(4) by (intro bexI [of _ ?last]) auto
  then have ends: "\<forall>i. scan_loop reg band i started (started + seconds total_s) rounds [] None \<noteq> None"
    by (intro allI scan_loop_ends)
  show ?thesis
    by (simp add: scan_band_extended_def Let_def ends [rule_format] split: option.split prod.split)
qed

text \<open>A device that answers at once: two rounds, one second apart.\<close>

definition quick_rounds :: "scan_round list" where
  "quick_rounds = [\<lparr>rd_test = 0, rd_parsed = 500000, rd_ssh = crowded_ssh\<rparr>,
                   \<lparr>rd_test = 1000000, rd_parsed = 1500000, rd_ssh = crowded_ssh\<rparr>]"

lemma extended_scan_ends_witness:
  "scan_band_extended new_registry crowded_ssh ''6'' 1 (Some ''rax0'') 0 quick_rounds 1000000 \<noteq> None"
  by (rule extended_scan_ends [of 1000000])
    (auto simp: quick_rounds_def seconds_def less_Suc_eq nth_Cons split: nat.splits)


end
