(* ===== verification/Network_Store.thy ===== *)
theory Network_Store
  imports Row_Table Py_Int
begin

text \<open>
  The catalogue of networks (\<^verbatim>\<open>backend/app/networks/models.py\<close> and \<^verbatim>\<open>networks/store.py\<close>, table \<^verbatim>\<open>NetworkRow\<close>):
  its data, the two validators of addresses, and every operation of the store. The fields that a request writes
  are one record, which the row and the public view share.
\<close>

section \<open>Data\<close>

datatype tor_route_mode = Tor_Off | Tor_Transparent | Tor_Socks_Only

datatype route_mode = Mode_Routed | Mode_Snat

datatype route_via = Via_Tailnet | Via_Wan | Via_Proton | Via_Tor

record domain_routing_rule =
  dr_label :: string
  dr_domains :: "string list"
  dr_mode :: route_mode
  dr_via :: route_via

record tailnet_destination =
  td_cidr :: string
  td_mode :: route_mode
  td_via :: route_via
  td_label :: string

record network_body =
  display_name :: string
  bridge_name :: string
  subnet_cidr :: string
  gateway_ip :: string
  dhcp_enabled :: bool
  vlan_tag :: "int option"
  net_notes :: string
  ipv6_enabled :: bool
  ipv6_subnet_cidr :: string
  intra_bridge_isolation :: bool
  reach_internet :: bool
  reachable_networks :: "string list"
  services_access :: bool
  admin_ui_access :: bool
  ssh_access :: bool
  expose_to_tailnet :: bool
  tailnet_destinations :: "tailnet_destination list"
  domain_routing_rules :: "domain_routing_rule list"
  tor_route_mode :: tor_route_mode
  tor_dns_over_tor :: bool
  tor_kill_switch :: bool
  egress_via_forti :: bool
  forti_kill_switch :: bool

record network_row =
  nw_slug :: string
  nw_body :: network_body
  nw_created_at :: instant
  nw_updated_at :: instant

section \<open>Validators\<close>

definition all_digits :: "string \<Rightarrow> bool" where
  "all_digits s \<longleftrightarrow> s \<noteq> [] \<and> (\<forall>c\<in>set s. py_isdigit c)"

definition int_in :: "int \<Rightarrow> string \<Rightarrow> bool" where
  "int_in hi s = (case py_int s of Some n \<Rightarrow> 0 \<le> n \<and> n \<le> hi | None \<Rightarrow> False)"

definition validate_cidr :: "string \<Rightarrow> string + string" where
  "validate_cidr value =
     (if CHR ''/'' \<notin> set value then Inl ''subnet_cidr must be in CIDR notation (e.g. 192.168.8.0/24)''
      else case py_partition (CHR ''/'') value of (addr, bits) \<Rightarrow>
        let parts = py_split (CHR ''.'') addr in
        if length parts \<noteq> 4 \<or> \<not> (\<forall>p\<in>set parts. all_digits p \<and> int_in 255 p)
        then Inl ''subnet_cidr address part must be IPv4 dotted-decimal''
        else if \<not> all_digits bits \<or> \<not> int_in 32 bits then Inl ''subnet_cidr prefix length must be 0-32''
        else Inr value)"

definition validate_ipv6_cidr :: "string \<Rightarrow> string + string" where
  "validate_ipv6_cidr value =
     (if value = [] then Inr value
      else if CHR ''/'' \<notin> set value
      then Inl (''ipv6_subnet_cidr must be a CIDR (e.g. '' @ [squote] @ ''fd00:abcd:1234::/64'' @ [squote] @ '') or empty'')
      else case py_partition (CHR ''/'') value of (addr, bits) \<Rightarrow>
        if CHR '':'' \<notin> set addr
        then Inl (''ipv6_subnet_cidr address part must contain '' @ [squote] @ '':'' @ [squote])
        else if \<not> all_digits bits \<or> \<not> int_in 128 bits then Inl ''ipv6_subnet_cidr prefix length must be 0-128''
        else Inr value)"

section \<open>The store\<close>

datatype network_error = Network_Not_Found string | Network_Duplicate string

definition ns_list_all :: "network_row list \<Rightarrow> network_row list" where
  "ns_list_all rows = sort_key nw_slug rows"

definition ns_get :: "string \<Rightarrow> network_row list \<Rightarrow> network_error + network_row" where
  "ns_get slug rows =
     (case row_find nw_slug slug rows of None \<Rightarrow> Inl (Network_Not_Found slug) | Some r \<Rightarrow> Inr r)"

definition copy_write_fields :: "network_body \<Rightarrow> network_row \<Rightarrow> network_row" where
  "copy_write_fields body r = r\<lparr>nw_body := body\<rparr>"

definition ns_create :: "instant \<Rightarrow> string \<Rightarrow> network_body \<Rightarrow> network_row list \<Rightarrow> network_error + network_row list" where
  "ns_create now slug body rows =
     (case row_insert nw_slug \<lparr>nw_slug = slug, nw_body = body, nw_created_at = now, nw_updated_at = now\<rparr> rows of
        None \<Rightarrow> Inl (Network_Duplicate slug)
      | Some rows' \<Rightarrow> Inr rows')"

text \<open>SQLAlchemy writes a row, and with it the time of its update, only when a field has changed.\<close>

definition touch :: "instant \<Rightarrow> network_row \<Rightarrow> network_row \<Rightarrow> network_row" where
  "touch now r r' = (if r' = r then r else r'\<lparr>nw_updated_at := now\<rparr>)"

definition ns_update :: "instant \<Rightarrow> string \<Rightarrow> network_body \<Rightarrow> network_row list \<Rightarrow> network_error + network_row list" where
  "ns_update now slug body rows =
     (if row_find nw_slug slug rows = None then Inl (Network_Not_Found slug)
      else Inr (row_update nw_slug slug (\<lambda>r. touch now r (copy_write_fields body r)) rows))"

definition prune_peer :: "instant \<Rightarrow> string \<Rightarrow> network_row \<Rightarrow> network_row" where
  "prune_peer now dropped r =
     (if nw_slug r \<noteq> dropped \<and> dropped \<in> set (reachable_networks (nw_body r))
      then r\<lparr>nw_body := (nw_body r)\<lparr>reachable_networks := filter (\<lambda>s. s \<noteq> dropped) (reachable_networks (nw_body r))\<rparr>,
             nw_updated_at := now\<rparr>
      else r)"

definition prune_peer_reference :: "instant \<Rightarrow> string \<Rightarrow> network_row list \<Rightarrow> network_row list" where
  "prune_peer_reference now dropped rows = map (prune_peer now dropped) rows"

definition ns_delete :: "instant \<Rightarrow> string \<Rightarrow> network_row list \<Rightarrow> network_error + network_row list" where
  "ns_delete now slug rows =
     (if row_find nw_slug slug rows = None then Inl (Network_Not_Found slug)
      else Inr (row_delete nw_slug slug (prune_peer_reference now slug rows)))"

section \<open>Properties\<close>

datatype ns_op = Net_Create instant string network_body | Net_Update instant string network_body | Net_Delete instant string

definition ns_step :: "ns_op \<Rightarrow> network_row list \<Rightarrow> network_row list" where
  "ns_step op rows =
     (case (case op of Net_Create now s b \<Rightarrow> ns_create now s b rows
              | Net_Update now s b \<Rightarrow> ns_update now s b rows
              | Net_Delete now s \<Rightarrow> ns_delete now s rows) of
        Inl _ \<Rightarrow> rows | Inr rows' \<Rightarrow> rows')"

text \<open>A request whose list of reachable networks only names networks that exist when it is served.\<close>

definition names_existing :: "ns_op \<Rightarrow> network_row list \<Rightarrow> bool" where
  "names_existing op rows =
     (case op of
        Net_Create now s b \<Rightarrow> set (reachable_networks b) \<subseteq> insert s (nw_slug ` set rows)
      | Net_Update now s b \<Rightarrow> set (reachable_networks b) \<subseteq> nw_slug ` set rows
      | Net_Delete now s \<Rightarrow> True)"

fun ns_run :: "ns_op list \<Rightarrow> network_row list \<Rightarrow> network_row list" where
  "ns_run [] rows = rows"
| "ns_run (op # ops) rows = ns_run ops (ns_step op rows)"

fun all_name_existing :: "ns_op list \<Rightarrow> network_row list \<Rightarrow> bool" where
  "all_name_existing [] rows \<longleftrightarrow> True"
| "all_name_existing (op # ops) rows \<longleftrightarrow> names_existing op rows \<and> all_name_existing ops (ns_step op rows)"

definition references_resolve :: "network_row list \<Rightarrow> bool" where
  "references_resolve rows \<longleftrightarrow>
     distinct (map nw_slug rows)
     \<and> (\<forall>r\<in>set rows. set (reachable_networks (nw_body r)) \<subseteq> nw_slug ` set rows)"

lemma slug_prune_peer [simp]: "nw_slug (prune_peer now d r) = nw_slug r"
  by (simp add: prune_peer_def)

lemma reachable_prune_peer:
  "nw_slug r \<noteq> d \<Longrightarrow> reachable_networks (nw_body (prune_peer now d r)) = filter (\<lambda>s. s \<noteq> d) (reachable_networks (nw_body r))"
  by (auto simp: prune_peer_def intro!: filter_True [symmetric])

lemma slug_touch [simp]: "nw_slug (touch now r (copy_write_fields b r)) = nw_slug r"
  by (simp add: touch_def copy_write_fields_def)

lemma body_touch [simp]: "nw_body (touch now r (copy_write_fields b r)) = b"
  by (simp add: touch_def copy_write_fields_def) (metis network_row.select_convs(2) network_row.surjective network_row.update_convs(2))

lemma set_row_delete: "set (row_delete key k rows) = {r \<in> set rows. key r \<noteq> k}"
  by (auto simp: row_delete_def)

lemma ns_step_resolves:
  assumes "references_resolve rows" "names_existing op rows"
  shows "references_resolve (ns_step op rows)"
proof (cases op)
  case (Net_Create now s b)
  then show ?thesis
    using assms
    by (auto simp: ns_step_def ns_create_def references_resolve_def names_existing_def row_insert_def row_find_None
        split: option.splits if_splits)
next
  case (Net_Update now s b)
  show ?thesis
  proof (cases "row_find nw_slug s rows")
    case None
    with Net_Update assms show ?thesis by (simp add: ns_step_def ns_update_def)
  next
    case (Some r)
    let ?rows = "row_update nw_slug s (\<lambda>r. touch now r (copy_write_fields b r)) rows"
    have slugs: "map nw_slug ?rows = map nw_slug rows" by (simp add: row_update_def comp_def if_distrib cong: if_cong)
    then have "nw_slug ` set ?rows = nw_slug ` set rows" by (metis list.set_map)
    moreover have "\<forall>r'\<in>set ?rows. set (reachable_networks (nw_body r')) \<subseteq> nw_slug ` set rows"
      using assms Net_Update by (auto simp: references_resolve_def names_existing_def row_update_def)
    ultimately have "references_resolve ?rows"
      using assms(1) slugs by (simp add: references_resolve_def)
    with Net_Update Some show ?thesis by (simp add: ns_step_def ns_update_def)
  qed
next
  case (Net_Delete now s)
  show ?thesis
  proof (cases "row_find nw_slug s rows")
    case None
    with Net_Delete assms show ?thesis by (simp add: ns_step_def ns_delete_def)
  next
    case (Some r)
    let ?rows = "row_delete nw_slug s (prune_peer_reference now s rows)"
    have "distinct (map nw_slug ?rows)"
      using assms(1)
      by (simp add: references_resolve_def row_delete_def prune_peer_reference_def distinct_map_filter comp_def)
    moreover have "nw_slug ` set ?rows = nw_slug ` set rows - {s}"
      by (auto simp: row_delete_def prune_peer_reference_def filter_map comp_def image_image)
    moreover have "set (reachable_networks (nw_body r')) \<subseteq> nw_slug ` set rows - {s}" if r': "r' \<in> set ?rows" for r'
    proof -
      from r' obtain r0 where r0: "r0 \<in> set rows" "r' = prune_peer now s r0" "nw_slug r0 \<noteq> s"
        by (auto simp: set_row_delete prune_peer_reference_def)
      then show ?thesis using assms(1) by (auto simp: reachable_prune_peer references_resolve_def)
    qed
    ultimately have "references_resolve ?rows" by (simp add: references_resolve_def)
    with Net_Delete Some show ?thesis by (simp add: ns_step_def ns_delete_def)
  qed
qed

text \<open>
  C28. References between networks do not dangle: starting from an empty catalogue, after any sequence of
  creations, updates and deletions (failed ones included) whose lists of reachable networks only name networks
  that exist at the time, every network named in a list exists and slugs are unique. Deleting a network takes it
  out of every list.
\<close>

theorem network_references_resolve:
  assumes "all_name_existing ops []"
  shows "references_resolve (ns_run ops [])"
proof -
  have "references_resolve rows \<Longrightarrow> all_name_existing ops rows \<Longrightarrow> references_resolve (ns_run ops rows)" for rows
    by (induction ops arbitrary: rows) (auto intro: ns_step_resolves)
  moreover have "references_resolve []" by (simp add: references_resolve_def)
  ultimately show ?thesis using assms by blast
qed

definition sample_network :: "string list \<Rightarrow> network_body" where
  "sample_network reach =
     \<lparr>display_name = ''Home'', bridge_name = ''br-lan'', subnet_cidr = ''192.168.8.0/24'', gateway_ip = ''192.168.8.1'',
      dhcp_enabled = True, vlan_tag = None, net_notes = [], ipv6_enabled = False, ipv6_subnet_cidr = [],
      intra_bridge_isolation = False, reach_internet = True, reachable_networks = reach, services_access = True,
      admin_ui_access = False, ssh_access = False, expose_to_tailnet = False, tailnet_destinations = [],
      domain_routing_rules = [], tor_route_mode = Tor_Off, tor_dns_over_tor = False, tor_kill_switch = False,
      egress_via_forti = False, forti_kill_switch = True\<rparr>"

lemma network_references_resolve_witness:
  "references_resolve (ns_run [Net_Create 0 ''lan'' (sample_network []), Net_Create 1 ''guest'' (sample_network [''lan'']),
     Net_Delete 2 ''lan''] [])
   \<and> map (reachable_networks \<circ> nw_body) (ns_run [Net_Create 0 ''lan'' (sample_network []),
     Net_Create 1 ''guest'' (sample_network [''lan'']), Net_Delete 2 ''lan''] []) = [[]]"
proof
  show "references_resolve (ns_run [Net_Create 0 ''lan'' (sample_network []), Net_Create 1 ''guest'' (sample_network [''lan'']),
     Net_Delete 2 ''lan''] [])"
    by (rule network_references_resolve) code_simp
qed code_simp

text \<open>
  The validator of IPv6 prefixes only asks for a colon before the slash: text that is not an address at all
  is accepted, shell syntax included.
\<close>

lemma ipv6_validator_accepts_anything:
  assumes "CHR ''/'' \<notin> set addr" "CHR '':'' \<in> set addr"
  shows "validate_ipv6_cidr (addr @ ''/64'') = Inr (addr @ ''/64'')"
proof -
  have "int_in 128 ''64''" "all_digits ''64''" by code_simp+
  then show ?thesis
    using assms py_partition_append [OF assms(1), of "''64''"]
    by (auto simp: validate_ipv6_cidr_def)
qed

end
