(* ===== verification/Agent_Sync.thy ===== *)
theory Agent_Sync
  imports Profile_Store Wifi_Store Network_Store Button_Cycle Py_Match
    "HOL-Library.Product_Lexorder" "HOL-Library.List_Lexorder"
begin

text \<open>
  Synchronisation of the device's agent (\<^verbatim>\<open>backend/app/slate_agent/sync.py\<close>): the payload of a profile with
  its references resolved, the pushes of profiles, wallpapers, loading screens and button menus, the active
  profile, and the wait for a device that reboots. JSON encoding, image rendering and the device's answers are
  parameters; reports keep names instead of texts.
\<close>

section \<open>The payload\<close>

record resolved_ssid =
  rs_slug :: string
  rs_name :: string
  rs_bands :: "string list"
  rs_mlo :: bool
  rs_security :: wifi_security
  rs_network_slug :: string
  rs_client_isolation :: bool
  rs_hidden :: bool
  rs_enabled :: bool
  rs_advanced :: ssid_advanced

definition profile_refs_by_slug :: "ssid_ref list \<Rightarrow> (string, ssid_ref) dict" where
  "profile_refs_by_slug refs = foldl (\<lambda>d r. dict_set (ref_slug r) r d) [] refs"

definition resolve_ssid :: "(string, ssid_ref) dict \<Rightarrow> ssid_public \<Rightarrow> resolved_ssid" where
  "resolve_ssid refs cat =
     (let ref = dict_get refs (sp_slug cat)
      in \<lparr>rs_slug = sp_slug cat, rs_name = sp_ssid_name cat, rs_bands = sp_bands cat, rs_mlo = sp_mlo cat,
          rs_security = sp_security cat,
          rs_network_slug = (case ref of Some r \<Rightarrow> network_slug r | None \<Rightarrow> ''lan''),
          rs_client_isolation = sp_client_isolation cat, rs_hidden = sp_hidden cat,
          rs_enabled = (case ref of Some r \<Rightarrow> ref_enabled r | None \<Rightarrow> False),
          rs_advanced = sp_advanced cat\<rparr>)"

definition ssid_rank :: "resolved_ssid \<Rightarrow> int \<times> string" where
  "ssid_rank s =
     (if rs_mlo s then (1, rs_slug s)
      else if 1 < length (rs_bands s) then (0, rs_slug s)
      else let b = (case rs_bands s of [] \<Rightarrow> [] | b # _ \<Rightarrow> b)
        in (if b = ''5'' then 2 else if b = ''6'' then 3 else if b = ''2'' then 4 else 5, rs_slug s))"

definition resolved_ssids :: "profile \<Rightarrow> ssid_public list \<Rightarrow> resolved_ssid list" where
  "resolved_ssids p catalog =
     sort_key ssid_rank (map (resolve_ssid (profile_refs_by_slug (ssids p))) catalog)"

record agent_net =
  an_slug :: string
  an_display_name :: string
  an_bridge_name :: string
  an_subnet_cidr :: string
  an_gateway_ip :: string
  an_dhcp_enabled :: bool
  an_vlan_tag :: "int option"
  an_ipv6_enabled :: bool
  an_ipv6_subnet_cidr :: string
  an_intra_bridge_isolation :: bool
  an_reach_internet :: bool
  an_reachable_networks :: "string list"
  an_services_access :: bool
  an_admin_ui_access :: bool
  an_ssh_access :: bool
  an_tor_route_mode :: tor_route_mode
  an_tor_dns_over_tor :: bool
  an_tor_kill_switch :: bool

definition resolve_net :: "network_row \<Rightarrow> agent_net" where
  "resolve_net r =
     (let b = nw_body r
      in \<lparr>an_slug = nw_slug r, an_display_name = display_name b, an_bridge_name = bridge_name b,
          an_subnet_cidr = subnet_cidr b, an_gateway_ip = gateway_ip b, an_dhcp_enabled = dhcp_enabled b,
          an_vlan_tag = vlan_tag b, an_ipv6_enabled = ipv6_enabled b, an_ipv6_subnet_cidr = ipv6_subnet_cidr b,
          an_intra_bridge_isolation = intra_bridge_isolation b, an_reach_internet = reach_internet b,
          an_reachable_networks = reachable_networks b, an_services_access = services_access b,
          an_admin_ui_access = admin_ui_access b, an_ssh_access = ssh_access b,
          an_tor_route_mode = tor_route_mode b, an_tor_dns_over_tor = tor_dns_over_tor b,
          an_tor_kill_switch = tor_kill_switch b\<rparr>)"

text \<open>The routes that the networks exposed to the tailnet give.\<close>

definition advertised_of :: "network_row \<Rightarrow> string list" where
  "advertised_of r =
     (let b = nw_body r in
      if \<not> expose_to_tailnet b then []
      else (if subnet_cidr b \<noteq> [] then [subnet_cidr b] else [])
           @ (if ipv6_enabled b \<and> ipv6_subnet_cidr b \<noteq> [] then [ipv6_subnet_cidr b] else []))"

definition ADMIN_PORTS_TCP :: "int list" where
  "ADMIN_PORTS_TCP = [22, 80, 443, 3000, 3443, 8000, 8080, 8443]"

text \<open>
  The tailscale block: the profile's one, whose connection part (the empty object when it has none) gets the
  routes, and the whitelist of administrators.
\<close>

record agent_tailscale =
  tb_enabled :: bool
  tb_ha :: "ha_override option"
  tb_connection :: "connection_override option"
  tb_advertise_routes :: "string list"
  tb_admin_only :: bool
  tb_admin_ips :: "string list"
  tb_admin_ports_tcp :: "int list"

definition tailscale_block :: "tailscale_config \<Rightarrow> network_row list \<Rightarrow> string list option \<Rightarrow> agent_tailscale" where
  "tailscale_block ts networks admin_ips =
     (let ips = (case admin_ips of Some l \<Rightarrow> l | None \<Rightarrow> []); flag_on = (ips \<noteq> [])
      in \<lparr>tb_enabled = ts_enabled ts, tb_ha = ha ts, tb_connection = connection ts,
          tb_advertise_routes = concat (map advertised_of networks),
          tb_admin_only = flag_on,
          tb_admin_ips = (if flag_on then ips else []),
          tb_admin_ports_tcp = (if flag_on then ADMIN_PORTS_TCP else [])\<rparr>)"

record agent_tor =
  tr_enabled :: bool
  tr_use_bridges :: bool
  tr_bridges :: "string list"
  tr_exit_country_code :: string
  tr_socks_port :: int
  tr_control_port :: int
  tr_trans_port :: int
  tr_dns_port :: int

record tor_global =
  tg_daemon_enabled :: bool
  tg_use_bridges :: bool
  tg_bridge_lines :: "string list"
  tg_exit_country_code :: string

definition tor_block :: "tor_global \<Rightarrow> agent_tor" where
  "tor_block tg =
     \<lparr>tr_enabled = tg_daemon_enabled tg, tr_use_bridges = tg_use_bridges tg, tr_bridges = tg_bridge_lines tg,
      tr_exit_country_code = py_lower (tg_exit_country_code tg), tr_socks_port = 9050, tr_control_port = 9051,
      tr_trans_port = 9040, tr_dns_port = 5353\<rparr>"

record 'r agent_payload =
  pl_profile :: profile
  pl_wifi :: "resolved_ssid list"
  pl_network :: "agent_net list"
  pl_radio :: "'r list option"
  pl_tailscale :: agent_tailscale
  pl_tor :: agent_tor
  pl_wallpaper :: "(bool \<times> bool) option"

definition profile_to_agent_payload ::
  "profile \<Rightarrow> ssid_public list \<Rightarrow> network_row list \<Rightarrow> string list option \<Rightarrow> tor_global \<Rightarrow> 'r list option
    \<Rightarrow> 'r agent_payload" where
  "profile_to_agent_payload p wifi_catalog network_catalog admin_ips tg radio_configs =
     \<lparr>pl_profile = p, pl_wifi = resolved_ssids p wifi_catalog, pl_network = map resolve_net network_catalog,
      pl_radio = radio_configs,
      pl_tailscale = tailscale_block (tailscale p) network_catalog admin_ips,
      pl_tor = tor_block tg, pl_wallpaper = None\<rparr>"

definition add_wallpaper_block :: "string set \<Rightarrow> 'r agent_payload \<Rightarrow> 'r agent_payload" where
  "add_wallpaper_block kinds pl = pl\<lparr>pl_wallpaper := Some (''home'' \<in> kinds, ''lock'' \<in> kinds)\<rparr>"

section \<open>Pushing\<close>

record sync_report =
  sy_pushed :: "string list"
  sy_errors :: "string list"

definition sync_ok :: "sync_report \<Rightarrow> bool" where
  "sync_ok rep \<longleftrightarrow> sy_errors rep = []"

definition pushed :: "string \<Rightarrow> sync_report \<Rightarrow> sync_report" where
  "pushed n rep = rep\<lparr>sy_pushed := sy_pushed rep @ [n]\<rparr>"

definition failed :: "string \<Rightarrow> sync_report \<Rightarrow> sync_report" where
  "failed n rep = rep\<lparr>sy_errors := sy_errors rep @ [n]\<rparr>"

definition empty_report :: sync_report where
  "empty_report = \<lparr>sy_pushed = [], sy_errors = []\<rparr>"

text \<open>
  The device's files, and what an upload does: \<open>put\<close> tells whether the upload of a path succeeds; an upload
  that fails leaves the file alone (it is moved into place at the end).
\<close>

type_synonym 'b files = "string \<Rightarrow> 'b option"

definition put_file :: "(string \<Rightarrow> bool) \<Rightarrow> string \<Rightarrow> string \<Rightarrow> 'b \<Rightarrow> sync_report \<times> 'b files \<Rightarrow> sync_report \<times> 'b files" where
  "put_file put label path content st =
     (if put path then (pushed label (fst st), (snd st)(path \<mapsto> content)) else (failed label (fst st), snd st))"

definition REMOTE_PROFILES_DIR :: string where "REMOTE_PROFILES_DIR = ''/etc/slate-controller/profiles''"
definition REMOTE_SCREENS_DIR :: string where "REMOTE_SCREENS_DIR = ''/etc/slate-controller/screens''"
definition REMOTE_WALLPAPERS_DIR :: string where "REMOTE_WALLPAPERS_DIR = ''/etc/slate-controller/wallpapers''"
definition REMOTE_MENUS_DIR :: string where "REMOTE_MENUS_DIR = ''/etc/slate-controller/menus''"

definition profile_path :: "string \<Rightarrow> string" where
  "profile_path n = REMOTE_PROFILES_DIR @ ''/'' @ n @ ''.json''"

text \<open>What a synchronisation reads: the catalogues, the settings, and the wallpapers that exist.\<close>

record 'r sync_sources =
  ss_wifi :: "ssid_public list"
  ss_networks :: "network_row list"
  ss_admin_ips :: "string list"
  ss_tor :: tor_global
  ss_radio :: "'r list option"
  ss_wallpapers :: "(string \<times> string) list"

definition payload_of :: "'r sync_sources \<Rightarrow> profile \<Rightarrow> 'r agent_payload" where
  "payload_of src p =
     add_wallpaper_block {kind. (pr_name p, kind) \<in> set (ss_wallpapers src)}
       (profile_to_agent_payload p (ss_wifi src) (ss_networks src) (Some (ss_admin_ips src)) (ss_tor src) (ss_radio src))"

definition sync_profiles ::
  "('r agent_payload \<Rightarrow> 'b) \<Rightarrow> bool \<Rightarrow> (string \<Rightarrow> bool) \<Rightarrow> 'r sync_sources \<Rightarrow> profile list \<Rightarrow> 'b files
    \<Rightarrow> sync_report \<times> 'b files" where
  "sync_profiles json mkdir_ok put src profiles files =
     (if \<not> mkdir_ok then (failed ''mkdir profiles dir'' empty_report, files)
      else foldl (\<lambda>st p. put_file put (pr_name p) (profile_path (pr_name p)) (json (payload_of src p)) st)
             (empty_report, files) profiles)"

definition screen_path :: "string \<Rightarrow> string" where
  "screen_path n = REMOTE_SCREENS_DIR @ ''/loading_'' @ n @ ''.raw''"

definition sync_loading_screens ::
  "(profile \<Rightarrow> 'b option) \<Rightarrow> bool \<Rightarrow> (string \<Rightarrow> bool) \<Rightarrow> profile list \<Rightarrow> 'b files \<Rightarrow> sync_report \<times> 'b files" where
  "sync_loading_screens render mkdir_ok put profiles files =
     (if \<not> mkdir_ok then (failed ''mkdir screens dir'' empty_report, files)
      else foldl (\<lambda>st p. case render p of
                    None \<Rightarrow> (failed (pr_name p) (fst st), snd st)
                  | Some raw \<Rightarrow> put_file put (pr_name p) (screen_path (pr_name p)) raw st)
             (empty_report, files) profiles)"

definition wallpaper_path :: "string \<Rightarrow> string \<Rightarrow> string" where
  "wallpaper_path n kind = REMOTE_WALLPAPERS_DIR @ ''/'' @ n @ ''_'' @ kind @ ''.png''"

text \<open>One wallpaper: the read fails, there is none, the resize fails, or it is uploaded.\<close>

datatype 'b blob = Read_Error | No_Blob | Resize_Error | Resized 'b

definition push_wallpaper ::
  "(string \<Rightarrow> string \<Rightarrow> 'b blob) \<Rightarrow> (string \<Rightarrow> bool) \<Rightarrow> string \<Rightarrow> sync_report \<times> 'b files \<Rightarrow> string
    \<Rightarrow> sync_report \<times> 'b files" where
  "push_wallpaper blob put n st kind =
     (case blob n kind of
        Read_Error \<Rightarrow> (failed (n @ ''/'' @ kind) (fst st), snd st)
      | No_Blob \<Rightarrow> st
      | Resize_Error \<Rightarrow> (failed (n @ ''/'' @ kind) (fst st), snd st)
      | Resized png \<Rightarrow> put_file put (n @ ''/'' @ kind) (wallpaper_path n kind) png st)"

definition sync_profile_wallpapers ::
  "(string \<Rightarrow> string \<Rightarrow> 'b blob) \<Rightarrow> bool \<Rightarrow> (string \<Rightarrow> bool) \<Rightarrow> profile list \<Rightarrow> 'b files \<Rightarrow> sync_report \<times> 'b files" where
  "sync_profile_wallpapers blob mkdir_ok put profiles files =
     (if \<not> mkdir_ok then (failed ''mkdir wallpapers dir'' empty_report, files)
      else foldl (\<lambda>st p. foldl (push_wallpaper blob put (pr_name p)) st [''home'', ''lock''])
             (empty_report, files) profiles)"

section \<open>The button menu\<close>

definition CYCLE_PATH :: string where "CYCLE_PATH = ''/etc/slate-controller/cycle.json''"

definition frame_path :: "nat \<Rightarrow> string" where
  "frame_path i = REMOTE_MENUS_DIR @ ''/cycle_'' @ nat_digits i @ ''.raw''"

text \<open>
  The files that the pruning script removes: \<^verbatim>\<open>cycle_*.raw\<close> whose middle is a number that is not below the
  number of steps.
\<close>

definition stale_frame :: "nat \<Rightarrow> string \<Rightarrow> bool" where
  "stale_frame n f \<longleftrightarrow>
     (let pre = REMOTE_MENUS_DIR @ ''/cycle_''; d = take (length f - length pre - 4) (drop (length pre) f)
      in f = pre @ d @ ''.raw'' \<and> d \<noteq> [] \<and> (\<forall>c\<in>set d. py_isdigit c) \<and> int n \<le> digits_val d)"

record 'b cycle_env =
  ce_put :: "string \<Rightarrow> bool"
  ce_mkdir_ok :: bool
  ce_render :: "cycle_step list \<Rightarrow> string option \<Rightarrow> 'b list option"
  ce_rgb565 :: "'b \<Rightarrow> 'b option"
  ce_prune_ok :: bool
  ce_json :: "raw_step list \<Rightarrow> 'b"

definition push_frame :: "'b cycle_env \<Rightarrow> sync_report \<times> 'b files \<Rightarrow> nat \<times> 'b \<Rightarrow> sync_report \<times> 'b files" where
  "push_frame env st x =
     (case ce_rgb565 env (snd x) of
        None \<Rightarrow> (failed (nat_digits (fst x)) (fst st), snd st)
      | Some raw \<Rightarrow> put_file (ce_put env) (nat_digits (fst x)) (frame_path (fst x)) raw st)"

definition sync_button_cycle ::
  "'b cycle_env \<Rightarrow> cycle_step list \<Rightarrow> string option \<Rightarrow> 'b files \<Rightarrow> sync_report \<times> 'b files" where
  "sync_button_cycle env steps active files =
     (if \<not> ce_put env CYCLE_PATH then (failed ''cycle.json'' empty_report, files)
      else let st1 = put_file (ce_put env) ''cycle.json'' CYCLE_PATH (ce_json env (agent_payload steps))
                       (empty_report, files) in
        if \<not> ce_mkdir_ok env then (failed ''mkdir menus dir'' (fst st1), snd st1)
        else case ce_render env steps active of
          None \<Rightarrow> (failed ''render menu frames'' (fst st1), snd st1)
        | Some frames \<Rightarrow>
            let st2 = foldl (push_frame env) st1 (enumerate 0 frames) in
            if ce_prune_ok env
            then (fst st2, \<lambda>f. if stale_frame (length steps) f then None else snd st2 f)
            else (failed ''prune stale menu frames'' (fst st2), snd st2))"

definition refresh_button_cycle_active ::
  "'b cycle_env \<Rightarrow> cycle_step list \<Rightarrow> string option \<Rightarrow> 'b files \<Rightarrow> (sync_report \<times> 'b files) option" where
  "refresh_button_cycle_active env steps active files =
     (if steps = [] then None
      else case active of
        None \<Rightarrow> None
      | Some n \<Rightarrow>
          if \<not> (\<exists>s\<in>set steps. step_kind s = Profile_Step \<and> step_name s = n) then None
          else Some (sync_button_cycle env steps active files))"

section \<open>The active profile\<close>

text \<open>The device's answer to a command: its exit status and output; \<^const>\<open>None\<close> is an SSH error.\<close>

type_synonym ssh_answers = "string \<Rightarrow> (int \<times> string) option"

definition list_remote_profiles :: "ssh_answers \<Rightarrow> string list" where
  "list_remote_profiles ssh =
     (case ssh ''/usr/local/bin/slate-ctrl list 2>/dev/null'' of
        Some (st, out) \<Rightarrow>
          if st \<noteq> 0 then [] else filter (\<lambda>l. l \<noteq> []) (map py_strip (py_splitlines out))
      | None \<Rightarrow> [])"

definition get_active_remote_profile :: "ssh_answers \<Rightarrow> string option" where
  "get_active_remote_profile ssh =
     (case ssh ''/usr/local/bin/slate-ctrl status 2>/dev/null'' of
        Some (st, out) \<Rightarrow> if st = 0 \<and> py_strip out \<noteq> [] then Some (py_strip out) else None
      | None \<Rightarrow> None)"

text \<open>\<open>read_ok\<close> and \<open>write_ok\<close> tell whether the database answers.\<close>

definition resolve_active_name ::
  "ssh_answers \<Rightarrow> bool \<Rightarrow> bool \<Rightarrow> profile_db \<Rightarrow> string option \<times> profile_db" where
  "resolve_active_name ssh read_ok write_ok db =
     (let stored = (if read_ok then ps_get_active_name db else None) in
      case get_active_remote_profile ssh of
        None \<Rightarrow> (stored, db)
      | Some device \<Rightarrow>
          if Some device \<noteq> stored \<and> write_ok
          then (Some device, case ps_set_active device db of Inl _ \<Rightarrow> db | Inr db' \<Rightarrow> db')
          else (Some device, db))"

section \<open>Applying and waiting\<close>

definition REBOOT_SENTINEL :: string where "REBOOT_SENTINEL = ''REBOOT SCHEDULED''"

definition apply_single_handler :: "ssh_answers \<Rightarrow> string \<Rightarrow> bool \<times> string" where
  "apply_single_handler ssh subsys =
     (case ssh (''/usr/local/bin/slate-ctrl apply-only '' @ subsys @ '' 2>&1'') of
        None \<Rightarrow> (False, ''SSH error'') | Some (st, out) \<Rightarrow> (st = 0, out))"

definition apply_remote_profile :: "ssh_answers \<Rightarrow> string \<Rightarrow> bool \<times> string" where
  "apply_remote_profile ssh name =
     (case ssh (''/usr/local/bin/slate-ctrl apply '' @ name @ '' 2>&1'') of
        None \<Rightarrow> (False, ''SSH error'') | Some (st, out) \<Rightarrow> (st = 0, out))"

text \<open>
  One poll of the loop: the answer to \<^verbatim>\<open>cat /proc/uptime\<close> and the time it takes. The loop runs over the polls
  that happen; \<^const>\<open>None\<close> means that it is still running after all of them. A result is whether the device
  answered, and the time since the loop began.
\<close>

record poll =
  po_answer :: "(int \<times> string) option"
  po_takes :: nat

definition poll_ok :: "poll \<Rightarrow> bool" where
  "poll_ok q = (case po_answer q of Some (st, out) \<Rightarrow> st = 0 \<and> py_strip out \<noteq> [] | None \<Rightarrow> False)"

fun recovery_loop :: "instant \<Rightarrow> instant \<Rightarrow> instant \<Rightarrow> poll list \<Rightarrow> (bool \<times> instant) option" where
  "recovery_loop timeout_s poll_s elapsed [] = None"
| "recovery_loop timeout_s poll_s elapsed (q # qs) =
     (if \<not> elapsed < seconds timeout_s then Some (False, elapsed)
      else if poll_ok q then Some (True, elapsed + int (po_takes q))
      else recovery_loop timeout_s poll_s (elapsed + int (po_takes q) + seconds poll_s) qs)"

definition RECOVERY_TIMEOUT_S :: int where "RECOVERY_TIMEOUT_S = 240"
definition RECOVERY_POLL_S :: int where "RECOVERY_POLL_S = 5"

definition wait_for_slate_recovery :: "poll list \<Rightarrow> (bool \<times> instant) option" where
  "wait_for_slate_recovery qs = recovery_loop RECOVERY_TIMEOUT_S RECOVERY_POLL_S 0 qs"

definition finalize_after_reboot ::
  "poll list \<Rightarrow> 'b cycle_env \<Rightarrow> raw_step list option \<Rightarrow> string \<Rightarrow> 'b files \<Rightarrow> 'b files option" where
  "finalize_after_reboot qs env stored name files =
     (case wait_for_slate_recovery qs of
        None \<Rightarrow> None
      | Some (False, _) \<Rightarrow> Some files
      | Some (True, _) \<Rightarrow>
          (case refresh_button_cycle_active env (get_cycle stored) (Some name) files of
             None \<Rightarrow> Some files | Some (_, files') \<Rightarrow> Some files'))"

section \<open>Profile switches keep the Wi-Fi layout\<close>

text \<open>What decides the sections on the device: all fields but the network and whether the section is enabled.\<close>

definition ssid_layout :: "resolved_ssid \<Rightarrow> resolved_ssid" where
  "ssid_layout s = s\<lparr>rs_network_slug := [], rs_enabled := False\<rparr>"

lemma insort_key_map: "insort_key f (g x) (map g xs) = map g (insort_key (f \<circ> g) x xs)"
  by (induction xs) auto

lemma sort_key_map: "sort_key f (map g xs) = map g (sort_key (f \<circ> g) xs)"
  by (induction xs) (simp_all add: insort_key_map [unfolded comp_def] comp_def)

definition catalog_rank :: "ssid_public \<Rightarrow> int \<times> string" where
  "catalog_rank cat = ssid_rank (resolve_ssid [] cat)"

lemma ssid_rank_resolve: "ssid_rank \<circ> resolve_ssid refs = catalog_rank"
  by (auto simp: fun_eq_iff ssid_rank_def resolve_ssid_def catalog_rank_def Let_def)

lemma resolved_ssids_in_catalog_order:
  "resolved_ssids p catalog = map (resolve_ssid (profile_refs_by_slug (ssids p))) (sort_key catalog_rank catalog)"
  by (simp add: resolved_ssids_def sort_key_map ssid_rank_resolve)

lemma get_profile_refs:
  "dict_get (profile_refs_by_slug refs) k = find (\<lambda>r. ref_slug r = k) (rev refs)"
proof -
  have "dict_get (foldl (\<lambda>d r. dict_set (ref_slug r) r d) d refs) k =
      (case find (\<lambda>r. ref_slug r = k) (rev refs) of Some r \<Rightarrow> Some r | None \<Rightarrow> dict_get d k)" for d
    by (induction refs rule: rev_induct) auto
  from this [of "[]"] show ?thesis by (simp add: profile_refs_by_slug_def split: option.splits)
qed

text \<open>
  C35. Switching profiles keeps the Wi-Fi layout: the payloads of any two profiles list the same networks of
  the catalogue in the same order with the same settings; only the network an entry is bound to and
  whether it is enabled depend on the profile, and an entry is enabled exactly when the profile's last
  reference to it is.
\<close>

theorem profile_switch_keeps_layout:
  "map ssid_layout (pl_wifi (profile_to_agent_payload p cat nets ips tg radio))
     = map ssid_layout (pl_wifi (profile_to_agent_payload q cat nets ips tg radio))
   \<and> map rs_slug (pl_wifi (profile_to_agent_payload p cat nets ips tg radio)) = map sp_slug (sort_key catalog_rank cat)
   \<and> map rs_enabled (pl_wifi (profile_to_agent_payload p cat nets ips tg radio))
     = map (\<lambda>c. case find (\<lambda>r. ref_slug r = sp_slug c) (rev (ssids p)) of Some r \<Rightarrow> ref_enabled r | None \<Rightarrow> False)
         (sort_key catalog_rank cat)"
  by (simp add: profile_to_agent_payload_def resolved_ssids_in_catalog_order ssid_layout_def resolve_ssid_def
      get_profile_refs Let_def comp_def)

text \<open>The tailnet is told the exposed networks' routes, whatever the profile says.\<close>

lemma routes_of_exposed_networks:
  "set (tb_advertise_routes (pl_tailscale (profile_to_agent_payload p cat nets ips tg radio))) =
     {c. \<exists>r\<in>set nets. expose_to_tailnet (nw_body r) \<and> c \<noteq> []
        \<and> (c = subnet_cidr (nw_body r) \<or> (ipv6_enabled (nw_body r) \<and> c = ipv6_subnet_cidr (nw_body r)))}"
  by (auto simp: profile_to_agent_payload_def tailscale_block_def advertised_of_def Let_def split: if_splits)

section \<open>The menu frames\<close>

lemma frame_path_parts:
  "drop (length (REMOTE_MENUS_DIR @ ''/cycle_'')) (frame_path i) = nat_digits i @ ''.raw''"
  "length (frame_path i) = length (REMOTE_MENUS_DIR @ ''/cycle_'') + length (nat_digits i) + 4"
  by (simp_all add: frame_path_def)

lemma stale_frame_path [simp]: "stale_frame n (frame_path i) \<longleftrightarrow> n \<le> i"
proof -
  let ?pre = "REMOTE_MENUS_DIR @ ''/cycle_''"
  have "take (length (frame_path i) - length ?pre - 4) (drop (length ?pre) (frame_path i)) = nat_digits i"
    unfolding frame_path_parts by simp
  then show ?thesis
    using nat_digits_digits [of i]
    unfolding stale_frame_def Let_def by (simp add: frame_path_def)
qed

lemma frame_path_inj: "frame_path i = frame_path j \<longleftrightarrow> i = j"
proof
  assume "frame_path i = frame_path j"
  then have "nat_digits i = nat_digits j" by (simp add: frame_path_def)
  then have "digits_val (nat_digits i) = digits_val (nat_digits j)" by simp
  then show "i = j" by (simp only: digits_val_nat_digits of_nat_eq_iff)
qed simp

lemma frame_not_cycle_path [simp]: "frame_path i \<noteq> CYCLE_PATH" "\<not> stale_frame n CYCLE_PATH"
proof -
  have "take 28 (frame_path i) = take 28 (REMOTE_MENUS_DIR @ ''/cycle_'')"
    by (simp add: frame_path_def REMOTE_MENUS_DIR_def)
  moreover have "take 28 (REMOTE_MENUS_DIR @ ''/cycle_'') \<noteq> take 28 CYCLE_PATH" by code_simp
  ultimately show "frame_path i \<noteq> CYCLE_PATH" by metis
  have "take 28 CYCLE_PATH \<noteq> take 28 ((REMOTE_MENUS_DIR @ ''/cycle_'') @ d @ ''.raw'')" for d
    by (simp add: CYCLE_PATH_def REMOTE_MENUS_DIR_def)
  then show "\<not> stale_frame n CYCLE_PATH"
    unfolding stale_frame_def Let_def by (metis append_assoc)
qed

lemma put_file_files:
  "snd (put_file put l path c st) f = (if f = path \<and> put path then Some c else snd st f)"
  by (simp add: put_file_def)

lemma push_frames_files:
  "snd (foldl (push_frame env) st (enumerate k frames)) (frame_path i) =
     (if k \<le> i \<and> i < k + length frames
      then (case ce_rgb565 env (frames ! (i - k)) of
              Some raw \<Rightarrow> if ce_put env (frame_path i) then Some raw else snd st (frame_path i)
            | None \<Rightarrow> snd st (frame_path i))
      else snd st (frame_path i))"
proof (induction frames arbitrary: k st)
  case (Cons x frames)
  have step: "snd (push_frame env st (k, x)) (frame_path j) =
      (if j = k then (case ce_rgb565 env x of
              Some raw \<Rightarrow> if ce_put env (frame_path j) then Some raw else snd st (frame_path j)
            | None \<Rightarrow> snd st (frame_path j)) else snd st (frame_path j))" for j
    by (auto simp: push_frame_def put_file_files frame_path_inj split: option.splits)
  have nth: "(x # frames) ! (i - k) = frames ! (i - Suc k)" if "i \<noteq> k" "k \<le> i"
  proof -
    from that have "i - k = Suc (i - Suc k)" by arith
    then show ?thesis by simp
  qed
  show ?case
    using Cons.IH [of "push_frame env st (k, x)" "Suc k"] nth
    by (auto simp: step Suc_le_eq split: option.split)
qed auto

text \<open>
  A synchronisation of the button menu that can write its list and render its frames leaves, when the
  pruning works, exactly one frame per step: the frame of a step is the new one (or what was there, when its
  upload fails), and no frame of an earlier, longer cycle stays.
\<close>

theorem menu_frames_mirror_steps:
  assumes "ce_put env CYCLE_PATH" "ce_mkdir_ok env" "ce_prune_ok env"
    and "ce_render env steps active = Some frames" "length frames = length steps"
  shows "snd (sync_button_cycle env steps active files) (frame_path i) =
    (if i < length steps
     then (case ce_rgb565 env (frames ! i) of
             Some raw \<Rightarrow> if ce_put env (frame_path i) then Some raw else files (frame_path i)
           | None \<Rightarrow> files (frame_path i))
     else None)"
  using assms
  by (simp add: sync_button_cycle_def Let_def push_frames_files put_file_files not_less split: option.splits)

definition sample_env :: "string cycle_env" where
  "sample_env = \<lparr>ce_put = (\<lambda>_. True), ce_mkdir_ok = True, ce_render = (\<lambda>steps _. Some (map step_name steps)),
     ce_rgb565 = Some, ce_prune_ok = True, ce_json = (\<lambda>_. ''[]'')\<rparr>"

lemma menu_frames_mirror_steps_witness:
  "snd (sync_button_cycle sample_env [\<lparr>step_kind = Profile_Step, step_name = ''home''\<rparr>] None (\<lambda>_. Some ''old'')) (frame_path 0)
     = Some ''home''
   \<and> snd (sync_button_cycle sample_env [\<lparr>step_kind = Profile_Step, step_name = ''home''\<rparr>] None (\<lambda>_. Some ''old'')) (frame_path 7)
     = None"
  using menu_frames_mirror_steps [of sample_env "[\<lparr>step_kind = Profile_Step, step_name = ''home''\<rparr>]" None "[''home'']"]
  by (simp add: sample_env_def)

section \<open>The active profile follows the device\<close>

text \<open>
  After a resolution the database agrees with a device that names a profile of the store; a device that does
  not answer changes nothing, and a name that the store does not know is reported without being stored.
\<close>

lemma active_follows_device:
  assumes "resolve_active_name ssh True True db = (name, db')"
  shows "(case get_active_remote_profile ssh of
      None \<Rightarrow> name = ps_get_active_name db \<and> db' = db
    | Some device \<Rightarrow> name = Some device
        \<and> (if row_find prow_name device (profile_rows db) \<noteq> None
           then ps_get_active_name db' = Some device \<and> profile_rows db' = profile_rows db
           else db' = db))"
proof -
  have ne: "get_active_remote_profile ssh = Some d \<Longrightarrow> d \<noteq> []" for d
    by (auto simp: get_active_remote_profile_def split: option.splits if_splits)
  show ?thesis
  proof (cases "get_active_remote_profile ssh")
    case None
    with assms show ?thesis by (auto simp: resolve_active_name_def)
  next
    case (Some device)
    show ?thesis
      using assms ne [OF Some]
      by (auto simp: resolve_active_name_def Some ps_set_active_def ps_get_active_name_def split: option.splits if_splits)
        (metis option.inject)
  qed
qed

section \<open>The wait ends\<close>

lemma recovery_loop_ends:
  assumes "0 < p" "seconds t \<le> e + (int (length qs) - 1) * seconds p" "qs \<noteq> []"
  shows "recovery_loop t p e qs \<noteq> None"
  using assms(2,3)
proof (induction qs arbitrary: e)
  case (Cons q qs)
  show ?case
  proof (cases "qs = []")
    case True
    with Cons.prems show ?thesis by simp
  next
    case False
    from Cons.prems have "seconds t \<le> e + int (length qs) * seconds p" by simp
    also have "\<dots> = e + seconds p + (int (length qs) - 1) * seconds p" by (simp add: algebra_simps)
    also have "\<dots> \<le> e + int (po_takes q) + seconds p + (int (length qs) - 1) * seconds p" by simp
    finally show ?thesis using Cons.IH False by auto
  qed
qed simp

text \<open>The time at which a poll starts.\<close>

definition poll_start :: "int \<Rightarrow> poll list \<Rightarrow> nat \<Rightarrow> instant" where
  "poll_start p qs i = sum_list (map (\<lambda>q. int (po_takes q) + seconds p) (take i qs))"

lemma poll_start_simps [simp]:
  "poll_start p qs 0 = 0"
  "poll_start p (q # qs) (Suc i) = int (po_takes q) + seconds p + poll_start p qs i"
  by (simp_all add: poll_start_def)

lemma poll_start_nonneg: "0 \<le> p \<Longrightarrow> 0 \<le> poll_start p qs i"
  by (auto simp: poll_start_def seconds_def intro!: sum_list_nonneg dest!: in_set_takeD)

lemma recovery_loop_result:
  assumes "0 \<le> p"
  shows "recovery_loop t p e qs = Some (b, w) \<Longrightarrow>
    b \<longleftrightarrow> (\<exists>i<length qs. poll_ok (qs ! i) \<and> e + poll_start p qs i < seconds t)"
proof (induction qs arbitrary: e)
  case (Cons q qs)
  have ex: "(\<exists>i<Suc n. P i) \<longleftrightarrow> P 0 \<or> (\<exists>i<n. P (Suc i))" for P :: "nat \<Rightarrow> bool" and n
    using less_Suc_eq_0_disj by auto
  consider "\<not> e < seconds t" | "e < seconds t" "poll_ok q" | "e < seconds t" "\<not> poll_ok q" by blast
  then show ?case
  proof cases
    case 1
    moreover have "\<not> e + poll_start p (q # qs) i < seconds t" for i
      using 1 poll_start_nonneg [OF assms, of "q # qs" i] by linarith
    ultimately show ?thesis using Cons.prems by auto
  next
    case 2
    then show ?thesis using Cons.prems by (auto simp: ex)
  next
    case 3
    then show ?thesis
      using Cons.prems Cons.IH [of "e + int (po_takes q) + seconds p"] by (auto simp: ex algebra_simps)
  qed
qed simp

text \<open>
  C37. The wait for a device that reboots ends, whatever the device does and however long its answers take:
  after at most forty-nine polls. It reports the device as back exactly when a poll that starts before the
  deadline of four minutes is answered.
\<close>

theorem recovery_wait_ends:
  assumes "49 \<le> length qs"
  shows "\<exists>b w. wait_for_slate_recovery qs = Some (b, w)
    \<and> (b \<longleftrightarrow> (\<exists>i<length qs. poll_ok (qs ! i) \<and> poll_start RECOVERY_POLL_S qs i < seconds RECOVERY_TIMEOUT_S))"
proof -
  have "seconds RECOVERY_TIMEOUT_S \<le> 0 + (int (length qs) - 1) * seconds RECOVERY_POLL_S"
    using assms by (simp add: RECOVERY_TIMEOUT_S_def RECOVERY_POLL_S_def seconds_def)
  moreover have "qs \<noteq> []" using assms by auto
  ultimately obtain b w where "wait_for_slate_recovery qs = Some (b, w)"
    unfolding wait_for_slate_recovery_def
    using recovery_loop_ends [of RECOVERY_POLL_S RECOVERY_TIMEOUT_S 0 qs] by (auto simp: RECOVERY_POLL_S_def)
  moreover from this have "b \<longleftrightarrow> (\<exists>i<length qs. poll_ok (qs ! i)
      \<and> 0 + poll_start RECOVERY_POLL_S qs i < seconds RECOVERY_TIMEOUT_S)"
    unfolding wait_for_slate_recovery_def by (intro recovery_loop_result) (simp_all add: RECOVERY_POLL_S_def)
  ultimately show ?thesis by simp
qed

definition silent_poll :: poll where "silent_poll = \<lparr>po_answer = None, po_takes = 0\<rparr>"

lemma recovery_wait_ends_witness:
  "\<exists>b w. wait_for_slate_recovery (replicate 49 silent_poll) = Some (b, w) \<and> \<not> b"
proof -
  have "\<not> poll_ok (replicate 49 silent_poll ! i)" if "i < 49" for i
    using that by (simp add: silent_poll_def poll_ok_def)
  then show ?thesis using recovery_wait_ends [of "replicate 49 silent_poll"] by auto
qed

end
