(* ===== verification/Dns_Levels.thy ===== *)
theory Dns_Levels
  imports Row_Table
begin

text \<open>
  DNS providers and security levels (\<^verbatim>\<open>backend/app/dns/catalog.py\<close>, \<^verbatim>\<open>dns/security_levels.py\<close>,
  \<^verbatim>\<open>dns/store.py\<close>, and the routes of \<^verbatim>\<open>api/routes/dns_protection.py\<close> that edit a level). What is only shown to
  the user (descriptions, names of levels, icons, colours) is left out.
\<close>

section \<open>The catalogue of providers\<close>

datatype filter_profile = Pf_None | Pf_Malware | Pf_Family | Pf_Adblock | Pf_Custom

datatype log_policy = Log_None | Log_Anonymized | Log_24h | Log_Logged

record dns_provider =
  dp_slug :: string
  dp_name :: string
  dp_organization :: string
  dp_country :: string
  is_eu_based :: bool
  ipv4_primary :: string
  ipv4_secondary :: string
  ipv6_primary :: string
  ipv6_secondary :: string
  doh_url :: string
  dot_hostname :: string
  dot_port :: nat
  dot_auth_name :: string
  dp_filter_profile :: filter_profile
  dp_log_policy :: log_policy
  supports_dnssec :: bool
  recommended :: bool

definition mk_provider ::
  "string \<Rightarrow> string \<Rightarrow> string \<Rightarrow> string \<Rightarrow> bool \<Rightarrow> string \<Rightarrow> string \<Rightarrow> string \<Rightarrow> string \<Rightarrow> string \<Rightarrow> string \<Rightarrow> nat \<Rightarrow> string
    \<Rightarrow> filter_profile \<Rightarrow> log_policy \<Rightarrow> bool \<Rightarrow> bool \<Rightarrow> dns_provider" where
  "mk_provider slug n org country eu ip4 ip4b ip6 ip6b doh dot port auth prof logs dnssec rec =
     \<lparr>dp_slug = slug, dp_name = n, dp_organization = org, dp_country = country, is_eu_based = eu,
      ipv4_primary = ip4, ipv4_secondary = ip4b, ipv6_primary = ip6, ipv6_secondary = ip6b, doh_url = doh,
      dot_hostname = dot, dot_port = port, dot_auth_name = auth, dp_filter_profile = prof,
      dp_log_policy = logs, supports_dnssec = dnssec, recommended = rec\<rparr>"

definition CATALOG :: "dns_provider list" where
  "CATALOG =
   [ mk_provider ''cloudflare-classic'' ''Cloudflare 1.1.1.1'' ''Cloudflare'' ''US'' False
      ''1.1.1.1'' ''1.0.0.1'' ''2606:4700:4700::1111'' ''2606:4700:4700::1001''
      ''https://cloudflare-dns.com/dns-query'' ''1.1.1.1'' 853 ''cloudflare-dns.com''
      Pf_None Log_24h True True,
      mk_provider ''cloudflare-malware'' ''Cloudflare 1.1.1.2 (malware)'' ''Cloudflare'' ''US'' False
      ''1.1.1.2'' ''1.0.0.2'' ''2606:4700:4700::1112'' ''2606:4700:4700::1002''
      ''https://security.cloudflare-dns.com/dns-query'' ''1.1.1.2'' 853 ''security.cloudflare-dns.com''
      Pf_Malware Log_24h True True,
      mk_provider ''cloudflare-family'' ''Cloudflare 1.1.1.3 (family)'' ''Cloudflare'' ''US'' False
      ''1.1.1.3'' ''1.0.0.3'' ''2606:4700:4700::1113'' ''2606:4700:4700::1003''
      ''https://family.cloudflare-dns.com/dns-query'' ''1.1.1.3'' 853 ''family.cloudflare-dns.com''
      Pf_Family Log_24h True False,
      mk_provider ''quad9-standard'' ''Quad9 9.9.9.9'' ''Quad9 Foundation'' ''CH'' True
      ''9.9.9.9'' ''149.112.112.112'' ''2620:fe::fe'' ''2620:fe::9''
      ''https://dns.quad9.net/dns-query'' ''9.9.9.9'' 853 ''dns.quad9.net''
      Pf_Malware Log_None True True,
      mk_provider ''quad9-unfiltered'' ''Quad9 9.9.9.10 (unfiltered)'' ''Quad9 Foundation'' ''CH'' True
      ''9.9.9.10'' ''149.112.112.10'' ''2620:fe::10'' ''2620:fe::fe:10''
      ''https://dns10.quad9.net/dns-query'' ''9.9.9.10'' 853 ''dns10.quad9.net''
      Pf_None Log_None False False,
      mk_provider ''dns4eu-protective'' ''DNS4EU Protective'' ''Whalebone / Commission UE'' ''EU'' True
      ''86.54.11.1'' ''86.54.11.201'' ''2a13:1001::86:54:11:1'' []
      ''https://protective.joindns4.eu/dns-query'' ''protective.joindns4.eu'' 853 ''protective.joindns4.eu''
      Pf_Malware Log_None True True,
      mk_provider ''dns4eu-unfiltered'' ''DNS4EU Unfiltered'' ''Whalebone / Commission UE'' ''EU'' True
      ''86.54.11.100'' ''86.54.11.200'' ''2a13:1001::86:54:11:100'' []
      ''https://unfiltered.joindns4.eu/dns-query'' ''unfiltered.joindns4.eu'' 853 ''unfiltered.joindns4.eu''
      Pf_None Log_None True False,
      mk_provider ''dns4eu-protective-ads'' ''DNS4EU Protective + Ads'' ''Whalebone / Commission UE'' ''EU'' True
      ''86.54.11.12'' ''86.54.11.212'' [] []
      ''https://ads-protective.joindns4.eu/dns-query'' ''ads-protective.joindns4.eu'' 853 ''ads-protective.joindns4.eu''
      Pf_Adblock Log_None True False,
      mk_provider ''dns4eu-child'' ''DNS4EU Child Protection'' ''Whalebone / Commission UE'' ''EU'' True
      ''86.54.11.13'' ''86.54.11.213'' [] []
      ''https://child.joindns4.eu/dns-query'' ''child.joindns4.eu'' 853 ''child.joindns4.eu''
      Pf_Family Log_None True True,
      mk_provider ''dns0-zero'' ''dns0.eu Zero (paranoid)'' ''dns0.eu'' ''FR'' True
      ''193.110.81.9'' ''185.253.5.9'' ''2a0f:fc80::9'' ''2a0f:fc81::9''
      ''https://zero.dns0.eu'' ''zero.dns0.eu'' 853 ''zero.dns0.eu''
      Pf_Malware Log_None True True,
      mk_provider ''dns0-kids'' ''dns0.eu Kids'' ''dns0.eu'' ''FR'' True
      ''193.110.81.8'' ''185.253.5.8'' [] []
      ''https://kids.dns0.eu'' ''kids.dns0.eu'' 853 ''kids.dns0.eu''
      Pf_Family Log_None True False,
      mk_provider ''dns0-open'' ''dns0.eu Open'' ''dns0.eu'' ''FR'' True
      ''193.110.81.1'' ''185.253.5.1'' [] []
      ''https://open.dns0.eu'' ''open.dns0.eu'' 853 ''open.dns0.eu''
      Pf_None Log_None True False,
      mk_provider ''mullvad-base'' ''Mullvad DNS Base'' ''Mullvad VPN AB'' ''SE'' True
      ''194.242.2.2'' [] ''2a07:e340::2'' []
      ''https://dns.mullvad.net/dns-query'' ''dns.mullvad.net'' 853 ''dns.mullvad.net''
      Pf_None Log_None True False,
      mk_provider ''mullvad-adblock'' ''Mullvad DNS Adblock+Tracker'' ''Mullvad VPN AB'' ''SE'' True
      ''194.242.2.4'' [] ''2a07:e340::4'' []
      ''https://adblock.dns.mullvad.net/dns-query'' ''adblock.dns.mullvad.net'' 853 ''adblock.dns.mullvad.net''
      Pf_Adblock Log_None True False,
      mk_provider ''mullvad-family'' ''Mullvad DNS Family'' ''Mullvad VPN AB'' ''SE'' True
      ''194.242.2.6'' [] ''2a07:e340::6'' []
      ''https://family.dns.mullvad.net/dns-query'' ''family.dns.mullvad.net'' 853 ''family.dns.mullvad.net''
      Pf_Family Log_None True False,
      mk_provider ''mullvad-all'' ''Mullvad DNS All (maximal)'' ''Mullvad VPN AB'' ''SE'' True
      ''194.242.2.9'' [] ''2a07:e340::9'' []
      ''https://all.dns.mullvad.net/dns-query'' ''all.dns.mullvad.net'' 853 ''all.dns.mullvad.net''
      Pf_Family Log_None True False,
      mk_provider ''adguard-dns-default'' ''AdGuard DNS Default'' ''AdGuard'' ''CY'' True
      ''94.140.14.14'' ''94.140.15.15'' ''2a10:50c0::ad1:ff'' ''2a10:50c0::ad2:ff''
      ''https://dns.adguard-dns.com/dns-query'' ''dns.adguard-dns.com'' 853 ''dns.adguard-dns.com''
      Pf_Adblock Log_Anonymized True False,
      mk_provider ''adguard-dns-family'' ''AdGuard DNS Family'' ''AdGuard'' ''CY'' True
      ''94.140.14.15'' ''94.140.15.16'' [] []
      ''https://family.adguard-dns.com/dns-query'' ''family.adguard-dns.com'' 853 ''family.adguard-dns.com''
      Pf_Family Log_Anonymized True False,
      mk_provider ''cleanbrowsing-family'' ''CleanBrowsing Family'' ''CleanBrowsing'' ''US'' False
      ''185.228.168.168'' ''185.228.169.168'' ''2a0d:2a00:1::'' ''2a0d:2a00:2::''
      ''https://doh.cleanbrowsing.org/doh/family-filter/'' ''family-filter-dns.cleanbrowsing.org'' 853 ''family-filter-dns.cleanbrowsing.org''
      Pf_Family Log_Anonymized True False,
      mk_provider ''cira-shield-protected'' ''CIRA Canadian Shield Protected'' ''CIRA (gouv. canadien)'' ''CA'' False
      ''149.112.121.10'' ''149.112.122.10'' ''2620:10A:80BB::10'' ''2620:10A:80BC::10''
      ''https://protected.canadianshield.cira.ca/dns-query'' ''protected.canadianshield.cira.ca'' 853 ''protected.canadianshield.cira.ca''
      Pf_Malware Log_None True False]"

definition get_provider :: "string \<Rightarrow> dns_provider option" where
  "get_provider slug = find (\<lambda>p. dp_slug p = slug) CATALOG"

definition get_recommended :: "dns_provider list" where
  "get_recommended = filter recommended CATALOG"

definition filter_providers :: "bool \<Rightarrow> filter_profile option \<Rightarrow> bool \<Rightarrow> bool \<Rightarrow> dns_provider list" where
  "filter_providers only_eu prof with_dot with_doh =
     filter (\<lambda>p. (only_eu \<longrightarrow> is_eu_based p) \<and> (case prof of None \<Rightarrow> True | Some f \<Rightarrow> dp_filter_profile p = f)
                 \<and> (with_dot \<longrightarrow> dot_hostname p \<noteq> []) \<and> (with_doh \<longrightarrow> doh_url p \<noteq> [])) CATALOG"

section \<open>Security levels\<close>

datatype level_intensity = Int_Light | Int_Balanced | Int_Strict | Int_Paranoid

record security_level =
  lv_slug :: string
  default_provider_slug :: string
  allowed_provider_slugs :: "string list"
  adguard_filtering :: bool
  safe_browsing :: bool
  parental_control :: bool
  safe_search :: bool
  blocked_services :: "string list"
  adguard_blocklist_slugs :: "string list"
  require_dot :: bool
  require_dnssec :: bool
  eu_only :: bool
  lv_intensity :: level_intensity

definition FACTORY_LEVELS :: "security_level list" where
  "FACTORY_LEVELS =
    [\<lparr>lv_slug = ''leger'', default_provider_slug = ''cloudflare-classic'',
      allowed_provider_slugs = [''cloudflare-classic'', ''quad9-unfiltered'', ''dns4eu-unfiltered'', ''dns0-open'', ''mullvad-base''],
      adguard_filtering = False, safe_browsing = False, parental_control = False, safe_search = False,
      blocked_services = [],
      adguard_blocklist_slugs = [],
      require_dot = False, require_dnssec = False, eu_only = False, lv_intensity = Int_Light\<rparr>,
     \<lparr>lv_slug = ''standard'', default_provider_slug = ''quad9-standard'',
      allowed_provider_slugs = [''quad9-standard'', ''cloudflare-malware'', ''dns4eu-protective'', ''cira-shield-protected'', ''mullvad-adblock'', ''adguard-dns-default''],
      adguard_filtering = False, safe_browsing = True, parental_control = False, safe_search = False,
      blocked_services = [],
      adguard_blocklist_slugs = [],
      require_dot = True, require_dnssec = False, eu_only = False, lv_intensity = Int_Balanced\<rparr>,
     \<lparr>lv_slug = ''famille'', default_provider_slug = ''dns4eu-child'',
      allowed_provider_slugs = [''dns4eu-child'', ''cloudflare-family'', ''mullvad-family'', ''mullvad-all'', ''adguard-dns-family'', ''cleanbrowsing-family'', ''dns0-kids''],
      adguard_filtering = True, safe_browsing = True, parental_control = True, safe_search = True,
      blocked_services = [''tiktok'', ''tinder'', ''snapchat'', ''betfair'', ''betano'', ''onlyfans''],
      adguard_blocklist_slugs = [],
      require_dot = True, require_dnssec = False, eu_only = False, lv_intensity = Int_Strict\<rparr>,
     \<lparr>lv_slug = ''souverain_eu'', default_provider_slug = ''dns4eu-protective'',
      allowed_provider_slugs = [''dns4eu-protective'', ''dns4eu-protective-ads'', ''dns4eu-unfiltered'', ''dns4eu-child'', ''dns0-zero'', ''dns0-kids'', ''dns0-open'', ''quad9-standard'', ''mullvad-base'', ''mullvad-adblock'', ''mullvad-family'', ''mullvad-all'', ''adguard-dns-default'', ''adguard-dns-family''],
      adguard_filtering = False, safe_browsing = True, parental_control = False, safe_search = False,
      blocked_services = [],
      adguard_blocklist_slugs = [],
      require_dot = True, require_dnssec = False, eu_only = True, lv_intensity = Int_Balanced\<rparr>,
     \<lparr>lv_slug = ''paranoid'', default_provider_slug = ''dns0-zero'',
      allowed_provider_slugs = [''dns0-zero'', ''quad9-standard'', ''dns4eu-protective'', ''dns4eu-protective-ads'', ''mullvad-all''],
      adguard_filtering = True, safe_browsing = True, parental_control = True, safe_search = True,
      blocked_services = [''tiktok'', ''facebook'', ''instagram'', ''twitter'', ''snapchat'', ''tinder'', ''youtube'', ''reddit'', ''discord'', ''onlyfans''],
      adguard_blocklist_slugs = [''hagezi-tif'', ''hagezi-pro-plus'', ''phishing-army'', ''oisd-big''],
      require_dot = True, require_dnssec = True, eu_only = False, lv_intensity = Int_Paranoid\<rparr>]"

definition get_factory_level :: "string \<Rightarrow> security_level option" where
  "get_factory_level slug = find (\<lambda>l. lv_slug l = slug) FACTORY_LEVELS"

datatype provider_problem = Unknown_Provider | Not_Allowed | No_Dot | Not_Eu | No_Dnssec

definition validate_provider_for_level :: "security_level \<Rightarrow> string \<Rightarrow> provider_problem option" where
  "validate_provider_for_level level provider_slug =
     (case get_provider provider_slug of
        None \<Rightarrow> Some Unknown_Provider
      | Some provider \<Rightarrow>
          if allowed_provider_slugs level \<noteq> [] \<and> provider_slug \<notin> set (allowed_provider_slugs level)
          then Some Not_Allowed
          else if require_dot level \<and> dot_hostname provider = [] then Some No_Dot
          else if eu_only level \<and> \<not> is_eu_based provider then Some Not_Eu
          else if require_dnssec level \<and> \<not> supports_dnssec provider then Some No_Dnssec
          else None)"

section \<open>The store of levels\<close>

text \<open>A row is a level; its column \<^verbatim>\<open>updated_at\<close> is never read.\<close>

definition ensure_seeded :: "security_level list \<Rightarrow> nat \<times> security_level list" where
  "ensure_seeded rows =
     (let fresh = filter (\<lambda>l. lv_slug l \<notin> lv_slug ` set rows) FACTORY_LEVELS
      in (length fresh, rows @ fresh))"

definition levels_list_all :: "security_level list \<Rightarrow> security_level list" where
  "levels_list_all rows = sort_key lv_slug rows"

definition levels_get :: "string \<Rightarrow> security_level list \<Rightarrow> security_level option" where
  "levels_get slug rows = row_find lv_slug slug rows"

text \<open>The body of a PATCH: a field that is not sent is left alone.\<close>

record level_patch =
  pt_default_provider :: "string option"
  pt_allowed_providers :: "string list option"
  pt_filtering :: "bool option"
  pt_safe_browsing :: "bool option"
  pt_parental :: "bool option"
  pt_safe_search :: "bool option"
  pt_blocked_services :: "string list option"
  pt_blocklists :: "string list option"
  pt_require_dot :: "bool option"
  pt_require_dnssec :: "bool option"
  pt_eu_only :: "bool option"

definition or_else :: "'a option \<Rightarrow> 'a \<Rightarrow> 'a" where
  "or_else v d = (case v of Some x \<Rightarrow> x | None \<Rightarrow> d)"

definition apply_patch :: "level_patch \<Rightarrow> security_level \<Rightarrow> security_level" where
  "apply_patch pt l =
     l\<lparr>default_provider_slug := or_else (pt_default_provider pt) (default_provider_slug l),
       allowed_provider_slugs := or_else (pt_allowed_providers pt) (allowed_provider_slugs l),
       adguard_filtering := or_else (pt_filtering pt) (adguard_filtering l),
       safe_browsing := or_else (pt_safe_browsing pt) (safe_browsing l),
       parental_control := or_else (pt_parental pt) (parental_control l),
       safe_search := or_else (pt_safe_search pt) (safe_search l),
       blocked_services := or_else (pt_blocked_services pt) (blocked_services l),
       adguard_blocklist_slugs := or_else (pt_blocklists pt) (adguard_blocklist_slugs l),
       require_dot := or_else (pt_require_dot pt) (require_dot l),
       require_dnssec := or_else (pt_require_dnssec pt) (require_dnssec l),
       eu_only := or_else (pt_eu_only pt) (eu_only l)\<rparr>"

text \<open>An update of a level that is not there is a \<^verbatim>\<open>KeyError\<close>.\<close>

definition levels_update :: "string \<Rightarrow> level_patch \<Rightarrow> security_level list \<Rightarrow> (security_level \<times> security_level list) option" where
  "levels_update slug pt rows =
     (case row_find lv_slug slug rows of
        None \<Rightarrow> None
      | Some r \<Rightarrow>
          Some (apply_patch pt r, row_update lv_slug slug (apply_patch pt) rows))"

definition reset_to_factory :: "string \<Rightarrow> security_level list \<Rightarrow> (security_level \<times> security_level list) option" where
  "reset_to_factory slug rows =
     (case get_factory_level slug of
        None \<Rightarrow> None
      | Some factory \<Rightarrow>
          Some (factory,
                if row_find lv_slug slug rows = None then rows @ [factory]
                else row_update lv_slug slug (\<lambda>_. factory) rows))"

text \<open>The route's answer: the level is missing, its default provider would be invalid, or the edit is stored.\<close>

datatype patch_error = Level_Not_Found | Invalid_Default provider_problem

definition patch_security_level ::
  "string \<Rightarrow> level_patch \<Rightarrow> security_level list \<Rightarrow> patch_error + (security_level \<times> security_level list)" where
  "patch_security_level slug pt rows =
     (case levels_get slug rows of
        None \<Rightarrow> Inl Level_Not_Found
      | Some current \<Rightarrow>
          let merged = apply_patch pt current in
          (case validate_provider_for_level merged (default_provider_slug merged) of
             Some e \<Rightarrow> Inl (Invalid_Default e)
           | None \<Rightarrow>
               (case levels_update slug pt rows of
                  None \<Rightarrow> Inl Level_Not_Found
                | Some res \<Rightarrow> Inr res)))"

section \<open>Properties\<close>

definition level_ok :: "security_level \<Rightarrow> bool" where
  "level_ok l \<longleftrightarrow> validate_provider_for_level l (default_provider_slug l) = None"

definition levels_ok :: "security_level list \<Rightarrow> bool" where
  "levels_ok rows \<longleftrightarrow> distinct (map lv_slug rows) \<and> (\<forall>r\<in>set rows. level_ok r)"

lemma factory_levels_ok: "\<forall>l\<in>set FACTORY_LEVELS. level_ok l"
  unfolding level_ok_def by code_simp

lemma factory_slugs_distinct: "distinct (map lv_slug FACTORY_LEVELS)"
  by code_simp

text \<open>The factory lists of allowed providers only hold providers that meet the level's requirements.\<close>

lemma factory_choices_valid:
  "\<forall>l\<in>set FACTORY_LEVELS. \<forall>s\<in>set (allowed_provider_slugs l). validate_provider_for_level l s = None"
  by code_simp

datatype level_op = Lv_Seed | Lv_Patch string level_patch | Lv_Reset string

definition level_step :: "level_op \<Rightarrow> security_level list \<Rightarrow> security_level list" where
  "level_step op rows =
     (case op of
        Lv_Seed \<Rightarrow> snd (ensure_seeded rows)
      | Lv_Patch slug pt \<Rightarrow> (case patch_security_level slug pt rows of Inl _ \<Rightarrow> rows | Inr (_, rows') \<Rightarrow> rows')
      | Lv_Reset slug \<Rightarrow> (case reset_to_factory slug rows of None \<Rightarrow> rows | Some (_, rows') \<Rightarrow> rows'))"

lemma slug_apply_patch [simp]: "lv_slug (apply_patch pt l) = lv_slug l"
  by (simp add: apply_patch_def)

lemma levels_ok_update:
  assumes "levels_ok rows" "\<And>r. r \<in> set rows \<Longrightarrow> lv_slug r = slug \<Longrightarrow> lv_slug (f r) = slug \<and> level_ok (f r)"
  shows "levels_ok (row_update lv_slug slug f rows)"
proof -
  have keys: "map lv_slug (row_update lv_slug slug f rows) = map lv_slug rows"
    using assms(2) by (auto simp: row_update_def)
  have "\<forall>r\<in>set (row_update lv_slug slug f rows). level_ok r"
    using assms by (auto simp: levels_ok_def row_update_def)
  with assms(1) show ?thesis by (simp add: levels_ok_def keys del: map_map)
qed

lemma level_step_ok: "levels_ok rows \<Longrightarrow> levels_ok (level_step op rows)"
proof (cases op)
  assume ok: "levels_ok rows"
  case Lv_Seed
  let ?fresh = "filter (\<lambda>l. lv_slug l \<notin> lv_slug ` set rows) FACTORY_LEVELS"
  have "distinct (map lv_slug ?fresh)" using factory_slugs_distinct by (rule distinct_map_filter)
  moreover have "set (map lv_slug ?fresh) \<inter> lv_slug ` set rows = {}" by auto
  ultimately have "distinct (map lv_slug rows @ map lv_slug ?fresh)"
    using ok by (simp add: levels_ok_def inf_commute)
  then have "distinct (map lv_slug (level_step op rows))"
    by (simp add: Lv_Seed level_step_def ensure_seeded_def Let_def comp_def)
  moreover have "\<forall>r\<in>set (level_step op rows). level_ok r"
    using ok factory_levels_ok by (auto simp: Lv_Seed level_step_def ensure_seeded_def levels_ok_def Let_def)
  ultimately show ?thesis by (simp add: levels_ok_def)
next
  assume ok: "levels_ok rows"
  case (Lv_Patch slug pt)
  show ?thesis
  proof (cases "patch_security_level slug pt rows")
    case (Inl e)
    with ok Lv_Patch show ?thesis by (simp add: level_step_def)
  next
    case (Inr res)
    then obtain r where r: "row_find lv_slug slug rows = Some r" "level_ok (apply_patch pt r)"
      and res: "snd res = row_update lv_slug slug (apply_patch pt) rows"
      by (auto simp: patch_security_level_def levels_get_def levels_update_def level_ok_def Let_def split: option.splits)
    have only: "r' = r" if "r' \<in> set rows" "lv_slug r' = slug" for r'
      using that ok row_find_key [OF r(1)] by (auto simp: levels_ok_def distinct_map inj_on_def)
    have "levels_ok (snd res)"
      unfolding res using ok
      by (rule levels_ok_update) (auto simp: only r(2) dest!: only)
    with Inr Lv_Patch show ?thesis by (auto simp: level_step_def split: prod.splits)
  qed
next
  assume ok: "levels_ok rows"
  case (Lv_Reset slug)
  show ?thesis
  proof (cases "get_factory_level slug")
    case None
    with ok Lv_Reset show ?thesis by (simp add: level_step_def reset_to_factory_def)
  next
    case (Some l)
    then have l: "level_ok l" "lv_slug l = slug"
      using factory_levels_ok by (auto simp: get_factory_level_def find_Some_iff)
    have "levels_ok (row_update lv_slug slug (\<lambda>_. l) rows)"
      using ok by (rule levels_ok_update) (simp add: l)
    moreover have "row_find lv_slug slug rows = None \<Longrightarrow> levels_ok (rows @ [l])"
      using ok l by (auto simp: levels_ok_def row_find_None)
    ultimately show ?thesis
      using Some Lv_Reset by (simp add: level_step_def reset_to_factory_def)
  qed
qed

text \<open>
  The default provider of every stored security level meets the level's own requirements, whatever
  sequence of seedings, edits and resets is run: it is in the catalogue and on the level's list, and it
  offers encrypted transport, a European seat and DNSSEC where the level asks for them. Slugs are unique.
\<close>

theorem level_defaults_stay_valid: "levels_ok (foldl (\<lambda>rows op. level_step op rows) [] ops)"
proof -
  have "levels_ok rows \<Longrightarrow> levels_ok (foldl (\<lambda>rows op. level_step op rows) rows ops)" for rows
    by (induction ops arbitrary: rows) (auto intro: level_step_ok)
  moreover have "levels_ok []" by (simp add: levels_ok_def)
  ultimately show ?thesis by blast
qed

end
