(* ===== verification/Py_Json.thy ===== *)
theory Py_Json
  imports Py_Int
begin

text \<open>
  The values \<^verbatim>\<open>json.loads\<close> and \<^verbatim>\<open>yaml.safe_load\<close> build, and the ways the backend reads them. Numbers with a
  fractional part do not occur where these are used and are left out. An object is a dictionary.
\<close>

datatype json =
    J_Null
  | J_Bool bool
  | J_Int int
  | J_Str string
  | J_List "json list"
  | J_Obj "(string \<times> json) list"

text \<open>\<^verbatim>\<open>bool(v)\<close>, and \<^verbatim>\<open>v or d\<close>.\<close>

fun js_true :: "json \<Rightarrow> bool" where
  "js_true J_Null \<longleftrightarrow> False"
| "js_true (J_Bool b) \<longleftrightarrow> b"
| "js_true (J_Int n) \<longleftrightarrow> n \<noteq> 0"
| "js_true (J_Str s) \<longleftrightarrow> s \<noteq> []"
| "js_true (J_List l) \<longleftrightarrow> l \<noteq> []"
| "js_true (J_Obj d) \<longleftrightarrow> d \<noteq> []"

definition js_or :: "json \<Rightarrow> json \<Rightarrow> json" where
  "js_or v d = (if js_true v then v else d)"

text \<open>\<^verbatim>\<open>d.get(k)\<close> on a value that is an object; on any other value it raises, which the callers exclude.\<close>

definition js_get :: "string \<Rightarrow> json \<Rightarrow> json" where
  "js_get k v = (case v of J_Obj d \<Rightarrow> (case dict_get d k of Some w \<Rightarrow> w | None \<Rightarrow> J_Null) | _ \<Rightarrow> J_Null)"

definition js_is_obj :: "json \<Rightarrow> bool" where
  "js_is_obj v = (case v of J_Obj _ \<Rightarrow> True | _ \<Rightarrow> False)"

definition js_set :: "string \<Rightarrow> json \<Rightarrow> json \<Rightarrow> json" where
  "js_set k w v = (case v of J_Obj d \<Rightarrow> J_Obj (dict_set k w d) | _ \<Rightarrow> v)"

text \<open>The items of \<^verbatim>\<open>v or []\<close> when it is a list.\<close>

definition js_items :: "json \<Rightarrow> json list" where
  "js_items v = (case v of J_List l \<Rightarrow> l | _ \<Rightarrow> [])"

text \<open>\<^verbatim>\<open>int(v or 0)\<close>; \<^const>\<open>None\<close> is an exception.\<close>

definition js_int :: "json \<Rightarrow> int option" where
  "js_int v =
     (case v of
        J_Int n \<Rightarrow> Some n
      | J_Bool b \<Rightarrow> Some (if b then 1 else 0)
      | J_Str s \<Rightarrow> if s = [] then Some 0 else py_int s
      | _ \<Rightarrow> if js_true v then None else Some 0)"

text \<open>\<^verbatim>\<open>v or ''\<close> for a value that is a string or missing.\<close>

definition js_text :: "json \<Rightarrow> string" where
  "js_text v = (case v of J_Str s \<Rightarrow> s | _ \<Rightarrow> [])"

lemma js_get_set [simp]:
  "js_is_obj v \<Longrightarrow> js_get k (js_set k' w v) = (if k = k' then w else js_get k v)"
  by (cases v) (auto simp: js_is_obj_def js_get_def js_set_def)

lemma js_is_obj_set [simp]: "js_is_obj (js_set k w v) = js_is_obj v"
  by (cases v) (simp_all add: js_is_obj_def js_set_def)

lemma js_is_obj_Obj [simp]: "js_is_obj (J_Obj d)"
  by (simp add: js_is_obj_def)

end
