(* ===== verification/Adguard.thy ===== *)
theory Adguard
  imports Py_Json Slate_Ssh
begin

text \<open>
  Control of AdGuard Home on a device (\<^verbatim>\<open>backend/app/adguard/manager.py\<close>, \<^verbatim>\<open>adguard/feeds.py\<close> and the routes of
  \<^verbatim>\<open>api/routes/adguard.py\<close> that act on lists). AdGuard itself is a parameter: \<open>http d host call\<close> is what a
  request to a host meets, and the next state \<open>'d\<close> of the device; \<open>exec d cmd\<close> is a shell command over SSH.
\<close>

section \<open>Requests\<close>

record client_payload =
  cp_name :: string
  cp_ids :: "string list"
  cp_use_global_settings :: bool
  cp_filtering_enabled :: bool
  cp_parental_enabled :: bool
  cp_safebrowsing_enabled :: bool
  cp_safe_search :: bool
  cp_use_global_blocked_services :: bool
  cp_blocked_services :: "string list"
  cp_upstreams :: "string list"
  cp_ignore_querylog :: bool
  cp_ignore_statistics :: bool

datatype ag_call =
    Get_Status
  | Get_Dns_Info
  | Post_Dns_Config json
  | Post_Protection bool
  | Get_Filtering_Status
  | Add_Url string string
  | Remove_Url string
  | Set_Url string bool
  | Refresh_Lists
  | Get_Clients
  | Add_Client client_payload
  | Update_Client string client_payload
  | Delete_Client string

datatype http_outcome =
    Unreachable string        \<comment> \<open>the host does not accept the connection\<close>
  | Broken string             \<comment> \<open>any other transport error\<close>
  | Answered int string json  \<comment> \<open>the status, the text and the decoded body\<close>

datatype ag_error =
    Ag_Transport ag_call string
  | Ag_Status ag_call int string
  | Ag_Ssh string
  | Ag_Bootstrap string

type_synonym 'd ag_http = "'d \<Rightarrow> string \<Rightarrow> ag_call \<Rightarrow> 'd \<times> http_outcome"

type_synonym 'd ag_exec = "'d \<Rightarrow> string \<Rightarrow> 'd \<times> exec_result"

record 'd ag_world =
  ag_candidates :: "string list"
  ag_active :: string
  ag_dev :: 'd

text \<open>An empty list of hosts is a \<^verbatim>\<open>ValueError\<close>; a list of blank ones an \<^verbatim>\<open>IndexError\<close>.\<close>

datatype ag_init_error = No_Hosts | Only_Blank_Hosts

fun dedup_from :: "string list \<Rightarrow> string list \<Rightarrow> string list" where
  "dedup_from seen [] = []"
| "dedup_from seen (x # xs) = (if x \<in> set seen then dedup_from seen xs else x # dedup_from (x # seen) xs)"

definition make_adguard :: "string list \<Rightarrow> 'd \<Rightarrow> ag_init_error + 'd ag_world" where
  "make_adguard slate_hosts d =
     (if slate_hosts = [] then Inl No_Hosts
      else case dedup_from [] (map py_strip (filter (\<lambda>h. h \<noteq> [] \<and> py_strip h \<noteq> []) slate_hosts)) of
        [] \<Rightarrow> Inl Only_Blank_Hosts
      | h # hs \<Rightarrow> Inr \<lparr>ag_candidates = h # hs, ag_active = h, ag_dev = d\<rparr>)"

section \<open>Failover\<close>

definition host_order :: "'d ag_world \<Rightarrow> string list" where
  "host_order w = ag_active w # filter (\<lambda>h. h \<noteq> ag_active w) (ag_candidates w)"

text \<open>
  The hosts in order, moving on only when one does not accept the connection. The failure of the last one is
  the failure of the request; the host that answered becomes the active one.
\<close>

fun try_hosts :: "'d ag_http \<Rightarrow> ag_call \<Rightarrow> string list \<Rightarrow> string \<Rightarrow> 'd ag_world
    \<Rightarrow> (string + (int \<times> string \<times> json)) \<times> 'd ag_world" where
  "try_hosts http call [] failed w = (Inl failed, w)"
| "try_hosts http call (h # hs) failed w =
     (case http (ag_dev w) h call of
        (d, Unreachable e) \<Rightarrow> try_hosts http call hs e (w\<lparr>ag_dev := d\<rparr>)
      | (d, Broken e) \<Rightarrow> (Inl e, w\<lparr>ag_dev := d\<rparr>)
      | (d, Answered s t j) \<Rightarrow> (Inr (s, t, j), w\<lparr>ag_dev := d, ag_active := h\<rparr>))"

definition ag_request :: "'d ag_http \<Rightarrow> ag_call \<Rightarrow> 'd ag_world \<Rightarrow> (string + (int \<times> string \<times> json)) \<times> 'd ag_world" where
  "ag_request http call w = try_hosts http call (host_order w) [] w"

text \<open>A request to the active host alone (the attribute \<^verbatim>\<open>_http\<close>).\<close>

definition ag_direct :: "'d ag_http \<Rightarrow> ag_call \<Rightarrow> 'd ag_world \<Rightarrow> (string + (int \<times> string \<times> json)) \<times> 'd ag_world" where
  "ag_direct http call w =
     (case http (ag_dev w) (ag_active w) call of
        (d, Unreachable e) \<Rightarrow> (Inl e, w\<lparr>ag_dev := d\<rparr>)
      | (d, Broken e) \<Rightarrow> (Inl e, w\<lparr>ag_dev := d\<rparr>)
      | (d, Answered s t j) \<Rightarrow> (Inr (s, t, j), w\<lparr>ag_dev := d\<rparr>))"

definition is_success :: "int \<Rightarrow> bool" where
  "is_success s \<longleftrightarrow> 200 \<le> s \<and> s < 300"

text \<open>\<^verbatim>\<open>resp.raise_for_status(); resp.json()\<close>.\<close>

definition checked :: "ag_call \<Rightarrow> string + (int \<times> string \<times> json) \<Rightarrow> ag_error + json" where
  "checked call r =
     (case r of
        Inl e \<Rightarrow> Inl (Ag_Transport call e)
      | Inr (s, t, j) \<Rightarrow> if is_success s then Inr j else Inl (Ag_Status call s t))"

definition ag_rest :: "'d ag_http \<Rightarrow> ag_call \<Rightarrow> 'd ag_world \<Rightarrow> (ag_error + json) \<times> 'd ag_world" where
  "ag_rest http call w = (case ag_request http call w of (r, w') \<Rightarrow> (checked call r, w'))"

section \<open>Status and switches\<close>

definition is_admin_provisioned :: "'d ag_http \<Rightarrow> 'd ag_world \<Rightarrow> bool \<times> 'd ag_world" where
  "is_admin_provisioned http w =
     (case ag_request http Get_Status w of
        (Inl e, w') \<Rightarrow> (False, w')
      | (Inr (s, t, j), w') \<Rightarrow> (s = 200, w'))"

record adguard_status =
  uci_enabled :: bool
  init_running :: bool
  web_ui_reachable :: bool
  protection_enabled :: "bool option"
  ag_dns_port :: "int option"
  ag_status_error :: "string option"

definition status_cmd :: string where
  "status_cmd =
     ''uci get adguardhome.config.enabled 2>/dev/null; echo '' @ [squote] @ ''---'' @ [squote]
     @ ''; /etc/init.d/adguardhome status 2>/dev/null; echo exit=$?''"

definition init_is_running :: "string \<Rightarrow> bool" where
  "init_is_running part \<longleftrightarrow> py_contains ''running'' (py_lower part) \<or> py_contains ''exit=0'' part"

definition probe_init :: "exec_result \<Rightarrow> bool \<times> bool \<times> string option" where
  "probe_init r =
     (case r of
        Raised \<Rightarrow> (False, False, Some ''SSH probe failed'')
      | Exited code out err \<Rightarrow>
          (case split_first ''---'' out of
             None \<Rightarrow> (py_strip out = ''1'', init_is_running [], None)
           | Some (a, b) \<Rightarrow> (py_strip a = ''1'', init_is_running (py_strip b), None)))"

text \<open>\<^const>\<open>None\<close> stands for an exception on a port that is not a number.\<close>

definition ag_get_status :: "'d ag_http \<Rightarrow> 'd ag_exec \<Rightarrow> 'd ag_world \<Rightarrow> adguard_status option \<times> 'd ag_world" where
  "ag_get_status http exec w =
     (case exec (ag_dev w) status_cmd of (d, r) \<Rightarrow>
      case probe_init r of (uci, running, error) \<Rightarrow>
      let w1 = w\<lparr>ag_dev := d\<rparr>;
          base = \<lparr>uci_enabled = uci, init_running = running, web_ui_reachable = False, protection_enabled = None,
                  ag_dns_port = None, ag_status_error = error\<rparr>
      in if \<not> running then (Some base, w1)
         else case ag_request http Get_Status w1 of
           (Inl e, w2) \<Rightarrow>
             (Some (base\<lparr>ag_status_error := (if error = None then Some (''REST probe failed: '' @ e) else error)\<rparr>), w2)
         | (Inr (s, t, j), w2) \<Rightarrow>
             if s \<noteq> 200 then (Some base, w2)
             else case js_int (js_get ''dns_port'' j) of
               None \<Rightarrow> (None, w2)
             | Some p \<Rightarrow>
                 (Some (base\<lparr>web_ui_reachable := True,
                             protection_enabled := Some (js_true (js_get ''protection_enabled'' j)),
                             ag_dns_port := (if p = 0 then None else Some p)\<rparr>), w2))"

definition enable_cmd :: "bool \<Rightarrow> string" where
  "enable_cmd enabled =
     ''uci set adguardhome.config.enabled='' @ [squote] @ (if enabled then ''1'' else ''0'') @ [squote]
     @ '' && uci commit adguardhome && /etc/init.d/adguardhome '' @ (if enabled then ''enable'' else ''disable'')
     @ '' 2>/dev/null; /etc/init.d/adguardhome '' @ (if enabled then ''start'' else ''stop'') @ '' && echo OK''"

definition ag_set_enabled :: "'d ag_exec \<Rightarrow> bool \<Rightarrow> 'd ag_world \<Rightarrow> (ag_error + unit) \<times> 'd ag_world" where
  "ag_set_enabled exec enabled w =
     (case exec (ag_dev w) (enable_cmd enabled) of
        (d, Raised) \<Rightarrow> (Inl (Ag_Ssh ''SSH command failed''), w\<lparr>ag_dev := d\<rparr>)
      | (d, Exited code out err) \<Rightarrow>
          (if py_contains ''OK'' out then Inr () else Inl (Ag_Ssh ''did not return OK''), w\<lparr>ag_dev := d\<rparr>))"

definition ag_set_protection :: "'d ag_http \<Rightarrow> bool \<Rightarrow> 'd ag_world \<Rightarrow> (ag_error + json) \<times> 'd ag_world" where
  "ag_set_protection http enabled = ag_rest http (Post_Protection enabled)"

definition get_dns_config :: "'d ag_http \<Rightarrow> 'd ag_world \<Rightarrow> (ag_error + json) \<times> 'd ag_world" where
  "get_dns_config http = ag_rest http Get_Dns_Info"

text \<open>Read, change the one field, write everything back.\<close>

definition set_dnssec_enabled :: "'d ag_http \<Rightarrow> bool \<Rightarrow> 'd ag_world \<Rightarrow> (ag_error + json) \<times> 'd ag_world" where
  "set_dnssec_enabled http enabled w =
     (case get_dns_config http w of
        (Inl e, w1) \<Rightarrow> (Inl e, w1)
      | (Inr current, w1) \<Rightarrow>
          let new = js_set ''dnssec_enabled'' (J_Bool enabled) current
          in case ag_rest http (Post_Dns_Config new) w1 of
               (Inl e, w2) \<Rightarrow> (Inl e, w2)
             | (Inr _, w2) \<Rightarrow> (Inr new, w2))"

section \<open>Provisioning the administrator\<close>

text \<open>The libraries the bootstrap calls: YAML, base64 in lines of 76 characters, and bcrypt.\<close>

record boot_env =
  yaml_load :: "string \<Rightarrow> json option"
  yaml_dump :: "json \<Rightarrow> string"
  encodebytes :: "string \<Rightarrow> string"
  bcrypt_hash :: "string \<Rightarrow> string"
  admin_username :: string
  admin_password :: string

text \<open>
  The configuration with our user as the only one, and a DNS port that is not 53. \<^const>\<open>None\<close> is the exception
  raised when the file, or its section on DNS, is not a mapping.
\<close>

definition free_dns_port :: "json \<Rightarrow> json" where
  "free_dns_port dns =
     (if js_get ''port'' dns = J_Int 53 \<or> js_get ''port'' dns = J_Null then js_set ''port'' (J_Int 3053) dns else dns)"

definition mutate_config :: "string \<Rightarrow> string \<Rightarrow> json \<Rightarrow> json option" where
  "mutate_config user hash loaded =
     (let config = js_or loaded (J_Obj []) in
      if \<not> js_is_obj config then None
      else
        let c1 = js_set ''users'' (J_List [J_Obj [(''name'', J_Str user), (''password'', J_Str hash)]]) config;
            dns = (case c1 of J_Obj d \<Rightarrow> (case dict_get d ''dns'' of Some v \<Rightarrow> v | None \<Rightarrow> J_Obj []) | _ \<Rightarrow> J_Obj [])
        in if \<not> js_is_obj dns then None else Some (js_set ''dns'' (free_dns_port dns) c1))"

definition push_cmd :: "string \<Rightarrow> string" where
  "push_cmd b64 =
     ''/etc/init.d/adguardhome stop 2>/dev/null; mkdir -p /etc/AdGuardHome/backup && ''
     @ ''cp /etc/AdGuardHome/config.yaml   /etc/AdGuardHome/backup/config.yaml.pre-bootstrap 2>/dev/null; ''
     @ ''printf '' @ [squote] @ ''%s'' @ [squote] @ '' '' @ [squote] @ b64 @ [squote]
     @ '' | openssl base64 -d > /etc/AdGuardHome/config.yaml.new && ''
     @ ''mv /etc/AdGuardHome/config.yaml.new /etc/AdGuardHome/config.yaml && ''
     @ ''chmod 600 /etc/AdGuardHome/config.yaml && /etc/init.d/adguardhome start && echo OK''"

fun await_provisioned :: "'d ag_http \<Rightarrow> nat \<Rightarrow> 'd ag_world \<Rightarrow> bool \<times> 'd ag_world" where
  "await_provisioned http 0 w = (False, w)"
| "await_provisioned http (Suc n) w =
     (case is_admin_provisioned http w of
        (True, w') \<Rightarrow> (True, w')
      | (False, w') \<Rightarrow> await_provisioned http n w')"

definition bootstrap_admin :: "boot_env \<Rightarrow> 'd ag_http \<Rightarrow> 'd ag_exec \<Rightarrow> 'd ag_world \<Rightarrow> (ag_error + unit) \<times> 'd ag_world" where
  "bootstrap_admin env http exec w =
     (case exec (ag_dev w) ''cat /etc/AdGuardHome/config.yaml'' of
        (d, Raised) \<Rightarrow> (Inl (Ag_Ssh ''SSH read failed''), w\<lparr>ag_dev := d\<rparr>)
      | (d, Exited code out err) \<Rightarrow>
          if code \<noteq> 0 then (Inl (Ag_Bootstrap ''could not read config.yaml''), w\<lparr>ag_dev := d\<rparr>)
          else case yaml_load env out of
            None \<Rightarrow> (Inl (Ag_Bootstrap ''config.yaml is not valid YAML''), w\<lparr>ag_dev := d\<rparr>)
          | Some loaded \<Rightarrow>
              (case mutate_config (admin_username env) (bcrypt_hash env (take 72 (admin_password env))) loaded of
                 None \<Rightarrow> (Inl (Ag_Bootstrap ''not a mapping''), w\<lparr>ag_dev := d\<rparr>)
               | Some config \<Rightarrow>
                   (case exec d (push_cmd (encodebytes env (yaml_dump env config))) of
                      (d2, Raised) \<Rightarrow> (Inl (Ag_Ssh ''SSH bootstrap failed''), w\<lparr>ag_dev := d2\<rparr>)
                    | (d2, Exited code2 out2 err2) \<Rightarrow>
                        if \<not> py_contains ''OK'' out2
                        then (Inl (Ag_Bootstrap ''bootstrap did not return OK''), w\<lparr>ag_dev := d2\<rparr>)
                        else case await_provisioned http 20 (w\<lparr>ag_dev := d2\<rparr>) of
                          (True, w') \<Rightarrow> (Inr (), w')
                        | (False, w') \<Rightarrow> (Inl (Ag_Bootstrap ''REST API still refusing our credentials''), w'))))"

section \<open>Filter lists\<close>

record ag_filter =
  fl_id :: int
  fl_name :: string
  fl_url :: string
  fl_enabled :: bool
  fl_rules_count :: int

definition filter_of :: "json \<Rightarrow> ag_filter option" where
  "filter_of f =
     (case (js_int (js_get ''id'' f), js_int (js_get ''rules_count'' f)) of
        (Some i, Some n) \<Rightarrow>
          Some \<lparr>fl_id = i, fl_name = js_text (js_get ''name'' f), fl_url = js_text (js_get ''url'' f),
                fl_enabled = js_true (js_get ''enabled'' f), fl_rules_count = n\<rparr>
      | _ \<Rightarrow> None)"

text \<open>The inner \<^const>\<open>None\<close> is an exception on a malformed number.\<close>

definition list_filters :: "'d ag_http \<Rightarrow> 'd ag_world \<Rightarrow> (ag_error + ag_filter list option) \<times> 'd ag_world" where
  "list_filters http w =
     (case ag_rest http Get_Filtering_Status w of
        (Inl e, w') \<Rightarrow> (Inl e, w')
      | (Inr j, w') \<Rightarrow> (Inr (those (map filter_of (js_items (js_get ''filters'' j)))), w'))"

definition add_filter :: "'d ag_http \<Rightarrow> string \<Rightarrow> string \<Rightarrow> 'd ag_world \<Rightarrow> (ag_error + json) \<times> 'd ag_world" where
  "add_filter http url n = ag_rest http (Add_Url url n)"

definition remove_filter :: "'d ag_http \<Rightarrow> string \<Rightarrow> 'd ag_world \<Rightarrow> (ag_error + json) \<times> 'd ag_world" where
  "remove_filter http url = ag_rest http (Remove_Url url)"

definition set_filter_enabled :: "'d ag_http \<Rightarrow> string \<Rightarrow> bool \<Rightarrow> 'd ag_world \<Rightarrow> (ag_error + json) \<times> 'd ag_world" where
  "set_filter_enabled http url enabled = ag_rest http (Set_Url url enabled)"

definition refresh_filters :: "'d ag_http \<Rightarrow> 'd ag_world \<Rightarrow> (ag_error + json) \<times> 'd ag_world" where
  "refresh_filters http = ag_rest http Refresh_Lists"

section \<open>The catalogue of lists\<close>

datatype feed_category = Fc_Ads | Fc_Tracking | Fc_Malware | Fc_Phishing | Fc_Social | Fc_Nsfw | Fc_All

datatype feed_intensity = Fi_Light | Fi_Balanced | Fi_Pro | Fi_Hard

record feed_entry =
  fe_slug :: string
  fe_name :: string
  fe_url :: string
  fe_category :: feed_category
  fe_maintainer :: string
  fe_intensity :: feed_intensity
  fe_recommended :: bool

definition mk_feed ::
  "string \<Rightarrow> string \<Rightarrow> string \<Rightarrow> feed_category \<Rightarrow> string \<Rightarrow> feed_intensity \<Rightarrow> bool \<Rightarrow> feed_entry" where
  "mk_feed slug n url cat maint lvl rec =
     \<lparr>fe_slug = slug, fe_name = n, fe_url = url, fe_category = cat, fe_maintainer = maint, fe_intensity = lvl,
      fe_recommended = rec\<rparr>"

definition FEED_CATALOG :: "feed_entry list" where
  "FEED_CATALOG =
    [
     mk_feed ''hagezi-light'' ''HaGeZi Light''
       ''https://raw.githubusercontent.com/hagezi/dns-blocklists/main/adblock/light.txt'' Fc_Ads ''HaGeZi'' Fi_Light False,
     mk_feed ''hagezi-multi'' ''HaGeZi Multi Normal''
       ''https://raw.githubusercontent.com/hagezi/dns-blocklists/main/adblock/multi.txt'' Fc_All ''HaGeZi'' Fi_Balanced True,
     mk_feed ''hagezi-pro'' ''HaGeZi Multi PRO''
       ''https://raw.githubusercontent.com/hagezi/dns-blocklists/main/adblock/pro.txt'' Fc_All ''HaGeZi'' Fi_Pro True,
     mk_feed ''hagezi-pro-plus'' ''HaGeZi Multi PRO++''
       ''https://raw.githubusercontent.com/hagezi/dns-blocklists/main/adblock/pro.plus.txt'' Fc_All ''HaGeZi'' Fi_Hard False,
     mk_feed ''hagezi-tif'' ''HaGeZi Threat Intel Feeds''
       ''https://raw.githubusercontent.com/hagezi/dns-blocklists/main/adblock/tif.txt'' Fc_Malware ''HaGeZi'' Fi_Balanced True,
     mk_feed ''hagezi-tif-medium'' ''HaGeZi TIF Medium''
       ''https://raw.githubusercontent.com/hagezi/dns-blocklists/main/adblock/tif.medium.txt'' Fc_Malware ''HaGeZi'' Fi_Balanced False,
     mk_feed ''oisd-small'' ''OISD Small''
       ''https://small.oisd.nl/'' Fc_Ads ''OISD'' Fi_Light False,
     mk_feed ''oisd-big'' ''OISD Big''
       ''https://big.oisd.nl/'' Fc_All ''OISD'' Fi_Balanced True,
     mk_feed ''oisd-nsfw'' ''OISD NSFW''
       ''https://nsfw.oisd.nl/'' Fc_Nsfw ''OISD'' Fi_Balanced False,
     mk_feed ''adguard-base'' ''AdGuard Base Filter''
       ''https://adguardteam.github.io/HostlistsRegistry/assets/filter_1.txt'' Fc_Ads ''AdGuard'' Fi_Balanced False,
     mk_feed ''adguard-tracking'' ''AdGuard Tracking Protection''
       ''https://adguardteam.github.io/HostlistsRegistry/assets/filter_3.txt'' Fc_Tracking ''AdGuard'' Fi_Balanced False,
     mk_feed ''phishing-army'' ''Phishing Army Extended''
       ''https://phishing.army/download/phishing_army_blocklist_extended.txt'' Fc_Phishing ''Phishing Army'' Fi_Balanced True,
     mk_feed ''stevenblack-unified'' ''Steven Black Unified''
       ''https://raw.githubusercontent.com/StevenBlack/hosts/master/hosts'' Fc_All ''Steven Black'' Fi_Pro False,
     mk_feed ''1hosts-lite'' ''1Hosts Lite''
       ''https://o0.pages.dev/Lite/adblock.txt'' Fc_Ads ''1Hosts'' Fi_Light False,
     mk_feed ''1hosts-pro'' ''1Hosts Pro''
       ''https://o0.pages.dev/Pro/adblock.txt'' Fc_All ''1Hosts'' Fi_Pro False,
     mk_feed ''hagezi-tracker-radio'' ''HaGeZi Tracker Radio''
       ''https://raw.githubusercontent.com/hagezi/dns-blocklists/main/adblock/tif.iot.txt'' Fc_Tracking ''HaGeZi'' Fi_Balanced False,
     mk_feed ''hagezi-doh-vpn'' ''HaGeZi DoH/VPN/Proxy bypass''
       ''https://raw.githubusercontent.com/hagezi/dns-blocklists/main/adblock/doh-vpn-proxy-bypass.txt'' Fc_Malware ''HaGeZi'' Fi_Hard False]"

definition get_feed :: "string \<Rightarrow> feed_entry option" where
  "get_feed slug = find (\<lambda>f. fe_slug f = slug) FEED_CATALOG"

definition get_recommended_feeds :: "feed_entry list" where
  "get_recommended_feeds = filter fe_recommended FEED_CATALOG"

definition feed_catalog :: "'d ag_http \<Rightarrow> 'd ag_world \<Rightarrow> (feed_entry \<times> bool) list option \<times> 'd ag_world" where
  "feed_catalog http w =
     (case list_filters http w of
        (Inl e, w') \<Rightarrow> (Some (map (\<lambda>f. (f, False)) FEED_CATALOG), w')
      | (Inr None, w') \<Rightarrow> (None, w')
      | (Inr (Some active), w') \<Rightarrow>
          (Some (map (\<lambda>f. (f, fe_url f \<in> fl_url ` set (filter fl_enabled active))) FEED_CATALOG), w'))"

datatype apply_feeds_error = Feeds_Adguard ag_error | Feeds_Unknown string | Feeds_Bad_Reply

text \<open>What is sent for one list: nothing when AdGuard has it enabled.\<close>

definition feed_call :: "(string, ag_filter) dict \<Rightarrow> feed_entry \<Rightarrow> ag_call option" where
  "feed_call existing feed =
     (case dict_get existing (fe_url feed) of
        Some f \<Rightarrow> if fl_enabled f then None else Some (Set_Url (fe_url feed) True)
      | None \<Rightarrow> Some (Add_Url (fe_url feed) (fe_name feed)))"

fun apply_each :: "'d ag_http \<Rightarrow> (string, ag_filter) dict \<Rightarrow> string list \<Rightarrow> 'd ag_world
    \<Rightarrow> (apply_feeds_error + unit) \<times> 'd ag_world" where
  "apply_each http existing [] w = (Inr (), w)"
| "apply_each http existing (slug # slugs) w =
     (case get_feed slug of
        None \<Rightarrow> (Inl (Feeds_Unknown slug), w)
      | Some feed \<Rightarrow>
          (case feed_call existing feed of
             None \<Rightarrow> apply_each http existing slugs w
           | Some call \<Rightarrow>
               (case ag_rest http call w of
                  (Inl e, w') \<Rightarrow> (Inl (Feeds_Adguard e), w')
                | (Inr _, w') \<Rightarrow> apply_each http existing slugs w')))"

definition apply_feeds :: "'d ag_http \<Rightarrow> string list \<Rightarrow> 'd ag_world \<Rightarrow> (apply_feeds_error + ag_filter list) \<times> 'd ag_world" where
  "apply_feeds http slugs w =
     (case list_filters http w of
        (Inl e, w1) \<Rightarrow> (Inl (Feeds_Adguard e), w1)
      | (Inr None, w1) \<Rightarrow> (Inl Feeds_Bad_Reply, w1)
      | (Inr (Some existing), w1) \<Rightarrow>
          (case apply_each http (foldl (\<lambda>d f. dict_set (fl_url f) f d) [] existing) slugs w1 of
             (Inl e, w2) \<Rightarrow> (Inl e, w2)
           | (Inr _, w2) \<Rightarrow>
               (case list_filters http w2 of
                  (Inl e, w3) \<Rightarrow> (Inl (Feeds_Adguard e), w3)
                | (Inr None, w3) \<Rightarrow> (Inl Feeds_Bad_Reply, w3)
                | (Inr (Some fs), w3) \<Rightarrow> (Inr fs, w3))))"

section \<open>Properties\<close>

lemma free_dns_port_obj [simp]: "js_is_obj (free_dns_port d) = js_is_obj d"
  by (simp add: free_dns_port_def)

text \<open>
  Provisioning the administrator of AdGuard rewrites its configuration conservatively: our user is the only
  one, the DNS server does not bind port 53, every other section is unchanged, and so is every other option of
  the section on DNS.
\<close>

theorem bootstrap_keeps_settings:
  assumes "mutate_config user hash (J_Obj cfg) = Some cfg'"
  shows "js_get ''users'' cfg' = J_List [J_Obj [(''name'', J_Str user), (''password'', J_Str hash)]]
    \<and> js_get ''port'' (js_get ''dns'' cfg') \<notin> {J_Int 53, J_Null}
    \<and> (\<forall>k. k \<noteq> ''users'' \<and> k \<noteq> ''dns'' \<longrightarrow> js_get k cfg' = js_get k (J_Obj cfg))
    \<and> (\<forall>k. k \<noteq> ''port'' \<longrightarrow> js_get k (js_get ''dns'' cfg') = js_get k (js_get ''dns'' (J_Obj cfg)))"
proof -
  obtain d where d: "js_or (J_Obj cfg) (J_Obj []) = J_Obj cfg" "js_is_obj d"
    "d = (case dict_get cfg ''dns'' of Some v \<Rightarrow> v | None \<Rightarrow> J_Obj [])"
    "cfg' = js_set ''dns'' (free_dns_port d)
       (js_set ''users'' (J_List [J_Obj [(''name'', J_Str user), (''password'', J_Str hash)]]) (J_Obj cfg))"
    using assms by (cases cfg) (auto simp: mutate_config_def js_or_def js_set_def Let_def split: if_splits)
  have "js_get k d = js_get k (js_get ''dns'' (J_Obj cfg))" for k
    by (simp add: d(3) js_get_def split: option.splits)
  moreover have "js_get k (free_dns_port d) = js_get k d" if "k \<noteq> ''port''" for k
    using d(2) that by (simp add: free_dns_port_def)
  moreover have "js_get ''port'' (free_dns_port d) \<notin> {J_Int 53, J_Null}"
    using d(2) by (simp add: free_dns_port_def)
  ultimately show ?thesis by (simp add: d(4))
qed

lemma bootstrap_keeps_settings_witness:
  "let cfg = [(''users'', J_List []), (''dns'', J_Obj [(''port'', J_Int 53), (''cache_size'', J_Int 4)]), (''http'', J_Null)];
       cfg' = the (mutate_config ''root'' ''h'' (J_Obj cfg))
   in js_get ''cache_size'' (js_get ''dns'' cfg') = J_Int 4 \<and> js_get ''port'' (js_get ''dns'' cfg') \<notin> {J_Int 53, J_Null}"
proof -
  define cfg where "cfg = [(''users'', J_List []), (''dns'', J_Obj [(''port'', J_Int 53), (''cache_size'', J_Int 4)]), (''http'', J_Null)]"
  have "mutate_config ''root'' ''h'' (J_Obj cfg) = Some (the (mutate_config ''root'' ''h'' (J_Obj cfg)))"
    unfolding cfg_def by code_simp
  from bootstrap_keeps_settings [OF this] show ?thesis
    by (simp add: cfg_def Let_def js_get_def)
qed

text \<open>
  A request tries the hosts in order; the first that accepts the connection serves it and becomes the active
  one, so the next request starts there.
\<close>

lemma try_hosts_active:
  "try_hosts http call hs e w = (r, w') \<Longrightarrow>
   ag_candidates w' = ag_candidates w \<and> (ag_active w' = ag_active w \<or> ag_active w' \<in> set hs)"
proof (induction hs arbitrary: e w)
  case (Cons h hs)
  obtain d out where out: "http (ag_dev w) h call = (d, out)" by (cases "http (ag_dev w) h call")
  show ?case
  proof (cases out)
    case (Unreachable e1)
    with Cons out show ?thesis by fastforce
  qed (use Cons.prems out in auto)
qed simp

theorem active_host_is_a_candidate:
  assumes "ag_active w \<in> set (ag_candidates w)" "ag_request http call w = (r, w')"
  shows "ag_active w' \<in> set (ag_candidates w') \<and> ag_candidates w' = ag_candidates w"
  using try_hosts_active [OF assms(2) [unfolded ag_request_def]] assms(1) by (auto simp: host_order_def)

text \<open>A failed direct request never reaches the other hosts, although they might answer.\<close>

lemma direct_has_no_failover:
  assumes "http (ag_dev w) (ag_active w) call = (d, Unreachable e)"
  shows "fst (ag_direct http call w) = Inl e"
  using assms by (simp add: ag_direct_def)

text \<open>An AdGuard that is down counts as one that does not know our credentials.\<close>

lemma down_is_not_provisioned:
  assumes "\<And>d h. snd (http d h Get_Status) = Unreachable e"
  shows "fst (is_admin_provisioned http w) = False"
proof -
  have "\<exists>e. fst (try_hosts http Get_Status hs e0 w) = Inl e" for hs e0
  proof (induction hs arbitrary: e0 w)
    case (Cons h hs)
    obtain d out where out: "http (ag_dev w) h Get_Status = (d, out)" by (cases "http (ag_dev w) h Get_Status")
    with assms [of "ag_dev w" h] have "out = Unreachable e" by simp
    with out Cons show ?case by simp
  qed simp
  then obtain e where "fst (ag_request http Get_Status w) = Inl e" unfolding ag_request_def by blast
  then show ?thesis by (cases "ag_request http Get_Status w") (simp add: is_admin_provisioned_def)
qed

end
