(* ===== verification/Dns_Protection.thy ===== *)
theory Dns_Protection
  imports Dns_Levels Network_Store Adguard
begin

text \<open>
  DNS protection of networks (\<^verbatim>\<open>backend/app/dns/manager.py\<close>): the table that maps a network to a security
  level, and the manager that turns each mapping into a persistent client of AdGuard. Networks and levels are
  read from their stores; the client's calls go to AdGuard's active host.
\<close>

section \<open>The table\<close>

record protection_row =
  pr_network :: string
  pr_level :: string
  pr_provider :: "string option"
  pr_client :: string
  pr_created :: instant
  pr_updated :: instant

definition prot_get :: "string \<Rightarrow> protection_row list \<Rightarrow> protection_row option" where
  "prot_get slug rows = row_find pr_network slug rows"

definition prot_upsert ::
  "instant \<Rightarrow> string \<Rightarrow> string \<Rightarrow> string option \<Rightarrow> string \<Rightarrow> protection_row list \<Rightarrow> protection_row list" where
  "prot_upsert now slug level_slug provider_slug client_name rows =
     (if prot_get slug rows = None
      then rows @ [\<lparr>pr_network = slug, pr_level = level_slug, pr_provider = provider_slug, pr_client = client_name,
                    pr_created = now, pr_updated = now\<rparr>]
      else row_update pr_network slug
        (\<lambda>r. r\<lparr>pr_level := level_slug, pr_provider := provider_slug, pr_client := client_name, pr_updated := now\<rparr>) rows)"

definition prot_delete :: "string \<Rightarrow> protection_row list \<Rightarrow> bool \<times> protection_row list" where
  "prot_delete slug rows = (prot_get slug rows \<noteq> None, row_delete pr_network slug rows)"

section \<open>Clients\<close>

definition CLIENT_NAME_PREFIX :: string where "CLIENT_NAME_PREFIX = ''[slate-ctrl-net] ''"

definition make_client_name :: "string \<Rightarrow> string \<Rightarrow> string" where
  "make_client_name slug shown = CLIENT_NAME_PREFIX @ shown @ '' ('' @ slug @ '')''"

definition build_upstreams :: "dns_provider \<Rightarrow> string list" where
  "build_upstreams p =
     (if dot_hostname p \<noteq> [] then [''tls://'' @ dot_hostname p @ '':'' @ py_str (int (dot_port p))] else [])
     @ (if doh_url p \<noteq> [] then [doh_url p] else [])
     @ (if ipv4_primary p \<noteq> [] then [ipv4_primary p] else [])
     @ (if ipv4_secondary p \<noteq> [] then [ipv4_secondary p] else [])"

definition build_client_payload :: "string \<Rightarrow> string \<Rightarrow> security_level \<Rightarrow> dns_provider \<Rightarrow> client_payload" where
  "build_client_payload client_name cidr level provider =
     \<lparr>cp_name = client_name, cp_ids = [cidr], cp_use_global_settings = False,
      cp_filtering_enabled = adguard_filtering level, cp_parental_enabled = parental_control level,
      cp_safebrowsing_enabled = safe_browsing level, cp_safe_search = safe_search level,
      cp_use_global_blocked_services = False, cp_blocked_services = blocked_services level,
      cp_upstreams = build_upstreams provider, cp_ignore_querylog = False, cp_ignore_statistics = False\<rparr>"

definition client_name_of :: "json \<Rightarrow> string" where
  "client_name_of c = js_text (js_get ''name'' c)"

definition find_managed_client :: "string \<Rightarrow> string \<Rightarrow> json \<Rightarrow> string option" where
  "find_managed_client n cidr data =
     map_option client_name_of
       (find (\<lambda>c. starts_with CLIENT_NAME_PREFIX (client_name_of c)
                  \<and> (client_name_of c = n \<or> J_Str cidr \<in> set (js_items (js_get ''ids'' c))))
             (js_items (js_get ''clients'' data)))"

definition adguard_call :: "'d ag_http \<Rightarrow> ag_call \<Rightarrow> 'd ag_world \<Rightarrow> (ag_error + json) \<times> 'd ag_world" where
  "adguard_call http call w = (case ag_direct http call w of (r, w') \<Rightarrow> (checked call r, w'))"

definition apply_adguard_client :: "'d ag_http \<Rightarrow> string \<Rightarrow> client_payload \<Rightarrow> 'd ag_world \<Rightarrow> (ag_error + json) \<times> 'd ag_world" where
  "apply_adguard_client http client_name payload w =
     (case adguard_call http Get_Clients w of
        (Inl e, w1) \<Rightarrow> (Inl e, w1)
      | (Inr data, w1) \<Rightarrow>
          (case find_managed_client client_name (hd (cp_ids payload)) data of
             Some existing \<Rightarrow> adguard_call http (Update_Client existing payload) w1
           | None \<Rightarrow> adguard_call http (Add_Client payload) w1))"

definition delete_adguard_client :: "'d ag_http \<Rightarrow> string \<Rightarrow> 'd ag_world \<Rightarrow> (ag_error + json) \<times> 'd ag_world" where
  "delete_adguard_client http client_name w =
     (case adguard_call http Get_Clients w of
        (Inl e, w1) \<Rightarrow> (Inl e, w1)
      | (Inr data, w1) \<Rightarrow>
          if \<exists>c\<in>set (js_items (js_get ''clients'' data)). js_get ''name'' c = J_Str client_name
          then adguard_call http (Delete_Client client_name) w1
          else (Inr J_Null, w1))"

section \<open>The manager\<close>

datatype protection_error =
    Pe_Network network_error
  | Pe_Unknown_Level string
  | Pe_Invalid_Provider provider_problem
  | Pe_Unknown_Provider string
  | Pe_Adguard ag_error

record network_protection =
  np_network :: string
  np_display_name :: string
  np_cidr :: string
  np_level :: string
  np_provider :: dns_provider
  np_transports :: "string list"
  np_client :: string
  np_created :: instant
  np_updated :: instant

definition build_view ::
  "network_row \<Rightarrow> security_level \<Rightarrow> dns_provider \<Rightarrow> protection_row \<Rightarrow> network_protection" where
  "build_view network level provider row =
     \<lparr>np_network = pr_network row, np_display_name = display_name (nw_body network), np_cidr = subnet_cidr (nw_body network),
      np_level = lv_slug level, np_provider = provider,
      np_transports =
        (let ts = (if dot_hostname provider \<noteq> [] then [''DoT''] else []) @ (if doh_url provider \<noteq> [] then [''DoH''] else [])
         in if ts = [] then [''UDP''] else ts),
      np_client = pr_client row, np_created = pr_created row, np_updated = pr_updated row\<rparr>"

definition effective_provider :: "string option \<Rightarrow> security_level \<Rightarrow> string" where
  "effective_provider override level =
     (case override of Some (c # cs) \<Rightarrow> c # cs | _ \<Rightarrow> default_provider_slug level)"

definition view_of_row ::
  "network_row list \<Rightarrow> security_level list \<Rightarrow> protection_row \<Rightarrow> protection_error + network_protection" where
  "view_of_row nets levels row =
     (case ns_get (pr_network row) nets of
        Inl e \<Rightarrow> Inl (Pe_Network e)
      | Inr network \<Rightarrow>
          (case levels_get (pr_level row) levels of
             None \<Rightarrow> Inl (Pe_Unknown_Level (pr_level row))
           | Some level \<Rightarrow>
               (case get_provider (effective_provider (pr_provider row) level) of
                  None \<Rightarrow> Inl (Pe_Unknown_Provider (effective_provider (pr_provider row) level))
                | Some provider \<Rightarrow> Inr (build_view network level provider row))))"

definition list_protections :: "network_row list \<Rightarrow> security_level list \<Rightarrow> protection_row list \<Rightarrow> network_protection list" where
  "list_protections nets levels rows =
     concat (map (\<lambda>row. case view_of_row nets levels row of Inl _ \<Rightarrow> [] | Inr v \<Rightarrow> [v]) rows)"

definition get_protection ::
  "network_row list \<Rightarrow> security_level list \<Rightarrow> string \<Rightarrow> protection_row list \<Rightarrow> protection_error + network_protection option" where
  "get_protection nets levels slug rows =
     (case prot_get slug rows of
        None \<Rightarrow> Inr None
      | Some row \<Rightarrow> (case view_of_row nets levels row of Inl e \<Rightarrow> Inl e | Inr v \<Rightarrow> Inr (Some v)))"

text \<open>What \<^verbatim>\<open>set_protection\<close> checks and computes before it talks to AdGuard.\<close>

definition plan_protection ::
  "network_row list \<Rightarrow> security_level list \<Rightarrow> string \<Rightarrow> string \<Rightarrow> string option
    \<Rightarrow> protection_error + (network_row \<times> security_level \<times> dns_provider \<times> client_payload)" where
  "plan_protection nets levels slug level_slug override =
     (case ns_get slug nets of
        Inl e \<Rightarrow> Inl (Pe_Network e)
      | Inr network \<Rightarrow>
          (case levels_get level_slug levels of
             None \<Rightarrow> Inl (Pe_Unknown_Level level_slug)
           | Some level \<Rightarrow>
               let effective = effective_provider override level in
               (case validate_provider_for_level level effective of
                  Some p \<Rightarrow> Inl (Pe_Invalid_Provider p)
                | None \<Rightarrow>
                    (case get_provider effective of
                       None \<Rightarrow> Inl (Pe_Unknown_Provider effective)
                     | Some provider \<Rightarrow>
                         Inr (network, level, provider,
                              build_client_payload (make_client_name (nw_slug network) (display_name (nw_body network)))
                                (subnet_cidr (nw_body network)) level provider)))))"

definition provision ::
  "boot_env \<Rightarrow> 'd ag_http \<Rightarrow> 'd ag_exec \<Rightarrow> 'd ag_world \<Rightarrow> (ag_error + unit) \<times> 'd ag_world" where
  "provision env http exec w =
     (case is_admin_provisioned http w of
        (True, w1) \<Rightarrow> (Inr (), w1)
      | (False, w1) \<Rightarrow> bootstrap_admin env http exec w1)"

definition set_protection ::
  "boot_env \<Rightarrow> 'd ag_http \<Rightarrow> 'd ag_exec \<Rightarrow> network_row list \<Rightarrow> security_level list \<Rightarrow> instant
    \<Rightarrow> string \<Rightarrow> string \<Rightarrow> string option \<Rightarrow> protection_row list \<times> 'd ag_world
    \<Rightarrow> (protection_error + network_protection) \<times> (protection_row list \<times> 'd ag_world)" where
  "set_protection env http exec nets levels now slug level_slug override st =
     (case st of (rows, w) \<Rightarrow>
      case plan_protection nets levels slug level_slug override of
        Inl e \<Rightarrow> (Inl e, rows, w)
      | Inr (network, level, provider, payload) \<Rightarrow>
          (case provision env http exec w of
             (Inl e, w1) \<Rightarrow> (Inl (Pe_Adguard e), rows, w1)
           | (Inr _, w1) \<Rightarrow>
               (case apply_adguard_client http (cp_name payload) payload w1 of
                  (Inl e, w2) \<Rightarrow> (Inl (Pe_Adguard e), rows, w2)
                | (Inr _, w2) \<Rightarrow>
                    let rows' = prot_upsert now slug level_slug override (cp_name payload) rows in
                    (case prot_get slug rows' of
                       Some row \<Rightarrow> (Inr (build_view network level provider row), rows', w2)
                     | None \<Rightarrow> (Inl (Pe_Network (Network_Not_Found slug)), rows', w2)))))"

definition remove_protection ::
  "'d ag_http \<Rightarrow> string \<Rightarrow> protection_row list \<times> 'd ag_world \<Rightarrow> protection_row list \<times> 'd ag_world" where
  "remove_protection http slug st =
     (case st of (rows, w) \<Rightarrow>
      case prot_get slug rows of
        None \<Rightarrow> (rows, w)
      | Some row \<Rightarrow>
          let w1 = (if pr_client row \<noteq> [] then snd (delete_adguard_client http (pr_client row) w) else w)
          in (snd (prot_delete slug rows), w1))"

record apply_report =
  rp_applied :: "string list"
  rp_skipped :: "string list"
  rp_errors :: "(string \<times> protection_error) list"

definition report_ok :: "apply_report \<Rightarrow> bool" where
  "report_ok rep \<longleftrightarrow> rp_errors rep = []"

definition empty_report :: apply_report where
  "empty_report = \<lparr>rp_applied = [], rp_skipped = [], rp_errors = []\<rparr>"

text \<open>One row of \<^verbatim>\<open>reapply_all\<close>: the provider is not validated against the level again.\<close>

definition reapply_row ::
  "'d ag_http \<Rightarrow> network_row list \<Rightarrow> security_level list \<Rightarrow> apply_report \<times> 'd ag_world \<Rightarrow> protection_row
    \<Rightarrow> apply_report \<times> 'd ag_world" where
  "reapply_row http nets levels acc row =
     (case acc of (rep, w) \<Rightarrow>
      let slug = pr_network row;
          failed = (\<lambda>e. rep\<lparr>rp_errors := rp_errors rep @ [(slug, e)]\<rparr>)
      in case ns_get slug nets of
           Inl _ \<Rightarrow> (rep\<lparr>rp_skipped := rp_skipped rep @ [slug @ '' (network deleted)'']\<rparr>, w)
         | Inr network \<Rightarrow>
             (case levels_get (pr_level row) levels of
                None \<Rightarrow> (failed (Pe_Unknown_Level (pr_level row)), w)
              | Some level \<Rightarrow>
                  let effective = effective_provider (pr_provider row) level in
                  (case get_provider effective of
                     None \<Rightarrow> (failed (Pe_Unknown_Provider effective), w)
                   | Some provider \<Rightarrow>
                       let client = (if pr_client row \<noteq> [] then pr_client row
                                     else make_client_name (nw_slug network) (display_name (nw_body network)));
                           payload = build_client_payload client (subnet_cidr (nw_body network)) level provider
                       in case apply_adguard_client http client payload w of
                            (Inl e, w1) \<Rightarrow> (failed (Pe_Adguard e), w1)
                          | (Inr _, w1) \<Rightarrow> (rep\<lparr>rp_applied := rp_applied rep @ [slug]\<rparr>, w1))))"

definition reapply_all ::
  "'d ag_http \<Rightarrow> network_row list \<Rightarrow> security_level list \<Rightarrow> protection_row list \<times> 'd ag_world \<Rightarrow> apply_report \<times> 'd ag_world" where
  "reapply_all http nets levels st =
     (case st of (rows, w) \<Rightarrow> foldl (reapply_row http nets levels) (empty_report, w) rows)"

definition reapply_level_row ::
  "boot_env \<Rightarrow> 'd ag_http \<Rightarrow> 'd ag_exec \<Rightarrow> network_row list \<Rightarrow> security_level list \<Rightarrow> instant
    \<Rightarrow> apply_report \<times> (protection_row list \<times> 'd ag_world) \<Rightarrow> protection_row
    \<Rightarrow> apply_report \<times> (protection_row list \<times> 'd ag_world)" where
  "reapply_level_row env http exec nets levels now acc row =
     (case acc of (rep, st) \<Rightarrow>
      case set_protection env http exec nets levels now (pr_network row) (pr_level row) (pr_provider row) st of
        (Inl e, st') \<Rightarrow> (rep\<lparr>rp_errors := rp_errors rep @ [(pr_network row, e)]\<rparr>, st')
      | (Inr _, st') \<Rightarrow> (rep\<lparr>rp_applied := rp_applied rep @ [pr_network row]\<rparr>, st'))"

definition reapply_protections_using_level ::
  "boot_env \<Rightarrow> 'd ag_http \<Rightarrow> 'd ag_exec \<Rightarrow> network_row list \<Rightarrow> security_level list \<Rightarrow> instant \<Rightarrow> string
    \<Rightarrow> protection_row list \<times> 'd ag_world \<Rightarrow> apply_report \<times> (protection_row list \<times> 'd ag_world)" where
  "reapply_protections_using_level env http exec nets levels now level_slug st =
     foldl (reapply_level_row env http exec nets levels now) (empty_report, st)
       (filter (\<lambda>r. pr_level r = level_slug) (fst st))"

section \<open>Properties\<close>

definition managed_name :: "string \<Rightarrow> bool" where
  "managed_name n \<longleftrightarrow> starts_with CLIENT_NAME_PREFIX n"

definition managed_call :: "ag_call \<Rightarrow> bool" where
  "managed_call call \<longleftrightarrow>
     (case call of
        Get_Status \<Rightarrow> True
      | Get_Clients \<Rightarrow> True
      | Add_Client p \<Rightarrow> managed_name (cp_name p)
      | Update_Client n p \<Rightarrow> managed_name n \<and> managed_name (cp_name p)
      | Delete_Client n \<Rightarrow> managed_name n
      | _ \<Rightarrow> False)"

definition rows_managed :: "protection_row list \<Rightarrow> bool" where
  "rows_managed rows \<longleftrightarrow> (\<forall>r\<in>set rows. pr_client r = [] \<or> managed_name (pr_client r))"

lemma managed_make_name [simp]: "managed_name (make_client_name slug shown)"
  by (simp add: managed_name_def make_client_name_def)

lemma name_build_payload [simp]: "cp_name (build_client_payload n cidr l p) = n"
  by (simp add: build_client_payload_def)

lemma managed_found: "find_managed_client n cidr data = Some m \<Longrightarrow> managed_name m"
  by (auto simp: find_managed_client_def find_Some_iff managed_name_def)

lemma plan_name:
  "plan_protection nets levels slug lv ov = Inr (net, l, p, payload) \<Longrightarrow> managed_name (cp_name payload)"
  by (auto simp: plan_protection_def Let_def split: sum.splits option.splits)

lemma rows_managed_upsert:
  "rows_managed rows \<Longrightarrow> managed_name c \<Longrightarrow> rows_managed (prot_upsert now slug lv ov c rows)"
  by (auto simp: rows_managed_def prot_upsert_def row_update_def)

lemma rows_managed_delete: "rows_managed rows \<Longrightarrow> rows_managed (snd (prot_delete slug rows))"
  by (auto simp: rows_managed_def prot_delete_def row_delete_def)

text \<open>
  What a property of the device needs to survive every operation of the manager: that the calls on managed
  clients, and the shell commands of the bootstrap, keep it.
\<close>

locale managed_traffic =
  fixes http :: "'d ag_http" and exec :: "'d ag_exec" and safe :: "'d \<Rightarrow> bool"
  assumes http_safe: "managed_call call \<Longrightarrow> safe d \<Longrightarrow> safe (fst (http d h call))"
    and exec_safe: "safe d \<Longrightarrow> safe (fst (exec d cmd))"
begin

lemma direct_safe: "managed_call call \<Longrightarrow> safe (ag_dev w) \<Longrightarrow> safe (ag_dev (snd (ag_direct http call w)))"
  using http_safe [of call "ag_dev w" "ag_active w"]
  by (auto simp: ag_direct_def split: prod.splits http_outcome.splits)

lemma hosts_safe: "managed_call call \<Longrightarrow> safe (ag_dev w) \<Longrightarrow> safe (ag_dev (snd (try_hosts http call hs e w)))"
proof (induction hs arbitrary: e w)
  case (Cons h hs)
  obtain d out where out: "http (ag_dev w) h call = (d, out)" by (cases "http (ag_dev w) h call")
  then have "safe d" using http_safe [OF Cons.prems, of h] by simp
  with Cons out show ?case by (auto split: http_outcome.splits)
qed simp

lemma call_safe: "managed_call call \<Longrightarrow> safe (ag_dev w) \<Longrightarrow> safe (ag_dev (snd (adguard_call http call w)))"
  using direct_safe [of call w] by (simp add: adguard_call_def case_prod_beta)

lemma status_safe: "safe (ag_dev w) \<Longrightarrow> safe (ag_dev (snd (is_admin_provisioned http w)))"
  using hosts_safe [of Get_Status w "host_order w" "[]"]
  by (auto simp: is_admin_provisioned_def ag_request_def managed_call_def split: prod.splits sum.splits)

lemma await_safe: "safe (ag_dev w) \<Longrightarrow> safe (ag_dev (snd (await_provisioned http n w)))"
proof (induction n arbitrary: w)
  case (Suc n)
  then show ?case using status_safe [of w] by (auto split: prod.splits bool.splits)
qed simp

lemma bootstrap_safe:
  assumes "safe (ag_dev w)"
  shows "safe (ag_dev (snd (bootstrap_admin env http exec w)))"
proof -
  obtain d r where r: "exec (ag_dev w) ''cat /etc/AdGuardHome/config.yaml'' = (d, r)"
    by (cases "exec (ag_dev w) ''cat /etc/AdGuardHome/config.yaml''")
  with assms exec_safe [of "ag_dev w"] have d: "safe d" by (metis fst_conv)
  have "safe (fst (exec d (push_cmd b)))" for b using d by (rule exec_safe)
  then have "safe d2" if "exec d (push_cmd b) = (d2, r2)" for b d2 r2 using that by (metis fst_conv)
  moreover have "safe (ag_dev w')" if "await_provisioned http 20 (w\<lparr>ag_dev := d2\<rparr>) = (b, w')" "safe d2" for b w' d2
    using await_safe [of "w\<lparr>ag_dev := d2\<rparr>" 20] that by simp
  ultimately show ?thesis
    using r d by (auto simp: bootstrap_admin_def split: exec_result.splits option.splits prod.splits bool.splits)
qed

lemma provision_safe: "safe (ag_dev w) \<Longrightarrow> safe (ag_dev (snd (provision env http exec w)))"
  using status_safe [of w] bootstrap_safe by (auto simp: provision_def split: prod.splits bool.splits)

lemma apply_safe:
  assumes "managed_name (cp_name payload)" "safe (ag_dev w)"
  shows "safe (ag_dev (snd (apply_adguard_client http n payload w)))"
proof -
  obtain r w1 where r: "adguard_call http Get_Clients w = (r, w1)" by (cases "adguard_call http Get_Clients w")
  have w1: "safe (ag_dev w1)" using call_safe [of Get_Clients w] assms(2) r by (simp add: managed_call_def)
  have "safe (ag_dev (snd (adguard_call http call w1)))"
    if "call = Add_Client payload \<or> (\<exists>m data. call = Update_Client m payload \<and> find_managed_client n (hd (cp_ids payload)) data = Some m)"
    for call
    using that assms(1) w1 by (intro call_safe) (auto simp: managed_call_def dest: managed_found)
  then show ?thesis using r w1 by (auto simp: apply_adguard_client_def split: sum.splits option.splits)
qed

lemma delete_safe:
  assumes "managed_name n" "safe (ag_dev w)"
  shows "safe (ag_dev (snd (delete_adguard_client http n w)))"
proof -
  obtain r w1 where r: "adguard_call http Get_Clients w = (r, w1)" by (cases "adguard_call http Get_Clients w")
  have w1: "safe (ag_dev w1)" using call_safe [of Get_Clients w] assms(2) r by (simp add: managed_call_def)
  then have "safe (ag_dev (snd (adguard_call http (Delete_Client n) w1)))"
    using assms(1) by (intro call_safe) (simp_all add: managed_call_def)
  with r w1 show ?thesis by (auto simp: delete_adguard_client_def split: sum.splits)
qed

definition good :: "protection_row list \<times> 'd ag_world \<Rightarrow> bool" where
  "good st \<longleftrightarrow> rows_managed (fst st) \<and> safe (ag_dev (snd st))"

lemma set_good:
  assumes "good st"
  shows "good (snd (set_protection env http exec nets levels now slug lv ov st))"
proof -
  obtain rows w where st: "st = (rows, w)" by (cases st)
  show ?thesis
  proof (cases "plan_protection nets levels slug lv ov")
    case (Inl e)
    with assms st show ?thesis by (simp add: set_protection_def)
  next
    case (Inr plan)
    then obtain net l p payload where plan: "plan_protection nets levels slug lv ov = Inr (net, l, p, payload)"
      by (cases plan) auto
    note name = plan_name [OF plan]
    obtain r1 w1 where p1: "provision env http exec w = (r1, w1)" by (cases "provision env http exec w")
    then have w1: "safe (ag_dev w1)" using assms st provision_safe [of w env] by (simp add: good_def)
    obtain r2 w2 where p2: "apply_adguard_client http (cp_name payload) payload w1 = (r2, w2)"
      by (cases "apply_adguard_client http (cp_name payload) payload w1")
    then have w2: "safe (ag_dev w2)" using apply_safe [OF name w1, of "cp_name payload"] by simp
    show ?thesis
      using assms st plan p1 p2 w1 w2 name
      by (auto simp: set_protection_def good_def Let_def rows_managed_upsert split: sum.splits option.splits)
  qed
qed

lemma remove_good:
  assumes "good st"
  shows "good (remove_protection http slug st)"
proof -
  obtain rows w where st: "st = (rows, w)" by (cases st)
  show ?thesis
  proof (cases "prot_get slug rows")
    case (Some row)
    then have "pr_client row = [] \<or> managed_name (pr_client row)"
      using assms st row_find_key [of pr_network slug rows row] by (auto simp: good_def rows_managed_def prot_get_def)
    then have "safe (ag_dev (snd (delete_adguard_client http (pr_client row) w)))" if "pr_client row \<noteq> []"
      using that assms st delete_safe by (simp add: good_def)
    with Some assms st show ?thesis
      by (auto simp: remove_protection_def good_def Let_def rows_managed_delete)
  qed (use assms st in \<open>simp add: remove_protection_def\<close>)
qed

lemma reapply_row_safe:
  assumes "pr_client row = [] \<or> managed_name (pr_client row)" "safe (ag_dev (snd acc))"
  shows "safe (ag_dev (snd (reapply_row http nets levels acc row)))"
proof -
  obtain rep w where acc: "acc = (rep, w)" by (cases acc)
  have "safe (ag_dev w1)"
    if "apply_adguard_client http n (build_client_payload n c l p) w = (r, w1)" "managed_name n" for n c l p r w1
    using apply_safe [of "build_client_payload n c l p" w n] that assms(2) acc by simp
  then show ?thesis
    using assms acc
    by (auto simp: reapply_row_def Let_def split: sum.splits option.splits prod.splits)
qed

lemma reapply_all_safe: "good st \<Longrightarrow> safe (ag_dev (snd (reapply_all http nets levels st)))"
proof -
  have rows: "safe (ag_dev (snd (foldl (reapply_row http nets levels) acc rows)))"
    if "safe (ag_dev (snd acc))" "rows_managed rows" for acc rows
    using that
  proof (induction rows arbitrary: acc)
    case (Cons r rows)
    then show ?case
      using Cons.IH [OF reapply_row_safe [of r acc nets levels]] by (simp add: rows_managed_def)
  qed simp
  assume "good st"
  then show ?thesis using rows [of "(empty_report, snd st)" "fst st"]
    by (simp add: reapply_all_def good_def case_prod_beta)
qed

lemma reapply_level_good:
  "good st \<Longrightarrow> good (snd (reapply_protections_using_level env http exec nets levels now lv st))"
proof -
  have "good (snd acc) \<Longrightarrow> good (snd (reapply_level_row env http exec nets levels now acc row))" for acc row
    using set_good [of "snd acc" env nets levels now "pr_network row" "pr_level row" "pr_provider row"]
    by (auto simp: reapply_level_row_def split: prod.splits sum.splits)
  then have "good (snd (foldl (reapply_level_row env http exec nets levels now) acc rows))" if "good (snd acc)" for acc rows
    using that
  proof (induction rows arbitrary: acc)
    case (Cons r rows)
    then show ?case by (metis foldl_Cons)
  qed simp
  moreover assume "good st"
  ultimately show ?thesis by (simp add: reapply_protections_using_level_def)
qed

end

datatype dp_op =
    Dp_Set string string "string option"
  | Dp_Remove string
  | Dp_Reapply_All
  | Dp_Reapply_Level string

type_synonym dp_step = "network_row list \<times> security_level list \<times> instant \<times> dp_op"

definition dp_apply ::
  "boot_env \<Rightarrow> 'd ag_http \<Rightarrow> 'd ag_exec \<Rightarrow> protection_row list \<times> 'd ag_world \<Rightarrow> dp_step \<Rightarrow> protection_row list \<times> 'd ag_world" where
  "dp_apply env http exec st step =
     (case step of (nets, levels, now, op) \<Rightarrow>
      case op of
        Dp_Set slug lv ov \<Rightarrow> snd (set_protection env http exec nets levels now slug lv ov st)
      | Dp_Remove slug \<Rightarrow> remove_protection http slug st
      | Dp_Reapply_All \<Rightarrow> (fst st, snd (reapply_all http nets levels st))
      | Dp_Reapply_Level lv \<Rightarrow> snd (reapply_protections_using_level env http exec nets levels now lv st))"

text \<open>The device that also writes down every call it gets.\<close>

definition logged :: "'d ag_http \<Rightarrow> (ag_call list \<times> 'd) ag_http" where
  "logged http = (\<lambda>(log, d) h call. case http d h call of (d', out) \<Rightarrow> ((log @ [call], d'), out))"

definition log_kept :: "'d ag_exec \<Rightarrow> (ag_call list \<times> 'd) ag_exec" where
  "log_kept exec = (\<lambda>(log, d) cmd. case exec d cmd of (d', r) \<Rightarrow> ((log, d'), r))"

interpretation lg: managed_traffic "logged http" "log_kept exec" "\<lambda>st. list_all managed_call (fst st)" for http exec
  by unfold_locales (auto simp: logged_def log_kept_def split: prod.splits)

lemma dp_apply_good:
  "lg.good st \<Longrightarrow> lg.good (dp_apply env (logged http) (log_kept exec) st step)"
proof -
  assume good: "lg.good st"
  obtain nets levels now op where step: "step = (nets, levels, now, op)" by (cases step)
  show ?thesis
    using lg.set_good [OF good] lg.remove_good [OF good] lg.reapply_level_good [OF good]
      lg.reapply_all_safe [OF good] good
    by (cases op) (simp_all add: dp_apply_def step, simp add: lg.good_def)
qed

text \<open>
  C20. The manager never touches a client the operator added by hand: whatever sequence of settings, removals
  and re-applications is run, with whatever networks and levels are stored at each step and whatever AdGuard
  answers, every call that adds, renames, updates or deletes a client of AdGuard names a client that carries
  the controller's marker, and no call changes anything else in AdGuard.
\<close>

theorem only_managed_clients_touched:
  "list_all managed_call
     (fst (ag_dev (snd (foldl (dp_apply env (logged http) (log_kept exec))
        ([], \<lparr>ag_candidates = hs, ag_active = h, ag_dev = ([], d)\<rparr>) steps))))"
proof -
  have run: "lg.good (foldl (dp_apply env (logged http) (log_kept exec)) st steps)" if "lg.good st" for st
    using that
  proof (induction steps arbitrary: st)
    case (Cons s steps)
    from Cons.IH [OF dp_apply_good [OF Cons.prems]] show ?case by simp
  qed simp
  have "lg.good ([] :: protection_row list, \<lparr>ag_candidates = hs, ag_active = h, ag_dev = ([], d)\<rparr>)"
    by (simp add: lg.good_def rows_managed_def)
  from run [OF this] show ?thesis by (simp add: lg.good_def)
qed

text \<open>A setting that is refused, or that AdGuard rejects, leaves the table as it was.\<close>

lemma failed_set_keeps_rows:
  assumes "set_protection env http exec nets levels now slug lv ov (rows, w) = (Inl e, rows', w')"
  shows "rows' = rows"
proof -
  have [simp]: "prot_get slug (prot_upsert now slug lv ov c rows) \<noteq> None" for c
    by (auto simp: prot_upsert_def prot_get_def split: option.splits)
  show ?thesis
    using assms by (auto simp: set_protection_def Let_def split: sum.splits prod.splits option.splits)
qed

end
