(* ===== verification/Exploit_Sources.thy ===== *)
theory Exploit_Sources
  imports Py_Json Py_Match "HOL-Library.List_Lexorder"
begin

text \<open>
  The public sources on exploitation (\<^verbatim>\<open>backend/app/security/enrichers/\<close>: \<^verbatim>\<open>cisa_kev.py\<close>, \<^verbatim>\<open>epss.py\<close>,
  \<^verbatim>\<open>exploitdb.py\<close>, \<^verbatim>\<open>metasploit.py\<close>, \<^verbatim>\<open>github_poc.py\<close>, \<^verbatim>\<open>cert_fr.py\<close>) and the classes of \<^verbatim>\<open>security/models.py\<close> they
  fill. What a download gives is an input. Dates that are only shown are left out; a fraction is an exact
  rational, and \<open>to_float\<close> reads one.
\<close>

section \<open>Data\<close>

record kev_entry =
  kv_vendor :: json
  kv_product :: json
  kv_name :: json
  kv_description :: json
  kv_action :: json
  known_ransomware_use :: bool
  kv_notes :: json

record epss_data =
  epss_score :: rat
  epss_percentile :: rat

record exploit_source =
  es_source :: string
  es_url :: string
  es_title :: string
  es_author :: string
  es_verified :: bool
  es_stars :: json

datatype bulletin_kind = Alerte | Avis

record bulletin =
  bl_ref :: string
  bl_kind :: bulletin_kind
  bl_title :: string
  bl_url :: string
  actively_exploited :: bool
  ransomware_mentioned :: bool

text \<open>What a request meets: a transport error or a bad status, or the body.\<close>

datatype 'b fetched = Fetch_Failed | Body 'b

text \<open>A source kept in memory: its index, and when it was loaded.\<close>

record 'v source =
  src_index :: "(string, 'v) dict"
  src_loaded_at :: "instant option"

definition new_source :: "'v source" where
  "new_source = \<lparr>src_index = [], src_loaded_at = None\<rparr>"

definition src_loaded :: "'v source \<Rightarrow> bool" where
  "src_loaded s \<longleftrightarrow> src_loaded_at s \<noteq> None"

text \<open>The index is replaced as a whole once the download has been read; \<^const>\<open>None\<close> is an exception.\<close>

definition install :: "instant \<Rightarrow> (string, 'v) dict \<Rightarrow> 'v source \<Rightarrow> 'v source" where
  "install now index s = s\<lparr>src_index := index, src_loaded_at := Some now\<rparr>"

section \<open>CISA KEV\<close>

definition kev_of :: "json \<Rightarrow> kev_entry" where
  "kev_of raw =
     \<lparr>kv_vendor = js_get ''vendorProject'' raw, kv_product = js_get ''product'' raw,
      kv_name = js_get ''vulnerabilityName'' raw, kv_description = js_get ''shortDescription'' raw,
      kv_action = js_get ''requiredAction'' raw,
      known_ransomware_use = (js_get ''knownRansomwareCampaignUse'' raw = J_Str ''Known''),
      kv_notes = js_get ''notes'' raw\<rparr>"

definition kev_index :: "json \<Rightarrow> (string, kev_entry) dict" where
  "kev_index data =
     foldl (\<lambda>d raw. case js_get ''cveID'' raw of J_Str (c # cs) \<Rightarrow> dict_set (c # cs) (kev_of raw) d | _ \<Rightarrow> d)
       [] (js_items (js_get ''vulnerabilities'' data))"

definition kev_refresh :: "instant \<Rightarrow> json fetched \<Rightarrow> kev_entry source \<Rightarrow> int option \<times> kev_entry source" where
  "kev_refresh now f s =
     (case f of
        Fetch_Failed \<Rightarrow> (None, s)
      | Body data \<Rightarrow> (Some (int (length (kev_index data))), install now (kev_index data) s))"

definition kev_lookup :: "kev_entry source \<Rightarrow> string \<Rightarrow> kev_entry option" where
  "kev_lookup s cve = dict_get (src_index s) cve"

section \<open>EPSS\<close>

definition BULK_MAX :: nat where "BULK_MAX = 100"

definition in_unit :: "rat \<Rightarrow> bool" where
  "in_unit x \<longleftrightarrow> 0 \<le> x \<and> x \<le> 1"

definition epss_entry :: "(json \<Rightarrow> rat option) \<Rightarrow> (string, epss_data) dict \<Rightarrow> json \<Rightarrow> (string, epss_data) dict" where
  "epss_entry to_float out entry =
     (case js_get ''cve'' entry of
        J_Str (c # cs) \<Rightarrow>
          (case (to_float (js_get ''epss'' entry), to_float (js_get ''percentile'' entry)) of
             (Some s, Some p) \<Rightarrow>
               if in_unit s \<and> in_unit p
               then dict_set (c # cs) \<lparr>epss_score = s, epss_percentile = p\<rparr> out else out
           | _ \<Rightarrow> out)
      | _ \<Rightarrow> out)"

function epss_chunks :: "string list \<Rightarrow> string list list" where
  "epss_chunks ts = (if ts = [] then [] else take BULK_MAX ts # epss_chunks (drop BULK_MAX ts))"
  by pat_completeness auto
termination by (relation "measure length") (auto simp: BULK_MAX_def)

declare epss_chunks.simps [simp del]

text \<open>One request per hundred identifiers; one that fails is skipped.\<close>

definition lookup_bulk ::
  "(json \<Rightarrow> rat option) \<Rightarrow> (string list \<Rightarrow> json fetched) \<Rightarrow> string list \<Rightarrow> (string, epss_data) dict" where
  "lookup_bulk to_float fetch cve_ids =
     foldl (\<lambda>out chunk. case fetch chunk of
              Fetch_Failed \<Rightarrow> out
            | Body payload \<Rightarrow> foldl (epss_entry to_float) out (js_items (js_get ''data'' payload)))
       [] (epss_chunks (filter (starts_with ''CVE-'') cve_ids))"

section \<open>Exploit-DB\<close>

definition edb_exploit :: "(string, string) dict \<Rightarrow> exploit_source" where
  "edb_exploit row =
     \<lparr>es_source = ''exploit-db'', es_url = ''https://www.exploit-db.com/exploits/'' @ dict_get_or row ''id'' [],
      es_title = dict_get_or row ''description'' [], es_author = dict_get_or row ''author'' [],
      es_verified = (dict_get row ''verified'' = Some ''1''), es_stars = J_Null\<rparr>"

definition dict_append :: "string \<Rightarrow> 'a \<Rightarrow> (string, 'a list) dict \<Rightarrow> (string, 'a list) dict" where
  "dict_append k x d = dict_set k (dict_get_or d k [] @ [x]) d"

definition edb_row ::
  "(string, exploit_source list) dict \<Rightarrow> (string, string) dict \<Rightarrow> (string, exploit_source list) dict" where
  "edb_row index row =
     foldl (\<lambda>d code. dict_append code (edb_exploit row) d) index
       (filter (starts_with ''CVE-'') (map py_strip (py_split (CHR '';'') (dict_get_or row ''codes'' []))))"

definition index_total :: "(string, 'a list) dict \<Rightarrow> int" where
  "index_total d = int (sum_list (map (\<lambda>(k, l). length l) d))"

definition edb_refresh :: "instant \<Rightarrow> (string, string) dict list fetched \<Rightarrow> exploit_source list source
    \<Rightarrow> int option \<times> exploit_source list source" where
  "edb_refresh now f s =
     (case f of
        Fetch_Failed \<Rightarrow> (None, s)
      | Body rows \<Rightarrow> (Some (index_total (foldl edb_row [] rows)), install now (foldl edb_row [] rows) s))"

definition list_lookup :: "'a list source \<Rightarrow> string \<Rightarrow> 'a list" where
  "list_lookup s cve = dict_get_or (src_index s) cve []"

section \<open>Metasploit\<close>

definition RANK_LABEL :: "(int, string) dict" where
  "RANK_LABEL = [(0, ''manual''), (100, ''low''), (200, ''average''), (300, ''normal''), (400, ''good''),
                 (500, ''great''), (600, ''excellent'')]"

definition rank_label :: "int option \<Rightarrow> string" where
  "rank_label r = (case r of None \<Rightarrow> ''?'' | Some n \<Rightarrow> dict_get_or RANK_LABEL n (py_str n))"

definition rank_of :: "json \<Rightarrow> int option" where
  "rank_of v = (case v of J_Int n \<Rightarrow> Some n | _ \<Rightarrow> None)"

definition msf_cves :: "json \<Rightarrow> string list" where
  "msf_cves m = remdups (filter (starts_with ''CVE-'') (map js_text (js_items (js_get ''references'' m))))"

definition text_or :: "json \<Rightarrow> string \<Rightarrow> string" where
  "text_or v d = (if js_text v = [] then d else js_text v)"

definition msf_entry :: "string \<Rightarrow> json \<Rightarrow> exploit_source" where
  "msf_entry fullname m =
     (let rank = rank_of (js_get ''rank'' m) in
      \<lparr>es_source = ''metasploit'',
       es_url = ''https://github.com/rapid7/metasploit-framework/blob/master'' @ js_text (js_get ''path'' m),
       es_title = text_or (js_get ''fullname'' m) fullname @ '' ('' @ text_or (js_get ''type'' m) ''exploit''
                  @ '', rank='' @ rank_label rank @ '')'',
       es_author = (case js_items (js_get ''author'' m) of a # _ \<Rightarrow> js_text a | [] \<Rightarrow> []),
       es_verified = (case rank of Some n \<Rightarrow> 500 \<le> n | None \<Rightarrow> False), es_stars = J_Null\<rparr>)"

definition msf_module ::
  "(string, exploit_source list) dict \<Rightarrow> string \<times> json \<Rightarrow> (string, exploit_source list) dict" where
  "msf_module index nm =
     (case nm of (fullname, m) \<Rightarrow>
      if \<not> js_is_obj m then index
      else foldl (\<lambda>d cve. dict_append cve (msf_entry fullname m) d) index (msf_cves m))"

definition msf_refresh :: "instant \<Rightarrow> (string \<times> json) list fetched \<Rightarrow> exploit_source list source
    \<Rightarrow> int option \<times> exploit_source list source" where
  "msf_refresh now f s =
     (case f of
        Fetch_Failed \<Rightarrow> (None, s)
      | Body mods \<Rightarrow> (Some (index_total (foldl msf_module [] mods)), install now (foldl msf_module [] mods) s))"

section \<open>GitHub\<close>

text \<open>The year of an identifier \<^verbatim>\<open>CVE-YYYY-...\<close>.\<close>

definition cve_year :: "string \<Rightarrow> string option" where
  "cve_year cve =
     (case strip_prefix ''CVE-'' cve of
        None \<Rightarrow> None
      | Some r \<Rightarrow>
          if length (take 4 r) = 4 \<and> list_all py_isdigit (take 4 r) \<and> starts_with ''-'' (drop 4 r)
          then Some (take 4 r) else None)"

definition poc_of :: "json \<Rightarrow> exploit_source" where
  "poc_of item =
     \<lparr>es_source = ''github'', es_url = js_text (js_get ''html_url'' item),
      es_title = text_or (js_get ''description'' item) (js_text (js_get ''name'' item)),
      es_author = js_text (js_get ''login'' (js_get ''owner'' item)), es_verified = False,
      es_stars = js_get ''stargazers_count'' item\<rparr>"

definition github_lookup :: "(string \<Rightarrow> json fetched) \<Rightarrow> string \<Rightarrow> exploit_source list" where
  "github_lookup fetch cve =
     (case cve_year cve of
        None \<Rightarrow> []
      | Some year \<Rightarrow>
          (case fetch (''https://raw.githubusercontent.com/nomi-sec/PoC-in-GitHub/master/'' @ year @ ''/'' @ cve @ ''.json'') of
             Fetch_Failed \<Rightarrow> []
           | Body data \<Rightarrow> map poc_of (filter js_is_obj (js_items data))))"

section \<open>CERT-FR\<close>

text \<open>The text between the first \<^verbatim>\<open><tag>\<close> and the \<^verbatim>\<open></tag>\<close> after it, without the marks of a CDATA section.\<close>

definition drop_cdata :: "string \<Rightarrow> string" where
  "drop_cdata body =
     (let b = (case strip_prefix ''<![CDATA['' body of Some r \<Rightarrow> r | None \<Rightarrow> body)
      in if ends_with '']]>'' b then take (length b - 3) b else b)"

definition extract_tag :: "string \<Rightarrow> string \<Rightarrow> string" where
  "extract_tag item tag =
     (case after_first (''<'' @ tag @ ''>'') item of
        None \<Rightarrow> []
      | Some r \<Rightarrow>
          (case split_first (''</'' @ tag @ ''>'') r of
             None \<Rightarrow> []
           | Some (body, _) \<Rightarrow> py_strip (drop_cdata body)))"

fun items_from :: "nat \<Rightarrow> string \<Rightarrow> string list" where
  "items_from 0 s = []"
| "items_from (Suc n) s =
     (case after_first ''<item>'' s of
        None \<Rightarrow> []
      | Some r \<Rightarrow>
          (case split_first ''</item>'' r of
             None \<Rightarrow> []
           | Some (body, rest) \<Rightarrow> body # items_from n rest))"

text \<open>Each item consumes at least one character, so the length of the text bounds their number.\<close>

definition rss_items :: "string \<Rightarrow> string list" where
  "rss_items text = items_from (length text) text"

text \<open>The greedy match of four to seven digits.\<close>

definition match_cve :: "string \<Rightarrow> (string \<times> string) option" where
  "match_cve s =
     (case strip_prefix ''CVE-'' s of
        None \<Rightarrow> None
      | Some r \<Rightarrow>
          let year = takeWhile py_isdigit r;
              num = take 7 (takeWhile py_isdigit (drop 5 r))
          in if length year = 4 \<and> starts_with ''-'' (drop 4 r) \<and> 4 \<le> length num
             then Some (''CVE-'' @ year @ ''-'' @ num, drop (5 + length num) r) else None)"

function find_cves :: "string \<Rightarrow> string list" where
  "find_cves s =
     (if s = [] then []
      else case match_cve s of
        None \<Rightarrow> find_cves (tl s)
      | Some (cve, rest) \<Rightarrow> cve # find_cves rest)"
  by pat_completeness auto
termination
  by (relation "measure length")
    (auto simp: match_cve_def Let_def strip_prefix_def length_greater_0_conv [symmetric]
       simp del: length_greater_0_conv split: option.splits if_splits)

declare find_cves.simps [simp del]

definition EXPLOITED_PHRASES :: "string list" where
  "EXPLOITED_PHRASES =
     [''activement exploit'', ''exploitation active'', ''preuve de concept'', ''preuves de concept'',
      ''publiquement disponible'', ''exploit publiquement'']"

definition RANSOM_PHRASES :: "string list" where
  "RANSOM_PHRASES = [''ran'' @ [CHR 0xE7] @ ''ongiciel'', ''ransomware'', ''ransomgiciel'']"

definition has_any :: "string \<Rightarrow> string list \<Rightarrow> bool" where
  "has_any text phrases \<longleftrightarrow> list_ex (\<lambda>p. py_contains p text) phrases"

text \<open>\<^verbatim>\<open>CERTFR-\d{4}-(?:ALE|AVI)-\d+\<close>, without regard to case, of which the upper case is kept.\<close>

definition match_ref :: "string \<Rightarrow> string option" where
  "match_ref s =
     (case strip_prefix ''CERTFR-'' (py_upper s) of
        None \<Rightarrow> None
      | Some r \<Rightarrow>
          let num = takeWhile py_isdigit (drop 9 r)
          in if length (take 4 r) = 4 \<and> list_all py_isdigit (take 4 r) \<and> take 5 (drop 4 r) \<in> {''-ALE-'', ''-AVI-''} \<and> num \<noteq> []
             then Some (''CERTFR-'' @ take 9 r @ num) else None)"

definition extract_ref :: "string \<Rightarrow> string" where
  "extract_ref url = (case re_search match_ref url of Some r \<Rightarrow> r | None \<Rightarrow> url)"

text \<open>The bulletins of a feed: kind, title and link; an item without a link is skipped.\<close>

definition feed_items :: "bulletin_kind \<Rightarrow> string fetched \<Rightarrow> (bulletin_kind \<times> string \<times> string) list" where
  "feed_items kind f =
     (case f of
        Fetch_Failed \<Rightarrow> []
      | Body text \<Rightarrow>
          filter (\<lambda>(k, t, l). l \<noteq> [])
            (map (\<lambda>item. (kind, extract_tag item ''title'', extract_tag item ''link'')) (rss_items text)))"

definition page_bulletin :: "bulletin_kind \<times> string \<times> string \<Rightarrow> string \<Rightarrow> bulletin" where
  "page_bulletin item text =
     (case item of (kind, title, link) \<Rightarrow>
      \<lparr>bl_ref = extract_ref link, bl_kind = kind, bl_title = (if title = [] then extract_ref link else title),
       bl_url = link, actively_exploited = has_any (py_lower text) EXPLOITED_PHRASES,
       ransomware_mentioned = has_any (py_lower text) RANSOM_PHRASES\<rparr>)"

text \<open>
  The pages are fetched concurrently; the model indexes them in the order of the feeds, and the order only
  shows in the order of the bulletins of one CVE.
\<close>

definition add_page ::
  "(string \<Rightarrow> string fetched) \<Rightarrow> (string, bulletin list) dict \<Rightarrow> bulletin_kind \<times> string \<times> string
    \<Rightarrow> (string, bulletin list) dict" where
  "add_page fetch index item =
     (case fetch (snd (snd item)) of
        Fetch_Failed \<Rightarrow> index
      | Body text \<Rightarrow> foldl (\<lambda>d cve. dict_append cve (page_bulletin item text) d) index (sort (remdups (find_cves text))))"

definition certfr_refresh ::
  "instant \<Rightarrow> string fetched \<Rightarrow> string fetched \<Rightarrow> (string \<Rightarrow> string fetched) \<Rightarrow> bulletin list source
    \<Rightarrow> int option \<times> bulletin list source" where
  "certfr_refresh now alertes avis fetch s =
     (let index = foldl (add_page fetch) [] (feed_items Alerte alertes @ feed_items Avis avis)
      in (Some (int (length index)), install now index s))"

section \<open>Properties\<close>

text \<open>
  CERT-FR alone treats failed downloads as an empty success: with both feeds down, the refresh erases what was
  known and marks the source as loaded, where KEV, Exploit-DB and Metasploit keep their index.
\<close>

lemma certfr_outage_erases_index:
  "certfr_refresh now Fetch_Failed Fetch_Failed fetch s = (Some 0, s\<lparr>src_index := [], src_loaded_at := Some now\<rparr>)"
  by (simp add: certfr_refresh_def feed_items_def install_def)

lemma other_outages_keep_index:
  "kev_refresh now Fetch_Failed s1 = (None, s1)"
  "edb_refresh now Fetch_Failed s2 = (None, s2)"
  "msf_refresh now Fetch_Failed s3 = (None, s3)"
  by (simp_all add: kev_refresh_def edb_refresh_def msf_refresh_def)

definition epss_ok :: "(string, epss_data) dict \<Rightarrow> bool" where
  "epss_ok d \<longleftrightarrow> (\<forall>k e. dict_get d k = Some e \<longrightarrow> in_unit (epss_score e) \<and> in_unit (epss_percentile e))"

lemma epss_entry_ok: "epss_ok d \<Longrightarrow> epss_ok (epss_entry to_float d e)"
  by (auto simp: epss_entry_def epss_ok_def split: json.splits list.splits option.splits)

lemma foldl_keeps:
  "(\<And>d x. P d \<Longrightarrow> P (f d x)) \<Longrightarrow> P d \<Longrightarrow> P (foldl f d xs)"
  by (induction xs arbitrary: d) simp_all

lemma lookup_bulk_ok: "epss_ok (lookup_bulk to_float fetch cves)"
proof -
  have "epss_ok (foldl (epss_entry to_float) d es)" if "epss_ok d" for d es
    by (rule foldl_keeps [where P = epss_ok]) (use that epss_entry_ok in simp_all)
  then have "epss_ok d \<Longrightarrow> epss_ok (case fetch chunk of Fetch_Failed \<Rightarrow> d
      | Body payload \<Rightarrow> foldl (epss_entry to_float) d (js_items (js_get ''data'' payload)))" for d chunk
    by (cases "fetch chunk") simp_all
  moreover have "epss_ok []" by (simp add: epss_ok_def)
  ultimately show ?thesis unfolding lookup_bulk_def by (rule foldl_keeps [where P = epss_ok])
qed

text \<open>The requests of a bulk lookup carry every identifier once, at most a hundred at a time.\<close>

lemma epss_chunks_partition: "concat (epss_chunks ts) = ts \<and> (\<forall>c\<in>set (epss_chunks ts). length c \<le> 100 \<and> c \<noteq> [])"
proof (induction ts rule: epss_chunks.induct)
  case (1 ts)
  show ?case
  proof (cases "ts = []")
    case True
    then show ?thesis by (simp add: epss_chunks.simps)
  next
    case False
    have chunks: "epss_chunks ts = take BULK_MAX ts # epss_chunks (drop BULK_MAX ts)"
      using False by (subst epss_chunks.simps) simp
    have "length (take BULK_MAX ts) \<le> 100" "take BULK_MAX ts \<noteq> []" using False by (simp_all add: BULK_MAX_def)
    with "1.IH" [OF False] show ?thesis by (simp add: chunks)
  qed
qed

end
