(* ===== verification/Exploit_Enricher.thy ===== *)
theory Exploit_Enricher
  imports Exploit_Sources Row_Table Sec_Store
begin

text \<open>
  The exploitation context of a CVE (\<^verbatim>\<open>backend/app/security/exploit_enricher.py\<close>, table \<^verbatim>\<open>CveExploitCacheRow\<close>) and
  its attack path (\<^verbatim>\<open>enrichers/cve2capec.py\<close>, table \<^verbatim>\<open>CveAttackPathCacheRow\<close>): the score, and the two caches of a
  day. A CVSS score is in tenths; the priority score is an exact rational rounded to one decimal.
\<close>

section \<open>Score\<close>

datatype maturity = Mat_None | Mat_Poc | Mat_Functional | Mat_Weaponized | Mat_In_The_Wild

datatype priority_level = Pl_Critical | Pl_High | Pl_Medium | Pl_Low | Pl_Info

definition maturity_of ::
  "kev_entry option \<Rightarrow> exploit_source list \<Rightarrow> exploit_source list \<Rightarrow> exploit_source list \<Rightarrow> maturity" where
  "maturity_of kev msf edb pocs =
     (if kev \<noteq> None then Mat_In_The_Wild
      else if msf \<noteq> [] then Mat_Weaponized
      else if list_ex es_verified edb then Mat_Functional
      else if edb \<noteq> [] then Mat_Poc
      else if pocs \<noteq> [] then Mat_Poc
      else Mat_None)"

fun maturity_bonus :: "maturity \<Rightarrow> rat" where
  "maturity_bonus Mat_None = 0"
| "maturity_bonus Mat_Poc = 4"
| "maturity_bonus Mat_Functional = 8"
| "maturity_bonus Mat_Weaponized = 12"
| "maturity_bonus Mat_In_The_Wild = 15"

definition round_1 :: "rat \<Rightarrow> rat" where
  "round_1 x = of_int (py_round (x * 10)) / 10"

definition cvss_part :: "int option \<Rightarrow> rat" where
  "cvss_part c = (case c of None \<Rightarrow> 0 | Some n \<Rightarrow> (of_int n / 10) / 10 * 35)"

definition epss_part :: "epss_data option \<Rightarrow> rat" where
  "epss_part e = (case e of None \<Rightarrow> 0 | Some d \<Rightarrow> epss_score d * 25)"

definition kev_part :: "kev_entry option \<Rightarrow> rat" where
  "kev_part k = (case k of None \<Rightarrow> 0 | Some e \<Rightarrow> if known_ransomware_use e then 25 else 20)"

definition certfr_part :: "bulletin list \<Rightarrow> rat" where
  "certfr_part bs = (if bs = [] then 0 else if list_ex (\<lambda>b. bl_kind b = Alerte) bs then 10 else 5)"

definition priority_score ::
  "int option \<Rightarrow> epss_data option \<Rightarrow> kev_entry option \<Rightarrow> maturity \<Rightarrow> bulletin list \<Rightarrow> rat" where
  "priority_score cvss epss kev mat certfr =
     min (round_1 (cvss_part cvss + epss_part epss + kev_part kev + maturity_bonus mat + certfr_part certfr)) 100"

definition priority_level :: "rat \<Rightarrow> priority_level" where
  "priority_level s =
     (if 80 \<le> s then Pl_Critical else if 60 \<le> s then Pl_High else if 40 \<le> s then Pl_Medium
      else if 20 \<le> s then Pl_Low else Pl_Info)"

section \<open>Sources\<close>

record exploit_srcs =
  xs_kev :: "kev_entry source"
  xs_edb :: "exploit_source list source"
  xs_msf :: "exploit_source list source"
  xs_certfr :: "bulletin list source"

text \<open>What the downloads give when they are attempted.\<close>

record downloads =
  dl_kev :: "json fetched"
  dl_edb :: "(string, string) dict list fetched"
  dl_msf :: "(string \<times> json) list fetched"
  dl_alerte :: "string fetched"
  dl_avis :: "string fetched"
  dl_page :: "string \<Rightarrow> string fetched"

definition ensure_sources_loaded :: "instant \<Rightarrow> downloads \<Rightarrow> exploit_srcs \<Rightarrow> exploit_srcs" where
  "ensure_sources_loaded now dl s =
     \<lparr>xs_kev = (if src_loaded (xs_kev s) then xs_kev s else snd (kev_refresh now (dl_kev dl) (xs_kev s))),
      xs_edb = (if src_loaded (xs_edb s) then xs_edb s else snd (edb_refresh now (dl_edb dl) (xs_edb s))),
      xs_msf = (if src_loaded (xs_msf s) then xs_msf s else snd (msf_refresh now (dl_msf dl) (xs_msf s))),
      xs_certfr = (if src_loaded (xs_certfr s) then xs_certfr s
                   else snd (certfr_refresh now (dl_alerte dl) (dl_avis dl) (dl_page dl) (xs_certfr s)))\<rparr>"

text \<open>The counts of the four refreshes, \<^const>\<open>None\<close> for one that failed.\<close>

definition xs_refresh_all :: "instant \<Rightarrow> downloads \<Rightarrow> exploit_srcs \<Rightarrow> (string, int option) dict \<times> exploit_srcs" where
  "xs_refresh_all now dl s =
     (let k = kev_refresh now (dl_kev dl) (xs_kev s);
          e = edb_refresh now (dl_edb dl) (xs_edb s);
          m = msf_refresh now (dl_msf dl) (xs_msf s);
          c = certfr_refresh now (dl_alerte dl) (dl_avis dl) (dl_page dl) (xs_certfr s)
      in ([(''cisa_kev'', fst k), (''exploitdb'', fst e), (''metasploit'', fst m), (''cert_fr'', fst c)],
          \<lparr>xs_kev = snd k, xs_edb = snd e, xs_msf = snd m, xs_certfr = snd c\<rparr>))"

section \<open>The cache\<close>

record enrichment =
  en_cve :: string
  en_kev :: "kev_entry option"
  en_epss :: "epss_data option"
  en_exploit_db :: "exploit_source list"
  en_github_pocs :: "exploit_source list"
  en_metasploit :: "exploit_source list"
  en_cert_fr :: "bulletin list"
  en_maturity :: maturity
  en_score :: rat
  en_level :: priority_level
  en_refreshed_at :: instant

text \<open>A row whose JSON no longer decodes holds \<^const>\<open>None\<close>.\<close>

record cache_row =
  cr_cve :: string
  cr_enrichment :: "enrichment option"
  cr_refreshed_at :: instant

definition CACHE_TTL :: int where "CACHE_TTL = seconds (24 * 3600)"

definition row_fresh :: "instant \<Rightarrow> cache_row \<Rightarrow> bool" where
  "row_fresh now r \<longleftrightarrow> now - CACHE_TTL \<le> cr_refreshed_at r"

text \<open>What the cache has for the identifiers: the fresh entries, and the rows that are expired or broken.\<close>

definition read_cache :: "instant \<Rightarrow> string list \<Rightarrow> cache_row list \<Rightarrow> (string, enrichment) dict \<times> string list" where
  "read_cache now cves rows =
     foldl (\<lambda>(fresh, stale) r.
              if row_fresh now r
              then (case cr_enrichment r of Some e \<Rightarrow> (dict_set (cr_cve r) e fresh, stale)
                                          | None \<Rightarrow> (fresh, cr_cve r # stale))
              else (fresh, cr_cve r # stale))
       ([], []) (filter (\<lambda>r. cr_cve r \<in> set cves) rows)"

definition cache_put :: "cache_row list \<Rightarrow> cache_row \<Rightarrow> cache_row list" where
  "cache_put rows r =
     (if row_find cr_cve (cr_cve r) rows = None then rows @ [r]
      else row_update cr_cve (cr_cve r) (\<lambda>_. r) rows)"

definition upsert_cache :: "cache_row list \<Rightarrow> cache_row list \<Rightarrow> cache_row list" where
  "upsert_cache rows new = foldl cache_put rows new"

definition enrich_one ::
  "instant \<Rightarrow> exploit_srcs \<Rightarrow> (string, epss_data) dict \<Rightarrow> (string \<Rightarrow> exploit_source list) \<Rightarrow> string \<Rightarrow> int option \<Rightarrow> enrichment" where
  "enrich_one now s epss gh cve cvss =
     (let kev = kev_lookup (xs_kev s) cve;
          edb = list_lookup (xs_edb s) cve;
          msf = list_lookup (xs_msf s) cve;
          pocs = gh cve;
          certfr = list_lookup (xs_certfr s) cve;
          mat = maturity_of kev msf edb pocs;
          score = priority_score cvss (dict_get epss cve) kev mat certfr
      in \<lparr>en_cve = cve, en_kev = kev, en_epss = dict_get epss cve, en_exploit_db = edb, en_github_pocs = pocs,
          en_metasploit = msf, en_cert_fr = certfr, en_maturity = mat, en_score = score,
          en_level = priority_level score, en_refreshed_at = now\<rparr>)"

definition needs_fetch :: "bool \<Rightarrow> (string, enrichment) dict \<Rightarrow> string list \<Rightarrow> string list \<Rightarrow> string list" where
  "needs_fetch force cached stale cves =
     filter (\<lambda>c. force \<or> dict_get cached c = None \<or> c \<in> set stale) cves"

definition enrich_for_findings ::
  "instant \<Rightarrow> downloads \<Rightarrow> (string list \<Rightarrow> (string, epss_data) dict) \<Rightarrow> (string \<Rightarrow> exploit_source list) \<Rightarrow> bool
    \<Rightarrow> (string, int option) dict \<Rightarrow> exploit_srcs \<times> cache_row list
    \<Rightarrow> (string, enrichment) dict \<times> exploit_srcs \<times> cache_row list" where
  "enrich_for_findings now dl bulk gh force inputs st =
     (case st of (s, rows) \<Rightarrow>
      let cves = dict_keys inputs in
      if cves = [] then ([], s, rows)
      else
        let s1 = ensure_sources_loaded now dl s in
        (case read_cache now cves rows of (cached, stale) \<Rightarrow>
         let todo = needs_fetch force cached stale cves;
             out = (if force then [] else cached)
         in if todo = [] then (out, s1, rows)
            else
              let epss = bulk todo;
                  new = map (\<lambda>c. enrich_one now s1 epss gh c (case dict_get inputs c of Some v \<Rightarrow> v | None \<Rightarrow> None)) todo
              in (foldl (\<lambda>d e. dict_set (en_cve e) e d) out new, s1,
                  upsert_cache rows (map (\<lambda>e. \<lparr>cr_cve = en_cve e, cr_enrichment = Some e, cr_refreshed_at = now\<rparr>) new))))"

definition load_for_cves :: "string list \<Rightarrow> cache_row list \<Rightarrow> (string, enrichment) dict" where
  "load_for_cves cves rows =
     foldl (\<lambda>d r. case cr_enrichment r of Some e \<Rightarrow> dict_set (cr_cve r) e d | None \<Rightarrow> d) []
       (filter (\<lambda>r. cr_cve r \<in> set cves) rows)"

section \<open>Attack paths\<close>

record path_row =
  pa_cve :: string
  pa_path :: attack_path
  pa_fetched_at :: instant

definition js_strs :: "json \<Rightarrow> string list" where
  "js_strs v = map (\<lambda>x. case x of J_Int n \<Rightarrow> py_str n | _ \<Rightarrow> js_text x) (js_items v)"

definition path_of :: "json \<Rightarrow> attack_path" where
  "path_of payload =
     \<lparr>cwe = js_strs (js_get ''CWE'' payload), capec = js_strs (js_get ''CAPEC'' payload),
      techniques = map (\<lambda>x. if starts_with ''T'' x then x else CHR ''T'' # x) (js_strs (js_get ''TECHNIQUES'' payload)),
      atlas = js_strs (js_get ''ATLAS'' payload)\<rparr>"

definition path_empty :: "attack_path \<Rightarrow> bool" where
  "path_empty p \<longleftrightarrow> cwe p = [] \<and> capec p = [] \<and> techniques p = [] \<and> atlas p = []"

definition year_line ::
  "(string \<Rightarrow> json option) \<Rightarrow> (string, attack_path) dict \<Rightarrow> string \<Rightarrow> (string, attack_path) dict" where
  "year_line loads out line =
     (if py_strip line = [] then out
      else case loads (py_strip line) of
        Some (J_Obj entries) \<Rightarrow>
          foldl (\<lambda>d (cve, payload).
                   if \<not> js_is_obj payload \<or> path_empty (path_of payload) then d else dict_set cve (path_of payload) d)
            out entries
      | _ \<Rightarrow> out)"

definition parse_year :: "(string \<Rightarrow> json option) \<Rightarrow> string \<Rightarrow> (string, attack_path) dict" where
  "parse_year loads text = foldl (year_line loads) [] (py_splitlines text)"

definition read_paths :: "instant \<Rightarrow> string list \<Rightarrow> path_row list \<Rightarrow> (string, attack_path) dict \<times> string list" where
  "read_paths now cves rows =
     foldl (\<lambda>(fresh, stale) r.
              if now - CACHE_TTL \<le> pa_fetched_at r then (dict_set (pa_cve r) (pa_path r) fresh, stale)
              else (fresh, stale @ [pa_cve r]))
       ([], []) (filter (\<lambda>r. pa_cve r \<in> set cves) rows)"

definition put_path :: "instant \<Rightarrow> path_row list \<Rightarrow> string \<times> attack_path \<Rightarrow> path_row list" where
  "put_path now rows cp =
     (case cp of (cve, p) \<Rightarrow>
      if row_find pa_cve cve rows = None
      then rows @ [\<lparr>pa_cve = cve, pa_path = p, pa_fetched_at = now\<rparr>]
      else row_update pa_cve cve (\<lambda>r. r\<lparr>pa_path := p, pa_fetched_at := now\<rparr>) rows)"

definition enrich_year ::
  "instant \<Rightarrow> (string \<Rightarrow> json option) \<Rightarrow> (string \<Rightarrow> string fetched)
    \<Rightarrow> (string, attack_path) dict \<times> path_row list \<Rightarrow> string \<Rightarrow> (string, attack_path) dict \<times> path_row list" where
  "enrich_year now loads fetch acc year =
     (case acc of (out, rows) \<Rightarrow>
      case fetch year of
        Fetch_Failed \<Rightarrow> (out, rows)
      | Body text \<Rightarrow>
          let data = parse_year loads text
          in (foldl (\<lambda>d (cve, p). dict_set cve p d) out data, foldl (put_path now) rows data))"

definition years_needed :: "string list \<Rightarrow> string list" where
  "years_needed cves = sort (remdups (concat (map (\<lambda>c. case cve_year c of Some y \<Rightarrow> [y] | None \<Rightarrow> []) cves)))"

text \<open>Paths for the identifiers, \<^const>\<open>None\<close> where there is no entry, and the cache afterwards.\<close>

definition capec_enrich ::
  "instant \<Rightarrow> (string \<Rightarrow> json option) \<Rightarrow> (string \<Rightarrow> string fetched) \<Rightarrow> string list \<Rightarrow> path_row list
    \<Rightarrow> (string, attack_path option) dict \<times> path_row list" where
  "capec_enrich now loads fetch cve_ids rows =
     (let ids = sort (remdups (filter (\<lambda>c. c \<noteq> []) cve_ids)) in
      if ids = [] then ([], rows)
      else case read_paths now ids rows of (cached, stale) \<Rightarrow>
        let missing = filter (\<lambda>c. dict_get cached c = None) ids in
        (case foldl (enrich_year now loads fetch) (cached, rows) (years_needed (missing @ stale)) of
           (out, rows') \<Rightarrow>
             (foldl (\<lambda>d c. dict_setdefault c None d) (map (\<lambda>(c, p). (c, Some p)) out) ids, rows')))"

section \<open>Properties\<close>

lemma round_1_mono: "x \<le> y \<Longrightarrow> round_1 x \<le> round_1 y"
  by (simp add: round_1_def py_round_mono)

lemma round_1_nonneg: "0 \<le> x \<Longrightarrow> 0 \<le> round_1 x"
  using round_1_mono [of 0 x] by (simp add: round_1_def py_round_def)

fun mat_rank :: "maturity \<Rightarrow> nat" where
  "mat_rank Mat_None = 0"
| "mat_rank Mat_Poc = 1"
| "mat_rank Mat_Functional = 2"
| "mat_rank Mat_Weaponized = 3"
| "mat_rank Mat_In_The_Wild = 4"

lemma maturity_bonus_mono: "mat_rank a \<le> mat_rank b \<Longrightarrow> maturity_bonus a \<le> maturity_bonus b"
  by (cases a; cases b) simp_all

lemma parts_nonneg:
  "(\<And>n. cvss = Some n \<Longrightarrow> 0 \<le> n) \<Longrightarrow> 0 \<le> cvss_part cvss"
  "(\<And>e. epss = Some e \<Longrightarrow> 0 \<le> epss_score e) \<Longrightarrow> 0 \<le> epss_part epss"
  "0 \<le> kev_part kev" "0 \<le> maturity_bonus mat" "0 \<le> certfr_part bs"
  by (auto simp: cvss_part_def epss_part_def kev_part_def certfr_part_def split: option.splits)
    (cases mat, simp_all)

definition cvss_le :: "int option \<Rightarrow> int option \<Rightarrow> bool" where
  "cvss_le a b \<longleftrightarrow> (case (a, b) of (None, None) \<Rightarrow> True | (None, Some n) \<Rightarrow> 0 \<le> n | (Some m, Some n) \<Rightarrow> 0 \<le> m \<and> m \<le> n | _ \<Rightarrow> False)"

definition epss_le :: "epss_data option \<Rightarrow> epss_data option \<Rightarrow> bool" where
  "epss_le a b \<longleftrightarrow>
     (case (a, b) of (None, None) \<Rightarrow> True | (None, Some e) \<Rightarrow> 0 \<le> epss_score e
                   | (Some d, Some e) \<Rightarrow> 0 \<le> epss_score d \<and> epss_score d \<le> epss_score e | _ \<Rightarrow> False)"

definition kev_le :: "kev_entry option \<Rightarrow> kev_entry option \<Rightarrow> bool" where
  "kev_le a b \<longleftrightarrow>
     (case (a, b) of (None, _) \<Rightarrow> True | (Some d, Some e) \<Rightarrow> known_ransomware_use d \<longrightarrow> known_ransomware_use e | _ \<Rightarrow> False)"

lemma part_mono:
  "cvss_le a b \<Longrightarrow> cvss_part a \<le> cvss_part b \<and> 0 \<le> cvss_part a"
  "epss_le e f \<Longrightarrow> epss_part e \<le> epss_part f \<and> 0 \<le> epss_part e"
  "kev_le k l \<Longrightarrow> kev_part k \<le> kev_part l"
  "set bs \<subseteq> set cs \<Longrightarrow> certfr_part bs \<le> certfr_part cs"
  by (auto simp: cvss_le_def epss_le_def kev_le_def cvss_part_def epss_part_def kev_part_def certfr_part_def list_ex_iff
      divide_right_mono mult_right_mono split: option.splits)

text \<open>
  The priority of a CVE rises with the evidence: with a higher CVSS or EPSS score, an entry in the KEV
  catalogue (more so one used by ransomware), a more mature exploit or more CERT-FR bulletins, the score does
  not fall. It always lies between 0 and 100, and a higher score never gives a lower level.
\<close>

theorem priority_rises_with_evidence:
  assumes "cvss_le c c'" "epss_le e e'" "kev_le k k'" "mat_rank m \<le> mat_rank m'" "set bs \<subseteq> set bs'"
  shows "0 \<le> priority_score c e k m bs \<and> priority_score c e k m bs \<le> priority_score c' e' k' m' bs'
    \<and> priority_score c' e' k' m' bs' \<le> 100"
proof -
  let ?x = "cvss_part c + epss_part e + kev_part k + maturity_bonus m + certfr_part bs"
  let ?y = "cvss_part c' + epss_part e' + kev_part k' + maturity_bonus m' + certfr_part bs'"
  have "?x \<le> ?y"
    using part_mono(1) [OF assms(1)] part_mono(2) [OF assms(2)] part_mono(3) [OF assms(3)]
      maturity_bonus_mono [OF assms(4)] part_mono(4) [OF assms(5)] by linarith
  then have "round_1 ?x \<le> round_1 ?y" by (rule round_1_mono)
  moreover have "0 \<le> ?x"
    using part_mono(1) [OF assms(1)] part_mono(2) [OF assms(2)] parts_nonneg(3) [of k] parts_nonneg(4) [of m]
      parts_nonneg(5) [of bs] by linarith
  then have "0 \<le> round_1 ?x" by (rule round_1_nonneg)
  ultimately show ?thesis by (auto simp: priority_score_def)
qed

definition sample_kev :: "bool \<Rightarrow> kev_entry" where
  "sample_kev r = \<lparr>kv_vendor = J_Null, kv_product = J_Null, kv_name = J_Null, kv_description = J_Null,
     kv_action = J_Null, known_ransomware_use = r, kv_notes = J_Null\<rparr>"

lemma priority_rises_with_evidence_witness:
  "priority_score (Some 75) None None Mat_None [] \<le> priority_score (Some 98) None (Some (sample_kev True)) Mat_In_The_Wild []
   \<and> priority_level (priority_score (Some 98) None (Some (sample_kev True)) Mat_In_The_Wild []) = Pl_High"
proof
  have "cvss_le (Some 75) (Some 98)" "epss_le None None" "kev_le None (Some (sample_kev True))"
    "mat_rank Mat_None \<le> mat_rank Mat_In_The_Wild" "set ([] :: bulletin list) \<subseteq> set []"
    by (simp_all add: cvss_le_def epss_le_def kev_le_def)
  from priority_rises_with_evidence [OF this]
  show "priority_score (Some 75) None None Mat_None [] \<le> priority_score (Some 98) None (Some (sample_kev True)) Mat_In_The_Wild []"
    by blast
qed (simp add: priority_score_def priority_level_def cvss_part_def epss_part_def kev_part_def certfr_part_def sample_kev_def
     round_1_def py_round_def Let_def)

lemma priority_level_mono_80: "x \<le> y \<Longrightarrow> priority_level x = Pl_Critical \<Longrightarrow> priority_level y = Pl_Critical"
  by (auto simp: priority_level_def split: if_splits)

subsection \<open>The cache\<close>

lemma read_cache_sound:
  assumes "read_cache now cves rows = (cached, stale)" "dict_get cached c = Some e"
  shows "\<exists>r\<in>set rows. cr_cve r = c \<and> cr_enrichment r = Some e \<and> row_fresh now r"
proof -
  let ?step = "\<lambda>(fresh, stale) r. if row_fresh now r
      then (case cr_enrichment r of Some e \<Rightarrow> (dict_set (cr_cve r) e fresh, stale) | None \<Rightarrow> (fresh, cr_cve r # stale))
      else (fresh, cr_cve r # stale)"
  have "fst (foldl ?step acc rs) = d \<Longrightarrow> dict_get d c = Some e \<Longrightarrow>
      dict_get (fst acc) c = Some e \<or> (\<exists>r\<in>set rs. cr_cve r = c \<and> cr_enrichment r = Some e \<and> row_fresh now r)" for acc rs d
  proof (induction rs arbitrary: acc)
    case (Cons r rs)
    have step: "dict_get (fst (?step acc r)) c = Some e \<Longrightarrow>
        dict_get (fst acc) c = Some e \<or> cr_cve r = c \<and> cr_enrichment r = Some e \<and> row_fresh now r"
      by (auto split: prod.splits option.splits if_splits)
    from Cons.IH [of "?step acc r"] Cons.prems step show ?case by auto
  qed simp
  from this [of "([], [])" "filter (\<lambda>r. cr_cve r \<in> set cves) rows" cached] assms show ?thesis
    by (auto simp: read_cache_def)
qed

lemma put_all_get:
  "distinct (map en_cve es) \<Longrightarrow>
   dict_get (foldl (\<lambda>d e. dict_set (en_cve e) e d) out es) c =
     (case find (\<lambda>e. en_cve e = c) es of Some e \<Rightarrow> Some e | None \<Rightarrow> dict_get out c)"
proof (induction es arbitrary: out)
  case (Cons e es)
  have "find (\<lambda>e'. en_cve e' = en_cve e) es = None"
    using Cons.prems by (auto simp: find_None_iff) (metis image_eqI)
  with Cons show ?case by (auto split: option.splits)
qed simp

lemma find_cache_put:
  "row_find cr_cve c (cache_put rows r) = (if c = cr_cve r then Some r else row_find cr_cve c rows)"
  by (auto simp: cache_put_def split: option.splits)

lemma find_upsert:
  "distinct (map cr_cve new) \<Longrightarrow>
   row_find cr_cve c (upsert_cache rows new) =
     (case find (\<lambda>r. cr_cve r = c) new of Some r \<Rightarrow> Some r | None \<Rightarrow> row_find cr_cve c rows)"
proof (induction new arbitrary: rows)
  case (Cons r new)
  have "find (\<lambda>r'. cr_cve r' = cr_cve r) new = None"
    using Cons.prems by (auto simp: find_None_iff) (metis image_eqI)
  with Cons show ?case by (auto simp: upsert_cache_def find_cache_put split: option.splits)
qed (simp add: upsert_cache_def)

lemma find_map_key: "distinct xs \<Longrightarrow> x \<in> set xs \<Longrightarrow> (\<And>y. key (f y) = y) \<Longrightarrow> find (\<lambda>e. key e = x) (map f xs) = Some (f x)"
  by (induction xs) auto

lemma find_map_key_None: "x \<notin> set xs \<Longrightarrow> (\<And>y. key (f y) = y) \<Longrightarrow> find (\<lambda>e. key e = x) (map f xs) = None"
  by (induction xs) auto

lemma en_cve_enrich_one [simp]: "en_cve (enrich_one now s epss gh c v) = c"
  by (simp add: enrich_one_def Let_def)

text \<open>
  Enriching the findings of a scan leaves nothing out: for every CVE asked for, a record comes back that the
  cache then holds under that CVE, refreshed within the last 24 hours, whether it was cached before or is new,
  and whatever the sources answered.
\<close>

theorem enrichment_complete_and_fresh:
  assumes "distinct (map cr_cve rows)" "distinct (dict_keys inputs)" "c \<in> set (dict_keys inputs)"
    "enrich_for_findings now dl bulk gh force inputs (s, rows) = (out, s', rows')"
  shows "\<exists>e r. dict_get out c = Some e \<and> row_find cr_cve c rows' = Some r \<and> cr_enrichment r = Some e \<and> row_fresh now r"
proof -
  let ?cves = "dict_keys inputs"
  obtain cached stale where cache: "read_cache now ?cves rows = (cached, stale)" by fastforce
  define todo where "todo = needs_fetch force cached stale ?cves"
  define s1 where "s1 = ensure_sources_loaded now dl s"
  define f where "f = (\<lambda>c. enrich_one now s1 (bulk todo) gh c (case dict_get inputs c of Some v \<Rightarrow> v | None \<Rightarrow> None))"
  define row where "row = (\<lambda>e. \<lparr>cr_cve = en_cve e, cr_enrichment = Some e, cr_refreshed_at = now\<rparr>)"
  have cve_f: "en_cve (f x) = x" for x by (simp add: f_def)
  have "?cves \<noteq> []" using assms(3) by auto
  then have out: "out = (if todo = [] then (if force then [] else cached)
        else foldl (\<lambda>d e. dict_set (en_cve e) e d) (if force then [] else cached) (map f todo))"
    and rows': "rows' = (if todo = [] then rows else upsert_cache rows (map row (map f todo)))"
    using assms(4) cache
    by (auto simp: enrich_for_findings_def Let_def todo_def f_def s1_def row_def [abs_def] split: if_splits)
  have d: "distinct todo" using assms(2) by (simp add: todo_def needs_fetch_def)
  have dist: "distinct (map en_cve (map f todo))" "distinct (map cr_cve (map row (map f todo)))"
    using d by (simp_all add: comp_def cve_f row_def)
  show ?thesis
  proof (cases "c \<in> set todo")
    case True
    then have "todo \<noteq> []" by auto
    have "dict_get out c = Some (f c)"
      using \<open>todo \<noteq> []\<close> put_all_get [OF dist(1)] find_map_key [OF d True, of en_cve f] cve_f by (simp add: out)
    moreover have "find (\<lambda>r. cr_cve r = c) (map (\<lambda>x. row (f x)) todo) = Some (row (f c))"
      by (rule find_map_key [OF d True]) (simp add: row_def cve_f)
    then have "row_find cr_cve c rows' = Some (row (f c))"
      using \<open>todo \<noteq> []\<close> find_upsert [OF dist(2)] by (simp add: rows' comp_def)
    ultimately show ?thesis by (simp add: row_def row_fresh_def CACHE_TTL_def seconds_def)
  next
    case False
    then have nf: "\<not> force" "dict_get cached c \<noteq> None"
      using assms(3) by (auto simp: todo_def needs_fetch_def)
    then obtain e where e: "dict_get cached c = Some e" by blast
    obtain r where r: "r \<in> set rows" "cr_cve r = c" "cr_enrichment r = Some e" "row_fresh now r"
      using read_cache_sound [OF cache e] by blast
    then have "row_find cr_cve c rows = Some r" using assms(1) row_find_in [of cr_cve rows r] by (simp add: keys_of_def)
    moreover have "find (\<lambda>r. cr_cve r = c) (map (\<lambda>x. row (f x)) todo) = None"
      by (rule find_map_key_None [OF False]) (simp add: row_def cve_f)
    ultimately have "row_find cr_cve c rows' = Some r" using find_upsert [OF dist(2)] by (simp add: rows' comp_def)
    moreover have "find (\<lambda>e. en_cve e = c) (map f todo) = None" by (rule find_map_key_None [OF False]) (rule cve_f)
    then have "dict_get out c = Some e" using put_all_get [OF dist(1)] nf(1) e by (simp add: out)
    ultimately show ?thesis using r by blast
  qed
qed

definition no_downloads :: downloads where
  "no_downloads = \<lparr>dl_kev = Fetch_Failed, dl_edb = Fetch_Failed, dl_msf = Fetch_Failed, dl_alerte = Fetch_Failed,
     dl_avis = Fetch_Failed, dl_page = (\<lambda>_. Fetch_Failed)\<rparr>"

definition empty_srcs :: exploit_srcs where
  "empty_srcs = \<lparr>xs_kev = new_source, xs_edb = new_source, xs_msf = new_source, xs_certfr = new_source\<rparr>"

lemma enrichment_complete_and_fresh_witness:
  "\<exists>e r. dict_get (fst (enrich_for_findings 0 no_downloads (\<lambda>_. []) (\<lambda>_. []) False [(''CVE-2024-1'', Some 98)] (empty_srcs, []))) ''CVE-2024-1'' = Some e
     \<and> row_find cr_cve ''CVE-2024-1'' (snd (snd (enrich_for_findings 0 no_downloads (\<lambda>_. []) (\<lambda>_. []) False [(''CVE-2024-1'', Some 98)] (empty_srcs, [])))) = Some r
     \<and> cr_enrichment r = Some e \<and> row_fresh 0 r"
proof -
  obtain out s' rows' where res: "enrich_for_findings 0 no_downloads (\<lambda>_. []) (\<lambda>_. []) False [(''CVE-2024-1'', Some 98)] (empty_srcs, []) = (out, s', rows')"
    by (cases "enrich_for_findings 0 no_downloads (\<lambda>_. []) (\<lambda>_. []) False [(''CVE-2024-1'', Some 98)] (empty_srcs, [])")
  have "distinct (map cr_cve [])" "distinct (dict_keys [(''CVE-2024-1'', Some (98 :: int))])"
    "''CVE-2024-1'' \<in> set (dict_keys [(''CVE-2024-1'', Some (98 :: int))])" by simp_all
  from enrichment_complete_and_fresh [OF this res] show ?thesis by (simp add: res)
qed

text \<open>
  While every CVE asked for is cached and fresh, the sources do not matter: a CVE added to KEV meanwhile keeps
  its old record for up to a day.
\<close>

lemma fresh_cache_hides_sources:
  assumes "inputs \<noteq> []" "needs_fetch False (fst (read_cache now (dict_keys inputs) rows)) (snd (read_cache now (dict_keys inputs) rows)) (dict_keys inputs) = []"
  shows "fst (enrich_for_findings now dl bulk gh False inputs (s, rows)) = fst (read_cache now (dict_keys inputs) rows)"
  using assms by (auto simp: enrich_for_findings_def Let_def split: prod.splits)

end
