(* ===== verification/Hardening.thy ===== *)
theory Hardening
  imports Adguard Screen_Lock Exploit_Enricher
begin

text \<open>
  The hardening gauge of a device (\<^verbatim>\<open>backend/app/slate/hardening.py\<close>): its checks, which earn points, and their
  sum. The texts shown beside a check are left out, and so are the variants of its name that only repeat the
  verdict: a check is identified by what it looks at. What the device answers is an input: \<open>rpc group method\<close> for
  its RPC interface, a function from commands to results for SSH, two replies of LuCI, and AdGuard. An exception
  that nothing catches is \<^const>\<open>None\<close>.
\<close>

datatype check_id =
    Hc_Firmware | Hc_Initialized | Hc_Https | Hc_Admin_Lan | Hc_Wan_Rules | Hc_Tailscale | Hc_Adguard
  | Hc_Wan_Online | Hc_Temperature | Hc_Ipv6
  | Hc_Ssh_Key | Hc_Upnp | Hc_Memory | Hc_Screen | Hc_Ram_Mitigation
  | Hc_Luci | Hc_Isolation | Hc_Whitelist | Hc_Exploits
  | Hc_Admin_Password | Hc_Jwt | Hc_Dnssec | Hc_Doh

datatype check_status = Hs_Ready | Hs_Needs_Probe | Hs_Skipped | Hs_Error

record hardening_check =
  hc_id :: check_id
  hc_points :: int
  hc_max :: int
  hc_status :: check_status

record hardening_report =
  hr_score :: int
  hr_max_score :: int
  hr_reachable :: bool
  hr_checks :: "hardening_check list"

definition hr_percent :: "hardening_report \<Rightarrow> int" where
  "hr_percent rep =
     (if hr_max_score rep = 0 then 0 else py_round (of_int (hr_score rep * 100) / of_int (hr_max_score rep)))"

definition mk_check :: "check_id \<Rightarrow> int \<Rightarrow> int \<Rightarrow> check_status \<Rightarrow> hardening_check" where
  "mk_check i p m st = \<lparr>hc_id = i, hc_points = p, hc_max = m, hc_status = st\<rparr>"

definition passed :: "check_id \<Rightarrow> int \<Rightarrow> bool \<Rightarrow> hardening_check" where
  "passed i m ok = mk_check i (if ok then m else 0) m Hs_Ready"

definition unprobed :: "check_id \<Rightarrow> int \<Rightarrow> hardening_check" where
  "unprobed i m = mk_check i 0 m Hs_Needs_Probe"

section \<open>RPC\<close>

datatype rpc_outcome = Rpc_Value json | Rpc_Refused | Rpc_Unreachable

type_synonym rpc = "string \<Rightarrow> string \<Rightarrow> rpc_outcome"

definition unwrap_result :: "json \<Rightarrow> json" where
  "unwrap_result payload =
     (if js_is_obj payload
      then (if js_is_obj (js_get ''result'' payload) then js_get ''result'' payload else payload)
      else J_Obj [])"

text \<open>The outer \<^const>\<open>None\<close> is an unreachable device; the inner one a method the firmware refuses.\<close>

definition try_call :: "rpc \<Rightarrow> string \<Rightarrow> string \<Rightarrow> json option option" where
  "try_call rpc grp meth =
     (case rpc grp meth of
        Rpc_Value v \<Rightarrow> Some (Some (unwrap_result v))
      | Rpc_Refused \<Rightarrow> Some None
      | Rpc_Unreachable \<Rightarrow> None)"

definition js_is_one :: "json \<Rightarrow> bool" where
  "js_is_one v \<longleftrightarrow> v = J_Int 1 \<or> v = J_Bool True"

definition is_recent :: "string \<Rightarrow> bool" where
  "is_recent v \<longleftrightarrow> starts_with ''4.8'' v \<or> starts_with ''4.9'' v"

definition opens_wan :: "json \<Rightarrow> bool" where
  "opens_wan r \<longleftrightarrow>
     js_is_obj r \<and> js_get ''src'' r = J_Str ''wan'' \<and> py_upper (js_text (js_get ''target'' r)) \<in> {''ACCEPT'', ''DNAT''}"

definition service_running :: "string \<Rightarrow> json \<Rightarrow> bool" where
  "service_running svc st \<longleftrightarrow>
     list_ex (\<lambda>s. js_is_obj s \<and> js_get ''name'' s = J_Str svc \<and> js_is_one (js_get ''status'' s))
       (js_items (js_get ''service'' st))"

definition WAN_IFACES :: "string list" where
  "WAN_IFACES = [''wan'', ''wan6'', ''wwan'', ''wwan6'', ''tethering'', ''tethering6'']"

definition wan_is_online :: "json \<Rightarrow> bool" where
  "wan_is_online st \<longleftrightarrow>
     list_ex (\<lambda>n. js_is_obj n \<and> js_get ''interface'' n \<in> J_Str ` set WAN_IFACES \<and> js_true (js_get ''online'' n))
       (js_items (js_get ''network'' st))"

definition temperature :: "json \<Rightarrow> json" where
  "temperature st = js_get ''temperature'' (js_get ''cpu'' (js_get ''system'' st))"

text \<open>A temperature that is neither missing nor a number is a \<^verbatim>\<open>TypeError\<close>.\<close>

definition grade_temperature :: "json \<Rightarrow> hardening_check option" where
  "grade_temperature t =
     (case t of
        J_Null \<Rightarrow> Some (mk_check Hc_Temperature 0 5 Hs_Error)
      | J_Int n \<Rightarrow> Some (passed Hc_Temperature 5 (n < 80))
      | J_Bool b \<Rightarrow> Some (passed Hc_Temperature 5 True)
      | _ \<Rightarrow> None)"

subsection \<open>The checks that call the device themselves\<close>

definition check_firmware_version :: "rpc \<Rightarrow> hardening_check option" where
  "check_firmware_version rpc =
     (case try_call rpc ''system'' ''get_info'' of
        None \<Rightarrow> None
      | Some None \<Rightarrow> Some (unprobed Hc_Firmware 10)
      | Some (Some info) \<Rightarrow>
          (case js_text (js_get ''firmware_version'' info) of
             [] \<Rightarrow> Some (mk_check Hc_Firmware 0 10 Hs_Error)
           | c # cs \<Rightarrow> Some (passed Hc_Firmware 10 (is_recent (c # cs)))))"

definition check_device_initialized :: "rpc \<Rightarrow> hardening_check option" where
  "check_device_initialized rpc =
     (case try_call rpc ''ui'' ''check_initialized'' of
        None \<Rightarrow> None
      | Some None \<Rightarrow> Some (unprobed Hc_Initialized 15)
      | Some (Some data) \<Rightarrow> Some (passed Hc_Initialized 15 (js_true (js_get ''initialized'' data))))"

definition check_https_forced :: "rpc \<Rightarrow> hardening_check option" where
  "check_https_forced rpc =
     (case try_call rpc ''system'' ''get_security_policy'' of
        None \<Rightarrow> None
      | Some None \<Rightarrow> Some (unprobed Hc_Https 10)
      | Some (Some data) \<Rightarrow> Some (passed Hc_Https 10 (js_true (js_get ''redirect_https'' data))))"

definition check_admin_lan_only :: "rpc \<Rightarrow> hardening_check option" where
  "check_admin_lan_only rpc =
     (case try_call rpc ''system'' ''get_security_policy'' of
        None \<Rightarrow> None
      | Some None \<Rightarrow> Some (unprobed Hc_Admin_Lan 15)
      | Some (Some data) \<Rightarrow> Some (passed Hc_Admin_Lan 15 (js_is_one (js_get ''security_rule'' data))))"

definition check_no_custom_wan_rules :: "rpc \<Rightarrow> hardening_check option" where
  "check_no_custom_wan_rules rpc =
     (case try_call rpc ''firewall'' ''get_rule_list'' of
        None \<Rightarrow> None
      | Some None \<Rightarrow> Some (unprobed Hc_Wan_Rules 10)
      | Some (Some data) \<Rightarrow> Some (passed Hc_Wan_Rules 10 (filter opens_wan (js_items (js_get ''res'' data)) = [])))"

definition check_tailscale_running :: "rpc \<Rightarrow> hardening_check option" where
  "check_tailscale_running rpc =
     (case try_call rpc ''system'' ''get_status'' of
        None \<Rightarrow> None
      | Some None \<Rightarrow> Some (unprobed Hc_Tailscale 10)
      | Some (Some st) \<Rightarrow> Some (passed Hc_Tailscale 10 (service_running ''tailscale'' st)))"

definition check_adguard_running :: "rpc \<Rightarrow> hardening_check option" where
  "check_adguard_running rpc =
     (case try_call rpc ''system'' ''get_status'' of
        None \<Rightarrow> None
      | Some None \<Rightarrow> Some (unprobed Hc_Adguard 5)
      | Some (Some st) \<Rightarrow> Some (passed Hc_Adguard 5 (service_running ''adguard'' st)))"

definition check_wan_online :: "rpc \<Rightarrow> hardening_check option" where
  "check_wan_online rpc =
     (case try_call rpc ''system'' ''get_status'' of
        None \<Rightarrow> None
      | Some None \<Rightarrow> Some (unprobed Hc_Wan_Online 5)
      | Some (Some st) \<Rightarrow> Some (passed Hc_Wan_Online 5 (wan_is_online st)))"

definition check_temperature_safe :: "rpc \<Rightarrow> hardening_check option" where
  "check_temperature_safe rpc =
     (case try_call rpc ''system'' ''get_status'' of
        None \<Rightarrow> None
      | Some None \<Rightarrow> Some (unprobed Hc_Temperature 5)
      | Some (Some st) \<Rightarrow> grade_temperature (temperature st))"

definition check_ipv6_enabled :: "rpc \<Rightarrow> hardening_check option" where
  "check_ipv6_enabled rpc =
     (case try_call rpc ''ipv6'' ''get_ipv6'' of
        None \<Rightarrow> None
      | Some None \<Rightarrow> Some (unprobed Hc_Ipv6 5)
      | Some (Some data) \<Rightarrow> Some (passed Hc_Ipv6 5 (js_true (js_get ''enable'' data))))"

subsection \<open>The checks over one snapshot\<close>

record snapshot =
  sn_info :: "json option"
  sn_status :: "json option"
  sn_policy :: "json option"
  sn_initialized :: "json option"
  sn_rules :: "json option"
  sn_ipv6 :: "json option"

definition build_snapshot :: "rpc \<Rightarrow> snapshot option" where
  "build_snapshot rpc =
     (case try_call rpc ''system'' ''get_info'' of None \<Rightarrow> None | Some info \<Rightarrow>
     (case try_call rpc ''system'' ''get_status'' of None \<Rightarrow> None | Some st \<Rightarrow>
     (case try_call rpc ''system'' ''get_security_policy'' of None \<Rightarrow> None | Some pol \<Rightarrow>
     (case try_call rpc ''ui'' ''check_initialized'' of None \<Rightarrow> None | Some ini \<Rightarrow>
     (case try_call rpc ''firewall'' ''get_rule_list'' of None \<Rightarrow> None | Some rules \<Rightarrow>
     (case try_call rpc ''ipv6'' ''get_ipv6'' of None \<Rightarrow> None | Some v6 \<Rightarrow>
        Some \<lparr>sn_info = info, sn_status = st, sn_policy = pol, sn_initialized = ini, sn_rules = rules,
              sn_ipv6 = v6\<rparr>))))))"

definition fw_check :: "snapshot \<Rightarrow> hardening_check" where
  "fw_check sn =
     (case sn_info sn of
        None \<Rightarrow> unprobed Hc_Firmware 10
      | Some info \<Rightarrow>
          (let v = js_text (js_get ''firmware_version'' info)
           in if v = [] then mk_check Hc_Firmware 0 10 Hs_Error else passed Hc_Firmware 10 (is_recent v)))"

definition init_check :: "snapshot \<Rightarrow> hardening_check" where
  "init_check sn =
     (case sn_initialized sn of None \<Rightarrow> unprobed Hc_Initialized 15
      | Some d \<Rightarrow> passed Hc_Initialized 15 (js_true (js_get ''initialized'' d)))"

definition https_check :: "snapshot \<Rightarrow> hardening_check" where
  "https_check sn =
     (case sn_policy sn of None \<Rightarrow> unprobed Hc_Https 10
      | Some d \<Rightarrow> passed Hc_Https 10 (js_true (js_get ''redirect_https'' d)))"

definition admin_lan_check :: "snapshot \<Rightarrow> hardening_check" where
  "admin_lan_check sn =
     (case sn_policy sn of None \<Rightarrow> unprobed Hc_Admin_Lan 15
      | Some d \<Rightarrow> passed Hc_Admin_Lan 15 (js_is_one (js_get ''security_rule'' d)))"

definition wan_rules_check :: "snapshot \<Rightarrow> hardening_check" where
  "wan_rules_check sn =
     (case sn_rules sn of None \<Rightarrow> unprobed Hc_Wan_Rules 10
      | Some d \<Rightarrow> passed Hc_Wan_Rules 10 (filter opens_wan (js_items (js_get ''res'' d)) = []))"

definition service_check :: "snapshot \<Rightarrow> string \<Rightarrow> check_id \<Rightarrow> int \<Rightarrow> hardening_check" where
  "service_check sn svc i max_pts =
     (case sn_status sn of None \<Rightarrow> unprobed i max_pts
      | Some d \<Rightarrow> passed i max_pts (service_running svc d))"

definition wan_online_check :: "snapshot \<Rightarrow> hardening_check" where
  "wan_online_check sn =
     (case sn_status sn of None \<Rightarrow> unprobed Hc_Wan_Online 5
      | Some d \<Rightarrow> passed Hc_Wan_Online 5 (wan_is_online d))"

definition temp_check :: "snapshot \<Rightarrow> hardening_check option" where
  "temp_check sn =
     (case sn_status sn of None \<Rightarrow> Some (unprobed Hc_Temperature 5)
      | Some d \<Rightarrow> grade_temperature (temperature d))"

definition ipv6_check :: "snapshot \<Rightarrow> hardening_check" where
  "ipv6_check sn =
     (case sn_ipv6 sn of None \<Rightarrow> unprobed Hc_Ipv6 5
      | Some d \<Rightarrow> passed Hc_Ipv6 5 (js_true (js_get ''enable'' d)))"

section \<open>SSH\<close>

type_synonym ssh_fn = "string \<Rightarrow> exec_result"

definition ssh_output :: "string \<Rightarrow> string \<Rightarrow> string" where
  "ssh_output out err = py_lower (py_strip (out @ err))"

definition falsy_words :: "string list" where
  "falsy_words = [''off'', ''0'', ''no'', ''false'']"

definition ssh_check_key_only :: "ssh_fn \<Rightarrow> hardening_check" where
  "ssh_check_key_only run =
     (case run ''uci get dropbear.@dropbear[0].PasswordAuth 2>&1'' of
        Raised \<Rightarrow> unprobed Hc_Ssh_Key 15
      | Exited code out err \<Rightarrow>
          let output = ssh_output out err in
          if py_contains ''entry not found'' output then mk_check Hc_Ssh_Key 0 15 Hs_Ready
          else if code \<noteq> 0 then mk_check Hc_Ssh_Key 0 15 Hs_Error
          else passed Hc_Ssh_Key 15 (output \<in> set falsy_words))"

definition ssh_check_upnp_off :: "ssh_fn \<Rightarrow> hardening_check" where
  "ssh_check_upnp_off run =
     (case run ''uci get upnpd.config.enabled 2>&1'' of
        Raised \<Rightarrow> unprobed Hc_Upnp 5
      | Exited code out err \<Rightarrow>
          let output = ssh_output out err in
          if py_contains ''entry not found'' output then mk_check Hc_Upnp 5 5 Hs_Ready
          else if code \<noteq> 0 then mk_check Hc_Upnp 0 5 Hs_Error
          else passed Hc_Upnp 5 (output \<in> set falsy_words))"

text \<open>The connection as the functions of the touchscreen expect it.\<close>

definition as_shell :: "ssh_fn \<Rightarrow> unit ssh" where
  "as_shell run = (\<lambda>d cmd. case run cmd of Raised \<Rightarrow> (d, Inl ''SSH error'') | Exited code out err \<Rightarrow> (d, Inr (out, err)))"

definition grade_screen :: "screen_status \<Rightarrow> int" where
  "grade_screen st =
     (if \<not> has_pin st then 0
      else if \<not> ss_enabled st then 2
      else if ss_strength st = Weak then 3
      else if auto_lock_seconds st = 0 \<or> 300 < auto_lock_seconds st then 6
      else if ss_strength st = pin_strength.Medium \<or> 120 < auto_lock_seconds st then 8
      else 10)"

definition ssh_check_screen_lock :: "ssh_fn \<Rightarrow> hardening_check" where
  "ssh_check_screen_lock run =
     (case snd (get_status (as_shell run) ()) of
        Inl e \<Rightarrow> unprobed Hc_Screen 10
      | Inr st \<Rightarrow> mk_check Hc_Screen (grade_screen st) 10 Hs_Ready)"

fun meminfo :: "int \<times> int \<Rightarrow> string list \<Rightarrow> (int \<times> int) option" where
  "meminfo acc [] = Some acc"
| "meminfo (tot, avail) (line # lines) =
     (case py_split_ws line of
        key # v # _ \<Rightarrow>
          if starts_with ''MemTotal'' key
          then (case py_int v of Some n \<Rightarrow> meminfo (n, avail) lines | None \<Rightarrow> None)
          else if starts_with ''MemAvailable'' key
          then (case py_int v of Some n \<Rightarrow> meminfo (tot, n) lines | None \<Rightarrow> None)
          else meminfo (tot, avail) lines
      | _ \<Rightarrow> meminfo (tot, avail) lines)"

definition grade_memory :: "int \<Rightarrow> int" where
  "grade_memory avail_mb =
     (if 200 \<le> avail_mb then 10 else if 100 \<le> avail_mb then 5 else if 50 \<le> avail_mb then 2 else 0)"

definition MEMINFO_CMD :: string where
  "MEMINFO_CMD = ''grep -E '' @ [squote] @ ''^(MemTotal|MemAvailable):'' @ [squote] @ '' /proc/meminfo''"

definition ssh_check_memory :: "ssh_fn \<Rightarrow> hardening_check option" where
  "ssh_check_memory run =
     (case run MEMINFO_CMD of
        Raised \<Rightarrow> Some (unprobed Hc_Memory 10)
      | Exited code out err \<Rightarrow>
          (case meminfo (0, 0) (py_splitlines out) of
             None \<Rightarrow> None
           | Some (tot, avail) \<Rightarrow>
               Some (if tot = 0 then mk_check Hc_Memory 0 10 Hs_Error
                     else mk_check Hc_Memory (grade_memory (avail div 1024)) 10 Hs_Ready)))"

definition RAM_CMD :: string where
  "RAM_CMD =
     ''grep -c '' @ [squote] @ ''slate-ctrl:ram-mitigation'' @ [squote]
     @ '' /etc/crontabs/root 2>/dev/null || echo 0; pidof crond >/dev/null 2>&1 && echo running || echo stopped''"

definition grade_ram :: "string list \<Rightarrow> int" where
  "grade_ram lines =
     (let has_entry = (1 \<le> length lines \<and> py_strip (lines ! 0) \<noteq> ''0'');
          crond_running = (2 \<le> length lines \<and> py_strip (lines ! 1) = ''running'')
      in if has_entry \<and> crond_running then 5 else if has_entry \<and> \<not> crond_running then 2 else 0)"

definition ssh_check_ram_mitigation :: "ssh_fn \<Rightarrow> hardening_check" where
  "ssh_check_ram_mitigation run =
     (case run RAM_CMD of
        Raised \<Rightarrow> unprobed Hc_Ram_Mitigation 5
      | Exited code out err \<Rightarrow> mk_check Hc_Ram_Mitigation (grade_ram (py_splitlines (py_strip out))) 5 Hs_Ready)"

subsection \<open>Configuration read over SSH\<close>

text \<open>
  A line of \<^verbatim>\<open>uci show\<close> below a package: its section, its option (\<^const>\<open>None\<close> for the header of the section) and
  its value without quotes.
\<close>

definition uci_value :: "string \<Rightarrow> string" where
  "uci_value v = strip_by (\<lambda>c. c = squote \<or> c = dquote) (py_strip v)"

definition uci_line :: "string \<Rightarrow> string \<Rightarrow> (string \<times> string option \<times> string) option" where
  "uci_line pkg line =
     (let l = py_strip line in
      if \<not> starts_with (pkg @ ''.'') l \<or> CHR ''='' \<notin> set l then None
      else case py_partition (CHR ''='') l of (key, v) \<Rightarrow>
        (case py_split (CHR ''.'') key of
           [p, s] \<Rightarrow> Some (s, None, uci_value v)
         | p # s # a # as \<Rightarrow> Some (s, Some (py_join ''.'' (a # as)), uci_value v)
         | _ \<Rightarrow> None))"

type_synonym uci_sections = "(string, (string, string) dict) dict"

definition put_option :: "string \<Rightarrow> string \<Rightarrow> string \<Rightarrow> uci_sections \<Rightarrow> uci_sections" where
  "put_option sec opt v d = dict_set sec (dict_set opt v (dict_get_or d sec [])) d"

definition wireless_sections :: "string \<Rightarrow> uci_sections" where
  "wireless_sections out =
     foldl (\<lambda>d line. case uci_line ''wireless'' line of Some (sec, Some a, v) \<Rightarrow> put_option sec a v d | _ \<Rightarrow> d)
       [] (py_splitlines out)"

definition firewall_sections :: "string \<Rightarrow> uci_sections" where
  "firewall_sections out =
     foldl (\<lambda>d line. case uci_line ''firewall'' line of
              Some (sec, Some a, v) \<Rightarrow> put_option sec a v d
            | Some (sec, None, v) \<Rightarrow> put_option sec ''__type__'' v d
            | None \<Rightarrow> d)
       [] (py_splitlines out)"

definition active_ssid :: "(string, string) dict \<Rightarrow> bool" where
  "active_ssid attrs \<longleftrightarrow> dict_get_or attrs ''ssid'' [] \<noteq> [] \<and> dict_get attrs ''disabled'' \<noteq> Some ''1''"

definition isolated :: "(string, string) dict \<Rightarrow> bool" where
  "isolated attrs \<longleftrightarrow> dict_get attrs ''isolate'' = Some ''1''"

definition isolation_points :: "(string, string) dict list \<Rightarrow> int" where
  "isolation_points active = py_round (of_nat (length (filter isolated active)) / of_nat (length active) * 5)"

definition wifi_isolation_check :: "ssh_fn option \<Rightarrow> hardening_check" where
  "wifi_isolation_check ssh =
     (case ssh of
        None \<Rightarrow> unprobed Hc_Isolation 5
      | Some run \<Rightarrow>
          (case run ''uci show wireless 2>/dev/null'' of
             Raised \<Rightarrow> mk_check Hc_Isolation 0 5 Hs_Error
           | Exited code out err \<Rightarrow>
               let active = filter active_ssid (map snd (wireless_sections out))
               in if active = [] then mk_check Hc_Isolation 0 5 Hs_Skipped
                  else mk_check Hc_Isolation (isolation_points active) 5 Hs_Ready))"

definition admin_ports :: "string list" where
  "admin_ports = [''22'', ''80'', ''443'']"

text \<open>The target of the rule is not looked at.\<close>

definition whitelist_rule :: "(string, string) dict \<Rightarrow> bool" where
  "whitelist_rule attrs \<longleftrightarrow>
     dict_get attrs ''__type__'' = Some ''rule'' \<and> dict_get attrs ''enabled'' \<noteq> Some ''0''
     \<and> dict_get_or attrs ''src_ip'' [] \<noteq> []
     \<and> (\<exists>p\<in>set (py_split_ws (dict_get_or attrs ''dest_port'' [])). p \<in> set admin_ports)"

definition admin_ip_whitelist_check :: "ssh_fn option \<Rightarrow> hardening_check" where
  "admin_ip_whitelist_check ssh =
     (case ssh of
        None \<Rightarrow> unprobed Hc_Whitelist 5
      | Some run \<Rightarrow>
          (case run ''uci show firewall 2>/dev/null'' of
             Raised \<Rightarrow> mk_check Hc_Whitelist 0 5 Hs_Error
           | Exited code out err \<Rightarrow>
               if list_ex whitelist_rule (map snd (firewall_sections out)) then mk_check Hc_Whitelist 5 5 Hs_Ready
               else unprobed Hc_Whitelist 5))"

text \<open>LuCI over HTTPS, then over HTTP: the status and the header \<^verbatim>\<open>location\<close>, or a transport error.\<close>

datatype luci_reply = Luci_Error | Luci_Reply int string

definition luci_https_check :: "(luci_reply \<times> luci_reply) option \<Rightarrow> hardening_check" where
  "luci_https_check replies =
     (case replies of
        None \<Rightarrow> unprobed Hc_Luci 10
      | Some (Luci_Error, _) \<Rightarrow> mk_check Hc_Luci 0 10 Hs_Error
      | Some (Luci_Reply s _, Luci_Error) \<Rightarrow> mk_check Hc_Luci 5 10 Hs_Ready
      | Some (Luci_Reply s _, Luci_Reply h location) \<Rightarrow>
          if s = 404 \<and> h = 404 then unprobed Hc_Luci 10
          else if s \<notin> {200, 302, 303, 401, 403} then mk_check Hc_Luci 0 10 Hs_Ready
          else if h \<in> {301, 302, 303, 308} \<and> starts_with ''https://'' location \<or> h \<in> {403, 404}
          then mk_check Hc_Luci 10 10 Hs_Ready
          else mk_check Hc_Luci 5 10 Hs_Ready)"

section \<open>Exploits and the controller itself\<close>

definition EXPLOIT_MAX_POINTS :: int where "EXPLOIT_MAX_POINTS = 25"

text \<open>What the check reads: the device, the vulnerability tables, the exploit cache and the time.\<close>

record exploit_inputs =
  xi_device :: nat
  xi_db :: sec_db
  xi_cache :: "cache_row list"
  xi_now :: instant

definition is_triaged :: "exploit_inputs \<Rightarrow> string \<Rightarrow> string \<Rightarrow> bool" where
  "is_triaged x cve pkg \<longleftrightarrow>
     dict_get (acked_keys (xi_db x)) (cve, pkg) \<noteq> None
     \<or> (case dict_get (risk_accepted_keys (xi_db x) (xi_now x)) (cve, pkg) of
          None \<Rightarrow> False | Some (_, expired) \<Rightarrow> \<not> expired)"

definition open_cves :: "exploit_inputs \<Rightarrow> nat \<Rightarrow> string list" where
  "open_cves x sid =
     map cve_id (filter (\<lambda>f. cve_id f \<noteq> [] \<and> \<not> is_triaged x (cve_id f) (package_name f)) (list_findings (xi_db x) sid))"

definition score_penalty :: "rat \<Rightarrow> int" where
  "score_penalty s = (if 80 \<le> s then 5 else if 60 \<le> s then 2 else if 40 \<le> s then 1 else 0)"

definition exploit_check :: "exploit_inputs option \<Rightarrow> hardening_check" where
  "exploit_check inp =
     (case inp of
        None \<Rightarrow> mk_check Hc_Exploits 0 EXPLOIT_MAX_POINTS Hs_Skipped
      | Some x \<Rightarrow>
          (case latest_snapshot (xi_db x) (xi_device x) of
             None \<Rightarrow> unprobed Hc_Exploits EXPLOIT_MAX_POINTS
           | Some sn \<Rightarrow>
               let cves = open_cves x (snap_id sn) in
               if cves = [] then mk_check Hc_Exploits EXPLOIT_MAX_POINTS EXPLOIT_MAX_POINTS Hs_Ready
               else
                 let penalty = sum_list (map (\<lambda>(c, e). score_penalty (en_score e)) (load_for_cves cves (xi_cache x)))
                 in mk_check Hc_Exploits (max (EXPLOIT_MAX_POINTS - penalty) 0) EXPLOIT_MAX_POINTS Hs_Ready))"

definition PLACEHOLDER_PASSWORDS :: "string list" where
  "PLACEHOLDER_PASSWORDS =
     [[], ''change-me'', ''changeme'', ''password'', ''admin'', ''1234'', ''12345'', ''123456'', ''root'', ''default'']"

definition controller_admin_password_check :: "string \<Rightarrow> hardening_check" where
  "controller_admin_password_check password =
     (let pwd = py_strip password; n = length pwd in
      mk_check Hc_Admin_Password
        (if py_lower pwd \<in> set PLACEHOLDER_PASSWORDS then 0 else if n < 12 then 3 else if n < 20 then 8 else 15)
        15 Hs_Ready)"

definition PLACEHOLDER_JWT_SECRETS :: "string list" where
  "PLACEHOLDER_JWT_SECRETS =
     [''dev-secret-change-me'', ''change-me'', ''change-me-to-a-long-random-string'', ''changeme'', ''secret'', []]"

definition controller_jwt_secret_check :: "bool \<Rightarrow> string \<Rightarrow> hardening_check" where
  "controller_jwt_secret_check bypass secret =
     mk_check Hc_Jwt
       (if bypass then 0 else if secret \<in> set PLACEHOLDER_JWT_SECRETS then 0
        else if length secret < 32 then 4 else if length secret < 48 then 10 else 15)
       15 Hs_Ready"

text \<open>\<^verbatim>\<open>_refuse_placeholder_jwt_secret\<close> of \<^verbatim>\<open>main.py\<close>: whether the controller refuses to start.\<close>

definition refuses_jwt_secret :: "bool \<Rightarrow> string \<Rightarrow> bool" where
  "refuses_jwt_secret bypass secret \<longleftrightarrow>
     \<not> bypass \<and> (secret \<in> set PLACEHOLDER_JWT_SECRETS \<or> length secret < 32)"

definition doh_list :: "ag_filter \<Rightarrow> bool" where
  "doh_list f \<longleftrightarrow>
     fl_enabled f \<and> (py_contains ''hagezi-doh-vpn'' (py_lower (fl_url f)) \<or> py_contains ''doh'' (py_lower (fl_name f)))"

definition adguard_dns_protection_check ::
  "('d ag_http \<times> 'd ag_world) option \<Rightarrow> hardening_check list option" where
  "adguard_dns_protection_check manager =
     (case manager of
        None \<Rightarrow> Some [unprobed Hc_Dnssec 5, unprobed Hc_Doh 5]
      | Some (http, w) \<Rightarrow>
          (case get_dns_config http w of (cfg, w1) \<Rightarrow>
           let dnssec = (case cfg of
                 Inl e \<Rightarrow> unprobed Hc_Dnssec 5
               | Inr j \<Rightarrow> passed Hc_Dnssec 5 (js_true (js_get ''dnssec_enabled'' j)))
           in case fst (list_filters http w1) of
                Inl e \<Rightarrow> Some [dnssec, unprobed Hc_Doh 5]
              | Inr None \<Rightarrow> None
              | Inr (Some fs) \<Rightarrow> Some [dnssec, passed Hc_Doh 5 (list_ex doh_list fs)]))"

section \<open>The gauge\<close>

record 'd gauge_inputs =
  gi_rpc :: rpc
  gi_ssh :: "ssh_fn option"
  gi_luci :: "luci_reply \<times> luci_reply"
  gi_exploits :: "exploit_inputs option"
  gi_admin_password :: string
  gi_jwt_bypass :: bool
  gi_jwt_secret :: string
  gi_adguard :: "('d ag_http \<times> 'd ag_world) option"

definition rpc_checks :: "rpc \<Rightarrow> (bool \<times> hardening_check list) option" where
  "rpc_checks rpc =
     (case build_snapshot rpc of
        None \<Rightarrow> Some (False, [])
      | Some sn \<Rightarrow>
          (case temp_check sn of
             None \<Rightarrow> None
           | Some temp \<Rightarrow>
               Some (True,
                 [fw_check sn, init_check sn, https_check sn, admin_lan_check sn, wan_rules_check sn,
                  service_check sn ''tailscale'' Hc_Tailscale 10, service_check sn ''adguard'' Hc_Adguard 5,
                  wan_online_check sn, temp, ipv6_check sn])))"

definition ssh_checks :: "ssh_fn option \<Rightarrow> hardening_check list option" where
  "ssh_checks ssh =
     (case ssh of
        None \<Rightarrow> Some [unprobed Hc_Ssh_Key 15, unprobed Hc_Upnp 5, unprobed Hc_Memory 10, unprobed Hc_Screen 10,
                       unprobed Hc_Ram_Mitigation 5]
      | Some run \<Rightarrow>
          (case ssh_check_memory run of
             None \<Rightarrow> None
           | Some m \<Rightarrow> Some [ssh_check_key_only run, ssh_check_upnp_off run, m, ssh_check_screen_lock run,
                             ssh_check_ram_mitigation run]))"

definition compute_hardening :: "'d gauge_inputs \<Rightarrow> hardening_report option" where
  "compute_hardening g =
     (case rpc_checks (gi_rpc g) of
        None \<Rightarrow> None
      | Some (reachable, c1) \<Rightarrow>
          (case ssh_checks (gi_ssh g) of
             None \<Rightarrow> None
           | Some c2 \<Rightarrow>
               (case adguard_dns_protection_check (gi_adguard g) of
                  None \<Rightarrow> None
                | Some c4 \<Rightarrow>
                    let cs = c1 @ c2 @
                          [luci_https_check (map_option (\<lambda>_. gi_luci g) (gi_ssh g)), wifi_isolation_check (gi_ssh g),
                           admin_ip_whitelist_check (gi_ssh g), exploit_check (gi_exploits g),
                           controller_admin_password_check (gi_admin_password g),
                           controller_jwt_secret_check (gi_jwt_bypass g) (gi_jwt_secret g)] @ c4
                    in Some \<lparr>hr_score = sum_list (map hc_points cs), hr_max_score = sum_list (map hc_max cs),
                             hr_reachable = reachable, hr_checks = cs\<rparr>)))"

section \<open>Properties\<close>

definition check_ok :: "hardening_check \<Rightarrow> bool" where
  "check_ok c \<longleftrightarrow> 0 \<le> hc_points c \<and> hc_points c \<le> hc_max c"

lemma mk_check_simps [simp]:
  "hc_points (mk_check i p m st) = p" "hc_max (mk_check i p m st) = m"
  "hc_max (passed i m b) = m" "hc_max (unprobed i m) = m" "hc_points (unprobed i m) = 0"
  by (simp_all add: mk_check_def passed_def unprobed_def)

lemma check_ok_mk [simp]:
  "check_ok (mk_check i p m st) \<longleftrightarrow> 0 \<le> p \<and> p \<le> m"
  "check_ok (passed i m b) \<longleftrightarrow> 0 \<le> m"
  "check_ok (unprobed i m) \<longleftrightarrow> 0 \<le> m"
  by (auto simp: check_ok_def passed_def unprobed_def mk_check_def)

lemmas snapshot_check_defs =
  fw_check_def init_check_def https_check_def admin_lan_check_def wan_rules_check_def service_check_def
  wan_online_check_def ipv6_check_def

lemma snapshot_checks_ok:
  "check_ok (fw_check sn)" "hc_max (fw_check sn) = 10"
  "check_ok (init_check sn)" "hc_max (init_check sn) = 15"
  "check_ok (https_check sn)" "hc_max (https_check sn) = 10"
  "check_ok (admin_lan_check sn)" "hc_max (admin_lan_check sn) = 15"
  "check_ok (wan_rules_check sn)" "hc_max (wan_rules_check sn) = 10"
  "0 \<le> m \<Longrightarrow> check_ok (service_check sn svc i m)" "hc_max (service_check sn svc i m) = m"
  "check_ok (wan_online_check sn)" "hc_max (wan_online_check sn) = 5"
  "check_ok (ipv6_check sn)" "hc_max (ipv6_check sn) = 5"
  by (auto simp: snapshot_check_defs Let_def split: option.splits)

lemma temp_check_ok: "temp_check sn = Some c \<Longrightarrow> check_ok c \<and> hc_max c = 5"
  by (auto simp: temp_check_def grade_temperature_def split: option.splits json.splits)

lemma grades:
  "0 \<le> grade_screen st" "grade_screen st \<le> 10" "0 \<le> grade_memory n" "grade_memory n \<le> 10"
  "0 \<le> grade_ram ls" "grade_ram ls \<le> 5"
  by (auto simp: grade_screen_def grade_memory_def grade_ram_def Let_def)

lemma ssh_checks_ok:
  "check_ok (ssh_check_key_only run)" "hc_max (ssh_check_key_only run) = 15"
  "check_ok (ssh_check_upnp_off run)" "hc_max (ssh_check_upnp_off run) = 5"
  "check_ok (ssh_check_screen_lock run)" "hc_max (ssh_check_screen_lock run) = 10"
  "check_ok (ssh_check_ram_mitigation run)" "hc_max (ssh_check_ram_mitigation run) = 5"
  by (auto simp: ssh_check_key_only_def ssh_check_upnp_off_def ssh_check_screen_lock_def ssh_check_ram_mitigation_def
      Let_def grades split: exec_result.splits sum.splits)

lemma memory_check_ok: "ssh_check_memory run = Some c \<Longrightarrow> check_ok c \<and> hc_max c = 10"
  by (auto simp: ssh_check_memory_def grades split: exec_result.splits option.splits)

lemma isolation_points_range: "0 \<le> isolation_points active" "isolation_points active \<le> 5"
proof -
  let ?x = "of_nat (length (filter isolated active)) / of_nat (length active) :: rat"
  have "0 \<le> ?x" "?x \<le> 1" by (simp_all add: divide_le_eq_1)
  moreover have "0 \<le> x \<Longrightarrow> x \<le> 1 \<Longrightarrow> 0 \<le> x * 5 \<and> x * 5 \<le> 5" for x :: rat by simp
  ultimately have "0 \<le> ?x * 5 \<and> ?x * 5 \<le> 5" by blast
  then have "py_round 0 \<le> py_round (?x * 5)" "py_round (?x * 5) \<le> py_round 5" by (blast intro: py_round_mono)+
  then show "0 \<le> isolation_points active" "isolation_points active \<le> 5"
    by (simp_all add: isolation_points_def py_round_def)
qed

lemma other_checks_ok:
  "check_ok (wifi_isolation_check ssh)" "hc_max (wifi_isolation_check ssh) = 5"
  "check_ok (admin_ip_whitelist_check ssh)" "hc_max (admin_ip_whitelist_check ssh) = 5"
  "check_ok (luci_https_check l)" "hc_max (luci_https_check l) = 10"
  "check_ok (controller_admin_password_check p)" "hc_max (controller_admin_password_check p) = 15"
  "check_ok (controller_jwt_secret_check b s)" "hc_max (controller_jwt_secret_check b s) = 15"
  by (auto simp: wifi_isolation_check_def admin_ip_whitelist_check_def luci_https_check_def
      controller_admin_password_check_def controller_jwt_secret_check_def Let_def isolation_points_range
      split: option.splits exec_result.splits luci_reply.splits prod.splits)

lemma exploit_check_ok: "check_ok (exploit_check x)" "hc_max (exploit_check x) = 25"
proof -
  have "0 \<le> sum_list (map (\<lambda>(c, e). score_penalty (en_score e)) l)" for l :: "(string, enrichment) dict"
    by (induction l) (auto simp: score_penalty_def)
  then show "check_ok (exploit_check x)" "hc_max (exploit_check x) = 25"
    by (auto simp: exploit_check_def EXPLOIT_MAX_POINTS_def Let_def split: option.splits)
qed

lemma rpc_checks_ok:
  "rpc_checks rpc = Some (r, cs) \<Longrightarrow> list_all check_ok cs \<and> sum_list (map hc_max cs) = (if r then 90 else 0)"
  by (auto simp: rpc_checks_def snapshot_checks_ok temp_check_ok split: option.splits)

lemma all_ssh_checks_ok: "ssh_checks ssh = Some cs \<Longrightarrow> list_all check_ok cs \<and> sum_list (map hc_max cs) = 45"
  by (auto simp: ssh_checks_def ssh_checks_ok memory_check_ok split: option.splits)

lemma adguard_checks_ok: "adguard_dns_protection_check m = Some cs \<Longrightarrow> list_all check_ok cs \<and> sum_list (map hc_max cs) = 10"
  by (auto simp: adguard_dns_protection_check_def Let_def split: option.splits prod.splits sum.splits)

lemma sum_checks: "list_all check_ok cs \<Longrightarrow> 0 \<le> sum_list (map hc_points cs) \<and> sum_list (map hc_points cs) \<le> sum_list (map hc_max cs)"
  by (induction cs) (auto simp: check_ok_def)

text \<open>
  The gauge never leaves its scale, and the scale is fixed: the maximum is 220 points when the device answers
  and 130 when it does not, whatever the single checks could find out, and the score lies between 0 and the
  maximum, so the percentage lies between 0 and 100.
\<close>

theorem gauge_on_fixed_scale:
  assumes "compute_hardening g = Some rep"
  shows "hr_max_score rep = (if hr_reachable rep then 220 else 130)
    \<and> 0 \<le> hr_score rep \<and> hr_score rep \<le> hr_max_score rep \<and> 0 \<le> hr_percent rep \<and> hr_percent rep \<le> 100"
proof -
  obtain r c1 c2 c4 where cs: "rpc_checks (gi_rpc g) = Some (r, c1)" "ssh_checks (gi_ssh g) = Some c2"
      "adguard_dns_protection_check (gi_adguard g) = Some c4"
    using assms by (auto simp: compute_hardening_def split: option.splits)
  define c3 where "c3 = [luci_https_check (map_option (\<lambda>_. gi_luci g) (gi_ssh g)), wifi_isolation_check (gi_ssh g),
      admin_ip_whitelist_check (gi_ssh g), exploit_check (gi_exploits g),
      controller_admin_password_check (gi_admin_password g), controller_jwt_secret_check (gi_jwt_bypass g) (gi_jwt_secret g)]"
  let ?cs = "c1 @ c2 @ c3 @ c4"
  have c3: "list_all check_ok c3" "sum_list (map hc_max c3) = 75"
    by (simp_all add: c3_def other_checks_ok exploit_check_ok)
  have rep: "rep = \<lparr>hr_score = sum_list (map hc_points ?cs), hr_max_score = sum_list (map hc_max ?cs),
      hr_reachable = r, hr_checks = ?cs\<rparr>"
    using assms cs by (simp add: compute_hardening_def Let_def c3_def)
  have mx: "hr_max_score rep = (if r then 220 else 130)"
    using rpc_checks_ok [OF cs(1)] all_ssh_checks_ok [OF cs(2)] adguard_checks_ok [OF cs(3)] c3 by (simp add: rep)
  have "list_all check_ok ?cs"
    using rpc_checks_ok [OF cs(1)] all_ssh_checks_ok [OF cs(2)] adguard_checks_ok [OF cs(3)] c3 by simp
  then have sc: "0 \<le> hr_score rep" "hr_score rep \<le> hr_max_score rep"
    using sum_checks [of ?cs] by (simp_all add: rep)
  let ?x = "of_int (hr_score rep * 100) / of_int (hr_max_score rep) :: rat"
  have pos: "0 < hr_max_score rep" using mx by simp
  have "0 \<le> ?x" using sc pos by simp
  moreover have "of_int (hr_score rep * 100) \<le> (of_int (hr_max_score rep * 100) :: rat)"
    using sc by (simp only: of_int_le_iff)
  then have "?x \<le> 100" using pos by (simp add: divide_le_eq)
  ultimately have "py_round 0 \<le> py_round ?x" "py_round ?x \<le> py_round 100" by (auto intro: py_round_mono)
  then have "0 \<le> hr_percent rep \<and> hr_percent rep \<le> 100" using pos by (simp add: hr_percent_def py_round_def)
  with mx sc show ?thesis by (simp add: rep)
qed

definition sample_gauge :: "rpc \<Rightarrow> unit gauge_inputs" where
  "sample_gauge rpc =
     \<lparr>gi_rpc = rpc, gi_ssh = None, gi_luci = (Luci_Error, Luci_Error), gi_exploits = None,
      gi_admin_password = ''correct horse battery staple'', gi_jwt_bypass = False,
      gi_jwt_secret = ''0123456789012345678901234567890123456789012345678'', gi_adguard = None\<rparr>"

definition bare_device :: rpc where "bare_device = (\<lambda>grp meth. Rpc_Value (J_Obj []))"

lemma gauge_on_fixed_scale_witness:
  "hr_max_score (the (compute_hardening (sample_gauge bare_device))) = 220
   \<and> hr_score (the (compute_hardening (sample_gauge bare_device))) \<le> 220"
proof -
  have "compute_hardening (sample_gauge bare_device) = Some (the (compute_hardening (sample_gauge bare_device)))"
    "hr_reachable (the (compute_hardening (sample_gauge bare_device)))"
    by code_simp+
  with gauge_on_fixed_scale [OF this(1)] show ?thesis by simp
qed



text \<open>A device that cannot be reached is shown a better gauge than the same device answering.\<close>

lemma unreachable_scores_better:
  "hr_percent (the (compute_hardening (sample_gauge (\<lambda>grp meth. Rpc_Unreachable)))) = 23
   \<and> hr_percent (the (compute_hardening (sample_gauge bare_device))) = 18"
  by code_simp

text \<open>Newer firmware lines count as outdated, since only two prefixes are accepted.\<close>

lemma newer_firmware_outdated: "\<not> is_recent ''4.10.1''" "\<not> is_recent ''5.0.0''"
  by code_simp+

text \<open>A rule that drops one client's access to the administration ports counts as a whitelist.\<close>

lemma drop_rule_counts_as_whitelist:
  "whitelist_rule [(''__type__'', ''rule''), (''src_ip'', ''192.168.8.66''), (''dest_port'', ''22''), (''target'', ''DROP'')]"
  by code_simp

text \<open>What the check on the secret expects cannot be seen on a controller that has started.\<close>

lemma started_secret_scores:
  assumes "\<not> refuses_jwt_secret False secret"
  shows "10 \<le> hc_points (controller_jwt_secret_check False secret)"
  using assms by (auto simp: refuses_jwt_secret_def controller_jwt_secret_check_def)

end
