(* ===== verification/Ts_Audit.thy ===== *)
theory Ts_Audit
  imports Py_Json Py_Match
begin

text \<open>
  The security audit of Tailscale (\<^verbatim>\<open>backend/app/tailscale/audit.py\<close>): the parsers of what the probes print, the
  local checks, the checks of the whole tailnet through the administration API, and the score. The evidence and
  the advice shown with a finding are left out. \<open>loads\<close> is \<^verbatim>\<open>json.loads\<close> and \<open>iso8601\<close> reads a time
  (\<^verbatim>\<open>datetime.fromisoformat\<close> after the replacement of the suffix \<^verbatim>\<open>Z\<close>), counted from 1970; a probe that fails over
  SSH is \<^const>\<open>None\<close>.
\<close>

section \<open>Findings\<close>

datatype audit_severity = Au_Critical | Au_High | Au_Medium | Au_Low | Au_Info | Au_Pass

datatype audit_status = St_Pass | St_Fail | St_Warn | St_Info | St_Skip

record audit_finding =
  af_id :: string
  af_status :: audit_status
  af_severity :: audit_severity
  af_fix_available :: bool

definition mk_finding :: "string \<Rightarrow> audit_status \<Rightarrow> audit_severity \<Rightarrow> audit_finding" where
  "mk_finding i st sev = \<lparr>af_id = i, af_status = st, af_severity = sev, af_fix_available = False\<rparr>"

abbreviation pass_f :: "string \<Rightarrow> audit_finding" where "pass_f i \<equiv> mk_finding i St_Pass Au_Pass"
abbreviation info_f :: "string \<Rightarrow> audit_finding" where "info_f i \<equiv> mk_finding i St_Info Au_Info"
abbreviation skip_f :: "string \<Rightarrow> audit_finding" where "skip_f i \<equiv> mk_finding i St_Skip Au_Info"

fun PENALTY :: "audit_severity \<Rightarrow> int" where
  "PENALTY Au_Critical = 25"
| "PENALTY Au_High = 10"
| "PENALTY Au_Medium = 5"
| "PENALTY Au_Low = 2"
| "PENALTY Au_Info = 0"
| "PENALTY Au_Pass = 0"

definition TAILSCALE_FIXABLE_IDS :: "string list" where
  "TAILSCALE_FIXABLE_IDS = [''daemon_running'', ''uci_enable'', ''shields_up'']"

datatype grade = Grade_A | Grade_B | Grade_C | Grade_D | Grade_F

definition grade_of :: "int \<Rightarrow> grade" where
  "grade_of score =
     (if 90 \<le> score then Grade_A else if 75 \<le> score then Grade_B else if 60 \<le> score then Grade_C
      else if 40 \<le> score then Grade_D else Grade_F)"

section \<open>Parsers\<close>

subsection \<open>The administration firewall\<close>

text \<open>The text from every start of a line on.\<close>

fun after_newlines :: "string \<Rightarrow> string list" where
  "after_newlines [] = []"
| "after_newlines (c # s) = (if c = CHR 0x0A then s # after_newlines s else after_newlines s)"

definition is_quote :: "char \<Rightarrow> bool" where
  "is_quote c \<longleftrightarrow> c = squote \<or> c = dquote"

definition at_eol :: "string \<Rightarrow> bool" where
  "at_eol s \<longleftrightarrow> s = [] \<or> hd s = CHR 0x0A"

definition ends_value :: "string \<Rightarrow> bool" where
  "ends_value s \<longleftrightarrow> at_eol s \<or> (s \<noteq> [] \<and> is_quote (hd s) \<and> at_eol (tl s))"

text \<open>
  The words after the equals sign: the longest run without quotes that starts and ends with a word and is
  followed by an optional quote and the end of a line. White space may be a line break here.
\<close>

definition match_words :: "string \<Rightarrow> string option" where
  "match_words r =
     (let run = takeWhile (\<lambda>c. \<not> is_quote c) r in
      if run = [] \<or> py_isspace (hd run) then None
      else map_option (\<lambda>n. take n run)
             (find (\<lambda>n. \<not> py_isspace (run ! (n - 1)) \<and> ends_value (drop n r)) (rev [1..<Suc (length run)])))"

definition match_dest_port :: "string \<Rightarrow> string option" where
  "match_dest_port s =
     (case strip_prefix ''firewall.SC_FR_TS_ADMIN_DROP_ALL.dest_port='' s of
        None \<Rightarrow> None
      | Some r \<Rightarrow> match_words (if r \<noteq> [] \<and> is_quote (hd r) then tl r else r))"

definition first_some :: "('a \<Rightarrow> 'b option) \<Rightarrow> 'a list \<Rightarrow> 'b option" where
  "first_some f xs = (case List.map_filter f xs of y # _ \<Rightarrow> Some y | [] \<Rightarrow> None)"

definition parse_admin_fw_protected_ports :: "string option \<Rightarrow> int list" where
  "parse_admin_fw_protected_ports raw =
     (case raw of
        None \<Rightarrow> []
      | Some s \<Rightarrow>
          (case first_some match_dest_port (s # after_newlines s) of
             None \<Rightarrow> []
           | Some ws \<Rightarrow> List.map_filter py_int (py_split_ws ws)))"

definition allow_section :: "string \<Rightarrow> bool" where
  "allow_section line \<longleftrightarrow>
     (case strip_prefix ''firewall.SC_FR_TS_ADMIN_ALLOW_'' line of
        None \<Rightarrow> False
      | Some r \<Rightarrow>
          let name = takeWhile (\<lambda>c. py_isupper c \<or> py_isdigit c \<or> c = CHR ''_'') r
          in name \<noteq> [] \<and> drop (length name) r = ''=rule'')"

definition count_admin_fw_allow_ips :: "string option \<Rightarrow> nat" where
  "count_admin_fw_allow_ips raw =
     (case raw of None \<Rightarrow> 0 | Some s \<Rightarrow> length (filter allow_section (py_split (CHR 0x0A) s)))"

definition KNOWN_SERVICE_PORTS_TCP :: "int list" where
  "KNOWN_SERVICE_PORTS_TCP = [53, 34641, 3053]"

definition KNOWN_SERVICE_PORTS_UDP :: "int list" where
  "KNOWN_SERVICE_PORTS_UDP = [53, 67, 123, 853, 3053, 5353, 41641]"

subsection \<open>Output of the client\<close>

definition parse_status :: "(string \<Rightarrow> json option) \<Rightarrow> string option \<Rightarrow> json" where
  "parse_status loads raw =
     (case raw of
        None \<Rightarrow> J_Obj []
      | Some s \<Rightarrow>
          if s = [] \<or> \<not> starts_with ''{'' (py_strip s) then J_Obj []
          else (case loads s of Some v \<Rightarrow> v | None \<Rightarrow> J_Obj []))"

text \<open>From the first opening brace to the last closing one.\<close>

definition braces :: "string \<Rightarrow> string option" where
  "braces s =
     (let t = rev (dropWhile (\<lambda>c. c \<noteq> CHR ''}'') (rev (dropWhile (\<lambda>c. c \<noteq> CHR ''{'') s)))
      in if t = [] then None else Some t)"

definition parse_netcheck :: "(string \<Rightarrow> json option) \<Rightarrow> string option \<Rightarrow> json" where
  "parse_netcheck loads raw =
     (case raw of
        None \<Rightarrow> J_Obj []
      | Some s \<Rightarrow>
          (case braces s of
             None \<Rightarrow> J_Obj []
           | Some t \<Rightarrow> (case loads t of Some v \<Rightarrow> v | None \<Rightarrow> J_Obj [])))"

text \<open>\<^verbatim>\<open>(\S+?)(?:,|$)\<close>: the shortest run that a comma or the end follows; the dollar also matches before a final line feed.\<close>

fun lazy_value :: "string \<Rightarrow> string option" where
  "lazy_value [] = None"
| "lazy_value (c # s) =
     (if py_isspace c then None
      else if s = [] \<or> hd s = CHR '','' \<or> s = [CHR 0x0A] then Some [c]
      else map_option (Cons c) (lazy_value s))"

definition match_pref :: "string \<Rightarrow> string \<Rightarrow> string option" where
  "match_pref key s =
     (case strip_prefix (dquote # key @ dquote # '':'') s of
        None \<Rightarrow> None
      | Some r \<Rightarrow> lazy_value (skip_ws r))"

definition PREF_KEYS :: "string list" where
  "PREF_KEYS =
     [''ShieldsUp'', ''RouteAll'', ''CorpDNS'', ''ExitNodeID'', ''ExitNodeIP'', ''AdvertiseRoutes'', ''Hostname'',
      ''ControlURL'', ''WantRunning'', ''RunSSH'', ''AdvertiseTags'']"

definition pref_value :: "string \<Rightarrow> json" where
  "pref_value g =
     (let v = py_strip (rstrip_by (\<lambda>c. c = CHR '','') g) in
      if v = ''true'' then J_Bool True
      else if v = ''false'' then J_Bool False
      else if v = ''null'' then J_Null
      else J_Str (strip_by (\<lambda>c. c = dquote) v))"

definition parse_prefs :: "(string \<Rightarrow> json option) \<Rightarrow> string option \<Rightarrow> json" where
  "parse_prefs loads raw =
     (case raw of
        None \<Rightarrow> J_Obj []
      | Some s \<Rightarrow>
          if s = [] then J_Obj []
          else (case loads s of
                  Some v \<Rightarrow> v
                | None \<Rightarrow>
                    J_Obj (List.map_filter
                      (\<lambda>k. map_option (\<lambda>g. (k, pref_value g)) (re_search (match_pref k) s)) PREF_KEYS)))"

section \<open>Local checks\<close>

definition check_daemon_running :: "json \<Rightarrow> audit_finding" where
  "check_daemon_running status =
     (if js_get ''BackendState'' status = J_Str ''Running'' then pass_f ''daemon_running''
      else mk_finding ''daemon_running'' St_Fail Au_Critical)"

definition check_auth_key_stored :: "bool \<Rightarrow> audit_finding" where
  "check_auth_key_stored has_auth_key = (if has_auth_key then pass_f ''auth_key_stored'' else info_f ''auth_key_stored'')"

definition self_node :: "json \<Rightarrow> json" where
  "self_node status = js_get ''Self'' status"

definition check_device_tagged :: "json \<Rightarrow> audit_finding" where
  "check_device_tagged status =
     (if js_true (js_get ''Tags'' (self_node status)) then pass_f ''device_tagged''
      else mk_finding ''device_tagged'' St_Fail Au_High)"

definition check_magicdns :: "json \<Rightarrow> audit_finding" where
  "check_magicdns status =
     (if js_true (js_get ''MagicDNSSuffix'' status) \<or> js_true (js_get ''MagicDNSSuffix'' (js_get ''CurrentTailnet'' status))
      then pass_f ''magicdns_enabled'' else mk_finding ''magicdns_enabled'' St_Fail Au_Low)"

definition check_shields_up :: "json \<Rightarrow> audit_finding" where
  "check_shields_up prefs =
     (case js_get ''ShieldsUp'' prefs of
        J_Bool True \<Rightarrow> pass_f ''shields_up''
      | J_Bool False \<Rightarrow> info_f ''shields_up''
      | _ \<Rightarrow> skip_f ''shields_up'')"

definition wide_route :: "string \<Rightarrow> bool" where
  "wide_route r \<longleftrightarrow>
     (case py_split (CHR ''/'') r of
        [_, p] \<Rightarrow> (case py_int p of Some n \<Rightarrow> n < 16 \<and> r \<notin> {''0.0.0.0/0'', ''::/0''} | None \<Rightarrow> False)
      | _ \<Rightarrow> False)"

definition check_advertise_routes_safe :: "json \<Rightarrow> audit_finding" where
  "check_advertise_routes_safe status =
     (if list_ex wide_route (map js_text (js_items (js_get ''PrimaryRoutes'' (self_node status))))
      then mk_finding ''advertise_routes_safe'' St_Fail Au_Medium else pass_f ''advertise_routes_safe'')"

definition peers_of :: "json \<Rightarrow> json list" where
  "peers_of status = (case js_get ''Peer'' status of J_Obj d \<Rightarrow> map snd d | _ \<Rightarrow> [])"

definition peer_matches :: "string \<Rightarrow> json \<Rightarrow> bool" where
  "peer_matches target p \<longleftrightarrow>
     js_is_obj p \<and>
     (target \<in> {js_text (js_get ''HostName'' p), js_text (js_get ''DNSName'' p)}
      \<or> J_Str target \<in> set (js_items (js_get ''TailscaleIPs'' p)))"

text \<open>The stored configuration: whether the device offers itself as an exit node, and the exit node it uses.\<close>

definition check_exit_node_consistency :: "json \<Rightarrow> bool \<Rightarrow> string \<Rightarrow> audit_finding" where
  "check_exit_node_consistency status advertise_exit target =
     (if advertise_exit \<and> target = [] then info_f ''exit_node_consistency''
      else if target \<noteq> [] then
        (if (case find (peer_matches target) (peers_of status) of
               Some p \<Rightarrow> js_true (js_get ''Online'' p) | None \<Rightarrow> False)
         then pass_f ''exit_node_consistency'' else mk_finding ''exit_node_consistency'' St_Fail Au_High)
      else info_f ''exit_node_consistency'')"

text \<open>\<^verbatim>\<open>td.days\<close>, and the start of 2010.\<close>

definition days_of :: "int \<Rightarrow> int" where
  "days_of d = d div seconds 86400"

definition year_2010 :: instant where
  "year_2010 = seconds 1262304000"

definition time_at :: "(string \<Rightarrow> instant option) \<Rightarrow> json \<Rightarrow> instant option" where
  "time_at iso8601 v = (if js_true v then iso8601 (js_text v) else None)"

definition stale_peer :: "(string \<Rightarrow> instant option) \<Rightarrow> instant \<Rightarrow> json \<Rightarrow> bool" where
  "stale_peer iso8601 now p \<longleftrightarrow>
     js_is_obj p \<and>
     (case time_at iso8601 (js_get ''LastSeen'' p) of
        None \<Rightarrow> False
      | Some t \<Rightarrow> year_2010 \<le> t \<and> 30 < days_of (now - t) \<and> \<not> js_true (js_get ''Online'' p))"

definition check_stale_peers :: "(string \<Rightarrow> instant option) \<Rightarrow> instant \<Rightarrow> json \<Rightarrow> audit_finding" where
  "check_stale_peers iso8601 now status =
     (if list_ex (stale_peer iso8601 now) (peers_of status) then mk_finding ''stale_peers'' St_Fail Au_Low
      else pass_f ''stale_peers'')"

definition check_netcheck_quality :: "json \<Rightarrow> audit_finding" where
  "check_netcheck_quality netcheck =
     (if \<not> js_true netcheck then skip_f ''netcheck_quality''
      else if js_get ''UDP'' netcheck = J_Bool False then mk_finding ''netcheck_quality'' St_Fail Au_Low
      else pass_f ''netcheck_quality'')"

definition check_uci_enable :: "string option \<Rightarrow> audit_finding" where
  "check_uci_enable uci_raw =
     (case uci_raw of
        None \<Rightarrow> skip_f ''uci_enable''
      | Some s \<Rightarrow>
          if s = [] then skip_f ''uci_enable''
          else if py_strip (case py_splitlines (py_strip s) of l # _ \<Rightarrow> l | [] \<Rightarrow> []) = ''1'' then pass_f ''uci_enable''
          else mk_finding ''uci_enable'' St_Fail Au_Medium)"

subsection \<open>Listening sockets\<close>

definition reachable_addr :: "string list \<Rightarrow> string \<Rightarrow> bool" where
  "reachable_addr ts_ips addr \<longleftrightarrow>
     list_ex (\<lambda>p. starts_with p addr) [''0.0.0.0:'', ''*:'', ''[::]:'', '':::'']
     \<or> list_ex (\<lambda>ip. starts_with (ip @ '':'') addr \<or> starts_with (''['' @ ip @ '']:'') addr) ts_ips"

definition listener_of :: "string list \<Rightarrow> string \<Rightarrow> (string \<times> int) option" where
  "listener_of ts_ips line =
     (case py_split_ws line of
        proto # addr # _ \<Rightarrow>
          if reachable_addr ts_ips addr
          then map_option (\<lambda>n. (proto, n)) (py_int (snd (py_rpartition (CHR '':'') addr)))
          else None
      | _ \<Rightarrow> None)"

definition exposed_listeners :: "string list \<Rightarrow> string \<Rightarrow> (string \<times> int) list" where
  "exposed_listeners ts_ips raw = List.map_filter (listener_of ts_ips) (py_splitlines raw)"

datatype listener_class = Filtered | Service | Bare_Port

definition classify :: "int list \<Rightarrow> string \<times> int \<Rightarrow> listener_class" where
  "classify protected_tcp l =
     (case l of (proto, port) \<Rightarrow>
      if proto = ''tcp'' \<and> port \<in> set protected_tcp then Filtered
      else if proto = ''tcp'' \<and> port \<in> set KNOWN_SERVICE_PORTS_TCP then Service
      else if proto = ''udp'' \<and> port \<in> set KNOWN_SERVICE_PORTS_UDP then Service
      else if proto = ''udp'' \<and> 32768 \<le> port then Service
      else Bare_Port)"

definition check_listening_surface :: "string option \<Rightarrow> json \<Rightarrow> json \<Rightarrow> string option \<Rightarrow> audit_finding" where
  "check_listening_surface listening_raw status prefs admin_fw_raw =
     (let i = ''listening_surface'';
          ts_ips = map js_text (js_items (js_get ''TailscaleIPs'' (self_node status)))
      in case listening_raw of
           None \<Rightarrow> skip_f i
         | Some raw \<Rightarrow>
             if raw = [] \<or> ts_ips = [] then skip_f i
             else
               let exposed = exposed_listeners ts_ips raw;
                   cls = map (classify (parse_admin_fw_protected_ports admin_fw_raw)) exposed
               in if exposed = [] then pass_f i
                  else if js_get ''ShieldsUp'' prefs = J_Bool True then info_f i
                  else if Bare_Port \<notin> set cls then pass_f i
                  else mk_finding i St_Warn Au_Medium)"

subsection \<open>Version and key\<close>

definition match_version :: "string \<Rightarrow> (int \<times> int \<times> int) option" where
  "match_version s =
     (case match_nat s of
        Some (a, r1) \<Rightarrow>
          (case strip_prefix ''.'' r1 of
             Some r2 \<Rightarrow>
               (case match_nat r2 of
                  Some (b, r3) \<Rightarrow>
                    (case strip_prefix ''.'' r3 of
                       Some r4 \<Rightarrow> (case match_nat r4 of Some (c, _) \<Rightarrow> Some (a, b, c) | None \<Rightarrow> None)
                     | None \<Rightarrow> None)
                | None \<Rightarrow> None)
           | None \<Rightarrow> None)
      | None \<Rightarrow> None)"

definition check_version_recency :: "string option \<Rightarrow> audit_finding" where
  "check_version_recency version_raw =
     (case version_raw of
        None \<Rightarrow> skip_f ''version_recency''
      | Some s \<Rightarrow>
          (case re_search match_version s of
             None \<Rightarrow> skip_f ''version_recency''
           | Some (major, minor, _) \<Rightarrow>
               if 1 < major \<or> major = 1 \<and> 70 \<le> minor then pass_f ''version_recency''
               else if 1 < major \<or> major = 1 \<and> 60 \<le> minor then info_f ''version_recency''
               else mk_finding ''version_recency'' St_Fail Au_Medium))"

definition check_key_expiry :: "(string \<Rightarrow> instant option) \<Rightarrow> instant \<Rightarrow> json \<Rightarrow> audit_finding" where
  "check_key_expiry iso8601 now status =
     (let key_exp = js_get ''KeyExpiry'' (self_node status) in
      if \<not> js_true key_exp then info_f ''key_expiry''
      else case iso8601 (js_text key_exp) of
        None \<Rightarrow> skip_f ''key_expiry''
      | Some e \<Rightarrow>
          let days = days_of (e - now) in
          if days < 0 then mk_finding ''key_expiry'' St_Fail Au_High
          else if days < 7 then mk_finding ''key_expiry'' St_Warn Au_High
          else if days < 30 then mk_finding ''key_expiry'' St_Warn Au_Low
          else pass_f ''key_expiry'')"

section \<open>Checks of the tailnet\<close>

text \<open>A resource the API refused is \<^const>\<open>None\<close>.\<close>

definition cloud_check_acl_default_deny :: "json option \<Rightarrow> audit_finding" where
  "cloud_check_acl_default_deny acl =
     (case acl of
        None \<Rightarrow> skip_f ''cloud_acl_default_deny''
      | Some a \<Rightarrow>
          if list_ex (\<lambda>r. js_is_obj r \<and> J_Str ''*'' \<in> set (js_items (js_get ''src'' r))
                          \<and> J_Str ''*:*'' \<in> set (js_items (js_get ''dst'' r))) (js_items (js_get ''acls'' a))
          then mk_finding ''cloud_acl_default_deny'' St_Fail Au_High else pass_f ''cloud_acl_default_deny'')"

definition cloud_check_acl_tag_owners :: "json option \<Rightarrow> audit_finding" where
  "cloud_check_acl_tag_owners acl =
     (case acl of
        None \<Rightarrow> skip_f ''cloud_acl_tag_owners''
      | Some a \<Rightarrow> if js_true (js_get ''tagOwners'' a) then pass_f ''cloud_acl_tag_owners''
                  else mk_finding ''cloud_acl_tag_owners'' St_Fail Au_Medium)"

definition cloud_check_untagged_devices :: "json list option \<Rightarrow> audit_finding" where
  "cloud_check_untagged_devices devices =
     (case devices of
        None \<Rightarrow> skip_f ''cloud_untagged_devices''
      | Some ds \<Rightarrow> if list_ex (\<lambda>d. \<not> js_true (js_get ''tags'' d)) ds
                   then mk_finding ''cloud_untagged_devices'' St_Fail Au_Medium else pass_f ''cloud_untagged_devices'')"

definition cloud_check_stale_devices :: "(string \<Rightarrow> instant option) \<Rightarrow> instant \<Rightarrow> json list option \<Rightarrow> audit_finding" where
  "cloud_check_stale_devices iso8601 now devices =
     (case devices of
        None \<Rightarrow> skip_f ''cloud_stale_devices''
      | Some ds \<Rightarrow>
          if list_ex (\<lambda>d. case time_at iso8601 (js_get ''lastSeen'' d) of
                            None \<Rightarrow> False | Some t \<Rightarrow> 60 < days_of (now - t)) ds
          then mk_finding ''cloud_stale_devices'' St_Fail Au_Low else pass_f ''cloud_stale_devices'')"

definition cloud_check_auth_keys_hygiene :: "(string \<Rightarrow> instant option) \<Rightarrow> instant \<Rightarrow> json list option \<Rightarrow> audit_finding" where
  "cloud_check_auth_keys_hygiene iso8601 now keys =
     (case keys of
        None \<Rightarrow> skip_f ''cloud_auth_keys_hygiene''
      | Some ks \<Rightarrow>
          let no_expiry = list_ex (\<lambda>k. \<not> js_true (js_get ''expires'' k)) ks;
              late = list_ex (\<lambda>k. case time_at iso8601 (js_get ''expires'' k) of
                                    None \<Rightarrow> False | Some t \<Rightarrow> 180 < days_of (t - now)) ks
          in if ks = [] then skip_f ''cloud_auth_keys_hygiene''
             else if no_expiry then mk_finding ''cloud_auth_keys_hygiene'' St_Fail Au_High
             else if late then mk_finding ''cloud_auth_keys_hygiene'' St_Fail Au_Low
             else pass_f ''cloud_auth_keys_hygiene'')"

definition cloud_check_device_approval :: "json option \<Rightarrow> audit_finding" where
  "cloud_check_device_approval settings =
     (case settings of
        None \<Rightarrow> skip_f ''cloud_device_approval''
      | Some s \<Rightarrow>
          (case js_get ''devicesApprovalOn'' s of
             J_Bool True \<Rightarrow> pass_f ''cloud_device_approval''
           | J_Bool False \<Rightarrow> mk_finding ''cloud_device_approval'' St_Fail Au_Medium
           | _ \<Rightarrow> skip_f ''cloud_device_approval''))"

definition cloud_check_key_duration :: "json option \<Rightarrow> audit_finding" where
  "cloud_check_key_duration settings =
     (case settings of
        None \<Rightarrow> skip_f ''cloud_key_duration''
      | Some s \<Rightarrow>
          (case first_some (\<lambda>k. case js_get k s of J_Int d \<Rightarrow> Some d | _ \<Rightarrow> None)
                  [''devicesKeyDurationDays'', ''authorizationKeyDurationDays''] of
             None \<Rightarrow> skip_f ''cloud_key_duration''
           | Some d \<Rightarrow> if 365 < d \<or> d = 0 then mk_finding ''cloud_key_duration'' St_Warn Au_Low
                       else pass_f ''cloud_key_duration''))"

definition cloud_check_https_certs :: "json option \<Rightarrow> audit_finding" where
  "cloud_check_https_certs dns_pref =
     (case dns_pref of
        None \<Rightarrow> skip_f ''cloud_https_certs''
      | Some s \<Rightarrow>
          (case js_get ''magicDNS'' s of
             J_Bool True \<Rightarrow> pass_f ''cloud_https_certs''
           | J_Bool False \<Rightarrow> mk_finding ''cloud_https_certs'' St_Fail Au_Low
           | _ \<Rightarrow> skip_f ''cloud_https_certs''))"

record cloud_data =
  cl_acl :: "json option"
  cl_devices :: "json list option"
  cl_keys :: "json list option"
  cl_settings :: "json option"
  cl_dns_pref :: "json option"

definition cloud_checks :: "(string \<Rightarrow> instant option) \<Rightarrow> instant \<Rightarrow> cloud_data \<Rightarrow> audit_finding list" where
  "cloud_checks iso8601 now c =
     [cloud_check_acl_default_deny (cl_acl c), cloud_check_acl_tag_owners (cl_acl c),
      cloud_check_untagged_devices (cl_devices c), cloud_check_stale_devices iso8601 now (cl_devices c),
      cloud_check_auth_keys_hygiene iso8601 now (cl_keys c), cloud_check_device_approval (cl_settings c),
      cloud_check_key_duration (cl_settings c), cloud_check_https_certs (cl_dns_pref c)]"

section \<open>The report\<close>

record probes =
  pb_version :: "string option"
  pb_status :: "string option"
  pb_prefs :: "string option"
  pb_netcheck :: "string option"
  pb_listening :: "string option"
  pb_uci :: "string option"
  pb_admin_fw :: "string option"

record store_meta =
  sm_has_auth_key :: bool
  sm_advertise_exit :: bool
  sm_exit_node :: string

text \<open>Without a token the tailnet is not audited; with one, the API is used or using it raises.\<close>

datatype cloud_access = No_Pat | Cloud_Raised | Cloud_Data cloud_data

record audit_report =
  ar_score :: int
  ar_grade :: grade
  ar_pass :: nat
  ar_fail :: nat
  ar_warn :: nat
  ar_findings :: "audit_finding list"

definition local_checks ::
  "(string \<Rightarrow> json option) \<Rightarrow> (string \<Rightarrow> instant option) \<Rightarrow> instant \<Rightarrow> store_meta \<Rightarrow> probes \<Rightarrow> audit_finding list" where
  "local_checks loads iso8601 now meta pb =
     (let status = parse_status loads (pb_status pb);
          prefs = parse_prefs loads (pb_prefs pb);
          netcheck = parse_netcheck loads (pb_netcheck pb)
      in [check_daemon_running status, check_auth_key_stored (sm_has_auth_key meta), check_device_tagged status,
          check_magicdns status, check_shields_up prefs, check_advertise_routes_safe status,
          check_exit_node_consistency status (sm_advertise_exit meta) (sm_exit_node meta),
          check_stale_peers iso8601 now status, check_netcheck_quality netcheck, check_uci_enable (pb_uci pb),
          check_listening_surface (pb_listening pb) status prefs (pb_admin_fw pb),
          check_version_recency (pb_version pb), check_key_expiry iso8601 now status])"

definition cloud_findings :: "(string \<Rightarrow> instant option) \<Rightarrow> instant \<Rightarrow> cloud_access \<Rightarrow> audit_finding list" where
  "cloud_findings iso8601 now access =
     (case access of
        No_Pat \<Rightarrow> []
      | Cloud_Raised \<Rightarrow> [mk_finding ''cloud_api_reachable'' St_Fail Au_Medium]
      | Cloud_Data c \<Rightarrow> cloud_checks iso8601 now c)"

definition deduct :: "int \<Rightarrow> audit_finding \<Rightarrow> int" where
  "deduct score f = (if af_status f \<in> {St_Fail, St_Warn} then score - PENALTY (af_severity f) else score)"

definition stamp_fix :: "audit_finding \<Rightarrow> audit_finding" where
  "stamp_fix f =
     (if af_id f \<in> set TAILSCALE_FIXABLE_IDS \<and> af_status f \<in> {St_Fail, St_Warn} then f\<lparr>af_fix_available := True\<rparr> else f)"

definition audit_report_of :: "audit_finding list \<Rightarrow> audit_report" where
  "audit_report_of fs =
     (let score = max 0 (foldl deduct 100 fs)
      in \<lparr>ar_score = score, ar_grade = grade_of score,
          ar_pass = length (filter (\<lambda>f. af_status f = St_Pass) fs),
          ar_fail = length (filter (\<lambda>f. af_status f = St_Fail) fs),
          ar_warn = length (filter (\<lambda>f. af_status f = St_Warn) fs),
          ar_findings = map stamp_fix fs\<rparr>)"

definition run_audit ::
  "(string \<Rightarrow> json option) \<Rightarrow> (string \<Rightarrow> instant option) \<Rightarrow> instant \<Rightarrow> store_meta \<Rightarrow> cloud_access \<Rightarrow> probes \<Rightarrow> audit_report" where
  "run_audit loads iso8601 now meta access pb =
     audit_report_of (local_checks loads iso8601 now meta pb @ cloud_findings iso8601 now access)"

section \<open>Properties\<close>

lemma mk_finding_simps [simp]:
  "af_id (mk_finding i st sev) = i" "af_status (mk_finding i st sev) = st"
  "af_severity (mk_finding i st sev) = sev" "\<not> af_fix_available (mk_finding i st sev)"
  by (simp_all add: mk_finding_def)

lemma penalty_nonneg: "0 \<le> PENALTY s"
  by (cases s) simp_all

lemma foldl_deduct:
  "foldl deduct a fs = a - sum_list (map (\<lambda>f. PENALTY (af_severity f)) (filter (\<lambda>f. af_status f \<in> {St_Fail, St_Warn}) fs))"
  by (induction fs arbitrary: a) (simp_all add: deduct_def)

lemma deduct_le: "foldl deduct a fs \<le> a"
proof -
  have "0 \<le> sum_list (map (\<lambda>f. PENALTY (af_severity f)) fs)" for fs
    by (induction fs) (simp_all add: penalty_nonneg)
  then show ?thesis by (simp add: foldl_deduct)
qed

text \<open>
  The audit only takes points off for what it found wrong: the score is what the failures and warnings leave of
  100, never negative; passes, remarks and skipped checks cost nothing, so dropping any of them from the report
  changes neither the score nor the grade.
\<close>

theorem only_problems_cost_points:
  "ar_score (audit_report_of fs) = ar_score (audit_report_of (filter (\<lambda>f. af_status f \<in> {St_Fail, St_Warn}) fs))
   \<and> ar_grade (audit_report_of fs) = ar_grade (audit_report_of (filter (\<lambda>f. af_status f \<in> {St_Fail, St_Warn}) fs))
   \<and> 0 \<le> ar_score (audit_report_of fs) \<and> ar_score (audit_report_of fs) \<le> 100"
  using deduct_le [of 100 fs] by (simp add: audit_report_of_def Let_def foldl_deduct)

text \<open>The listeners that no rule filters and no service explains, in terms of the lines that show them.\<close>

lemma unexpected_listeners:
  "(\<exists>line\<in>set (py_splitlines raw). \<exists>proto addr rest p.
      py_split_ws line = proto # addr # rest \<and> reachable_addr ips addr
      \<and> py_int (snd (py_rpartition (CHR '':'') addr)) = Some p
      \<and> \<not> (proto = ''tcp'' \<and> (p \<in> set (parse_admin_fw_protected_ports fw) \<or> p \<in> {53, 34641, 3053}))
      \<and> \<not> (proto = ''udp'' \<and> (p \<in> {53, 67, 123, 853, 3053, 5353, 41641} \<or> 32768 \<le> p)))
   \<longleftrightarrow> (\<exists>l\<in>set (exposed_listeners ips raw). classify (parse_admin_fw_protected_ports fw) l = Bare_Port)"
proof -
  let ?cls = "\<lambda>l. classify (parse_admin_fw_protected_ports fw) l"
  have listed: "l \<in> set (exposed_listeners ips raw) \<longleftrightarrow> (\<exists>line\<in>set (py_splitlines raw). listener_of ips line = Some l)" for l
    by (auto simp: exposed_listeners_def List.map_filter_def image_iff split: option.splits)
  have line: "listener_of ips line = Some (proto, p) \<longleftrightarrow> (\<exists>addr rest. py_split_ws line = proto # addr # rest
      \<and> reachable_addr ips addr \<and> py_int (snd (py_rpartition (CHR '':'') addr)) = Some p)" for line proto p
    by (auto simp: listener_of_def split: list.splits)
  have cls: "?cls (proto, p) = Bare_Port \<longleftrightarrow>
      \<not> (proto = ''tcp'' \<and> (p \<in> set (parse_admin_fw_protected_ports fw) \<or> p \<in> {53, 34641, 3053}))
      \<and> \<not> (proto = ''udp'' \<and> (p \<in> {53, 67, 123, 853, 3053, 5353, 41641} \<or> 32768 \<le> p))" for proto p
    by (auto simp: classify_def KNOWN_SERVICE_PORTS_TCP_def KNOWN_SERVICE_PORTS_UDP_def)
  have "(\<exists>l\<in>set (exposed_listeners ips raw). ?cls l = Bare_Port) \<longleftrightarrow>
      (\<exists>line\<in>set (py_splitlines raw). \<exists>proto p. listener_of ips line = Some (proto, p) \<and> ?cls (proto, p) = Bare_Port)"
    by (simp only: Bex_def listed split_paired_Ex) blast
  then show ?thesis by (simp only: line cls) blast
qed

text \<open>
  The verdict on the listening sockets says exactly whether an unexpected port can be reached from the tailnet:
  with the sockets and the addresses of the device known and the shields down, the check passes if every socket
  reachable there is behind the administration firewall or a known service, and warns otherwise.
\<close>

theorem surface_verdict_exact:
  assumes "raw \<noteq> []" "map js_text (js_items (js_get ''TailscaleIPs'' (self_node status))) = ips" "ips \<noteq> []"
    "js_get ''ShieldsUp'' prefs \<noteq> J_Bool True"
  shows "af_status (check_listening_surface (Some raw) status prefs fw) =
   (if (\<exists>line\<in>set (py_splitlines raw). \<exists>proto addr rest p.
      py_split_ws line = proto # addr # rest \<and> reachable_addr ips addr
      \<and> py_int (snd (py_rpartition (CHR '':'') addr)) = Some p
      \<and> \<not> (proto = ''tcp'' \<and> (p \<in> set (parse_admin_fw_protected_ports fw) \<or> p \<in> {53, 34641, 3053}))
      \<and> \<not> (proto = ''udp'' \<and> (p \<in> {53, 67, 123, 853, 3053, 5353, 41641} \<or> 32768 \<le> p)))
    then St_Warn else St_Pass)"
proof -
  have bare: "Bare_Port \<in> f ` A \<longleftrightarrow> (\<exists>l\<in>A. f l = Bare_Port)" for f and A :: "(string \<times> int) set"
    by (metis image_iff)
  show ?thesis
    using assms(1,3,4) unfolding check_listening_surface_def Let_def assms(2) unexpected_listeners by (auto simp: bare)
qed

definition two_sockets :: string where
  "two_sockets = unlines [''tcp 0.0.0.0:22 LISTEN'', ''tcp 127.0.0.1:25 LISTEN'', ''udp 0.0.0.0:5353 UNCONN'']"

definition node_status :: json where
  "node_status = J_Obj [(''Self'', J_Obj [(''TailscaleIPs'', J_List [J_Str ''100.64.0.7''])])]"

definition admin_fw_line :: string where
  "admin_fw_line = ''firewall.SC_FR_TS_ADMIN_DROP_ALL.dest_port='' @ [squote] @ ''22 443 80'' @ [squote]"

lemma surface_verdict_exact_witness:
  "af_status (check_listening_surface (Some two_sockets) node_status (J_Obj []) None) = St_Warn
   \<and> af_status (check_listening_surface (Some two_sockets) node_status (J_Obj []) (Some admin_fw_line)) = St_Pass"
proof -
  have prems: "two_sockets \<noteq> []"
    "map js_text (js_items (js_get ''TailscaleIPs'' (self_node node_status))) = [''100.64.0.7'']"
    "[''100.64.0.7''] \<noteq> []" "js_get ''ShieldsUp'' (J_Obj []) \<noteq> J_Bool True"
    by (code_simp, code_simp, simp, code_simp)
  have "\<not> (\<forall>l\<in>set (exposed_listeners [''100.64.0.7''] two_sockets).
      classify (parse_admin_fw_protected_ports None) l \<noteq> Bare_Port)"
    "\<forall>l\<in>set (exposed_listeners [''100.64.0.7''] two_sockets).
      classify (parse_admin_fw_protected_ports (Some admin_fw_line)) l \<noteq> Bare_Port"
    by code_simp+
  with surface_verdict_exact [OF prems, of None, unfolded unexpected_listeners]
    surface_verdict_exact [OF prems, of "Some admin_fw_line", unfolded unexpected_listeners]
  show ?thesis by simp
qed

text \<open>
  With no connection to the device every probe fails. The checks that read the status do not skip then: the
  device loses 37 points, among them the 25 of a daemon that is not running.
\<close>

definition no_probes :: probes where
  "no_probes = \<lparr>pb_version = None, pb_status = None, pb_prefs = None, pb_netcheck = None, pb_listening = None,
     pb_uci = None, pb_admin_fw = None\<rparr>"

lemma blind_audit_penalised:
  "ar_score (run_audit loads iso8601 now \<lparr>sm_has_auth_key = True, sm_advertise_exit = False, sm_exit_node = []\<rparr> No_Pat no_probes) = 63"
  by (simp add: run_audit_def local_checks_def no_probes_def audit_report_of_def cloud_findings_def deduct_def Let_def
      parse_status_def parse_prefs_def parse_netcheck_def check_daemon_running_def check_auth_key_stored_def
      check_device_tagged_def check_magicdns_def check_shields_up_def check_advertise_routes_safe_def
      check_exit_node_consistency_def check_stale_peers_def check_netcheck_quality_def check_uci_enable_def
      check_listening_surface_def check_version_recency_def check_key_expiry_def self_node_def peers_of_def js_get_def
      js_items_def)

text \<open>An API that cannot be used costs five points, although a network problem is meant to cost nothing.\<close>

lemma cloud_error_penalised:
  "ar_score (audit_report_of (fs @ cloud_findings iso8601 now Cloud_Raised)) =
     max 0 (foldl deduct 100 fs - 5)"
  by (simp add: audit_report_of_def cloud_findings_def deduct_def Let_def)

text \<open>The fix for the shields is never offered: their check neither fails nor warns.\<close>

lemma shields_fix_never_offered: "\<not> af_fix_available (stamp_fix (check_shields_up prefs))"
  by (auto simp: stamp_fix_def check_shields_up_def split: json.splits bool.splits)

text \<open>A socket that netstat shows as \<^verbatim>\<open>tcp6\<close> counts as unexpected even where the firewall covers its port.\<close>

lemma tcp6_never_filtered: "classify ports (''tcp6'', p) = Bare_Port"
  by (simp add: classify_def)

end
