(* ===== verification/Forti_Store.thy ===== *)
theory Forti_Store
  imports Row_Table Py_Match
begin

text \<open>
  Fortinet tunnels, first part (\<^verbatim>\<open>backend/app/vpn/fortinet/store.py\<close> and \<^verbatim>\<open>models.py\<close>, tables \<^verbatim>\<open>FortinetConfigRow\<close>
  and \<^verbatim>\<open>FortinetSecretRow\<close>): the configurations with their encrypted passwords. Fernet is a pair of parameters
  \<open>enc\<close> and \<open>dec\<close>. \<open>fk\<close> tells whether the database enforces foreign keys; SQLite only does after a PRAGMA that the
  controller never sends. The times of creation and update of a row are only displayed and are left out.
\<close>

section \<open>Data\<close>

datatype forti_state = Fs_Unknown | Fs_Connecting | Fs_Up | Fs_Disconnecting | Fs_Down | Fs_Failed

text \<open>The error column: empty, the log of a failed connection, or the log of one that timed out.\<close>

datatype forti_note = No_Note | Log_Tail string | Connect_Timeout string

record forti_row =
  fr_id :: nat
  fr_slug :: string
  fr_display_name :: string
  fr_gateway_host :: string
  fr_gateway_port :: int
  fr_username :: string
  fr_trusted_cert :: string
  fr_ca_cert_pem :: string
  fr_notes :: string
  fr_status :: forti_state
  fr_connected_at :: "instant option"
  fr_disconnected_at :: "instant option"
  fr_last_error :: forti_note

record forti_secret =
  fs_config_id :: nat
  fs_kind :: string
  fs_value :: string

record forti_db =
  fd_configs :: "forti_row list"
  fd_secrets :: "forti_secret list"

datatype forti_error =
  Forti_Not_Found string | Forti_Duplicate string | No_Password string | Cannot_Decrypt string | Integrity_Error

definition SECRET_PASSWORD :: string where "SECRET_PASSWORD = ''password''"

section \<open>Validators\<close>

definition forti_slug_char :: "char \<Rightarrow> bool" where
  "forti_slug_char c \<longleftrightarrow> py_islower c \<or> py_isdigit c \<or> c = CHR ''_'' \<or> c = CHR ''-''"

text \<open>The dollar of a pattern also matches before a final line feed.\<close>

definition before_newline :: "string \<Rightarrow> string" where
  "before_newline s = (if s \<noteq> [] \<and> last s = CHR 0x0A then butlast s else s)"

definition valid_slug :: "string \<Rightarrow> bool" where
  "valid_slug v \<longleftrightarrow>
     (let s = before_newline v
      in 1 \<le> length v \<and> length v \<le> 63 \<and>
         (case s of [] \<Rightarrow> False
                  | c # cs \<Rightarrow> (py_islower c \<or> py_isdigit c) \<and> list_all forti_slug_char cs \<and> length cs \<le> 62))"

definition otp_ok :: "string \<Rightarrow> bool" where
  "otp_ok v \<longleftrightarrow> (let s = before_newline v in 6 \<le> length s \<and> length s \<le> 8 \<and> list_all py_isdigit s)"

text \<open>\<^const>\<open>None\<close> is a rejected request.\<close>

definition valid_otp :: "string option \<Rightarrow> string option option" where
  "valid_otp v =
     (case v of
        None \<Rightarrow> Some None
      | Some s \<Rightarrow> if s = [] then Some None else if 8 < length s \<or> \<not> otp_ok s then None else Some (Some s))"

definition sha256_ok :: "string \<Rightarrow> bool" where
  "sha256_ok v \<longleftrightarrow>
     (let s = before_newline v
      in (length s = 64 \<and> list_all is_hex s)
         \<or> (length (py_split (CHR '':'') s) = 32
            \<and> list_all (\<lambda>p. length p = 2 \<and> list_all is_hex p) (py_split (CHR '':'') s)))"

definition normalise_sha256 :: "string \<Rightarrow> string" where
  "normalise_sha256 raw = py_lower (filter (\<lambda>c. c \<noteq> CHR '':'') (py_strip raw))"

definition valid_pin :: "string \<Rightarrow> string option" where
  "valid_pin v = (if v = [] then Some [] else if sha256_ok v then Some (normalise_sha256 v) else None)"

section \<open>The store\<close>

definition fs_next_id :: "forti_db \<Rightarrow> nat" where
  "fs_next_id db = Suc (foldr max (map fr_id (fd_configs db)) 0)"

definition fs_list_all :: "forti_db \<Rightarrow> forti_row list" where
  "fs_list_all db = sort_key fr_slug (fd_configs db)"

definition fs_get :: "string \<Rightarrow> forti_db \<Rightarrow> forti_error + forti_row" where
  "fs_get slug db =
     (case row_find fr_slug slug (fd_configs db) of None \<Rightarrow> Inl (Forti_Not_Found slug) | Some r \<Rightarrow> Inr r)"

definition password_row :: "nat \<Rightarrow> forti_db \<Rightarrow> forti_secret option" where
  "password_row i db = row_find (\<lambda>s. (fs_config_id s, fs_kind s)) (i, SECRET_PASSWORD) (fd_secrets db)"

definition fs_has_password :: "string \<Rightarrow> forti_db \<Rightarrow> bool" where
  "fs_has_password slug db =
     (case row_find fr_slug slug (fd_configs db) of None \<Rightarrow> False | Some r \<Rightarrow> password_row (fr_id r) db \<noteq> None)"

definition fs_get_password :: "(string \<Rightarrow> string option) \<Rightarrow> string \<Rightarrow> forti_db \<Rightarrow> forti_error + string" where
  "fs_get_password dec slug db =
     (case row_find fr_slug slug (fd_configs db) of
        None \<Rightarrow> Inl (Forti_Not_Found slug)
      | Some r \<Rightarrow>
          (case password_row (fr_id r) db of
             None \<Rightarrow> Inl (No_Password slug)
           | Some s \<Rightarrow> (case dec (fs_value s) of None \<Rightarrow> Inl (Cannot_Decrypt slug) | Some p \<Rightarrow> Inr p)))"

definition password_secret :: "nat \<Rightarrow> string \<Rightarrow> forti_secret" where
  "password_secret i v = \<lparr>fs_config_id = i, fs_kind = SECRET_PASSWORD, fs_value = v\<rparr>"

text \<open>The commit fails when the pair of configuration and kind is there already.\<close>

definition insert_secret :: "nat \<Rightarrow> string \<Rightarrow> forti_db \<Rightarrow> forti_error + forti_db" where
  "insert_secret i v db =
     (case row_insert (\<lambda>s. (fs_config_id s, fs_kind s)) (password_secret i v) (fd_secrets db) of
        None \<Rightarrow> Inl Integrity_Error
      | Some ss \<Rightarrow> Inr (db\<lparr>fd_secrets := ss\<rparr>))"

record forti_create =
  fn_slug :: string
  fn_display_name :: string
  fn_gateway_host :: string
  fn_gateway_port :: int
  fn_username :: string
  fn_password :: string
  fn_trusted_cert :: string
  fn_ca_cert_pem :: string
  fn_notes :: string

definition new_forti_row :: "nat \<Rightarrow> forti_create \<Rightarrow> forti_row" where
  "new_forti_row i b =
     \<lparr>fr_id = i, fr_slug = fn_slug b, fr_display_name = fn_display_name b, fr_gateway_host = fn_gateway_host b,
      fr_gateway_port = fn_gateway_port b, fr_username = fn_username b, fr_trusted_cert = fn_trusted_cert b,
      fr_ca_cert_pem = fn_ca_cert_pem b, fr_notes = fn_notes b, fr_status = Fs_Unknown, fr_connected_at = None,
      fr_disconnected_at = None, fr_last_error = No_Note\<rparr>"

definition fs_create :: "(string \<Rightarrow> string) \<Rightarrow> forti_create \<Rightarrow> forti_db \<Rightarrow> forti_error + (forti_row \<times> forti_db)" where
  "fs_create enc b db =
     (if row_find fr_slug (fn_slug b) (fd_configs db) \<noteq> None then Inl (Forti_Duplicate (fn_slug b))
      else
        let i = fs_next_id db; row = new_forti_row i b; db1 = db\<lparr>fd_configs := fd_configs db @ [row]\<rparr> in
        if fn_password b = [] then Inr (row, db1)
        else map_sum id (Pair row) (insert_secret i (enc (fn_password b)) db1))"

record forti_update =
  fu_display_name :: "string option"
  fu_gateway_host :: "string option"
  fu_gateway_port :: "int option"
  fu_username :: "string option"
  fu_trusted_cert :: "string option"
  fu_ca_cert_pem :: "string option"
  fu_notes :: "string option"

definition set_some :: "'a option \<Rightarrow> 'a \<Rightarrow> 'a" where
  "set_some new old = (case new of None \<Rightarrow> old | Some v \<Rightarrow> v)"

definition put_fields :: "forti_update \<Rightarrow> forti_row \<Rightarrow> forti_row" where
  "put_fields u r =
     r\<lparr>fr_display_name := set_some (fu_display_name u) (fr_display_name r),
       fr_gateway_host := set_some (fu_gateway_host u) (fr_gateway_host r),
       fr_gateway_port := set_some (fu_gateway_port u) (fr_gateway_port r),
       fr_username := set_some (fu_username u) (fr_username r),
       fr_trusted_cert := set_some (fu_trusted_cert u) (fr_trusted_cert r),
       fr_ca_cert_pem := set_some (fu_ca_cert_pem u) (fr_ca_cert_pem r),
       fr_notes := set_some (fu_notes u) (fr_notes r)\<rparr>"

definition edit_forti :: "string \<Rightarrow> (forti_row \<Rightarrow> forti_row) \<Rightarrow> forti_db \<Rightarrow> forti_error + forti_db" where
  "edit_forti slug f db =
     (if row_find fr_slug slug (fd_configs db) = None then Inl (Forti_Not_Found slug)
      else Inr (db\<lparr>fd_configs := row_update fr_slug slug f (fd_configs db)\<rparr>))"

definition fs_update_fields :: "string \<Rightarrow> forti_update \<Rightarrow> forti_db \<Rightarrow> forti_error + forti_db" where
  "fs_update_fields slug u db = edit_forti slug (put_fields u) db"

definition fs_set_password :: "(string \<Rightarrow> string) \<Rightarrow> string \<Rightarrow> string \<Rightarrow> forti_db \<Rightarrow> forti_error + forti_db" where
  "fs_set_password enc slug password db =
     (case row_find fr_slug slug (fd_configs db) of
        None \<Rightarrow> Inl (Forti_Not_Found slug)
      | Some r \<Rightarrow>
          (case password_row (fr_id r) db of
             None \<Rightarrow> insert_secret (fr_id r) (enc password) db
           | Some _ \<Rightarrow>
               Inr (db\<lparr>fd_secrets := row_update (\<lambda>s. (fs_config_id s, fs_kind s)) (fr_id r, SECRET_PASSWORD)
                        (\<lambda>s. s\<lparr>fs_value := enc password\<rparr>) (fd_secrets db)\<rparr>)))"

definition fs_delete :: "bool \<Rightarrow> string \<Rightarrow> forti_db \<Rightarrow> bool \<times> forti_db" where
  "fs_delete fk slug db =
     (case row_find fr_slug slug (fd_configs db) of
        None \<Rightarrow> (False, db)
      | Some r \<Rightarrow>
          (True, \<lparr>fd_configs = row_delete fr_slug slug (fd_configs db),
                  fd_secrets = (if fk then filter (\<lambda>s. fs_config_id s \<noteq> fr_id r) (fd_secrets db) else fd_secrets db)\<rparr>))"

definition fs_mark_status ::
  "instant \<Rightarrow> string \<Rightarrow> forti_state \<Rightarrow> forti_note \<Rightarrow> bool \<Rightarrow> bool \<Rightarrow> forti_db \<Rightarrow> forti_error + forti_db" where
  "fs_mark_status now slug st err bump_connected bump_disconnected db =
     edit_forti slug (\<lambda>r. r\<lparr>fr_status := st, fr_last_error := err,
       fr_connected_at := (if bump_connected then Some now else fr_connected_at r),
       fr_disconnected_at := (if bump_disconnected then Some now else fr_disconnected_at r)\<rparr>) db"

text \<open>The routes that change the table (\<^verbatim>\<open>backend/app/api/routes/fortinet.py\<close>).\<close>

datatype forti_http = Forti_404 | Forti_409 | Forti_500

definition create_forti_config ::
  "(string \<Rightarrow> string) \<Rightarrow> forti_create \<Rightarrow> forti_db \<Rightarrow> forti_http + (forti_row \<times> bool \<times> forti_db)" where
  "create_forti_config enc b db =
     (case fs_create enc b db of
        Inl (Forti_Duplicate _) \<Rightarrow> Inl Forti_409
      | Inl _ \<Rightarrow> Inl Forti_500
      | Inr (row, db') \<Rightarrow> Inr (row, fn_password b \<noteq> [], db'))"

text \<open>Also the database when the password of the request could not be stored after the fields.\<close>

definition update_forti_config ::
  "(string \<Rightarrow> string) \<Rightarrow> string \<Rightarrow> forti_update \<Rightarrow> string option \<Rightarrow> forti_db \<Rightarrow> forti_http option \<times> forti_db" where
  "update_forti_config enc slug u password db =
     (case fs_update_fields slug u db of
        Inl _ \<Rightarrow> (Some Forti_404, db)
      | Inr db1 \<Rightarrow>
          (case password of
             None \<Rightarrow> (None, db1)
           | Some p \<Rightarrow>
               (case fs_set_password enc slug p db1 of
                  Inl (Forti_Not_Found _) \<Rightarrow> (Some Forti_404, db1)
                | Inl _ \<Rightarrow> (Some Forti_500, db1)
                | Inr db2 \<Rightarrow> (None, db2))))"

definition delete_forti_config :: "bool \<Rightarrow> string \<Rightarrow> forti_db \<Rightarrow> forti_http option \<times> forti_db" where
  "delete_forti_config fk slug db =
     (case fs_delete fk slug db of (True, db') \<Rightarrow> (None, db') | (False, db') \<Rightarrow> (Some Forti_404, db'))"

section \<open>Validated pins\<close>

lemma is_hex_lower: "is_hex c \<Longrightarrow> is_hex (char_lower c) \<and> \<not> py_isupper (char_lower c)"
  by (auto simp: is_hex_def char_lower_def py_isdigit_def py_isupper_def char_le_code)

text \<open>What a validated certificate pin looks like, however it was spelled.\<close>

lemma hex_text_stripped:
  assumes "\<forall>c\<in>set s. is_hex c \<or> c = CHR '':''" "v = s \<or> v = s @ [CHR 0x0A]"
  shows "py_strip v = s"
proof -
  have "\<not> py_isspace c" if "is_hex c \<or> c = CHR '':''" for c
    using that by (auto simp: is_hex_def py_isspace_def py_isdigit_def char_le_code)
  then have ns: "\<forall>c\<in>set s. \<not> py_isspace c" using assms(1) by blast
  have left: "dropWhile py_isspace s = s" "s \<noteq> [] \<Longrightarrow> dropWhile py_isspace (s @ w) = s @ w" for w
    using ns by (cases s; simp)+
  have right: "dropWhile py_isspace (rev s) = rev s" using ns by (cases s rule: rev_cases) simp_all
  show ?thesis
    using assms(2) by (cases "s = []") (auto simp: strip_defs left right py_isspace_def [of "CHR 0x0A"])
qed

lemma pin_separators: "filter (\<lambda>c. c \<noteq> d) s = concat (py_split d s)"
proof (induction s)
  case (Cons c s)
  then show ?case by (cases "py_split d s") auto
qed simp

lemma sha256_text:
  assumes "sha256_ok v"
  shows "\<exists>s. (v = s \<or> v = s @ [CHR 0x0A]) \<and> (\<forall>c\<in>set s. is_hex c \<or> c = CHR '':'')
    \<and> length (filter (\<lambda>c. c \<noteq> CHR '':'') s) = 64 \<and> (\<forall>c\<in>set (filter (\<lambda>c. c \<noteq> CHR '':'') s). is_hex c)"
proof -
  let ?s = "before_newline v" and ?parts = "py_split (CHR '':'') (before_newline v)"
  have shape: "v = ?s \<or> v = ?s @ [CHR 0x0A]"
    by (cases v rule: rev_cases) (auto simp: before_newline_def)
  have nocolon: "\<not> is_hex (CHR '':'')" by (simp add: is_hex_def py_isdigit_def char_le_code)
  consider "length ?s = 64" "list_all is_hex ?s"
    | "length ?parts = 32" "list_all (\<lambda>p. length p = 2 \<and> list_all is_hex p) ?parts"
    using assms by (auto simp: sha256_ok_def Let_def)
  then show ?thesis
  proof cases
    case 1
    then have "filter (\<lambda>c. c \<noteq> CHR '':'') ?s = ?s" "\<forall>c\<in>set ?s. is_hex c"
      using nocolon by (auto simp: list_all_iff filter_id_conv)
    then show ?thesis using shape 1(1) by metis
  next
    case 2
    have "length (concat ps) = 2 * length ps" if "list_all (\<lambda>p. length p = 2 \<and> list_all is_hex p) ps" for ps
      using that by (induction ps) auto
    then have "length (filter (\<lambda>c. c \<noteq> CHR '':'') ?s) = 64"
      using 2 by (simp add: pin_separators)
    moreover have "\<forall>c\<in>set (filter (\<lambda>c. c \<noteq> CHR '':'') ?s). is_hex c"
      unfolding pin_separators using 2(2) by (auto simp: list_all_iff)
    ultimately show ?thesis using shape by (intro exI [of _ ?s]) auto
  qed
qed

text \<open>
  C40. A certificate pin that the model accepts is normalised: 64 lower-case hexadecimal digits, whatever case and
  colons it was written with.
\<close>

theorem pin_normalised:
  assumes "valid_pin v = Some p" "v \<noteq> []"
  shows "length p = 64 \<and> (\<forall>c\<in>set p. is_hex c \<and> \<not> py_isupper c)"
proof -
  have "sha256_ok v" and p: "p = normalise_sha256 v" using assms by (auto simp: valid_pin_def split: if_splits)
  with sha256_text obtain s where s: "v = s \<or> v = s @ [CHR 0x0A]" "\<forall>c\<in>set s. is_hex c \<or> c = CHR '':''"
      "length (filter (\<lambda>c. c \<noteq> CHR '':'') s) = 64" "\<forall>c\<in>set (filter (\<lambda>c. c \<noteq> CHR '':'') s). is_hex c"
    by blast
  have "p = py_lower (filter (\<lambda>c. c \<noteq> CHR '':'') s)"
    using hex_text_stripped [OF s(2,1)] by (simp add: p normalise_sha256_def)
  then show ?thesis using s(3,4) is_hex_lower by (auto simp: py_lower_def)
qed

theorem pin_normalised_witness:
  "\<exists>p. valid_pin (concat (replicate 31 ''AB:'') @ ''cD'') = Some p \<and> length p = 64 \<and> (\<forall>c\<in>set p. is_hex c \<and> \<not> py_isupper c)"
proof -
  have "valid_pin (concat (replicate 31 ''AB:'') @ ''cD'') = Some (concat (replicate 31 ''ab'') @ ''cd'')" by code_simp
  with pin_normalised [OF this] show ?thesis by simp
qed

section \<open>Passwords\<close>

lemma get_after_set:
  assumes "fs_set_password enc slug pw db = Inr db'" "dec (enc pw) = Some pw"
  shows "fs_get_password dec slug db' = Inr pw"
proof -
  obtain r where r: "row_find fr_slug slug (fd_configs db) = Some r"
    using assms(1) by (auto simp: fs_set_password_def split: option.splits)
  show ?thesis
  proof (cases "password_row (fr_id r) db")
    case None
    then show ?thesis
      using assms r by (auto simp: fs_set_password_def insert_secret_def row_insert_def fs_get_password_def
          password_row_def password_secret_def split: if_splits)
  next
    case (Some x)
    then show ?thesis
      using assms r by (auto simp: fs_set_password_def fs_get_password_def password_row_def)
  qed
qed

lemma create_with_password:
  assumes "fs_create enc b db = Inr (row, db')" "fn_password b \<noteq> []"
  shows "row = new_forti_row (fs_next_id db) b" "row_find fr_slug (fn_slug b) (fd_configs db) = None"
    "password_row (fs_next_id db) db = None"
    "db' = \<lparr>fd_configs = fd_configs db @ [row], fd_secrets = fd_secrets db @ [password_secret (fs_next_id db) (enc (fn_password b))]\<rparr>"
  using assms
  by (auto simp: fs_create_def Let_def insert_secret_def row_insert_def password_row_def password_secret_def
      split: if_splits)

lemma new_forti_row_simps [simp]: "fr_slug (new_forti_row i b) = fn_slug b" "fr_id (new_forti_row i b) = i"
  by (simp_all add: new_forti_row_def)

lemma row_delete_last: "row_find key k rows = None \<Longrightarrow> key r = k \<Longrightarrow> row_delete key k (rows @ [r]) = rows"
  by (auto simp: row_delete_def row_find_None filter_id_conv) (metis image_eqI)

text \<open>
  C39. The password of a deleted configuration lives on. When foreign keys are not enforced, deleting the newest
  configuration keeps its password, and the next configuration created takes its number: created without a
  password it has the deleted one, which a connection then sends to the new gateway; created with a password of
  its own it is refused by the database. With foreign keys enforced the new configuration is created clean.
\<close>

theorem deleted_password_inherited:
  assumes "fs_create enc b0 db = Inr (row0, db0)" "fn_password b0 \<noteq> []"
    and "row_find fr_slug (fn_slug b1) (fd_configs db) = None"
    and "dec (enc (fn_password b0)) = Some (fn_password b0)"
  shows "let db1 = snd (fs_delete fk (fn_slug b0) db0); row1 = new_forti_row (fr_id row0) b1 in
    if fn_password b1 = []
    then \<exists>db2. fs_create enc b1 db1 = Inr (row1, db2)
      \<and> fs_get_password dec (fn_slug b1) db2 = (if fk then Inl (No_Password (fn_slug b1)) else Inr (fn_password b0))
    else if fk then \<exists>db2. fs_create enc b1 db1 = Inr (row1, db2)
    else fs_create enc b1 db1 = Inl Integrity_Error"
proof -
  let ?i = "fs_next_id db" and ?sec = "password_secret (fs_next_id db) (enc (fn_password b0))"
  let ?key = "\<lambda>s. (fs_config_id s, fs_kind s)"
  define kept where "kept = (if fk then filter (\<lambda>s. fs_config_id s \<noteq> ?i) (fd_secrets db) else fd_secrets db @ [?sec])"
  note c = create_with_password [OF assms(1,2)]
  have db1: "snd (fs_delete fk (fn_slug b0) db0) = \<lparr>fd_configs = fd_configs db, fd_secrets = kept\<rparr>"
    using c(2) by (simp add: fs_delete_def c(4) c(1) row_delete_last kept_def password_secret_def)
  have nxt: "fs_next_id \<lparr>fd_configs = fd_configs db, fd_secrets = kept\<rparr> = ?i" by (simp add: fs_next_id_def)
  have found: "row_find ?key (?i, SECRET_PASSWORD) kept = (if fk then None else Some ?sec)"
  proof (cases fk)
    case True
    then show ?thesis by (auto simp: kept_def row_find_None)
  next
    case False
    then show ?thesis using c(3) by (simp add: kept_def password_row_def password_secret_def)
  qed
  show ?thesis
    using assms(3,4) found
    by (auto simp: db1 nxt Let_def c(1) fs_create_def fs_get_password_def password_row_def insert_secret_def
        row_insert_def password_secret_def split: if_splits)
qed

definition sample_forti :: "string \<Rightarrow> string \<Rightarrow> forti_create" where
  "sample_forti slug pw =
     \<lparr>fn_slug = slug, fn_display_name = [], fn_gateway_host = ''vpn.example'', fn_gateway_port = 443,
      fn_username = ''me'', fn_password = pw, fn_trusted_cert = [], fn_ca_cert_pem = [], fn_notes = []\<rparr>"

definition no_forti :: forti_db where "no_forti = \<lparr>fd_configs = [], fd_secrets = []\<rparr>"

lemma deleted_password_inherited_witness:
  "\<exists>row0 db0 db2. fs_create rev (sample_forti ''work'' ''secret'') no_forti = Inr (row0, db0)
     \<and> fs_create rev (sample_forti ''hotel'' []) (snd (fs_delete False ''work'' db0)) = Inr (new_forti_row 1 (sample_forti ''hotel'' []), db2)
     \<and> fs_get_password (Some \<circ> rev) ''hotel'' db2 = Inr ''secret''"
proof -
  obtain row0 db0 where c: "fs_create rev (sample_forti ''work'' ''secret'') no_forti = Inr (row0, db0)"
    by (simp add: fs_create_def sample_forti_def no_forti_def Let_def insert_secret_def row_insert_def)
  have "fr_id row0 = 1"
    using create_with_password(1) [OF c] by (simp add: sample_forti_def fs_next_id_def no_forti_def)
  with deleted_password_inherited [OF c, of "sample_forti ''hotel'' []" "Some \<circ> rev" False] c show ?thesis
    by (auto simp: sample_forti_def no_forti_def)
qed

end
