(* ===== verification/Forti_Manager.thy ===== *)
theory Forti_Manager
  imports Forti_Store Shell_Quote
begin

text \<open>
  Fortinet tunnels, second part (\<^verbatim>\<open>backend/app/vpn/fortinet/manager.py\<close>): the launcher, and how a tunnel is looked
  for, started and stopped over SSH. A device is a state with what it answers to a command (\<^const>\<open>None\<close> for an SSH
  error, its output otherwise) and whether it takes an upload. One call reads the clock once, for the row that it
  marks. Texts of errors that only the user reads are left out.
\<close>

definition PIDFILE :: string where "PIDFILE = ''/var/run/openfortivpn.pid''"
definition LOGFILE :: string where "LOGFILE = ''/var/log/openfortivpn.log''"
definition LAUNCHER :: string where "LAUNCHER = ''/tmp/forti-launch.sh''"
definition ACTIVE_SLUG_FILE :: string where "ACTIVE_SLUG_FILE = ''/var/run/openfortivpn.slug''"

section \<open>The launcher\<close>

definition launcher_args :: "string \<Rightarrow> int \<Rightarrow> string \<Rightarrow> string \<Rightarrow> bool \<Rightarrow> string option \<Rightarrow> string list" where
  "launcher_args host port username cert has_ca otp =
     [''openfortivpn'', host @ '':'' @ py_str port, ''-u'', username, ''--pppd-no-peerdns'', ''--pid-file'', PIDFILE]
     @ (case otp of None \<Rightarrow> [] | Some s \<Rightarrow> if s = [] then [] else [''--otp'', s])
     @ (if cert \<noteq> [] then [''--trusted-cert'', cert] else [])
     @ (if has_ca then [''--ca-file'', ''/tmp/forti-ca.pem''] else [])"

definition quoted_words :: "string list \<Rightarrow> string" where
  "quoted_words ws = py_join '' '' (map shlex_quote ws)"

definition LAUNCH_HEAD :: string where
  "LAUNCH_HEAD =
     ''#!/bin/sh'' @ [CHR 0x0A] @ ''set -e'' @ [CHR 0x0A] @ ''PASSWORD='' @ [dquote] @ ''$(cat)'' @ [dquote]
     @ [CHR 0x0A] @ ''mkdir -p /var/run /var/log'' @ [CHR 0x0A] @ '': > /var/log/openfortivpn.log'' @ [CHR 0x0A]
     @ ''{'' @ [CHR 0x0A] @ ''  printf '' @ [squote] @ ''%s'' @ [backslash] @ ''n'' @ [squote] @ '' '' @ [dquote]
     @ ''$PASSWORD'' @ [dquote] @ '' | setsid ''"

definition LAUNCH_TAIL :: string where
  "LAUNCH_TAIL =
     '' >>/var/log/openfortivpn.log 2>&1'' @ [CHR 0x0A] @ ''} &'' @ [CHR 0x0A]
     @ ''echo $! > /var/run/openfortivpn.pid'' @ [CHR 0x0A] @ ''wait $!'' @ [CHR 0x0A]"

definition launcher_script :: "string \<Rightarrow> int \<Rightarrow> string \<Rightarrow> string \<Rightarrow> bool \<Rightarrow> string option \<Rightarrow> string" where
  "launcher_script host port username cert has_ca otp =
     LAUNCH_HEAD @ quoted_words (launcher_args host port username cert has_ca otp) @ LAUNCH_TAIL"

section \<open>Looking at the device\<close>

record 'd forti_device =
  fd_run :: "'d \<Rightarrow> string \<Rightarrow> 'd \<times> string option"
  fd_put :: "'d \<Rightarrow> string \<Rightarrow> string \<Rightarrow> 'd \<times> bool"

datatype manager_error =
    Config_Not_Found | No_Stored_Password | Password_Unreadable | Binary_Missing | Ssh_Failed
  | Already_Active forti_state | Connect_Failed string | Connect_Timed_Out string | Row_Missing

definition PREFLIGHT_CMD :: string where
  "PREFLIGHT_CMD =
     ''export PATH=/usr/sbin:/sbin:/usr/bin:/bin:$PATH ; binary=$(which openfortivpn 2>/dev/null || echo ''
     @ ''MISSING) ; version='' @ [squote] @ [squote] @ '' ; [ '' @ [dquote] @ ''$binary'' @ [dquote]
     @ '' != MISSING ] && version=$(openfortivpn --version 2>/dev/null | head -1) ; ppp=$(lsmod 2>/dev/null ''
     @ ''| grep -c '' @ [squote] @ ''^ppp '' @ [squote] @ '') ; echo '' @ [dquote] @ ''binary=$binary'' @ [dquote]
     @ '' ; echo '' @ [dquote] @ ''version=$version'' @ [dquote] @ '' ; echo '' @ [dquote] @ ''ppp=$ppp'' @ [dquote]"

record preflight =
  pf_ok :: bool
  pf_binary :: string
  pf_version :: string
  pf_ppp_kmod :: bool

text \<open>The part after the first equals sign, stripped.\<close>

definition after_equals :: "string \<Rightarrow> string" where
  "after_equals line = py_strip (snd (py_partition (CHR ''='') line))"

definition preflight_line :: "string \<times> string \<times> bool \<Rightarrow> string \<Rightarrow> string \<times> string \<times> bool" where
  "preflight_line info line =
     (case info of (binary, version, ppp) \<Rightarrow>
      if starts_with ''binary='' line then (after_equals line, version, ppp)
      else if starts_with ''version='' line then (binary, after_equals line, ppp)
      else if starts_with ''ppp='' line then (binary, version, after_equals line \<noteq> ''0'')
      else (binary, version, ppp))"

definition run_preflight :: "'d forti_device \<Rightarrow> 'd \<Rightarrow> 'd \<times> preflight" where
  "run_preflight dev d =
     (case fd_run dev d PREFLIGHT_CMD of
        (d1, None) \<Rightarrow> (d1, \<lparr>pf_ok = False, pf_binary = [], pf_version = [], pf_ppp_kmod = False\<rparr>)
      | (d1, Some out) \<Rightarrow>
          (case foldl preflight_line ([], [], False) (py_splitlines out) of (binary, version, ppp) \<Rightarrow>
             (d1, \<lparr>pf_ok = (binary \<notin> {[], ''MISSING''} \<and> CHR ''/'' \<in> set binary), pf_binary = binary,
                   pf_version = version, pf_ppp_kmod = ppp\<rparr>)))"

definition STATUS_CMD :: string where
  "STATUS_CMD =
     ''export PATH=/usr/sbin:/sbin:/usr/bin:/bin:$PATH ; if [ -f /var/run/openfortivpn.pid ] && kill -0 ''
     @ ''$(cat /var/run/openfortivpn.pid) 2>/dev/null ; then   pid=$(cat /var/run/openfortivpn.pid) ;   ''
     @ ''iface=$(ls /sys/class/net 2>/dev/null | grep '' @ [squote] @ ''^ppp'' @ [squote]
     @ '' | head -1) ;   if [ -n '' @ [dquote] @ ''$iface'' @ [dquote]
     @ '' ] ; then     rx=$(cat /sys/class/net/$iface/statistics/rx_bytes 2>/dev/null || echo 0) ;     ''
     @ ''tx=$(cat /sys/class/net/$iface/statistics/tx_bytes 2>/dev/null || echo 0) ;     tip=$(ip -4 -o addr ''
     @ ''show dev $iface 2>/dev/null | awk '' @ [squote] @ ''{print $4}'' @ [squote]
     @ '' | head -1) ;     pip=$(ip -4 -o addr show dev $iface 2>/dev/null | awk '' @ [squote] @ ''{print $6}''
     @ [squote] @ '' | head -1) ;     slug=$(cat /var/run/openfortivpn.slug 2>/dev/null) ;     age=$(awk -v p=$pid ''
     @ [squote] @ ''BEGIN{getline up < '' @ [dquote] @ ''/proc/uptime'' @ [dquote] @ ''; split(up,u,'' @ [dquote]
     @ '' '' @ [dquote] @ ''); now=u[1]}       NR==1{getline ps < '' @ [dquote] @ ''/proc/'' @ [dquote] @ ''p''
     @ [dquote] @ ''/stat'' @ [dquote] @ ''; split(ps,a,'' @ [dquote] @ '' '' @ [dquote]
     @ ''); started=a[22]/100; print int(now-started)}'' @ [squote]
     @ '' /proc/uptime) ;     echo UP $iface $tip $pip $rx $tx $slug $age ;   else     echo CONNECTING $pid ''
     @ '';   fi ; else   echo DOWN ; fi''"

record forti_status =
  st_slug :: "string option"
  st_state :: forti_state
  st_iface :: "string option"
  st_tunnel_ip :: "string option"
  st_gateway_ip :: "string option"
  st_rx :: int
  st_tx :: int
  st_uptime :: int
  st_unparseable :: "string option"

definition plain_status :: "forti_state \<Rightarrow> forti_status" where
  "plain_status s =
     \<lparr>st_slug = None, st_state = s, st_iface = None, st_tunnel_ip = None, st_gateway_ip = None, st_rx = 0, st_tx = 0,
      st_uptime = 0, st_unparseable = None\<rparr>"

definition count_of :: "string \<Rightarrow> int" where
  "count_of s = (if s \<noteq> [] \<and> list_all py_isdigit s then digits_val s else 0)"

definition unknown_status :: "string \<Rightarrow> forti_status" where
  "unknown_status line = (plain_status Fs_Unknown)\<lparr>st_unparseable := Some (take 120 line)\<rparr>"

definition parse_tunnel_status :: "string \<Rightarrow> forti_status" where
  "parse_tunnel_status out =
     (let line = py_strip out in
      if line = [] \<or> starts_with ''DOWN'' line then plain_status Fs_Down
      else case py_split_ws line of
        [] \<Rightarrow> plain_status Fs_Down
      | w # ws \<Rightarrow>
          if w = ''CONNECTING'' then plain_status Fs_Connecting
          else case ws of
            iface # tip # gip # rx # tx # slug # age # _ \<Rightarrow>
              if w = ''UP'' then
                \<lparr>st_slug = (if slug = [] then None else Some slug), st_state = Fs_Up, st_iface = Some iface,
                 st_tunnel_ip = Some tip, st_gateway_ip = Some gip, st_rx = count_of rx, st_tx = count_of tx,
                 st_uptime = count_of age, st_unparseable = None\<rparr>
              else unknown_status line
          | _ \<Rightarrow> unknown_status line)"

definition tunnel_status :: "'d forti_device \<Rightarrow> 'd \<Rightarrow> 'd \<times> (manager_error + forti_status)" where
  "tunnel_status dev d =
     (case fd_run dev d STATUS_CMD of
        (d1, None) \<Rightarrow> (d1, Inl Ssh_Failed)
      | (d1, Some out) \<Rightarrow> (d1, Inr (parse_tunnel_status out)))"

section \<open>Connecting\<close>

definition one_line :: "string \<Rightarrow> string" where
  "one_line out = take 400 (py_join '' | '' (py_split (CHR 0x0A) (py_strip out)))"

definition tail_cmd :: "nat \<Rightarrow> string" where
  "tail_cmd n = ''tail -'' @ nat_digits n @ '' '' @ LOGFILE @ '' 2>/dev/null''"

definition log_tail :: "'d forti_device \<Rightarrow> 'd \<Rightarrow> nat \<Rightarrow> string \<Rightarrow> 'd \<times> string" where
  "log_tail dev d n unreachable =
     (case fd_run dev d (tail_cmd n) of (d1, None) \<Rightarrow> (d1, unreachable) | (d1, Some out) \<Rightarrow> (d1, one_line out))"

definition spawn_cmd :: "string \<Rightarrow> string" where
  "spawn_cmd password =
     ''printf '' @ [squote] @ ''%s'' @ [squote] @ '' '' @ shlex_quote password @ '' | setsid sh '' @ LAUNCHER
     @ '' </dev/null >/dev/null 2>&1 &''"

definition slug_cmd :: "string \<Rightarrow> string" where
  "slug_cmd slug = ''echo '' @ shlex_quote slug @ '' > '' @ ACTIVE_SLUG_FILE"

definition marked ::
  "instant \<Rightarrow> string \<Rightarrow> forti_state \<Rightarrow> forti_note \<Rightarrow> bool \<Rightarrow> (manager_error + 'a) \<Rightarrow> forti_db \<Rightarrow> (manager_error + 'a) \<times> forti_db" where
  "marked now slug st note bump res db =
     (case fs_mark_status now slug st note bump False db of
        Inl _ \<Rightarrow> (Inl Row_Missing, db) | Inr db' \<Rightarrow> (res, db'))"

text \<open>The polls, one second apart; \<open>n\<close> are left.\<close>

fun await_tunnel ::
  "'d forti_device \<Rightarrow> instant \<Rightarrow> string \<Rightarrow> nat \<Rightarrow> 'd \<Rightarrow> forti_db \<Rightarrow> (manager_error + forti_status) \<times> 'd \<times> forti_db" where
  "await_tunnel dev now slug 0 d db =
     (case log_tail dev d 10 ''(log unreachable)'' of (d1, lg) \<Rightarrow>
      case marked now slug Fs_Failed (Connect_Timeout lg) False (Inl (Connect_Timed_Out lg)) db of
        (res, db') \<Rightarrow> (res, d1, db'))"
| "await_tunnel dev now slug (Suc n) d db =
     (case tunnel_status dev d of
        (d1, Inl e) \<Rightarrow> (Inl e, d1, db)
      | (d1, Inr st) \<Rightarrow>
          if st_state st = Fs_Up then
            (case marked now slug Fs_Up No_Note True (Inr st) db of (res, db') \<Rightarrow> (res, d1, db'))
          else if st_state st = Fs_Failed then
            (case log_tail dev d1 5 ''agent SSH dropped during connect'' of (d2, lg) \<Rightarrow>
             case marked now slug Fs_Failed (Log_Tail lg) False (Inl (Connect_Failed lg)) db of
               (res, db') \<Rightarrow> (res, d2, db'))
          else await_tunnel dev now slug n d1 db)"

definition POLLS :: nat where "POLLS = 25"

text \<open>The password: the one of the request, or the stored one.\<close>

definition choose_password :: "(string \<Rightarrow> string option) \<Rightarrow> string \<Rightarrow> string option \<Rightarrow> forti_db \<Rightarrow> manager_error + string" where
  "choose_password dec slug override db =
     (if override \<notin> {None, Some []} then Inr (the override)
      else if \<not> fs_has_password slug db then Inl No_Stored_Password
      else case fs_get_password dec slug db of Inl _ \<Rightarrow> Inl Password_Unreadable | Inr p \<Rightarrow> Inr p)"

text \<open>The files of the launch: the certificate of the authority, the launcher and the name of the configuration.\<close>

definition push_launch :: "'d forti_device \<Rightarrow> forti_row \<Rightarrow> string \<Rightarrow> string option \<Rightarrow> 'd \<Rightarrow> 'd \<times> bool" where
  "push_launch dev row username otp d =
     (let has_ca = (py_strip (fr_ca_cert_pem row) \<noteq> []);
          script = launcher_script (fr_gateway_host row) (fr_gateway_port row) username (fr_trusted_cert row) has_ca otp;
          (d1, ok1) = (if has_ca then fd_put dev d ''/tmp/forti-ca.pem'' (fr_ca_cert_pem row) else (d, True))
      in if \<not> ok1 then (d1, False)
         else case fd_put dev d1 LAUNCHER script of
           (d2, False) \<Rightarrow> (d2, False)
         | (d2, True) \<Rightarrow>
             (case fd_run dev d2 (slug_cmd (fr_slug row)) of (d3, r) \<Rightarrow> (d3, r \<noteq> None)))"

definition forti_connect ::
  "(string \<Rightarrow> string option) \<Rightarrow> 'd forti_device \<Rightarrow> instant \<Rightarrow> string \<Rightarrow> string option \<Rightarrow> string option \<Rightarrow> string option
    \<Rightarrow> 'd \<Rightarrow> forti_db \<Rightarrow> (manager_error + forti_status) \<times> 'd \<times> forti_db" where
  "forti_connect dec dev now slug otp username_override password_override d db =
     (case fs_get slug db of
        Inl _ \<Rightarrow> (Inl Config_Not_Found, d, db)
      | Inr row \<Rightarrow>
          (case choose_password dec slug password_override db of
             Inl e \<Rightarrow> (Inl e, d, db)
           | Inr password \<Rightarrow>
               let username = (case username_override of
                     None \<Rightarrow> fr_username row | Some u \<Rightarrow> if u = [] then fr_username row else u) in
               (case run_preflight dev d of (d1, pf) \<Rightarrow>
                if \<not> pf_ok pf then (Inl Binary_Missing, d1, db)
                else case tunnel_status dev d1 of
                  (d2, Inl e) \<Rightarrow> (Inl e, d2, db)
                | (d2, Inr cur) \<Rightarrow>
                    if st_state cur \<in> {Fs_Up, Fs_Connecting} then (Inl (Already_Active (st_state cur)), d2, db)
                    else case push_launch dev row username otp d2 of
                      (d3, False) \<Rightarrow> (Inl Ssh_Failed, d3, db)
                    | (d3, True) \<Rightarrow>
                        (case fd_run dev d3 (spawn_cmd password) of
                           (d4, None) \<Rightarrow> (Inl Ssh_Failed, d4, db)
                         | (d4, Some _) \<Rightarrow> await_tunnel dev now slug POLLS d4 db))))"

section \<open>Disconnecting\<close>

definition DISCONNECT_CMD :: string where
  "DISCONNECT_CMD =
     ''export PATH=/usr/sbin:/sbin:/usr/bin:/bin:$PATH ; if [ -f /var/run/openfortivpn.pid ] ; then   ''
     @ ''pid=$(cat /var/run/openfortivpn.pid) ;   kill -TERM $pid 2>/dev/null ;   for i in 1 2 3 4 5 ; do    ''
     @ '' kill -0 $pid 2>/dev/null || break ; sleep 1 ;   done ;   kill -KILL $pid 2>/dev/null ; fi ; rm -f ''
     @ ''/var/run/openfortivpn.pid /var/run/openfortivpn.slug /tmp/forti-launch.sh /tmp/forti-ca.pem ''
     @ ''2>/dev/null ; echo OK''"

definition active_cmd :: string where
  "active_cmd = ''cat '' @ ACTIVE_SLUG_FILE @ '' 2>/dev/null''"

definition forti_disconnect ::
  "'d forti_device \<Rightarrow> instant \<Rightarrow> 'd \<Rightarrow> forti_db \<Rightarrow> (manager_error + forti_status) \<times> 'd \<times> forti_db" where
  "forti_disconnect dev now d db =
     (case fd_run dev d DISCONNECT_CMD of
        (d1, None) \<Rightarrow> (Inl Ssh_Failed, d1, db)
      | (d1, Some _) \<Rightarrow>
          (case fd_run dev d1 active_cmd of (d2, r) \<Rightarrow>
             let active = (case r of None \<Rightarrow> [] | Some out \<Rightarrow> py_strip out) in
             (Inr (plain_status Fs_Down), d2,
              if active = [] then db
              else case fs_mark_status now active Fs_Down No_Note False True db of Inl _ \<Rightarrow> db | Inr db' \<Rightarrow> db')))"

text \<open>The last lines of the log (\<^verbatim>\<open>get_logs\<close> of the routes): the lines, and whether the log has more.\<close>

definition logs_cmd :: "int \<Rightarrow> string" where
  "logs_cmd lines =
     ''wc -l < '' @ LOGFILE @ '' 2>/dev/null ; tail -n '' @ py_str (max 1 (min lines 1000)) @ '' '' @ LOGFILE
     @ '' 2>/dev/null''"

definition get_logs :: "'d forti_device \<Rightarrow> 'd \<Rightarrow> int \<Rightarrow> (string list \<times> bool) option" where
  "get_logs dev d lines =
     (case snd (fd_run dev d (logs_cmd lines)) of
        None \<Rightarrow> None
      | Some out \<Rightarrow>
          (case py_splitlines out of
             [] \<Rightarrow> Some ([], False)
           | l # body \<Rightarrow>
               Some (body, (case py_int (py_strip l) of Some n \<Rightarrow> n | None \<Rightarrow> 1 + int (length body)) > int (length body))))"

section \<open>Properties\<close>

lemma plain_status_state [simp]: "st_state (plain_status s) = s" "st_state (unknown_status l) = Fs_Unknown"
  by (simp_all add: plain_status_def unknown_status_def)

text \<open>The status of the device is never \<^const>\<open>Fs_Failed\<close>: the branch of the wait for it is dead.\<close>

lemma status_never_failed: "st_state (parse_tunnel_status out) \<noteq> Fs_Failed"
  by (auto simp: parse_tunnel_status_def Let_def split: list.split)

lemma tunnel_never_failed: "tunnel_status dev d = (d1, Inr st) \<Longrightarrow> st_state st \<noteq> Fs_Failed"
  using status_never_failed by (auto simp: tunnel_status_def split: prod.splits option.splits)

text \<open>What a connection leaves behind: how its result and the table are related.\<close>

definition connect_result :: "instant \<Rightarrow> string \<Rightarrow> forti_db \<Rightarrow> (manager_error + forti_status) \<times> 'd \<times> forti_db \<Rightarrow> bool" where
  "connect_result now slug db out \<longleftrightarrow>
     (case out of (res, _, db') \<Rightarrow>
      (case res of
         Inr st \<Rightarrow> st_state st = Fs_Up \<and> fs_mark_status now slug Fs_Up No_Note True False db = Inr db'
       | Inl (Connect_Timed_Out lg) \<Rightarrow> fs_mark_status now slug Fs_Failed (Connect_Timeout lg) False False db = Inr db'
       | Inl e \<Rightarrow> (\<forall>lg. e \<noteq> Connect_Failed lg) \<and> db' = db))"

lemma other_result:
  "\<forall>lg. e \<noteq> Connect_Timed_Out lg \<and> e \<noteq> Connect_Failed lg \<Longrightarrow> connect_result now slug db (Inl e, d, db)"
  by (auto simp: connect_result_def split: manager_error.split)

lemma marked_results:
  "connect_result now slug db
     (case marked now slug Fs_Failed (Connect_Timeout lg) False (Inl (Connect_Timed_Out lg)) db of (res, db') \<Rightarrow> (res, d, db'))"
  "st_state st = Fs_Up \<Longrightarrow>
   connect_result now slug db (case marked now slug Fs_Up No_Note True (Inr st) db of (res, db') \<Rightarrow> (res, d, db'))"
  by (auto simp: connect_result_def marked_def split: sum.split)

lemma await_result: "connect_result now slug db (await_tunnel dev now slug n d db)"
proof (induction n arbitrary: d)
  case 0
  obtain d1 lg where "log_tail dev d 10 ''(log unreachable)'' = (d1, lg)" by fastforce
  then show ?case using marked_results(1) by simp
next
  case (Suc n)
  obtain d1 r where look: "tunnel_status dev d = (d1, r)" by fastforce
  show ?case
  proof (cases r)
    case (Inl e)
    then have "e = Ssh_Failed" using look by (auto simp: tunnel_status_def split: prod.splits option.splits)
    then show ?thesis using Inl look by (simp add: other_result)
  next
    case (Inr st)
    then have "st_state st \<noteq> Fs_Failed" using look tunnel_never_failed [of dev d d1 st] by simp
    then show ?thesis
      using Inr look Suc.IH by (cases "st_state st = Fs_Up") (simp_all add: marked_results(2))
  qed
qed


text \<open>The shell reads a line of quoted words back.\<close>

lemma dropWhile_quote [simp]: "dropWhile (\<lambda>c. c = CHR '' '') (shlex_quote w @ s) = shlex_quote w @ s"
proof (cases "shlex_quote w")
  case (Cons c cs)
  then have "c \<noteq> CHR '' ''"
    by (cases w) (auto simp: shlex_quote_def split: if_splits)
  with Cons show ?thesis by simp
qed (simp add: shlex_quote_def split: if_splits)

lemma sh_words_quoted: "sh_words (length ws) (quoted_words ws @ CHR '' '' # r) = Some ws"
proof (induction ws)
  case (Cons w ws)
  have skip: "sh_words n (CHR '' '' # s) = sh_words n s" for n s by (cases n) simp_all
  from Cons show ?case
    by (cases ws) (simp_all add: quoted_words_def sh_word_shlex_quote skip)
qed simp

text \<open>
  No field of a configuration can inject a command: whatever the host, the user name, the pin and the one-time
  password are, the shell of the device reads the launcher's command line as exactly the arguments meant.
\<close>

theorem launcher_arguments_intact:
  "\<exists>rest. launcher_script host port user cert has_ca otp = LAUNCH_HEAD @ rest
     \<and> sh_words (length (launcher_args host port user cert has_ca otp)) rest = Some (launcher_args host port user cert has_ca otp)"
proof -
  obtain r where tail: "LAUNCH_TAIL = CHR '' '' # r" by (simp add: LAUNCH_TAIL_def)
  have "sh_words (length ws) (quoted_words ws @ LAUNCH_TAIL) = Some ws" for ws
    unfolding tail by (rule sh_words_quoted)
  then show ?thesis by (simp add: launcher_script_def)
qed

text \<open>The password is an argument of the command that is sent, which the device's shell runs with \<^verbatim>\<open>sh -c\<close>.\<close>

lemma password_is_an_argument: "sh_words 3 (spawn_cmd pw) = Some [''printf'', ''%s'', pw]"
proof -
  have "shlex_quote ''printf'' = ''printf''" "shlex_quote ''%s'' = ''%s''"
    by (simp_all add: shlex_quote_def shell_safe_def char_class_defs)
  moreover have "sh_word Bare (squote # ''%s'' @ squote # CHR '' '' # s) = Some (''%s'', CHR '' '' # s)" for s
    by (simp add: squote_def)
  moreover have "sh_word Bare (''printf'' @ CHR '' '' # s) = Some (''printf'', CHR '' '' # s)" for s
    using sh_word_safe [of "''printf''" "CHR '' '' # s"] by (simp add: shell_safe_def char_class_defs)
  ultimately show ?thesis
    using sh_word_shlex_quote [of pw]
    by (simp add: spawn_cmd_def numeral_3_eq_3 squote_def)
qed

text \<open>
  Stopping a tunnel never records that it is down: the command that stops it removes the file with the name of the
  configuration, which is read afterwards.
\<close>

lemma disconnect_marks_nothing:
  assumes "fd_run dev d DISCONNECT_CMD = (d1, Some out)" "snd (fd_run dev d1 active_cmd) \<in> {None, Some []}"
  shows "snd (snd (forti_disconnect dev now d db)) = db"
  using assms by (auto simp: forti_disconnect_def strip_defs split: prod.split)

end
