(* ===== verification/Forti_Routing.thy ===== *)
theory Forti_Routing
  imports Forti_Manager Network_Store Sha1
begin

text \<open>
  Fortinet tunnels, third part (\<^verbatim>\<open>backend/app/vpn/fortinet/network_routing.py\<close>): the rules that send the networks
  that asked for it through the tunnel, the kill switches, and the reconciliation that sends them to the device
  and keeps them in \<^verbatim>\<open>/etc/firewall.user\<close>. The scanner \<open>sh_code\<close> tells what a POSIX shell reads of a script: the text
  without its comments.
\<close>

section \<open>Rules\<close>

definition RULE_PRIORITY :: int where "RULE_PRIORITY = 5400"

definition network_slug_tag :: "string \<Rightarrow> string" where
  "network_slug_tag slug = py_upper (map (\<lambda>c. if py_isalnum c then c else CHR ''_'') slug)"

text \<open>The first four bytes of the digest are its first word.\<close>

definition forti_table_for :: "string \<Rightarrow> int" where
  "forti_table_for slug = 250 + fst (sha1 slug) mod (900 - 250)"

definition build_flush_lines :: "string list" where
  "build_flush_lines =
     [''iptables -t nat -S POSTROUTING 2>/dev/null | grep -E -- '' @ [squote] @ ''--comment SC_FR_FORTI_SNAT_''
     @ [squote] @ '' | sed '' @ [squote] @ ''s/^-A /-D /'' @ [squote]
     @ '' | while read -r rule ; do iptables -t nat -D POSTROUTING $rule 2>/dev/null ; done'',
     ''iptables -S 2>/dev/null | grep -E -- '' @ [squote] @ ''--comment SC_FR_FORTI_KS_'' @ [squote] @ '' | sed ''
     @ [squote] @ ''s/^-A /-D /'' @ [squote] @ '' | while read -r rule ; do     chain=$(echo $rule | awk ''
     @ [squote] @ ''{print $2}'' @ [squote] @ '');     rest=$(echo $rule | cut -d'' @ [squote] @ '' '' @ [squote]
     @ '' -f3-);     iptables -D $chain $rest 2>/dev/null ;   done'',
     ''ip rule show pref 5400 2>/dev/null | sed '' @ [squote] @ ''s/^[0-9]*:[[:space:]]*//'' @ [squote]
     @ '' | while read -r r ; do ip rule del pref 5400 $r 2>/dev/null ; done'']"

text \<open>A network to route: its slug, its range, its bridge, and whether it has a kill switch.\<close>

type_synonym routed = "string \<times> string \<times> string \<times> bool"

definition snat_line :: "routed \<Rightarrow> string \<Rightarrow> string" where
  "snat_line n ppp =
     (case n of (slug, cidr, bridge, ks) \<Rightarrow>
      ''iptables -t nat -I POSTROUTING -s '' @ shlex_quote cidr @ '' -o '' @ shlex_quote ppp
      @ '' -j MASQUERADE -m comment --comment '' @ shlex_quote (''SC_FR_FORTI_SNAT_'' @ network_slug_tag slug))"

definition rule_line :: "routed \<Rightarrow> string" where
  "rule_line n =
     (case n of (slug, cidr, bridge, ks) \<Rightarrow>
      ''ip rule add from '' @ shlex_quote cidr @ '' table '' @ py_str (forti_table_for slug) @ '' priority ''
      @ py_str RULE_PRIORITY @ '' 2>/dev/null || true   '')"

definition rule_comment :: "routed \<Rightarrow> string" where
  "rule_comment n = ''# SC_FR_FORTI_RULE_'' @ network_slug_tag (fst n)"

definition route_line :: "routed \<Rightarrow> string \<Rightarrow> string" where
  "route_line n ppp =
     ''ip route replace default dev '' @ shlex_quote ppp @ '' table '' @ py_str (forti_table_for (fst n)) @ ''   ''"

definition route_comment :: "routed \<Rightarrow> string" where
  "route_comment n = ''# SC_FR_FORTI_ROUTE_'' @ network_slug_tag (fst n)"

definition kill_switch_line :: "routed \<Rightarrow> string \<Rightarrow> string" where
  "kill_switch_line n wan =
     (case n of (slug, cidr, bridge, ks) \<Rightarrow>
      ''iptables -I FORWARD -i '' @ shlex_quote bridge @ '' -o '' @ shlex_quote wan
      @ '' -j REJECT --reject-with icmp-net-prohibited -m comment --comment ''
      @ shlex_quote (''SC_FR_FORTI_KS_'' @ network_slug_tag slug))"

definition network_lines :: "string \<Rightarrow> string \<Rightarrow> bool \<Rightarrow> routed \<Rightarrow> string list" where
  "network_lines ppp wan up n =
     (if up \<and> ppp \<noteq> [] then [snat_line n ppp, rule_line n @ rule_comment n, route_line n ppp @ route_comment n] else [])
     @ (case n of (slug, cidr, bridge, ks) \<Rightarrow> if ks \<and> bridge \<noteq> [] \<and> wan \<noteq> [] then [kill_switch_line n wan] else [])"

definition build_apply_lines :: "routed list \<Rightarrow> string \<Rightarrow> string \<Rightarrow> bool \<Rightarrow> string list" where
  "build_apply_lines nets ppp wan up = concat (map (network_lines ppp wan up) nets)"

section \<open>The block in firewall.user\<close>

definition REWRITE_HEAD :: string where
  "REWRITE_HEAD =
     ''FILE=/etc/firewall.user ; TMP=$(mktemp) ; touch $FILE ; awk -v begin='' @ [squote]
     @ ''### SC_FR_FORTI block - managed by slate-controller - do not edit ###'' @ [squote] @ '' -v end='' @ [squote]
     @ ''### SC_FR_FORTI block end ###'' @ [squote] @ ''   '' @ [squote]
     @ ''  $0==begin{drop=1; next}  $0==end{drop=0; next}  !drop{print}   '' @ [squote] @ '' $FILE > $TMP ; { echo ''
     @ [squote] @ ''### SC_FR_FORTI block - managed by slate-controller - do not edit ###'' @ [squote]
     @ '' ; printf '' @ [squote] @ ''%s'' @ [backslash] @ ''n'' @ [squote] @ '' '' @ [squote]"

definition REWRITE_TAIL :: string where
  "REWRITE_TAIL =
     [squote] @ '' ; echo '' @ [squote] @ ''### SC_FR_FORTI block end ###'' @ [squote]
     @ '' ; } >> $TMP ; mv $TMP $FILE ; chmod 600 $FILE''"

definition escape_body :: "string \<Rightarrow> string" where
  "escape_body s = concat (map (\<lambda>c. if c = squote then [squote, backslash, squote, squote] else [c]) s)"

definition rewrite_firewall_user_block :: "string list \<Rightarrow> string" where
  "rewrite_firewall_user_block ls = REWRITE_HEAD @ escape_body (py_join [CHR 0x0A] ls) @ REWRITE_TAIL"

section \<open>Reconciliation\<close>

definition DISCOVER_CMD :: string where
  "DISCOVER_CMD =
     ''export PATH=/usr/sbin:/sbin:/usr/bin:/bin:$PATH ; wan=$(ip route show default 2>/dev/null | awk '' @ [squote]
     @ ''/default/{print $5; exit}'' @ [squote] @ '') ; ppp=$(ls /sys/class/net 2>/dev/null | grep '' @ [squote]
     @ ''^ppp'' @ [squote] @ '' | head -1) ; echo '' @ [dquote] @ ''wan=$wan'' @ [dquote] @ '' ; echo '' @ [dquote]
     @ ''ppp=$ppp'' @ [dquote]"

definition iface_line :: "string \<times> string \<Rightarrow> string \<Rightarrow> string \<times> string" where
  "iface_line w line =
     (if starts_with ''wan='' line then (after_equals line, snd w)
      else if starts_with ''ppp='' line then (fst w, after_equals line) else w)"

definition discover_ifaces :: "'d forti_device \<Rightarrow> 'd \<Rightarrow> 'd \<times> (string \<times> string) option" where
  "discover_ifaces dev d =
     (case fd_run dev d DISCOVER_CMD of
        (d1, None) \<Rightarrow> (d1, None)
      | (d1, Some out) \<Rightarrow> (d1, Some (foldl iface_line ([], []) (py_splitlines out))))"

definition routed_networks :: "network_row list \<Rightarrow> routed list" where
  "routed_networks rows =
     map (\<lambda>r. (nw_slug r, subnet_cidr (nw_body r), bridge_name (nw_body r), forti_kill_switch (nw_body r)))
       (filter (\<lambda>r. egress_via_forti (nw_body r)) (ns_list_all rows))"

definition flush_table_line :: "routed \<Rightarrow> string" where
  "flush_table_line n = ''ip route flush table '' @ py_str (forti_table_for (fst n)) @ '' 2>/dev/null || true''"

definition persist_lines :: "routed list \<Rightarrow> string \<Rightarrow> string \<Rightarrow> bool \<Rightarrow> string list" where
  "persist_lines nets ppp wan up =
     build_flush_lines @ map flush_table_line nets @ build_apply_lines nets ppp wan up @ [''exit 0'']"

definition live_script :: "routed list \<Rightarrow> string \<Rightarrow> string \<Rightarrow> bool \<Rightarrow> string" where
  "live_script nets ppp wan up = py_join ''; '' (persist_lines nets ppp wan up)"

definition sh_call :: "string \<Rightarrow> string" where
  "sh_call script = ''PATH=/usr/sbin:/sbin:/usr/bin:/bin sh -c '' @ shlex_quote script"

datatype routing_error = Routing_Ssh | Manager_Raised manager_error

record routing_report =
  rp_tunnel_up :: bool
  rp_ppp :: string
  rp_wan :: string
  rp_networks :: "string list"
  rp_applied :: nat

definition forti_reconcile :: "'d forti_device \<Rightarrow> network_row list \<Rightarrow> 'd \<Rightarrow> 'd \<times> (routing_error + routing_report)" where
  "forti_reconcile dev rows d =
     (case discover_ifaces dev d of
        (d1, None) \<Rightarrow> (d1, Inl Routing_Ssh)
      | (d1, Some (wan, ppp)) \<Rightarrow>
          (case tunnel_status dev d1 of
             (d2, Inl e) \<Rightarrow> (d2, Inl (Manager_Raised e))
           | (d2, Inr st) \<Rightarrow>
               let up = (st_state st = Fs_Up \<and> ppp \<noteq> []); nets = routed_networks rows;
                   ls = persist_lines nets ppp wan up in
               (case fd_run dev d2 (sh_call (live_script nets ppp wan up)) of
                  (d3, None) \<Rightarrow> (d3, Inl Routing_Ssh)
                | (d3, Some _) \<Rightarrow>
                    (case fd_run dev d3 (sh_call (rewrite_firewall_user_block ls)) of
                       (d4, None) \<Rightarrow> (d4, Inl Routing_Ssh)
                     | (d4, Some _) \<Rightarrow>
                         (d4, Inr \<lparr>rp_tunnel_up = up, rp_ppp = ppp, rp_wan = wan, rp_networks = map fst nets,
                                   rp_applied = length (build_apply_lines nets ppp wan up)\<rparr>)))))"

section \<open>What the shell reads\<close>

text \<open>
  The scanner's state after a character: at the start of a word, in a word, within single or double quotes, after
  a backslash, or in a comment, which a hash at the start of a word opens and a line break ends.
\<close>

datatype sh_mode = Word_Start | In_Word | In_Sq | In_Dq | Escaped | Escaped_Dq | In_Comment

definition sh_next :: "sh_mode \<Rightarrow> char \<Rightarrow> sh_mode" where
  "sh_next m c =
     (case m of
        In_Comment \<Rightarrow> if c = CHR 0x0A then Word_Start else In_Comment
      | In_Sq \<Rightarrow> if c = squote then In_Word else In_Sq
      | In_Dq \<Rightarrow> if c = dquote then In_Word else if c = backslash then Escaped_Dq else In_Dq
      | Escaped \<Rightarrow> In_Word
      | Escaped_Dq \<Rightarrow> In_Dq
      | _ \<Rightarrow>
          if c = CHR ''#'' \<and> m = Word_Start then In_Comment
          else if c = squote then In_Sq else if c = dquote then In_Dq else if c = backslash then Escaped
          else if c \<in> {CHR '' '', CHR 0x09, CHR 0x0A, CHR '';'', CHR ''&'', CHR ''|'', CHR ''('', CHR '')'', CHR ''<'', CHR ''>''}
          then Word_Start else In_Word)"

fun sh_code :: "sh_mode \<Rightarrow> string \<Rightarrow> string" where
  "sh_code m [] = []"
| "sh_code m (c # s) = (let m' = sh_next m c in (if m' = In_Comment then [] else [c]) @ sh_code m' s)"

definition sh_end :: "sh_mode \<Rightarrow> string \<Rightarrow> sh_mode" where
  "sh_end m s = foldl sh_next m s"

lemma sh_end_simps [simp]: "sh_end m [] = m" "sh_end m (c # s) = sh_end (sh_next m c) s"
  "sh_end m (s @ t) = sh_end (sh_end m s) t"
  by (simp_all add: sh_end_def)

lemma sh_code_append [simp]: "sh_code m (s @ t) = sh_code m s @ sh_code (sh_end m s) t"
  by (induction s arbitrary: m) (simp_all add: Let_def)

text \<open>A text that the shell reads whole, and the state it leaves.\<close>

definition sh_reads :: "sh_mode \<Rightarrow> string \<Rightarrow> sh_mode \<Rightarrow> bool" where
  "sh_reads m s m' \<longleftrightarrow> sh_code m s = s \<and> sh_end m s = m'"

lemma sh_reads_append: "sh_reads m s m1 \<Longrightarrow> sh_reads m1 t m2 \<Longrightarrow> sh_reads m (s @ t) m2"
  by (simp add: sh_reads_def)

lemma sh_reads_Nil [simp]: "sh_reads m [] m' \<longleftrightarrow> m = m'"
  by (simp add: sh_reads_def)

lemma sh_reads_Cons [simp]:
  "sh_reads m (c # s) m' \<longleftrightarrow> sh_next m c \<noteq> In_Comment \<and> sh_reads (sh_next m c) s m'"
proof -
  have "length (sh_code m s) \<le> length s" for m s by (induction s arbitrary: m) (simp_all add: Let_def le_SucI)
  from this [of "In_Comment" s] have "sh_code In_Comment s \<noteq> c # s" by auto
  then show ?thesis by (auto simp: sh_reads_def Let_def)
qed

lemmas sh_char_defs = squote_def dquote_def backslash_def char_class_defs

lemma sh_next_quotes [simp]:
  "sh_next In_Sq c = (if c = squote then In_Word else In_Sq)"
  "sh_next In_Dq squote = In_Dq" "sh_next In_Dq dquote = In_Word"
  "sh_next Word_Start squote = In_Sq" "sh_next In_Word squote = In_Sq" "sh_next In_Word dquote = In_Dq"
  by (simp_all add: sh_next_def sh_char_defs)

lemma sh_next_plain:
  assumes "shell_safe c" "m = Word_Start \<or> m = In_Word"
  shows "sh_next m c = In_Word"
proof -
  have "\<not> shell_safe d" if "d \<in> {CHR ''#'', squote, dquote, backslash, CHR '' '', CHR 0x09, CHR 0x0A, CHR '';'', CHR ''&'',
      CHR ''|'', CHR ''('', CHR '')'', CHR ''<'', CHR ''>''}" for d
    using that by (auto simp: shell_safe_def py_isalnum_def sh_char_defs)
  with assms(1) have "c \<notin> {CHR ''#'', squote, dquote, backslash, CHR '' '', CHR 0x09, CHR 0x0A, CHR '';'', CHR ''&'',
      CHR ''|'', CHR ''('', CHR '')'', CHR ''<'', CHR ''>''}" by blast
  then show ?thesis using assms(2) by (auto simp: sh_next_def)
qed

lemma sh_reads_plain:
  "list_all shell_safe s \<Longrightarrow> m = Word_Start \<or> m = In_Word \<Longrightarrow> s \<noteq> [] \<Longrightarrow> sh_reads m s In_Word"
proof (induction s arbitrary: m)
  case (Cons c s)
  then show ?case using sh_next_plain [of c m] by (cases "s = []") simp_all
qed simp

lemma sh_reads_escaped: "sh_reads In_Sq (escape_squotes s @ [squote]) In_Word"
  by (induction s) simp_all

text \<open>A quoted word is read whole, whatever it holds, and ends in a word: a hash in it opens no comment.\<close>

lemma sh_reads_quoted [simp]: "m = Word_Start \<or> m = In_Word \<Longrightarrow> sh_reads m (shlex_quote s) In_Word"
  using sh_reads_plain [of s m] sh_reads_escaped [of s] by (auto simp: shlex_quote_def)

lemma sh_reads_number: "0 \<le> i \<Longrightarrow> m = Word_Start \<or> m = In_Word \<Longrightarrow> sh_reads m (py_str i) In_Word"
  using py_str_digits [of i]
  by (intro sh_reads_plain) (auto simp: list_all_iff shell_safe_def py_isalnum_def py_str_def)

section \<open>The lines as the shell reads them\<close>

lemma sh_reads_word: "sh_reads m s Word_Start \<Longrightarrow> sh_reads In_Word t m' \<Longrightarrow> sh_reads m (s @ shlex_quote w @ t) m'"
  by (blast intro: sh_reads_append sh_reads_quoted)

lemma flush_lines_read: "l \<in> set build_flush_lines \<Longrightarrow> sh_reads Word_Start l In_Word"
proof -
  have "list_all (\<lambda>l. sh_code Word_Start l = l \<and> sh_end Word_Start l = In_Word) build_flush_lines" by code_simp
  then show "l \<in> set build_flush_lines \<Longrightarrow> sh_reads Word_Start l In_Word" by (auto simp: list_all_iff sh_reads_def)
qed

lemma forti_table_nonneg: "0 \<le> forti_table_for slug"
  by (simp add: forti_table_for_def)

lemma flush_table_line_read: "sh_reads Word_Start (flush_table_line n) In_Word"
proof -
  have "sh_reads Word_Start ''ip route flush table '' Word_Start" "sh_reads In_Word '' 2>/dev/null || true'' In_Word"
    by (simp_all add: sh_next_def sh_char_defs)
  then show ?thesis unfolding flush_table_line_def
    by (blast intro: sh_reads_append sh_reads_number [OF forti_table_nonneg])
qed

lemma snat_line_read: "sh_reads Word_Start (snat_line n ppp) In_Word"
proof (cases n)
  case (fields slug cidr bridge ks)
  have "sh_reads Word_Start ''iptables -t nat -I POSTROUTING -s '' Word_Start" "sh_reads In_Word '' -o '' Word_Start"
      "sh_reads In_Word '' -j MASQUERADE -m comment --comment '' Word_Start"
    by (simp_all add: sh_next_def sh_char_defs)
  then show ?thesis unfolding snat_line_def fields prod.case
    by (blast intro: sh_reads_append sh_reads_quoted)
qed

lemma rule_line_read: "sh_reads Word_Start (rule_line n) Word_Start"
proof (cases n)
  case (fields slug cidr bridge ks)
  have "sh_reads Word_Start ''ip rule add from '' Word_Start" "sh_reads In_Word '' table '' Word_Start"
      "sh_reads In_Word '' priority '' Word_Start" "sh_reads In_Word '' 2>/dev/null || true   '' Word_Start"
    by (simp_all add: sh_next_def sh_char_defs)
  moreover have "0 \<le> RULE_PRIORITY" by (simp add: RULE_PRIORITY_def)
  ultimately show ?thesis unfolding rule_line_def fields prod.case
    by (blast intro: sh_reads_append sh_reads_quoted sh_reads_number [OF forti_table_nonneg] sh_reads_number)
qed

lemma route_line_read: "sh_reads Word_Start (route_line n ppp) Word_Start"
proof -
  have "sh_reads Word_Start ''ip route replace default dev '' Word_Start" "sh_reads In_Word '' table '' Word_Start"
      "sh_reads In_Word ''   '' Word_Start"
    by (simp_all add: sh_next_def sh_char_defs)
  then show ?thesis unfolding route_line_def
    by (blast intro: sh_reads_append sh_reads_quoted sh_reads_number [OF forti_table_nonneg])
qed

lemma kill_switch_line_read: "sh_reads Word_Start (kill_switch_line n wan) In_Word"
proof (cases n)
  case (fields slug cidr bridge ks)
  have "sh_reads Word_Start ''iptables -I FORWARD -i '' Word_Start" "sh_reads In_Word '' -o '' Word_Start"
      "sh_reads In_Word '' -j REJECT --reject-with icmp-net-prohibited -m comment --comment '' Word_Start"
    by (simp_all add: sh_next_def sh_char_defs)
  then show ?thesis unfolding kill_switch_line_def fields prod.case
    by (blast intro: sh_reads_append sh_reads_quoted)
qed

text \<open>A comment: nothing of it is read, up to a line break.\<close>

lemma comment_unread: "CHR 0x0A \<notin> set s \<Longrightarrow> sh_code In_Comment s = [] \<and> sh_end In_Comment s = In_Comment"
  by (induction s) (auto simp: sh_next_def)

lemma hash_unread: "CHR 0x0A \<notin> set s \<Longrightarrow> sh_code Word_Start (CHR ''#'' # s) = [] \<and> sh_end Word_Start (CHR ''#'' # s) = In_Comment"
  using comment_unread [of s] by (simp add: sh_next_def)

lemma slug_tag_one_line: "CHR 0x0A \<notin> set (network_slug_tag slug)"
proof -
  have "char_upper c = CHR 0x0A \<longleftrightarrow> c = CHR 0x0A" for c
  proof (cases "py_islower c")
    case True
    then have "97 \<le> (of_char c :: nat)" "(of_char c :: nat) \<le> 122" by (simp_all add: char_class_defs)
    then have "of_char (char_upper c) = (of_char c - 32 :: nat)" using True by (simp add: char_upper_def of_char_of)
    moreover have "of_char (CHR 0x0A) = (10 :: nat)" by simp
    ultimately have "char_upper c \<noteq> CHR 0x0A" using \<open>97 \<le> of_char c\<close> by auto
    moreover have "c \<noteq> CHR 0x0A" using True by (auto simp: char_class_defs)
    ultimately show ?thesis by simp
  qed (simp add: char_upper_def)
  note upper = this
  have "\<not> py_isalnum (CHR 0x0A)" by (simp add: py_isalnum_def char_class_defs)
  then have "(if py_isalnum c then c else CHR ''_'') \<noteq> CHR 0x0A" for c by auto
  then have "char_upper (if py_isalnum c then c else CHR ''_'') \<noteq> CHR 0x0A" for c
    by (simp only: upper not_False_eq_True)
  then show ?thesis unfolding network_slug_tag_def py_upper_def set_map image_image
    by (intro notI, elim imageE) (metis (no_types))
qed

section \<open>Scripts of several lines\<close>

definition sh_line :: "string \<Rightarrow> bool" where
  "sh_line l \<longleftrightarrow> sh_reads Word_Start l Word_Start \<or> sh_reads Word_Start l In_Word"

lemma sh_semicolon: "m = Word_Start \<or> m = In_Word \<Longrightarrow> sh_reads m ''; '' Word_Start"
  by (auto simp: sh_next_def sh_char_defs)

lemma sh_line_join: "\<forall>l\<in>set ls. sh_line l \<Longrightarrow> sh_line (py_join ''; '' ls)"
proof (induction "''; ''" ls rule: py_join.induct)
  case (3 w v ws)
  then have IH: "sh_line (py_join ''; '' (v # ws))" and "sh_line w" by simp_all
  then obtain m where m: "m = Word_Start \<or> m = In_Word" "sh_reads Word_Start w m" by (auto simp: sh_line_def)
  then have "sh_reads Word_Start (w @ ''; '') Word_Start" by (blast intro: sh_reads_append sh_semicolon)
  then show ?case using IH sh_reads_append [of Word_Start "w @ ''; ''"] by (auto simp: sh_line_def)
qed (simp_all add: sh_line_def)

lemma sh_line_code: "sh_line l \<Longrightarrow> sh_code Word_Start l = l"
  by (auto simp: sh_line_def sh_reads_def)

text \<open>Joined with semicolons, a script is read up to its first comment and no further, unless it breaks a line.\<close>

lemma semicolons_cut:
  assumes "\<forall>l\<in>set ls. sh_line l" "sh_reads Word_Start l Word_Start" "\<forall>r\<in>set ((CHR ''#'' # c) # rs). CHR 0x0A \<notin> set r"
  shows "sh_code Word_Start (py_join ''; '' (ls @ (l @ CHR ''#'' # c) # rs)) = py_join ''; '' (ls @ [l])"
proof -
  let ?tail = "CHR ''#'' # c @ (if rs = [] then [] else ''; '' @ py_join ''; '' rs)"
  have "CHR 0x0A \<notin> set (c @ (if rs = [] then [] else ''; '' @ py_join ''; '' rs))"
    using assms(3) set_py_join [of "''; ''" rs] by auto
  from hash_unread [OF this] have tail: "sh_code Word_Start ?tail = []" by simp
  have whole: "sh_reads Word_Start (py_join ''; '' (ls @ [l])) Word_Start"
  proof (cases "ls = []")
    case False
    from sh_line_join [OF assms(1)] obtain m where m: "m = Word_Start \<or> m = In_Word" "sh_reads Word_Start (py_join ''; '' ls) m"
      by (auto simp: sh_line_def)
    then have "sh_reads Word_Start (py_join ''; '' ls @ ''; '' @ l) Word_Start"
      using assms(2) by (blast intro: sh_reads_append sh_semicolon)
    then show ?thesis using False by (simp add: py_join_append)
  qed (use assms(2) in simp)
  have "py_join ''; '' (ls @ (l @ CHR ''#'' # c) # rs) = py_join ''; '' (ls @ [l]) @ ?tail"
    by (cases "ls = []"; cases "rs = []") (simp_all add: py_join_append py_join_Cons)
  then show ?thesis using whole tail by (simp add: sh_reads_def)
qed

text \<open>Joined with line breaks, every line is read for itself.\<close>

definition reads_as :: "string \<Rightarrow> string \<Rightarrow> bool" where
  "reads_as l k \<longleftrightarrow> sh_code Word_Start l = k \<and> sh_end Word_Start l \<in> {Word_Start, In_Word, In_Comment}"

lemma reads_as_line: "sh_line l \<Longrightarrow> reads_as l l"
  by (auto simp: reads_as_def sh_line_def sh_reads_def)

lemma reads_as_comment: "sh_reads Word_Start l Word_Start \<Longrightarrow> CHR 0x0A \<notin> set c \<Longrightarrow> reads_as (l @ CHR ''#'' # c) l"
  using hash_unread [of c] by (simp add: reads_as_def sh_reads_def)

lemma line_breaks_keep:
  assumes "\<forall>(l, k)\<in>set ls. reads_as l k"
  shows "sh_code Word_Start (py_join [CHR 0x0A] (map fst ls)) = py_join [CHR 0x0A] (map snd ls)"
  using assms
proof (induction ls)
  case (Cons x ls)
  then have "sh_next (sh_end Word_Start (fst x)) (CHR 0x0A) = Word_Start"
    by (auto simp: reads_as_def sh_next_def sh_char_defs)
  then show ?case using Cons by (auto simp: reads_as_def py_join_Cons Let_def)
qed simp

section \<open>What reaches the device\<close>

text \<open>The commands of a network's lines, without their comments.\<close>

definition network_code :: "string \<Rightarrow> string \<Rightarrow> bool \<Rightarrow> routed \<Rightarrow> string list" where
  "network_code ppp wan up n =
     (if up \<and> ppp \<noteq> [] then [snat_line n ppp, rule_line n, route_line n ppp] else [])
     @ (case n of (slug, cidr, bridge, ks) \<Rightarrow> if ks \<and> bridge \<noteq> [] \<and> wan \<noteq> [] then [kill_switch_line n wan] else [])"

lemma set_escape_squotes: "set (escape_squotes s) \<subseteq> set s \<union> {squote, dquote}"
  by (induction s) auto

lemma quoted_one_line [simp]: "CHR 0x0A \<in> set (shlex_quote s) \<longleftrightarrow> CHR 0x0A \<in> set s"
proof -
  have "set s \<subseteq> set (escape_squotes s)" by (induction s) auto
  moreover have "CHR 0x0A \<noteq> squote" "CHR 0x0A \<noteq> dquote" by (simp_all add: sh_char_defs)
  ultimately show ?thesis using set_escape_squotes [of s] by (auto simp: shlex_quote_def)
qed

lemma number_one_line: "0 \<le> i \<Longrightarrow> CHR 0x0A \<notin> set (py_str i)"
  using py_str_digits [of i] by (auto simp: char_class_defs)

lemma comments_one_line: "CHR 0x0A \<notin> set (rule_comment n)" "CHR 0x0A \<notin> set (route_comment n)"
  using slug_tag_one_line by (simp_all add: rule_comment_def route_comment_def)

lemma network_lines_one_line:
  assumes "CHR 0x0A \<notin> set ppp \<union> set wan" "CHR 0x0A \<notin> set (fst (snd n)) \<union> set (fst (snd (snd n)))"
    and "l \<in> set (network_lines ppp wan up n)"
  shows "CHR 0x0A \<notin> set l"
  using assms slug_tag_one_line comments_one_line number_one_line [OF forti_table_nonneg] number_one_line [of RULE_PRIORITY]
  by (auto simp: network_lines_def snat_line_def rule_line_def route_line_def kill_switch_line_def RULE_PRIORITY_def
      split: prod.splits if_splits)

lemma flush_part_lines: "\<forall>l\<in>set (build_flush_lines @ map flush_table_line nets). sh_line l"
  using flush_lines_read flush_table_line_read by (auto simp: sh_line_def)

lemma exit_line: "sh_reads Word_Start ''exit 0'' In_Word"
  by (simp add: sh_next_def sh_char_defs)

lemma down_lines:
  "build_apply_lines nets ppp wan False =
     map (\<lambda>n. kill_switch_line n wan) (filter (\<lambda>(slug, cidr, bridge, ks). ks \<and> bridge \<noteq> [] \<and> wan \<noteq> []) nets)"
  by (induction nets) (auto simp: build_apply_lines_def network_lines_def split: prod.splits)

text \<open>
  C38. With the tunnel down, the rules fail closed: the script sent to the device is, to the last character, what its shell
  reads, and it consists of the flushes, then one rejecting rule for every network with a kill switch and a bridge
  (once the WAN interface is known), and no rule that sends traffic elsewhere.
\<close>

theorem down_script_fails_closed:
  "live_script nets ppp wan False =
     py_join ''; '' (build_flush_lines @ map flush_table_line nets
       @ map (\<lambda>n. kill_switch_line n wan) (filter (\<lambda>(slug, cidr, bridge, ks). ks \<and> bridge \<noteq> [] \<and> wan \<noteq> []) nets)
       @ [''exit 0''])
   \<and> sh_code Word_Start (live_script nets ppp wan False) = live_script nets ppp wan False"
proof -
  have "\<forall>l\<in>set (persist_lines nets ppp wan False). sh_line l"
    using flush_part_lines [of nets] kill_switch_line_read exit_line
    by (auto simp: persist_lines_def down_lines sh_line_def)
  from sh_line_code [OF sh_line_join [OF this]] show ?thesis
    by (simp add: live_script_def persist_lines_def down_lines)
qed

text \<open>
  C34. With the tunnel up, the script sent to the device loses nearly all of its rules: its commands are joined with
  semicolons on one line and the second command for the first network ends in a comment, so the shell reads the
  flushes, that network's masquerading and its policy rule, and nothing else: no default route into the tunnel, no
  kill switch, and not one rule of any further network.
\<close>

theorem live_script_cut:
  assumes "ppp \<noteq> []" "CHR 0x0A \<notin> set ppp \<union> set wan"
    and "\<forall>(slug, cidr, bridge, ks)\<in>set (n # ns). CHR 0x0A \<notin> set cidr \<union> set bridge"
  shows "sh_code Word_Start (live_script (n # ns) ppp wan True) =
    py_join ''; '' (build_flush_lines @ map flush_table_line (n # ns) @ [snat_line n ppp, rule_line n])"
proof -
  let ?ls = "build_flush_lines @ map flush_table_line (n # ns) @ [snat_line n ppp]"
  let ?rs = "drop 2 (network_lines ppp wan True n) @ build_apply_lines ns ppp wan True @ [''exit 0'']"
  have lines: "persist_lines (n # ns) ppp wan True = ?ls @ (rule_line n @ rule_comment n) # ?rs"
    using assms(1) by (simp add: persist_lines_def build_apply_lines_def network_lines_def)
  obtain c where c: "rule_comment n = CHR ''#'' # c" by (simp add: rule_comment_def)
  have one: "CHR 0x0A \<notin> set (fst (snd m)) \<union> set (fst (snd (snd m)))" if "m \<in> set (n # ns)" for m
    using bspec [OF assms(3) that] by (cases m) simp
  have each: "\<forall>m\<in>set (n # ns). \<forall>l\<in>set (network_lines ppp wan True m). CHR 0x0A \<notin> set l"
    using network_lines_one_line [OF assms(2) one] by blast
  have "\<forall>l\<in>set (drop 2 (network_lines ppp wan True n)). CHR 0x0A \<notin> set l"
    using each by (meson in_set_dropD list.set_intros(1))
  then have "\<forall>r\<in>set (rule_comment n # ?rs). CHR 0x0A \<notin> set r"
    using comments_one_line(1) [of n] each by (simp add: build_apply_lines_def ball_Un)
  moreover have "\<forall>l\<in>set ?ls. sh_line l" using flush_part_lines [of "n # ns"] snat_line_read by (auto simp: sh_line_def)
  ultimately show ?thesis
    using semicolons_cut [of ?ls "rule_line n" c ?rs] rule_line_read [of n] by (simp add: live_script_def lines c)
qed

theorem live_script_cut_witness:
  "sh_code Word_Start
     (live_script [(''lan'', ''10.0.0.0/24'', ''br-lan'', True), (''guest'', ''10.0.1.0/24'', ''br-guest'', True)]
        ''ppp0'' ''eth0'' True) =
   py_join ''; '' (build_flush_lines
     @ map flush_table_line [(''lan'', ''10.0.0.0/24'', ''br-lan'', True), (''guest'', ''10.0.1.0/24'', ''br-guest'', True)]
     @ [snat_line (''lan'', ''10.0.0.0/24'', ''br-lan'', True) ''ppp0'', rule_line (''lan'', ''10.0.0.0/24'', ''br-lan'', True)])"
  by (rule live_script_cut) simp_all

text \<open>A network's lines, each with what is read of it.\<close>

definition network_pairs :: "string \<Rightarrow> string \<Rightarrow> bool \<Rightarrow> routed \<Rightarrow> (string \<times> string) list" where
  "network_pairs ppp wan up n =
     (if up \<and> ppp \<noteq> []
      then [(snat_line n ppp, snat_line n ppp), (rule_line n @ rule_comment n, rule_line n),
            (route_line n ppp @ route_comment n, route_line n ppp)] else [])
     @ (case n of (slug, cidr, bridge, ks) \<Rightarrow>
          if ks \<and> bridge \<noteq> [] \<and> wan \<noteq> [] then [(kill_switch_line n wan, kill_switch_line n wan)] else [])"

lemma network_pairs_maps:
  "map fst (network_pairs ppp wan up n) = network_lines ppp wan up n"
  "map snd (network_pairs ppp wan up n) = network_code ppp wan up n"
  by (simp_all add: network_pairs_def network_lines_def network_code_def split: prod.split)

lemma network_pairs_read: "\<forall>(l, k)\<in>set (network_pairs ppp wan up n). reads_as l k"
proof -
  have "reads_as (snat_line n ppp) (snat_line n ppp)" "reads_as (kill_switch_line n wan) (kill_switch_line n wan)"
    using snat_line_read kill_switch_line_read by (simp_all add: reads_as_line sh_line_def)
  moreover have "reads_as (rule_line n @ rule_comment n) (rule_line n)"
      "reads_as (route_line n ppp @ route_comment n) (route_line n ppp)"
    using reads_as_comment [OF rule_line_read] reads_as_comment [OF route_line_read] comments_one_line [of n]
    by (simp_all add: rule_comment_def route_comment_def)
  ultimately show ?thesis by (cases n) (auto simp: network_pairs_def)
qed

text \<open>
  The copy kept in firewall.user is complete: its lines are separate lines, so a comment hides its own line's
  end alone, and the shell reads every command of every network, whatever the names and the ranges hold.
\<close>

theorem persisted_script_complete:
  "sh_code Word_Start (py_join [CHR 0x0A] (persist_lines nets ppp wan up)) =
     py_join [CHR 0x0A] (build_flush_lines @ map flush_table_line nets @ concat (map (network_code ppp wan up) nets) @ [''exit 0''])"
proof -
  let ?fixed = "build_flush_lines @ map flush_table_line nets"
  let ?all = "map (\<lambda>l. (l, l)) ?fixed @ concat (map (network_pairs ppp wan up) nets) @ [(''exit 0'', ''exit 0'')]"
  have "\<forall>(l, k)\<in>set (map (\<lambda>l. (l, l)) ?fixed). reads_as l k" using flush_part_lines [of nets] reads_as_line by auto
  moreover have "\<forall>(l, k)\<in>set (concat (map (network_pairs ppp wan up) nets)). reads_as l k"
    using network_pairs_read [of ppp wan up] by auto
  moreover have "reads_as ''exit 0'' ''exit 0''" using exit_line by (simp add: reads_as_line sh_line_def)
  ultimately have "\<forall>(l, k)\<in>set ?all. reads_as l k" by (simp only: set_append ball_Un) simp
  from line_breaks_keep [OF this] show ?thesis
    by (simp add: persist_lines_def build_apply_lines_def map_concat comp_def network_pairs_maps)
qed

text \<open>
  The table of a network may be one of the kernel's own (254 is the main table, 255 the local one), and the
  reconciliation empties it: a network called tv18 has the routes to the device's own addresses flushed.
\<close>

lemma kernel_tables_flushed:
  "flush_table_line (''guest-media'', c, b, ks) = ''ip route flush table 254 2>/dev/null || true''"
  "flush_table_line (''tv18'', c, b, ks) = ''ip route flush table 255 2>/dev/null || true''"
proof -
  have "forti_table_for ''guest-media'' = 254" "forti_table_for ''tv18'' = 255" by code_simp+
  moreover have "py_str 254 = ''254''" "py_str 255 = ''255''" by code_simp+
  ultimately show "flush_table_line (''guest-media'', c, b, ks) = ''ip route flush table 254 2>/dev/null || true''"
    "flush_table_line (''tv18'', c, b, ks) = ''ip route flush table 255 2>/dev/null || true''"
    by (simp_all add: flush_table_line_def)
qed

end
