(* ===== verification/Tor_Control.thy ===== *)
theory Tor_Control
  imports Py_Match
begin

text \<open>
  Tor, first part (\<^verbatim>\<open>backend/app/tor/control.py\<close>): a batch of commands to the control port, the replies, the
  circuits and the relays they pass. A command of the controller runs on the device: \<open>run d cmd\<close> gives the device's
  next state and what came back (the output and the exit code, \<^const>\<open>None\<close> for an SSH error). The coordinates of a
  relay are never set and are left out.
\<close>

section \<open>Data\<close>

type_synonym 'd run_fun = "'d \<Rightarrow> string \<Rightarrow> 'd \<times> (string \<times> int) option"

definition DEFAULT_CONTROL_PORT :: int where "DEFAULT_CONTROL_PORT = 9051"
definition DEFAULT_COOKIE_PATH :: string where "DEFAULT_COOKIE_PATH = ''/var/lib/tor/control_auth_cookie''"

record relay_hop =
  hop_fingerprint :: string
  hop_nickname :: string
  hop_ip :: "string option"
  hop_country :: "string option"
  hop_bandwidth :: "int option"

record circuit =
  ci_id :: string
  ci_purpose :: string
  ci_flags :: "string list"
  ci_hops :: "relay_hop list"

section \<open>One conversation\<close>

text \<open>The escape that printf turns into a line end, as the script spells it.\<close>

definition PRINTF_CRLF :: string where "PRINTF_CRLF = [backslash, CHR ''r'', backslash, CHR ''n'']"

definition ctrl_script :: "string \<Rightarrow> int \<Rightarrow> string list \<Rightarrow> string" where
  "ctrl_script cookie_path port commands =
     ''COOKIE=$(hexdump -ve '' @ [squote] @ ''/1 '' @ [dquote] @ ''%02x'' @ [dquote] @ [squote] @ '' '' @ cookie_path @ '' 2>/dev/null); [ -z '' @ [dquote] @ ''$COOKIE'' @ [dquote] @ '' ] && exit 0; (printf '' @ [squote]
     @ ''AUTHENTICATE %s''
     @ PRINTF_CRLF @ py_join PRINTF_CRLF commands @ PRINTF_CRLF @ ''QUIT'' @ PRINTF_CRLF
     @ [squote] @ '' '' @ [dquote] @ ''$COOKIE'' @ [dquote] @ ''; sleep 2) | nc 127.0.0.1 '' @ py_str port @ '' 2>/dev/null''"

definition talk :: "'d run_fun \<Rightarrow> 'd \<Rightarrow> string list \<Rightarrow> 'd \<times> string" where
  "talk run d commands =
     (case run d (ctrl_script DEFAULT_COOKIE_PATH DEFAULT_CONTROL_PORT commands) of
        (d1, None) \<Rightarrow> (d1, []) | (d1, Some (out, _)) \<Rightarrow> (d1, out))"

section \<open>Replies\<close>

text \<open>A line of a reply: its code, the separator, and the rest.\<close>

definition reply_line :: "string \<Rightarrow> (string \<times> char \<times> string) option" where
  "reply_line l =
     (case l of
        a # b # c # s # rest \<Rightarrow>
          if py_isdigit a \<and> py_isdigit b \<and> py_isdigit c \<and> s \<in> set ''-+ '' then Some ([a, b, c], s, rest) else None
      | _ \<Rightarrow> None)"

fun replies_from :: "string \<Rightarrow> string list \<Rightarrow> string" where
  "replies_from key [] = []"
| "replies_from key (l # ls) =
     (case reply_line l of
        None \<Rightarrow> replies_from key ls
      | Some (code, sep, rest) \<Rightarrow>
          if code \<noteq> ''250'' then replies_from key ls
          else if sep = CHR ''-'' \<and> starts_with (key @ ''='') rest then drop (length key + 1) rest
          else if sep = CHR ''+'' \<and> starts_with (key @ ''='') rest
          then py_join [CHR 0x0A] (takeWhile (\<lambda>l. l \<noteq> ''.'') ls)
          else replies_from key ls)"

definition replies_block :: "string \<Rightarrow> string \<Rightarrow> string" where
  "replies_block raw key = replies_from key (py_splitlines raw)"

section \<open>Circuits\<close>

definition is_fp_char :: "char \<Rightarrow> bool" where
  "is_fp_char c \<longleftrightarrow> py_isdigit c \<or> (CHR ''A'' \<le> c \<and> c \<le> CHR ''F'')"

definition is_nick_char :: "char \<Rightarrow> bool" where
  "is_nick_char c \<longleftrightarrow> py_isalnum c \<or> c = CHR ''_'' \<or> c = CHR ''-''"

text \<open>A relay of a path at the start of a text, with what follows it.\<close>

definition match_hop :: "string \<Rightarrow> ((string \<times> string) \<times> string) option" where
  "match_hop s =
     (case s of
        c # t \<Rightarrow>
          let fp = take 40 t; u = drop 40 t; nick = takeWhile is_nick_char (tl u) in
          if c = CHR ''$'' \<and> length fp = 40 \<and> list_all is_fp_char fp \<and> u \<noteq> [] \<and> hd u = CHR ''~'' \<and> nick \<noteq> []
          then Some ((fp, nick), dropWhile is_nick_char (tl u)) else None
      | [] \<Rightarrow> None)"

lemma match_hop_shorter: "match_hop s = Some (x, r) \<Longrightarrow> length r < length s"
proof -
  have "length (dropWhile p (tl (drop 40 t))) \<le> length t" for p and t :: string
    by (rule order_trans [OF length_dropWhile_le]) simp
  then show "match_hop s = Some (x, r) \<Longrightarrow> length r < length s"
    by (auto simp: match_hop_def Let_def le_imp_less_Suc split: list.splits if_splits)
qed

function find_hops :: "string \<Rightarrow> (string \<times> string) list" where
  "find_hops [] = []"
| "find_hops (c # s) = (case match_hop (c # s) of Some (x, r) \<Rightarrow> x # find_hops r | None \<Rightarrow> find_hops s)"
  by pat_completeness auto
termination by (relation "measure length") (auto dest: match_hop_shorter)

definition new_hop :: "string \<times> string \<Rightarrow> relay_hop" where
  "new_hop x = \<lparr>hop_fingerprint = fst x, hop_nickname = snd x, hop_ip = None, hop_country = None, hop_bandwidth = None\<rparr>"

definition circuit_token :: "string \<times> string list \<Rightarrow> string \<Rightarrow> string \<times> string list" where
  "circuit_token acc tok =
     (if starts_with ''PURPOSE='' tok then (drop 8 tok, snd acc)
      else if starts_with ''BUILD_FLAGS='' tok then (fst acc, py_split (CHR '','') (drop 12 tok))
      else acc)"

definition circuit_of_line :: "string \<Rightarrow> circuit option" where
  "circuit_of_line line =
     (case py_split (CHR '' '') (py_strip line) of
        i # st # path # toks \<Rightarrow>
          let (purpose, flags) = foldl circuit_token ([], []) toks; hops = map new_hop (find_hops path) in
          if py_strip line \<noteq> [] \<and> st = ''BUILT'' \<and> hops \<noteq> []
          then Some \<lparr>ci_id = i, ci_purpose = purpose, ci_flags = flags, ci_hops = hops\<rparr> else None
      | _ \<Rightarrow> None)"

definition parse_circuits :: "string \<Rightarrow> circuit list" where
  "parse_circuits block = List.map_filter circuit_of_line (py_splitlines block)"

section \<open>Relays\<close>

definition match_r :: "string \<Rightarrow> (string \<times> string) option" where
  "match_r line =
     (case py_split_ws line of
        _ # nick # _ # _ # _ # _ # ip # others \<Rightarrow> if others \<noteq> [] \<or> py_isspace (last line) then Some (nick, ip) else None
      | _ \<Rightarrow> None)"

type_synonym ns_info = "string option \<times> string option \<times> int option"

definition ns_line :: "ns_info \<Rightarrow> string \<Rightarrow> ns_info" where
  "ns_line acc line =
     (case acc of (nick, ip, bw) \<Rightarrow>
      if starts_with ''r '' line then (case match_r line of Some (n, i) \<Rightarrow> (Some n, Some i, bw) | None \<Rightarrow> acc)
      else if starts_with ''w '' line
      then (case Option.bind (strip_prefix ''w Bandwidth='' line) match_nat of Some (n, _) \<Rightarrow> (nick, ip, Some n) | None \<Rightarrow> acc)
      else acc)"

definition parse_ns_block :: "string \<Rightarrow> ns_info" where
  "parse_ns_block block = foldl ns_line (None, None, None) (py_splitlines block)"

section \<open>The two calls\<close>

definition int_or_none :: "string \<Rightarrow> int option" where
  "int_or_none s = (let t = py_strip s in if t \<noteq> [] \<and> list_all py_isdigit t then Some (digits_val t) else None)"

definition fetch_circuits_and_traffic :: "'d run_fun \<Rightarrow> 'd \<Rightarrow> 'd \<times> circuit list \<times> int option \<times> int option" where
  "fetch_circuits_and_traffic run d =
     (case talk run d [''GETINFO circuit-status'', ''GETINFO traffic/read'', ''GETINFO traffic/written''] of (d1, raw) \<Rightarrow>
      if raw = [] then (d1, [], None, None)
      else (d1, parse_circuits (replies_block raw ''circuit-status''), int_or_none (replies_block raw ''traffic/read''),
            int_or_none (replies_block raw ''traffic/written'')))"

definition add_new :: "string list \<Rightarrow> string \<Rightarrow> string list" where
  "add_new seen x = (if x \<in> set seen then seen else seen @ [x])"

definition all_fingerprints :: "circuit list \<Rightarrow> string list" where
  "all_fingerprints cs = foldl add_new [] (concat (map (\<lambda>c. map hop_fingerprint (ci_hops c)) cs))"

definition ns_key :: "string \<Rightarrow> string" where "ns_key fp = ''ns/id/'' @ fp"
definition country_key :: "string \<Rightarrow> string" where "country_key ip = ''ip-to-country/'' @ ip"

definition ns_answer :: "string \<Rightarrow> string \<Rightarrow> ns_info" where
  "ns_answer raw fp =
     (let block = replies_block raw (ns_key fp) in if block = [] then (None, None, None) else parse_ns_block block)"

definition country_answer :: "string \<Rightarrow> string \<Rightarrow> string option" where
  "country_answer raw ip =
     (let val = py_lower (py_strip (replies_block raw (country_key ip)))
      in if val \<noteq> [] \<and> val \<noteq> ''??'' then Some val else None)"

definition known_ips :: "ns_info list \<Rightarrow> string list" where
  "known_ips infos = foldl add_new [] (List.map_filter (\<lambda>(_, ip, _). if ip = Some [] then None else ip) infos)"

definition enrich_hop :: "(string, ns_info) dict \<Rightarrow> (string, string option) dict \<Rightarrow> relay_hop \<Rightarrow> relay_hop" where
  "enrich_hop info countries h =
     (case dict_get_or info (hop_fingerprint h) (None, None, None) of (nick, ip, bw) \<Rightarrow>
      h\<lparr>hop_nickname := (case nick of None \<Rightarrow> hop_nickname h | Some n \<Rightarrow> if n = [] then hop_nickname h else n),
        hop_ip := ip, hop_bandwidth := bw,
        hop_country := (case ip of None \<Rightarrow> hop_country h
                        | Some i \<Rightarrow> if i = [] then hop_country h else dict_get_or countries i None)\<rparr>)"

definition enrich_with_ns :: "'d run_fun \<Rightarrow> 'd \<Rightarrow> circuit list \<Rightarrow> 'd \<times> circuit list" where
  "enrich_with_ns run d cs =
     (let fps = all_fingerprints cs in
      if cs = [] \<or> fps = [] then (d, cs)
      else case talk run d (map (\<lambda>fp. ''GETINFO '' @ ns_key fp) fps) of (d1, raw) \<Rightarrow>
        if raw = [] then (d1, cs)
        else
          let info = map (\<lambda>fp. (fp, ns_answer raw fp)) fps; ips = known_ips (map snd info);
              (d2, raw_c) = (if ips = [] then (d1, []) else talk run d1 (map (\<lambda>ip. ''GETINFO '' @ country_key ip) ips));
              countries = map (\<lambda>ip. (ip, country_answer raw_c ip)) ips
          in (d2, map (\<lambda>c. c\<lparr>ci_hops := map (enrich_hop info countries) (ci_hops c)\<rparr>) cs))"

section \<open>Reading Tor's replies back\<close>

text \<open>
  What a control port sends for a question: one line with the value, or a block closed by a line with a dot; and
  what it sends for the rest (such as the confirmations), any line that is no answer. Lines end in CR LF.
\<close>

datatype tor_reply = One_Line string string | Block string "string list" | Other_Line string

fun reply_lines :: "tor_reply \<Rightarrow> string list" where
  "reply_lines (One_Line k v) = [''250-'' @ k @ ''='' @ v]"
| "reply_lines (Block k body) = (''250+'' @ k @ ''='') # body @ [''.'']"
| "reply_lines (Other_Line l) = [l]"

definition tor_stream :: "tor_reply list \<Rightarrow> string" where
  "tor_stream rs = concat (map (\<lambda>l. l @ [CHR 0x0D, CHR 0x0A]) (concat (map reply_lines rs)))"

definition no_answer :: "string \<Rightarrow> bool" where
  "no_answer l \<longleftrightarrow> \<not> starts_with ''250-'' l \<and> \<not> starts_with ''250+'' l \<and> (\<forall>c\<in>set l. \<not> py_linebreak c)"

fun reply_ok :: "tor_reply \<Rightarrow> bool" where
  "reply_ok (One_Line k v) \<longleftrightarrow> CHR ''='' \<notin> set k \<and> (\<forall>c\<in>set (k @ v). \<not> py_linebreak c)"
| "reply_ok (Block k body) \<longleftrightarrow> CHR ''='' \<notin> set k \<and> (\<forall>c\<in>set k. \<not> py_linebreak c) \<and> (\<forall>l\<in>set body. no_answer l \<and> l \<noteq> ''.'')"
| "reply_ok (Other_Line l) \<longleftrightarrow> no_answer l"

text \<open>The reference: the first answer to the question, whatever surrounds it.\<close>

fun answer_to :: "string \<Rightarrow> tor_reply list \<Rightarrow> string" where
  "answer_to key [] = []"
| "answer_to key (One_Line k v # rs) = (if k = key then v else answer_to key rs)"
| "answer_to key (Block k body # rs) = (if k = key then py_join [CHR 0x0A] body else answer_to key rs)"
| "answer_to key (Other_Line l # rs) = answer_to key rs"

lemma splitlines_crlf:
  "\<forall>l\<in>set ls. \<forall>c\<in>set l. \<not> py_linebreak c \<Longrightarrow> py_splitlines (concat (map (\<lambda>l. l @ [CHR 0x0D, CHR 0x0A]) ls)) = ls"
proof -
  have line: "\<forall>c\<in>set l. \<not> py_linebreak c \<Longrightarrow>
      splitlines_from False cur (l @ CHR 0x0D # CHR 0x0A # s) = (rev cur @ l) # splitlines_from False [] s" for l cur s
    by (induction l arbitrary: cur) (auto simp: py_linebreak_def)
  show "\<forall>l\<in>set ls. \<forall>c\<in>set l. \<not> py_linebreak c \<Longrightarrow> py_splitlines (concat (map (\<lambda>l. l @ [CHR 0x0D, CHR 0x0A]) ls)) = ls"
    unfolding py_splitlines_def by (induction ls) (simp_all add: line)
qed

lemma reply_ok_breaks: "reply_ok r \<Longrightarrow> l \<in> set (reply_lines r) \<Longrightarrow> \<forall>c\<in>set l. \<not> py_linebreak c"
proof -
  have "\<forall>c\<in>set ''250-+=.''. \<not> py_linebreak c" by (simp add: py_linebreak_def)
  then show "reply_ok r \<Longrightarrow> l \<in> set (reply_lines r) \<Longrightarrow> \<forall>c\<in>set l. \<not> py_linebreak c"
    by (cases r) (auto simp: no_answer_def)
qed

lemma key_prefix: "CHR ''='' \<notin> set k \<Longrightarrow> CHR ''='' \<notin> set key \<Longrightarrow> starts_with (key @ ''='') (k @ CHR ''='' # v) \<longleftrightarrow> k = key"
proof -
  assume a: "CHR ''='' \<notin> set k" "CHR ''='' \<notin> set key"
  have "k = key" if eq: "k @ CHR ''='' # v = key @ CHR ''='' # r" for r
    using py_partition_append [OF a(1), of v] py_partition_append [OF a(2), of r] unfolding eq by simp
  moreover have "starts_with (key @ ''='') (k @ CHR ''='' # v) \<longleftrightarrow> (\<exists>r. k @ CHR ''='' # v = key @ CHR ''='' # r)"
    by (simp only: starts_with_iff append_assoc append.simps)
  ultimately show ?thesis by metis
qed

lemma reply_line_shape: "reply_line l = Some (code, sep, rest) \<Longrightarrow> l = code @ sep # rest"
  unfolding reply_line_def by (simp split: list.splits if_splits)

lemma replies_skip:
  assumes "no_answer l"
  shows "replies_from key (l # ls) = replies_from key ls"
proof (cases "reply_line l")
  case (Some x)
  obtain code sep rest where x: "x = (code, sep, rest)" by (cases x)
  have "sep \<noteq> CHR ''-'' \<and> sep \<noteq> CHR ''+''" if "code = ''250''"
    using assms reply_line_shape [OF Some [unfolded x]] that by (auto simp: no_answer_def starts_with_def)
  then show ?thesis using Some x by (cases "code = ''250''") simp_all
qed simp

lemma replies_skip_all: "\<forall>l\<in>set body. no_answer l \<Longrightarrow> replies_from key (body @ ls) = replies_from key ls"
proof (induction body)
  case (Cons l body)
  then have "no_answer l" "replies_from key (body @ ls) = replies_from key ls" by simp_all
  then show ?case using replies_skip [of l key "body @ ls"] by (simp only: append_Cons)
qed simp

lemma dot_no_answer: "no_answer ''.''"
  by (simp add: no_answer_def starts_with_def py_linebreak_def)

lemma replies_from_lines:
  assumes "CHR ''='' \<notin> set key" "\<forall>r\<in>set rs. reply_ok r"
  shows "replies_from key (concat (map reply_lines rs)) = answer_to key rs"
  using assms(2)
proof (induction rs)
  case (Cons r rs)
  have digits: "py_isdigit (CHR ''2'')" "py_isdigit (CHR ''5'')" "py_isdigit (CHR ''0'')" by (simp_all add: char_class_defs)
  show ?case
  proof (cases r)
    case (One_Line k v)
    with Cons show ?thesis using key_prefix [of k key v] assms(1) digits by (auto simp: reply_line_def)
  next
    case (Block k body)
    have "takeWhile (\<lambda>l. l \<noteq> ''.'') (body @ ''.'' # ls) = body" for ls
      using Cons.prems Block by (simp add: takeWhile_append)
    moreover have "replies_from key (body @ ''.'' # ls) = replies_from key ls" for ls
      using Cons.prems Block replies_skip_all [of "body @ [''.'']"] dot_no_answer by simp
    ultimately show ?thesis using Cons Block key_prefix [of k key "[]"] assms(1) digits by (auto simp: reply_line_def)
  next
    case (Other_Line l)
    with Cons show ?thesis by (simp add: replies_skip del: replies_from.simps)
  qed
qed simp

text \<open>
  In a batch of replies as the control port sends them, the answer to a question is found whatever surrounds it:
  a value on one line or a block up to its closing dot, never a line of another block, and nothing when there is none.
\<close>

theorem replies_found:
  assumes "CHR ''='' \<notin> set key" "\<forall>r\<in>set rs. reply_ok r"
  shows "replies_block (tor_stream rs) key = answer_to key rs"
proof -
  have "py_splitlines (tor_stream rs) = concat (map reply_lines rs)"
    unfolding tor_stream_def using assms(2) reply_ok_breaks by (intro splitlines_crlf) auto
  then show ?thesis using replies_from_lines [OF assms] by (simp add: replies_block_def)
qed

theorem replies_found_witness:
  "replies_block (tor_stream [Other_Line ''250 OK'', Block ''circuit-status'' [''250 BUILT x'', ''7 LAUNCHED''],
      Other_Line ''250 OK'', One_Line ''traffic/read'' ''42'']) ''traffic/read'' = ''42''"
  using replies_found [of "''traffic/read''" "[Other_Line ''250 OK'', Block ''circuit-status'' [''250 BUILT x'', ''7 LAUNCHED''],
      Other_Line ''250 OK'', One_Line ''traffic/read'' ''42'']"]
  by (simp add: no_answer_def starts_with_def py_linebreak_def)

section \<open>Enrichment\<close>

lemma set_add_new [simp]: "set (foldl add_new seen xs) = set seen \<union> set xs"
  by (induction xs arbitrary: seen) (auto simp: add_new_def)

lemma distinct_add_new: "distinct seen \<Longrightarrow> distinct (foldl add_new seen xs)"
  by (induction xs arbitrary: seen) (auto simp: add_new_def)

lemma dict_of_keys: "dict_get_or (map (\<lambda>x. (x, f x)) xs) k v = (if k \<in> set xs then f k else v)"
  by (simp add: dict_get_or_def map_of_map_restrict restrict_map_def)

text \<open>The reference: a relay with what Tor answers to the questions for it alone.\<close>

definition hop_of_answers :: "string \<Rightarrow> string \<Rightarrow> relay_hop \<Rightarrow> relay_hop" where
  "hop_of_answers raw raw_c h =
     (case ns_answer raw (hop_fingerprint h) of (nick, ip, bw) \<Rightarrow>
      h\<lparr>hop_nickname := (if nick \<in> {None, Some []} then hop_nickname h else the nick), hop_ip := ip, hop_bandwidth := bw,
        hop_country := (if ip \<in> {None, Some []} then hop_country h else country_answer raw_c (the ip))\<rparr>)"

lemma set_known_ips: "i \<in> set (known_ips infos) \<longleftrightarrow> i \<noteq> [] \<and> (\<exists>(nick, ip, bw)\<in>set infos. ip = Some i)"
  by (force simp: known_ips_def map_filter_def split: if_splits)

lemma enrich_hop_reference:
  assumes "hop_fingerprint h \<in> set fps" "info = map (\<lambda>fp. (fp, ns_answer raw fp)) fps"
    and "countries = map (\<lambda>ip. (ip, country_answer raw_c ip)) (known_ips (map snd info))"
  shows "enrich_hop info countries h = hop_of_answers raw raw_c h"
proof -
  obtain nick ip bw where a: "ns_answer raw (hop_fingerprint h) = (nick, ip, bw)" by (cases "ns_answer raw (hop_fingerprint h)")
  then have get: "dict_get_or info (hop_fingerprint h) (None, None, None) = (nick, ip, bw)"
    using assms(1) by (simp add: assms(2) dict_of_keys)
  have "i \<in> set (known_ips (map snd info))" if "ip = Some i" "i \<noteq> []" for i
    using assms(1) a that by (force simp: assms(2) set_known_ips)
  then show ?thesis using a get by (auto simp: enrich_hop_def hop_of_answers_def assms(3) dict_of_keys split: option.splits)
qed


definition sample_run :: "unit run_fun" where
  "sample_run d cmd =
     (d, Some (tor_stream [Block (ns_key (replicate 40 (CHR ''A''))) [''r relay i d 2026-01-01 00:00:00 9.9.9.9 9001 0''],
                           One_Line (country_key ''9.9.9.9'') ''CH''], 0))"


end
