(* ===== verification/Tor_Client.thy ===== *)
theory Tor_Client
  imports Tor_Control Row_Table
begin

text \<open>
  Tor, second part: the stored settings and bridges (\<^verbatim>\<open>backend/app/tor/store.py\<close>, \<^verbatim>\<open>models.py\<close>, tables
  \<^verbatim>\<open>TorSettingsRow\<close> and \<^verbatim>\<open>TorBridgeRow\<close>) and the state on the device (\<^verbatim>\<open>client.py\<close>). Times are left out: they
  are only displayed.
\<close>

section \<open>Settings and bridges\<close>

record tor_settings =
  daemon_enabled :: bool
  use_bridges :: bool
  exit_country_code :: string

datatype bridge_kind = Obfs4 | Webtunnel | Snowflake | Vanilla

record bridge_write =
  bw_kind :: bridge_kind
  bw_line :: string
  bw_note :: string
  bw_enabled :: bool

record tor_bridge =
  tb_id :: nat
  tb_kind :: bridge_kind
  tb_line :: string
  tb_note :: string
  tb_enabled :: bool

record tor_db =
  td_settings :: "tor_settings option"
  td_bridges :: "tor_bridge list"

text \<open>The validated bodies.\<close>

definition valid_country :: "string \<Rightarrow> bool" where
  "valid_country s \<longleftrightarrow> length s \<le> 2 \<and> list_all py_islower s"

definition valid_bridge :: "bridge_write \<Rightarrow> bool" where
  "valid_bridge b \<longleftrightarrow> 8 \<le> length (bw_line b) \<and> length (bw_line b) \<le> 512 \<and> length (bw_note b) \<le> 128"

definition new_settings :: tor_settings where
  "new_settings = \<lparr>daemon_enabled = False, use_bridges = False, exit_country_code = []\<rparr>"

definition settings_row :: "tor_db \<Rightarrow> tor_settings" where
  "settings_row db = (case td_settings db of None \<Rightarrow> new_settings | Some r \<Rightarrow> r)"

definition ts_get :: "tor_db \<Rightarrow> tor_settings \<times> tor_db" where
  "ts_get db = (settings_row db, db\<lparr>td_settings := Some (settings_row db)\<rparr>)"

definition ts_save :: "tor_settings \<Rightarrow> tor_db \<Rightarrow> tor_settings \<times> tor_db" where
  "ts_save body db =
     (let row = (settings_row db)\<lparr>daemon_enabled := daemon_enabled body, use_bridges := use_bridges body,
                  exit_country_code := py_strip (py_lower (exit_country_code body))\<rparr>
      in (row, db\<lparr>td_settings := Some row\<rparr>))"

definition tb_list_all :: "tor_db \<Rightarrow> tor_bridge list" where
  "tb_list_all db = sort_key tb_id (td_bridges db)"

definition list_enabled_lines :: "tor_db \<Rightarrow> string list" where
  "list_enabled_lines db = map tb_line (sort_key tb_id (filter tb_enabled (td_bridges db)))"

definition tb_next_id :: "tor_db \<Rightarrow> nat" where
  "tb_next_id db = Suc (foldr max (map tb_id (td_bridges db)) 0)"

definition tb_row :: "nat \<Rightarrow> bridge_write \<Rightarrow> tor_bridge" where
  "tb_row i b = \<lparr>tb_id = i, tb_kind = bw_kind b, tb_line = py_strip (bw_line b), tb_note = bw_note b, tb_enabled = bw_enabled b\<rparr>"

definition tb_create :: "bridge_write \<Rightarrow> tor_db \<Rightarrow> tor_bridge \<times> tor_db" where
  "tb_create b db = (let row = tb_row (tb_next_id db) b in (row, db\<lparr>td_bridges := td_bridges db @ [row]\<rparr>))"

text \<open>\<^const>\<open>None\<close> is \<^verbatim>\<open>TorBridgeNotFoundError\<close>.\<close>

definition tb_update :: "nat \<Rightarrow> bridge_write \<Rightarrow> tor_db \<Rightarrow> (tor_bridge \<times> tor_db) option" where
  "tb_update i b db =
     (if row_find tb_id i (td_bridges db) = None then None
      else Some (tb_row i b, db\<lparr>td_bridges := row_update tb_id i (\<lambda>_. tb_row i b) (td_bridges db)\<rparr>))"

definition tb_delete :: "nat \<Rightarrow> tor_db \<Rightarrow> tor_db option" where
  "tb_delete i db =
     (if row_find tb_id i (td_bridges db) = None then None
      else Some (db\<lparr>td_bridges := row_delete tb_id i (td_bridges db)\<rparr>))"

section \<open>What is installed and running\<close>

record tor_install =
  ti_tor :: bool
  ti_geoipdb :: bool
  ti_obfs4proxy :: bool

definition no_install :: tor_install where
  "no_install = \<lparr>ti_tor = False, ti_geoipdb = False, ti_obfs4proxy = False\<rparr>"

definition INSTALL_CMD :: string where
  "INSTALL_CMD =
     ''command -v tor >/dev/null 2>&1 && echo TOR=1 || echo TOR=0; command -v obfs4proxy >/dev/null 2>&1 ''
     @ ''&& echo OBFS=1 || echo OBFS=0; [ -f /usr/share/tor/geoip ] || [ -f /etc/tor/geoip ] && echo GEOIP=1 ''
     @ ''|| echo GEOIP=0''"

definition detect_install :: "'d run_fun \<Rightarrow> 'd \<Rightarrow> 'd \<times> tor_install" where
  "detect_install run d =
     (case run d INSTALL_CMD of
        (d1, None) \<Rightarrow> (d1, no_install)
      | (d1, Some (out, _)) \<Rightarrow>
          (d1, \<lparr>ti_tor = py_contains ''TOR=1'' out, ti_geoipdb = py_contains ''GEOIP=1'' out,
                ti_obfs4proxy = py_contains ''OBFS=1'' out\<rparr>))"

definition RUNNING_CMD :: string where
  "RUNNING_CMD =
     ''pgrep -x tor >/dev/null 2>&1 && echo Y && exit 0; pgrep -f '' @ [squote] @ ''/usr/sbin/tor'' @ [squote]
     @ '' >/dev/null 2>&1 && echo Y && exit 0; netstat -tln 2>/dev/null | grep -qE '' @ [squote]
     @ '':9050[[:space:]].*LISTEN'' @ [squote] @ '' && echo Y || echo N''"

text \<open>Whether the output of a command has a Y; an SSH error counts as no.\<close>

definition says_yes :: "'d run_fun \<Rightarrow> 'd \<Rightarrow> string \<Rightarrow> 'd \<times> bool" where
  "says_yes run d cmd =
     (case run d cmd of (d1, None) \<Rightarrow> (d1, False) | (d1, Some (out, _)) \<Rightarrow> (d1, CHR ''Y'' \<in> set out))"

definition is_running :: "'d run_fun \<Rightarrow> 'd \<Rightarrow> 'd \<times> bool" where
  "is_running run d = says_yes run d RUNNING_CMD"

definition CONTROL_CMD :: string where
  "CONTROL_CMD = ''netstat -tln 2>/dev/null | grep -qE '' @ [squote] @ '':9051[[:space:]].*LISTEN'' @ [squote]
     @ '' && echo Y || echo N''"

definition control_port_reachable :: "'d run_fun \<Rightarrow> 'd \<Rightarrow> 'd \<times> bool" where
  "control_port_reachable run d = says_yes run d CONTROL_CMD"

section \<open>Bootstrap and uptime\<close>

definition BOOTSTRAP_CMD :: string where
  "BOOTSTRAP_CMD =
     ''tail -n 200 /var/log/tor/notices.log 2>/dev/null | grep Bootstrapped | tail -n 1 ; logread ''
     @ ''2>/dev/null | grep -E '' @ [squote] @ ''Tor.*Bootstrapped'' @ [squote] @ '' | tail -n 1''"

text \<open>The part in parentheses, if there is one that is closed and not empty, and what follows it.\<close>

definition match_paren :: "string \<Rightarrow> string \<times> string" where
  "match_paren s =
     (case s of
        c # t \<Rightarrow>
          let inner = takeWhile (\<lambda>c. c \<noteq> CHR '')'') t; after = dropWhile (\<lambda>c. c \<noteq> CHR '')'') t in
          if c = CHR ''('' \<and> inner \<noteq> [] \<and> after \<noteq> [] then (inner, tl after) else ([], s)
      | [] \<Rightarrow> ([], s))"

definition match_bootstrap :: "string \<Rightarrow> (int \<times> string option) option" where
  "match_bootstrap s =
     (case strip_prefix ''Bootstrapped'' s of
        None \<Rightarrow> None
      | Some t \<Rightarrow>
          let u = skip_ws t; ds = takeWhile py_isdigit u; v = dropWhile py_isdigit u in
          if u = t \<or> ds = [] \<or> 3 < length ds \<or> v = [] \<or> hd v \<noteq> CHR ''%'' then None
          else
            let (inner, w) = match_paren (skip_ws (tl v)); x = skip_ws w;
                y = (if x \<noteq> [] \<and> hd x \<in> set '':.'' then tl x else x); rest = skip_ws y;
                phase = py_strip (if rest \<noteq> [] then rest else inner)
            in Some (digits_val ds, if phase = [] then None else Some phase))"

definition bootstrap_of :: "string \<Rightarrow> (int \<times> string option) option" where
  "bootstrap_of out = (case List.map_filter (re_search match_bootstrap) (py_splitlines out) of [] \<Rightarrow> None | x # _ \<Rightarrow> Some x)"

definition bootstrap_status :: "'d run_fun \<Rightarrow> 'd \<Rightarrow> 'd \<times> (int \<times> string option) option" where
  "bootstrap_status run d =
     (case run d BOOTSTRAP_CMD of (d1, None) \<Rightarrow> (d1, None) | (d1, Some (out, _)) \<Rightarrow> (d1, bootstrap_of out))"

definition UPTIME_CMD :: string where
  "UPTIME_CMD =
     ''pid=$(pgrep -x tor | head -n 1); [ -z '' @ [dquote] @ ''$pid'' @ [dquote] @ '' ] && exit 0; starttime=$(awk ''
     @ [squote] @ ''{print $22}'' @ [squote]
     @ '' /proc/$pid/stat 2>/dev/null); clk=$(getconf CLK_TCK 2>/dev/null || echo 100); btime=$(awk '' @ [squote]
     @ ''/btime/ {print $2}'' @ [squote] @ '' /proc/stat); now=$(date +%s); [ -z '' @ [dquote] @ ''$starttime''
     @ [dquote] @ '' ] || [ -z '' @ [dquote] @ ''$btime'' @ [dquote]
     @ '' ] && exit 0; echo $((now - btime - starttime / clk))''"

definition uptime_seconds :: "'d run_fun \<Rightarrow> 'd \<Rightarrow> 'd \<times> int option" where
  "uptime_seconds run d =
     (case run d UPTIME_CMD of (d1, None) \<Rightarrow> (d1, None) | (d1, Some (out, _)) \<Rightarrow> (d1, int_or_none out))"

section \<open>The snapshot\<close>

record tor_status =
  tst_install :: tor_install
  tst_running :: bool
  tst_control :: bool
  tst_bootstrap :: "(int \<times> string option) option"
  tst_socks_port :: "int option"
  tst_exit_ip :: "string option"
  tst_exit_country :: "string option"
  tst_circuits :: "circuit list"
  tst_uptime :: "int option"
  tst_read :: "int option"
  tst_written :: "int option"

definition down_status :: "tor_install \<Rightarrow> tor_status" where
  "down_status i =
     \<lparr>tst_install = i, tst_running = False, tst_control = False, tst_bootstrap = None, tst_socks_port = None,
      tst_exit_ip = None, tst_exit_country = None, tst_circuits = [], tst_uptime = None, tst_read = None, tst_written = None\<rparr>"

definition exit_hop :: "circuit list \<Rightarrow> relay_hop option" where
  "exit_hop cs =
     map_option (\<lambda>c. last (ci_hops c))
       (find (\<lambda>c. ci_purpose c \<in> {''GENERAL'', ''HS_CLIENT_INTRO'', []} \<and> ci_hops c \<noteq> []) (rev cs))"

definition fetch_status :: "'d run_fun \<Rightarrow> 'd \<Rightarrow> 'd \<times> tor_status" where
  "fetch_status run d =
     (case detect_install run d of (d1, inst) \<Rightarrow>
      if \<not> ti_tor inst then (d1, down_status inst)
      else case is_running run d1 of (d2, running) \<Rightarrow>
        if \<not> running then (d2, down_status inst)
        else
          let (d3, boot) = bootstrap_status run d2; (d4, ctrl) = control_port_reachable run d3;
              (d5, up) = uptime_seconds run d4;
              (d6, cs, r, w) =
                (if ctrl then (case fetch_circuits_and_traffic run d5 of (e1, cs1, r1, w1) \<Rightarrow>
                               case enrich_with_ns run e1 cs1 of (e2, cs2) \<Rightarrow> (e2, cs2, r1, w1))
                 else (d5, [], None, None))
          in (d6, \<lparr>tst_install = inst, tst_running = True, tst_control = ctrl, tst_bootstrap = boot, tst_socks_port = Some 9050,
                   tst_exit_ip = Option.bind (exit_hop cs) hop_ip, tst_exit_country = Option.bind (exit_hop cs) hop_country,
                   tst_circuits = cs, tst_uptime = up, tst_read = r, tst_written = w\<rparr>))"

text \<open>The installation: the log, or the tail that the error shows (\<^const>\<open>None\<close> for an SSH error).\<close>

definition OPKG_CMD :: string where
  "OPKG_CMD = ''opkg update 2>&1 && opkg install --force-overwrite tor tor-geoipdb obfs4proxy 2>&1''"

definition install_packages :: "'d run_fun \<Rightarrow> 'd \<Rightarrow> 'd \<times> (string option + string)" where
  "install_packages run d =
     (case run d OPKG_CMD of
        (d1, None) \<Rightarrow> (d1, Inl None)
      | (d1, Some (out, code)) \<Rightarrow> (d1, if code \<noteq> 0 then Inl (Some (drop (length out - 400) out)) else Inr out))"

text \<open>The log's tail (\<^verbatim>\<open>get_tor_logs\<close> of \<^verbatim>\<open>api/routes/tor.py\<close>).\<close>

definition tor_logs_cmd :: "int \<Rightarrow> string" where
  "tor_logs_cmd limit =
     (let n = py_str (max 10 (min limit 2000)) in
      ''tail -n '' @ n @ '' /var/log/tor/notices.log 2>/dev/null || logread 2>/dev/null | grep -iE '' @ [squote] @ ''tor''
      @ [backslash] @ ''b'' @ [squote] @ '' | tail -n '' @ n @ '' || true'')"

definition get_tor_logs :: "'d run_fun \<Rightarrow> 'd \<Rightarrow> int \<Rightarrow> string list" where
  "get_tor_logs run d limit =
     (case snd (run d (tor_logs_cmd limit)) of None \<Rightarrow> [] | Some (out, _) \<Rightarrow> filter (\<lambda>l. l \<noteq> []) (py_splitlines out))"

section \<open>Bridges keep their order\<close>

datatype bridge_op = Br_Create bridge_write | Br_Update nat bridge_write | Br_Delete nat

definition bridge_step :: "bridge_op \<Rightarrow> tor_db \<Rightarrow> tor_db" where
  "bridge_step op db =
     (case op of
        Br_Create b \<Rightarrow> snd (tb_create b db)
      | Br_Update i b \<Rightarrow> (case tb_update i b db of None \<Rightarrow> db | Some (_, db') \<Rightarrow> db')
      | Br_Delete i \<Rightarrow> (case tb_delete i db of None \<Rightarrow> db | Some db' \<Rightarrow> db'))"

definition ordered_ids :: "tor_db \<Rightarrow> bool" where
  "ordered_ids db \<longleftrightarrow> sorted_wrt (<) (map tb_id (td_bridges db))"

lemma tb_next_id_greater: "b \<in> set (td_bridges db) \<Longrightarrow> tb_id b < tb_next_id db"
proof -
  have "x \<in> set xs \<Longrightarrow> x \<le> foldr max xs 0" for x :: nat and xs by (induction xs) auto
  then show "b \<in> set (td_bridges db) \<Longrightarrow> tb_id b < tb_next_id db" by (simp add: tb_next_id_def le_imp_less_Suc)
qed

lemma bridge_step_ordered: "ordered_ids db \<Longrightarrow> ordered_ids (bridge_step op db)"
proof (cases op)
  case (Br_Create b)
  then show "ordered_ids db \<Longrightarrow> ?thesis"
    using tb_next_id_greater by (auto simp: bridge_step_def tb_create_def Let_def ordered_ids_def sorted_wrt_append tb_row_def)
next
  case (Br_Update i b)
  have "map tb_id (row_update tb_id i (\<lambda>_. tb_row i b) rows) = map tb_id rows" for rows
    by (simp add: row_update_def tb_row_def)
  then show "ordered_ids db \<Longrightarrow> ?thesis"
    using Br_Update by (simp add: bridge_step_def tb_update_def ordered_ids_def)
next
  case (Br_Delete i)
  have "sorted_wrt (<) (map tb_id rows) \<Longrightarrow> sorted_wrt (<) (map tb_id (row_delete tb_id i rows))" for rows
    by (simp add: row_delete_def sorted_wrt_map sorted_wrt_filter)
  then show "ordered_ids db \<Longrightarrow> ?thesis"
    using Br_Delete by (auto simp: bridge_step_def tb_delete_def ordered_ids_def)
qed

text \<open>
  The bridge lines that the device gets are in the order of their creation: after any sequence of creations,
  changes and deletions, the list sorted by id is the table as it grew, restricted to what is enabled.
\<close>

theorem bridges_in_creation_order:
  "list_enabled_lines (fold bridge_step ops \<lparr>td_settings = st, td_bridges = []\<rparr>) =
     map tb_line (filter tb_enabled (td_bridges (fold bridge_step ops \<lparr>td_settings = st, td_bridges = []\<rparr>)))"
proof -
  let ?db = "fold bridge_step ops \<lparr>td_settings = st, td_bridges = []\<rparr>"
  have "ordered_ids db \<Longrightarrow> ordered_ids (fold bridge_step ops db)" for db
    by (induction ops arbitrary: db) (simp_all add: bridge_step_ordered)
  then have "ordered_ids ?db" by (simp add: ordered_ids_def)
  then have "sorted_wrt (<) (map tb_id (filter tb_enabled (td_bridges ?db)))"
    by (simp add: ordered_ids_def sorted_wrt_map sorted_wrt_filter)
  then have "sorted (map tb_id (filter tb_enabled (td_bridges ?db)))" by (simp add: strict_sorted_iff)
  then show ?thesis by (simp add: list_enabled_lines_def sorted_sort_id sort_key_id_if_sorted)
qed

section \<open>Snapshots are consistent\<close>

lemma circuit_has_hops: "circuit_of_line l = Some c \<Longrightarrow> ci_hops c \<noteq> []"
  by (auto simp: circuit_of_line_def Let_def split: list.splits prod.splits if_splits)

lemma parsed_have_hops: "\<forall>c\<in>set (parse_circuits b). ci_hops c \<noteq> []"
  by (auto simp: parse_circuits_def map_filter_def dest: circuit_has_hops)

lemma fetched_have_hops: "fetch_circuits_and_traffic run d = (d1, cs, r, w) \<Longrightarrow> \<forall>c\<in>set cs. ci_hops c \<noteq> []"
  using parsed_have_hops by (auto simp: fetch_circuits_and_traffic_def split: prod.splits if_splits)

lemma enriched_have_hops:
  "enrich_with_ns run d cs = (d1, cs1) \<Longrightarrow> \<forall>c\<in>set cs. ci_hops c \<noteq> [] \<Longrightarrow> \<forall>c\<in>set cs1. ci_hops c \<noteq> []"
  by (auto simp: enrich_with_ns_def Let_def split: prod.splits if_splits)

text \<open>
  A snapshot never contradicts itself: it shows the daemon running only if Tor is installed, circuits only if the
  control port answers, no circuit without a relay, and as the exit the last relay of the last circuit listed that a
  request may use; there is no exit when there is no such circuit.
\<close>

theorem status_consistent:
  "case snd (fetch_status run d) of s \<Rightarrow>
     (tst_running s \<longrightarrow> ti_tor (tst_install s)) \<and> (tst_control s \<longrightarrow> tst_running s)
     \<and> (tst_circuits s \<noteq> [] \<longrightarrow> tst_control s) \<and> (\<forall>c\<in>set (tst_circuits s). ci_hops c \<noteq> [])
     \<and> tst_exit_ip s = Option.bind (exit_hop (tst_circuits s)) hop_ip
     \<and> tst_exit_country s = Option.bind (exit_hop (tst_circuits s)) hop_country"
proof -
  have down: "exit_hop [] = None" by (simp add: exit_hop_def)
  have "\<forall>c\<in>set cs2. ci_hops c \<noteq> []"
    if "fetch_circuits_and_traffic run e = (e1, cs1, r, w)" "enrich_with_ns run e1 cs1 = (e2, cs2)" for e e1 cs1 r w e2 cs2
    using enriched_have_hops [OF that(2) fetched_have_hops [OF that(1)]] .
  then show ?thesis
    by (auto simp: fetch_status_def down_status_def down Let_def split: prod.split if_split)
qed

end
