(* ===== verification/Py_Ipv4.thy ===== *)
theory Py_Ipv4
  imports Py_Match
begin

text \<open>
  What the backend uses of Python's \<^verbatim>\<open>ipaddress\<close> for IPv4: an address is its number, a network the pair of an address
  and a prefix length.
\<close>

section \<open>Addresses\<close>

text \<open>\<^verbatim>\<open>ip_address\<close> on the octets of a dotted text: no leading zero, none above 255.\<close>

definition octet_val :: "string \<Rightarrow> int option" where
  "octet_val s =
     (if s = [] \<or> \<not> list_all py_isdigit s \<or> 3 < length s \<or> (s \<noteq> ''0'' \<and> hd s = CHR ''0'') \<or> 255 < digits_val s then None
      else Some (digits_val s))"

definition ipv4_of :: "string list \<Rightarrow> int option" where
  "ipv4_of os =
     (if length os \<noteq> 4 then None
      else case those (map octet_val os) of None \<Rightarrow> None | Some vs \<Rightarrow> Some (foldl (\<lambda>a v. 256 * a + v) 0 vs))"

definition ipv4_str :: "int \<Rightarrow> string" where
  "ipv4_str n = py_join ''.'' (map (\<lambda>k. py_str (n div 256 ^ k mod 256)) [3, 2, 1, 0])"

section \<open>Networks\<close>

text \<open>
  \<^verbatim>\<open>ip_network(s, strict=False)\<close> on a range with a prefix length, the form that the callers' validators and patterns
  accept: the address and the length.
\<close>

definition ip_network :: "string \<Rightarrow> (int \<times> nat) option" where
  "ip_network s =
     (case py_split (CHR ''/'') s of
        [a, bits] \<Rightarrow>
          (case ipv4_of (py_split (CHR ''.'') a) of
             None \<Rightarrow> None
           | Some ip \<Rightarrow>
               if bits = [] \<or> \<not> list_all py_isdigit bits \<or> 32 < digits_val bits then None else Some (ip, nat (digits_val bits)))
      | _ \<Rightarrow> None)"

definition in_network :: "int \<times> nat \<Rightarrow> int \<Rightarrow> bool" where
  "in_network net ip \<longleftrightarrow> ip div 2 ^ (32 - snd net) = fst net div 2 ^ (32 - snd net)"

definition net_address :: "int \<times> nat \<Rightarrow> int" where
  "net_address net = fst net div 2 ^ (32 - snd net) * 2 ^ (32 - snd net)"

definition net_str :: "int \<times> nat \<Rightarrow> string" where
  "net_str net = ipv4_str (net_address net) @ ''/'' @ nat_digits (snd net)"

definition num_addresses :: "int \<times> nat \<Rightarrow> int" where
  "num_addresses net = 2 ^ (32 - snd net)"

text \<open>\<^verbatim>\<open>hosts()\<close>: all addresses of a network of one or two, else those between the first and the last.\<close>

definition net_hosts :: "int \<times> nat \<Rightarrow> int list" where
  "net_hosts net =
     (if 31 \<le> snd net then [net_address net..net_address net + num_addresses net - 1]
      else [net_address net + 1..net_address net + num_addresses net - 2])"

lemma length_net_hosts: "length (net_hosts net) \<le> 2 ^ (32 - snd net)"
proof -
  have "nat (2 ^ k :: int) = 2 ^ k" for k by (simp add: nat_power_eq)
  then show ?thesis by (simp add: net_hosts_def num_addresses_def nat_diff_distrib)
qed

lemma net_hosts_in_network:
  assumes "ip \<in> set (net_hosts net)"
  shows "in_network net ip"
proof -
  let ?m = "2 ^ (32 - snd net) :: int" and ?q = "fst net div 2 ^ (32 - snd net)"
  have "0 \<le> ip - ?q * ?m" "ip - ?q * ?m < ?m"
    using assms by (auto simp: net_hosts_def net_address_def num_addresses_def split: if_splits)
  then have "(ip - ?q * ?m) div ?m = 0" by (rule div_pos_pos_trivial)
  moreover have "((ip - ?q * ?m) + ?q * ?m) div ?m = ?q + (ip - ?q * ?m) div ?m" by (rule div_mult_self1) simp
  ultimately show ?thesis by (simp add: in_network_def)
qed

section \<open>Round trip\<close>

lemma hd_nat_digits: "0 < n \<Longrightarrow> hd (nat_digits n) \<noteq> CHR ''0''"
proof (induction n rule: nat_digits.induct)
  case (1 n)
  have "digit_char k \<noteq> CHR ''0''" if "0 < k" "k < 10" for k
  proof
    assume "digit_char k = CHR ''0''"
    then have "digit_val (digit_char k) = 0" by (simp add: digit_val_def)
    then show False using digit_char_props(1) [OF that(2)] that(1) by simp
  qed
  then show ?case using 1 by (cases "n < 10") (simp_all add: nat_digits.simps [of n] hd_append)
qed

lemma nat_digits_short: "n < 1000 \<Longrightarrow> length (nat_digits n) \<le> 3"
  by (simp add: nat_digits.simps [of n] nat_digits.simps [of "n div 10"] nat_digits.simps [of "n div 10 div 10"])

lemma octet_val_py_str:
  assumes "0 \<le> v" "v \<le> 255"
  shows "octet_val (py_str v) = Some v"
proof -
  have "nat_digits (nat v) \<noteq> ''0'' \<Longrightarrow> hd (nat_digits (nat v)) \<noteq> CHR ''0''"
    using hd_nat_digits [of "nat v"] by (cases "nat v = 0") (simp_all add: nat_digits.simps [of 0] digit_char_def)
  moreover have "nat v < 1000" using assms by simp
  ultimately show ?thesis
    using assms nat_digits_digits [of "nat v"] nat_digits_short [of "nat v"]
    by (auto simp: octet_val_def py_str_def list_all_iff)
qed

lemma octet_digits: "CHR ''.'' \<notin> set (py_str (n div k mod 256))" "CHR ''/'' \<notin> set (py_str (n div k mod 256))"
  using py_str_digits [of "n div k mod 256"] by (auto simp: char_class_defs)

lemma bytes_of_number:
  assumes "0 \<le> n" "n < 2 ^ 32"
  shows "foldl (\<lambda>a v. 256 * a + v) 0 [n div 16777216 mod 256, n div 65536 mod 256, n div 256 mod 256, n div 1 mod 256] = (n :: int)"
proof -
  have two: "n div 65536 = n div 256 div 256" and three: "n div 16777216 = n div 256 div 256 div 256"
    by (simp_all add: zdiv_zmult2_eq [symmetric])
  have "n div 16777216 mod 256 = n div 16777216"
    using assms by (intro mod_pos_pos_trivial) (simp_all add: pos_imp_zdiv_nonneg_iff div_less_iff_less_mult)
  then have "256 * (n div 16777216 mod 256) + n div 65536 mod 256 = n div 65536"
    using mult_div_mod_eq [of 256 "n div 65536"] unfolding two three by simp
  moreover have "256 * (n div 65536) + n div 256 mod 256 = n div 256"
    using mult_div_mod_eq [of 256 "n div 256"] unfolding two by simp
  moreover have "256 * (n div 256) + n mod 256 = n" by (rule mult_div_mod_eq)
  ultimately show ?thesis by (simp only: foldl.simps mult_zero_right add_0_left div_by_1)
qed

theorem ipv4_round_trip:
  assumes "0 \<le> n" "n < 2 ^ 32"
  shows "ipv4_of (py_split (CHR ''.'') (ipv4_str n)) = Some n"
proof -
  let ?ws = "[py_str (n div 16777216 mod 256), py_str (n div 65536 mod 256), py_str (n div 256 mod 256), py_str (n div 1 mod 256)]"
  have "ipv4_str n = py_join ''.'' ?ws" by (simp add: ipv4_str_def)
  moreover have "py_split (CHR ''.'') (py_join ''.'' ?ws) = ?ws"
    using octet_digits(1) [of n 16777216] octet_digits(1) [of n 65536] octet_digits(1) [of n 256] octet_digits(1) [of n 1]
    by (intro py_split_join) (simp_all del: div_by_1)
  moreover have "octet_val (py_str (n div k mod 256)) = Some (n div k mod 256)" for k by (intro octet_val_py_str) simp_all
  then have "map octet_val ?ws = map Some [n div 16777216 mod 256, n div 65536 mod 256, n div 256 mod 256, n div 1 mod 256]"
    by (simp only: list.map)
  ultimately have "ipv4_of (py_split (CHR ''.'') (ipv4_str n)) =
      Some (foldl (\<lambda>a v. 256 * a + v) 0 [n div 16777216 mod 256, n div 65536 mod 256, n div 256 mod 256, n div 1 mod 256])"
    by (simp only: ipv4_of_def) simp
  then show ?thesis unfolding bytes_of_number [OF assms] .
qed

lemma octet_val_bounds: "octet_val s = Some v \<Longrightarrow> 0 \<le> v \<and> v \<le> 255"
  using digits_val_nonneg [of s] by (auto simp: octet_val_def list_all_iff split: if_splits)

lemma ipv4_of_bounds:
  assumes "ipv4_of os = Some n"
  shows "0 \<le> n \<and> n < 2 ^ 32"
proof -
  obtain a b c d where os: "os = [a, b, c, d]"
    using assms by (auto simp: ipv4_of_def length_Suc_conv numeral_eq_Suc split: if_splits)
  then obtain va vb vc vd where v: "octet_val a = Some va" "octet_val b = Some vb" "octet_val c = Some vc" "octet_val d = Some vd"
    and n: "n = 256 * (256 * (256 * va + vb) + vc) + vd"
    using assms by (auto simp: ipv4_of_def split: option.splits)
  show ?thesis using v [THEN octet_val_bounds] n by simp
qed

lemma net_str_network:
  assumes "0 \<le> fst net" "fst net < 2 ^ 32" "snd net \<le> 32"
  shows "ip_network (net_str net) = Some (net_address net, snd net)"
proof -
  have "0 \<le> net_address net" "net_address net \<le> fst net"
    using assms(1) by (simp_all add: net_address_def pos_imp_zdiv_nonneg_iff minus_mod_eq_div_mult [symmetric] zmod_le_nonneg_dividend)
  then have addr: "ipv4_of (py_split (CHR ''.'') (ipv4_str (net_address net))) = Some (net_address net)"
    using assms(2) by (intro ipv4_round_trip) simp_all
  have "CHR ''/'' \<notin> set (ipv4_str n)" for n
    using set_py_join [of "''.''" "map (\<lambda>k. py_str (n div 256 ^ k mod 256)) [3, 2, 1, 0]"] octet_digits(2) octet_digits(2) [of n 1]
    by (auto simp: ipv4_str_def)
  moreover have "CHR ''/'' \<notin> set (nat_digits k)" for k using nat_digits_digits [of k] by (auto simp: char_class_defs)
  ultimately have "py_split (CHR ''/'') (net_str net) = [ipv4_str (net_address net), nat_digits (snd net)]"
    by (simp add: net_str_def py_split_append py_split_plain)
  then show ?thesis using addr assms(3) nat_digits_digits [of "snd net"] by (simp add: ip_network_def list_all_iff)
qed

lemma ip_network_bounds: "ip_network s = Some net \<Longrightarrow> 0 \<le> fst net \<and> fst net < 2 ^ 32 \<and> snd net \<le> 32"
  using ipv4_of_bounds digits_val_nonneg by (fastforce simp: ip_network_def list_all_iff split: list.splits option.splits if_splits)

lemma in_wider_network:
  assumes "in_network (a, m) ip" "n \<le> m" "m \<le> 32"
  shows "in_network (a, n) ip"
proof -
  have "(2 :: int) ^ (32 - n) = 2 ^ (32 - m) * 2 ^ (m - n)" using assms(2,3) by (simp add: power_add [symmetric])
  then have "x div 2 ^ (32 - n) = x div 2 ^ (32 - m) div 2 ^ (m - n)" for x :: int by (simp add: zdiv_zmult2_eq)
  then show ?thesis using assms(1) by (simp add: in_network_def)
qed

lemma net_address_same: "in_network (net_address net, snd net) ip \<longleftrightarrow> in_network net ip"
  by (simp add: in_network_def net_address_def)

lemma length_hosts:
  assumes "22 \<le> snd net"
  shows "length (net_hosts net) \<le> 1022"
proof (cases "31 \<le> snd net")
  case True
  then have "32 - snd net \<le> 1" by simp
  then have "(2 :: nat) ^ (32 - snd net) \<le> 2 ^ 1" by (rule power_increasing) simp
  then show ?thesis using length_net_hosts [of net] by simp
next
  case False
  have "32 - snd net \<le> 10" using assms by simp
  then have "(2 :: int) ^ (32 - snd net) \<le> 2 ^ 10" by (rule power_increasing) simp
  then show ?thesis using False by (simp add: net_hosts_def num_addresses_def)
qed

end
