(* ===== verification/Tor_Audit.thy ===== *)
theory Tor_Audit
  imports Tor_Client Network_Store Py_Ipv4
begin

text \<open>
  Tor, third part (\<^verbatim>\<open>backend/app/tor/audit.py\<close>): the audit of the gateway. Its regular expressions are functions on
  the text and the character before it; a boundary is where exactly one side is a word character. A finding has its
  id, status and severity; labels, evidence and advice are left out.
\<close>

section \<open>Findings\<close>

datatype tor_severity = T_Critical | T_High | T_Medium | T_Low | T_Info | T_Pass

datatype tor_check_status = C_Pass | C_Fail | C_Warn | C_Info | C_Skip

record tor_finding =
  tf_id :: string
  tf_status :: tor_check_status
  tf_severity :: tor_severity

fun TOR_PENALTY :: "tor_severity \<Rightarrow> int" where
  "TOR_PENALTY T_Critical = 25"
| "TOR_PENALTY T_High = 10"
| "TOR_PENALTY T_Medium = 5"
| "TOR_PENALTY T_Low = 2"
| "TOR_PENALTY T_Info = 0"
| "TOR_PENALTY T_Pass = 0"

definition tor_finding_of :: "string \<Rightarrow> tor_check_status \<Rightarrow> tor_severity \<Rightarrow> tor_finding" where
  "tor_finding_of i st sev = \<lparr>tf_id = i, tf_status = st, tf_severity = sev\<rparr>"

section \<open>Patterns\<close>

definition re_word :: "char option \<Rightarrow> bool" where
  "re_word c = (case c of None \<Rightarrow> False | Some c \<Rightarrow> py_isalnum c \<or> c = CHR ''_'')"

definition hd_opt :: "string \<Rightarrow> char option" where
  "hd_opt s = (case s of [] \<Rightarrow> None | c # _ \<Rightarrow> Some c)"

definition boundary :: "char option \<Rightarrow> char option \<Rightarrow> bool" where
  "boundary a b \<longleftrightarrow> re_word a \<noteq> re_word b"

definition addr_char :: "char \<Rightarrow> bool" where
  "addr_char c \<longleftrightarrow> is_hex c \<or> c = CHR ''.'' \<or> c = CHR '':''"

text \<open>After the local address: white space, the foreign address, white space, and the start of a word.\<close>

definition address_tail :: "string \<Rightarrow> bool" where
  "address_tail s \<longleftrightarrow>
     (let t = skip_ws s; u = dropWhile (\<lambda>c. \<not> py_isspace c) t
      in t \<noteq> s \<and> t \<noteq> [] \<and> u \<noteq> [] \<and> re_word (hd_opt (skip_ws u)))"

definition match_binding :: "char option \<Rightarrow> string \<Rightarrow> (int \<times> string) option" where
  "match_binding prev s =
     (let r = takeWhile addr_char s; (addr, port) = py_rpartition (CHR '':'') r in
      if r \<noteq> [] \<and> boundary prev (hd_opt r) \<and> CHR '':'' \<in> set r \<and> addr \<noteq> [] \<and> port \<noteq> [] \<and> list_all py_isdigit port
         \<and> address_tail (dropWhile addr_char s)
      then Some (digits_val port, addr) else None)"

fun search_binding :: "char option \<Rightarrow> string \<Rightarrow> (int \<times> string) option" where
  "search_binding prev [] = None"
| "search_binding prev (c # s) =
     (case match_binding prev (c # s) of Some x \<Rightarrow> Some x | None \<Rightarrow> search_binding (Some c) s)"

definition bindings_of :: "string \<Rightarrow> (int, string list) dict" where
  "bindings_of out =
     foldl (\<lambda>d (port, addr). dict_set port (dict_get_or d port [] @ [addr]) d) []
       (List.map_filter (search_binding None) (py_splitlines out))"

text \<open>A word, possibly with characters that are none, with a boundary on both sides.\<close>

definition word_here :: "char option \<Rightarrow> string \<Rightarrow> string \<Rightarrow> bool" where
  "word_here prev w s \<longleftrightarrow>
     starts_with w s \<and> boundary prev (hd_opt s)
     \<and> boundary (if w = [] then prev else Some (last w)) (hd_opt (drop (length w) s))"

fun has_word :: "char option \<Rightarrow> string \<Rightarrow> string \<Rightarrow> bool" where
  "has_word prev w [] = word_here prev w []"
| "has_word prev w (c # s) = (word_here prev w (c # s) \<or> has_word (Some c) w s)"

fun drop_rule_from :: "string \<Rightarrow> char option \<Rightarrow> string \<Rightarrow> bool" where
  "drop_rule_from bridge prev [] = False"
| "drop_rule_from bridge prev (c # s) =
     (word_here prev ''DROP'' (c # s) \<and> has_word (Some (CHR ''P'')) bridge (takeWhile (\<lambda>c. c \<noteq> CHR 0x0A) (drop 3 s))
      \<or> drop_rule_from bridge (Some c) s)"

definition drop_rule :: "string \<Rightarrow> string \<Rightarrow> bool" where
  "drop_rule bridge chain = drop_rule_from bridge None chain"

text \<open>The address after \<^verbatim>\<open>src=\<close> and the port after \<^verbatim>\<open>dport=\<close>, at the first place that matches.\<close>

definition match_octet :: "string \<Rightarrow> (string \<times> string) option" where
  "match_octet s = (let ds = takeWhile py_isdigit s in if ds = [] \<or> 3 < length ds then None else Some (ds, dropWhile py_isdigit s))"

fun match_octets :: "nat \<Rightarrow> string \<Rightarrow> (string list \<times> string) option" where
  "match_octets 0 s = (case match_octet s of None \<Rightarrow> None | Some (o0, r) \<Rightarrow> Some ([o0], r))"
| "match_octets (Suc n) s =
     (case match_octet s of
        None \<Rightarrow> None
      | Some (o0, r) \<Rightarrow>
          if hd_opt r \<noteq> Some (CHR ''.'') then None
          else (case match_octets n (tl r) of None \<Rightarrow> None | Some (os, t) \<Rightarrow> Some (o0 # os, t)))"

fun search_after :: "string \<Rightarrow> (string \<Rightarrow> 'a option) \<Rightarrow> char option \<Rightarrow> string \<Rightarrow> 'a option" where
  "search_after key p prev [] = None"
| "search_after key p prev (c # s) =
     (case (if boundary prev (Some c) then Option.bind (strip_prefix key (c # s)) p else None) of
        Some x \<Rightarrow> Some x | None \<Rightarrow> search_after key p (Some c) s)"

definition conntrack_src :: "string \<Rightarrow> string list option" where
  "conntrack_src line =
     search_after ''src='' (\<lambda>s. case match_octets 3 s of
        None \<Rightarrow> None | Some (os, r) \<Rightarrow> if re_word (hd_opt r) then None else Some os) None line"

definition conntrack_dport :: "string \<Rightarrow> string option" where
  "conntrack_dport line =
     search_after ''dport='' (\<lambda>s. let ds = takeWhile py_isdigit s in
        if ds = [] \<or> re_word (hd_opt (dropWhile py_isdigit s)) then None else Some ds) None line"

section \<open>Probes\<close>

definition ssh_or_empty :: "'d run_fun \<Rightarrow> 'd \<Rightarrow> string \<Rightarrow> 'd \<times> string" where
  "ssh_or_empty run d cmd = (case run d cmd of (d1, None) \<Rightarrow> (d1, []) | (d1, Some (out, _)) \<Rightarrow> (d1, out))"

definition NETSTAT_CMD :: string where "NETSTAT_CMD = ''netstat -tlnu 2>/dev/null''"
definition IP6_CMD :: string where "IP6_CMD = ''ip6tables -L FORWARD -nv 2>/dev/null''"
definition filter_chain_cmd :: "string \<Rightarrow> string" where "filter_chain_cmd name = ''iptables -L '' @ name @ '' -nv 2>/dev/null''"
definition CONNTRACK_CMD :: string where
  "CONNTRACK_CMD = ''grep -E '' @ [squote] @ ''^ipv4.*tcp.*ESTABLISHED'' @ [squote] @ '' /proc/net/nf_conntrack 2>/dev/null''"

definition orphan_line :: "int \<times> nat \<Rightarrow> string \<Rightarrow> bool" where
  "orphan_line net line =
     (case (conntrack_src line, conntrack_dport line) of
        (Some os, Some port) \<Rightarrow> port \<noteq> ''9040'' \<and> (case ipv4_of os of None \<Rightarrow> False | Some ip \<Rightarrow> in_network net ip)
      | _ \<Rightarrow> False)"

definition conntrack_orphans_count :: "'d run_fun \<Rightarrow> 'd \<Rightarrow> string \<Rightarrow> 'd \<times> int option" where
  "conntrack_orphans_count run d cidr =
     (case ip_network cidr of
        None \<Rightarrow> (d, None)
      | Some net \<Rightarrow>
          (case ssh_or_empty run d CONNTRACK_CMD of
             (d1, out) \<Rightarrow> (d1, Some (if out = [] then 0 else int (length (filter (orphan_line net) (py_splitlines out)))))))"

section \<open>Checks\<close>

definition port_id :: "int \<Rightarrow> string" where "port_id port = ''tor.port.'' @ py_str port @ ''.bind''"

definition check_tor_port :: "(int, string list) dict \<Rightarrow> int \<Rightarrow> tor_finding" where
  "check_tor_port bindings port =
     (let addrs = dict_get_or bindings port [] in
      if addrs = [] then tor_finding_of (port_id port) C_Info T_Info
      else if filter (\<lambda>a. a \<in> {''0.0.0.0'', ''::''}) addrs \<noteq> [] then tor_finding_of (port_id port) C_Fail T_High
      else tor_finding_of (port_id port) C_Pass T_Pass)"

definition check_control_port :: "(int, string list) dict \<Rightarrow> tor_finding" where
  "check_control_port bindings =
     (let ctrl = dict_get_or bindings 9051 [] in
      if ctrl = [] then tor_finding_of (port_id 9051) C_Info T_Info
      else if list_all (\<lambda>a. a \<in> {''127.0.0.1'', ''::1''}) ctrl then tor_finding_of (port_id 9051) C_Pass T_Pass
      else tor_finding_of (port_id 9051) C_Fail T_Critical)"

definition check_port_bindings :: "(int, string list) dict \<Rightarrow> tor_finding list" where
  "check_port_bindings bindings = map (check_tor_port bindings) [9050, 9040, 5353] @ [check_control_port bindings]"

definition check_ipv6_leak :: "string \<Rightarrow> string list \<Rightarrow> tor_finding" where
  "check_ipv6_leak chain bridges =
     (let i = ''tor.ipv6.forward_drop'' in
      if bridges = [] then tor_finding_of i C_Info T_Info
      else if filter (\<lambda>b. \<not> drop_rule b chain) bridges = [] then tor_finding_of i C_Pass T_Pass
      else tor_finding_of i C_Fail T_High)"

definition check_kill_switch :: "string \<Rightarrow> string list \<Rightarrow> tor_finding" where
  "check_kill_switch chain bridges =
     (let i = ''tor.kill_switch'' in
      if bridges = [] then tor_finding_of i C_Info T_Info
      else if filter (\<lambda>b. \<not> drop_rule b chain) bridges = [] then tor_finding_of i C_Pass T_Pass
      else tor_finding_of i C_Warn T_Medium)"

definition check_conntrack_orphans :: "(string, int option) dict \<Rightarrow> tor_finding" where
  "check_conntrack_orphans orphans =
     (let i = ''tor.conntrack.orphans'' in
      if orphans = [] then tor_finding_of i C_Info T_Info
      else if filter (\<lambda>(b, n). n \<noteq> None \<and> 0 < the n) orphans = [] then tor_finding_of i C_Pass T_Pass
      else tor_finding_of i C_Warn T_Low)"

section \<open>The audit\<close>

record tor_audit_report =
  tr_score :: int
  tr_findings :: "tor_finding list"
  tr_running :: bool
  tr_installed :: bool
  tr_transparent :: "string list"

definition tor_score :: "tor_finding list \<Rightarrow> int" where
  "tor_score fs =
     max 0 (foldl (\<lambda>s f. if tf_status f \<in> {C_Fail, C_Warn} then s - TOR_PENALTY (tf_severity f) else s) 100 fs)"

definition transparent_networks :: "network_row list \<Rightarrow> network_row list" where
  "transparent_networks rows = filter (\<lambda>r. tor_route_mode (nw_body r) = Tor_Transparent) (ns_list_all rows)"

fun count_orphans ::
  "'d run_fun \<Rightarrow> 'd \<Rightarrow> network_row list \<Rightarrow> (string, int option) dict \<Rightarrow> 'd \<times> (string, int option) dict" where
  "count_orphans run d [] acc = (d, acc)"
| "count_orphans run d (n # ns) acc =
     (case conntrack_orphans_count run d (subnet_cidr (nw_body n)) of
        (d1, k) \<Rightarrow> count_orphans run d1 ns (dict_set (bridge_name (nw_body n)) k acc))"

definition run_tor_audit :: "'d run_fun \<Rightarrow> 'd \<Rightarrow> network_row list \<Rightarrow> 'd \<times> tor_audit_report" where
  "run_tor_audit run d rows =
     (case detect_install run d of (d1, inst) \<Rightarrow>
      let nets = transparent_networks rows; bridges = map (bridge_name \<circ> nw_body) nets in
      if \<not> ti_tor inst
      then (d1, \<lparr>tr_score = 100, tr_findings = [tor_finding_of ''tor.installed'' C_Info T_Info], tr_running = False,
                 tr_installed = False, tr_transparent = []\<rparr>)
      else
        let (d2, out) = ssh_or_empty run d1 NETSTAT_CMD; bindings = bindings_of out;
            (d3, ip6) = ssh_or_empty run d2 IP6_CMD; (d4, kill) = ssh_or_empty run d3 (filter_chain_cmd ''SC_TOR_KILL'');
            (d5, orphans) = count_orphans run d4 nets [];
            fs = check_port_bindings bindings @ [check_ipv6_leak ip6 bridges, check_kill_switch kill bridges,
                                                 check_conntrack_orphans orphans]
        in (d5, \<lparr>tr_score = tor_score fs, tr_findings = fs,
                 tr_running = list_ex (\<lambda>p. dict_get bindings p \<noteq> None) [9050, 9040, 9051, 5353],
                 tr_installed = True, tr_transparent = map nw_slug nets\<rparr>))"

section \<open>The score\<close>

lemma tor_score_sum:
  "foldl (\<lambda>s f. if tf_status f \<in> {C_Fail, C_Warn} then s - TOR_PENALTY (tf_severity f) else s) n fs =
   n - sum_list (map (\<lambda>f. TOR_PENALTY (tf_severity f)) (filter (\<lambda>f. tf_status f \<in> {C_Fail, C_Warn}) fs))"
  by (induction fs arbitrary: n) auto

definition exposed :: "(int, string list) dict \<Rightarrow> int \<Rightarrow> bool" where
  "exposed bindings port \<longleftrightarrow> (\<exists>a\<in>set (dict_get_or bindings port []). a = ''0.0.0.0'' \<or> a = ''::'')"

definition control_exposed :: "(int, string list) dict \<Rightarrow> bool" where
  "control_exposed bindings \<longleftrightarrow> (\<exists>a\<in>set (dict_get_or bindings 9051 []). a \<noteq> ''127.0.0.1'' \<and> a \<noteq> ''::1'')"

lemma port_penalties:
  "tf_status (check_tor_port b p) \<in> {C_Fail, C_Warn} \<longleftrightarrow> exposed b p"
  "exposed b p \<Longrightarrow> tf_severity (check_tor_port b p) = T_High"
  "tf_status (check_control_port b) \<in> {C_Fail, C_Warn} \<longleftrightarrow> control_exposed b"
  "control_exposed b \<Longrightarrow> tf_severity (check_control_port b) = T_Critical"
  by (auto simp: check_tor_port_def check_control_port_def exposed_def control_exposed_def tor_finding_of_def Let_def
      filter_empty_conv list_all_iff)

lemma chain_penalties:
  "tf_status (check_ipv6_leak c bs) \<in> {C_Fail, C_Warn} \<longleftrightarrow> (\<exists>b\<in>set bs. \<not> drop_rule b c)"
  "\<exists>b\<in>set bs. \<not> drop_rule b c \<Longrightarrow> tf_severity (check_ipv6_leak c bs) = T_High"
  "tf_status (check_kill_switch c bs) \<in> {C_Fail, C_Warn} \<longleftrightarrow> (\<exists>b\<in>set bs. \<not> drop_rule b c)"
  "\<exists>b\<in>set bs. \<not> drop_rule b c \<Longrightarrow> tf_severity (check_kill_switch c bs) = T_Medium"
  "tf_status (check_conntrack_orphans os) \<in> {C_Fail, C_Warn} \<longleftrightarrow> list_ex (\<lambda>(b, n). n \<noteq> None \<and> 0 < the n) os"
  "list_ex (\<lambda>(b, n). n \<noteq> None \<and> 0 < the n) os \<Longrightarrow> tf_severity (check_conntrack_orphans os) = T_Low"
  by (auto simp: check_ipv6_leak_def check_kill_switch_def check_conntrack_orphans_def tor_finding_of_def Let_def
      filter_empty_conv list_ex_iff simp del: not_None_eq)

text \<open>
  What an audit deducts: 10 points for each Tor port open to everyone, 25 for a control port off the loopback, 10 and 5
  when a transparent bridge has no dropping rule for IPv6 or in the kill switch, 2 for connections that bypass Tor.
  The total never goes below 28.
\<close>

theorem tor_score_exact:
  "tor_score (check_port_bindings b @ [check_ipv6_leak ip6 bs, check_kill_switch kill bs, check_conntrack_orphans os]) =
     100 - 10 * int (length (filter (exposed b) [9050, 9040, 5353])) - (if control_exposed b then 25 else 0)
       - (if list_all (\<lambda>x. drop_rule x ip6) bs then 0 else 10) - (if list_all (\<lambda>x. drop_rule x kill) bs then 0 else 5)
       - (if list_ex (\<lambda>(x, n). n \<noteq> None \<and> 0 < the n) os then 2 else 0)"
proof -
  have ball: "list_all (\<lambda>x. drop_rule x c) bs \<longleftrightarrow> \<not> (\<exists>x\<in>set bs. \<not> drop_rule x c)" for c by (simp add: list_all_iff)
  let ?pen = "\<lambda>f. if tf_status f \<in> {C_Fail, C_Warn} then TOR_PENALTY (tf_severity f) else 0"
  have sum: "sum_list (map (\<lambda>f. TOR_PENALTY (tf_severity f)) (filter (\<lambda>f. tf_status f \<in> {C_Fail, C_Warn}) fs)) = sum_list (map ?pen fs)"
    for fs by (induction fs) auto
  have ports: "?pen (check_tor_port b p) = (if exposed b p then 10 else 0)" for p using port_penalties(1,2) by simp
  have control: "?pen (check_control_port b) = (if control_exposed b then 25 else 0)" using port_penalties(3,4) by simp
  have chains: "?pen (check_ipv6_leak ip6 bs) = (if \<exists>x\<in>set bs. \<not> drop_rule x ip6 then 10 else 0)"
      "?pen (check_kill_switch kill bs) = (if \<exists>x\<in>set bs. \<not> drop_rule x kill then 5 else 0)"
      "?pen (check_conntrack_orphans os) = (if list_ex (\<lambda>(x, n). n \<noteq> None \<and> 0 < the n) os then 2 else 0)"
    using chain_penalties by simp_all
  show ?thesis
    unfolding tor_score_def tor_score_sum sum check_port_bindings_def ball
    by (simp add: ports control chains del: insert_iff)
qed

section \<open>What the pattern for listeners sees\<close>

text \<open>A line as netstat prints it: the columns are padded with blanks.\<close>

definition netstat_line :: "string \<Rightarrow> string \<Rightarrow> nat \<Rightarrow> string \<Rightarrow> nat \<Rightarrow> string \<Rightarrow> string" where
  "netstat_line proto addr pad foreign pad2 st =
     proto @ ''        0      0 '' @ addr @ replicate (Suc pad) (CHR '' '') @ foreign @ replicate (Suc pad2) (CHR '' '') @ st"

lemma addr_char_facts [simp]:
  "py_isdigit c \<Longrightarrow> addr_char c" "addr_char (CHR ''.'')" "addr_char (CHR '':'')" "\<not> addr_char (CHR '' '')"
  "\<not> addr_char (CHR ''*'')" "\<not> addr_char (CHR ''t'')" "\<not> addr_char (CHR ''p'')" "\<not> addr_char (CHR ''u'')"
  "\<not> addr_char (CHR ''L'')" "\<not> addr_char (CHR ''I'')" "\<not> addr_char (CHR ''S'')" "\<not> addr_char (CHR ''T'')"
  "\<not> addr_char (CHR ''N'')"
  by (auto simp: addr_char_def is_hex_def char_class_defs)

lemma match_nonaddr [simp]: "\<not> addr_char c \<Longrightarrow> match_binding prev (c # s) = None"
  by (simp add: match_binding_def Let_def split: prod.split)

lemma match_no_colon: "CHR '':'' \<notin> set (takeWhile addr_char s) \<Longrightarrow> match_binding prev s = None"
  by (simp add: match_binding_def Let_def split: prod.split)

lemma match_no_tail: "\<not> address_tail (dropWhile addr_char s) \<Longrightarrow> match_binding prev s = None"
  by (simp add: match_binding_def Let_def split: prod.split)

lemma search_nonaddr: "\<forall>c\<in>set s. \<not> addr_char c \<Longrightarrow> \<exists>p. search_binding prev (s @ t) = search_binding p t"
proof (induction s arbitrary: prev)
  case (Cons c s)
  then show ?case by simp
qed auto

text \<open>A run of address characters with nothing to follow is passed over; so is one without a colon.\<close>

lemma search_run_no_tail:
  assumes "\<forall>c\<in>set r. addr_char c" "rest = [] \<or> \<not> addr_char (hd rest)" "\<not> address_tail rest"
  shows "\<exists>p. search_binding prev (r @ rest) = search_binding p rest"
  using assms(1)
proof (induction r arbitrary: prev)
  case (Cons c r)
  have "dropWhile addr_char (r @ rest) = rest"
    using Cons.prems assms(2) by (cases rest) (simp_all add: dropWhile_append3)
  then have "match_binding prev (c # r @ rest) = None"
    using Cons.prems assms(3) by (intro match_no_tail) simp
  then show ?case using Cons by simp
qed auto

lemma blanks_no_tail: "\<not> address_tail (replicate n (CHR '' ''))"
proof -
  have "skip_ws (replicate n (CHR '' '')) = []" by (simp add: skip_ws_def py_isspace_def)
  then show ?thesis by (simp add: address_tail_def Let_def)
qed

lemma search_blanks: "search_binding prev (replicate n (CHR '' '')) = None"
  by (induction n arbitrary: prev) simp_all

text \<open>The part of a line after the local address, with a foreign address that has no port.\<close>

definition foreign_addr :: "string \<Rightarrow> bool" where
  "foreign_addr f \<longleftrightarrow> (\<exists>a. f = a @ '':*'' \<and> (\<forall>c\<in>set a. addr_char c))"

lemma star_no_tail: "\<not> address_tail (CHR ''*'' # s)"
  by (simp add: address_tail_def skip_ws_def py_isspace_def)

lemma search_foreign:
  assumes "foreign_addr f"
  shows "\<exists>p. search_binding prev (f @ replicate (Suc n) (CHR '' '') @ st) = search_binding p st"
proof -
  obtain a where f: "f = a @ '':*''" and a: "\<forall>c\<in>set a. addr_char c" using assms by (auto simp: foreign_addr_def)
  let ?rest = "replicate (Suc n) (CHR '' '') @ st"
  have "\<exists>p. search_binding prev ((a @ '':'') @ CHR ''*'' # ?rest) = search_binding p (CHR ''*'' # ?rest)"
    using a star_no_tail by (intro search_run_no_tail) auto
  moreover have "\<exists>p'. search_binding p ((CHR ''*'' # replicate (Suc n) (CHR '' '')) @ st) = search_binding p' st" for p
    by (rule search_nonaddr) simp
  ultimately show ?thesis by (fastforce simp: f)
qed

lemma addr_hex [simp]: "addr_char (CHR ''c'')" "addr_char (CHR ''d'')" "addr_char (CHR ''0'')" "addr_char (CHR ''E'')"
  by (simp_all add: addr_char_def is_hex_def char_class_defs)

lemma search_LISTEN: "search_binding prev ''LISTEN'' = None"
  by (simp add: match_no_colon)

lemma search_head:
  "search_binding None (''tcp'' @ ''        0      0 '' @ t) = search_binding (Some (CHR '' '')) t"
  "search_binding None (''udp'' @ ''        0      0 '' @ t) = search_binding (Some (CHR '' '')) t"
  by (simp_all add: match_no_colon)

lemma search_gap: "\<exists>p. search_binding prev (replicate (Suc n) (CHR '' '') @ t) = search_binding p t"
  by (rule search_nonaddr) simp

lemma search_after_local:
  assumes "foreign_addr f"
  shows "\<exists>p. search_binding prev (replicate (Suc n) (CHR '' '') @ f @ replicate (Suc m) (CHR '' '') @ st) = search_binding p st"
  using search_gap [of prev n "f @ replicate (Suc m) (CHR '' '') @ st"] search_foreign [OF assms, of _ m st] by metis

lemma skip_blanks: "skip_ws (replicate k (CHR '' '') @ t) = skip_ws t" "skip_ws (replicate k (CHR '' '')) = []"
  by (induction k) (simp_all add: skip_ws_def py_isspace_def)

lemma foreign_token:
  assumes "foreign_addr f"
  shows "f \<noteq> []" "skip_ws (f @ t) = f @ t"
    "dropWhile (\<lambda>c. \<not> py_isspace c) (f @ replicate (Suc m) (CHR '' '') @ t) = replicate (Suc m) (CHR '' '') @ t"
proof -
  obtain a where f: "f = a @ '':*''" and a: "\<forall>c\<in>set a. addr_char c" using assms by (auto simp: foreign_addr_def)
  have "addr_char c \<Longrightarrow> \<not> py_isspace c" for c by (auto simp: addr_char_def is_hex_def char_class_defs)
  with a have fs: "\<forall>c\<in>set f. \<not> py_isspace c" by (auto simp: f py_isspace_def)
  show ne: "f \<noteq> []" by (simp add: f)
  then have "\<not> py_isspace (hd f)" using fs by simp
  then show "skip_ws (f @ t) = f @ t" using ne by (cases f) (simp_all add: skip_ws_def)
  show "dropWhile (\<lambda>c. \<not> py_isspace c) (f @ replicate (Suc m) (CHR '' '') @ t) = replicate (Suc m) (CHR '' '') @ t"
    using fs by (simp add: dropWhile_append2 py_isspace_def)
qed

lemma tail_of_line:
  assumes "foreign_addr f"
  shows "address_tail (replicate (Suc n) (CHR '' '') @ f @ replicate (Suc m) (CHR '' '') @ st) \<longleftrightarrow> re_word (hd_opt (skip_ws st))"
proof -
  let ?t = "replicate (Suc m) (CHR '' '') @ st"
  have "length (f @ ?t) < length (replicate (Suc n) (CHR '' '') @ f @ ?t)" by simp
  then have "f @ ?t \<noteq> replicate (Suc n) (CHR '' '') @ f @ ?t" by (metis less_irrefl)
  moreover have "skip_ws (replicate (Suc n) (CHR '' '') @ f @ ?t) = f @ ?t"
    by (simp only: skip_blanks foreign_token(2) [OF assms])
  moreover have "skip_ws ?t = skip_ws st" by (simp only: skip_blanks)
  moreover have "f @ ?t \<noteq> []" "?t \<noteq> []" by simp_all
  ultimately show ?thesis
    by (simp only: address_tail_def Let_def foreign_token(3) [OF assms] simp_thms not_False_eq_True)
qed

lemma listening_tail:
  assumes "foreign_addr f"
  shows "address_tail (replicate (Suc n) (CHR '' '') @ f @ replicate (Suc m) (CHR '' '') @ ''LISTEN'')"
  unfolding tail_of_line [OF assms] by (simp add: skip_ws_def hd_opt_def re_word_def char_class_defs)

text \<open>A listener on an IPv4 address over TCP is recorded as it is.\<close>

lemma tcp_seen:
  assumes "foreign_addr f" "\<forall>c\<in>set a. py_isdigit c \<or> c = CHR ''.''" "a \<noteq> []" "py_isdigit (hd a)"
  shows "search_binding None (netstat_line ''tcp'' (a @ CHR '':'' # nat_digits n) pad f pad2 ''LISTEN'') = Some (int n, a)"
proof -
  let ?rest = "replicate (Suc pad) (CHR '' '') @ f @ replicate (Suc pad2) (CHR '' '') @ ''LISTEN''"
  let ?local = "a @ CHR '':'' # nat_digits n"
  have chars: "\<forall>c\<in>set ?local. addr_char c" using assms(2) nat_digits_digits [of n] by auto
  have nc: "CHR '':'' \<notin> set (nat_digits n)" using nat_digits_digits [of n] by (auto simp: char_class_defs)
  have run: "takeWhile addr_char (?local @ ?rest) = ?local" "dropWhile addr_char (?local @ ?rest) = ?rest"
    using chars by (simp_all add: takeWhile_append dropWhile_append)
  have word: "boundary (Some (CHR '' '')) (hd_opt ?local)"
    using assms(3,4) by (cases a) (auto simp: boundary_def hd_opt_def re_word_def char_class_defs)
  have "match_binding (Some (CHR '' '')) (?local @ ?rest) = Some (int n, a)"
    using listening_tail [OF assms(1), of pad pad2] word assms(3) nat_digits_digits [of n]
    unfolding match_binding_def run Let_def py_rpartition_append [OF nc]
    by (simp add: list_all_iff)
  moreover obtain c t where "?local @ ?rest = c # t" by (cases "?local @ ?rest") simp_all
  ultimately have "search_binding (Some (CHR '' '')) (?local @ ?rest) = Some (int n, a)" by simp
  then show ?thesis unfolding netstat_line_def using search_head(1) by simp
qed

text \<open>A listener over UDP is not: its line has no state, and the pattern wants a word there.\<close>

lemma udp_unseen:
  assumes "foreign_addr f" "\<forall>c\<in>set l. addr_char c"
  shows "search_binding None (netstat_line ''udp'' l pad f pad2 []) = None"
proof -
  let ?rest = "replicate (Suc pad) (CHR '' '') @ f @ replicate (Suc pad2) (CHR '' '')"
  have "\<not> address_tail ?rest"
    using tail_of_line [OF assms(1), of pad pad2 "[]"] by (simp add: skip_ws_def hd_opt_def re_word_def del: replicate_Suc)
  then have "\<exists>p. search_binding (Some (CHR '' '')) (l @ ?rest) = search_binding p ?rest"
    using assms(2) by (intro search_run_no_tail) auto
  moreover have "\<exists>p'. search_binding p ?rest = search_binding p' []" for p
    using search_after_local [OF assms(1), of p pad pad2 "[]"] by simp
  ultimately show ?thesis unfolding netstat_line_def append_Nil2 search_head(2) by (metis search_binding.simps(1))
qed

lemma search_digits:
  "CHR '':'' \<notin> set ds \<Longrightarrow> \<forall>c\<in>set ds. addr_char c \<Longrightarrow> rest = [] \<or> \<not> addr_char (hd rest) \<Longrightarrow>
   \<exists>p. search_binding prev (ds @ rest) = search_binding p rest"
proof (induction ds arbitrary: prev)
  case (Cons c ds)
  have "takeWhile addr_char (c # ds @ rest) = c # ds"
    using Cons.prems by (cases rest) (simp_all add: takeWhile_append)
  then have "match_binding prev (c # ds @ rest) = None" using Cons.prems by (intro match_no_colon) simp
  then show ?case using Cons by simp
qed auto

lemma no_boundary: "\<not> re_word prev \<Longrightarrow> match_binding prev (CHR '':'' # s) = None"
  by (simp add: match_binding_def Let_def boundary_def hd_opt_def re_word_def char_class_defs split: prod.split)

lemma colon_no_word: "\<not> re_word (Some (CHR '':''))" "\<not> re_word (Some (CHR '' ''))"
  by (simp_all add: re_word_def char_class_defs)

text \<open>Nor is a listener on all IPv6 addresses: its address has no word character for the pattern to start at.\<close>

lemma any6_unseen:
  assumes "foreign_addr f"
  shows "search_binding None (netstat_line ''tcp'' ('':::'' @ nat_digits n) pad f pad2 ''LISTEN'') = None"
proof -
  let ?rest = "replicate (Suc pad) (CHR '' '') @ f @ replicate (Suc pad2) (CHR '' '') @ ''LISTEN''"
  have "search_binding (Some (CHR '' '')) ('':::'' @ nat_digits n @ ?rest) = search_binding (Some (CHR '':'')) (nat_digits n @ ?rest)"
    by (simp add: no_boundary colon_no_word del: replicate_Suc)
  moreover have "\<exists>p. search_binding (Some (CHR '':'')) (nat_digits n @ ?rest) = search_binding p ?rest"
    using nat_digits_digits [of n] by (intro search_digits) (auto simp: char_class_defs)
  moreover have "\<exists>p'. search_binding p ?rest = search_binding p' ''LISTEN''" for p
    by (rule search_after_local [OF assms])
  ultimately have "search_binding (Some (CHR '' '')) ('':::'' @ nat_digits n @ ?rest) = None" by (metis search_LISTEN)
  then show ?thesis unfolding netstat_line_def append_assoc search_head(1) .
qed

text \<open>And the IPv6 loopback loses its first part.\<close>

lemma loopback6_mangled:
  assumes "foreign_addr f"
  shows "search_binding None (netstat_line ''tcp'' (''::1:'' @ nat_digits n) pad f pad2 ''LISTEN'') = Some (int n, ''1'')"
proof -
  let ?rest = "replicate (Suc pad) (CHR '' '') @ f @ replicate (Suc pad2) (CHR '' '') @ ''LISTEN''"
  let ?local = "''1'' @ CHR '':'' # nat_digits n"
  have nc: "CHR '':'' \<notin> set (nat_digits n)" using nat_digits_digits [of n] by (auto simp: char_class_defs)
  have "\<forall>c\<in>set ?local. addr_char c" using nat_digits_digits [of n] by (auto simp: addr_char_def is_hex_def char_class_defs)
  then have run: "takeWhile addr_char (?local @ ?rest) = ?local" "dropWhile addr_char (?local @ ?rest) = ?rest"
    by (simp_all add: takeWhile_append dropWhile_append)
  have "match_binding (Some (CHR '':'')) (?local @ ?rest) = Some (int n, ''1'')"
    using listening_tail [OF assms, of pad pad2] nat_digits_digits [of n]
    unfolding match_binding_def run Let_def py_rpartition_append [OF nc]
    by (simp add: list_all_iff boundary_def hd_opt_def re_word_def char_class_defs)
  then have "search_binding (Some (CHR '':'')) (?local @ ?rest) = Some (int n, ''1'')" by simp
  moreover have "search_binding (Some (CHR '' '')) (''::'' @ t) = search_binding (Some (CHR '':'')) t" for t
    by (simp add: no_boundary colon_no_word)
  ultimately have "search_binding (Some (CHR '' '')) (''::'' @ ?local @ ?rest) = Some (int n, ''1'')" by (simp only:)
  moreover have "(''::1:'' @ nat_digits n) @ t = ''::'' @ ?local @ t" for t by simp
  ultimately show ?thesis unfolding netstat_line_def search_head(1) by (simp only: append_assoc)
qed

section \<open>What the audit gets wrong\<close>

lemma foreign_any: "foreign_addr ''0.0.0.0:*''" "foreign_addr '':::*''"
proof -
  show "foreign_addr ''0.0.0.0:*''" unfolding foreign_addr_def by (intro exI [of _ "''0.0.0.0''"]) simp
  show "foreign_addr '':::*''" unfolding foreign_addr_def by (intro exI [of _ "''::''"]) simp
qed

lemma netstat_line_breaks:
  assumes "\<forall>c\<in>set (proto @ addr @ foreign @ st). \<not> py_linebreak c"
  shows "\<forall>c\<in>set (netstat_line proto addr i foreign j st). \<not> py_linebreak c"
proof -
  have "\<forall>c\<in>set ''        0      0 ''. \<not> py_linebreak c" by (simp add: py_linebreak_def)
  then show ?thesis using assms by (auto simp: netstat_line_def)
qed

lemma digits_no_break: "\<forall>c\<in>set (nat_digits n). \<not> py_linebreak c"
  using nat_digits_digits [of n] by (auto simp: char_class_defs)

lemma literal_no_break: "\<forall>c\<in>set ''tcpud0.:*1LISTEN''. \<not> py_linebreak c"
  by (simp add: py_linebreak_def)

text \<open>
  C26. An exposed Tor port is caught only when it listens over TCP on an IPv4 address. A UDP listener on every address, which
  is what a DNSPort is, and a listener on every IPv6 address are not seen at all and pass as absent; and a control
  port that listens on the IPv6 loopback, as it should, is reported as a critical exposure.
\<close>

theorem listeners_misread:
  "check_tor_port (bindings_of (unlines [netstat_line ''tcp'' (''0.0.0.0:'' @ nat_digits n) i ''0.0.0.0:*'' j ''LISTEN''])) (int n) =
     tor_finding_of (port_id (int n)) C_Fail T_High
   \<and> check_tor_port (bindings_of (unlines [netstat_line ''udp'' (''0.0.0.0:'' @ nat_digits n) i ''0.0.0.0:*'' j [],
                                           netstat_line ''tcp'' ('':::'' @ nat_digits n) i '':::*'' j ''LISTEN''])) (int n) =
     tor_finding_of (port_id (int n)) C_Info T_Info
   \<and> check_control_port (bindings_of (unlines [netstat_line ''tcp'' (''::1:'' @ nat_digits 9051) i '':::*'' j ''LISTEN''])) =
     tor_finding_of (port_id 9051) C_Fail T_Critical"
proof -
  have "\<forall>c\<in>set (netstat_line proto (a @ nat_digits n) i f j st). \<not> py_linebreak c"
    if "set (proto @ a @ f @ st) \<subseteq> set ''tcpud0.:*1LISTEN''" for proto a f st n
  proof (rule netstat_line_breaks)
    show "\<forall>c\<in>set (proto @ (a @ nat_digits n) @ f @ st). \<not> py_linebreak c"
      using that literal_no_break digits_no_break [of n] by (simp only: set_append ball_Un) blast
  qed
  note lines = this
  let ?tcp = "netstat_line ''tcp'' (''0.0.0.0:'' @ nat_digits n) i ''0.0.0.0:*'' j ''LISTEN''"
  let ?udp = "netstat_line ''udp'' (''0.0.0.0:'' @ nat_digits n) i ''0.0.0.0:*'' j []"
  let ?any6 = "netstat_line ''tcp'' ('':::'' @ nat_digits n) i '':::*'' j ''LISTEN''"
  let ?loop6 = "netstat_line ''tcp'' (''::1:'' @ nat_digits 9051) i '':::*'' j ''LISTEN''"
  have split: "bindings_of (unlines ls) =
      foldl (\<lambda>d (port, addr). dict_set port (dict_get_or d port [] @ [addr]) d) [] (List.map_filter (search_binding None) ls)"
    if "\<forall>l\<in>set ls. \<forall>c\<in>set l. \<not> py_linebreak c" for ls
    using splitlines_unlines [OF that] by (simp only: bindings_of_def)
  have "\<forall>c\<in>set ?tcp. \<not> py_linebreak c" "\<forall>c\<in>set ?udp. \<not> py_linebreak c" "\<forall>c\<in>set ?any6. \<not> py_linebreak c"
      "\<forall>c\<in>set ?loop6. \<not> py_linebreak c"
    by (rule lines, simp)+
  note breaks = this
  have "search_binding None ?tcp = Some (int n, ''0.0.0.0'')"
    using tcp_seen [OF foreign_any(1), of "''0.0.0.0''"] by (simp add: char_class_defs)
  then have tcp: "bindings_of (unlines [?tcp]) = [(int n, [''0.0.0.0''])]"
    using breaks(1) by (subst split) (simp_all add: map_filter_simps dict_get_or_def)
  have "search_binding None ?udp = None"
    using nat_digits_digits [of n] by (intro udp_unseen foreign_any) auto
  moreover have "search_binding None ?any6 = None" by (rule any6_unseen [OF foreign_any(2)])
  ultimately have unseen: "bindings_of (unlines [?udp, ?any6]) = []"
    using breaks(2,3) by (subst split) (simp_all add: map_filter_simps)
  have "search_binding None ?loop6 = Some (9051, ''1'')"
    using loopback6_mangled [OF foreign_any(2), of 9051] by (simp only: of_nat_numeral)
  then have loop6: "bindings_of (unlines [?loop6]) = [(9051, [''1''])]"
    using breaks(4) by (subst split) (simp_all add: map_filter_simps dict_get_or_def)
  show ?thesis
    unfolding tcp unseen loop6 by (simp add: check_tor_port_def check_control_port_def dict_get_or_def)
qed

text \<open>A dropping rule as iptables lists it, without the columns that are the same for all.\<close>

definition drop_line :: "string \<Rightarrow> string" where
  "drop_line bridge = ''    0     0 DROP       all  --  '' @ bridge @ ''      *       0.0.0.0/0            0.0.0.0/0''"

lemma has_word_append: "has_word (if s = [] then prev else Some (last s)) w t \<Longrightarrow> has_word prev w (s @ t)"
proof (induction s arbitrary: prev)
  case (Cons c s)
  then show ?case by (cases "s = []") simp_all
qed simp

lemma drop_rule_blanks:
  "drop_rule_from b (Some (CHR '' '')) (''DROP'' @ t) \<Longrightarrow> drop_rule b (''    0     0 '' @ ''DROP'' @ t)"
  by (simp add: drop_rule_def)

text \<open>
  A bridge without a kill switch passes for protected if another bridge's name continues its own after a hyphen: the
  pattern's boundary lies before the hyphen, so the rule of br-guest-2 counts for br-guest, in the check of the kill switch
  and in the check of the IPv6 leak.
\<close>

theorem prefix_bridge_hides_leak:
  assumes "b \<noteq> []" "re_word (Some (hd b))" "re_word (Some (last b))" "CHR 0x0A \<notin> set b \<union> set x"
  shows "check_kill_switch (drop_line (b @ ''-'' @ x)) [b] = tor_finding_of ''tor.kill_switch'' C_Pass T_Pass
    \<and> check_ipv6_leak (drop_line (b @ ''-'' @ x)) [b] = tor_finding_of ''tor.ipv6.forward_drop'' C_Pass T_Pass"
proof -
  let ?rest = "x @ ''      *       0.0.0.0/0            0.0.0.0/0''"
  let ?t = "''       all  --  '' @ b @ ''-'' @ ?rest"
  have "hd_opt (b @ t) = Some (hd b)" for t using assms(1) by (cases b) (simp_all add: hd_opt_def)
  then have "word_here (Some (CHR '' '')) b (b @ ''-'' @ ?rest)"
    using assms(1-3) by (simp add: word_here_def boundary_def colon_no_word hd_opt_def) (simp add: re_word_def char_class_defs)
  then have "has_word (Some (CHR '' '')) b (b @ ''-'' @ ?rest)" using assms(1) by (cases b) simp_all
  then have "has_word (if ''       all  --  '' = [] then Some (CHR ''P'') else Some (last ''       all  --  '')) b (b @ ''-'' @ ?rest)"
    by simp
  then have word: "has_word (Some (CHR ''P'')) b ?t" by (rule has_word_append)
  have line: "takeWhile (\<lambda>c. c \<noteq> CHR 0x0A) ?t = ?t" using assms(4) by (simp add: takeWhile_eq_all_conv) blast
  have "word_here (Some (CHR '' '')) ''DROP'' (''DROP'' @ ?t)"
    by (simp add: word_here_def boundary_def hd_opt_def re_word_def char_class_defs starts_with_def)
  then have "drop_rule_from b (Some (CHR '' '')) (''DROP'' @ ?t)" using word line by simp
  from drop_rule_blanks [OF this] have "drop_rule b (drop_line (b @ ''-'' @ x))" by (simp add: drop_line_def)
  then show ?thesis by (simp add: check_kill_switch_def check_ipv6_leak_def)
qed

theorem prefix_bridge_hides_leak_witness:
  "check_kill_switch (drop_line ''br-guest-2'') [''br-guest''] = tor_finding_of ''tor.kill_switch'' C_Pass T_Pass"
  using prefix_bridge_hides_leak [of "''br-guest''" "''2''"] by (simp add: re_word_def char_class_defs)

text \<open>
  A connection that goes through Tor as it should is counted as bypassing it: the redirection shows in the reply's source
  port, while the original direction keeps the port that the client asked for.
\<close>

lemma redirected_counted:
  "orphan_line (the (ip_network ''10.0.0.1/24''))
     ''ipv4 2 tcp 6 431999 ESTABLISHED src=10.0.0.2 dst=93.184.216.34 sport=50000 dport=443 src=10.0.0.1 dst=10.0.0.2 sport=9040 dport=50000''"
  by code_simp

text \<open>With a device that no longer answers, checks fail or pass; none is skipped, and unread connections pass.\<close>

lemma blind_audit:
  assumes "\<And>d cmd. snd (run d cmd) = None" "ip_network cidr \<noteq> None" "bridges \<noteq> []" "\<forall>b\<in>set bridges. b \<noteq> []"
  shows "snd (conntrack_orphans_count run d cidr) = Some 0"
    "tf_status (check_ipv6_leak (snd (ssh_or_empty run d IP6_CMD)) bridges) = C_Fail"
    "tf_status (check_kill_switch (snd (ssh_or_empty run d (filter_chain_cmd name))) bridges) = C_Warn"
proof -
  have empty: "snd (ssh_or_empty run d cmd) = []" for d cmd
    using assms(1) [of d cmd] by (auto simp: ssh_or_empty_def split: prod.splits)
  have "\<not> drop_rule b []" for b by (simp add: drop_rule_def)
  then show "tf_status (check_ipv6_leak (snd (ssh_or_empty run d IP6_CMD)) bridges) = C_Fail"
    "tf_status (check_kill_switch (snd (ssh_or_empty run d (filter_chain_cmd name))) bridges) = C_Warn"
    using assms(3) by (simp_all add: empty check_ipv6_leak_def check_kill_switch_def tor_finding_of_def)
  show "snd (conntrack_orphans_count run d cidr) = Some 0"
    using assms(2) empty [of d CONNTRACK_CMD] by (auto simp: conntrack_orphans_count_def split: prod.splits option.splits)
qed

end
