(* ===== verification/Recon_Hosts.thy ===== *)
theory Recon_Hosts
  imports Py_Ipv4 "HOL-Library.List_Lexorder" "HOL-Library.Product_Lexorder"
begin

text \<open>
  Reconnaissance, first part (\<^verbatim>\<open>backend/app/recon/interfaces.py\<close> and \<^verbatim>\<open>discovery.py\<close>): the interfaces of the
  device, and the hosts that it sees on one. A command runs on the device: \<open>run d cmd\<close> gives its next state and what
  came back (\<^const>\<open>None\<close> for an SSH error). Probes run concurrently; \<open>sched\<close> is the order in which they are served.
  Python's sets have no order: the model takes that of the first occurrences, and every result is sorted by address.
\<close>

type_synonym 'd recon_run = "'d \<Rightarrow> string \<Rightarrow> 'd \<times> string option"

section \<open>Interfaces\<close>

definition WAN_NAMES :: "string list" where
  "WAN_NAMES = [''wan'', ''wan6'', ''wwan'', ''wwan6'', ''eth1'', ''eth1.2'', ''tethering'', ''tethering6'', ''apclii0'',
     ''apcli0'', ''apclix0'', ''usb0'', ''wwan0'']"

definition MAX_PINGABLE_PREFIX :: nat where "MAX_PINGABLE_PREFIX = 22"

datatype iface_family = Fam_Wan | Fam_Lan | Fam_Guest | Fam_Other

record recon_interface =
  ri_name :: string
  ri_cidr :: string
  ri_family :: iface_family
  ri_host_count :: int
  ri_scannable :: bool
  ri_gateway :: string
  ri_scan_cidr :: string
  ri_scan_clamped :: bool

definition before_slash :: "string \<Rightarrow> string" where
  "before_slash s = takeWhile (\<lambda>c. c \<noteq> CHR ''/'') s"

definition slate_ip :: "recon_interface \<Rightarrow> string" where
  "slate_ip i = before_slash (ri_cidr i)"

definition classify_iface :: "string \<Rightarrow> iface_family" where
  "classify_iface name =
     (if name \<in> set WAN_NAMES \<or> list_ex (\<lambda>p. starts_with p name) [''wan'', ''wwan'', ''tethering''] then Fam_Wan
      else if starts_with ''br-'' name then
        (let tail = py_lower (drop 3 name) in
         if py_contains ''guest'' tail \<or> py_contains ''iot'' tail then Fam_Guest else Fam_Lan)
      else if starts_with ''eth'' name \<or> starts_with ''lan'' name then Fam_Lan else Fam_Other)"

definition iface_char :: "char \<Rightarrow> bool" where
  "iface_char c \<longleftrightarrow> py_isalnum c \<or> c \<in> set ''_.-''"

text \<open>A run of digits, and what follows; one or more blanks; a dotted address of any numbers.\<close>

definition take_digits :: "string \<Rightarrow> (string \<times> string) option" where
  "take_digits s = (let ds = takeWhile py_isdigit s in if ds = [] then None else Some (ds, dropWhile py_isdigit s))"

definition take_ws :: "string \<Rightarrow> string option" where
  "take_ws s = (if skip_ws s = s then None else Some (skip_ws s))"

fun take_dotted :: "nat \<Rightarrow> string \<Rightarrow> (string \<times> string) option" where
  "take_dotted 0 s = take_digits s"
| "take_dotted (Suc n) s =
     (case take_digits s of
        Some (ds, CHR ''.'' # r) \<Rightarrow> map_option (\<lambda>(a, t). (ds @ ''.'' @ a, t)) (take_dotted n r)
      | _ \<Rightarrow> None)"

definition addr_line :: "string \<Rightarrow> (string \<times> string) option" where
  "addr_line line =
     (case take_digits (skip_ws line) of
        Some (_, CHR '':'' # r) \<Rightarrow>
          (case take_ws r of
             None \<Rightarrow> None
           | Some s \<Rightarrow>
               let name = takeWhile iface_char s in
               (case Option.bind (take_ws (dropWhile iface_char s)) (strip_prefix ''inet'') of
                  None \<Rightarrow> None
                | Some t \<Rightarrow>
                    (case Option.bind (take_ws t) (take_dotted 3) of
                       Some (a, CHR ''/'' # u) \<Rightarrow>
                         (case take_digits u of
                            Some (bits, _) \<Rightarrow> if name = [] then None else Some (name, a @ ''/'' @ bits)
                          | None \<Rightarrow> None)
                     | _ \<Rightarrow> None)))
      | _ \<Rightarrow> None)"

definition skipped_iface :: "string \<Rightarrow> bool" where
  "skipped_iface name \<longleftrightarrow> name = ''lo'' \<or> list_ex (\<lambda>p. starts_with p name) [''docker'', ''veth'', ''tun'']"

definition parse_addr_output :: "string \<Rightarrow> (string \<times> string) list" where
  "parse_addr_output text = filter (\<lambda>(i, _). \<not> skipped_iface i) (List.map_filter addr_line (py_splitlines text))"

text \<open>The word after the first occurrence of a word.\<close>

fun word_after :: "string \<Rightarrow> string list \<Rightarrow> string option" where
  "word_after w [] = None"
| "word_after w (x # xs) = (if x = w then (case xs of [] \<Rightarrow> None | y # _ \<Rightarrow> Some y) else word_after w xs)"

definition route_line_of :: "(string, string) dict \<Rightarrow> string \<Rightarrow> (string, string) dict" where
  "route_line_of gws line =
     (let parts = py_split_ws line in
      if parts = [] \<or> hd parts \<noteq> ''default'' then gws
      else case (word_after ''via'' parts, word_after ''dev'' parts) of
        (Some via, Some dev) \<Rightarrow> dict_set dev via gws
      | _ \<Rightarrow> gws)"

definition parse_routes :: "string \<Rightarrow> (string, string) dict" where
  "parse_routes text = foldl route_line_of [] (py_splitlines text)"

definition family_order :: "iface_family \<Rightarrow> nat" where
  "family_order f = (case f of Fam_Wan \<Rightarrow> 0 | Fam_Lan \<Rightarrow> 1 | Fam_Guest \<Rightarrow> 2 | Fam_Other \<Rightarrow> 3)"

definition interface_of :: "(string, string) dict \<Rightarrow> string \<times> string \<Rightarrow> recon_interface option" where
  "interface_of gws x =
     (case x of (name, cidr) \<Rightarrow>
      case ip_network cidr of
        None \<Rightarrow> None
      | Some net \<Rightarrow>
          let clamped = snd net < MAX_PINGABLE_PREFIX in
          Some \<lparr>ri_name = name, ri_cidr = cidr, ri_family = classify_iface name,
                ri_host_count = max 0 (num_addresses net - 2), ri_scannable = True,
                ri_gateway = dict_get_or gws name [],
                ri_scan_cidr = (if clamped then net_str (fst net, 24) else cidr), ri_scan_clamped = clamped\<rparr>)"

definition ADDR_CMD :: string where "ADDR_CMD = ''ip -o -4 addr show 2>/dev/null''"
definition ROUTE_CMD :: string where "ROUTE_CMD = ''ip -4 route show 2>/dev/null''"

text \<open>\<^const>\<open>None\<close> is the \<^verbatim>\<open>RuntimeError\<close> of a failed probe.\<close>

definition list_active_interfaces :: "'d recon_run \<Rightarrow> 'd \<Rightarrow> 'd \<times> recon_interface list option" where
  "list_active_interfaces run d =
     (case run d ADDR_CMD of
        (d1, None) \<Rightarrow> (d1, None)
      | (d1, Some addrs) \<Rightarrow>
          (case run d1 ROUTE_CMD of
             (d2, None) \<Rightarrow> (d2, None)
           | (d2, Some routes) \<Rightarrow>
               (d2, Some (sort_key (\<lambda>i. (family_order (ri_family i), ri_name i))
                      (List.map_filter (interface_of (parse_routes routes)) (parse_addr_output addrs))))))"

section \<open>Neighbours\<close>

record discovered_host =
  dh_ip :: string
  dh_mac :: string
  dh_source :: string

definition mac_char :: "char \<Rightarrow> bool" where "mac_char c \<longleftrightarrow> is_hex c \<or> c = CHR '':''"

definition take_mac :: "string \<Rightarrow> (string \<times> string) option" where
  "take_mac s = (let m = take 17 s in if length m = 17 \<and> list_all mac_char m then Some (m, drop 17 s) else None)"

text \<open>A word in any case, blanks included after it.\<close>

definition strip_word :: "string \<Rightarrow> string \<Rightarrow> string option" where
  "strip_word w s =
     (if py_lower (take (length w) s) = w then take_ws (drop (length w) s) else None)"

definition take_token :: "string \<Rightarrow> (string \<times> string) option" where
  "take_token s =
     (let t = takeWhile (\<lambda>c. \<not> py_isspace c) s in if t = [] then None else Some (t, dropWhile (\<lambda>c. \<not> py_isspace c) s))"

definition skip_dev :: "string \<Rightarrow> string" where
  "skip_dev s =
     (case Option.bind (strip_word ''dev'' s) take_token of
        Some (_, r) \<Rightarrow> (case take_ws r of Some t \<Rightarrow> t | None \<Rightarrow> s)
      | None \<Rightarrow> s)"

definition neigh_line :: "string \<Rightarrow> (string \<times> string \<times> string) option" where
  "neigh_line line =
     (case take_dotted 3 line of
        None \<Rightarrow> None
      | Some (ip, r) \<Rightarrow>
          (case Option.bind (Option.bind (map_option skip_dev (take_ws r)) (strip_word ''lladdr'')) take_mac of
             None \<Rightarrow> None
           | Some (mac, t) \<Rightarrow>
               (case Option.bind (take_ws t) take_token of None \<Rightarrow> None | Some (st, _) \<Rightarrow> Some (ip, mac, st))))"

definition neigh_cmd :: "string \<Rightarrow> string" where
  "neigh_cmd iface = ''ip -4 neigh show dev '' @ iface @ '' 2>/dev/null''"

definition neigh_host :: "string \<Rightarrow> discovered_host option" where
  "neigh_host line =
     (case neigh_line (py_strip line) of
        None \<Rightarrow> None
      | Some (ip, mac, st) \<Rightarrow>
          if py_upper st \<in> {''FAILED'', ''INCOMPLETE''} then None
          else Some \<lparr>dh_ip = ip, dh_mac = mac, dh_source = ''arp''\<rparr>)"

definition read_arp_cache :: "'d recon_run \<Rightarrow> 'd \<Rightarrow> string \<Rightarrow> 'd \<times> discovered_host list" where
  "read_arp_cache run d iface =
     (case run d (neigh_cmd iface) of
        (d1, None) \<Rightarrow> (d1, []) | (d1, Some out) \<Rightarrow> (d1, List.map_filter neigh_host (py_splitlines out)))"

definition arp_scan_cmd :: "string \<Rightarrow> string \<Rightarrow> string" where
  "arp_scan_cmd iface cidr =
     ''arp-scan --interface='' @ iface @ '' --localnet --retry=2 --timeout=300 --plain 2>/dev/null || arp-scan --interface=''
     @ iface @ '' '' @ cidr @ '' --retry=2 --timeout=300 --plain 2>/dev/null''"

definition arp_scan_host :: "string \<Rightarrow> discovered_host option" where
  "arp_scan_host line =
     (case take_dotted 3 (py_strip line) of
        None \<Rightarrow> None
      | Some (ip, r) \<Rightarrow>
          (case Option.bind (take_ws r) take_mac of
             None \<Rightarrow> None | Some (mac, _) \<Rightarrow> Some \<lparr>dh_ip = ip, dh_mac = mac, dh_source = ''arp-scan''\<rparr>))"

definition arp_scan_layer2 :: "'d recon_run \<Rightarrow> 'd \<Rightarrow> string \<Rightarrow> string \<Rightarrow> 'd \<times> discovered_host list" where
  "arp_scan_layer2 run d iface cidr =
     (case run d (arp_scan_cmd iface cidr) of
        (d1, None) \<Rightarrow> (d1, []) | (d1, Some out) \<Rightarrow> (d1, List.map_filter arp_scan_host (py_splitlines out)))"

section \<open>The ping sweep\<close>

definition hosts_for_sweep :: "string \<Rightarrow> string \<Rightarrow> string list option" where
  "hosts_for_sweep cidr self =
     map_option (\<lambda>net. filter (\<lambda>h. h \<noteq> self) (map ipv4_str (net_hosts net))) (ip_network cidr)"

text \<open>Whether the last line of an output is the number 0.\<close>

definition exit_zero :: "string \<Rightarrow> bool" where
  "exit_zero out =
     (case py_splitlines (py_strip out) of [] \<Rightarrow> False | ls \<Rightarrow> py_int (last ls) = Some 0)"

definition ping_cmd :: "string \<Rightarrow> string \<Rightarrow> string" where
  "ping_cmd iface ip = ''ping -c1 -W1 -I '' @ iface @ '' '' @ ip @ '' >/dev/null 2>&1; echo $?''"

text \<open>The tasks for which a command reports success, in the order in which they are served.\<close>

fun successes :: "'d recon_run \<Rightarrow> ('t \<Rightarrow> string) \<Rightarrow> 'd \<Rightarrow> 't list \<Rightarrow> 'd \<times> 't list" where
  "successes run cmd d [] = (d, [])"
| "successes run cmd d (t # ts) =
     (case run d (cmd t) of (d1, r) \<Rightarrow>
      case successes run cmd d1 ts of (d2, rest) \<Rightarrow>
        (d2, (case r of Some out \<Rightarrow> if exit_zero out then t # rest else rest | None \<Rightarrow> rest)))"

definition ping_sweep ::
  "'d recon_run \<Rightarrow> (string list \<Rightarrow> string list) \<Rightarrow> 'd \<Rightarrow> string \<Rightarrow> string \<Rightarrow> string \<Rightarrow> ('d \<times> string list) option" where
  "ping_sweep run sched d iface cidr self =
     map_option (\<lambda>targets. successes run (ping_cmd iface) d (sched targets)) (hosts_for_sweep cidr self)"

section \<open>Fusion\<close>

text \<open>The sort key of an address: its numbers; \<^const>\<open>None\<close> is the \<^verbatim>\<open>ValueError\<close> of a part that is none.\<close>

definition ip_key :: "string \<Rightarrow> int list option" where
  "ip_key ip = those (map py_int (py_split (CHR ''.'') ip))"

definition sort_by_ip :: "('a \<Rightarrow> string) \<Rightarrow> 'a list \<Rightarrow> 'a list option" where
  "sort_by_ip f xs = (if list_all (\<lambda>x. ip_key (f x) \<noteq> None) xs then Some (sort_key (\<lambda>x. the (ip_key (f x))) xs) else None)"

definition keep_first :: "(string, discovered_host) dict \<Rightarrow> discovered_host \<Rightarrow> (string, discovered_host) dict" where
  "keep_first d h =
     (case dict_get d (dh_ip h) of
        None \<Rightarrow> dict_set (dh_ip h) h d
      | Some prev \<Rightarrow> if dh_mac prev = [] then dict_set (dh_ip h) h d else d)"

definition fused_hosts :: "discovered_host list \<Rightarrow> string list \<Rightarrow> discovered_host list \<Rightarrow> discovered_host list" where
  "fused_hosts arp1 pinged arp2 =
     (let by_ip = foldl keep_first (foldl (\<lambda>d h. dict_set (dh_ip h) h d) [] arp1) arp2 in
      map (\<lambda>(ip, h). \<lparr>dh_ip = ip, dh_mac = dh_mac h, dh_source = (if ip \<in> set pinged then ''both'' else ''arp'')\<rparr>) by_ip
      @ map (\<lambda>ip. \<lparr>dh_ip = ip, dh_mac = [], dh_source = ''ping''\<rparr>)
          (filter (\<lambda>ip. dict_get by_ip ip = None) (rev (remdups (rev pinged)))))"

definition fuse :: "discovered_host list \<Rightarrow> string list \<Rightarrow> discovered_host list \<Rightarrow> discovered_host list option" where
  "fuse arp1 pinged arp2 = sort_by_ip dh_ip (fused_hosts arp1 pinged arp2)"

section \<open>Sweeps are bounded\<close>

lemma interface_sweep:
  assumes "interface_of gws x = Some i"
  shows "\<exists>net m. ip_network (ri_cidr i) = Some net \<and> ip_network (ri_scan_cidr i) = Some m \<and> 22 \<le> snd m
    \<and> (\<forall>ip. in_network m ip \<longrightarrow> in_network net ip)"
proof -
  obtain name cidr where x: "x = (name, cidr)" by (cases x)
  obtain a n where net: "ip_network cidr = Some (a, n)" using assms x by (auto simp: interface_of_def split: option.splits)
  note bounds = ip_network_bounds [OF net]
  show ?thesis
  proof (cases "n < MAX_PINGABLE_PREFIX")
    case True
    have scan: "ip_network (net_str (a, 24)) = Some (net_address (a, 24), 24)" using bounds net_str_network [of "(a, 24)"] by simp
    have "in_network (a, n) ip" if "in_network (net_address (a, 24), 24) ip" for ip
      using that net_address_same [of "(a, 24)" ip] in_wider_network [of a 24 ip n] True
      by (simp add: MAX_PINGABLE_PREFIX_def)
    with True scan net assms x show ?thesis by (auto simp: interface_of_def Let_def)
  next
    case False
    with net assms x show ?thesis by (auto simp: interface_of_def Let_def MAX_PINGABLE_PREFIX_def)
  qed
qed

lemma listed_interface:
  assumes "list_active_interfaces run d = (d', Some is)" "i \<in> set is"
  shows "\<exists>gws x. interface_of gws x = Some i"
proof -
  have "\<exists>x. interface_of gws x = Some i" if "i \<in> set (List.map_filter (interface_of gws) xs)" for gws xs
    using that unfolding map_filter_def by auto metis
  then show ?thesis
    using assms by (auto simp: list_active_interfaces_def split: prod.splits option.splits) metis
qed

text \<open>
  C30. However wide the networks of a device are, the sweep of an interface pings at most 1022 addresses, all of them in the
  interface's own network and none of them the device's own: what is wider than a /22 is cut to the /24 around the device.
\<close>

theorem sweep_bounded:
  assumes "list_active_interfaces run d = (d', Some is)" "i \<in> set is"
  shows "\<exists>net hs. ip_network (ri_cidr i) = Some net \<and> hosts_for_sweep (ri_scan_cidr i) (slate_ip i) = Some hs
    \<and> length hs \<le> 1022 \<and> slate_ip i \<notin> set hs \<and> (\<forall>h\<in>set hs. \<exists>ip. h = ipv4_str ip \<and> in_network net ip)"
proof -
  obtain gws x where "interface_of gws x = Some i" using listed_interface [OF assms] by blast
  from interface_sweep [OF this] obtain net m where m: "ip_network (ri_cidr i) = Some net" "ip_network (ri_scan_cidr i) = Some m"
    "22 \<le> snd m" "\<And>ip. in_network m ip \<Longrightarrow> in_network net ip" by blast
  let ?hs = "filter (\<lambda>h. h \<noteq> slate_ip i) (map ipv4_str (net_hosts m))"
  have "length ?hs \<le> length (map ipv4_str (net_hosts m))" by (rule length_filter_le)
  also have "\<dots> \<le> 1022" using length_hosts [OF m(3)] by simp
  finally have "length ?hs \<le> 1022" .
  moreover have "\<exists>ip. h = ipv4_str ip \<and> in_network net ip" if "h \<in> set ?hs" for h
    using that m(4) net_hosts_in_network [of _ m] by auto
  ultimately show ?thesis using m(1,2) by (auto simp: hosts_for_sweep_def)
qed

definition sample_device :: "unit recon_run" where
  "sample_device d cmd =
     (d, Some (if cmd = ADDR_CMD then ''3: wwan    inet 10.183.7.42/16 brd 10.183.255.255 scope global wwan''
               else ''default via 10.183.0.1 dev wwan''))"

theorem sweep_bounded_witness:
  "\<exists>i hs. snd (list_active_interfaces sample_device ()) = Some [i] \<and> ri_scan_cidr i = ''10.183.7.0/24''
     \<and> hosts_for_sweep (ri_scan_cidr i) (slate_ip i) = Some hs \<and> length hs \<le> 1022"
proof -
  let ?i = "\<lparr>ri_name = ''wwan'', ri_cidr = ''10.183.7.42/16'', ri_family = Fam_Wan, ri_host_count = 65534, ri_scannable = True,
             ri_gateway = ''10.183.0.1'', ri_scan_cidr = ''10.183.7.0/24'', ri_scan_clamped = True\<rparr>"
  have l: "list_active_interfaces sample_device () = ((), Some [?i])" by code_simp
  from sweep_bounded [OF this, of ?i] show ?thesis unfolding l by auto
qed

end
