(* ===== verification/Recon_Tcp.thy ===== *)
theory Recon_Tcp
  imports Recon_Hosts "HOL-Library.Multiset"
begin

text \<open>
  Reconnaissance, second part (\<^verbatim>\<open>backend/app/recon/tcp.py\<close>): probing ports with nc or nmap, and reading banners. The
  calls that only report progress are left out.
\<close>

section \<open>Ports and services\<close>

definition DEFAULT_PORTS :: "int list" where
  "DEFAULT_PORTS =
     [22, 23, 53, 80, 111, 135, 139, 443, 445, 554, 631, 1900, 3000, 3306, 3389, 5000, 5432, 5900, 6379, 8000, 8008, 8080,
      8443, 8888, 9000, 32400]"

definition SERVICE_HINT :: "(int, string) dict" where
  "SERVICE_HINT =
     [(22, ''ssh''), (23, ''telnet''), (53, ''dns''), (80, ''http''), (111, ''rpcbind''), (135, ''msrpc''), (139, ''smb''),
      (443, ''https''), (445, ''smb''), (554, ''rtsp''), (631, ''ipp''), (1900, ''ssdp''), (3000, ''http''), (3306, ''mysql''),
      (3389, ''rdp''), (5000, ''http''), (5432, ''postgres''), (5900, ''vnc''), (6379, ''redis''), (8000, ''http''),
      (8008, ''http''), (8080, ''http''), (8443, ''https''), (8888, ''http''), (9000, ''http''), (32400, ''plex'')]"

definition hint_of :: "int \<Rightarrow> string" where "hint_of port = dict_get_or SERVICE_HINT port []"

record probed_port =
  pp_ip :: string
  pp_port :: int
  pp_state :: string
  pp_banner :: string
  pp_service :: string

section \<open>Probing with nc\<close>

definition probe_cmd :: "string \<times> int \<Rightarrow> string" where
  "probe_cmd t = ''nc -z -w1 '' @ fst t @ '' '' @ py_str (snd t) @ '' 2>/dev/null; echo $?''"

definition open_port :: "string \<times> int \<Rightarrow> probed_port" where
  "open_port t = \<lparr>pp_ip = fst t, pp_port = snd t, pp_state = ''open'', pp_banner = [], pp_service = hint_of (snd t)\<rparr>"

text \<open>Sorted by address, then by port; \<^const>\<open>None\<close> is the \<^verbatim>\<open>ValueError\<close> of an address that is not numbers.\<close>

definition sort_ports :: "probed_port list \<Rightarrow> probed_port list option" where
  "sort_ports ps =
     (if list_all (\<lambda>p. ip_key (pp_ip p) \<noteq> None) ps then Some (sort_key (\<lambda>p. (the (ip_key (pp_ip p)), pp_port p)) ps) else None)"

definition probe_tasks :: "string list \<Rightarrow> int list \<Rightarrow> (string \<times> int) list" where
  "probe_tasks ips ports = concat (map (\<lambda>ip. map (Pair ip) ports) ips)"

definition probe_ports ::
  "'d recon_run \<Rightarrow> ((string \<times> int) list \<Rightarrow> (string \<times> int) list) \<Rightarrow> 'd \<Rightarrow> string list \<Rightarrow> int list \<Rightarrow> 'd \<times> probed_port list option" where
  "probe_ports run sched d ips ports =
     (case successes run probe_cmd d (sched (probe_tasks ips ports)) of (d1, ts) \<Rightarrow> (d1, sort_ports (map open_port ts)))"

section \<open>Banners\<close>

definition banner_char :: "char \<Rightarrow> bool" where
  "banner_char c \<longleftrightarrow> (CHR '' '' \<le> c \<and> c \<le> CHR ''~'') \<or> c \<in> {CHR 0x0D, CHR 0x0A, CHR 0x09}"

definition sanitize_banner :: "string \<Rightarrow> string" where
  "sanitize_banner raw =
     take 256 (py_replace (CHR 0x0A) (CHR '' '') (filter (\<lambda>c. c \<noteq> CHR 0x0D) (py_strip (filter banner_char raw))))"

definition drain_cmd :: "string \<Rightarrow> int \<Rightarrow> string" where
  "drain_cmd ip port = ''(sleep 1) | nc -w2 '' @ ip @ '' '' @ py_str port @ '' 2>/dev/null | head -c 256''"

definition grab_command :: "string \<Rightarrow> int \<Rightarrow> string" where
  "grab_command ip port =
     (if port \<in> {80, 8000, 8008, 8080, 8888, 9000, 3000, 5000}
      then ''(printf '' @ [squote] @ ''HEAD / HTTP/1.0'' @ [backslash] @ ''r'' @ [backslash] @ ''nHost: x'' @ [backslash]
     @ ''r'' @ [backslash] @ ''n'' @ [backslash] @ ''r'' @ [backslash] @ ''n'' @ [squote] @ ''; sleep 1) | nc -w2 '' @ ip @ '' '' @ py_str port
           @ '' 2>/dev/null | head -c 512''
      else if port = 443 \<or> port = 8443 then ''echo '' @ [squote, squote]
      else drain_cmd ip port)"

text \<open>
  A header at the start of a line, in any case, with its value: the rest of the line after white space (which may cross
  lines); when only white space is left, the pattern gives back the last character that is no line break.
\<close>

definition header_here :: "string \<Rightarrow> string \<Rightarrow> string option" where
  "header_here name s =
     (if py_lower (take (length name) s) \<noteq> name then None
      else
        let t = drop (length name) s; u = skip_ws t; w = rev (dropWhile (\<lambda>c. c = CHR 0x0A) (rev t)) in
        if u \<noteq> [] then Some (takeWhile (\<lambda>c. c \<noteq> CHR 0x0A) u) else if w = [] then None else Some [last w])"

fun search_line :: "(string \<Rightarrow> 'a option) \<Rightarrow> bool \<Rightarrow> string \<Rightarrow> 'a option" where
  "search_line p at_start [] = (if at_start then p [] else None)"
| "search_line p at_start (c # s) =
     (case (if at_start then p (c # s) else None) of
        Some x \<Rightarrow> Some x | None \<Rightarrow> search_line p (c = CHR 0x0A) s)"

definition ssh_greet :: "string \<Rightarrow> string option" where
  "ssh_greet s =
     (case Option.bind (strip_prefix ''SSH-'' s) take_digits of
        Some (_, CHR ''.'' # r) \<Rightarrow>
          (case take_digits r of
             Some (_, CHR ''-'' # t) \<Rightarrow>
               let v = takeWhile (\<lambda>c. c \<noteq> CHR 0x0A) t in if v = [] then None else Some v
           | _ \<Rightarrow> None)
      | _ \<Rightarrow> None)"

definition refine_service :: "int \<Rightarrow> string \<Rightarrow> string" where
  "refine_service port banner =
     (if starts_with ''SSH-'' banner then
        (case search_line ssh_greet True banner of Some v \<Rightarrow> ''ssh ('' @ take 32 v @ '')'' | None \<Rightarrow> ''ssh'')
      else if starts_with ''HTTP/'' (py_upper banner) then
        (case search_line (header_here ''server:'') True banner of
           Some v \<Rightarrow> ''http ('' @ py_strip (take 32 v) @ '')''
         | None \<Rightarrow>
             (case search_line (header_here ''x-powered-by:'') True banner of
                Some v \<Rightarrow> ''http ('' @ py_strip (take 32 v) @ '')'' | None \<Rightarrow> ''http''))
      else hint_of port)"

definition with_banner :: "probed_port \<Rightarrow> string option \<Rightarrow> probed_port" where
  "with_banner p raw =
     (let banner = sanitize_banner (case raw of None \<Rightarrow> [] | Some r \<Rightarrow> r); service = refine_service (pp_port p) banner in
      p\<lparr>pp_banner := banner, pp_service := (if service = [] then pp_service p else service)\<rparr>)"

fun grab_all :: "'d recon_run \<Rightarrow> 'd \<Rightarrow> probed_port list \<Rightarrow> 'd \<times> probed_port list" where
  "grab_all run d [] = (d, [])"
| "grab_all run d (p # ps) =
     (case run d (grab_command (pp_ip p) (pp_port p)) of (d1, r) \<Rightarrow>
      case grab_all run d1 ps of (d2, qs) \<Rightarrow> (d2, with_banner p r # qs))"

definition grab_banners ::
  "'d recon_run \<Rightarrow> (probed_port list \<Rightarrow> probed_port list) \<Rightarrow> 'd \<Rightarrow> probed_port list \<Rightarrow> 'd \<times> probed_port list option" where
  "grab_banners run sched d opens = (case grab_all run d (sched opens) of (d1, ps) \<Rightarrow> (d1, sort_ports ps))"

section \<open>Probing with nmap\<close>

definition nmap_cmd :: "string list \<Rightarrow> int list \<Rightarrow> string" where
  "nmap_cmd ips ports =
     ''nmap -Pn -sV --version-intensity=2 -T4 --max-retries=2 -p '' @ py_join '','' (map py_str ports) @ '' -oG - ''
     @ py_join '' '' ips @ '' 2>/dev/null''"

definition ignored_here :: "string \<Rightarrow> bool" where
  "ignored_here s = (case take_ws s of Some t \<Rightarrow> starts_with ''Ignored'' t | None \<Rightarrow> False)"

fun cut_ignored :: "string \<Rightarrow> string" where
  "cut_ignored [] = []"
| "cut_ignored (c # s) = (if ignored_here (c # s) then [] else c # cut_ignored s)"

text \<open>The address of a host line and its ports.\<close>

definition nmap_host :: "string \<Rightarrow> (string \<times> string) option" where
  "nmap_host line =
     (case Option.bind (Option.bind (strip_prefix ''Host:'' line) take_ws) take_token of
        None \<Rightarrow> None
      | Some (ip, r) \<Rightarrow>
          (case Option.bind (Option.bind (Option.bind (Option.bind (take_ws r) (strip_prefix ''()'')) take_ws) (strip_prefix ''Ports:''))
                  take_ws of
             Some (c # s) \<Rightarrow> Some (ip, c # cut_ignored s)
           | _ \<Rightarrow> None))"

definition nmap_service :: "string \<Rightarrow> int \<Rightarrow> string \<Rightarrow> string" where
  "nmap_service hint port banner =
     (let service = (if hint \<noteq> [] then hint else hint_of port) in
      if banner = [] then service
      else if service \<noteq> [] then service @ '' ('' @ take 40 banner @ '')'' else take 64 banner)"

definition nmap_entry :: "string \<Rightarrow> string \<Rightarrow> probed_port option" where
  "nmap_entry ip entry =
     (case py_split (CHR ''/'') (py_strip entry) of
        p # st # _ # _ # hint # _ # b # _ \<Rightarrow>
          (case py_int p of
             None \<Rightarrow> None
           | Some port \<Rightarrow>
               if st \<noteq> ''open'' then None
               else let banner = py_strip b in
                 Some \<lparr>pp_ip = ip, pp_port = port, pp_state = ''open'', pp_banner = take 256 banner,
                       pp_service = take 32 (nmap_service hint port banner)\<rparr>)
      | _ \<Rightarrow> None)"

definition nmap_line :: "string \<Rightarrow> probed_port list" where
  "nmap_line line =
     (let l = py_strip line in
      if \<not> starts_with ''Host:'' l \<or> \<not> py_contains ''Ports:'' l then []
      else case nmap_host l of
        None \<Rightarrow> [] | Some (ip, blob) \<Rightarrow> List.map_filter (nmap_entry ip) (py_split (CHR '','') blob))"

definition nmap_probe :: "'d recon_run \<Rightarrow> 'd \<Rightarrow> string list \<Rightarrow> int list \<Rightarrow> 'd \<times> probed_port list option" where
  "nmap_probe run d ips ports =
     (if ips = [] then (d, Some [])
      else case run d (nmap_cmd ips ports) of
        (d1, None) \<Rightarrow> (d1, Some [])
      | (d1, Some out) \<Rightarrow> (d1, sort_ports (concat (map nmap_line (py_splitlines out)))))"

section \<open>What banners tell\<close>

lemma sanitized_one_line: "CHR 0x0A \<notin> set (sanitize_banner raw)"
proof -
  have "CHR 0x0A \<notin> set (py_replace (CHR 0x0A) (CHR '' '') s)" for s by (auto simp: py_replace_def)
  then show ?thesis unfolding sanitize_banner_def by (meson in_set_takeD)
qed

lemma search_line_single: "CHR 0x0A \<notin> set s \<Longrightarrow> search_line p True s = p s"
proof -
  have "CHR 0x0A \<notin> set s \<Longrightarrow> search_line p False s = None" for s by (induction s) auto
  then show "CHR 0x0A \<notin> set s \<Longrightarrow> search_line p True s = p s" by (cases s) (auto split: option.split)
qed

text \<open>
  The software behind a web port is never reported: the banner is put on one line before it is searched, and there the
  headers that name the server start no line, so every HTTP answer is just http.
\<close>

theorem http_server_never_reported:
  assumes "starts_with ''HTTP/'' (py_upper (sanitize_banner raw))"
  shows "refine_service port (sanitize_banner raw) = ''http''"
proof -
  obtain c r where b: "sanitize_banner raw = c # r" "char_upper c = CHR ''H''"
    using assms by (cases "sanitize_banner raw") (auto simp: starts_with_def py_upper_def)
  then have c: "c = CHR ''H'' \<or> c = CHR ''h''"
  proof (cases "py_islower c")
    case True
    then have low: "97 \<le> (of_char c :: nat)" "(of_char c :: nat) \<le> 122" by (simp_all add: py_islower_def char_le_code)
    then have "of_char (char_upper c) = (of_char c - 32 :: nat)" using True by (simp add: char_upper_def of_char_of)
    then have "of_char c = (32 + of_char (char_upper c) :: nat)" using low by simp
    then have "of_char c = (of_char (CHR ''h'') :: nat)" using b(2) by simp
    then show ?thesis by (simp only: of_char_eq_iff simp_thms)
  qed (simp add: char_upper_def)
  have none: "header_here name (sanitize_banner raw) = None" if "name \<noteq> []" "hd name \<in> {CHR ''s'', CHR ''x''}" for name
  proof -
    have "char_lower (CHR ''H'') = CHR ''h''" "char_lower (CHR ''h'') = CHR ''h''" by code_simp+
    then have "char_lower c = CHR ''h''" using c by auto
    then show ?thesis using that b(1) by (cases name) (auto simp: header_here_def py_lower_def)
  qed
  have "\<not> starts_with ''SSH-'' (sanitize_banner raw)" using b(1) c by (auto simp: starts_with_def)
  then show ?thesis
    using assms by (simp add: refine_service_def search_line_single [OF sanitized_one_line] none)
qed

theorem http_server_never_reported_witness:
  "refine_service 8080 (sanitize_banner (''HTTP/1.0 200 OK'' @ [CHR 0x0D, CHR 0x0A] @ ''Server: nginx/1.25'')) = ''http''"
proof (rule http_server_never_reported)
  show "starts_with ''HTTP/'' (py_upper (sanitize_banner (''HTTP/1.0 200 OK'' @ [CHR 0x0D, CHR 0x0A] @ ''Server: nginx/1.25'')))"
    by code_simp
qed

section \<open>Hosts with a name\<close>

lemma take_ws_blank: "take_ws (CHR '' '' # s) = Some (skip_ws s)"
proof -
  have "length (skip_ws s) < length (CHR '' '' # s)" by (simp add: skip_ws_def le_imp_less_Suc length_dropWhile_le)
  then have "skip_ws s \<noteq> CHR '' '' # s" by fastforce
  then show ?thesis by (simp add: take_ws_def skip_ws_def py_isspace_def)
qed

text \<open>
  What nmap finds on a host that has a name is dropped: a line with a name between the parentheses after the address does
  not match, whatever ports it lists.
\<close>

theorem named_hosts_dropped:
  assumes "ip \<noteq> []" "\<forall>c\<in>set ip. \<not> py_isspace c" "name \<noteq> []" "hd name \<noteq> CHR '')''"
  shows "nmap_line (''Host: '' @ ip @ '' ('' @ name @ rest) = []"
proof -
  obtain s where s: "py_strip (''Host: '' @ ip @ '' ('' @ name @ rest) = ''Host: '' @ ip @ '' ('' @ s"
    and "s = [] \<or> hd s \<noteq> CHR '')''"
  proof -
    have "rstrip_by py_isspace (t @ u) = t @ rstrip_by py_isspace u" if "t \<noteq> []" "\<not> py_isspace (last t)" for t u
    proof -
      have "rstrip_by py_isspace (t @ u) = (if rstrip_by py_isspace u = [] then rstrip_by py_isspace t else t @ rstrip_by py_isspace u)"
        by (induction t) (auto simp: rstrip_by_Cons)
      moreover have "rstrip_by py_isspace t = t" using that by (cases t rule: rev_cases) (simp_all add: rstrip_by_def)
      ultimately show ?thesis by simp
    qed
    from this [of "''Host: '' @ ip @ '' (''" "name @ rest"]
    have "py_strip (''Host: '' @ ip @ '' ('' @ name @ rest) = ''Host: '' @ ip @ '' ('' @ rstrip_by py_isspace (name @ rest)"
      by (simp add: strip_defs(1,2) lstrip_by_def py_isspace_def)
    moreover have "rstrip_by py_isspace (name @ rest) = [] \<or> hd (rstrip_by py_isspace (name @ rest)) \<noteq> CHR '')''"
      using assms(3,4) by (cases name) (auto simp: rstrip_by_Cons)
    ultimately show ?thesis using that by blast
  qed
  have start: "skip_ws (ip @ t) = ip @ t" for t using assms(1,2) by (cases ip) (simp_all add: skip_ws_def)
  have token: "take_token (ip @ CHR '' '' # t) = Some (ip, CHR '' '' # t)" for t
    using assms(1,2) by (simp add: take_token_def takeWhile_append2 dropWhile_append2 py_isspace_def)
  have "strip_prefix ''()'' (CHR ''('' # s) = None"
    using \<open>s = [] \<or> hd s \<noteq> CHR '')''\<close> by (cases s) (auto simp: strip_prefix_def starts_with_def)
  then have "nmap_host (''Host: '' @ ip @ '' ('' @ s) = None"
    by (simp add: nmap_host_def strip_prefix_def [of "''Host:''"] starts_with_def take_ws_blank start token)
       (simp add: skip_ws_def py_isspace_def)
  then show ?thesis unfolding nmap_line_def Let_def s by (simp only: option.case if_cancel)
qed

theorem named_hosts_dropped_witness:
  "nmap_line ''Host: 192.168.8.42 (tv.lan) Ports: 22/open/tcp//ssh//OpenSSH 9.6/'' = []"
  using named_hosts_dropped [of "''192.168.8.42''" "''tv.lan''" "'') Ports: 22/open/tcp//ssh//OpenSSH 9.6/''"]
  by (simp add: py_isspace_def)

section \<open>Order of the probes\<close>

lemma successes_stateless:
  assumes "\<And>d c. run d c = (d, answer c)"
  shows "successes run cmd d ts = (d, filter (\<lambda>t. \<exists>out. answer (cmd t) = Some out \<and> exit_zero out) ts)"
  by (induction ts) (simp_all add: assms split: option.split)

lemma sort_key_order_free:
  assumes "mset xs = mset ys" "inj_on f (set xs)"
  shows "sort_key f xs = sort_key f ys"
  using assms by (intro sort_key_inj_key_eq) simp_all

text \<open>
  The list of open ports does not depend on the order in which the concurrent probes are served: it has exactly the pairs
  that answered, by address and port.
\<close>

theorem open_ports_order_free:
  assumes "\<And>d c. run d c = (d, answer c)" "mset (sched (probe_tasks ips ports)) = mset (probe_tasks ips ports)"
    and "\<forall>ip\<in>set ips. ip_key ip \<noteq> None" "inj_on ip_key (set ips)"
  shows "snd (probe_ports run sched d ips ports) =
    Some (sort_key (\<lambda>p. (the (ip_key (pp_ip p)), pp_port p))
      (map open_port (filter (\<lambda>t. \<exists>out. answer (probe_cmd t) = Some out \<and> exit_zero out) (probe_tasks ips ports))))"
proof -
  let ?ok = "\<lambda>t. \<exists>out. answer (probe_cmd t) = Some out \<and> exit_zero out"
  let ?xs = "map open_port (filter ?ok (sched (probe_tasks ips ports)))"
  have "set (sched (probe_tasks ips ports)) = set (probe_tasks ips ports)" using assms(2) by (metis set_mset_mset)
  then have ips: "pp_ip p \<in> set ips" if "p \<in> set ?xs" for p
    using that by (auto simp: probe_tasks_def open_port_def)
  have shape: "p = open_port (pp_ip p, pp_port p)" if mem: "p \<in> set ?xs" for p
  proof -
    obtain t where "p = open_port t" using mem by (auto simp only: set_map)
    then show ?thesis by (simp add: open_port_def)
  qed
  have "inj_on (\<lambda>p. (the (ip_key (pp_ip p)), pp_port p)) (set ?xs)"
  proof (rule inj_onI)
    fix p q assume pq: "p \<in> set ?xs" "q \<in> set ?xs" "(the (ip_key (pp_ip p)), pp_port p) = (the (ip_key (pp_ip q)), pp_port q)"
    have in_ips: "pp_ip p \<in> set ips" "pp_ip q \<in> set ips" using ips [OF pq(1)] ips [OF pq(2)] .
    have "the (ip_key (pp_ip p)) = the (ip_key (pp_ip q))" using pq(3) by (simp only: prod.inject)
    moreover have "ip_key (pp_ip p) \<noteq> None" "ip_key (pp_ip q) \<noteq> None"
      using bspec [OF assms(3) in_ips(1)] bspec [OF assms(3) in_ips(2)] .
    ultimately have "ip_key (pp_ip p) = ip_key (pp_ip q)" by auto
    then have "pp_ip p = pp_ip q" using in_ips by (rule inj_onD [OF assms(4)])
    moreover have "pp_port p = pp_port q" using pq(3) by (simp only: prod.inject)
    ultimately show "p = q" using shape [OF pq(1)] shape [OF pq(2)] by (simp only:)
  qed
  moreover have "mset ?xs = mset (map open_port (filter ?ok (probe_tasks ips ports)))"
    using assms(2) by (simp add: mset_filter)
  moreover have "list_all (\<lambda>p. ip_key (pp_ip p) \<noteq> None) ?xs" using ips assms(3) by (simp add: list_all_iff)
  ultimately show ?thesis
    by (simp add: probe_ports_def successes_stateless [of run answer, OF assms(1)] sort_ports_def sort_key_order_free)
qed

end
