(* ===== verification/Recon_Run.thy ===== *)
theory Recon_Run
  imports Recon_Tcp Row_Table
begin

text \<open>
  Reconnaissance, third part (\<^verbatim>\<open>backend/app/recon/store.py\<close>, \<^verbatim>\<open>tools.py\<close>, \<^verbatim>\<open>runner.py\<close> and the routes of
  \<^verbatim>\<open>api/routes/recon.py\<close>): the tables of scans, hosts and ports, the optional tools, and one run of a scan from its
  launch to its end. Progress lines are written only for display and are left out of the run; a cancellation is
  \<open>mark_cancelled\<close> on the tables as they are when it strikes. \<open>fk\<close> tells whether the database enforces foreign keys;
  SQLite does only after a PRAGMA that the controller never sends.
\<close>

section \<open>Tables\<close>

datatype scan_status = Scan_Running | Scan_Done | Scan_Failed | Scan_Cancelled

record recon_scan =
  sc_id :: nat
  sc_device :: string
  sc_status :: scan_status
  sc_scope :: string
  sc_progress :: string
  sc_error :: string
  sc_host_count :: nat
  sc_port_count :: nat
  sc_started :: instant
  sc_finished :: "instant option"

record recon_host =
  rh_scan :: nat
  rh_interface :: string
  rh_ip :: string
  rh_mac :: string
  rh_source :: string
  rh_is_gateway :: bool
  rh_is_self :: bool

record recon_port =
  rp_scan :: nat
  rp_ip :: string
  rp_port :: int
  rp_state :: string
  rp_banner :: string
  rp_service :: string

record recon_db =
  rd_scans :: "recon_scan list"
  rd_hosts :: "recon_host list"
  rd_ports :: "recon_port list"

definition rs_next_id :: "recon_db \<Rightarrow> nat" where
  "rs_next_id db = Suc (foldr max (map sc_id (rd_scans db)) 0)"

definition new_scan :: "nat \<Rightarrow> instant \<Rightarrow> string \<Rightarrow> string \<Rightarrow> recon_scan" where
  "new_scan i now device scope =
     \<lparr>sc_id = i, sc_device = device, sc_status = Scan_Running, sc_scope = take 2048 scope, sc_progress = ''preparation'',
      sc_error = [], sc_host_count = 0, sc_port_count = 0, sc_started = now, sc_finished = None\<rparr>"

definition rs_create :: "instant \<Rightarrow> string \<Rightarrow> string \<Rightarrow> recon_db \<Rightarrow> recon_scan \<times> recon_db" where
  "rs_create now device scope db =
     (let row = new_scan (rs_next_id db) now device scope in (row, db\<lparr>rd_scans := rd_scans db @ [row]\<rparr>))"

definition edit_scan :: "nat \<Rightarrow> (recon_scan \<Rightarrow> recon_scan) \<Rightarrow> recon_db \<Rightarrow> recon_db" where
  "edit_scan i f db = db\<lparr>rd_scans := row_update sc_id i f (rd_scans db)\<rparr>"

definition set_progress :: "nat \<Rightarrow> string \<Rightarrow> recon_db \<Rightarrow> recon_db" where
  "set_progress i text db = edit_scan i (\<lambda>r. r\<lparr>sc_progress := take 256 text\<rparr>) db"

definition mark_done :: "instant \<Rightarrow> nat \<Rightarrow> nat \<Rightarrow> nat \<Rightarrow> recon_db \<Rightarrow> recon_db" where
  "mark_done now i hosts ports db =
     edit_scan i (\<lambda>r. r\<lparr>sc_status := Scan_Done, sc_progress := ''termine'', sc_finished := Some now, sc_host_count := hosts,
                       sc_port_count := ports, sc_error := []\<rparr>) db"

definition scan_failed :: "instant \<Rightarrow> nat \<Rightarrow> string \<Rightarrow> recon_db \<Rightarrow> recon_db" where
  "scan_failed now i err db =
     edit_scan i (\<lambda>r. r\<lparr>sc_status := Scan_Failed, sc_progress := ''echec'', sc_error := take 512 err, sc_finished := Some now\<rparr>) db"

definition mark_cancelled :: "instant \<Rightarrow> nat \<Rightarrow> recon_db \<Rightarrow> recon_db" where
  "mark_cancelled now i db =
     edit_scan i (\<lambda>r. if sc_status r \<noteq> Scan_Running then r
                     else r\<lparr>sc_status := Scan_Cancelled, sc_progress := ''annule'', sc_finished := Some now\<rparr>) db"

definition host_row :: "nat \<Rightarrow> string \<Rightarrow> string \<Rightarrow> string \<Rightarrow> discovered_host \<Rightarrow> recon_host" where
  "host_row scan iface gateway self h =
     \<lparr>rh_scan = scan, rh_interface = iface, rh_ip = dh_ip h, rh_mac = take 17 (dh_mac h), rh_source = take 16 (dh_source h),
      rh_is_gateway = (gateway \<noteq> [] \<and> dh_ip h = gateway), rh_is_self = (self \<noteq> [] \<and> dh_ip h = self)\<rparr>"

text \<open>A commit that breaks a unique constraint changes nothing and raises (\<^const>\<open>None\<close>).\<close>

definition upsert_hosts :: "nat \<Rightarrow> string \<Rightarrow> discovered_host list \<Rightarrow> string \<Rightarrow> string \<Rightarrow> recon_db \<Rightarrow> recon_db option" where
  "upsert_hosts scan iface hosts gateway self db =
     (if \<not> distinct (map dh_ip hosts) then None
      else Some (db\<lparr>rd_hosts := filter (\<lambda>h. \<not> (rh_scan h = scan \<and> rh_interface h = iface)) (rd_hosts db)
                               @ map (host_row scan iface gateway self) hosts\<rparr>))"

definition port_row :: "nat \<Rightarrow> probed_port \<Rightarrow> recon_port" where
  "port_row scan p =
     \<lparr>rp_scan = scan, rp_ip = pp_ip p, rp_port = pp_port p, rp_state = take 16 (pp_state p), rp_banner = take 512 (pp_banner p),
      rp_service = take 32 (pp_service p)\<rparr>"

definition upsert_ports :: "nat \<Rightarrow> probed_port list \<Rightarrow> recon_db \<Rightarrow> recon_db option" where
  "upsert_ports scan ps db =
     (if \<not> distinct (map (\<lambda>p. (pp_ip p, pp_port p)) ps) then None
      else Some (db\<lparr>rd_ports := filter (\<lambda>p. rp_scan p \<noteq> scan) (rd_ports db) @ map (port_row scan) ps\<rparr>))"

definition rs_get :: "nat \<Rightarrow> recon_db \<Rightarrow> recon_scan option" where
  "rs_get i db = row_find sc_id i (rd_scans db)"

definition rs_list :: "string \<Rightarrow> nat \<Rightarrow> recon_db \<Rightarrow> recon_scan list" where
  "rs_list device limit db = take limit (sort_key (\<lambda>r. - sc_started r) (filter (\<lambda>r. sc_device r = device) (rd_scans db)))"

definition hosts_for :: "nat \<Rightarrow> recon_db \<Rightarrow> recon_host list" where
  "hosts_for i db = sort_key (\<lambda>h. (rh_interface h, rh_ip h)) (filter (\<lambda>h. rh_scan h = i) (rd_hosts db))"

definition ports_for :: "nat \<Rightarrow> recon_db \<Rightarrow> recon_port list" where
  "ports_for i db = sort_key (\<lambda>p. (rp_ip p, rp_port p)) (filter (\<lambda>p. rp_scan p = i) (rd_ports db))"

definition rs_delete :: "bool \<Rightarrow> nat \<Rightarrow> recon_db \<Rightarrow> bool \<times> recon_db" where
  "rs_delete fk i db =
     (case rs_get i db of
        None \<Rightarrow> (False, db)
      | Some _ \<Rightarrow>
          (True, \<lparr>rd_scans = row_delete sc_id i (rd_scans db),
                  rd_hosts = (if fk then filter (\<lambda>h. rh_scan h \<noteq> i) (rd_hosts db) else rd_hosts db),
                  rd_ports = (if fk then filter (\<lambda>p. rp_scan p \<noteq> i) (rd_ports db) else rd_ports db)\<rparr>))"

section \<open>Tools\<close>

record tool_status =
  to_nmap :: bool
  to_arp_scan :: bool
  to_gl_arp_scan :: bool
  to_nmap_version :: string
  to_arp_version :: string
  to_overlay_mb :: int

definition fully_installed :: "tool_status \<Rightarrow> bool" where
  "fully_installed s \<longleftrightarrow> to_nmap s \<and> to_arp_scan s"

definition no_tools :: tool_status where
  "no_tools = \<lparr>to_nmap = False, to_arp_scan = False, to_gl_arp_scan = False, to_nmap_version = [], to_arp_version = [],
     to_overlay_mb = 0\<rparr>"

definition TOOLS_CMD :: string where
  "TOOLS_CMD =
     ''echo '' @ [squote] @ ''=== nmap ==='' @ [squote] @ ''; nmap --version 2>/dev/null | head -1; echo ''
     @ [squote] @ ''=== arp-scan ==='' @ [squote] @ ''; arp-scan --version 2>&1 | head -1; echo '' @ [squote]
     @ ''=== gl-arp-scan ==='' @ [squote] @ ''; test -x /usr/sbin/gl-arp-scan && echo ok; echo '' @ [squote]
     @ ''=== overlay ==='' @ [squote] @ ''; df -m /overlay 2>/dev/null | awk '' @ [squote] @ ''NR==2{print $4}''
     @ [squote]"

definition block_marker :: "string \<Rightarrow> string option" where
  "block_marker line =
     (let l = py_strip line in
      if starts_with ''=== '' l \<and> ends_with '' ==='' l \<and> 9 \<le> length l then Some (take (length l - 8) (drop 4 l)) else None)"

type_synonym block_state = "(string, string) dict \<times> string option \<times> string list"

definition close_block :: "block_state \<Rightarrow> (string, string) dict" where
  "close_block st =
     (case st of (out, cur, buf) \<Rightarrow>
      case cur of None \<Rightarrow> out | Some k \<Rightarrow> dict_set k (py_strip (py_join [CHR 0x0A] buf)) out)"

definition block_line :: "block_state \<Rightarrow> string \<Rightarrow> block_state" where
  "block_line st line =
     (case block_marker line of
        Some k \<Rightarrow> (close_block st, Some k, [])
      | None \<Rightarrow> (case st of (out, cur, buf) \<Rightarrow> (out, cur, buf @ [line])))"

definition split_blocks :: "string \<Rightarrow> (string, string) dict" where
  "split_blocks text = close_block (foldl block_line ([], None, []) (py_splitlines text))"

definition version_after :: "string \<Rightarrow> string \<Rightarrow> string" where
  "version_after key s =
     (case re_search (\<lambda>t. map_option fst (Option.bind (strip_prefix key t) take_token)) s of None \<Rightarrow> [] | Some v \<Rightarrow> v)"

definition tools_of :: "string \<Rightarrow> tool_status" where
  "tools_of text =
     (let blocks = split_blocks text; body = (\<lambda>k. py_strip (dict_get_or blocks k []));
          nmap = py_contains ''Nmap version'' (body ''nmap''); arp = starts_with ''arp-scan'' (py_lower (body ''arp-scan''));
          mb = body ''overlay''
      in \<lparr>to_nmap = nmap, to_arp_scan = arp, to_gl_arp_scan = (body ''gl-arp-scan'' = ''ok''),
          to_nmap_version = (if nmap then version_after ''Nmap version '' (body ''nmap'') else []),
          to_arp_version = (if arp then version_after ''arp-scan '' (body ''arp-scan'') else []),
          to_overlay_mb = (if mb \<noteq> [] \<and> list_all py_isdigit mb then digits_val mb else 0)\<rparr>)"

definition get_tool_status :: "'d recon_run \<Rightarrow> 'd \<Rightarrow> 'd \<times> tool_status" where
  "get_tool_status run d =
     (case run d TOOLS_CMD of (d1, None) \<Rightarrow> (d1, no_tools) | (d1, Some out) \<Rightarrow> (d1, tools_of out))"

definition INSTALL_TOOLS_CMD :: string where
  "INSTALL_TOOLS_CMD =
     ''echo '' @ [squote] @ ''=== opkg update ==='' @ [squote] @ '' ; opkg update 2>&1 | tail -20 ; echo ''
     @ [squote] @ ''=== opkg install ==='' @ [squote]
     @ '' ; opkg install nmap-full arp-scan arp-scan-database 2>&1 | tail -40 ; echo '' @ [squote] @ ''=== rc ===''
     @ [squote] @ '' ; echo $?''"

text \<open>The digits on the line after the marker: white space with a line break as its last character, and digits.\<close>

definition match_rc :: "string \<Rightarrow> string option" where
  "match_rc s =
     (case strip_prefix ''=== rc ==='' s of
        None \<Rightarrow> None
      | Some t \<Rightarrow>
          let ws = takeWhile py_isspace t; ds = takeWhile py_isdigit (skip_ws t) in
          if ws \<noteq> [] \<and> last ws = CHR 0x0A \<and> ds \<noteq> [] then Some ds else None)"

text \<open>Whether the installation succeeded, with the first 8000 characters of its log; an SSH error or a timeout is \<^const>\<open>None\<close>.\<close>

definition install_recon_tools :: "'d recon_run \<Rightarrow> 'd \<Rightarrow> 'd \<times> bool \<times> string \<times> tool_status" where
  "install_recon_tools run d =
     (case run d INSTALL_TOOLS_CMD of
        (d1, None) \<Rightarrow> (case get_tool_status run d1 of (d2, st) \<Rightarrow> (d2, False, [], st))
      | (d1, Some out) \<Rightarrow>
          (case get_tool_status run d1 of (d2, st) \<Rightarrow>
             (d2, re_search match_rc out = Some ''0'' \<and> fully_installed st, take 8000 out, st)))"

section \<open>One interface\<close>

record scan_request =
  rq_interfaces :: "string list"
  rq_arp :: bool
  rq_ping :: bool
  rq_tcp :: bool
  rq_banner :: bool

text \<open>The orders in which the concurrent probes are served.\<close>

record schedule =
  sd_ping :: "string list \<Rightarrow> string list"
  sd_probe :: "(string \<times> int) list \<Rightarrow> (string \<times> int) list"
  sd_grab :: "probed_port list \<Rightarrow> probed_port list"

datatype recon_error = Bad_Address | Duplicate_Row | Probe_Failed | No_Interface

definition select_interfaces :: "recon_interface list \<Rightarrow> string list \<Rightarrow> recon_interface list" where
  "select_interfaces available picked =
     (let by_name = foldl (\<lambda>d i. dict_set (ri_name i) i d) [] available in
      filter ri_scannable (List.map_filter (dict_get by_name) picked))"

definition arp_discovery :: "'d recon_run \<Rightarrow> bool \<Rightarrow> 'd \<Rightarrow> recon_interface \<Rightarrow> 'd \<times> discovered_host list" where
  "arp_discovery run has_arp_scan d i =
     (if has_arp_scan then
        (case arp_scan_layer2 run d (ri_name i) (ri_scan_cidr i) of (d1, hs) \<Rightarrow>
           if hs = [] then read_arp_cache run d1 (ri_name i) else (d1, hs))
      else read_arp_cache run d (ri_name i))"

text \<open>The hosts of an interface, with its gateway and the device's own address.\<close>

definition with_extras :: "recon_interface \<Rightarrow> discovered_host list \<Rightarrow> discovered_host list option" where
  "with_extras i fused =
     (let extras = filter (\<lambda>ip. ip \<noteq> [] \<and> ip \<notin> dh_ip ` set fused) (remdups [ri_gateway i, slate_ip i]) in
      sort_by_ip dh_ip (fused @ map (\<lambda>ip. \<lparr>dh_ip = ip, dh_mac = [], dh_source = ''meta''\<rparr>) extras))"

definition discover_hosts ::
  "'d recon_run \<Rightarrow> schedule \<Rightarrow> bool \<Rightarrow> 'd \<Rightarrow> recon_interface \<Rightarrow> scan_request \<Rightarrow> 'd \<times> discovered_host list option" where
  "discover_hosts run sd has_arp_scan d i req =
     (let (d1, arp1) = (if rq_arp req then arp_discovery run has_arp_scan d i else (d, []));
          skip_ping = (has_arp_scan \<and> arp1 \<noteq> []); sweep = (rq_ping req \<and> \<not> skip_ping) in
      case (if sweep then ping_sweep run (sd_ping sd) d1 (ri_name i) (ri_scan_cidr i) (slate_ip i) else Some (d1, [])) of
        None \<Rightarrow> (d1, None)
      | Some (d2, pinged) \<Rightarrow>
          let (d3, arp2) = (if sweep \<and> rq_arp req then read_arp_cache run d2 (ri_name i) else (d2, []))
          in (d3, Option.bind (fuse arp1 pinged arp2) (with_extras i)))"

definition probe_hosts ::
  "'d recon_run \<Rightarrow> schedule \<Rightarrow> bool \<Rightarrow> 'd \<Rightarrow> string list \<Rightarrow> 'd \<times> probed_port list option" where
  "probe_hosts run sd has_nmap d ips =
     (if has_nmap then nmap_probe run d ips DEFAULT_PORTS else probe_ports run (sd_probe sd) d ips DEFAULT_PORTS)"

definition run_one_interface ::
  "'d recon_run \<Rightarrow> schedule \<Rightarrow> tool_status \<Rightarrow> nat \<Rightarrow> scan_request \<Rightarrow> recon_interface \<Rightarrow> 'd \<Rightarrow> recon_db
    \<Rightarrow> 'd \<times> recon_db \<times> (recon_error + (nat \<times> probed_port list))" where
  "run_one_interface run sd tools scan req i d db =
     (case discover_hosts run sd (to_arp_scan tools) d i req of
        (d1, None) \<Rightarrow> (d1, db, Inl Bad_Address)
      | (d1, Some hosts) \<Rightarrow>
          (case upsert_hosts scan (ri_name i) hosts (ri_gateway i) (slate_ip i) db of
             None \<Rightarrow> (d1, db, Inl Duplicate_Row)
           | Some db1 \<Rightarrow>
               let targets = filter (\<lambda>ip. ip \<noteq> slate_ip i) (map dh_ip hosts) in
               if \<not> rq_tcp req \<or> targets = [] then (d1, db1, Inr (length hosts, []))
               else (case probe_hosts run sd (to_nmap tools) d1 targets of
                 (d2, None) \<Rightarrow> (d2, db1, Inl Bad_Address)
               | (d2, Some opens) \<Rightarrow> (d2, db1, Inr (length hosts, opens)))))"

fun run_interfaces ::
  "'d recon_run \<Rightarrow> schedule \<Rightarrow> tool_status \<Rightarrow> nat \<Rightarrow> scan_request \<Rightarrow> recon_interface list \<Rightarrow> nat \<Rightarrow> probed_port list \<Rightarrow> 'd \<Rightarrow> recon_db
    \<Rightarrow> 'd \<times> recon_db \<times> (recon_error + (nat \<times> probed_port list))" where
  "run_interfaces run sd tools scan req [] hosts opens d db = (d, db, Inr (hosts, opens))"
| "run_interfaces run sd tools scan req (i # is) hosts opens d db =
     (case run_one_interface run sd tools scan req i d db of
        (d1, db1, Inl e) \<Rightarrow> (d1, db1, Inl e)
      | (d1, db1, Inr (n, ps)) \<Rightarrow> run_interfaces run sd tools scan req is (hosts + n) (opens @ ps) d1 db1)"

section \<open>One scan\<close>

definition store_ports :: "nat \<Rightarrow> probed_port list \<Rightarrow> recon_db \<Rightarrow> recon_db option" where
  "store_ports scan ps db = (if ps = [] then Some db else upsert_ports scan ps db)"

definition scan_body ::
  "'d recon_run \<Rightarrow> schedule \<Rightarrow> instant \<Rightarrow> nat \<Rightarrow> scan_request \<Rightarrow> 'd \<Rightarrow> recon_db \<Rightarrow> 'd \<times> recon_db \<times> recon_error option" where
  "scan_body run sd now scan req d db =
     (case list_active_interfaces run d of
        (d1, None) \<Rightarrow> (d1, db, Some Probe_Failed)
      | (d1, Some available) \<Rightarrow>
          let ifaces = select_interfaces available (rq_interfaces req) in
          if ifaces = [] then (d1, db, Some No_Interface)
          else case get_tool_status run d1 of (d2, tools) \<Rightarrow>
            (case run_interfaces run sd tools scan req ifaces 0 [] d2 db of
               (d3, db1, Inl e) \<Rightarrow> (d3, db1, Some e)
             | (d3, db1, Inr (hosts, opens)) \<Rightarrow>
                 (case (if rq_banner req \<and> opens \<noteq> [] \<and> \<not> to_nmap tools then grab_banners run (sd_grab sd) d3 opens
                        else (d3, Some opens)) of
                    (d4, None) \<Rightarrow> (d4, db1, Some Bad_Address)
                  | (d4, Some ps) \<Rightarrow>
                      (case store_ports scan ps db1 of
                         None \<Rightarrow> (d4, db1, Some Duplicate_Row)
                       | Some db2 \<Rightarrow> (d4, mark_done now scan hosts (length ps) db2, None)))))"

text \<open>Every exception ends in a failed row; \<open>text\<close> is what it says.\<close>

definition run_scan ::
  "(recon_error \<Rightarrow> string) \<Rightarrow> 'd recon_run \<Rightarrow> schedule \<Rightarrow> instant \<Rightarrow> nat \<Rightarrow> scan_request \<Rightarrow> 'd \<Rightarrow> recon_db \<Rightarrow> 'd \<times> recon_db" where
  "run_scan text run sd now scan req d db =
     (case scan_body run sd now scan req d db of
        (d1, db1, None) \<Rightarrow> (d1, db1) | (d1, db1, Some e) \<Rightarrow> (d1, scan_failed now scan (text e) db1))"

section \<open>Routes\<close>

text \<open>The tasks that run: the registry drops a task when it is done.\<close>

type_synonym task_registry = "nat list"

definition cancel_task :: "nat \<Rightarrow> task_registry \<Rightarrow> bool \<times> task_registry" where
  "cancel_task i reg = (i \<in> set reg, removeAll i reg)"

datatype recon_http = Recon_400 | Recon_404 | Recon_500

definition launch_scan ::
  "'d recon_run \<Rightarrow> instant \<Rightarrow> string \<Rightarrow> string \<Rightarrow> scan_request \<Rightarrow> 'd \<Rightarrow> task_registry \<Rightarrow> recon_db
    \<Rightarrow> 'd \<times> (recon_http + (recon_scan \<times> task_registry \<times> recon_db))" where
  "launch_scan run now device scope req d reg db =
     (case list_active_interfaces run d of
        (d1, None) \<Rightarrow> (d1, Inl Recon_500)
      | (d1, Some available) \<Rightarrow>
          if \<not> set (rq_interfaces req) \<subseteq> ri_name ` set available then (d1, Inl Recon_400)
          else case rs_create now device scope db of (row, db1) \<Rightarrow> (d1, Inr (row, sc_id row # reg, db1)))"

definition owned_scan :: "string \<Rightarrow> nat \<Rightarrow> recon_db \<Rightarrow> recon_scan option" where
  "owned_scan device i db =
     (case rs_get i db of None \<Rightarrow> None | Some r \<Rightarrow> if sc_device r = device then Some r else None)"

definition get_scan :: "string \<Rightarrow> nat \<Rightarrow> recon_db \<Rightarrow> recon_http + (recon_scan \<times> recon_host list \<times> recon_port list)" where
  "get_scan device i db =
     (case owned_scan device i db of None \<Rightarrow> Inl Recon_404 | Some r \<Rightarrow> Inr (r, hosts_for i db, ports_for i db))"

definition cancel_scan :: "string \<Rightarrow> nat \<Rightarrow> task_registry \<Rightarrow> recon_db \<Rightarrow> recon_http + task_registry" where
  "cancel_scan device i reg db =
     (case owned_scan device i db of
        None \<Rightarrow> Inl Recon_404
      | Some r \<Rightarrow> if sc_status r \<noteq> Scan_Running then Inl Recon_400 else Inr (snd (cancel_task i reg)))"

definition delete_scan :: "bool \<Rightarrow> string \<Rightarrow> nat \<Rightarrow> task_registry \<Rightarrow> recon_db \<Rightarrow> recon_http + (task_registry \<times> recon_db)" where
  "delete_scan fk device i reg db =
     (case owned_scan device i db of
        None \<Rightarrow> Inl Recon_404
      | Some r \<Rightarrow> Inr (if sc_status r = Scan_Running then snd (cancel_task i reg) else reg, snd (rs_delete fk i db)))"

section \<open>What a run leaves behind\<close>

definition scan_hosts :: "nat \<Rightarrow> recon_db \<Rightarrow> recon_host list" where
  "scan_hosts i db = filter (\<lambda>h. rh_scan h = i) (rd_hosts db)"

definition scan_ports :: "nat \<Rightarrow> recon_db \<Rightarrow> recon_port list" where
  "scan_ports i db = filter (\<lambda>p. rp_scan p = i) (rd_ports db)"

lemma lists_of_a_scan: "hosts_for i db = sort_key (\<lambda>h. (rh_interface h, rh_ip h)) (scan_hosts i db)"
  "ports_for i db = sort_key (\<lambda>p. (rp_ip p, rp_port p)) (scan_ports i db)"
  by (simp_all add: hosts_for_def ports_for_def scan_hosts_def scan_ports_def)

lemma sort_key_Nil [simp]: "sort_key f xs = [] \<longleftrightarrow> xs = []"
  by (metis length_sort length_0_conv)

lemma edit_scan_rows [simp]:
  "rd_hosts (edit_scan i f db) = rd_hosts db" "rd_ports (edit_scan i f db) = rd_ports db"
  by (simp_all add: edit_scan_def)

lemma rs_get_edit: "(\<And>r. sc_id (f r) = sc_id r) \<Longrightarrow>
    rs_get j (edit_scan i f db) = (if j = i then map_option f (rs_get i db) else rs_get j db)"
  by (simp add: rs_get_def edit_scan_def)

lemma rs_get_marks:
  "rs_get j (mark_done now i h p db) = (if j = i then map_option (\<lambda>r. r\<lparr>sc_status := Scan_Done, sc_progress := ''termine'',
     sc_finished := Some now, sc_host_count := h, sc_port_count := p, sc_error := []\<rparr>) (rs_get i db) else rs_get j db)"
  "rs_get j (scan_failed now i e db) = (if j = i then map_option (\<lambda>r. r\<lparr>sc_status := Scan_Failed, sc_progress := ''echec'',
     sc_error := take 512 e, sc_finished := Some now\<rparr>) (rs_get i db) else rs_get j db)"
  by (simp_all add: mark_done_def scan_failed_def rs_get_edit)

lemma scan_rows_marked [simp]:
  "scan_hosts j (mark_done now i h p db) = scan_hosts j db" "scan_ports j (mark_done now i h p db) = scan_ports j db"
  "scan_hosts j (scan_failed now i e db) = scan_hosts j db" "scan_ports j (scan_failed now i e db) = scan_ports j db"
  by (simp_all add: mark_done_def scan_failed_def scan_hosts_def scan_ports_def)

lemma upsert_hosts_effect:
  assumes "upsert_hosts scan iface hs gw self db = Some db'"
  shows "rd_scans db' = rd_scans db" "rd_ports db' = rd_ports db" "j \<noteq> scan \<Longrightarrow> scan_hosts j db' = scan_hosts j db"
    "scan_hosts scan db' = filter (\<lambda>h. rh_interface h \<noteq> iface) (scan_hosts scan db) @ map (host_row scan iface gw self) hs"
proof -
  have db': "db' = db\<lparr>rd_hosts := filter (\<lambda>h. \<not> (rh_scan h = scan \<and> rh_interface h = iface)) (rd_hosts db)
      @ map (host_row scan iface gw self) hs\<rparr>"
    using assms by (simp add: upsert_hosts_def split: if_splits)
  have of_scan: "rh_scan (host_row scan iface gw self h) = scan" for h by (simp add: host_row_def)
  show "rd_scans db' = rd_scans db" "rd_ports db' = rd_ports db" by (simp_all add: db')
  show "scan_hosts j db' = scan_hosts j db" if "j \<noteq> scan"
    using that by (auto simp: db' scan_hosts_def filter_map o_def of_scan intro!: filter_cong)
  show "scan_hosts scan db' = filter (\<lambda>h. rh_interface h \<noteq> iface) (scan_hosts scan db) @ map (host_row scan iface gw self) hs"
    by (auto simp: db' scan_hosts_def filter_map o_def of_scan intro!: filter_cong)
qed

lemma upsert_ports_effect:
  assumes "upsert_ports scan ps db = Some db'"
  shows "rd_scans db' = rd_scans db" "rd_hosts db' = rd_hosts db" "j \<noteq> scan \<Longrightarrow> scan_ports j db' = scan_ports j db"
    "scan_ports scan db' = map (port_row scan) ps"
proof -
  have db': "db' = db\<lparr>rd_ports := filter (\<lambda>p. rp_scan p \<noteq> scan) (rd_ports db) @ map (port_row scan) ps\<rparr>"
    using assms by (simp add: upsert_ports_def split: if_splits)
  have of_scan: "rp_scan (port_row scan p) = scan" for p by (simp add: port_row_def)
  show "rd_scans db' = rd_scans db" "rd_hosts db' = rd_hosts db" by (simp_all add: db')
  show "scan_ports j db' = scan_ports j db" if "j \<noteq> scan"
    using that by (auto simp: db' scan_ports_def filter_map o_def of_scan intro!: filter_cong)
  show "scan_ports scan db' = map (port_row scan) ps" by (simp add: db' scan_ports_def filter_map o_def of_scan)
qed

text \<open>An interface leaves the database as it was, or with the hosts of the scan on it replaced.\<close>

lemma one_interface_effect:
  assumes "run_one_interface run sd tools scan req i d db = (d', db', res)"
  obtains "db' = db" "\<exists>e. res = Inl e"
  | hosts where "upsert_hosts scan (ri_name i) hosts (ri_gateway i) (slate_ip i) db = Some db'"
      "\<forall>n ps. res = Inr (n, ps) \<longrightarrow> n = length hosts"
  using assms by (auto simp: run_one_interface_def Let_def split: prod.splits option.splits if_splits)

lemma run_interfaces_effect:
  assumes "run_interfaces run sd tools scan req is h0 o0 d db = (d', db', res)"
  shows "rd_scans db' = rd_scans db \<and> rd_ports db' = rd_ports db \<and> (\<forall>j. j \<noteq> scan \<longrightarrow> scan_hosts j db' = scan_hosts j db)"
  using assms
proof (induction "is" arbitrary: h0 o0 d db)
  case (Cons i "is")
  obtain d1 db1 r1 where one: "run_one_interface run sd tools scan req i d db = (d1, db1, r1)" by (metis prod_cases3)
  then have "rd_scans db1 = rd_scans db \<and> rd_ports db1 = rd_ports db \<and> (\<forall>j. j \<noteq> scan \<longrightarrow> scan_hosts j db1 = scan_hosts j db)"
    by (rule one_interface_effect) (auto simp: upsert_hosts_effect)
  with one Cons show ?case by (fastforce split: sum.splits prod.splits)
qed simp

lemma run_interfaces_count:
  assumes "run_interfaces run sd tools scan req is h0 o0 d db = (d', db', Inr (h, ps))" "distinct (map ri_name is)"
    and "\<forall>r \<in> set (scan_hosts scan db). rh_interface r \<notin> ri_name ` set is"
  shows "h + length (scan_hosts scan db) = h0 + length (scan_hosts scan db')"
  using assms
proof (induction "is" arbitrary: h0 o0 d db)
  case (Cons i "is")
  obtain d1 db1 n qs where one: "run_one_interface run sd tools scan req i d db = (d1, db1, Inr (n, qs))"
    and rest: "run_interfaces run sd tools scan req is (h0 + n) (o0 @ qs) d1 db1 = (d', db', Inr (h, ps))"
    using Cons.prems(1) by (auto split: prod.splits sum.splits)
  from one obtain hosts where up: "upsert_hosts scan (ri_name i) hosts (ri_gateway i) (slate_ip i) db = Some db1" and n: "n = length hosts"
    by (rule one_interface_effect) auto
  have kept: "filter (\<lambda>r. rh_interface r \<noteq> ri_name i) (scan_hosts scan db) = scan_hosts scan db"
    using Cons.prems(3) by (auto simp: filter_id_conv)
  have rows: "scan_hosts scan db1 = scan_hosts scan db @ map (host_row scan (ri_name i) (ri_gateway i) (slate_ip i)) hosts"
    using upsert_hosts_effect(4) [OF up] kept by simp
  have "\<forall>r \<in> set (scan_hosts scan db1). rh_interface r \<notin> ri_name ` set is"
    using Cons.prems(2,3) by (auto simp: rows host_row_def)
  from Cons.IH [OF rest _ this] Cons.prems(2) show ?case by (simp add: rows n)
qed simp

lemma by_name_key:
  assumes "\<forall>k i. dict_get d k = Some i \<longrightarrow> ri_name i = k" "dict_get (foldl (\<lambda>d i. dict_set (ri_name i) i d) d xs) k = Some i"
  shows "ri_name i = k"
  using assms
proof (induction xs arbitrary: d)
  case (Cons x xs)
  have "\<forall>k i. dict_get (dict_set (ri_name x) x d) k = Some i \<longrightarrow> ri_name i = k" using Cons.prems(1) by auto
  from Cons.IH [OF this] Cons.prems(2) show ?case by simp
qed auto

lemma names_of_map_filter:
  assumes "\<And>k i. f k = Some i \<Longrightarrow> ri_name i = k"
  shows "map ri_name (List.map_filter f ks) = filter (\<lambda>k. f k \<noteq> None) ks"
  using assms by (induction ks) (auto simp: List.map_filter_simps split: option.splits)

lemma selected_once: "distinct picked \<Longrightarrow> distinct (map ri_name (select_interfaces available picked))"
proof -
  assume d: "distinct picked"
  have k: "ri_name i = k" if "dict_get (foldl (\<lambda>d i. dict_set (ri_name i) i d) [] available) k = Some i" for k i
    by (rule by_name_key [OF _ that]) simp
  show ?thesis
    by (simp add: select_interfaces_def Let_def distinct_map_filter names_of_map_filter [OF k] d)
qed

lemma store_ports_effect:
  assumes "store_ports scan ps db = Some db'"
  shows "rd_scans db' = rd_scans db \<and> rd_hosts db' = rd_hosts db \<and> (\<forall>j. j \<noteq> scan \<longrightarrow> scan_ports j db' = scan_ports j db)
    \<and> (scan_ports scan db = [] \<longrightarrow> length (scan_ports scan db') = length ps)"
  using assms by (auto simp: store_ports_def upsert_ports_effect split: if_splits)

text \<open>A run that fails has changed hosts of its own only; one that finishes has stored what it counts.\<close>

lemma scan_body_failed:
  assumes "scan_body run sd now scan req d db = (d', db', Some e)"
  shows "rd_scans db' = rd_scans db \<and> rd_ports db' = rd_ports db \<and> (\<forall>j. j \<noteq> scan \<longrightarrow> scan_hosts j db' = scan_hosts j db)"
  using assms by (auto simp: scan_body_def Let_def split: prod.splits option.splits sum.splits if_splits dest!: run_interfaces_effect)

lemma scan_body_done:
  assumes "scan_body run sd now scan req d db = (d', db', None)"
  obtains tools available d0 d1 hosts opens ps db1 db2 where
    "run_interfaces run sd tools scan req (select_interfaces available (rq_interfaces req)) 0 [] d0 db = (d1, db1, Inr (hosts, opens))"
    "store_ports scan ps db1 = Some db2" "db' = mark_done now scan hosts (length ps) db2"
  using assms by (auto simp: scan_body_def Let_def split: prod.splits option.splits sum.splits if_splits)

lemma row_cong: "rd_scans db' = rd_scans db \<Longrightarrow> rs_get j db' = rs_get j db"
  "rd_hosts db' = rd_hosts db \<Longrightarrow> scan_hosts j db' = scan_hosts j db"
  "rd_ports db' = rd_ports db \<Longrightarrow> scan_ports j db' = scan_ports j db"
  by (simp_all add: rs_get_def scan_hosts_def scan_ports_def)

lemma done_run:
  assumes "scan_body run sd now scan req d db = (d', db', None)"
  obtains h p where
    "\<And>j. rs_get j db' = (if j = scan then map_option (\<lambda>r. r\<lparr>sc_status := Scan_Done, sc_progress := ''termine'',
       sc_finished := Some now, sc_host_count := h, sc_port_count := p, sc_error := []\<rparr>) (rs_get scan db) else rs_get j db)"
    "\<And>j. j \<noteq> scan \<Longrightarrow> scan_hosts j db' = scan_hosts j db \<and> scan_ports j db' = scan_ports j db"
    "scan_ports scan db = [] \<Longrightarrow> p = length (scan_ports scan db')"
    "scan_hosts scan db = [] \<Longrightarrow> distinct (rq_interfaces req) \<Longrightarrow> h = length (scan_hosts scan db')"
proof -
  from assms obtain tools available d0 d1 hosts opens ps db1 db2 where
    ri: "run_interfaces run sd tools scan req (select_interfaces available (rq_interfaces req)) 0 [] d0 db = (d1, db1, Inr (hosts, opens))"
    and st: "store_ports scan ps db1 = Some db2" and md: "db' = mark_done now scan hosts (length ps) db2"
    by (rule scan_body_done)
  note e = run_interfaces_effect [OF ri] store_ports_effect [OF st]
  have same: "rs_get j db2 = rs_get j db" "scan_hosts j db2 = scan_hosts j db1" "scan_ports j db1 = scan_ports j db" for j
    using e by (auto intro: row_cong)
  show ?thesis
  proof (rule that [where h = hosts and p = "length ps"])
    show "hosts = length (scan_hosts scan db')" if "scan_hosts scan db = []" "distinct (rq_interfaces req)"
      using run_interfaces_count [OF ri selected_once [OF that(2)]] by (simp add: that(1) md same)
  qed (use e in \<open>auto simp: md rs_get_marks same\<close>)
qed


definition sample_recon :: "nat \<Rightarrow> recon_db" where
  "sample_recon n =
     \<lparr>rd_scans = [new_scan n 0 ''slate'' []],
      rd_hosts = [\<lparr>rh_scan = 1, rh_interface = ''wan'', rh_ip = ''10.0.0.9'', rh_mac = [], rh_source = ''arp'', rh_is_gateway = False,
                   rh_is_self = False\<rparr>],
      rd_ports = []\<rparr>"

definition deaf_run :: "unit recon_run" where
  "deaf_run d cmd = (d, None)"


section \<open>Deleted scans\<close>

lemma foldr_max_set: "foldr max xs (0::nat) = Max (insert 0 (set xs))"
proof (induction xs)
  case (Cons x xs)
  then show ?case by (cases "xs = []") (simp_all add: insert_commute [of 0 x])
qed simp

lemma rs_next_id_set: "rs_next_id db = Suc (Max (insert 0 (sc_id ` set (rd_scans db))))"
  by (simp add: rs_next_id_def foldr_max_set)

lemma rs_next_id_fresh: "r \<in> set (rd_scans db) \<Longrightarrow> sc_id r < rs_next_id db"
  by (simp add: rs_next_id_set less_Suc_eq_le)

text \<open>
  The results of a deleted scan live on. When foreign keys are not enforced, deleting the newest scan leaves its
  hosts and ports, and the next scan, of whichever device, takes its number: it is shown with the hosts and ports of
  the deleted one before it has run. With foreign keys enforced it starts empty.
\<close>

theorem deleted_scan_inherited:
  assumes "rs_create now0 dev0 scope0 db = (row0, db0)"
    and "sc_id ` set (rd_scans db1) = sc_id ` set (rd_scans db0)"
  shows "let (row1, db3) = rs_create now1 dev1 scope1 (snd (rs_delete fk (sc_id row0) db1)) in
    sc_id row1 = sc_id row0
    \<and> get_scan dev1 (sc_id row1) db3
      = Inr (row1, if fk then [] else hosts_for (sc_id row0) db1, if fk then [] else ports_for (sc_id row0) db1)"
proof -
  define i where "i = rs_next_id db"
  have row0: "sc_id row0 = i" and ids: "sc_id ` set (rd_scans db1) = insert i (sc_id ` set (rd_scans db))"
    using assms by (auto simp: rs_create_def new_scan_def i_def Let_def)
  define rest where "rest = row_delete sc_id i (rd_scans db1)"
  have "rs_get i db1 \<noteq> None" using ids by (auto simp: rs_get_def row_find_None)
  then have del: "snd (rs_delete fk i db1) = \<lparr>rd_scans = rest,
      rd_hosts = (if fk then filter (\<lambda>h. rh_scan h \<noteq> i) (rd_hosts db1) else rd_hosts db1),
      rd_ports = (if fk then filter (\<lambda>p. rp_scan p \<noteq> i) (rd_ports db1) else rd_ports db1)\<rparr>"
    by (auto simp: rs_delete_def rest_def)
  have "sc_id ` set rest = sc_id ` set (rd_scans db1) - {i}" by (auto simp: rest_def row_delete_def)
  also have "\<dots> = sc_id ` set (rd_scans db)" unfolding ids i_def using rs_next_id_fresh [of _ db] by fastforce
  finally have nxt: "rs_next_id \<lparr>rd_scans = rest, rd_hosts = hs, rd_ports = ps\<rparr> = i" for hs ps
    by (simp add: rs_next_id_set i_def)
  have gone: "row_find sc_id i rest = None" by (simp add: rest_def)
  show ?thesis
    by (simp add: row0 rs_create_def nxt Let_def get_scan_def owned_scan_def rs_get_def new_scan_def gone del hosts_for_def ports_for_def)
qed

lemma deleted_scan_inherited_witness:
  "let (row1, db3) = rs_create 9 ''office'' [] (snd (rs_delete False 1 (sample_recon 1))) in
    get_scan ''office'' (sc_id row1) db3 = Inr (row1, rd_hosts (sample_recon 1), [])"
proof -
  have "rs_create 0 ''slate'' [] \<lparr>rd_scans = [], rd_hosts = rd_hosts (sample_recon 1), rd_ports = []\<rparr>
      = (new_scan 1 0 ''slate'' [], sample_recon 1)"
    by (simp add: rs_create_def rs_next_id_def sample_recon_def Let_def)
  note c = deleted_scan_inherited [OF this refl, of 9 "''office''" "[]" False]
  have i: "sc_id (new_scan 1 0 ''slate'' []) = 1" by (simp add: new_scan_def)
  have "hosts_for 1 (sample_recon 1) = rd_hosts (sample_recon 1)" "ports_for 1 (sample_recon 1) = []"
    by (simp_all add: hosts_for_def ports_for_def sample_recon_def)
  with c show ?thesis unfolding Let_def split_beta i by (auto simp only: if_False)
qed

end
