(* ===== verification/Ts_Client.thy ===== *)
theory Ts_Client
  imports Exit_Node_HA Profile_Model Py_Json Py_Match
begin

text \<open>
  The client of the device's Tailscale (\<^verbatim>\<open>backend/app/tailscale/client.py\<close>, \<^verbatim>\<open>models.py\<close>) and the part of a profile's
  activation that drives it (\<^verbatim>\<open>backend/app/tailscale/applier.py\<close>). The device is a parameter as in the theory of the
  exit nodes, and so is the JSON decoder; the times at which peers were last seen are left out.
\<close>

section \<open>Status\<close>

definition BACKEND_STATES :: "string list" where
  "BACKEND_STATES = [''NoState'', ''NeedsLogin'', ''NeedsMachineAuth'', ''Stopped'', ''Starting'', ''Running'']"

record ts_peer =
  tp_hostname :: string
  tp_dns_name :: string
  tp_ips :: "string list"
  tp_online :: bool
  tp_os :: string
  tp_user :: string
  tp_primary_routes :: "string list"
  tp_exit_node :: bool
  tp_exit_node_option :: bool

record ts_status =
  tt_installed :: bool
  tt_daemon_running :: bool
  tt_backend_state :: string
  tt_hostname :: string
  tt_ips :: "string list"
  tt_tailnet :: string
  tt_self_id :: string
  tt_accept_routes :: bool
  tt_advertised_routes :: "string list"
  tt_exit_node_enabled :: bool
  tt_use_exit_node :: string
  tt_peers :: "ts_peer list"
  tt_error :: string

definition blank_status :: ts_status where
  "blank_status =
     \<lparr>tt_installed = True, tt_daemon_running = False, tt_backend_state = ''NoState'', tt_hostname = [], tt_ips = [],
      tt_tailnet = [], tt_self_id = [], tt_accept_routes = False, tt_advertised_routes = [], tt_exit_node_enabled = False,
      tt_use_exit_node = [], tt_peers = [], tt_error = []\<rparr>"

definition js_values :: "json \<Rightarrow> json list" where
  "js_values v = (case v of J_Obj d \<Rightarrow> map snd d | _ \<Rightarrow> [])"

definition js_texts :: "json \<Rightarrow> string list" where
  "js_texts v = map js_text (js_items v)"

text \<open>\<^verbatim>\<open>str(v or "")\<close> of an identifier, which is a text or a number.\<close>

definition js_id :: "json \<Rightarrow> string" where
  "js_id v = (if \<not> js_true v then [] else case v of J_Int n \<Rightarrow> py_str n | _ \<Rightarrow> js_text v)"

definition ts_peer_of :: "json \<Rightarrow> ts_peer" where
  "ts_peer_of p =
     \<lparr>tp_hostname = js_text (js_get ''HostName'' p), tp_dns_name = js_text (js_get ''DNSName'' p),
      tp_ips = js_texts (js_get ''TailscaleIPs'' p), tp_online = js_true (js_get ''Online'' p), tp_os = js_text (js_get ''OS'' p),
      tp_user = js_id (js_get ''UserID'' p), tp_primary_routes = js_texts (js_get ''PrimaryRoutes'' p),
      tp_exit_node = js_true (js_get ''ExitNode'' p), tp_exit_node_option = js_true (js_get ''ExitNodeOption'' p)\<rparr>"

definition use_exit_of :: "json list \<Rightarrow> string" where
  "use_exit_of ps =
     (case find (\<lambda>p. js_is_obj p \<and> js_true (js_get ''ExitNode'' p)) ps of
        None \<Rightarrow> []
      | Some p \<Rightarrow> js_text (js_or (js_get ''HostName'' p) (js_get ''DNSName'' p)))"

text \<open>A backend state that the model does not know is refused (\<^const>\<open>None\<close>).\<close>

definition parse_status_json :: "json \<Rightarrow> ts_status option" where
  "parse_status_json data =
     (let state = js_text (js_or (js_get ''BackendState'' data) (J_Str ''NoState''));
          self = js_or (js_get ''Self'' data) (J_Obj []); raw = js_values (js_or (js_get ''Peer'' data) (J_Obj []));
          cur = js_or (js_get ''CurrentTailnet'' data) (J_Obj [])
      in if state \<notin> set BACKEND_STATES then None
         else Some (blank_status\<lparr>
           tt_daemon_running := True, tt_backend_state := state, tt_hostname := js_text (js_get ''HostName'' self),
           tt_ips := js_texts (js_get ''TailscaleIPs'' self),
           tt_tailnet := js_text (js_or (js_get ''MagicDNSSuffix'' data) (js_get ''MagicDNSSuffix'' cur)),
           tt_self_id := js_id (js_get ''ID'' self), tt_advertised_routes := js_texts (js_get ''PrimaryRoutes'' self),
           tt_exit_node_enabled := js_true (js_get ''ExitNodeOption'' self), tt_use_exit_node := use_exit_of raw,
           tt_peers := map ts_peer_of (filter js_is_obj raw)\<rparr>))"

definition detect_installed :: "'d runner \<Rightarrow> 'd \<Rightarrow> 'd \<times> bool" where
  "detect_installed run d =
     (case run d ''command -v tailscale'' of
        (d1, Inl e) \<Rightarrow> (d1, False) | (d1, Inr (code, out)) \<Rightarrow> (d1, py_strip out \<noteq> [] \<and> code = 0))"

text \<open>What the answer to the status command says: \<open>loads\<close> decodes a JSON object.\<close>

definition status_of_answer :: "(string \<Rightarrow> json option) \<Rightarrow> string + (int \<times> string) \<Rightarrow> ts_status option" where
  "status_of_answer loads ans =
     (case ans of
        Inl e \<Rightarrow> Some (blank_status\<lparr>tt_daemon_running := True, tt_error := e\<rparr>)
      | Inr (code, out) \<Rightarrow>
          if \<not> starts_with ''{'' (py_strip out)
          then Some (blank_status\<lparr>tt_daemon_running := True,
                 tt_backend_state := (if py_contains ''stopped'' (py_lower out) then ''Stopped'' else ''NoState''),
                 tt_error := take 300 (py_strip out)\<rparr>)
          else case loads out of
            None \<Rightarrow> Some (blank_status\<lparr>tt_daemon_running := True, tt_error := ''unparseable JSON''\<rparr>)
          | Some data \<Rightarrow> parse_status_json data)"

definition get_ts_status :: "(string \<Rightarrow> json option) \<Rightarrow> 'd runner \<Rightarrow> 'd \<Rightarrow> 'd \<times> ts_status option" where
  "get_ts_status loads run d =
     (case detect_installed run d of
        (d1, False) \<Rightarrow> (d1, Some (blank_status\<lparr>tt_installed := False\<rparr>))
      | (d1, True) \<Rightarrow>
          (case run d1 ''pidof tailscaled || true'' of
             (d2, Inl e) \<Rightarrow> (d2, Some (blank_status\<lparr>tt_error := e\<rparr>))
           | (d2, Inr (_, out)) \<Rightarrow>
               if py_strip out = [] then (d2, Some (blank_status\<lparr>tt_backend_state := ''Stopped''\<rparr>))
               else (case run d2 status_cmd of (d3, ans) \<Rightarrow> (d3, status_of_answer loads ans))))"

section \<open>Commands\<close>

record ts_config_input =
  ti_auth_key :: "string option"
  ti_hostname :: "string option"
  ti_accept_routes :: bool
  ti_accept_dns :: bool
  ti_advertise_routes :: "string list"
  ti_advertise_exit_node :: bool
  ti_exit_node :: string
  ti_shields_up :: bool

definition quoted_flag :: "string \<Rightarrow> string option \<Rightarrow> string list" where
  "quoted_flag flag v = (case v of None \<Rightarrow> [] | Some s \<Rightarrow> if s = [] then [] else [flag @ shlex_quote s])"

definition up_parts :: "ts_config_input \<Rightarrow> string list" where
  "up_parts cfg =
     [''tailscale'', ''up'', ''--reset''] @ quoted_flag ''--authkey='' (ti_auth_key cfg) @ quoted_flag ''--hostname='' (ti_hostname cfg)
     @ [if ti_accept_routes cfg then ''--accept-routes'' else ''--accept-routes=false'',
        if ti_accept_dns cfg then ''--accept-dns'' else ''--accept-dns=false'']
     @ (if ti_advertise_routes cfg = [] then [] else [''--advertise-routes='' @ py_join '','' (ti_advertise_routes cfg)])
     @ (if ti_advertise_exit_node cfg then [''--advertise-exit-node''] else [])
     @ (if ti_exit_node cfg = [] then [] else [''--exit-node='' @ shlex_quote (ti_exit_node cfg), ''--exit-node-allow-lan-access=true''])
     @ (if ti_shields_up cfg then [''--shields-up''] else []) @ [''--timeout=15s'']"

definition ts_up_cmd :: "ts_config_input \<Rightarrow> string" where
  "ts_up_cmd cfg = py_join '' '' (up_parts cfg) @ '' 2>&1''"

definition AUTH_URL_PREFIX :: string where "AUTH_URL_PREFIX = ''https://login.tailscale.com/a/''"

definition auth_url_here :: "string \<Rightarrow> string option" where
  "auth_url_here s =
     (case strip_prefix AUTH_URL_PREFIX s of
        None \<Rightarrow> None
      | Some t \<Rightarrow> let k = takeWhile (\<lambda>c. py_isalnum c \<or> c = CHR ''_'' \<or> c = CHR ''-'') t
                  in if k = [] then None else Some (AUTH_URL_PREFIX @ k))"

text \<open>Commands of which only an SSH error stops the next.\<close>

fun run_each :: "'d runner \<Rightarrow> 'd \<Rightarrow> string list \<Rightarrow> 'd \<times> string option" where
  "run_each run d [] = (d, None)"
| "run_each run d (c # cs) = (case run d c of (d1, Inl e) \<Rightarrow> (d1, Some e) | (d1, Inr _) \<Rightarrow> run_each run d1 cs)"

definition START_CMDS :: "string list" where
  "START_CMDS =
     [''uci set tailscale.settings.enabled=1 && uci commit tailscale'',
      ''/etc/init.d/tailscale enable; /etc/init.d/tailscale start'',
      ''for i in 1 2 3 4 5; do pidof tailscaled >/dev/null && exit 0; sleep 1; done; echo '' @ [squote]
     @ ''timeout waiting for tailscaled'' @ [squote] @ ''; exit 1'']"

text \<open>Whether the device is connected, what to tell, and the address at which the user logs in.\<close>

definition ts_connect :: "'d runner \<Rightarrow> 'd \<Rightarrow> ts_config_input \<Rightarrow> 'd \<times> bool \<times> string \<times> string option" where
  "ts_connect run d cfg =
     (case run_each run d START_CMDS of
        (d1, Some e) \<Rightarrow> (d1, False, ''failed to start tailscaled: '' @ e, None)
      | (d1, None) \<Rightarrow>
          (case run d1 (ts_up_cmd cfg) of
             (d2, Inl e) \<Rightarrow> (d2, False, ''SSH error: '' @ e, None)
           | (d2, Inr (code, out)) \<Rightarrow>
               let url = re_search auth_url_here out in (d2, code = 0 \<and> url = None, take 600 (py_strip out), url)))"

record ts_overrides =
  ov_accept_routes :: "bool option"
  ov_accept_dns :: "bool option"
  ov_advertise_routes :: "string list option"
  ov_advertise_exit_node :: "bool option"
  ov_exit_node :: "string option"
  ov_shields_up :: "bool option"

definition bool_flag :: "string \<Rightarrow> bool option \<Rightarrow> string list" where
  "bool_flag flag v = (case v of None \<Rightarrow> [] | Some b \<Rightarrow> [flag @ (if b then ''true'' else ''false'')])"

definition exit_flags :: "string option \<Rightarrow> string list" where
  "exit_flags v =
     (case v of
        None \<Rightarrow> []
      | Some n \<Rightarrow> if n = [] then [''--exit-node='' @ [dquote, dquote]]
                  else [''--exit-node='' @ shlex_quote n, ''--exit-node-allow-lan-access=true''])"

definition override_flags :: "ts_overrides \<Rightarrow> string list" where
  "override_flags ov =
     bool_flag ''--accept-routes='' (ov_accept_routes ov) @ bool_flag ''--accept-dns='' (ov_accept_dns ov)
     @ (case ov_advertise_routes ov of None \<Rightarrow> [] | Some rs \<Rightarrow> [''--advertise-routes='' @ py_join '','' rs])
     @ bool_flag ''--advertise-exit-node='' (ov_advertise_exit_node ov) @ exit_flags (ov_exit_node ov)
     @ bool_flag ''--shields-up='' (ov_shields_up ov)"

definition set_cmd :: "string list \<Rightarrow> string" where
  "set_cmd flags = ''tailscale set '' @ py_join '' '' flags @ '' 2>&1''"

text \<open>Whether the preferences were set, and how many of them; the descriptions are for the user.\<close>

definition apply_overrides :: "'d runner \<Rightarrow> 'd \<Rightarrow> ts_overrides \<Rightarrow> 'd \<times> (string + bool)" where
  "apply_overrides run d ov =
     (let flags = override_flags ov in
      if flags = [] then (d, Inr False)
      else case run d (set_cmd flags) of
        (d1, Inl e) \<Rightarrow> (d1, Inl (''SSH error: '' @ e))
      | (d1, Inr (code, out)) \<Rightarrow>
          (d1, if code \<noteq> 0 then Inl (''tailscale set failed: '' @ take 300 (py_strip out)) else Inr True))"

definition simple_cmd :: "nat \<Rightarrow> 'd runner \<Rightarrow> 'd \<Rightarrow> string \<Rightarrow> 'd \<times> bool \<times> string" where
  "simple_cmd n run d cmd =
     (case run d cmd of
        (d1, Inl e) \<Rightarrow> (d1, False, ''SSH error: '' @ e) | (d1, Inr (code, out)) \<Rightarrow> (d1, code = 0, take n (py_strip out)))"

definition ts_disconnect :: "'d runner \<Rightarrow> 'd \<Rightarrow> 'd \<times> bool \<times> string" where
  "ts_disconnect run d = simple_cmd 400 run d ''tailscale down 2>&1''"

definition ts_logout :: "'d runner \<Rightarrow> 'd \<Rightarrow> 'd \<times> bool \<times> string" where
  "ts_logout run d = simple_cmd 400 run d ''tailscale logout 2>&1''"

definition traceroute_cmd :: "string \<Rightarrow> int \<Rightarrow> string" where
  "traceroute_cmd target max_hops =
     ''traceroute -m '' @ py_str (max 1 (min max_hops 30)) @ '' -w 2 -q 1 -n '' @ shlex_quote target @ '' 2>&1''"

definition ts_traceroute :: "'d runner \<Rightarrow> 'd \<Rightarrow> string \<Rightarrow> int \<Rightarrow> 'd \<times> bool \<times> string" where
  "ts_traceroute run d target max_hops = simple_cmd 8000 run d (traceroute_cmd target max_hops)"

definition ts_ping_cmd :: "string \<Rightarrow> string \<Rightarrow> int \<Rightarrow> string" where
  "ts_ping_cmd target mode count =
     (let n = py_str (max 1 (min count 10))
      in if mode = ''tailscale'' then ''tailscale ping -c '' @ n @ '' '' @ shlex_quote target @ '' 2>&1''
         else ''ping -c '' @ n @ '' -W 2 '' @ shlex_quote target @ '' 2>&1'')"

definition ts_ping :: "'d runner \<Rightarrow> 'd \<Rightarrow> string \<Rightarrow> string \<Rightarrow> int \<Rightarrow> 'd \<times> bool \<times> string" where
  "ts_ping run d target mode count = simple_cmd 4000 run d (ts_ping_cmd target mode count)"

section \<open>Applying a profile\<close>

datatype ts_change = Left_Tailnet | Already_Down | Flags_Set | Nothing_To_Set | Ha_Written ha_config
datatype ts_failure = Status_Refused | Down_Refused string | Set_Refused string | Ha_Refused string

record ts_report =
  tr_changes :: "ts_change list"
  tr_failures :: "ts_failure list"

definition report_ok :: "ts_report \<Rightarrow> bool" where
  "report_ok rep \<longleftrightarrow> tr_failures rep = []"

definition ts_changed :: "ts_change \<Rightarrow> ts_report \<Rightarrow> ts_report" where
  "ts_changed c rep = rep\<lparr>tr_changes := tr_changes rep @ [c]\<rparr>"

definition ts_failed :: "ts_failure \<Rightarrow> ts_report \<Rightarrow> ts_report" where
  "ts_failed e rep = rep\<lparr>tr_failures := tr_failures rep @ [e]\<rparr>"

definition apply_ha :: "tailscale_config \<Rightarrow> ha_meta option \<Rightarrow> ts_report \<Rightarrow> ha_meta option \<times> ts_report" where
  "apply_ha cfg row rep =
     (case ha cfg of
        None \<Rightarrow> (row, rep)
      | Some h \<Rightarrow>
          (case update_config row (ha_enabled h) (ha_candidates h) None (ha_failsafe h) of
             Inl e \<Rightarrow> (row, ts_failed (Ha_Refused e) rep)
           | Inr row' \<Rightarrow> (row', ts_changed (Ha_Written (ha_get row')) rep)))"

definition no_ts_report :: ts_report where "no_ts_report = \<lparr>tr_changes = [], tr_failures = []\<rparr>"

definition apply_tailscale_ha_only :: "tailscale_config \<Rightarrow> ha_meta option \<Rightarrow> ha_meta option \<times> ts_report" where
  "apply_tailscale_ha_only cfg row = apply_ha cfg row no_ts_report"

text \<open>
  The whole step of the activation without an agent. Its call reads a field that the connection overrides of a
  profile no longer have, which raises (\<^const>\<open>None\<close>).
\<close>

definition apply_tailscale_profile ::
  "(string \<Rightarrow> json option) \<Rightarrow> 'd runner \<Rightarrow> tailscale_config \<Rightarrow> 'd \<Rightarrow> ha_meta option \<Rightarrow> 'd \<times> (ha_meta option \<times> ts_report) option" where
  "apply_tailscale_profile loads run cfg d row =
     (if \<not> ts_enabled cfg then
        (case get_ts_status loads run d of
           (d1, None) \<Rightarrow> (d1, Some (row, ts_failed Status_Refused no_ts_report))
         | (d1, Some state) \<Rightarrow>
             if tt_daemon_running state \<and> tt_backend_state state = ''Running''
             then (case ts_disconnect run d1 of (d2, ok, note) \<Rightarrow>
               (d2, Some (apply_ha cfg row (if ok then ts_changed Left_Tailnet no_ts_report
                                            else ts_failed (Down_Refused note) no_ts_report))))
             else (d1, Some (apply_ha cfg row (ts_changed Already_Down no_ts_report))))
      else case connection cfg of
        None \<Rightarrow> (d, Some (apply_ha cfg row no_ts_report))
      | Some _ \<Rightarrow> (d, None))"

section \<open>What a shell reads of the commands\<close>

text \<open>A text that the shell reads as one word, wherever it stands on a line.\<close>

definition reads_as :: "string \<Rightarrow> string \<Rightarrow> bool" where
  "reads_as w v \<longleftrightarrow> w \<noteq> [] \<and> hd w \<noteq> CHR '' '' \<and> (\<forall>r. sh_word Bare (w @ CHR '' '' # r) = Some (v, CHR '' '' # r))"

lemma sh_words_joined: "list_all2 reads_as ws vs \<Longrightarrow> ws \<noteq> [] \<Longrightarrow> sh_words (length ws) (py_join '' '' ws @ CHR '' '' # r) = Some vs"
proof (induction ws vs rule: list_all2_induct)
  case (Cons w ws v vs)
  have skip: "sh_words n (CHR '' '' # s) = sh_words n s" for n s by (cases n) simp_all
  have first: "w \<noteq> []" "hd w \<noteq> CHR '' ''" "sh_word Bare (w @ CHR '' '' # s) = Some (v, CHR '' '' # s)" for s
    using Cons.hyps(1) by (simp_all add: reads_as_def)
  have "dropWhile (\<lambda>c. c = CHR '' '') (w @ s) = w @ s" for s using first(1,2) by (cases w) simp_all
  then have word: "sh_words (Suc n) (w @ CHR '' '' # s) = map_option (Cons v) (sh_words n s)" for n s
    by (simp only: sh_words.simps first(3) option.case prod.case skip)
  show ?case
  proof (cases "ws = []")
    case True
    then show ?thesis using Cons.hyps(2) word [of 0 r] by simp
  next
    case False
    then have "py_join '' '' (w # ws) @ CHR '' '' # r = w @ CHR '' '' # py_join '' '' ws @ CHR '' '' # r"
      by (simp add: py_join_Cons)
    then show ?thesis using Cons.IH False word [of "length ws"] by simp
  qed
qed simp

definition plain_flag :: "string \<Rightarrow> bool" where
  "plain_flag f \<longleftrightarrow> f \<noteq> [] \<and> list_all shell_safe f"

lemma plain_flag_first: "plain_flag f \<Longrightarrow> f \<noteq> [] \<and> hd f \<noteq> CHR '' ''"
  by (cases f) (auto simp: plain_flag_def)

lemma reads_plain: "plain_flag f \<Longrightarrow> reads_as f f"
  using plain_flag_first [of f] by (simp add: plain_flag_def reads_as_def sh_word_safe)

lemma reads_quoted: "plain_flag f \<Longrightarrow> reads_as (f @ shlex_quote s) (f @ s)"
  using plain_flag_first [of f] by (simp add: plain_flag_def reads_as_def sh_word_safe sh_word_shlex_quote)

lemma reads_empty: "plain_flag f \<Longrightarrow> reads_as (f @ [dquote, dquote]) f"
  using plain_flag_first [of f] by (simp add: plain_flag_def reads_as_def sh_word_safe)

lemma plain_flags:
  "plain_flag ''tailscale''" "plain_flag ''set''" "plain_flag ''up''" "plain_flag ''--exit-node=''"
  "plain_flag ''--exit-node-allow-lan-access=true''" "plain_flag (''--accept-routes='' @ (if b then ''true'' else ''false''))"
  "plain_flag (''--accept-dns='' @ (if b then ''true'' else ''false''))"
  "plain_flag (''--advertise-exit-node='' @ (if b then ''true'' else ''false''))"
  "plain_flag (''--shields-up='' @ (if b then ''true'' else ''false''))"
  by (cases b; simp add: plain_flag_def shell_safe_def py_isalnum_def char_class_defs)+

lemma plain_routes: "\<forall>r\<in>set rs. list_all shell_safe r \<Longrightarrow> plain_flag (''--advertise-routes='' @ py_join '','' rs)"
proof -
  assume "\<forall>r\<in>set rs. list_all shell_safe r"
  moreover have "shell_safe (CHR '','')" by (simp add: shell_safe_def)
  ultimately have "list_all shell_safe (py_join '','' rs)"
    using set_py_join [of "'',''" rs] by (fastforce simp: list_all_iff)
  moreover have "list_all shell_safe ''--advertise-routes=''"
    by (simp add: shell_safe_def py_isalnum_def char_class_defs)
  ultimately show ?thesis by (simp add: plain_flag_def)
qed

text \<open>What the program is to be called with.\<close>

definition override_args :: "ts_overrides \<Rightarrow> string list" where
  "override_args ov =
     bool_flag ''--accept-routes='' (ov_accept_routes ov) @ bool_flag ''--accept-dns='' (ov_accept_dns ov)
     @ (case ov_advertise_routes ov of None \<Rightarrow> [] | Some rs \<Rightarrow> [''--advertise-routes='' @ py_join '','' rs])
     @ bool_flag ''--advertise-exit-node='' (ov_advertise_exit_node ov)
     @ (case ov_exit_node ov of
          None \<Rightarrow> []
        | Some n \<Rightarrow> if n = [] then [''--exit-node=''] else [''--exit-node='' @ n, ''--exit-node-allow-lan-access=true''])
     @ bool_flag ''--shields-up='' (ov_shields_up ov)"

lemma reads_bool_flag: "(\<And>b. plain_flag (f @ (if b then ''true'' else ''false''))) \<Longrightarrow> list_all2 reads_as (bool_flag f v) (bool_flag f v)"
  by (cases v) (auto simp only: bool_flag_def option.case list_all2_Cons list_all2_Nil intro!: reads_plain)

lemma reads_exit_flags: "list_all2 reads_as (exit_flags v)
    (case v of None \<Rightarrow> [] | Some n \<Rightarrow> if n = [] then [''--exit-node=''] else [''--exit-node='' @ n, ''--exit-node-allow-lan-access=true''])"
  by (cases v) (auto simp only: exit_flags_def option.case list_all2_Cons list_all2_Nil split: if_splits
      intro!: reads_plain reads_quoted reads_empty plain_flags)

text \<open>
  One command sets exactly the preferences that are asked for. Whatever the name of the exit node holds, a shell reads
  the command as a call of tailscale with one argument for each preference that is given, in order, and nothing else of
  the name; routes must be plain words, which networks are.
\<close>

theorem overrides_read_back:
  assumes "\<forall>rs. ov_advertise_routes ov = Some rs \<longrightarrow> (\<forall>r\<in>set rs. list_all shell_safe r)"
  shows "sh_words (2 + length (override_flags ov)) (set_cmd (override_flags ov)) = Some ([''tailscale'', ''set''] @ override_args ov)"
proof -
  have "list_all2 reads_as (override_flags ov) (override_args ov)"
    unfolding override_flags_def override_args_def
    by (intro list_all2_appendI reads_bool_flag reads_exit_flags plain_flags)
      (use assms in \<open>auto simp only: option.case list_all2_Cons list_all2_Nil split: option.split intro!: reads_plain plain_routes\<close>)
  then have all: "list_all2 reads_as ([''tailscale'', ''set''] @ override_flags ov) ([''tailscale'', ''set''] @ override_args ov)"
    by (auto simp only: append.simps list_all2_Cons intro!: reads_plain plain_flags)
  have line: "set_cmd flags = py_join '' '' ([''tailscale'', ''set''] @ flags) @ CHR '' '' # (if flags = [] then '' 2>&1'' else ''2>&1'')" for flags
    by (simp add: set_cmd_def py_join_Cons)
  have "2 + length (override_flags ov) = length ([''tailscale'', ''set''] @ override_flags ov)" by simp
  then show ?thesis unfolding line using sh_words_joined [OF all] by (simp only: append.simps list.distinct not_False_eq_True simp_thms)
qed

definition hostile_exit :: ts_overrides where
  "hostile_exit =
     \<lparr>ov_accept_routes = Some True, ov_accept_dns = None, ov_advertise_routes = Some [''10.0.0.0/8''], ov_advertise_exit_node = None,
      ov_exit_node = Some ''de; reboot'', ov_shields_up = None\<rparr>"

lemma overrides_read_back_witness:
  "sh_words 6 (set_cmd (override_flags hostile_exit)) =
     Some [''tailscale'', ''set'', ''--accept-routes=true'', ''--advertise-routes=10.0.0.0/8'', ''--exit-node=de; reboot'',
           ''--exit-node-allow-lan-access=true'']"
proof -
  have "\<forall>rs. ov_advertise_routes hostile_exit = Some rs \<longrightarrow> (\<forall>r\<in>set rs. list_all shell_safe r)"
    by (simp add: hostile_exit_def shell_safe_def py_isalnum_def char_class_defs)
  moreover have "length (override_flags hostile_exit) = 4"
    by (simp add: hostile_exit_def override_flags_def bool_flag_def exit_flags_def)
  moreover have "override_args hostile_exit =
      [''--accept-routes=true'', ''--advertise-routes=10.0.0.0/8'', ''--exit-node=de; reboot'', ''--exit-node-allow-lan-access=true'']"
    by (simp add: hostile_exit_def override_args_def bool_flag_def)
  ultimately show ?thesis using overrides_read_back [of hostile_exit] by (simp only:) simp
qed

end
