(* ===== verification/Profile_Routes.thy ===== *)
theory Profile_Routes
  imports Agent_Sync Ts_Client
begin

text \<open>
  The requests on profiles (\<^verbatim>\<open>backend/app/api/routes/profiles.py\<close>, and the synchronisation and application of
  \<^verbatim>\<open>api/routes/agent.py\<close>), with the wallpapers that they keep (\<^verbatim>\<open>backend/app/profiles/wallpapers.py\<close>) and the screen that
  they paint (\<^verbatim>\<open>screen_applier.py\<close>). What the device answers, the images and the encoders are parameters; scores, log
  lines and the overlay shown while a profile loads are left out.
\<close>

section \<open>Wallpapers\<close>

definition ALLOWED_MIME :: "string list" where "ALLOWED_MIME = [''image/png'', ''image/jpeg'', ''image/webp'']"
definition MAX_BYTES :: nat where "MAX_BYTES = 5 * 1024 * 1024"
definition WALLPAPER_KINDS :: "string list" where "WALLPAPER_KINDS = [''home'', ''lock'']"
definition FIT_MODES :: "string list" where "FIT_MODES = [''contain'', ''cover'', ''stretch'']"

record wallpaper_row =
  wp_profile :: string
  wp_kind :: string
  wp_fit :: string
  wp_mime :: string
  wp_content :: string
  wp_uploaded :: instant

abbreviation wp_key :: "wallpaper_row \<Rightarrow> string \<times> string" where
  "wp_key r \<equiv> (wp_profile r, wp_kind r)"

definition get_blob :: "string \<Rightarrow> string \<Rightarrow> wallpaper_row list \<Rightarrow> wallpaper_row option" where
  "get_blob n kind ws = row_find wp_key (n, kind) ws"

definition list_existing :: "wallpaper_row list \<Rightarrow> (string \<times> string) list" where
  "list_existing ws = map wp_key ws"

datatype wallpaper_error = Bad_Kind | Bad_Fit | Bad_Mime | Empty_Content | Too_Large

definition wp_upsert ::
  "instant \<Rightarrow> string \<Rightarrow> string \<Rightarrow> string \<Rightarrow> string \<Rightarrow> string \<Rightarrow> wallpaper_row list \<Rightarrow> wallpaper_error + wallpaper_row list" where
  "wp_upsert now n content mime kind fit ws =
     (if kind \<notin> set WALLPAPER_KINDS then Inl Bad_Kind
      else if fit \<notin> set FIT_MODES then Inl Bad_Fit
      else if mime \<notin> set ALLOWED_MIME then Inl Bad_Mime
      else if content = [] then Inl Empty_Content
      else if MAX_BYTES < length content then Inl Too_Large
      else Inr (case get_blob n kind ws of
        Some _ \<Rightarrow> row_update wp_key (n, kind)
                    (\<lambda>r. r\<lparr>wp_mime := mime, wp_content := content, wp_fit := fit, wp_uploaded := now\<rparr>) ws
      | None \<Rightarrow> ws @ [\<lparr>wp_profile = n, wp_kind = kind, wp_fit = fit, wp_mime = mime, wp_content = content, wp_uploaded = now\<rparr>]))"

definition wp_delete :: "string \<Rightarrow> string \<Rightarrow> wallpaper_row list \<Rightarrow> bool \<times> wallpaper_row list" where
  "wp_delete n kind ws = (get_blob n kind ws \<noteq> None, row_delete wp_key (n, kind) ws)"

definition wp_delete_all :: "string \<Rightarrow> wallpaper_row list \<Rightarrow> wallpaper_row list" where
  "wp_delete_all n ws = row_delete wp_profile n ws"

text \<open>A new name that has a wallpaper of the same kind already breaks the unique constraint (\<^const>\<open>None\<close>).\<close>

definition wp_rename :: "string \<Rightarrow> string \<Rightarrow> wallpaper_row list \<Rightarrow> wallpaper_row list option" where
  "wp_rename old new ws =
     (let ws' = map (\<lambda>r. if wp_profile r = old then r\<lparr>wp_profile := new\<rparr> else r) ws
      in if distinct (keys_of wp_key ws') then Some ws' else None)"

text \<open>The default images fill the slots that are empty.\<close>

definition seed_slot :: "(profile \<Rightarrow> string \<Rightarrow> string) \<Rightarrow> instant \<Rightarrow> profile \<Rightarrow> wallpaper_row list \<Rightarrow> string \<Rightarrow> wallpaper_row list" where
  "seed_slot generate now p ws kind =
     (case get_blob (pr_name p) kind ws of
        Some _ \<Rightarrow> ws
      | None \<Rightarrow> (case wp_upsert now (pr_name p) (generate p kind) ''image/png'' kind ''cover'' ws of Inl _ \<Rightarrow> ws | Inr ws' \<Rightarrow> ws'))"

definition seed_default_wallpapers :: "(profile \<Rightarrow> string \<Rightarrow> string) \<Rightarrow> instant \<Rightarrow> profile \<Rightarrow> wallpaper_row list \<Rightarrow> wallpaper_row list" where
  "seed_default_wallpapers generate now p ws = foldl (seed_slot generate now p) ws [''home'', ''lock'']"

section \<open>What the requests read and change\<close>

record 'd prof_world =
  pw_db :: profile_db
  pw_walls :: "wallpaper_row list"
  pw_ha :: "ha_meta option"
  pw_files :: "string files"
  pw_dev :: 'd

text \<open>
  What a request finds outside: the clock, the catalogues and settings, the encoder, the images (a studio image can
  fail, a resizing too), and the device: which directories can be made, which uploads succeed, what it answers.
\<close>

record ('d, 'r) prof_env =
  en_now :: instant
  en_wifi :: "ssid_public list"
  en_networks :: "network_row list"
  en_admin_ips :: "string list"
  en_tor :: tor_global
  en_json :: "'r agent_payload \<Rightarrow> string"
  en_default :: "profile \<Rightarrow> string \<Rightarrow> string"
  en_studio :: "profile \<Rightarrow> string \<Rightarrow> string option"
  en_loading :: "profile \<Rightarrow> string option"
  en_resize :: "string \<Rightarrow> string \<Rightarrow> string option"
  en_mkdir :: "string \<Rightarrow> bool"
  en_put :: "string \<Rightarrow> bool"
  en_ssh :: ssh_answers
  en_cycle :: "raw_step list option"
  en_cycle_env :: "string cycle_env"
  en_loads :: "string \<Rightarrow> json option"
  en_run :: "'d runner"

datatype route_error = E_400 | E_404 | E_409 | E_413 | E_500 | E_502

definition route_error_of :: "profile_error \<Rightarrow> route_error" where
  "route_error_of e = (case e of Bad_Name \<Rightarrow> E_400 | Not_Found _ \<Rightarrow> E_404 | Duplicate _ \<Rightarrow> E_409 | Immutable _ \<Rightarrow> E_409)"

section \<open>Synchronisation\<close>

text \<open>
  What the pushes of this file read. The requests on one profile are given the settings of Tor and no whitelist of
  administrators, the synchronisation of everything the whitelist and no settings of Tor; neither is given the radios.
\<close>

definition no_tor :: tor_global where
  "no_tor = \<lparr>tg_daemon_enabled = False, tg_use_bridges = False, tg_bridge_lines = [], tg_exit_country_code = []\<rparr>"

definition one_sources :: "('d, 'r) prof_env \<Rightarrow> wallpaper_row list \<Rightarrow> 'r sync_sources" where
  "one_sources env ws =
     \<lparr>ss_wifi = en_wifi env, ss_networks = en_networks env, ss_admin_ips = [], ss_tor = en_tor env, ss_radio = None,
      ss_wallpapers = list_existing ws\<rparr>"

definition all_sources :: "('d, 'r) prof_env \<Rightarrow> wallpaper_row list \<Rightarrow> 'r sync_sources" where
  "all_sources env ws =
     \<lparr>ss_wifi = en_wifi env, ss_networks = en_networks env, ss_admin_ips = en_admin_ips env, ss_tor = no_tor, ss_radio = None,
      ss_wallpapers = list_existing ws\<rparr>"

definition push_profiles ::
  "('d, 'r) prof_env \<Rightarrow> 'r sync_sources \<Rightarrow> profile list \<Rightarrow> string files \<Rightarrow> sync_report \<times> string files" where
  "push_profiles env src ps files = sync_profiles (en_json env) (en_mkdir env REMOTE_PROFILES_DIR) (en_put env) src ps files"

definition stamp :: "('d, 'r) prof_env \<Rightarrow> string \<Rightarrow> profile_db \<Rightarrow> profile_db" where
  "stamp env n db = ps_mark_synced (en_now env) (en_now env) n db"

definition sync_one_to_slate :: "('d, 'r) prof_env \<Rightarrow> profile \<Rightarrow> 'd prof_world \<Rightarrow> sync_report \<times> 'd prof_world" where
  "sync_one_to_slate env p w =
     (case push_profiles env (one_sources env (pw_walls w)) [p] (pw_files w) of (rep, files) \<Rightarrow>
        (rep, w\<lparr>pw_files := files,
                pw_db := (if sync_ok rep \<and> list_ex (py_contains (pr_name p)) (sy_pushed rep)
                          then stamp env (pr_name p) (pw_db w) else pw_db w)\<rparr>))"

definition wallpaper_blob :: "('d, 'r) prof_env \<Rightarrow> wallpaper_row list \<Rightarrow> string \<Rightarrow> string \<Rightarrow> string blob" where
  "wallpaper_blob env ws n kind =
     (case get_blob n kind ws of
        None \<Rightarrow> No_Blob
      | Some r \<Rightarrow> (case en_resize env (wp_content r) (wp_fit r) of None \<Rightarrow> Resize_Error | Some png \<Rightarrow> Resized png))"

definition push_screens :: "('d, 'r) prof_env \<Rightarrow> profile list \<Rightarrow> string files \<Rightarrow> sync_report \<times> string files" where
  "push_screens env ps files = sync_loading_screens (en_loading env) (en_mkdir env REMOTE_SCREENS_DIR) (en_put env) ps files"

definition push_wallpapers ::
  "('d, 'r) prof_env \<Rightarrow> wallpaper_row list \<Rightarrow> profile list \<Rightarrow> string files \<Rightarrow> sync_report \<times> string files" where
  "push_wallpapers env ws ps files =
     sync_profile_wallpapers (wallpaper_blob env ws) (en_mkdir env REMOTE_WALLPAPERS_DIR) (en_put env) ps files"

text \<open>The synchronisation of everything (the agent's page).\<close>

definition agent_sync :: "('d, 'r) prof_env \<Rightarrow> 'd prof_world \<Rightarrow> bool \<times> 'd prof_world" where
  "agent_sync env w =
     (let ps = map payload (ps_list_all (pw_db w));
          (json, f1) = push_profiles env (all_sources env (pw_walls w)) ps (pw_files w);
          (screens, f2) = push_screens env ps f1;
          (walls, f3) = push_wallpapers env (pw_walls w) ps f2;
          (cyc, f4) = sync_button_cycle (en_cycle_env env) (get_cycle (en_cycle env)) (ps_get_active_name (pw_db w)) f3
      in (sync_ok json \<and> sync_ok screens \<and> sync_ok walls \<and> sync_ok cyc, w\<lparr>pw_files := f4\<rparr>))"

section \<open>Requests on profiles\<close>

definition create_profile_route :: "('d, 'r) prof_env \<Rightarrow> profile \<Rightarrow> 'd prof_world \<Rightarrow> route_error + (profile_row \<times> 'd prof_world)" where
  "create_profile_route env p w =
     (case ps_create (en_now env) p User (pw_db w) of
        Inl e \<Rightarrow> Inl (route_error_of e)
      | Inr (row, db) \<Rightarrow>
          Inr (row, w\<lparr>pw_db := db, pw_walls := seed_default_wallpapers (en_default env) (en_now env) (payload row) (pw_walls w)\<rparr>))"

definition update_profile_route :: "('d, 'r) prof_env \<Rightarrow> string \<Rightarrow> profile \<Rightarrow> 'd prof_world \<Rightarrow> route_error + 'd prof_world" where
  "update_profile_route env n p w =
     (case ps_update (en_now env) n p (pw_db w) of
        Inl e \<Rightarrow> Inl (route_error_of e)
      | Inr db \<Rightarrow> Inr (snd (sync_one_to_slate env (p\<lparr>pr_name := n\<rparr>) (w\<lparr>pw_db := db\<rparr>))))"

definition sync_profile_route :: "('d, 'r) prof_env \<Rightarrow> string \<Rightarrow> 'd prof_world \<Rightarrow> route_error + (sync_report \<times> 'd prof_world)" where
  "sync_profile_route env n w =
     (case ps_get (pw_db w) n of
        Inl e \<Rightarrow> Inl (route_error_of e) | Inr row \<Rightarrow> Inr (sync_one_to_slate env (payload row) w))"

definition delete_profile_route :: "string \<Rightarrow> 'd prof_world \<Rightarrow> route_error + 'd prof_world" where
  "delete_profile_route n w =
     (case ps_delete n (pw_db w) of
        Inl e \<Rightarrow> Inl (route_error_of e) | Inr db \<Rightarrow> Inr (w\<lparr>pw_db := db, pw_walls := wp_delete_all n (pw_walls w)\<rparr>))"

definition duplicate_profile_route :: "('d, 'r) prof_env \<Rightarrow> string \<Rightarrow> string \<Rightarrow> 'd prof_world \<Rightarrow> route_error + (profile_row \<times> 'd prof_world)" where
  "duplicate_profile_route env n new w =
     (case ps_duplicate (en_now env) n new (pw_db w) of
        Inl e \<Rightarrow> Inl (route_error_of e) | Inr (row, db) \<Rightarrow> Inr (row, w\<lparr>pw_db := db\<rparr>))"

text \<open>\<open>db_ok\<close>: the database answers.\<close>

definition get_active_profile :: "('d, 'r) prof_env \<Rightarrow> 'd prof_world \<Rightarrow> (string \<times> profile) option \<times> 'd prof_world" where
  "get_active_profile env w =
     (case resolve_active_name (en_ssh env) True True (pw_db w) of (active, db) \<Rightarrow>
        (case active of
           None \<Rightarrow> None
         | Some n \<Rightarrow> (case ps_get db n of Inl _ \<Rightarrow> None | Inr row \<Rightarrow> Some (n, payload row)),
         w\<lparr>pw_db := db\<rparr>))"

section \<open>Requests on wallpapers\<close>

definition upload_wallpaper ::
  "('d, 'r) prof_env \<Rightarrow> string \<Rightarrow> string \<Rightarrow> string \<Rightarrow> string \<Rightarrow> string \<Rightarrow> 'd prof_world \<Rightarrow> route_error + 'd prof_world" where
  "upload_wallpaper env n kind fit content mime w =
     (if kind \<notin> set WALLPAPER_KINDS \<or> fit \<notin> set FIT_MODES then Inl E_400
      else case ps_get (pw_db w) n of
        Inl e \<Rightarrow> Inl (route_error_of e)
      | Inr _ \<Rightarrow>
          if MAX_BYTES < length content then Inl E_413
          else if py_lower mime \<notin> set ALLOWED_MIME then Inl E_400
          else (case wp_upsert (en_now env) n content (py_lower mime) kind fit (pw_walls w) of
             Inl _ \<Rightarrow> Inl E_400 | Inr ws \<Rightarrow> Inr (w\<lparr>pw_walls := ws\<rparr>)))"

definition delete_wallpaper_route :: "string \<Rightarrow> string \<Rightarrow> 'd prof_world \<Rightarrow> route_error + 'd prof_world" where
  "delete_wallpaper_route n kind w =
     (if kind \<notin> set WALLPAPER_KINDS then Inl E_400
      else case wp_delete n kind (pw_walls w) of (ok, ws) \<Rightarrow> if ok then Inr (w\<lparr>pw_walls := ws\<rparr>) else Inl E_404)"

definition studio_apply :: "('d, 'r) prof_env \<Rightarrow> string \<Rightarrow> string \<Rightarrow> 'd prof_world \<Rightarrow> route_error + 'd prof_world" where
  "studio_apply env n kind w =
     (if kind \<notin> set WALLPAPER_KINDS then Inl E_400
      else case ps_get (pw_db w) n of
        Inl e \<Rightarrow> Inl (route_error_of e)
      | Inr row \<Rightarrow>
          (case en_studio env (payload row) kind of
             None \<Rightarrow> Inl E_500
           | Some png \<Rightarrow> (case wp_upsert (en_now env) n png ''image/png'' kind ''cover'' (pw_walls w) of
                            Inl _ \<Rightarrow> Inl E_500 | Inr ws \<Rightarrow> Inr (w\<lparr>pw_walls := ws\<rparr>))))"

definition seed_defaults_route :: "('d, 'r) prof_env \<Rightarrow> string \<Rightarrow> 'd prof_world \<Rightarrow> route_error + 'd prof_world" where
  "seed_defaults_route env n w =
     (case ps_get (pw_db w) n of
        Inl e \<Rightarrow> Inl (route_error_of e)
      | Inr row \<Rightarrow> Inr (w\<lparr>pw_walls := seed_default_wallpapers (en_default env) (en_now env) (payload row) (pw_walls w)\<rparr>))"

section \<open>The screen\<close>

definition KIND_TO_PATHS :: "(string \<times> string list) list" where
  "KIND_TO_PATHS =
     [(''home'', [''/etc/gl_screen/wallpaper_home.png'', ''/etc/gl_screen/image/wallpaper.png'',
                  ''/etc/gl_screen/image/wallpaper_home_style_default.png'']),
      (''lock'', [''/etc/gl_screen/wallpaper_wake_display.png'', ''/etc/gl_screen/image/wallpaper_wake_display_style1.png'',
                  ''/etc/gl_screen/image/wallpaper_wake_display_style2.png''])]"

record screen_report =
  sr_skipped :: bool
  sr_written :: "string list"
  sr_errors :: "string list"

text \<open>The image of a kind: the stored one, or one from the studio.\<close>

definition screen_image :: "('d, 'r) prof_env \<Rightarrow> wallpaper_row list \<Rightarrow> profile \<Rightarrow> string \<Rightarrow> string option" where
  "screen_image env ws p kind =
     (case get_blob (pr_name p) kind ws of
        Some r \<Rightarrow> en_resize env (wp_content r) (wp_fit r)
      | None \<Rightarrow> Option.bind (en_studio env p kind) (\<lambda>png. en_resize env png ''cover''))"

definition push_screen_file :: "('d, 'r) prof_env \<Rightarrow> string \<Rightarrow> screen_report \<times> string files \<Rightarrow> string \<Rightarrow> screen_report \<times> string files" where
  "push_screen_file env png st path =
     (case st of (rep, files) \<Rightarrow>
      if en_put env path then (rep\<lparr>sr_written := sr_written rep @ [path]\<rparr>, files(path \<mapsto> png))
      else (rep\<lparr>sr_errors := sr_errors rep @ [path]\<rparr>, files))"

definition push_screen_kind ::
  "('d, 'r) prof_env \<Rightarrow> wallpaper_row list \<Rightarrow> profile \<Rightarrow> screen_report \<times> string files \<Rightarrow> string \<times> string list \<Rightarrow> screen_report \<times> string files" where
  "push_screen_kind env ws p st x =
     (case screen_image env ws p (fst x) of
        None \<Rightarrow> ((fst st)\<lparr>sr_errors := sr_errors (fst st) @ [fst x]\<rparr>, snd st)
      | Some png \<Rightarrow> foldl (push_screen_file env png) st (snd x))"

definition screen_step_failed :: "string \<Rightarrow> screen_report \<Rightarrow> screen_report" where
  "screen_step_failed what rep = rep\<lparr>sr_errors := sr_errors rep @ [what]\<rparr>"

definition PAIR_GET :: string where "PAIR_GET = ''uci get gl_screen.generic.WALLPAPER_PAIR 2>/dev/null''"
definition PAIR_SET :: string where
  "PAIR_SET = ''uci set gl_screen.generic.WALLPAPER_PAIR=0 && uci commit gl_screen && /etc/init.d/gl_screen reload''"
definition SCREEN_RESTART :: string where "SCREEN_RESTART = ''/etc/init.d/gl_screen restart 2>&1''"

definition unpair_screens :: "ssh_answers \<Rightarrow> screen_report \<Rightarrow> screen_report" where
  "unpair_screens ssh rep =
     (case ssh PAIR_GET of
        None \<Rightarrow> screen_step_failed ''WALLPAPER_PAIR'' rep
      | Some (_, out) \<Rightarrow>
          if py_strip out = ''0'' then rep
          else (case ssh PAIR_SET of
            Some (st, _) \<Rightarrow> if st = 0 then rep else screen_step_failed ''WALLPAPER_PAIR'' rep
          | None \<Rightarrow> screen_step_failed ''WALLPAPER_PAIR'' rep))"

definition restart_screen :: "ssh_answers \<Rightarrow> screen_report \<Rightarrow> screen_report" where
  "restart_screen ssh rep =
     (case ssh SCREEN_RESTART of
        Some (st, _) \<Rightarrow> if st = 0 then rep else screen_step_failed ''restart'' rep
      | None \<Rightarrow> screen_step_failed ''restart'' rep)"

definition apply_screen_wallpaper ::
  "('d, 'r) prof_env \<Rightarrow> wallpaper_row list \<Rightarrow> profile \<Rightarrow> string files \<Rightarrow> screen_report \<times> string files" where
  "apply_screen_wallpaper env ws p files =
     (case foldl (push_screen_kind env ws p) (\<lparr>sr_skipped = False, sr_written = [], sr_errors = []\<rparr>, files) KIND_TO_PATHS of
        (rep, files') \<Rightarrow>
          if sr_written rep = [] then (rep\<lparr>sr_skipped := True\<rparr>, files')
          else (restart_screen (en_ssh env) (unpair_screens (en_ssh env) rep), files'))"

definition regenerate_slot :: "('d, 'r) prof_env \<Rightarrow> nat \<times> nat \<times> wallpaper_row list \<Rightarrow> profile \<times> string \<Rightarrow> nat \<times> nat \<times> wallpaper_row list" where
  "regenerate_slot env st x =
     (case (st, x) of ((done, bad, ws), (p, kind)) \<Rightarrow>
      case en_studio env p kind of
        None \<Rightarrow> (done, Suc bad, ws)
      | Some png \<Rightarrow> (case wp_upsert (en_now env) (pr_name p) png ''image/png'' kind ''cover'' ws of
                       Inl _ \<Rightarrow> (done, Suc bad, ws) | Inr ws' \<Rightarrow> (Suc done, bad, ws')))"

definition regenerate_all :: "('d, 'r) prof_env \<Rightarrow> 'd prof_world \<Rightarrow> (nat \<times> nat \<times> screen_report option) \<times> 'd prof_world" where
  "regenerate_all env w =
     (let slots = concat (map (\<lambda>r. map (Pair (payload r)) [''home'', ''lock'']) (ps_list_all (pw_db w)));
          (n, bad, ws) = foldl (regenerate_slot env) (0, 0, pw_walls w) slots; w1 = w\<lparr>pw_walls := ws\<rparr>
      in case ps_get_active_name (pw_db w) of
           None \<Rightarrow> ((n, bad, None), w1)
         | Some active \<Rightarrow>
             (case ps_get (pw_db w) active of
                Inl _ \<Rightarrow> ((n, bad, Some \<lparr>sr_skipped = False, sr_written = [], sr_errors = [''push failed'']\<rparr>), w1)
              | Inr row \<Rightarrow>
                  (case apply_screen_wallpaper env ws (payload row) (pw_files w) of (rep, files) \<Rightarrow>
                     ((n, bad, Some rep), w1\<lparr>pw_files := files\<rparr>))))"

section \<open>Activation\<close>

definition VERSION_CMD :: string where "VERSION_CMD = ''/usr/local/bin/slate-ctrl version 2>/dev/null''"

definition get_agent_version :: "ssh_answers \<Rightarrow> string option" where
  "get_agent_version ssh = (case ssh VERSION_CMD of Some (st, out) \<Rightarrow> if st = 0 then Some (py_strip out) else None | None \<Rightarrow> None)"

record activation =
  ac_json :: "sync_report option"
  ac_agent :: "(bool \<times> string) option"
  ac_tailscale :: ts_report
  ac_screen :: "screen_report option"
  ac_reboot_pending :: bool

definition activate_via_agent :: "('d, 'r) prof_env \<Rightarrow> string \<Rightarrow> profile \<Rightarrow> 'd prof_world \<Rightarrow> activation \<times> 'd prof_world" where
  "activate_via_agent env n p w =
     (let (json, f1) = push_profiles env (one_sources env (pw_walls w)) [p] (pw_files w);
          db1 = (if sync_ok json then stamp env (pr_name p) (pw_db w) else pw_db w);
          f2 = snd (push_screens env [p] f1); f3 = snd (push_wallpapers env (pw_walls w) [p] f2);
          (ok, out) = apply_remote_profile (en_ssh env) n;
          (meta, rep) = apply_tailscale_ha_only (tailscale p) (pw_ha w)
      in (\<lparr>ac_json = Some json, ac_agent = Some (ok, out), ac_tailscale = rep, ac_screen = None,
           ac_reboot_pending = py_contains REBOOT_SENTINEL out\<rparr>,
          w\<lparr>pw_db := db1, pw_files := f3, pw_ha := meta\<rparr>))"

text \<open>Without the agent: an exception (\<^const>\<open>None\<close>) of the Tailscale step is not caught.\<close>

definition activate_via_controller :: "('d, 'r) prof_env \<Rightarrow> profile \<Rightarrow> 'd prof_world \<Rightarrow> activation option \<times> 'd prof_world" where
  "activate_via_controller env p w =
     (case apply_tailscale_profile (en_loads env) (en_run env) (tailscale p) (pw_dev w) (pw_ha w) of
        (d1, None) \<Rightarrow> (None, w\<lparr>pw_dev := d1\<rparr>)
      | (d1, Some (meta, rep)) \<Rightarrow>
          (case apply_screen_wallpaper env (pw_walls w) p (pw_files w) of (screen, files) \<Rightarrow>
             (Some \<lparr>ac_json = None, ac_agent = None, ac_tailscale = rep, ac_screen = Some screen, ac_reboot_pending = False\<rparr>,
              w\<lparr>pw_dev := d1, pw_ha := meta, pw_files := files\<rparr>)))"

text \<open>The menu shows the new profile at once, or after the reboot that the agent has announced.\<close>

definition refresh_menu :: "('d, 'r) prof_env \<Rightarrow> string \<Rightarrow> 'd prof_world \<Rightarrow> 'd prof_world" where
  "refresh_menu env n w =
     (case refresh_button_cycle_active (en_cycle_env env) (get_cycle (en_cycle env)) (Some n) (pw_files w) of
        None \<Rightarrow> w | Some (_, files) \<Rightarrow> w\<lparr>pw_files := files\<rparr>)"

definition activate_profile :: "('d, 'r) prof_env \<Rightarrow> string \<Rightarrow> 'd prof_world \<Rightarrow> (route_error + activation) \<times> 'd prof_world" where
  "activate_profile env n w =
     (case ps_set_active n (pw_db w) of
        Inl e \<Rightarrow> (Inl (route_error_of e), w)
      | Inr db \<Rightarrow>
          let w1 = w\<lparr>pw_db := db\<rparr> in
          (case ps_get db n of
             Inl e \<Rightarrow> (Inl (route_error_of e), w1)
           | Inr row \<Rightarrow>
               (case (if get_agent_version (en_ssh env) = None then activate_via_controller env (payload row) w1
                      else apfst Some (activate_via_agent env n (payload row) w1)) of
                  (None, w2) \<Rightarrow> (Inl E_500, w2)
                | (Some ac, w2) \<Rightarrow> (Inr ac, if ac_reboot_pending ac then w2 else refresh_menu env n w2))))"

text \<open>The agent's page applies a profile without the pushes; the menu is refreshed on success.\<close>

definition agent_apply :: "('d, 'r) prof_env \<Rightarrow> string \<Rightarrow> 'd prof_world \<Rightarrow> (route_error + (bool \<times> string)) \<times> 'd prof_world" where
  "agent_apply env n w =
     (case ps_get (pw_db w) n of
        Inl _ \<Rightarrow> (Inl E_404, w)
      | Inr _ \<Rightarrow>
          (case apply_remote_profile (en_ssh env) n of (ok, out) \<Rightarrow>
             (Inr (ok, out), if ok \<and> \<not> py_contains REBOOT_SENTINEL out then refresh_menu env n w else w)))"

section \<open>What a device is told\<close>

lemma payload_of_sources:
  "tb_admin_only (pl_tailscale (payload_of src p)) = (ss_admin_ips src \<noteq> [])"
  "tb_admin_ips (pl_tailscale (payload_of src p)) = ss_admin_ips src"
  "pl_tor (payload_of src p) = tor_block (ss_tor src)" "pl_radio (payload_of src p) = ss_radio src"
  "pl_profile (payload_of src p) = p"
  by (simp_all add: payload_of_def add_wallpaper_block_def profile_to_agent_payload_def tailscale_block_def Let_def)

lemma put_file_writes: "snd (put_file put label path content st) = (if put path then (snd st)(path \<mapsto> content) else snd st)"
  by (simp add: put_file_def)

text \<open>The files of the profiles lie in a directory of their own: the other pushes leave them alone.\<close>

lemma other_directories:
  "profile_path n \<noteq> screen_path m" "profile_path n \<noteq> wallpaper_path m kind" "profile_path n \<noteq> CYCLE_PATH"
  "profile_path n \<noteq> frame_path i" "\<not> stale_frame k (profile_path n)"
  by (simp_all add: profile_path_def screen_path_def wallpaper_path_def frame_path_def CYCLE_PATH_def stale_frame_def
      REMOTE_PROFILES_DIR_def REMOTE_SCREENS_DIR_def REMOTE_WALLPAPERS_DIR_def REMOTE_MENUS_DIR_def Let_def)

lemma fold_keeps: "(\<And>st x. snd (step st x) f = snd st f) \<Longrightarrow> snd (foldl step st xs) f = snd st f"
  by (induction xs arbitrary: st) simp_all

lemma push_wallpaper_keeps: "snd (push_wallpaper blob put m st kind) (profile_path n) = snd st (profile_path n)"
  by (simp add: push_wallpaper_def put_file_writes other_directories split: blob.split)

lemma pushes_keep_profiles:
  "snd (push_screens env ps files) (profile_path n) = files (profile_path n)"
  "snd (push_wallpapers env ws ps files) (profile_path n) = files (profile_path n)"
  "snd (sync_button_cycle ce steps active files) (profile_path n) = files (profile_path n)"
proof -
  show "snd (push_screens env ps files) (profile_path n) = files (profile_path n)"
    by (auto simp: push_screens_def sync_loading_screens_def put_file_writes other_directories
        intro!: fold_keeps [of _ "profile_path n" "(empty_report, files)", simplified] split: option.split)
  show "snd (push_wallpapers env ws ps files) (profile_path n) = files (profile_path n)"
    by (auto simp: push_wallpapers_def sync_profile_wallpapers_def push_wallpaper_keeps
        intro!: fold_keeps [of _ "profile_path n" "(empty_report, files)", simplified])
  have "snd (foldl (push_frame ce) st fs) (profile_path n) = snd st (profile_path n)" for st fs
    by (rule fold_keeps) (simp add: push_frame_def put_file_writes other_directories split: option.split)
  then show "snd (sync_button_cycle ce steps active files) (profile_path n) = files (profile_path n)"
    by (auto simp: sync_button_cycle_def Let_def put_file_writes other_directories split: option.split)
qed

lemma refresh_keeps_profiles: "pw_files (refresh_menu env m w) (profile_path n) = pw_files w (profile_path n)"
proof -
  have "files (profile_path n) = pw_files w (profile_path n)"
    if "refresh_button_cycle_active (en_cycle_env env) (get_cycle (en_cycle env)) (Some m) (pw_files w) = Some (rep, files)" for rep files
    using that pushes_keep_profiles(3) [of "en_cycle_env env" "get_cycle (en_cycle env)" "Some m" "pw_files w" n]
    by (simp add: refresh_button_cycle_active_def split: if_splits)
  then show ?thesis by (simp add: refresh_menu_def split: option.split prod.split)
qed

lemma pushed_file:
  "en_mkdir env REMOTE_PROFILES_DIR \<and> en_put env (profile_path (pr_name p)) \<Longrightarrow>
   push_profiles env src [p] files =
     (pushed (pr_name p) empty_report, files(profile_path (pr_name p) \<mapsto> en_json env (payload_of src p)))"
  "\<not> (en_mkdir env REMOTE_PROFILES_DIR \<and> en_put env (profile_path (pr_name p))) \<Longrightarrow>
   \<not> sync_ok (fst (push_profiles env src [p] files)) \<and> snd (push_profiles env src [p] files) = files"
  by (auto simp: push_profiles_def sync_profiles_def put_file_def sync_ok_def failed_def)

lemma pushed_ok [simp]: "sync_ok (pushed n empty_report)"
  by (simp add: sync_ok_def pushed_def empty_report_def)

text \<open>The files that the synchronisation of everything writes: the payload of some profile with the same path.\<close>

lemma pushed_files:
  assumes "en_mkdir env REMOTE_PROFILES_DIR" "p \<in> set ps" "en_put env (profile_path (pr_name p))"
  shows "\<exists>q. snd (push_profiles env src ps files) (profile_path (pr_name p)) = Some (en_json env (payload_of src q))"
proof -
  let ?f = "profile_path (pr_name p)"
  let ?step = "\<lambda>st q. put_file (en_put env) (pr_name q) (profile_path (pr_name q)) (en_json env (payload_of src q)) st"
  have kept: "\<exists>q. snd (foldl ?step st qs) ?f = Some (en_json env (payload_of src q))"
    if "\<exists>q. snd st ?f = Some (en_json env (payload_of src q))" for st qs
    using that
  proof (induction qs arbitrary: st)
    case (Cons q qs)
    have "\<exists>q'. snd (?step st q) ?f = Some (en_json env (payload_of src q'))" using Cons.prems by (auto simp: put_file_writes)
    from Cons.IH [OF this] show ?case by simp
  qed simp
  have "\<exists>q. snd (foldl ?step st ps) ?f = Some (en_json env (payload_of src q))" for st
    using assms(2)
  proof (induction ps arbitrary: st)
    case (Cons q ps)
    show ?case
    proof (cases "q = p")
      case True
      then show ?thesis using kept [of "?step st p" ps] assms(3) by (auto simp: put_file_writes)
    qed (use Cons in auto)
  qed simp
  then show ?thesis using assms(1) by (simp add: push_profiles_def sync_profiles_def)
qed

section \<open>Activation through the agent\<close>

lemma refresh_menu_fields [simp]:
  "pw_db (refresh_menu env n w) = pw_db w" "pw_walls (refresh_menu env n w) = pw_walls w"
  "pw_ha (refresh_menu env n w) = pw_ha w" "pw_dev (refresh_menu env n w) = pw_dev w"
  by (simp_all add: refresh_menu_def split: option.split prod.split)

definition marked :: "string \<Rightarrow> profile_db \<Rightarrow> profile_db" where
  "marked n db = db\<lparr>app_state := dict_set ACTIVE_PROFILE_KEY n (app_state db)\<rparr>"

lemma set_active_marked: "ps_lookup db n = Some row \<Longrightarrow> ps_set_active n db = Inr (marked n db)"
  by (simp add: ps_set_active_def marked_def ps_lookup_def)

lemma lookup_marked [simp]: "ps_lookup (marked n db) k = ps_lookup db k"
  by (simp add: marked_def ps_lookup_def)

lemma active_marked [simp]: "n \<noteq> [] \<Longrightarrow> ps_get_active_name (marked n db) = Some n"
  by (simp add: marked_def ps_get_active_name_def)

lemma get_lookup: "ps_get db n = (case ps_lookup db n of None \<Rightarrow> Inl (Not_Found n) | Some r \<Rightarrow> Inr r)"
  by (simp add: ps_get_def ps_lookup_def)

lemma stamp_lookup: "ps_lookup db n = Some row \<Longrightarrow> ps_lookup (stamp env n db) n
    = Some (row\<lparr>last_synced_at := Some (en_now env), updated_at := en_now env\<rparr>)"
  by (simp add: stamp_def ps_mark_synced_def ps_lookup_def)

lemma stamp_active [simp]: "ps_get_active_name (stamp env n db) = ps_get_active_name db"
  by (simp add: stamp_def ps_mark_synced_def ps_get_active_name_def split: option.split)

text \<open>The state after the agent's part of an activation.\<close>

lemma agent_part:
  assumes "pr_name p = n" "up = (en_mkdir env REMOTE_PROFILES_DIR \<and> en_put env (profile_path n))"
  shows "ac_agent (fst (activate_via_agent env n p w)) = Some (apply_remote_profile (en_ssh env) n)"
    "pw_db (snd (activate_via_agent env n p w)) = (if up then stamp env n (pw_db w) else pw_db w)"
    "pw_files (snd (activate_via_agent env n p w)) (profile_path n)
      = (if up then Some (en_json env (payload_of (one_sources env (pw_walls w)) p)) else pw_files w (profile_path n))"
    "pw_ha (snd (activate_via_agent env n p w)) = fst (apply_tailscale_ha_only (tailscale p) (pw_ha w))"
    "pw_walls (snd (activate_via_agent env n p w)) = pw_walls w" "pw_dev (snd (activate_via_agent env n p w)) = pw_dev w"
proof -
  let ?src = "one_sources env (pw_walls w)"
  show "pw_db (snd (activate_via_agent env n p w)) = (if up then stamp env n (pw_db w) else pw_db w)"
    using pushed_file [of env p ?src "pw_files w"] assms by (auto simp: activate_via_agent_def Let_def split: prod.splits)
  show "pw_files (snd (activate_via_agent env n p w)) (profile_path n)
      = (if up then Some (en_json env (payload_of ?src p)) else pw_files w (profile_path n))"
    using pushed_file [of env p ?src "pw_files w"] assms
    by (auto simp: activate_via_agent_def Let_def pushes_keep_profiles split: prod.splits)
qed (simp_all add: activate_via_agent_def Let_def split: prod.splits)

lemma activation_through_agent:
  assumes "ps_lookup (pw_db w) n = Some row" "get_agent_version (en_ssh env) \<noteq> None"
    and "st = activate_via_agent env n (payload row) (w\<lparr>pw_db := marked n (pw_db w)\<rparr>)"
  shows "activate_profile env n w = (Inr (fst st), if ac_reboot_pending (fst st) then snd st else refresh_menu env n (snd st))"
proof -
  obtain v where "get_agent_version (en_ssh env) = Some v" using assms(2) by auto
  then show ?thesis
    using assms(1) by (simp add: activate_profile_def set_active_marked get_lookup Let_def assms(3) [symmetric] split_beta)
qed

text \<open>
  C29. What an activation does. For a profile that exists, on a device with the agent: the marker, the watchdog's
  configuration and the agent's answer are as the profile and the device say, the profile is stamped as synchronised
  exactly when its file has been uploaded, and then the file holds its payload. When the upload fails, the agent is
  nevertheless told to apply whatever file it has, and the request succeeds.
\<close>

theorem activation_outcome:
  assumes "ps_lookup (pw_db w) n = Some row" "pr_name (payload row) = n" "n \<noteq> []" "get_agent_version (en_ssh env) \<noteq> None"
  shows "let w' = snd (activate_profile env n w); up = (en_mkdir env REMOTE_PROFILES_DIR \<and> en_put env (profile_path n)) in
    (\<exists>ac. fst (activate_profile env n w) = Inr ac \<and> ac_agent ac = Some (apply_remote_profile (en_ssh env) n))
    \<and> ps_get_active_name (pw_db w') = Some n
    \<and> ps_lookup (pw_db w') n = Some (if up then row\<lparr>last_synced_at := Some (en_now env), updated_at := en_now env\<rparr> else row)
    \<and> pw_files w' (profile_path n)
      = (if up then Some (en_json env (payload_of (one_sources env (pw_walls w)) (payload row))) else pw_files w (profile_path n))
    \<and> pw_ha w' = fst (apply_tailscale_ha_only (tailscale (payload row)) (pw_ha w))
    \<and> pw_walls w' = pw_walls w \<and> pw_dev w' = pw_dev w"
proof -
  define st where "st = activate_via_agent env n (payload row) (w\<lparr>pw_db := marked n (pw_db w)\<rparr>)"
  note whole = activation_through_agent [OF assms(1,4) st_def]
  note part = agent_part [OF assms(2) refl, of env "w\<lparr>pw_db := marked n (pw_db w)\<rparr>", folded st_def]
  have "ps_lookup (pw_db (snd st)) n = Some (if en_mkdir env REMOTE_PROFILES_DIR \<and> en_put env (profile_path n)
      then row\<lparr>last_synced_at := Some (en_now env), updated_at := en_now env\<rparr> else row)"
    using part(2) assms(1) by (simp add: stamp_lookup)
  with part assms(3) show ?thesis by (auto simp: whole refresh_keeps_profiles Let_def)
qed

text \<open>
  C9. An activation opens the administration to the whole tailnet. Whatever whitelist of administrators is stored, the
  file that an activation uploads has the enforcement switched off and no radio settings, although the synchronisation
  of everything writes the whitelist into each file; and that synchronisation in turn writes that Tor is off,
  whatever the settings of Tor say.
\<close>

theorem pushes_undo_each_other:
  assumes "ps_lookup (pw_db w) n = Some row" "pr_name (payload row) = n" "get_agent_version (en_ssh env) \<noteq> None"
    and "en_mkdir env REMOTE_PROFILES_DIR" "en_put env (profile_path n)"
  shows "(\<exists>pl. pw_files (snd (agent_sync env w)) (profile_path n) = Some (en_json env pl)
      \<and> tb_admin_only (pl_tailscale pl) = (en_admin_ips env \<noteq> []) \<and> tb_admin_ips (pl_tailscale pl) = en_admin_ips env
      \<and> \<not> tr_enabled (pl_tor pl) \<and> pl_radio pl = None)
    \<and> (\<exists>pl. pw_files (snd (activate_profile env n w)) (profile_path n) = Some (en_json env pl)
      \<and> pl_profile pl = payload row \<and> \<not> tb_admin_only (pl_tailscale pl) \<and> tb_admin_ips (pl_tailscale pl) = []
      \<and> tr_enabled (pl_tor pl) = tg_daemon_enabled (en_tor env) \<and> pl_radio pl = None)"
proof
  let ?ps = "map payload (ps_list_all (pw_db w))"
  have "row \<in> set (profile_rows (pw_db w))" using assms(1) by (auto simp: ps_lookup_def dest: row_find_key)
  then have "payload row \<in> set ?ps" by (simp add: ps_list_all_def)
  then obtain q where "snd (push_profiles env (all_sources env (pw_walls w)) ?ps (pw_files w)) (profile_path n)
      = Some (en_json env (payload_of (all_sources env (pw_walls w)) q))"
    using pushed_files [of env "payload row" ?ps "all_sources env (pw_walls w)" "pw_files w"] assms(2,4,5) by auto
  then have "pw_files (snd (agent_sync env w)) (profile_path n) = Some (en_json env (payload_of (all_sources env (pw_walls w)) q))"
    by (simp add: agent_sync_def Let_def split_beta pushes_keep_profiles)
  then show "\<exists>pl. pw_files (snd (agent_sync env w)) (profile_path n) = Some (en_json env pl)
      \<and> tb_admin_only (pl_tailscale pl) = (en_admin_ips env \<noteq> []) \<and> tb_admin_ips (pl_tailscale pl) = en_admin_ips env
      \<and> \<not> tr_enabled (pl_tor pl) \<and> pl_radio pl = None"
    by (intro exI [of _ "payload_of (all_sources env (pw_walls w)) q"])
      (simp add: payload_of_sources all_sources_def tor_block_def no_tor_def)
  define st where "st = activate_via_agent env n (payload row) (w\<lparr>pw_db := marked n (pw_db w)\<rparr>)"
  have "pw_files (snd st) (profile_path n) = Some (en_json env (payload_of (one_sources env (pw_walls w)) (payload row)))"
    using agent_part(3) [OF assms(2) refl, of env "w\<lparr>pw_db := marked n (pw_db w)\<rparr>"] assms(4,5) by (simp add: st_def)
  then have "pw_files (snd (activate_profile env n w)) (profile_path n)
      = Some (en_json env (payload_of (one_sources env (pw_walls w)) (payload row)))"
    by (simp add: activation_through_agent [OF assms(1,3) st_def] refresh_keeps_profiles)
  then show "\<exists>pl. pw_files (snd (activate_profile env n w)) (profile_path n) = Some (en_json env pl)
      \<and> pl_profile pl = payload row \<and> \<not> tb_admin_only (pl_tailscale pl) \<and> tb_admin_ips (pl_tailscale pl) = []
      \<and> tr_enabled (pl_tor pl) = tg_daemon_enabled (en_tor env) \<and> pl_radio pl = None"
    by (intro exI [of _ "payload_of (one_sources env (pw_walls w)) (payload row)"])
      (simp add: payload_of_sources one_sources_def tor_block_def)
qed

text \<open>
  C15. Without the agent, a profile with Tailscale enabled and connection overrides cannot be activated: the request
  fails with an exception, after the marker has been moved to it and before anything has been done.
\<close>

theorem fallback_crashes:
  assumes "ps_lookup (pw_db w) n = Some row" "get_agent_version (en_ssh env) = None"
    and "ts_enabled (tailscale (payload row))" "connection (tailscale (payload row)) \<noteq> None"
  shows "activate_profile env n w = (Inl E_500, w\<lparr>pw_db := marked n (pw_db w)\<rparr>)"
proof -
  obtain c where "connection (tailscale (payload row)) = Some c" using assms(4) by auto
  then show ?thesis
    using assms(1-3)
    by (simp add: activate_profile_def set_active_marked get_lookup Let_def activate_via_controller_def apply_tailscale_profile_def)
qed

section \<open>A device\<close>

text \<open>A device that has the agent and takes every file; a file says whether it restricts the administration.\<close>

definition sample_cycle_env :: "string cycle_env" where
  "sample_cycle_env = \<lparr>ce_put = (\<lambda>_. True), ce_mkdir_ok = True, ce_render = (\<lambda>_ _. Some []), ce_rgb565 = Some, ce_prune_ok = True,
     ce_json = (\<lambda>_. [])\<rparr>"

definition sample_prof_env :: "(unit, unit) prof_env" where
  "sample_prof_env =
     \<lparr>en_now = 7, en_wifi = [], en_networks = [], en_admin_ips = [''100.64.0.5''],
      en_tor = \<lparr>tg_daemon_enabled = True, tg_use_bridges = False, tg_bridge_lines = [], tg_exit_country_code = []\<rparr>,
      en_json = (\<lambda>pl. (if tb_admin_only (pl_tailscale pl) then ''restricted'' else ''open'')
                       @ (if tr_enabled (pl_tor pl) then '' with Tor'' else '' without Tor'')),
      en_default = (\<lambda>_ _. ''png''), en_studio = (\<lambda>_ _. None), en_loading = (\<lambda>_. None), en_resize = (\<lambda>_ _. None),
      en_mkdir = (\<lambda>_. True), en_put = (\<lambda>_. True), en_ssh = (\<lambda>cmd. if cmd = VERSION_CMD then Some (0, ''1.0'') else None),
      en_cycle = None, en_cycle_env = sample_cycle_env, en_loads = (\<lambda>_. None), en_run = (\<lambda>d _. (d, Inl []))\<rparr>"

definition sample_world :: "profile \<Rightarrow> unit prof_world" where
  "sample_world p =
     \<lparr>pw_db = \<lparr>profile_rows = [new_profile_row 0 User p], app_state = []\<rparr>, pw_walls = [], pw_ha = None, pw_files = Map.empty, pw_dev = ()\<rparr>"

lemma sample_lookup: "pr_name p = n \<Longrightarrow> ps_lookup (pw_db (sample_world p)) n = Some (new_profile_row 0 User p)"
  by (simp add: sample_world_def ps_lookup_def)

lemma sample_version: "get_agent_version (en_ssh sample_prof_env) \<noteq> None"
  by (simp add: get_agent_version_def sample_prof_env_def)

lemma activation_outcome_witness:
  "ps_get_active_name (pw_db (snd (activate_profile sample_prof_env ''mission'' (sample_world (default_profile ''mission''))))) = Some ''mission''"
proof -
  have "pr_name (default_profile ''mission'') = ''mission''" by (simp add: default_profile_def)
  from activation_outcome [OF sample_lookup [OF this], of sample_prof_env] sample_version this show ?thesis
    by (simp add: Let_def new_profile_row_def)
qed

lemma pushes_undo_each_other_witness:
  "\<exists>w. pw_files (snd (agent_sync sample_prof_env w)) (profile_path ''mission'') = Some ''restricted without Tor''
     \<and> pw_files (snd (activate_profile sample_prof_env ''mission'' w)) (profile_path ''mission'') = Some ''open with Tor''"
proof -
  have n: "pr_name (default_profile ''mission'') = ''mission''" by (simp add: default_profile_def)
  have j: "en_json sample_prof_env pl = (if tb_admin_only (pl_tailscale pl) then ''restricted'' else ''open'')
      @ (if tr_enabled (pl_tor pl) then '' with Tor'' else '' without Tor'')" for pl
    by (simp add: sample_prof_env_def)
  have e: "en_mkdir sample_prof_env d" "en_put sample_prof_env d" "en_admin_ips sample_prof_env \<noteq> []"
    "tg_daemon_enabled (en_tor sample_prof_env)" for d
    by (simp_all add: sample_prof_env_def)
  have "pr_name (payload (new_profile_row 0 User (default_profile ''mission''))) = ''mission''" by (simp add: n new_profile_row_def)
  from pushes_undo_each_other [OF sample_lookup [OF n] this sample_version e(1,2)] e(3,4) show ?thesis
    by (intro exI [of _ "sample_world (default_profile ''mission'')"]) (auto simp: j)
qed

definition routed_profile :: profile where
  "routed_profile = (default_profile ''mission'')
     \<lparr>tailscale := \<lparr>ts_enabled = True, admin_only = False,
        connection = Some \<lparr>accept_routes = Some True, accept_dns = None, advertise_exit_node = None, exit_node = None, shields_up = None\<rparr>,
        ha = None\<rparr>\<rparr>"

lemma fallback_crashes_witness:
  "fst (activate_profile (sample_prof_env\<lparr>en_ssh := \<lambda>_. None\<rparr>) ''mission'' (sample_world routed_profile)) = Inl E_500"
proof -
  have n: "pr_name routed_profile = ''mission''" by (simp add: routed_profile_def default_profile_def)
  have "get_agent_version (en_ssh (sample_prof_env\<lparr>en_ssh := \<lambda>_. None\<rparr>)) = None" by (simp add: get_agent_version_def)
  from fallback_crashes [OF sample_lookup [OF n] this] show ?thesis by (simp add: new_profile_row_def routed_profile_def)
qed

end
