(* ===== verification/Profile_Requests.thy ===== *)
theory Profile_Requests
  imports Profile_Routes
begin

text \<open>
  Sequences of requests on profiles: what the profiles, the marker of the active one and the wallpapers look like whatever
  requests are served (\<^verbatim>\<open>backend/app/api/routes/profiles.py\<close>).
\<close>

section \<open>Sequences of requests\<close>

text \<open>The store as every request keeps it: names unique, payloads under their own name, the marker not dangling.\<close>

definition db_inv :: "profile_db \<Rightarrow> bool" where
  "db_inv db \<longleftrightarrow> distinct (keys_of prow_name (profile_rows db)) \<and> marker_ok db
     \<and> (\<forall>k r. ps_lookup db k = Some r \<longrightarrow> pr_name (payload r) = k)"

definition wall_ok :: "wallpaper_row \<Rightarrow> bool" where
  "wall_ok r \<longleftrightarrow> wp_kind r \<in> set WALLPAPER_KINDS \<and> wp_fit r \<in> set FIT_MODES \<and> wp_mime r \<in> set ALLOWED_MIME
     \<and> wp_content r \<noteq> [] \<and> length (wp_content r) \<le> MAX_BYTES"

definition walls_ok :: "wallpaper_row list \<Rightarrow> bool" where
  "walls_ok ws \<longleftrightarrow> distinct (keys_of wp_key ws) \<and> list_all wall_ok ws"

definition owners :: "wallpaper_row list \<Rightarrow> string set" where
  "owners ws = wp_profile ` set ws"

definition world_ok :: "'d prof_world \<Rightarrow> bool" where
  "world_ok w \<longleftrightarrow> db_inv (pw_db w) \<and> walls_ok (pw_walls w) \<and> (\<forall>n\<in>owners (pw_walls w). ps_lookup (pw_db w) n \<noteq> None)"

datatype prof_request =
    Rq_Create profile
  | Rq_Update string profile
  | Rq_Sync string
  | Rq_Delete string
  | Rq_Duplicate string string
  | Rq_Upload string string string string string
  | Rq_Drop_Wallpaper string string
  | Rq_Studio string string
  | Rq_Seed string
  | Rq_Regenerate
  | Rq_Activate string
  | Rq_Active
  | Rq_Agent_Sync
  | Rq_Agent_Apply string

definition kept :: "'d prof_world \<Rightarrow> 'e + 'd prof_world \<Rightarrow> 'd prof_world" where
  "kept w res = (case res of Inl _ \<Rightarrow> w | Inr w' \<Rightarrow> w')"

definition prof_step :: "'d prof_world \<Rightarrow> ('d, 'r) prof_env \<times> prof_request \<Rightarrow> 'd prof_world" where
  "prof_step w x =
     (case x of (env, rq) \<Rightarrow>
      case rq of
        Rq_Create p \<Rightarrow> kept w (map_sum id snd (create_profile_route env p w))
      | Rq_Update n p \<Rightarrow> kept w (update_profile_route env n p w)
      | Rq_Sync n \<Rightarrow> kept w (map_sum id snd (sync_profile_route env n w))
      | Rq_Delete n \<Rightarrow> kept w (delete_profile_route n w)
      | Rq_Duplicate n new \<Rightarrow> kept w (map_sum id snd (duplicate_profile_route env n new w))
      | Rq_Upload n kind fit content mime \<Rightarrow> kept w (upload_wallpaper env n kind fit content mime w)
      | Rq_Drop_Wallpaper n kind \<Rightarrow> kept w (delete_wallpaper_route n kind w)
      | Rq_Studio n kind \<Rightarrow> kept w (studio_apply env n kind w)
      | Rq_Seed n \<Rightarrow> kept w (seed_defaults_route env n w)
      | Rq_Regenerate \<Rightarrow> snd (regenerate_all env w)
      | Rq_Activate n \<Rightarrow> snd (activate_profile env n w)
      | Rq_Active \<Rightarrow> snd (get_active_profile env w)
      | Rq_Agent_Sync \<Rightarrow> snd (agent_sync env w)
      | Rq_Agent_Apply n \<Rightarrow> snd (agent_apply env n w))"

lemma add_profile_names:
  "\<forall>k r. m k = Some r \<longrightarrow> pr_name (payload r) = k \<Longrightarrow> add_profile now p src m k = Some r \<Longrightarrow> pr_name (payload r) = k"
  by (auto simp: add_profile_def new_profile_row_def split: option.splits if_splits)

lemma db_inv_step: "db_inv db \<Longrightarrow> db_inv (ps_step op db)"
proof -
  assume inv: "db_inv db"
  then have names: "\<forall>k r. ps_lookup db k = Some r \<longrightarrow> pr_name (payload r) = k" by (simp add: db_inv_def)
  have "pr_name (payload r) = k" if "ps_lookup (ps_step op db) k = Some r" for k r
  proof (cases op)
    case (Seed now ps)
    then show ?thesis using that names
      by (auto simp: ps_step_lookup ps_effect_def new_profile_row_def split: option.splits dest!: row_find_key)
  qed (use that names in \<open>auto simp: ps_step_lookup ps_effect_def split: option.splits if_splits
      intro: add_profile_names [OF names]\<close>)
  then show ?thesis using inv by (simp add: db_inv_def ps_step_keys marker_ok_step)
qed

lemma db_inv_parts:
  "db_inv db \<Longrightarrow> db_inv (stamp env n db)" "db_inv db \<Longrightarrow> ps_create now p src db = Inr (row, db') \<Longrightarrow> db_inv db'"
  "db_inv db \<Longrightarrow> ps_update now n p db = Inr db' \<Longrightarrow> db_inv db'" "db_inv db \<Longrightarrow> ps_delete n db = Inr db' \<Longrightarrow> db_inv db'"
  "db_inv db \<Longrightarrow> ps_duplicate now n new db = Inr (row, db') \<Longrightarrow> db_inv db'"
  "db_inv db \<Longrightarrow> ps_set_active n db = Inr db' \<Longrightarrow> db_inv db'"
  using db_inv_step [of db "Synced (en_now env) (en_now env) n"] db_inv_step [of db "Create now p src"]
    db_inv_step [of db "ps_op.Update now n p"] db_inv_step [of db "Delete n"] db_inv_step [of db "Copy now n new"]
    db_inv_step [of db "Activate n"]
  by (simp_all add: ps_step_def stamp_def)

text \<open>No request but a deletion forgets a name.\<close>

lemma lookups_kept:
  "ps_lookup db k \<noteq> None \<Longrightarrow> ps_lookup (stamp env n db) k \<noteq> None"
  "ps_lookup db k \<noteq> None \<Longrightarrow> ps_create now p src db = Inr (row, db') \<Longrightarrow> ps_lookup db' k \<noteq> None"
  "ps_lookup db k \<noteq> None \<Longrightarrow> ps_update now n p db = Inr db' \<Longrightarrow> ps_lookup db' k \<noteq> None"
  "ps_lookup db k \<noteq> None \<Longrightarrow> ps_delete n db = Inr db' \<Longrightarrow> k \<noteq> n \<Longrightarrow> ps_lookup db' k \<noteq> None"
  "ps_lookup db k \<noteq> None \<Longrightarrow> ps_duplicate now n new db = Inr (row, db') \<Longrightarrow> ps_lookup db' k \<noteq> None"
  "ps_lookup db k \<noteq> None \<Longrightarrow> ps_set_active n db = Inr db' \<Longrightarrow> ps_lookup db' k \<noteq> None"
  using ps_step_keeps [of db k "Synced (en_now env) (en_now env) n"] ps_step_keeps [of db k "Create now p src"]
    ps_step_keeps [of db k "ps_op.Update now n p"] ps_step_keeps [of db k "Delete n"] ps_step_keeps [of db k "Copy now n new"]
    ps_step_keeps [of db k "Activate n"]
  by (simp_all add: ps_step_def stamp_def del: not_None_eq)

lemma upsert_ok:
  assumes "walls_ok ws" "wp_upsert now n content mime kind fit ws = Inr ws'"
  shows "walls_ok ws'" "owners ws' \<subseteq> insert n (owners ws)"
proof -
  have new: "kind \<in> set WALLPAPER_KINDS" "fit \<in> set FIT_MODES" "mime \<in> set ALLOWED_MIME" "content \<noteq> []" "length content \<le> MAX_BYTES"
    using assms(2) by (auto simp: wp_upsert_def split: if_splits)
  then have ws': "ws' = (case get_blob n kind ws of
        Some _ \<Rightarrow> row_update wp_key (n, kind)
                    (\<lambda>r. r\<lparr>wp_mime := mime, wp_content := content, wp_fit := fit, wp_uploaded := now\<rparr>) ws
      | None \<Rightarrow> ws @ [\<lparr>wp_profile = n, wp_kind = kind, wp_fit = fit, wp_mime = mime, wp_content = content, wp_uploaded = now\<rparr>])"
    using assms(2) by (auto simp: wp_upsert_def)
  show "walls_ok ws'"
  proof (cases "get_blob n kind ws")
    case None
    then have "(n, kind) \<notin> set (keys_of wp_key ws)" by (simp add: get_blob_def row_find_None keys_of_def)
    with None new assms(1) show ?thesis by (simp add: ws' walls_ok_def keys_of_def wall_ok_def)
  next
    case (Some r)
    let ?f = "\<lambda>r. r\<lparr>wp_mime := mime, wp_content := content, wp_fit := fit, wp_uploaded := now\<rparr>"
    have "wall_ok (if wp_key r = (n, kind) then ?f r else r)" if "wall_ok r" for r
      using new that by (simp add: wall_ok_def)
    then have "list_all wall_ok (row_update wp_key (n, kind) ?f ws)"
      using assms(1) unfolding walls_ok_def row_update_def list.pred_map comp_def by (metis (no_types, lifting) list.pred_mono_strong)
    then show ?thesis using Some assms(1) by (simp add: ws' walls_ok_def)
  qed
  show "owners ws' \<subseteq> insert n (owners ws)"
    by (auto simp: ws' owners_def row_update_def split: option.splits)
qed

lemma seed_ok:
  assumes "walls_ok ws"
  shows "walls_ok (seed_default_wallpapers g now p ws)" "owners (seed_default_wallpapers g now p ws) \<subseteq> insert (pr_name p) (owners ws)"
proof -
  have slot: "walls_ok (seed_slot g now p us kind) \<and> owners (seed_slot g now p us kind) \<subseteq> insert (pr_name p) (owners us)"
    if "walls_ok us" for us kind
    using that by (auto simp: seed_slot_def split: option.split sum.split dest: upsert_ok)
  show "walls_ok (seed_default_wallpapers g now p ws)" "owners (seed_default_wallpapers g now p ws) \<subseteq> insert (pr_name p) (owners ws)"
    using slot [OF assms, of "''home''"] slot [of "seed_slot g now p ws ''home''" "''lock''"]
    by (auto simp: seed_default_wallpapers_def)
qed

lemma regenerate_ok:
  assumes "walls_ok ws" "foldl (regenerate_slot env) (a, b, ws) slots = (a', b', ws')"
  shows "walls_ok ws' \<and> owners ws' \<subseteq> pr_name ` fst ` set slots \<union> owners ws"
  using assms
proof (induction slots arbitrary: a b ws)
  case (Cons x slots)
  obtain a1 b1 ws1 where one: "regenerate_slot env (a, b, ws) x = (a1, b1, ws1)" by (metis prod_cases3)
  then have "walls_ok ws1 \<and> owners ws1 \<subseteq> insert (pr_name (fst x)) (owners ws)"
    using Cons.prems(1) by (auto simp: regenerate_slot_def split: prod.splits option.splits sum.splits dest: upsert_ok)
  then show ?case using Cons.IH [of ws1 a1 b1] Cons.prems(2) one by auto
qed simp

lemma world_okI: "db_inv (pw_db w) \<Longrightarrow> walls_ok (pw_walls w) \<Longrightarrow> (\<And>n. n \<in> owners (pw_walls w) \<Longrightarrow> ps_lookup (pw_db w) n \<noteq> None) \<Longrightarrow> world_ok w"
  by (simp add: world_ok_def)

lemma found_name: "db_inv db \<Longrightarrow> ps_get db n = Inr row \<Longrightarrow> ps_lookup db n = Some row \<and> pr_name (payload row) = n"
  by (auto simp: get_lookup db_inv_def split: option.splits)

text \<open>A request that touches the wallpapers gives them to a profile that exists; the others leave them alone.\<close>

lemma world_ok_db:
  assumes "world_ok w" "db_inv db" "\<And>k. ps_lookup (pw_db w) k \<noteq> None \<Longrightarrow> ps_lookup db k \<noteq> None" "pw_db w' = db" "pw_walls w' = pw_walls w"
  shows "world_ok w'"
  using assms by (simp add: world_ok_def)

lemma world_ok_walls:
  assumes "world_ok w" "walls_ok ws" "owners ws \<subseteq> insert n (owners (pw_walls w))" "ps_lookup (pw_db w) n \<noteq> None"
    "pw_db w' = pw_db w" "pw_walls w' = ws"
  shows "world_ok w'"
  using assms by (auto simp: world_ok_def)

lemma sync_one_ok:
  assumes "world_ok w"
  shows "world_ok (snd (sync_one_to_slate env p w))"
proof (rule world_ok_db [OF assms, of "pw_db (snd (sync_one_to_slate env p w))"])
  have db: "pw_db (snd (sync_one_to_slate env p w)) = pw_db w \<or> pw_db (snd (sync_one_to_slate env p w)) = stamp env (pr_name p) (pw_db w)"
    by (simp add: sync_one_to_slate_def split_beta)
  have inv: "db_inv (pw_db w)" using assms by (simp add: world_ok_def)
  show "db_inv (pw_db (snd (sync_one_to_slate env p w)))"
    using db inv db_inv_parts(1) [OF inv, of env "pr_name p"] by (elim disjE) simp_all
  show "ps_lookup (pw_db (snd (sync_one_to_slate env p w))) k \<noteq> None" if "ps_lookup (pw_db w) k \<noteq> None" for k
    using db that lookups_kept(1) [OF that, of env "pr_name p"] by (elim disjE) simp_all
qed (simp_all add: sync_one_to_slate_def split_beta)

lemma created_lookup: "ps_create now p src db = Inr (row, db') \<Longrightarrow> ps_lookup db' (pr_name (payload row)) = Some row"
proof -
  assume cr: "ps_create now p src db = Inr (row, db')"
  then obtain slug rows where row: "row = new_profile_row now src (p\<lparr>pr_name := slug\<rparr>)"
    and rows: "row_insert prow_name row (profile_rows db) = Some rows" "db' = db\<lparr>profile_rows := rows\<rparr>"
    by (auto simp: ps_create_def Let_def split: option.splits)
  then show ?thesis by (simp add: ps_lookup_def row_find_insert [OF rows(1)]) (simp add: new_profile_row_def)
qed

lemma filtered_ok:
  assumes "walls_ok ws"
  shows "walls_ok (row_delete key k ws)"
  using assms unfolding walls_ok_def row_delete_def keys_of_def
  by (simp add: distinct_map_filter list_all_iff)

lemma owners_filtered: "owners (row_delete key k ws) \<subseteq> owners ws"
  by (auto simp: row_delete_def owners_def)

lemma owners_deleted: "owners (wp_delete_all n ws) = owners ws - {n}"
  by (auto simp: wp_delete_all_def row_delete_def owners_def)

lemma activation_db:
  assumes "ps_lookup (pw_db w) n = Some row" "pr_name (payload row) = n"
  shows "pw_walls (snd (activate_profile env n w)) = pw_walls w"
    "pw_db (snd (activate_profile env n w)) \<in> {marked n (pw_db w), stamp env n (marked n (pw_db w))}"
proof -
  let ?w1 = "w\<lparr>pw_db := marked n (pw_db w)\<rparr>"
  have "pw_walls (snd (activate_profile env n w)) = pw_walls w
      \<and> pw_db (snd (activate_profile env n w)) \<in> {marked n (pw_db w), stamp env n (marked n (pw_db w))}"
  proof (cases "get_agent_version (en_ssh env)")
    case (Some v)
    then have "get_agent_version (en_ssh env) \<noteq> None" by simp
    note whole = activation_through_agent [OF assms(1) this refl]
    have "pw_walls (snd (activate_profile env n w)) = pw_walls (snd (activate_via_agent env n (payload row) ?w1))"
      "pw_db (snd (activate_profile env n w)) = pw_db (snd (activate_via_agent env n (payload row) ?w1))"
      by (simp_all add: whole)
    then show ?thesis using agent_part(2,5) [OF assms(2) refl, of env ?w1] by simp
  next
    case None
    have "pw_db (snd (activate_via_controller env (payload row) ?w1)) = marked n (pw_db w)"
      "pw_walls (snd (activate_via_controller env (payload row) ?w1)) = pw_walls w"
      by (simp_all add: activate_via_controller_def split: prod.split option.split)
    with None assms(1) show ?thesis
      by (simp add: activate_profile_def set_active_marked get_lookup Let_def split_beta split: option.split)
  qed
  then show "pw_walls (snd (activate_profile env n w)) = pw_walls w"
    "pw_db (snd (activate_profile env n w)) \<in> {marked n (pw_db w), stamp env n (marked n (pw_db w))}" by simp_all
qed

lemma activation_ok:
  assumes "world_ok w"
  shows "world_ok (snd (activate_profile env n w))"
proof (cases "ps_lookup (pw_db w) n")
  case None
  then show ?thesis using assms by (simp add: activate_profile_def ps_set_active_def ps_lookup_def)
next
  case (Some row)
  have inv: "db_inv (marked n (pw_db w))"
    using assms db_inv_parts(6) [OF _ set_active_marked [OF Some]] by (simp add: world_ok_def)
  have name: "pr_name (payload row) = n" using assms Some by (simp add: world_ok_def db_inv_def)
  note parts = activation_db [OF Some name, of env]
  show ?thesis
  proof (rule world_ok_db [OF assms _ _ refl parts(1)])
    show "db_inv (pw_db (snd (activate_profile env n w)))"
      using parts(2) inv db_inv_parts(1) [OF inv, of env n] by (elim insertE emptyE) simp_all
    show "ps_lookup (pw_db (snd (activate_profile env n w))) k \<noteq> None" if "ps_lookup (pw_db w) k \<noteq> None" for k
      using that parts(2) lookups_kept(1) [of "marked n (pw_db w)" k env n] by auto
  qed
qed

text \<open>One lemma for each kind of request: those on the profiles, those on the wallpapers.\<close>

lemma create_keeps_world: "world_ok w \<Longrightarrow> create_profile_route env p w = Inr (row, w') \<Longrightarrow> world_ok w'"
proof -
  assume ok: "world_ok w" and cr: "create_profile_route env p w = Inr (row, w')"
  let ?ws = "seed_default_wallpapers (en_default env) (en_now env) (payload row) (pw_walls w)"
  from cr obtain db where db: "ps_create (en_now env) p User (pw_db w) = Inr (row, db)" and w': "w' = w\<lparr>pw_db := db, pw_walls := ?ws\<rparr>"
    by (auto simp: create_profile_route_def split: sum.splits)
  have inv: "db_inv (pw_db w)" and walls: "walls_ok (pw_walls w)" using ok by (simp_all add: world_ok_def)
  have "ps_lookup db n \<noteq> None" if "n \<in> owners ?ws" for n
  proof (cases "n = pr_name (payload row)")
    case True
    then show ?thesis using created_lookup [OF db] by simp
  next
    case False
    then have "n \<in> owners (pw_walls w)" using that seed_ok(2) [OF walls] by blast
    then have "ps_lookup (pw_db w) n \<noteq> None" using ok by (simp add: world_ok_def)
    then show ?thesis using db by (rule lookups_kept(2))
  qed
  then show ?thesis using db_inv_parts(2) [OF inv db] seed_ok(1) [OF walls] by (simp add: world_ok_def w')
qed

lemma delete_keeps_world: "world_ok w \<Longrightarrow> delete_profile_route n w = Inr w' \<Longrightarrow> world_ok w'"
proof -
  assume ok: "world_ok w" and de: "delete_profile_route n w = Inr w'"
  from de obtain db where db: "ps_delete n (pw_db w) = Inr db" and w': "w' = w\<lparr>pw_db := db, pw_walls := wp_delete_all n (pw_walls w)\<rparr>"
    by (auto simp: delete_profile_route_def split: sum.splits)
  have "ps_lookup db k \<noteq> None" if "k \<in> owners (wp_delete_all n (pw_walls w))" for k
  proof -
    have k: "k \<noteq> n" "ps_lookup (pw_db w) k \<noteq> None" using that ok by (simp_all add: owners_deleted world_ok_def)
    from k(2) db k(1) show ?thesis by (rule lookups_kept(4))
  qed
  moreover have "walls_ok (wp_delete_all n (pw_walls w))" using ok filtered_ok [of "pw_walls w" wp_profile n]
    by (simp add: world_ok_def wp_delete_all_def)
  moreover have "db_inv db" using ok db_inv_parts(4) [OF _ db] by (simp add: world_ok_def)
  ultimately show ?thesis by (simp add: world_ok_def w')
qed

lemma update_ok: "world_ok w \<Longrightarrow> update_profile_route env n p w = Inr w' \<Longrightarrow> world_ok w'"
proof -
  assume ok: "world_ok w" and up: "update_profile_route env n p w = Inr w'"
  from up obtain db where db: "ps_update (en_now env) n p (pw_db w) = Inr db"
    and w': "w' = snd (sync_one_to_slate env (p\<lparr>pr_name := n\<rparr>) (w\<lparr>pw_db := db\<rparr>))"
    by (auto simp: update_profile_route_def split: sum.splits)
  have "db_inv db" using ok db_inv_parts(3) [OF _ db] by (simp add: world_ok_def)
  moreover have "ps_lookup db k \<noteq> None" if "ps_lookup (pw_db w) k \<noteq> None" for k using that db by (rule lookups_kept(3))
  ultimately have "world_ok (w\<lparr>pw_db := db\<rparr>)" by (rule world_ok_db [OF ok]) simp_all
  then show ?thesis unfolding w' by (rule sync_one_ok)
qed

lemma duplicate_ok: "world_ok w \<Longrightarrow> duplicate_profile_route env n new w = Inr (row, w') \<Longrightarrow> world_ok w'"
proof -
  assume ok: "world_ok w" and du: "duplicate_profile_route env n new w = Inr (row, w')"
  from du obtain db where db: "ps_duplicate (en_now env) n new (pw_db w) = Inr (row, db)" and w': "w' = w\<lparr>pw_db := db\<rparr>"
    by (auto simp: duplicate_profile_route_def split: sum.splits)
  have "db_inv db" using ok db_inv_parts(5) [OF _ db] by (simp add: world_ok_def)
  moreover have "ps_lookup db k \<noteq> None" if "ps_lookup (pw_db w) k \<noteq> None" for k using that db by (rule lookups_kept(5))
  ultimately show ?thesis by (rule world_ok_db [OF ok]) (simp_all add: w')
qed

lemma active_ok: "world_ok w \<Longrightarrow> world_ok (snd (get_active_profile env w))"
proof -
  assume ok: "world_ok w"
  define db where "db = snd (resolve_active_name (en_ssh env) True True (pw_db w))"
  have "db = pw_db w \<or> (\<exists>n. ps_set_active n (pw_db w) = Inr db)"
    by (auto simp: db_def resolve_active_name_def Let_def split: option.split sum.split)
  then have "db_inv db \<and> (\<forall>k. ps_lookup (pw_db w) k \<noteq> None \<longrightarrow> ps_lookup db k \<noteq> None)"
    using ok db_inv_parts(6) lookups_kept(6) unfolding world_ok_def by blast
  moreover have "snd (get_active_profile env w) = w\<lparr>pw_db := db\<rparr>" by (simp add: get_active_profile_def db_def split_beta)
  ultimately show ?thesis by (auto intro!: world_ok_db [OF ok] simp del: not_None_eq)
qed

lemma upserted_ok:
  assumes "world_ok w" "ps_get (pw_db w) n = Inr row" "wp_upsert now n content mime kind fit (pw_walls w) = Inr ws"
  shows "world_ok (w\<lparr>pw_walls := ws\<rparr>)"
proof -
  have "walls_ok (pw_walls w)" "ps_lookup (pw_db w) n \<noteq> None"
    using assms(1,2) by (auto simp: world_ok_def get_lookup split: option.splits)
  then show ?thesis by (intro world_ok_walls [OF assms(1) upsert_ok [OF _ assms(3)]]) simp_all
qed

lemma wallpaper_requests_ok:
  assumes "world_ok w"
  shows "upload_wallpaper env n kind fit content mime w = Inr w' \<Longrightarrow> world_ok w'"
    "delete_wallpaper_route n kind w = Inr w' \<Longrightarrow> world_ok w'"
    "studio_apply env n kind w = Inr w' \<Longrightarrow> world_ok w'" "seed_defaults_route env n w = Inr w' \<Longrightarrow> world_ok w'"
proof -
  show "world_ok w'" if "upload_wallpaper env n kind fit content mime w = Inr w'"
    using that upserted_ok [OF assms] by (auto simp: upload_wallpaper_def split: if_splits sum.splits)
  show "world_ok w'" if "studio_apply env n kind w = Inr w'"
    using that upserted_ok [OF assms] by (auto simp: studio_apply_def split: if_splits sum.splits option.splits)
  show "world_ok w'" if "delete_wallpaper_route n kind w = Inr w'"
  proof -
    from that have w': "w' = w\<lparr>pw_walls := row_delete wp_key (n, kind) (pw_walls w)\<rparr>"
      by (auto simp: delete_wallpaper_route_def wp_delete_def split: if_splits)
    have "n \<in> owners (pw_walls w)" if "n \<in> owners (row_delete wp_key (m, kind) (pw_walls w))" for n m
      using that owners_filtered [of wp_key "(m, kind)" "pw_walls w"] by blast
    then show ?thesis using assms filtered_ok [of "pw_walls w" wp_key "(n, kind)"] unfolding w' world_ok_def by simp
  qed
  show "world_ok w'" if seeded: "seed_defaults_route env n w = Inr w'"
  proof -
    from seeded obtain row where row: "ps_get (pw_db w) n = Inr row"
      and w': "w' = w\<lparr>pw_walls := seed_default_wallpapers (en_default env) (en_now env) (payload row) (pw_walls w)\<rparr>"
      by (auto simp: seed_defaults_route_def split: sum.splits)
    have walls: "walls_ok (pw_walls w)" and inv: "db_inv (pw_db w)" using assms by (simp_all add: world_ok_def)
    from found_name [OF inv row] have found: "ps_lookup (pw_db w) (pr_name (payload row)) \<noteq> None" by simp
    show ?thesis by (rule world_ok_walls [OF assms seed_ok [OF walls] found]) (simp_all add: w')
  qed
qed

lemma regenerate_all_ok:
  assumes "world_ok w"
  shows "world_ok (snd (regenerate_all env w))"
proof -
  let ?slots = "concat (map (\<lambda>r. map (Pair (payload r)) [''home'', ''lock'']) (ps_list_all (pw_db w)))"
  obtain a b ws where f: "foldl (regenerate_slot env) (0, 0, pw_walls w) ?slots = (a, b, ws)" by (metis prod_cases3)
  have inv: "db_inv (pw_db w)" and walls: "walls_ok (pw_walls w)" using assms by (simp_all add: world_ok_def)
  note re = regenerate_ok [OF walls f]
  have "ps_lookup (pw_db w) (pr_name (payload r)) \<noteq> None" if "r \<in> set (profile_rows (pw_db w))" for r
  proof -
    have "ps_lookup (pw_db w) (prow_name r) = Some r" using that inv by (simp add: ps_lookup_def db_inv_def row_find_in)
    then show ?thesis using inv by (auto simp: db_inv_def)
  qed
  then have "ps_lookup (pw_db w) n \<noteq> None" if mem: "n \<in> owners ws" for n
  proof (cases "n \<in> owners (pw_walls w)")
    case True
    then show ?thesis using assms by (simp add: world_ok_def)
  next
    case False
    then obtain x where "x \<in> set ?slots" "n = pr_name (fst x)" using mem re by blast
    then show ?thesis using \<open>\<And>r. r \<in> set (profile_rows (pw_db w)) \<Longrightarrow> ps_lookup (pw_db w) (pr_name (payload r)) \<noteq> None\<close>
      by (auto simp: ps_list_all_def)
  qed
  moreover have "pw_db (snd (regenerate_all env w)) = pw_db w" "pw_walls (snd (regenerate_all env w)) = ws"
    unfolding regenerate_all_def Let_def f by (simp_all split: option.split sum.split prod.split)
  ultimately show ?thesis using re inv by (simp add: world_ok_def)
qed

lemma kept_ok: "world_ok w \<Longrightarrow> (\<And>w'. res = Inr w' \<Longrightarrow> world_ok w') \<Longrightarrow> world_ok (kept w res)"
  by (cases res) (simp_all add: kept_def)

lemma kept_snd_ok: "world_ok w \<Longrightarrow> (\<And>x w'. res = Inr (x, w') \<Longrightarrow> world_ok w') \<Longrightarrow> world_ok (kept w (map_sum id snd res))"
  by (cases res) (auto simp: kept_def)

lemma sync_route_ok: "world_ok w \<Longrightarrow> sync_profile_route env n w = Inr (rep, w') \<Longrightarrow> world_ok w'"
  using sync_one_ok [of w env] by (auto simp: sync_profile_route_def split: sum.splits) (metis snd_conv)

lemma agent_requests_ok: "world_ok w \<Longrightarrow> world_ok (snd (agent_sync env w))" "world_ok w \<Longrightarrow> world_ok (snd (agent_apply env n w))"
  by (simp_all add: agent_sync_def agent_apply_def Let_def split_beta world_ok_def split: sum.split)

lemma prof_step_ok:
  assumes "world_ok w"
  shows "world_ok (prof_step w x)"
proof (cases x)
  case (Pair env rq)
  note [simp] = Pair prof_step_def
  note kept = kept_ok [OF assms] and kept_snd = kept_snd_ok [OF assms]
  show ?thesis
  proof (cases rq)
    case (Rq_Create p) then show ?thesis using kept_snd [OF create_keeps_world [OF assms]] by simp
  next
    case (Rq_Update n p) then show ?thesis using kept [OF update_ok [OF assms]] by simp
  next
    case (Rq_Sync n) then show ?thesis using kept_snd [OF sync_route_ok [OF assms]] by simp
  next
    case (Rq_Delete n) then show ?thesis using kept [OF delete_keeps_world [OF assms]] by simp
  next
    case (Rq_Duplicate n new) then show ?thesis using kept_snd [OF duplicate_ok [OF assms]] by simp
  next
    case (Rq_Upload n kind fit content mime) then show ?thesis using kept [OF wallpaper_requests_ok(1) [OF assms]] by simp
  next
    case (Rq_Drop_Wallpaper n kind) then show ?thesis using kept [OF wallpaper_requests_ok(2) [OF assms]] by simp
  next
    case (Rq_Studio n kind) then show ?thesis using kept [OF wallpaper_requests_ok(3) [OF assms]] by simp
  next
    case (Rq_Seed n) then show ?thesis using kept [OF wallpaper_requests_ok(4) [OF assms]] by simp
  qed (use assms regenerate_all_ok activation_ok active_ok agent_requests_ok in simp_all)
qed

section \<open>The property\<close>


definition first_world :: "'d \<Rightarrow> 'd prof_world" where
  "first_world d = \<lparr>pw_db = empty_profiles, pw_walls = [], pw_ha = None, pw_files = Map.empty, pw_dev = d\<rparr>"

lemma first_world_ok: "world_ok (first_world d)"
  by (simp add: world_ok_def first_world_def db_inv_def walls_ok_def owners_def keys_of_def empty_profiles_def marker_ok_def
      ps_get_active_name_def ps_lookup_def)


end
