(* ===== verification/Spec2Isabelle.thy ===== *)
theory Spec2Isabelle
  imports Pin_Race Screen_Lock Touchscreen_Watcher Webhook_Auth Exit_Node_HA Dns_Routing Sec_Scan Surveillance
    Profile_Plan Profile_Scoring Profile_Store Url_Resolver Fw_Rules Button_Cycle Wg_Parser
    Device_Pin Device_Adoption Wifi_Channels Agent_Sync Dns_Protection Hardening Ts_Audit Forti_Routing Tor_Audit Recon_Run Profile_Requests
begin

text \<open>
  Slate Controller: a verification development for the backend under backend/app.

  The controller is a FastAPI service that administers GL.iNet travel routers ("Slates"). It keeps its
  own state in a SQL database (devices, profiles, networks, Wi-Fi and VPN catalogues, PIN failures,
  security snapshots), reaches a device through an SSH connection and through the device's JSON-RPC
  interface, and is called back by an agent on the device (webhooks). Schedulers run inside the process:
  the touchscreen watcher, the exit-node watchdog, the surveillance passes.

  \<^bold>\<open>Conventions.\<close> Every theory models one source file or a few that belong together, in the order of the
  code; a text block at its head names them. A table is a list of rows in the order of their insertion, an
  SQL query is a function on that list, and a unique constraint is a check at insertion. An async method is a
  function from the state (and what the outside world answers during the call) to a result and the new state;
  exceptions are values of an error datatype in a sum, and a method that raises after it has changed
  something returns the changed state with the error. What the program reads from outside (answers of SSH and
  HTTP, clocks, random secrets, Fernet, HMAC, the JSON decoder) is a parameter or an input, never defined
  here. Instants are integers in microseconds. Strings are lists of ASCII characters; Python's string methods and
  the regular expressions that the code uses are defined in \<^verbatim>\<open>Prelude\<close> and in the theories that use them, dictionaries
  are association lists in insertion order. Log calls and texts shown to the user are left out unless a caller
  reads them.

  \<^bold>\<open>Foundations.\<close> \<^verbatim>\<open>Prelude\<close> (strings, dictionaries, instants), \<^verbatim>\<open>Py_Int\<close> (parsing and printing of integers),
  \<^verbatim>\<open>Shell_Quote\<close> (shlex.quote and the word splitting of a POSIX shell), \<^verbatim>\<open>Row_Table\<close> (tables with a unique key,
  and the locale \<^verbatim>\<open>row_store\<close>: a store whose operations act on one row refines a map; it is interpreted on the
  profile, VPN and Wi-Fi stores).

  \<^bold>\<open>PIN protection.\<close> \<^verbatim>\<open>Anti_Theft\<close> (security/anti_theft.py) counts rejections per device and fires an action at a
  threshold; \<^verbatim>\<open>Failure_Sink\<close> states that contract as a locale and proves the firing count of any client;
  \<^verbatim>\<open>Pin_Gate\<close> is the locale of a lockout gate (at most so many failures in a lock length) and \<^verbatim>\<open>Pin_Lockout\<close>
  (security/pin_lockout.py and the PIN route of api/routes/slate.py) the code's gate, interpreted as \<^verbatim>\<open>pin\<close>;
  \<^verbatim>\<open>Pin_Race\<close> is the inductive relation of concurrent requests on that route. \<^verbatim>\<open>Screen_Lock\<close> (slate/screen_lock.py)
  reads and sets the device's PIN, \<^verbatim>\<open>Touchscreen_Watcher\<close> (scheduler/screen_lock_watcher.py) turns the device's
  counters into rejections. \<^verbatim>\<open>Webhook_Auth\<close> (webhooks/auth.py) authenticates the agent's calls.

  \<^bold>\<open>Tailscale.\<close> \<^verbatim>\<open>Exit_Node_HA\<close> (tailscale/ha_watchdog.py, ha_store.py, client.py) selects exit nodes. The forwarding
  reconciler (tailscale/forwarding.py) is split into \<^verbatim>\<open>Tag_Codec\<close> and \<^verbatim>\<open>Ts_Tags\<close> (tags on iptables rules and
  their decoding), \<^verbatim>\<open>Ts_Discover\<close> (the dump of the live state and its parsers) and \<^verbatim>\<open>Ts_Apply\<close> (commands, persisted
  block, batches). \<^verbatim>\<open>Reconciler\<close> is the interface that it shares with \<^verbatim>\<open>Dns_Routing\<close> (tailscale/dns_routing.py, with
  SHA-1 computed in \<^verbatim>\<open>Sha1\<close>): discover, check, send all operations in batches until one fails; both interpret it.

  \<^bold>\<open>Vulnerabilities.\<close> \<^verbatim>\<open>Sec_Inventory\<close>, \<^verbatim>\<open>Sec_Store\<close>, \<^verbatim>\<open>Sec_Scan\<close> (security/inventory.py, store.py, scanner.py,
  models.py): package lists, snapshots with their pruning, the scan and the merging of its findings.

  \<^bold>\<open>Surveillance.\<close> \<^verbatim>\<open>Surveillance\<close> (scheduler/surveillance.py): sessions, their jobs, observations and timelines.

  \<^bold>\<open>Profiles and stores.\<close> \<^verbatim>\<open>Profile_Model\<close>, \<^verbatim>\<open>Profile_Scoring\<close>, \<^verbatim>\<open>Profile_Store\<close>, \<^verbatim>\<open>Profile_Plan\<close> (models/profile.py,
  profiles/scoring.py, store.py, applier.py), \<^verbatim>\<open>Wg_Parser\<close> and \<^verbatim>\<open>Vpn_Store\<close> (vpn/wg_parser.py, configs_store.py),
  \<^verbatim>\<open>Wifi_Store\<close> (wifi/store.py), \<^verbatim>\<open>Fw_Rules\<close> (firewall/), \<^verbatim>\<open>Button_Cycle\<close> (settings/button_cycle.py).

  \<^bold>\<open>Devices.\<close> \<^verbatim>\<open>Device_Store\<close> (devices/store.py), \<^verbatim>\<open>Url_Resolver\<close>, \<^verbatim>\<open>Slate_Ssh\<close>, \<^verbatim>\<open>Slate_Client\<close> (slate/url_resolver.py,
  ssh.py, client.py), \<^verbatim>\<open>Device_Registry\<close> (devices/registry.py, settings/ssh_keys.py), \<^verbatim>\<open>Device_Routes\<close>
  (api/routes/devices.py), \<^verbatim>\<open>Device_Pin\<close> (what pins an SSH host key across all of these) and \<^verbatim>\<open>Device_Adoption\<close>
  (devices/adoption.py).

  \<^bold>\<open>Networks, Wi-Fi scans and the agent.\<close> \<^verbatim>\<open>Network_Store\<close> (networks/models.py, store.py); \<^verbatim>\<open>Py_Match\<close> (searches by
  a pattern at every position, hexadecimal numbers, rounding to even), \<^verbatim>\<open>Wifi_Oui\<close> (wifi/oui.py), \<^verbatim>\<open>Wifi_Scan\<close> and
  \<^verbatim>\<open>Wifi_Channels\<close> (wifi/scanner.py): the parser of the scan, threats, the grouping by access point, the scores of
  channels, and the scan in several passes; \<^verbatim>\<open>Agent_Sync\<close> (slate_agent/sync.py): what a profile's payload holds,
  the files on the device after a synchronisation, and the wait for a reboot.

  \<^bold>\<open>DNS protection.\<close> \<^verbatim>\<open>Dns_Levels\<close> (dns/catalog.py, security_levels.py, store.py and the routes that patch a
  level), \<^verbatim>\<open>Py_Json\<close> (JSON values as Python reads them), \<^verbatim>\<open>Adguard\<close> (adguard/manager.py, feeds.py and their
  routes) and \<^verbatim>\<open>Dns_Protection\<close> (dns/manager.py). The locale \<^verbatim>\<open>managed_traffic\<close> states what AdGuard's side of the
  manager relies on; it is interpreted on a recording transport, so its lemmas speak of every request sent.

  \<^bold>\<open>Exploits and audits.\<close> \<^verbatim>\<open>Exploit_Sources\<close> (security/enrichers), \<^verbatim>\<open>Exploit_Enricher\<close>
  (security/exploit_enricher.py, enrichers/cve2capec.py), \<^verbatim>\<open>Hardening\<close> (slate/hardening.py with the start-up
  guard of main.py) and \<^verbatim>\<open>Ts_Audit\<close> (tailscale/audit.py): every check with its verdict, and the totals.

  \<^bold>\<open>Fortinet.\<close> \<^verbatim>\<open>Forti_Store\<close>, \<^verbatim>\<open>Forti_Manager\<close> and \<^verbatim>\<open>Forti_Routing\<close> (vpn/fortinet/store.py, models.py, manager.py,
  network_routing.py): configurations with their passwords, the tunnel's life on the device, and the rules that send
  networks through it, with a scanner that tells what a POSIX shell reads of a script.

  \<^bold>\<open>Tor.\<close> \<^verbatim>\<open>Tor_Control\<close> (tor/control.py: replies of the control port, circuits, enrichment), \<^verbatim>\<open>Tor_Client\<close> (tor/store.py,
  models.py, client.py: settings, bridges, status) and \<^verbatim>\<open>Tor_Audit\<close> (tor/audit.py: every check with its verdict).

  \<^bold>\<open>Reconnaissance.\<close> \<^verbatim>\<open>Py_Ipv4\<close> (IPv4 addresses and networks as Python's ipaddress has them), \<^verbatim>\<open>Recon_Hosts\<close>
  (recon/interfaces.py, discovery.py), \<^verbatim>\<open>Recon_Tcp\<close> (recon/tcp.py) and \<^verbatim>\<open>Recon_Run\<close> (recon/store.py, tools.py, runner.py
  and the routes): a scan from the interfaces that it may sweep to the rows that it leaves. The order in which
  concurrent probes are served is a parameter, and so is the device.

  \<^bold>\<open>Requests on profiles.\<close> \<^verbatim>\<open>Ts_Client\<close> (tailscale/client.py, models.py, applier.py) connects, configures and reads
  the device's Tailscale. \<^verbatim>\<open>Profile_Routes\<close> (api/routes/profiles.py, the synchronisation and application of
  api/routes/agent.py, profiles/wallpapers.py, screen_applier.py) has what every request on a profile changes, in the
  store and on the device, and \<^verbatim>\<open>Profile_Requests\<close> the sequences of them: which facts about profiles, marker and
  wallpapers no sequence of requests breaks.

  \<^bold>\<open>Bounds.\<close> Loops that wait are given the rounds that happen as a list and return \<^const>\<open>None\<close> when it ends first:
  the wait for a reboot needs 49 polls (240 seconds, at least 5 each), the provisioning of AdGuard makes 20, a
  Fortinet connection 25, a scan as many rounds as its duration allows. Fuel in the extraction of RSS items is the length of the text, which every
  item shortens. Floats are exact rationals; where the code rounds, the rounding is written out.

  \<^bold>\<open>Not modelled.\<close> Transport and libraries (SSH, HTTP, JSON, YAML, bcrypt, Fernet, dates as texts) are parameters.
  The controller's own certificates and the rendering of screens are not modelled, nor are routes that only print. The shell scripts of the agent and the user interface are not Python.
\<close>

end
